(* ===== verification/Prelude.thy ===== *)
theory Prelude
  imports Main "HOL-Library.Word" "HOL-Library.AList"
begin

text \<open>
  Shared vocabulary of the development: Rust's machine integers as words with their checked and
  saturating operations, fixed-size byte arrays, and the association-list model of the
  concurrent and ordered maps (\<open>DashMap\<close>, \<open>BTreeMap\<close>) the sources use, with a measure
  that sums a quantity over the entries. The collections \<open>arith_facts\<close> and \<open>dm_facts\<close>
  gather the facts that the component proofs hand to the simplifier.
\<close>

section \<open>Machine integers\<close>

named_theorems arith_facts \<open>readings of checked and saturating word operations in nat\<close>
named_theorems dm_facts \<open>lookup, update and sum laws of association-list maps\<close>

type_synonym u8 = "8 word"
type_synonym u16 = "16 word"
type_synonym u32 = "32 word"
type_synonym u64 = "64 word"

text \<open>
  A signed 64-bit value is a 64-bit word read through \<^const>\<open>sint\<close>; every comparison of the
  sources on \<open>i64\<close> is written with \<^const>\<open>sint\<close>.
\<close>

type_synonym i64 = "64 word"

text \<open>
  \<open>[u8; 32]\<close>, \<open>Pubkey\<close> and \<open>[u8; 64]\<close> hold exactly 32 or 64 bytes: they are words of
  256 and 512 bits, read as bytes in little-endian order by the codecs of theory \<open>Codec\<close>.
\<close>

type_synonym b32 = "256 word"
type_synonym b64 = "512 word"
type_synonym pubkey = b32
type_synonym bytes = "u8 list"

definition checked_add :: "'a::len word \<Rightarrow> 'a word \<Rightarrow> 'a word option" where
  "checked_add x y = (if unat x + unat y < 2 ^ LENGTH('a) then Some (x + y) else None)"

definition checked_sub :: "'a::len word \<Rightarrow> 'a word \<Rightarrow> 'a word option" where
  "checked_sub x y = (if y \<le> x then Some (x - y) else None)"

definition saturating_sub :: "'a::len word \<Rightarrow> 'a word \<Rightarrow> 'a word" where
  "saturating_sub x y = (if y \<le> x then x - y else 0)"

definition saturating_add :: "'a::len word \<Rightarrow> 'a word \<Rightarrow> 'a word" where
  "saturating_add x y = (if unat x + unat y < 2 ^ LENGTH('a) then x + y else - 1)"

text \<open>Checked addition of two signed 64-bit values.\<close>

definition checked_sadd :: "i64 \<Rightarrow> i64 \<Rightarrow> i64 option" where
  "checked_sadd x y =
     (if - (2 ^ 63) \<le> sint x + sint y \<and> sint x + sint y < 2 ^ 63 then Some (x + y) else None)"

lemma checked_add_SomeD [arith_facts]:
  "checked_add x y = Some z \<Longrightarrow> unat z = unat x + unat y"
  by (auto simp: checked_add_def unat_word_ariths split: if_splits)

lemma checked_add_eq_Some_iff:
  fixes x y z :: "'a::len word"
  shows "checked_add x y = Some z \<longleftrightarrow> unat z = unat x + unat y"
proof
  assume "unat z = unat x + unat y"
  moreover from this have "unat x + unat y < 2 ^ LENGTH('a)"
    by (metis unsigned_less)
  ultimately show "checked_add x y = Some z"
    by (metis checked_add_def checked_add_SomeD word_unat_eq_iff)
qed (rule checked_add_SomeD)

lemma checked_add_None_iff:
  "checked_add x (y :: 'a::len word) = None \<longleftrightarrow> 2 ^ LENGTH('a) \<le> unat x + unat y"
  by (auto simp: checked_add_def)

lemma checked_add_0 [simp]: "checked_add x 0 = Some x" "checked_add 0 x = Some x"
  by (simp_all add: checked_add_eq_Some_iff)

text \<open>Evaluation on literals.\<close>

lemma checked_add_numeral [simp]:
  "checked_add (numeral a :: u64) (numeral b) =
     (if unat (numeral a :: u64) + unat (numeral b :: u64) < 18446744073709551616
      then Some (numeral a + numeral b) else None)"
  "checked_add (numeral a :: u64) 1 =
     (if unat (numeral a :: u64) + 1 < 18446744073709551616 then Some (numeral a + 1) else None)"
  "checked_add (1 :: u64) 1 = Some 2"
  by (simp_all add: checked_add_def)

lemma checked_sub_SomeD [arith_facts]:
  "checked_sub x y = Some z \<Longrightarrow> unat y \<le> unat x \<and> unat z = unat x - unat y"
  by (auto simp: checked_sub_def unat_sub word_le_nat_alt split: if_splits)

lemma checked_sub_None_iff: "checked_sub x y = None \<longleftrightarrow> unat x < unat y"
  by (auto simp: checked_sub_def word_le_nat_alt)

lemma unat_saturating_sub [simp]: "unat (saturating_sub x y) = unat x - unat y"
  by (auto simp: saturating_sub_def unat_sub word_le_nat_alt)

lemma saturating_sub_add:
  "checked_add x y = Some z \<Longrightarrow> saturating_sub z y = x"
  by (rule word_unat_eq_iff [THEN iffD2]) (auto dest: checked_add_SomeD)

lemma sub_add_back:
  "y \<le> x \<Longrightarrow> checked_add (x - y) y = Some x"
  by (simp add: checked_add_eq_Some_iff unat_sub word_le_nat_alt)

lemma checked_sadd_SomeD [arith_facts]:
  "checked_sadd x y = Some z \<Longrightarrow> sint z = sint x + sint y"
  by (auto simp: checked_sadd_def sint_word_ariths signed_take_bit_int_eq_self_iff split: if_splits)

lemma unat_eq_0_word [simp]: "unat (x :: 'a::len word) = 0 \<longleftrightarrow> x = 0"
  by (simp add: unat_eq_zero)

section \<open>Maps as association lists\<close>

text \<open>
  \<open>DashMap\<close> and \<open>BTreeMap\<close> become association lists; the list order stands for the order in
  which an iterator visits the entries. \<open>dm_wf\<close> (no key twice) is the representation
  invariant; every operation keeps it.
\<close>

type_synonym ('k, 'v) dashmap = "('k \<times> 'v) list"

abbreviation dm_get :: "('k, 'v) dashmap \<Rightarrow> 'k \<Rightarrow> 'v option" where
  "dm_get \<equiv> map_of"

abbreviation dm_insert :: "'k \<Rightarrow> 'v \<Rightarrow> ('k, 'v) dashmap \<Rightarrow> ('k, 'v) dashmap" where
  "dm_insert \<equiv> AList.update"

abbreviation dm_remove :: "'k \<Rightarrow> ('k, 'v) dashmap \<Rightarrow> ('k, 'v) dashmap" where
  "dm_remove \<equiv> AList.delete"

definition dm_wf :: "('k, 'v) dashmap \<Rightarrow> bool" where
  "dm_wf m \<longleftrightarrow> distinct (map fst m)"

definition dm_sum :: "('k \<Rightarrow> 'v \<Rightarrow> nat) \<Rightarrow> ('k, 'v) dashmap \<Rightarrow> nat" where
  "dm_sum f m = sum_list (map (\<lambda>(k, v). f k v) m)"

lemma dm_wf_Nil [simp, dm_facts]: "dm_wf []"
  by (simp add: dm_wf_def)

lemma dm_wf_insert [simp, dm_facts]: "dm_wf m \<Longrightarrow> dm_wf (dm_insert k v m)"
  by (simp add: dm_wf_def distinct_update)

lemma dm_wf_remove [simp, dm_facts]: "dm_wf m \<Longrightarrow> dm_wf (dm_remove k m)"
  by (simp add: dm_wf_def distinct_delete)

lemma dm_get_insert [dm_facts]: "dm_get (dm_insert k v m) k' = (if k' = k then Some v else dm_get m k')"
  by (simp add: update_conv')

lemma dm_get_remove [dm_facts]: "dm_get (dm_remove k m) k' = (if k' = k then None else dm_get m k')"
  by (simp add: delete_conv')

lemma dm_sum_Nil [simp]: "dm_sum f [] = 0"
  by (simp add: dm_sum_def)

lemma dm_sum_Cons [simp]: "dm_sum f ((k, v) # m) = f k v + dm_sum f m"
  by (simp add: dm_sum_def)

lemma dm_sum_insert_new: "dm_get m k = None \<Longrightarrow> dm_sum f (dm_insert k v m) = dm_sum f m + f k v"
  by (induction m) auto

lemma dm_sum_insert_old:
  "dm_get m k = Some u \<Longrightarrow> dm_sum f (dm_insert k v m) + f k u = dm_sum f m + f k v"
  by (induction m) auto

lemma dm_get_le_sum: "dm_get m k = Some v \<Longrightarrow> f k v \<le> dm_sum f m"
  by (induction m) (auto split: if_splits)

lemma dm_remove_absent: "dm_get m k = None \<Longrightarrow> dm_remove k m = m"
  by (induction m) auto

lemma dm_sum_remove:
  "dm_wf m \<Longrightarrow> dm_get m k = Some v \<Longrightarrow> dm_sum f (dm_remove k m) + f k v = dm_sum f m"
proof (induction m)
  case (Cons e m)
  obtain k' v' where e: "e = (k', v')" by (cases e)
  show ?case
  proof (cases "k' = k")
    case True
    with Cons.prems e have "dm_get m k = None"
      by (auto simp: dm_wf_def map_of_eq_None_iff)
    with True e Cons.prems show ?thesis by (simp add: dm_remove_absent)
  next
    case False
    with e Cons show ?thesis by (simp add: dm_wf_def)
  qed
qed simp

lemma dm_sum_mono: "(\<And>k v. f k v \<le> g k v) \<Longrightarrow> dm_sum f m \<le> dm_sum g m"
  by (induction m) (auto intro!: add_mono)

section \<open>Sorting by a key\<close>

lemma insort_key_map: "insort_key g (f x) (map f xs) = map f (insort_key (\<lambda>a. g (f a)) x xs)"
  by (induction xs) auto

lemma sort_key_map: "sort_key g (map f xs) = map f (sort_key (\<lambda>a. g (f a)) xs)"
  by (induction xs) (simp_all add: insort_key_map)

section \<open>Measured stores\<close>

text \<open>
  The interface a keyed store offers to the accounting proofs: lookup after insertion and
  removal, and how a quantity summed over all the entries changes. The accounting lemmas of
  the clients are proved here once.
\<close>

locale measured_store =
  fixes get :: "'m \<Rightarrow> 'k \<Rightarrow> 'v option"
    and ins :: "'k \<Rightarrow> 'v \<Rightarrow> 'm \<Rightarrow> 'm"
    and rem :: "'k \<Rightarrow> 'm \<Rightarrow> 'm"
    and total :: "('k \<Rightarrow> 'v \<Rightarrow> nat) \<Rightarrow> 'm \<Rightarrow> nat"
    and wf :: "'m \<Rightarrow> bool"
  assumes get_ins: "get (ins k v m) k' = (if k' = k then Some v else get m k')"
    and get_rem: "get (rem k m) k' = (if k' = k then None else get m k')"
    and wf_ins: "wf m \<Longrightarrow> wf (ins k v m)"
    and wf_rem: "wf m \<Longrightarrow> wf (rem k m)"
    and total_ins_new: "get m k = None \<Longrightarrow> total f (ins k v m) = total f m + f k v"
    and total_ins_old: "get m k = Some u \<Longrightarrow> total f (ins k v m) + f k u = total f m + f k v"
    and total_rem: "wf m \<Longrightarrow> get m k = Some v \<Longrightarrow> total f (rem k m) + f k v = total f m"
begin

lemma total_keep:
  assumes "get m k = Some u" and "f k v = f k u"
  shows "total f (ins k v m) = total f m"
  using total_ins_old [OF assms(1), of f v] assms(2) by simp

lemma total_credit:
  assumes "get m k = Some u" and "f k v = f k u + d"
  shows "total f (ins k v m) = total f m + d"
  using total_ins_old [OF assms(1), of f v] assms(2) by simp

lemma total_debit:
  assumes "get m k = Some u" and "f k u = f k v + d"
  shows "total f (ins k v m) + d = total f m"
  using total_ins_old [OF assms(1), of f v] assms(2) by simp

text \<open>Insertion of an entry that may or may not be there (\<open>entry().or_insert_with()\<close>).\<close>

lemma total_upsert:
  assumes "f k v = (case get m k of None \<Rightarrow> 0 | Some u \<Rightarrow> f k u) + d"
  shows "total f (ins k v m) = total f m + d"
  using assms total_ins_new [of m k f v] total_credit [of m k _ f v d]
  by (cases "get m k") auto

lemma get_ins_same [simp]: "get (ins k v m) k = Some v"
  by (simp add: get_ins)

lemma ins_rem_total:
  assumes "wf m" and "get m k = None"
  shows "total f (rem k (ins k v m)) = total f m"
  using total_rem [OF wf_ins [OF assms(1)] get_ins_same, of f k v] total_ins_new [OF assms(2)]
  by simp

end

interpretation dm: measured_store dm_get dm_insert dm_remove dm_sum dm_wf
  by unfold_locales
    (auto simp: dm_get_insert dm_get_remove dm_sum_insert_new dm_sum_insert_old dm_sum_remove)

end
