(* ===== verification/Codec.thy ===== *)
theory Codec
  imports Prelude
begin

text \<open>
  Byte codecs. \<open>to_le_bytes\<close>/\<open>from_le_bytes\<close> and the fixed byte arrays of the sources are
  little-endian words; Borsh's reader (\<open>T::deserialize(&mut data)\<close>) is a function that takes
  bytes off the front of its input. The locale \<open>codec\<close> is the interface between an encoder
  and such a reader: what is written is read back, and what is read was written. Prefix
  freedom, injectivity and the length-prefixed vector are proved once inside it; every
  message format of the program is an interpretation.
\<close>

unbundle bit_operations_syntax

section \<open>Little-endian integers\<close>

fun le_bytes :: "nat \<Rightarrow> nat \<Rightarrow> bytes" where
  "le_bytes 0 k = []"
| "le_bytes (Suc n) k = of_nat (k mod 256) # le_bytes n (k div 256)"

fun le_nat :: "bytes \<Rightarrow> nat" where
  "le_nat [] = 0"
| "le_nat (b # bs) = unat b + 256 * le_nat bs"

definition word_bytes :: "'a::len word \<Rightarrow> bytes" where
  "word_bytes w = le_bytes (LENGTH('a) div 8) (unat w)"

definition word_of_bytes :: "bytes \<Rightarrow> 'a::len word" where
  "word_of_bytes bs = of_nat (le_nat bs)"

text \<open>The bytes of an ASCII string literal (\<open>b"..."\<close>, \<open>str::as_bytes\<close>).\<close>

definition str_bytes :: "string \<Rightarrow> bytes" where
  "str_bytes s = map (\<lambda>c. of_nat (of_char c)) s"

text \<open>A reader of one little-endian word from the front of a byte slice.\<close>

definition take_word :: "bytes \<Rightarrow> ('a::len word \<times> bytes) option" where
  "take_word bs =
     (let n = LENGTH('a) div 8
      in if n \<le> length bs then Some (word_of_bytes (take n bs), drop n bs) else None)"

lemma le_bytes_numeral [simp]:
  "le_bytes (numeral n) k = of_nat (k mod 256) # le_bytes (pred_numeral n) (k div 256)"
  by (simp only: numeral_eq_Suc [of n] le_bytes.simps)

lemma length_le_bytes [simp]: "length (le_bytes n k) = n"
  by (induction n arbitrary: k) auto

lemma le_nat_le_bytes: "le_nat (le_bytes n k) = k mod 256 ^ n"
proof (induction n arbitrary: k)
  case (Suc n)
  have "unat (of_nat (k mod 256) :: u8) = k mod 256"
    by (simp add: unat_of_nat)
  with Suc show ?case by (simp add: mod_mult2_eq)
qed simp

lemma le_bytes_le_nat: "le_bytes (length bs) (le_nat bs) = bs"
proof (induction bs)
  case (Cons b bs)
  have lt: "unat b < 256" using unsigned_less [of b] by simp
  then have "(unat b + 256 * le_nat bs) mod 256 = unat b"
    and "(unat b + 256 * le_nat bs) div 256 = le_nat bs"
    by simp_all
  with Cons show ?case by simp
qed simp

lemma le_nat_less: "le_nat bs < 256 ^ length bs"
proof (induction bs)
  case (Cons b bs)
  have "unat b < 256" using unsigned_less [of b] by simp
  with Cons show ?case by simp
qed simp

lemma length_word_bytes [simp]: "length (word_bytes (w :: 'a::len word)) = LENGTH('a) div 8"
  by (simp add: word_bytes_def)

lemma pow256: "8 dvd n \<Longrightarrow> (256 :: nat) ^ (n div 8) = 2 ^ n"
proof (elim dvdE)
  fix k
  assume "n = 8 * k"
  moreover have "(256 :: nat) = 2 ^ 8" by simp
  ultimately show "(256 :: nat) ^ (n div 8) = 2 ^ n" by (simp only: power_mult) simp
qed

lemma word_of_bytes_word_bytes:
  assumes "8 dvd LENGTH('a)"
  shows "word_of_bytes (word_bytes (w :: 'a::len word)) = w"
proof -
  have "unat w mod 256 ^ (LENGTH('a) div 8) = unat w"
    using unsigned_less [of w] by (simp add: pow256 [OF assms])
  then show ?thesis
    by (simp add: word_of_bytes_def word_bytes_def le_nat_le_bytes)
qed

lemma word_bytes_word_of_bytes:
  assumes "8 dvd LENGTH('a)" and "length bs = LENGTH('a) div 8"
  shows "word_bytes (word_of_bytes bs :: 'a::len word) = bs"
proof -
  have "le_nat bs < 2 ^ LENGTH('a)"
    using le_nat_less [of bs] assms by (simp add: pow256)
  then have "unat (of_nat (le_nat bs) :: 'a word) = le_nat bs"
    by (simp add: unat_of_nat)
  then show ?thesis
    using le_bytes_le_nat [of bs] assms(2)
    by (simp add: word_of_bytes_def word_bytes_def)
qed

lemma take_word_bytes:
  "8 dvd LENGTH('a) \<Longrightarrow> take_word (word_bytes (w :: 'a::len word) @ rest) = Some (w, rest)"
  by (simp add: take_word_def word_of_bytes_word_bytes)

lemma take_word_SomeD:
  fixes w :: "'a::len word"
  assumes "8 dvd LENGTH('a)" and "take_word bs = Some (w, rest)"
  shows "bs = word_bytes w @ rest"
proof -
  let ?n = "LENGTH('a) div 8"
  from assms(2) have "?n \<le> length bs" "w = word_of_bytes (take ?n bs)" "rest = drop ?n bs"
    by (auto simp: take_word_def Let_def split: if_splits)
  with word_bytes_word_of_bytes [OF assms(1), of "take ?n bs"] show ?thesis by simp
qed

text \<open>A mask applied twice.\<close>

lemma map2_xor_twice: "length xs \<le> length ys \<Longrightarrow> map2 (XOR) (map2 (XOR) xs ys) ys = (xs :: bytes)"
proof (induction xs arbitrary: ys)
  case (Cons x xs)
  then show ?case by (cases ys) (auto simp: xor.assoc)
qed simp

section \<open>The codec interface\<close>

text \<open>Borsh's \<open>Vec<T>\<close>: a little-endian \<open>u32\<close> count, then the elements.\<close>

fun take_many :: "(bytes \<Rightarrow> ('a \<times> bytes) option) \<Rightarrow> nat \<Rightarrow> bytes \<Rightarrow> ('a list \<times> bytes) option" where
  "take_many dec 0 bs = Some ([], bs)"
| "take_many dec (Suc n) bs =
     (case dec bs of None \<Rightarrow> None
      | Some (x, bs') \<Rightarrow>
          (case take_many dec n bs' of None \<Rightarrow> None | Some (xs, bs'') \<Rightarrow> Some (x # xs, bs'')))"

definition take_vec :: "(bytes \<Rightarrow> ('a \<times> bytes) option) \<Rightarrow> bytes \<Rightarrow> ('a list \<times> bytes) option" where
  "take_vec dec bs =
     (case (take_word bs :: (u32 \<times> bytes) option) of None \<Rightarrow> None
      | Some (n, bs') \<Rightarrow> take_many dec (unat n) bs')"

definition vec_bytes :: "('a \<Rightarrow> bytes) \<Rightarrow> 'a list \<Rightarrow> bytes" where
  "vec_bytes enc xs = word_bytes (of_nat (length xs) :: u32) @ concat (map enc xs)"

locale codec =
  fixes enc :: "'a \<Rightarrow> bytes"
    and dec :: "bytes \<Rightarrow> ('a \<times> bytes) option"
  assumes dec_enc: "dec (enc x @ rest) = Some (x, rest)"
    and dec_sound: "dec bs = Some (x, rest) \<Longrightarrow> bs = enc x @ rest"
begin

lemma prefix_free: "enc x @ r = enc y @ s \<Longrightarrow> x = y \<and> r = s"
proof -
  assume eq: "enc x @ r = enc y @ s"
  have "Some (x, r) = Some (y, s)"
    unfolding dec_enc [of x r, symmetric] dec_enc [of y s, symmetric] by (rule arg_cong [OF eq])
  then show ?thesis by simp
qed

lemma enc_inj: "enc x = enc y \<Longrightarrow> x = y"
  using prefix_free [of x "[]" y "[]"] by simp

lemma dec_iff: "dec bs = Some (x, rest) \<longleftrightarrow> bs = enc x @ rest"
  by (metis dec_enc dec_sound)

lemma take_many_concat: "take_many dec (length xs) (concat (map enc xs) @ rest) = Some (xs, rest)"
  by (induction xs) (simp_all add: dec_enc)

lemma take_many_sound:
  "take_many dec n bs = Some (xs, rest) \<Longrightarrow> length xs = n \<and> bs = concat (map enc xs) @ rest"
proof (induction n arbitrary: bs xs)
  case (Suc n)
  then obtain y bs' ys where "dec bs = Some (y, bs')" "take_many dec n bs' = Some (ys, rest)"
    and "xs = y # ys"
    by (auto split: option.splits prod.splits)
  with Suc.IH [of bs' ys] show ?case by (auto dest!: dec_sound)
qed simp

lemma take_vec_bytes:
  assumes "length xs < 2 ^ 32"
  shows "take_vec dec (vec_bytes enc xs @ rest) = Some (xs, rest)"
proof -
  have "unat (of_nat (length xs) :: u32) = length xs"
    using assms by (simp add: unat_of_nat)
  then show ?thesis
    by (simp add: take_vec_def vec_bytes_def take_word_bytes take_many_concat)
qed

lemma take_vec_sound:
  assumes "take_vec dec bs = Some (xs, rest)"
  shows "bs = vec_bytes enc xs @ rest"
proof -
  from assms obtain n :: u32 and bs' where n: "take_word bs = Some (n, bs')"
    and xs: "take_many dec (unat n) bs' = Some (xs, rest)"
    by (auto simp: take_vec_def split: option.splits)
  from take_many_sound [OF xs] have len: "length xs = unat n" and bs': "bs' = concat (map enc xs) @ rest"
    by auto
  from n have "bs = word_bytes n @ bs'" by (rule take_word_SomeD [rotated]) simp
  with len bs' show ?thesis by (simp add: vec_bytes_def)
qed

end

text \<open>The word codecs of the widths the program uses.\<close>

interpretation u8_codec: codec "word_bytes :: u8 \<Rightarrow> bytes" take_word
  by unfold_locales (simp_all add: take_word_bytes take_word_SomeD)

interpretation u64_codec: codec "word_bytes :: u64 \<Rightarrow> bytes" take_word
  by unfold_locales (simp_all add: take_word_bytes take_word_SomeD)

interpretation b32_codec: codec "word_bytes :: b32 \<Rightarrow> bytes" take_word
  by unfold_locales (simp_all add: take_word_bytes take_word_SomeD)

interpretation b64_codec: codec "word_bytes :: b64 \<Rightarrow> bytes" take_word
  by unfold_locales (simp_all add: take_word_bytes take_word_SomeD)

lemmas word_codec_dec = u8_codec.dec_enc u64_codec.dec_enc b32_codec.dec_enc b64_codec.dec_enc
lemmas word_codec_sound = u8_codec.dec_sound u64_codec.dec_sound b32_codec.dec_sound b64_codec.dec_sound

end
