(* ===== verification/Adaptor_Sig.thy ===== *)
theory Adaptor_Sig
  imports Codec
begin

text \<open>
  Ed25519 adaptor signatures (\<open>enclave/src/adaptor_sig.rs\<close>). The curve, its scalars and the
  hash functions belong to \<open>curve25519-dalek\<close> and \<open>sha2\<close>: they are the fields of a record
  the definitions take as argument. \<open>curve_laws\<close> names what the code relies on: encodings
  round-trip, points form a commutative group with cancellation, scalars an additive group,
  and multiplication of the base point is additive and composes. No law speaks of points
  outside the multiples of the base point except addition, so small-subgroup components of
  decompressed points are not excluded.
\<close>

unbundle bit_operations_syntax

section \<open>Definitions\<close>

record ('p, 's) curve =
  decompress :: "b32 \<Rightarrow> 'p option"
  compress :: "'p \<Rightarrow> b32"
  padd :: "'p \<Rightarrow> 'p \<Rightarrow> 'p"
  smul :: "'s \<Rightarrow> 'p \<Rightarrow> 'p"
  basepoint :: 'p
  sadd :: "'s \<Rightarrow> 's \<Rightarrow> 's"
  ssub :: "'s \<Rightarrow> 's \<Rightarrow> 's"
  stimes :: "'s \<Rightarrow> 's \<Rightarrow> 's"
  from_canonical_bytes :: "b32 \<Rightarrow> 's option"
  scalar_bytes :: "'s \<Rightarrow> b32"
  from_bytes_mod_order :: "b32 \<Rightarrow> 's"
  from_bytes_mod_order_wide :: "b64 \<Rightarrow> 's"
  sha512 :: "bytes \<Rightarrow> b64"

record adaptor_pre_signature =
  r_prime :: b32
  s_prime :: b32

record adapted_signature =
  r_bytes :: b32
  s_bytes :: b32

record ('p, 's) adaptor_key_pair =
  kp_secret :: 's
  kp_public :: 'p
  kp_public_compressed :: b32

definition adaptor_key_pair_from_secret :: "('p, 's) curve \<Rightarrow> 's \<Rightarrow> ('p, 's) adaptor_key_pair" where
  "adaptor_key_pair_from_secret C secret =
     (let public = smul C secret (basepoint C)
      in \<lparr>kp_secret = secret, kp_public = public, kp_public_compressed = compress C public\<rparr>)"

text \<open>
  The first 32 bytes of the hash are the low 256 bits of the little-endian word, the last 32
  the high ones; byte 0 and byte 31 of the scalar are clamped.
\<close>

definition expand_secret_key :: "('p, 's) curve \<Rightarrow> b32 \<Rightarrow> 's \<times> b32" where
  "expand_secret_key C secret_key =
     (let hash = word_bytes (sha512 C (word_bytes secret_key));
          sb = take 32 hash;
          sb = sb[0 := (sb ! 0) AND 248];
          sb = sb[31 := (sb ! 31) AND 127];
          sb = sb[31 := (sb ! 31) OR 64];
          a = from_bytes_mod_order C (word_of_bytes sb);
          prefix = word_of_bytes (take 32 (drop 32 hash))
      in (a, prefix))"

definition challenge_hash :: "('p, 's) curve \<Rightarrow> b32 \<Rightarrow> b32 \<Rightarrow> bytes \<Rightarrow> 's" where
  "challenge_hash C r pk message =
     from_bytes_mod_order_wide C (sha512 C (word_bytes r @ word_bytes pk @ message))"

definition derive_nonce :: "('p, 's) curve \<Rightarrow> b32 \<Rightarrow> b32 \<Rightarrow> bytes \<Rightarrow> 's" where
  "derive_nonce C prefix adaptor_point message =
     from_bytes_mod_order_wide C (sha512 C (word_bytes prefix @ word_bytes adaptor_point @ message))"

definition pre_sign :: "('p, 's) curve \<Rightarrow> b32 \<Rightarrow> bytes \<Rightarrow> 'p \<Rightarrow> adaptor_pre_signature" where
  "pre_sign C secret_key message adaptor_point =
     (let (a, prefix) = expand_secret_key C secret_key;
          pk = compress C (smul C a (basepoint C));
          t_bytes = compress C adaptor_point;
          r = derive_nonce C prefix t_bytes message;
          r_prime_point = smul C r (basepoint C);
          adapted_r = padd C r_prime_point adaptor_point;
          c = challenge_hash C (compress C adapted_r) pk message;
          s' = sadd C r (stimes C c a)
      in \<lparr>r_prime = compress C r_prime_point, s_prime = scalar_bytes C s'\<rparr>)"

definition pre_verify :: "('p, 's) curve \<Rightarrow> b32 \<Rightarrow> bytes \<Rightarrow> 'p \<Rightarrow> adaptor_pre_signature \<Rightarrow> bool" where
  "pre_verify C public_key message adaptor_point pre_sig =
     (case decompress C (r_prime pre_sig) of None \<Rightarrow> False
      | Some r' \<Rightarrow>
     (case decompress C public_key of None \<Rightarrow> False
      | Some pk_point \<Rightarrow>
          let adapted_r = padd C r' adaptor_point;
              c = challenge_hash C (compress C adapted_r) public_key message
          in (case from_canonical_bytes C (s_prime pre_sig) of None \<Rightarrow> False
              | Some s' \<Rightarrow>
                  smul C s' (basepoint C) = padd C r' (smul C c pk_point))))"

definition adapt ::
    "('p, 's) curve \<Rightarrow> adaptor_pre_signature \<Rightarrow> 's \<Rightarrow> 'p \<Rightarrow> adapted_signature option" where
  "adapt C pre_sig adaptor_secret adaptor_point =
     (case decompress C (r_prime pre_sig) of None \<Rightarrow> None
      | Some r' \<Rightarrow>
     (case from_canonical_bytes C (s_prime pre_sig) of None \<Rightarrow> None
      | Some s' \<Rightarrow>
          Some \<lparr>r_bytes = compress C (padd C r' adaptor_point),
                s_bytes = scalar_bytes C (sadd C s' adaptor_secret)\<rparr>))"

definition extract_secret ::
    "('p, 's) curve \<Rightarrow> adapted_signature \<Rightarrow> adaptor_pre_signature \<Rightarrow> 's option" where
  "extract_secret C full_sig pre_sig =
     (case from_canonical_bytes C (s_bytes full_sig) of None \<Rightarrow> None
      | Some s \<Rightarrow>
     (case from_canonical_bytes C (s_prime pre_sig) of None \<Rightarrow> None
      | Some s' \<Rightarrow> Some (ssub C s s')))"

definition verify_adapted :: "('p, 's) curve \<Rightarrow> b32 \<Rightarrow> bytes \<Rightarrow> adapted_signature \<Rightarrow> bool" where
  "verify_adapted C public_key message sig =
     (case decompress C (r_bytes sig) of None \<Rightarrow> False
      | Some r \<Rightarrow>
     (case decompress C public_key of None \<Rightarrow> False
      | Some pk_point \<Rightarrow>
     (case from_canonical_bytes C (s_bytes sig) of None \<Rightarrow> False
      | Some s \<Rightarrow>
          let c = challenge_hash C (r_bytes sig) public_key message
          in smul C s (basepoint C) = padd C r (smul C c pk_point))))"

text \<open>What the code relies on of the curve library.\<close>

definition curve_laws :: "('p, 's) curve \<Rightarrow> bool" where
  "curve_laws C \<longleftrightarrow>
     (\<forall>p. decompress C (compress C p) = Some p)
   \<and> (\<forall>s. from_canonical_bytes C (scalar_bytes C s) = Some s)
   \<and> (\<forall>b s. from_canonical_bytes C b = Some s \<longrightarrow> scalar_bytes C s = b)
   \<and> (\<forall>p q r. padd C (padd C p q) r = padd C p (padd C q r))
   \<and> (\<forall>p q. padd C p q = padd C q p)
   \<and> (\<forall>p q r. padd C p q = padd C p r \<longrightarrow> q = r)
   \<and> (\<forall>a b. ssub C (sadd C a b) a = b)
   \<and> (\<forall>a b. sadd C a (ssub C b a) = b)
   \<and> (\<forall>a b. smul C (sadd C a b) (basepoint C) = padd C (smul C a (basepoint C)) (smul C b (basepoint C)))
   \<and> (\<forall>a b. smul C (stimes C a b) (basepoint C) = smul C a (smul C b (basepoint C)))"

section \<open>Lemmas\<close>

lemma decompress_compress: "curve_laws C \<Longrightarrow> decompress C (compress C p) = Some p"
  and canonical_scalar_bytes: "curve_laws C \<Longrightarrow> from_canonical_bytes C (scalar_bytes C s) = Some s"
  and scalar_bytes_canonical: "curve_laws C \<Longrightarrow> from_canonical_bytes C e = Some s \<Longrightarrow> scalar_bytes C s = e"
  and padd_assoc: "curve_laws C \<Longrightarrow> padd C (padd C p q) r = padd C p (padd C q r)"
  and padd_comm: "curve_laws C \<Longrightarrow> padd C p q = padd C q p"
  and padd_cancel: "curve_laws C \<Longrightarrow> padd C p q = padd C p r \<Longrightarrow> q = r"
  and ssub_sadd: "curve_laws C \<Longrightarrow> ssub C (sadd C a b) a = b"
  and sadd_ssub: "curve_laws C \<Longrightarrow> sadd C a (ssub C b a) = b"
  and smul_sadd: "curve_laws C \<Longrightarrow>
    smul C (sadd C a b) (basepoint C) = padd C (smul C a (basepoint C)) (smul C b (basepoint C))"
  and smul_stimes: "curve_laws C \<Longrightarrow>
    smul C (stimes C a b) (basepoint C) = smul C a (smul C b (basepoint C))"
  unfolding curve_laws_def by blast+

lemmas curve_rules = decompress_compress canonical_scalar_bytes ssub_sadd smul_sadd smul_stimes

text \<open>A pre-signature check in unfolded form.\<close>

lemma pre_verify_iff:
  "pre_verify C pk m T ps \<longleftrightarrow>
     (\<exists>R P s. decompress C (r_prime ps) = Some R \<and> decompress C pk = Some P
        \<and> from_canonical_bytes C (s_prime ps) = Some s
        \<and> smul C s (basepoint C)
            = padd C R (smul C (challenge_hash C (compress C (padd C R T)) pk m) P))"
  by (auto simp: pre_verify_def Let_def split: option.splits)

lemma verify_adapted_iff:
  "verify_adapted C pk m sig \<longleftrightarrow>
     (\<exists>R P s. decompress C (r_bytes sig) = Some R \<and> decompress C pk = Some P
        \<and> from_canonical_bytes C (s_bytes sig) = Some s
        \<and> smul C s (basepoint C) = padd C R (smul C (challenge_hash C (r_bytes sig) pk m) P))"
  by (auto simp: verify_adapted_def Let_def split: option.splits)

text \<open>Moving the adaptor point across a sum of three points.\<close>

lemma padd_swap3:
  "curve_laws C \<Longrightarrow> padd C (padd C p q) r = padd C (padd C p r) q"
  by (metis padd_assoc padd_comm)

lemma extract_adapt:
  assumes "curve_laws C" and "adapt C ps t T = Some sig"
  shows "extract_secret C sig ps = Some t"
  using assms by (auto simp: adapt_def extract_secret_def curve_rules split: option.splits)

lemma adapt_of_pre_verify:
  assumes L: "curve_laws C" and pv: "pre_verify C pk m (smul C t (basepoint C)) ps"
  shows "\<exists>sig. adapt C ps t (smul C t (basepoint C)) = Some sig \<and> verify_adapted C pk m sig"
proof -
  let ?T = "smul C t (basepoint C)"
  from pv obtain R P s where R: "decompress C (r_prime ps) = Some R" and P: "decompress C pk = Some P"
    and s: "from_canonical_bytes C (s_prime ps) = Some s"
    and eq: "smul C s (basepoint C)
      = padd C R (smul C (challenge_hash C (compress C (padd C R ?T)) pk m) P)"
    by (auto simp: pre_verify_iff)
  let ?sig = "\<lparr>r_bytes = compress C (padd C R ?T), s_bytes = scalar_bytes C (sadd C s t)\<rparr>"
  have "adapt C ps t ?T = Some ?sig" using R s by (simp add: adapt_def)
  moreover have "verify_adapted C pk m ?sig"
    using P eq by (simp add: verify_adapted_iff curve_rules [OF L] padd_swap3 [OF L])
  ultimately show ?thesis by blast
qed

text \<open>
  A published signature with the adapted nonce reveals the discrete logarithm of the adaptor
  point: the extracted scalar multiplies the base point to exactly that point.
\<close>

lemma extract_reveals:
  assumes L: "curve_laws C" and pv: "pre_verify C pk m T ps" and v: "verify_adapted C pk m sig"
    and R: "decompress C (r_prime ps) = Some R" and nonce: "r_bytes sig = compress C (padd C R T)"
  shows "\<exists>t. extract_secret C sig ps = Some t \<and> smul C t (basepoint C) = T"
proof -
  let ?B = "basepoint C"
  from pv R obtain P s' where P: "decompress C pk = Some P"
    and s': "from_canonical_bytes C (s_prime ps) = Some s'"
    and e1: "smul C s' ?B = padd C R (smul C (challenge_hash C (compress C (padd C R T)) pk m) P)"
    by (auto simp: pre_verify_iff)
  let ?cP = "smul C (challenge_hash C (compress C (padd C R T)) pk m) P"
  from v P nonce obtain s where s: "from_canonical_bytes C (s_bytes sig) = Some s"
    and e2: "smul C s ?B = padd C (padd C R T) ?cP"
    by (auto simp: verify_adapted_iff decompress_compress [OF L])
  let ?t = "ssub C s s'"
  have "padd C (smul C s' ?B) (smul C ?t ?B) = smul C s ?B"
    using smul_sadd [OF L, of s' ?t] by (simp add: sadd_ssub [OF L])
  also have "\<dots> = padd C (smul C s' ?B) T"
    using e1 e2 by (simp add: padd_swap3 [OF L])
  finally have "smul C ?t ?B = T" by (rule padd_cancel [OF L])
  with s s' show ?thesis by (simp add: extract_secret_def)
qed

lemma pre_sign_pre_verify:
  assumes L: "curve_laws C"
  shows "pre_verify C (compress C (smul C (fst (expand_secret_key C sk)) (basepoint C))) m T
           (pre_sign C sk m T)"
  by (cases "expand_secret_key C sk")
    (simp add: pre_verify_def pre_sign_def Let_def curve_rules [OF L])

section \<open>A concrete curve\<close>

text \<open>
  The additive group of 256-bit words over itself satisfies the laws; the witnesses of the
  properties below use it.
\<close>

definition word_curve :: "(b32, b32) curve" where
  "word_curve =
     \<lparr>decompress = Some, compress = (\<lambda>p. p), padd = (+), smul = (*), basepoint = 1,
      sadd = (+), ssub = (-), stimes = (*), from_canonical_bytes = Some, scalar_bytes = (\<lambda>s. s),
      from_bytes_mod_order = (\<lambda>b. b), from_bytes_mod_order_wide = ucast,
      sha512 = (\<lambda>bs. of_nat (length bs))\<rparr>"

lemma word_curve_laws: "curve_laws word_curve"
  unfolding curve_laws_def word_curve_def by (simp add: algebra_simps)

section \<open>Properties\<close>

text \<open>
  A pre-signature made with a secret key passes \<open>pre_verify\<close> under the matching public
  key, for every message and adaptor point (completeness of \<open>pSign\<close>/\<open>pVerify\<close>).
\<close>

theorem pre_sign_complete:
  assumes "curve_laws C" and "pk = compress C (smul C (fst (expand_secret_key C sk)) (basepoint C))"
  shows "pre_verify C pk m T (pre_sign C sk m T)"
  using pre_sign_pre_verify [OF assms(1)] assms(2) by simp

theorem pre_sign_complete_witness:
  "pre_verify word_curve (compress word_curve (smul word_curve (fst (expand_secret_key word_curve 7))
     (basepoint word_curve))) [1, 2] 5 (pre_sign word_curve 7 [1, 2] 5)"
  by (rule pre_sign_complete [OF word_curve_laws refl])

text \<open>
  Adaptation: whoever knows the discrete logarithm of the adaptor point turns a verified
  pre-signature into a signature that verifies for the same key and message, and the holder of
  the pre-signature extracts the secret back from it.
\<close>

theorem adapt_then_extract:
  assumes "curve_laws C" and "T = smul C t (basepoint C)" and "pre_verify C pk m T ps"
  shows "\<exists>sig. adapt C ps t T = Some sig \<and> verify_adapted C pk m sig \<and> extract_secret C sig ps = Some t"
  using adapt_of_pre_verify [of C pk m t ps] extract_adapt [of C ps t T] assms by auto

theorem adapt_then_extract_witness:
  "\<exists>sig. adapt word_curve (pre_sign word_curve 7 [1, 2] 5) 5 5 = Some sig
     \<and> verify_adapted word_curve (compress word_curve (smul word_curve
         (fst (expand_secret_key word_curve 7)) (basepoint word_curve))) [1, 2] sig
     \<and> extract_secret word_curve sig (pre_sign word_curve 7 [1, 2] 5) = Some 5"
  by (rule adapt_then_extract [OF word_curve_laws _ pre_sign_pre_verify [OF word_curve_laws]])
    (simp add: word_curve_def)

end
