(* ===== verification/Chain_Adapter.thy ===== *)
theory Chain_Adapter
  imports Prelude
begin

text \<open>
  Network descriptors and settlement targets (\<open>enclave/src/chain_adapter.rs\<close>): which chain a
  provider settles on, and the validation and normalisation of its settlement address and
  asset. Strings are byte strings; the base58 reader of \<open>Pubkey::from_str\<close> is a parameter.
\<close>

section \<open>Definitions\<close>

datatype chain_kind = Solana | Ethereum | Bitcoin

record chain_descriptor =
  cd_kind :: chain_kind
  cd_network :: string

record settlement_target =
  st_network :: string
  st_asset_id :: string
  st_settlement_address :: string
  st_solana_settlement_token_account :: "pubkey option"
  st_solana_asset_mint :: "pubkey option"

definition starts_with :: "string \<Rightarrow> string \<Rightarrow> bool" where
  "starts_with s p \<longleftrightarrow> take (length p) s = p"

definition strip_prefix :: "string \<Rightarrow> string \<Rightarrow> string option" where
  "strip_prefix p s = (if starts_with s p then Some (drop (length p) s) else None)"

text \<open>\<open>char::is_ascii_hexdigit\<close> and \<open>to_ascii_lowercase\<close> on bytes.\<close>

definition is_ascii_hexdigit :: "char \<Rightarrow> bool" where
  "is_ascii_hexdigit c =
     (let n = of_char c :: nat
      in (48 \<le> n \<and> n \<le> 57) \<or> (65 \<le> n \<and> n \<le> 70) \<or> (97 \<le> n \<and> n \<le> 102))"

definition char_to_lower :: "char \<Rightarrow> char" where
  "char_to_lower c =
     (let n = of_char c :: nat in if 65 \<le> n \<and> n \<le> 90 then char_of (n + 32) else c)"

definition to_ascii_lowercase :: "string \<Rightarrow> string" where
  "to_ascii_lowercase s = map char_to_lower s"

definition eq_ignore_ascii_case :: "string \<Rightarrow> string \<Rightarrow> bool" where
  "eq_ignore_ascii_case s t \<longleftrightarrow> to_ascii_lowercase s = to_ascii_lowercase t"

definition parse_network :: "string \<Rightarrow> string + chain_descriptor" where
  "parse_network network =
     (if starts_with network ''solana:'' \<or> network = ''solana-localnet''
      then Inr \<lparr>cd_kind = Solana, cd_network = network\<rparr>
      else if starts_with network ''eip155:'' \<or> starts_with network ''ethereum:''
      then Inr \<lparr>cd_kind = Ethereum, cd_network = network\<rparr>
      else if starts_with network ''bip122:'' \<or> starts_with network ''bitcoin:''
      then Inr \<lparr>cd_kind = Bitcoin, cd_network = network\<rparr>
      else Inl (''unsupported network: '' @ network))"

definition is_solana_network :: "string \<Rightarrow> bool" where
  "is_solana_network network =
     (case parse_network network of Inl _ \<Rightarrow> False | Inr d \<Rightarrow> cd_kind d = Solana)"

text \<open>\<open>trim_start_matches("0x")\<close> strips the pattern as often as it occurs at the front.\<close>

fun trim_0x :: "string \<Rightarrow> string" where
  "trim_0x (a # b # s) = (if a = CHR ''0'' \<and> b = CHR ''x'' then trim_0x s else a # b # s)"
| "trim_0x s = s"

definition normalize_eth_address :: "string \<Rightarrow> string" where
  "normalize_eth_address address = ''0x'' @ to_ascii_lowercase (trim_0x address)"

definition validate_ethereum_address :: "string \<Rightarrow> string + unit" where
  "validate_ethereum_address address =
     (let stripped = (case strip_prefix ''0x'' address of Some s \<Rightarrow> s | None \<Rightarrow> address)
      in if length stripped = 40 \<and> list_all is_ascii_hexdigit stripped then Inr ()
         else Inl ''Ethereum settlement address must be a 20-byte hex address'')"

definition validate_ethereum_asset :: "string \<Rightarrow> string + unit" where
  "validate_ethereum_asset asset_id =
     (if eq_ignore_ascii_case asset_id ''native'' \<or> eq_ignore_ascii_case asset_id ''eth''
         \<or> \<not> isl (validate_ethereum_address asset_id)
      then Inr () else Inl ''Ethereum asset id must be native/eth or an ERC-20 address'')"

definition validate_bitcoin_address :: "string \<Rightarrow> string + unit" where
  "validate_bitcoin_address address =
     (let lower = to_ascii_lowercase address;
          plausible = list_ex (starts_with lower)
            [''bc1'', ''tb1'', ''bcrt1'', ''1'', ''3'', ''m'', ''n'', ''2'']
      in if plausible \<and> 14 \<le> length address \<and> length address \<le> 90 then Inr ()
         else Inl ''Bitcoin settlement address must look like a mainnet/testnet/regtest address'')"

definition validate_bitcoin_asset :: "string \<Rightarrow> string + unit" where
  "validate_bitcoin_asset asset_id =
     (if eq_ignore_ascii_case asset_id ''btc'' \<or> eq_ignore_ascii_case asset_id ''native''
      then Inr () else Inl ''Bitcoin asset id must be btc/native'')"

definition settlement_target_parse ::
    "(string \<Rightarrow> pubkey option) \<Rightarrow> string \<Rightarrow> string \<Rightarrow> string \<Rightarrow> string + settlement_target" where
  "settlement_target_parse pubkey_from_str network asset_id settlement_address =
     (case parse_network network of
        Inl e \<Rightarrow> Inl e
      | Inr descriptor \<Rightarrow>
         (case cd_kind descriptor of
            Solana \<Rightarrow>
              (case pubkey_from_str settlement_address of
                 None \<Rightarrow> Inl ''Solana settlement address must be a valid pubkey''
               | Some settlement_token_account \<Rightarrow>
              (case pubkey_from_str asset_id of
                 None \<Rightarrow> Inl ''Solana asset id must be a valid mint pubkey''
               | Some asset_mint \<Rightarrow>
                   Inr \<lparr>st_network = network, st_asset_id = asset_id,
                        st_settlement_address = settlement_address,
                        st_solana_settlement_token_account = Some settlement_token_account,
                        st_solana_asset_mint = Some asset_mint\<rparr>))
          | Ethereum \<Rightarrow>
              (case validate_ethereum_address settlement_address of Inl e \<Rightarrow> Inl e | Inr _ \<Rightarrow>
              (case validate_ethereum_asset asset_id of Inl e \<Rightarrow> Inl e | Inr _ \<Rightarrow>
                   Inr \<lparr>st_network = network, st_asset_id = asset_id,
                        st_settlement_address = normalize_eth_address settlement_address,
                        st_solana_settlement_token_account = None, st_solana_asset_mint = None\<rparr>))
          | Bitcoin \<Rightarrow>
              (case validate_bitcoin_address settlement_address of Inl e \<Rightarrow> Inl e | Inr _ \<Rightarrow>
              (case validate_bitcoin_asset asset_id of Inl e \<Rightarrow> Inl e | Inr _ \<Rightarrow>
                   Inr \<lparr>st_network = network, st_asset_id = asset_id,
                        st_settlement_address = settlement_address,
                        st_solana_settlement_token_account = None, st_solana_asset_mint = None\<rparr>))))"

section \<open>Lemmas\<close>

lemma char_to_lower_idem [simp]: "char_to_lower (char_to_lower c) = char_to_lower c"
  by (auto simp: char_to_lower_def Let_def)

lemma hexdigit_char_to_lower [simp]: "is_ascii_hexdigit c \<Longrightarrow> is_ascii_hexdigit (char_to_lower c)"
  by (auto simp: is_ascii_hexdigit_def char_to_lower_def Let_def)

lemma not_hexdigit_x [simp]: "\<not> is_ascii_hexdigit (CHR ''x'')"
  by (simp add: is_ascii_hexdigit_def)

lemma trim_0x_hex: "list_all is_ascii_hexdigit s \<Longrightarrow> trim_0x s = s"
  by (cases s rule: trim_0x.cases) auto

text \<open>The shape of an accepted Ethereum address: an optional \<open>0x\<close> and forty hex digits.\<close>

lemma validate_ethereum_address_iff:
  "validate_ethereum_address a = Inr () \<longleftrightarrow>
     (\<exists>h. length h = 40 \<and> list_all is_ascii_hexdigit h \<and> (a = h \<or> a = ''0x'' @ h))"
proof
  assume v: "validate_ethereum_address a = Inr ()"
  show "\<exists>h. length h = 40 \<and> list_all is_ascii_hexdigit h \<and> (a = h \<or> a = ''0x'' @ h)"
  proof (cases "strip_prefix ''0x'' a")
    case None
    with v show ?thesis by (auto simp: validate_ethereum_address_def split: if_splits)
  next
    case (Some s)
    then have "a = ''0x'' @ s"
      by (cases a rule: trim_0x.cases) (auto simp: strip_prefix_def starts_with_def split: if_splits)
    with Some v show ?thesis by (auto simp: validate_ethereum_address_def split: if_splits)
  qed
next
  assume "\<exists>h. length h = 40 \<and> list_all is_ascii_hexdigit h \<and> (a = h \<or> a = ''0x'' @ h)"
  then obtain h where h: "length h = 40" "list_all is_ascii_hexdigit h" and a: "a = h \<or> a = ''0x'' @ h"
    by blast
  from a show "validate_ethereum_address a = Inr ()"
  proof
    assume "a = ''0x'' @ h"
    with h show ?thesis by (simp add: validate_ethereum_address_def strip_prefix_def starts_with_def)
  next
    assume "a = h"
    moreover from h have "take (Suc (Suc 0)) h \<noteq> ''0x''"
      by (cases h rule: trim_0x.cases) auto
    ultimately show ?thesis
      using h by (simp add: validate_ethereum_address_def strip_prefix_def starts_with_def)
  qed
qed

lemma normalize_eth_address_hex:
  assumes "length h = 40" and "list_all is_ascii_hexdigit h" and "a = h \<or> a = ''0x'' @ h"
  shows "normalize_eth_address a = ''0x'' @ to_ascii_lowercase h"
  using assms by (auto simp: normalize_eth_address_def trim_0x_hex)

section \<open>Properties\<close>

text \<open>
  An accepted Ethereum settlement address is normalised to \<open>0x\<close> and forty lower-case hex
  digits; the result is accepted again and normalising it once more changes nothing, so two
  spellings of one address are stored as one string.
\<close>

theorem normalize_eth_address_canonical:
  assumes "validate_ethereum_address a = Inr ()"
  shows "length (normalize_eth_address a) = 42
    \<and> validate_ethereum_address (normalize_eth_address a) = Inr ()
    \<and> normalize_eth_address (normalize_eth_address a) = normalize_eth_address a"
proof -
  from assms obtain h where h: "length h = 40" "list_all is_ascii_hexdigit h" "a = h \<or> a = ''0x'' @ h"
    by (auto simp: validate_ethereum_address_iff)
  let ?l = "to_ascii_lowercase h"
  have l: "length ?l = 40" "list_all is_ascii_hexdigit ?l" "to_ascii_lowercase ?l = ?l"
    using h by (auto simp: to_ascii_lowercase_def list_all_iff)
  have "normalize_eth_address a = ''0x'' @ ?l" by (rule normalize_eth_address_hex [OF h])
  moreover have "normalize_eth_address (''0x'' @ ?l) = ''0x'' @ ?l"
    using normalize_eth_address_hex [OF l(1,2)] l(3) by simp
  ultimately show ?thesis using l by (auto simp: validate_ethereum_address_iff)
qed

theorem normalize_eth_address_canonical_witness:
  "length (normalize_eth_address ''0xA0b86991c6218b36c1d19d4a2e9eb0ce3606eb48'') = 42
    \<and> validate_ethereum_address (normalize_eth_address ''0xA0b86991c6218b36c1d19d4a2e9eb0ce3606eb48'') = Inr ()
    \<and> normalize_eth_address (normalize_eth_address ''0xA0b86991c6218b36c1d19d4a2e9eb0ce3606eb48'')
        = normalize_eth_address ''0xA0b86991c6218b36c1d19d4a2e9eb0ce3606eb48''"
  by (rule normalize_eth_address_canonical)
    (simp add: validate_ethereum_address_def strip_prefix_def starts_with_def is_ascii_hexdigit_def)

end
