(* ===== verification/Enclave_State.thy ===== *)
theory Enclave_State
  imports Adaptor_Sig Chain_Adapter
begin

text \<open>
  The state of the vault enclave and the operations on it
  (\<open>enclave/src/state.rs\<close>, errors of \<open>enclave/src/error.rs\<close>). The Rust methods mutate
  concurrent maps in place and may return an error, or panic (the release profile keeps
  overflow checks on, so an unchecked \<open>+\<close> that overflows panics), after part of their work is
  done. An operation is therefore a function from the state to an outcome and a state, and
  the state beside an \<open>Err\<close> or a \<open>Panic\<close> is the one the source leaves behind. Each
  operation is one atomic step: the guards the source holds across it are per entry.
\<close>

section \<open>Errors and outcomes\<close>

datatype enclave_error =
    InsufficientBalance | ClientNotFound | ProviderNotFound | ProviderAuthFailed
  | UnsupportedProviderAuthMode | InvalidProviderAuthConfig | MtlsNotEnabled | InvalidScheme
  | PaymentDetailsRequired | InvalidPaymentDetails | VerifyWindowSecRequired
  | InvalidVerifyWindowSec | InvalidClientSignature | ClientAuthExpired
  | InvalidClientAuthWindow | PaymentExpired | PaymentIdReused | ReservationNotFound
  | ReservationExpired | SettlementNotFound | InvalidReservationStatus string
  | VaultNotActive | VaultPaused | VaultMigrating | VaultRetired | VaultStatusUnavailable
  | DepositSyncInProgress | RequestHashMismatch | PaymentDetailsHashMismatch
  | ProviderIdMismatch | ProviderAlreadyRegistered | ChannelNotFound
  | InvalidChannelStatus string | ChannelRequestExpired | ChannelRequestIdReused
  | InvalidAdaptorSignature | ReceiptWatchtowerUnavailable | InvalidProviderParticipant
  | ProviderParticipantRequired | ProviderParticipantAttestationRequired
  | ProviderParticipantMismatch | InvalidProviderParticipantAttestation string
  | PayToMismatch | AssetMintMismatch | NetworkMismatch | OriginNotAllowed
  | AdminPrivacyBypassDisabled | Internal string

datatype 'a outcome = Ok 'a | Err enclave_error | Panic

section \<open>Data\<close>

datatype channel_status = ChOpen | ChLocked | ChPending | ChClosed

record channel_balance =
  client_free :: u64
  client_locked :: u64
  provider_earned :: u64

record channel_request =
  rq_request_id :: string
  rq_amount :: u64
  rq_request_hash :: b32
  rq_provider_pubkey :: "b32 option"
  rq_adaptor_point :: "b32 option"
  rq_provider_pre_sig :: "adaptor_pre_signature option"
  rq_encrypted_result :: "bytes option"
  rq_result_hash :: "b32 option"
  rq_created_at :: i64
  rq_expires_at :: i64

record channel_state =
  ch_channel_id :: string
  ch_client :: pubkey
  ch_provider_id :: string
  ch_balance :: channel_balance
  ch_status :: channel_status
  ch_nonce :: u64
  ch_created_at :: i64
  ch_updated_at :: i64
  ch_used_request_ids :: "string set"
  ch_active_request :: "channel_request option"

datatype reservation_status = Reserved | SettledOffchain | Cancelled | Expired | BatchedOnchain

record client_balance =
  cb_free :: u64
  cb_locked :: u64
  cb_max_lock_expires_at :: i64
  cb_total_deposited :: u64
  cb_total_withdrawn :: u64

definition default_client_balance :: client_balance where
  "default_client_balance =
     \<lparr>cb_free = 0, cb_locked = 0, cb_max_lock_expires_at = 0, cb_total_deposited = 0,
      cb_total_withdrawn = 0\<rparr>"

record provider_registration =
  pr_provider_id :: string
  pr_display_name :: string
  pr_participant_pubkey :: "pubkey option"
  pr_participant_attestation_policy_hash :: "b32 option"
  pr_participant_attestation_verified_at_ms :: "i64 option"
  pr_participant_attestation_mode :: "string option"
  pr_settlement_token_account :: pubkey
  pr_network :: string
  pr_asset_mint :: pubkey
  pr_allowed_origins :: "string list"
  pr_auth_mode :: string
  pr_api_key_hash :: "bytes option"
  pr_mtls_cert_fingerprint :: "bytes option"
  pr_settlement_address :: string
  pr_asset_id :: string
  pr_chain_kind :: string

record reservation =
  rs_verification_id :: string
  rs_reservation_id :: string
  rs_payment_id :: string
  rs_client :: pubkey
  rs_provider_id :: string
  rs_amount :: u64
  rs_request_hash :: b32
  rs_payment_details_hash :: b32
  rs_status :: reservation_status
  rs_created_at :: i64
  rs_expires_at :: i64
  rs_settlement_id :: "string option"
  rs_settled_at :: "i64 option"

record provider_credit =
  pc_provider_id :: string
  pc_settlement_token_account :: pubkey
  pc_credited_amount :: u64
  pc_oldest_credit_at :: i64
  pc_settlement_ids :: "string list"

record multi_chain_provider_credit =
  mc_provider_id :: string
  mc_network :: string
  mc_asset_id :: string
  mc_settlement_address :: string
  mc_credited_amount :: u64
  mc_oldest_credit_at :: i64
  mc_settlement_ids :: "string list"

record pending_withdrawal =
  pw_client :: pubkey
  pw_recipient_ata :: pubkey
  pw_amount :: u64
  pw_withdraw_nonce :: u64
  pw_issued_at :: i64
  pw_expires_at :: i64

record solana_runtime_config =
  sc_program_id :: pubkey
  sc_vault_token_account :: pubkey
  sc_rpc_url :: string
  sc_ws_url :: string

record vault_lifecycle =
  vl_status :: u8
  vl_successor_vault :: pubkey
  vl_exit_deadline :: i64
  vl_synced_at_ms :: i64

record settlement_record =
  sr_settlement_id :: string
  sr_client :: pubkey
  sr_provider :: pubkey
  sr_amount :: u64
  sr_timestamp :: i64

record settlement_batch_info =
  sb_batch_id :: u64
  sb_tx_signature :: string

record vault_state =
  vault_config :: pubkey
  vault_signer :: b32
  vault_signer_pubkey :: pubkey
  usdc_mint :: pubkey
  attestation_policy_hash :: b32
  solana :: solana_runtime_config
  auditor_master_secret :: b32
  auditor_epoch :: u32
  client_balances :: "(pubkey, client_balance) dashmap"
  reservations :: "(string, reservation) dashmap"
  payment_id_index :: "(string, string) dashmap"
  provider_credits :: "(string, provider_credit) dashmap"
  multi_chain_provider_credits :: "(string, multi_chain_provider_credit) dashmap"
  providers :: "(string, provider_registration) dashmap"
  settlement_history :: "(string, settlement_record) dashmap"
  settlement_batches :: "(string, settlement_batch_info) dashmap"
  pending_withdrawals :: "(u64, pending_withdrawal) dashmap"
  active_channels :: "(string, channel_state) dashmap"
  receipt_nonce :: u64
  withdraw_nonce :: u64
  snapshot_seqno :: u64
  last_batch_at :: i64
  last_finalized_slot :: u64
  lifecycle :: vault_lifecycle

type_synonym 'a vault_op = "vault_state \<Rightarrow> 'a outcome \<times> vault_state"

text \<open>
  A fresh state. The verifying key is derived from the signing key by \<open>ed25519-dalek\<close>, a
  parameter; \<open>VAULT_STATUS_ACTIVE\<close> is 0.
\<close>

definition vault_state_new ::
    "(b32 \<Rightarrow> b32) \<Rightarrow> pubkey \<Rightarrow> b32 \<Rightarrow> pubkey \<Rightarrow> b32 \<Rightarrow> solana_runtime_config \<Rightarrow> vault_state" where
  "vault_state_new verifying_key vault_cfg signing_key mint policy_hash sol =
     \<lparr>vault_config = vault_cfg, vault_signer = signing_key,
      vault_signer_pubkey = verifying_key signing_key, usdc_mint = mint,
      attestation_policy_hash = policy_hash, solana = sol, auditor_master_secret = 0,
      auditor_epoch = 0, client_balances = [], reservations = [], payment_id_index = [],
      provider_credits = [], multi_chain_provider_credits = [], providers = [],
      settlement_history = [], settlement_batches = [], pending_withdrawals = [],
      active_channels = [], receipt_nonce = 1, withdraw_nonce = 1, snapshot_seqno = 0,
      last_batch_at = 0, last_finalized_slot = 0,
      lifecycle = \<lparr>vl_status = 0, vl_successor_vault = 0, vl_exit_deadline = 0, vl_synced_at_ms = 0\<rparr>\<rparr>"

section \<open>Nonces\<close>

text \<open>\<open>AtomicU64::fetch_add\<close> returns the old value and wraps.\<close>

definition next_receipt_nonce :: "vault_state \<Rightarrow> u64 \<times> vault_state" where
  "next_receipt_nonce v = (receipt_nonce v, v\<lparr>receipt_nonce := receipt_nonce v + 1\<rparr>)"

definition next_withdraw_nonce :: "vault_state \<Rightarrow> u64 \<times> vault_state" where
  "next_withdraw_nonce v = (withdraw_nonce v, v\<lparr>withdraw_nonce := withdraw_nonce v + 1\<rparr>)"

section \<open>Client balances\<close>

definition put_balance :: "pubkey \<Rightarrow> client_balance \<Rightarrow> vault_state \<Rightarrow> vault_state" where
  "put_balance client b v = v\<lparr>client_balances := dm_insert client b (client_balances v)\<rparr>"

definition apply_deposit :: "pubkey \<Rightarrow> u64 \<Rightarrow> unit vault_op" where
  "apply_deposit client amount v =
     (let b = (case dm_get (client_balances v) client of None \<Rightarrow> default_client_balance | Some b \<Rightarrow> b)
      in case checked_add (cb_free b) amount of
           None \<Rightarrow> (Panic, put_balance client b v)
         | Some f \<Rightarrow>
        (case checked_add (cb_total_deposited b) amount of
           None \<Rightarrow> (Panic, put_balance client (b\<lparr>cb_free := f\<rparr>) v)
         | Some d \<Rightarrow> (Ok (), put_balance client (b\<lparr>cb_free := f, cb_total_deposited := d\<rparr>) v)))"

definition rollback_deposit :: "pubkey \<Rightarrow> u64 \<Rightarrow> unit vault_op" where
  "rollback_deposit client amount v =
     (case dm_get (client_balances v) client of
        None \<Rightarrow> (Err ClientNotFound, v)
      | Some b \<Rightarrow>
          (Ok (), put_balance client
             (b\<lparr>cb_free := saturating_sub (cb_free b) amount,
                cb_total_deposited := saturating_sub (cb_total_deposited b) amount\<rparr>) v))"

definition reserve_balance :: "pubkey \<Rightarrow> u64 \<Rightarrow> unit vault_op" where
  "reserve_balance client amount v =
     (case dm_get (client_balances v) client of
        None \<Rightarrow> (Err InsufficientBalance, v)
      | Some b \<Rightarrow>
          if cb_free b < amount then (Err InsufficientBalance, v)
          else let b1 = b\<lparr>cb_free := cb_free b - amount\<rparr>
               in case checked_add (cb_locked b) amount of
                    None \<Rightarrow> (Panic, put_balance client b1 v)
                  | Some l \<Rightarrow> (Ok (), put_balance client (b1\<lparr>cb_locked := l\<rparr>) v))"

definition release_balance :: "pubkey \<Rightarrow> u64 \<Rightarrow> unit vault_op" where
  "release_balance client amount v =
     (case dm_get (client_balances v) client of
        None \<Rightarrow> (Err ClientNotFound, v)
      | Some b \<Rightarrow>
          let b1 = b\<lparr>cb_locked := saturating_sub (cb_locked b) amount\<rparr>
          in case checked_add (cb_free b) amount of
               None \<Rightarrow> (Panic, put_balance client b1 v)
             | Some f \<Rightarrow> (Ok (), put_balance client (b1\<lparr>cb_free := f\<rparr>) v))"

text \<open>\<open>Iterator::max\<close> on \<open>i64\<close> values with \<open>unwrap_or(0)\<close>.\<close>

definition smax :: "i64 \<Rightarrow> i64 \<Rightarrow> i64" where
  "smax x y = (if sint x \<le> sint y then y else x)"

fun smax_list :: "i64 list \<Rightarrow> i64" where
  "smax_list [] = 0"
| "smax_list [x] = x"
| "smax_list (x # y # xs) = smax x (smax_list (y # xs))"

definition refresh_client_max_lock_expires_at :: "pubkey \<Rightarrow> i64 vault_op" where
  "refresh_client_max_lock_expires_at client v =
     (let reservation_max = smax_list (map (rs_expires_at \<circ> snd)
            (filter (\<lambda>(_, r). rs_client r = client \<and> rs_status r = Reserved) (reservations v)));
          withdrawal_max = smax_list (map (pw_expires_at \<circ> snd)
            (filter (\<lambda>(_, w). pw_client w = client) (pending_withdrawals v)));
          channel_max = smax_list (List.map_filter
            (\<lambda>(_, c). if ch_client c = client then map_option rq_expires_at (ch_active_request c) else None)
            (active_channels v));
          m = smax (smax reservation_max withdrawal_max) channel_max
      in case dm_get (client_balances v) client of
           None \<Rightarrow> (Err ClientNotFound, v)
         | Some b \<Rightarrow> (Ok m, put_balance client (b\<lparr>cb_max_lock_expires_at := m\<rparr>) v))"

section \<open>Withdrawals\<close>

definition authorize_withdrawal :: "pending_withdrawal \<Rightarrow> unit vault_op" where
  "authorize_withdrawal w v =
     (case dm_get (client_balances v) (pw_client w) of
        None \<Rightarrow> (Err ClientNotFound, v)
      | Some b \<Rightarrow>
          if cb_free b < pw_amount w then (Err InsufficientBalance, v)
          else let b1 = b\<lparr>cb_free := cb_free b - pw_amount w\<rparr>
               in case checked_add (cb_locked b) (pw_amount w) of
                    None \<Rightarrow> (Panic, put_balance (pw_client w) b1 v)
                  | Some l \<Rightarrow>
                      (Ok (), (put_balance (pw_client w) (b1\<lparr>cb_locked := l\<rparr>) v)
                         \<lparr>pending_withdrawals := dm_insert (pw_withdraw_nonce w) w (pending_withdrawals v)\<rparr>))"

definition expire_pending_withdrawal :: "u64 \<Rightarrow> pending_withdrawal vault_op" where
  "expire_pending_withdrawal nonce v =
     (case dm_get (pending_withdrawals v) nonce of
        None \<Rightarrow> (Err ReservationNotFound, v)
      | Some w \<Rightarrow>
          let v1 = v\<lparr>pending_withdrawals := dm_remove nonce (pending_withdrawals v)\<rparr>
          in case dm_get (client_balances v) (pw_client w) of
               None \<Rightarrow> (Err ClientNotFound, v1)
             | Some b \<Rightarrow>
                 let b1 = b\<lparr>cb_locked := saturating_sub (cb_locked b) (pw_amount w)\<rparr>
                 in case checked_add (cb_free b) (pw_amount w) of
                      None \<Rightarrow> (Panic, put_balance (pw_client w) b1 v1)
                    | Some f \<Rightarrow> (Ok w, put_balance (pw_client w) (b1\<lparr>cb_free := f\<rparr>) v1))"

definition rollback_authorized_withdrawal :: "u64 \<Rightarrow> pending_withdrawal vault_op" where
  "rollback_authorized_withdrawal nonce = expire_pending_withdrawal nonce"

definition apply_withdrawal :: "u64 \<Rightarrow> pending_withdrawal vault_op" where
  "apply_withdrawal nonce v =
     (case dm_get (pending_withdrawals v) nonce of
        None \<Rightarrow> (Err ReservationNotFound, v)
      | Some w \<Rightarrow>
          let v1 = v\<lparr>pending_withdrawals := dm_remove nonce (pending_withdrawals v)\<rparr>
          in case dm_get (client_balances v) (pw_client w) of
               None \<Rightarrow> (Err ClientNotFound, v1)
             | Some b \<Rightarrow>
                 let b1 = b\<lparr>cb_locked := saturating_sub (cb_locked b) (pw_amount w)\<rparr>
                 in case checked_add (cb_total_withdrawn b) (pw_amount w) of
                      None \<Rightarrow> (Err (Internal ''Withdrawal total overflow''), put_balance (pw_client w) b1 v1)
                    | Some t \<Rightarrow> (Ok w, put_balance (pw_client w) (b1\<lparr>cb_total_withdrawn := t\<rparr>) v1))"

definition rollback_applied_withdrawal :: "pending_withdrawal \<Rightarrow> unit vault_op" where
  "rollback_applied_withdrawal w v =
     (case dm_get (client_balances v) (pw_client w) of
        None \<Rightarrow> (Err ClientNotFound, v)
      | Some b \<Rightarrow>
         (case checked_add (cb_locked b) (pw_amount w) of
            None \<Rightarrow> (Panic, v)
          | Some l \<Rightarrow>
              (Ok (), (put_balance (pw_client w)
                 (b\<lparr>cb_locked := l,
                    cb_total_withdrawn := saturating_sub (cb_total_withdrawn b) (pw_amount w)\<rparr>) v)
                 \<lparr>pending_withdrawals := dm_insert (pw_withdraw_nonce w) w (pending_withdrawals v)\<rparr>)))"

section \<open>Settlement credits\<close>

text \<open>The credit is created empty first, so an overflowing addition leaves it in the map.\<close>

definition credit_provider ::
    "string \<Rightarrow> provider_registration \<Rightarrow> u64 \<Rightarrow> string \<Rightarrow> i64 \<Rightarrow> unit vault_op" where
  "credit_provider provider_id p amount settlement_id now v =
     (if is_solana_network (pr_network p) then
        let c = (case dm_get (provider_credits v) provider_id of
                   Some c \<Rightarrow> c
                 | None \<Rightarrow> \<lparr>pc_provider_id = provider_id,
                     pc_settlement_token_account = pr_settlement_token_account p,
                     pc_credited_amount = 0, pc_oldest_credit_at = now, pc_settlement_ids = []\<rparr>);
            put = (\<lambda>c. v\<lparr>provider_credits := dm_insert provider_id c (provider_credits v)\<rparr>)
        in case checked_add (pc_credited_amount c) amount of
             None \<Rightarrow> (Panic, put c)
           | Some a \<Rightarrow> (Ok (), put (c\<lparr>pc_credited_amount := a,
                                 pc_settlement_ids := pc_settlement_ids c @ [settlement_id]\<rparr>))
      else
        let c = (case dm_get (multi_chain_provider_credits v) provider_id of
                   Some c \<Rightarrow> c
                 | None \<Rightarrow> \<lparr>mc_provider_id = provider_id, mc_network = pr_network p,
                     mc_asset_id = pr_asset_id p, mc_settlement_address = pr_settlement_address p,
                     mc_credited_amount = 0, mc_oldest_credit_at = now, mc_settlement_ids = []\<rparr>);
            put = (\<lambda>c. v\<lparr>multi_chain_provider_credits :=
                          dm_insert provider_id c (multi_chain_provider_credits v)\<rparr>)
        in case checked_add (mc_credited_amount c) amount of
             None \<Rightarrow> (Panic, put c)
           | Some a \<Rightarrow> (Ok (), put (c\<lparr>mc_credited_amount := a,
                                 mc_settlement_ids := mc_settlement_ids c @ [settlement_id]\<rparr>)))"

definition settle_payment :: "pubkey \<Rightarrow> u64 \<Rightarrow> string \<Rightarrow> string \<Rightarrow> i64 \<Rightarrow> unit vault_op" where
  "settle_payment client amount provider_id settlement_id now v =
     (case dm_get (client_balances v) client of
        None \<Rightarrow> (Err ClientNotFound, v)
      | Some b \<Rightarrow>
          let v1 = put_balance client (b\<lparr>cb_locked := saturating_sub (cb_locked b) amount\<rparr>) v
          in case dm_get (providers v) provider_id of
               None \<Rightarrow> (Err ProviderNotFound, v1)
             | Some p \<Rightarrow> credit_provider provider_id p amount settlement_id now v1)"

definition uncredit_provider :: "string \<Rightarrow> provider_registration \<Rightarrow> u64 \<Rightarrow> string \<Rightarrow> unit vault_op" where
  "uncredit_provider provider_id p amount settlement_id v =
     (if is_solana_network (pr_network p) then
       (case dm_get (provider_credits v) provider_id of
          None \<Rightarrow> (Err ProviderNotFound, v)
        | Some c \<Rightarrow>
            let c' = c\<lparr>pc_credited_amount := saturating_sub (pc_credited_amount c) amount,
                       pc_settlement_ids := filter (\<lambda>s. s \<noteq> settlement_id) (pc_settlement_ids c)\<rparr>
            in (Ok (), v\<lparr>provider_credits :=
                 (if pc_credited_amount c' = 0 \<or> pc_settlement_ids c' = []
                  then dm_remove provider_id (provider_credits v)
                  else dm_insert provider_id c' (provider_credits v))\<rparr>))
      else
       (case dm_get (multi_chain_provider_credits v) provider_id of
          None \<Rightarrow> (Err ProviderNotFound, v)
        | Some c \<Rightarrow>
            let c' = c\<lparr>mc_credited_amount := saturating_sub (mc_credited_amount c) amount,
                       mc_settlement_ids := filter (\<lambda>s. s \<noteq> settlement_id) (mc_settlement_ids c)\<rparr>
            in (Ok (), v\<lparr>multi_chain_provider_credits :=
                 (if mc_credited_amount c' = 0 \<or> mc_settlement_ids c' = []
                  then dm_remove provider_id (multi_chain_provider_credits v)
                  else dm_insert provider_id c' (multi_chain_provider_credits v))\<rparr>)))"

definition rollback_settle_payment :: "pubkey \<Rightarrow> u64 \<Rightarrow> string \<Rightarrow> string \<Rightarrow> unit vault_op" where
  "rollback_settle_payment client amount provider_id settlement_id v =
     (case dm_get (client_balances v) client of
        None \<Rightarrow> (Err ClientNotFound, v)
      | Some b \<Rightarrow>
         (case checked_add (cb_locked b) amount of
            None \<Rightarrow> (Panic, v)
          | Some l \<Rightarrow>
              let v1 = put_balance client (b\<lparr>cb_locked := l\<rparr>) v
              in case dm_get (providers v) provider_id of
                   None \<Rightarrow> (Ok (), v1)
                 | Some p \<Rightarrow> uncredit_provider provider_id p amount settlement_id v1))"

section \<open>Batch confirmation\<close>

text \<open>
  \<open>apply_batch_confirmation\<close> handles one settlement id after the other: the first reservation
  that carries the id (in iteration order) is marked batched and its amount leaves the
  provider's credits; an id without a reservation (a channel close) is only taken off the
  first credit that lists it. The provider ids touched are collected in a set, a list without
  duplicates here.
\<close>

definition strip_pc :: "string \<Rightarrow> provider_credit \<Rightarrow> provider_credit" where
  "strip_pc sid c = c\<lparr>pc_settlement_ids := filter (\<lambda>s. s \<noteq> sid) (pc_settlement_ids c)\<rparr>"

definition strip_mc :: "string \<Rightarrow> multi_chain_provider_credit \<Rightarrow> multi_chain_provider_credit" where
  "strip_mc sid c = c\<lparr>mc_settlement_ids := filter (\<lambda>s. s \<noteq> sid) (mc_settlement_ids c)\<rparr>"

definition debit_pc :: "u64 \<Rightarrow> provider_credit \<Rightarrow> provider_credit" where
  "debit_pc amount c = c\<lparr>pc_credited_amount := saturating_sub (pc_credited_amount c) amount\<rparr>"

definition debit_mc :: "u64 \<Rightarrow> multi_chain_provider_credit \<Rightarrow> multi_chain_provider_credit" where
  "debit_mc amount c = c\<lparr>mc_credited_amount := saturating_sub (mc_credited_amount c) amount\<rparr>"

text \<open>\<open>get_mut\<close> followed by an update of the entry, when there is one.\<close>

definition dm_modify :: "'k \<Rightarrow> ('v \<Rightarrow> 'v) \<Rightarrow> ('k, 'v) dashmap \<Rightarrow> ('k, 'v) dashmap" where
  "dm_modify k f m = (case dm_get m k of None \<Rightarrow> m | Some v \<Rightarrow> dm_insert k (f v) m)"

definition confirm_reserved :: "string \<Rightarrow> string \<Rightarrow> reservation \<Rightarrow> vault_state \<Rightarrow> vault_state" where
  "confirm_reserved sid key r v =
     v\<lparr>provider_credits := dm_modify (rs_provider_id r) (strip_pc sid \<circ> debit_pc (rs_amount r)) (provider_credits v),
       multi_chain_provider_credits := dm_modify (rs_provider_id r) (strip_mc sid \<circ> debit_mc (rs_amount r))
         (multi_chain_provider_credits v),
       reservations := dm_insert key (r\<lparr>rs_status := BatchedOnchain\<rparr>) (reservations v)\<rparr>"

definition confirm_one ::
    "u64 \<Rightarrow> string \<Rightarrow> string \<Rightarrow> string list \<times> vault_state \<Rightarrow> string list \<times> vault_state" where
  "confirm_one batch_id tx_signature sid =
     (\<lambda>(affected, v).
        let v = v\<lparr>settlement_history := dm_remove sid (settlement_history v),
                  settlement_batches := dm_insert sid \<lparr>sb_batch_id = batch_id, sb_tx_signature = tx_signature\<rparr>
                    (settlement_batches v)\<rparr>
        in case find (\<lambda>(_, r). rs_settlement_id r = Some sid) (reservations v) of
             Some (key, r) \<Rightarrow> (List.insert (rs_provider_id r) affected, confirm_reserved sid key r v)
           | None \<Rightarrow>
               let (affected, v) =
                     (case find (\<lambda>(_, c). sid \<in> set (pc_settlement_ids c)) (provider_credits v) of
                        None \<Rightarrow> (affected, v)
                      | Some (k, c) \<Rightarrow> (List.insert (pc_provider_id c) affected,
                          v\<lparr>provider_credits := dm_insert k (strip_pc sid c) (provider_credits v)\<rparr>))
               in (case find (\<lambda>(_, c). sid \<in> set (mc_settlement_ids c)) (multi_chain_provider_credits v) of
                     None \<Rightarrow> (affected, v)
                   | Some (k, c) \<Rightarrow> (List.insert (mc_provider_id c) affected,
                       v\<lparr>multi_chain_provider_credits :=
                           dm_insert k (strip_mc sid c) (multi_chain_provider_credits v)\<rparr>)))"

definition pc_spent :: "(string, provider_credit) dashmap \<Rightarrow> string \<Rightarrow> bool" where
  "pc_spent m k = (case dm_get m k of None \<Rightarrow> False
     | Some c \<Rightarrow> pc_credited_amount c = 0 \<or> pc_settlement_ids c = [])"

definition mc_spent :: "(string, multi_chain_provider_credit) dashmap \<Rightarrow> string \<Rightarrow> bool" where
  "mc_spent m k = (case dm_get m k of None \<Rightarrow> False
     | Some c \<Rightarrow> mc_credited_amount c = 0 \<or> mc_settlement_ids c = [])"

text \<open>\<open>Iterator::min\<close> on \<open>i64\<close> values.\<close>

fun smin_list :: "i64 list \<Rightarrow> i64 option" where
  "smin_list [] = None"
| "smin_list (x # xs) = (case smin_list xs of None \<Rightarrow> Some x
     | Some y \<Rightarrow> Some (if sint y < sint x then y else x))"

definition oldest_of :: "(string, settlement_record) dashmap \<Rightarrow> string list \<Rightarrow> i64 option" where
  "oldest_of history sids = smin_list (List.map_filter (\<lambda>s. map_option sr_timestamp (dm_get history s)) sids)"

definition refresh_oldest :: "string \<Rightarrow> vault_state \<Rightarrow> vault_state" where
  "refresh_oldest provider_id v =
     v\<lparr>provider_credits := dm_modify provider_id
         (\<lambda>c. case oldest_of (settlement_history v) (pc_settlement_ids c) of
                None \<Rightarrow> c | Some t \<Rightarrow> c\<lparr>pc_oldest_credit_at := t\<rparr>) (provider_credits v),
       multi_chain_provider_credits := dm_modify provider_id
         (\<lambda>c. case oldest_of (settlement_history v) (mc_settlement_ids c) of
                None \<Rightarrow> c | Some t \<Rightarrow> c\<lparr>mc_oldest_credit_at := t\<rparr>) (multi_chain_provider_credits v)\<rparr>"

definition apply_batch_confirmation :: "string list \<Rightarrow> u64 \<Rightarrow> string \<Rightarrow> vault_state \<Rightarrow> vault_state" where
  "apply_batch_confirmation settlement_ids batch_id tx_signature v =
     (let (affected, v) = fold (confirm_one batch_id tx_signature) settlement_ids ([], v);
          gone = filter (pc_spent (provider_credits v)) affected;
          v = v\<lparr>provider_credits := fold dm_remove gone (provider_credits v)\<rparr>;
          affected = filter (\<lambda>p. p \<notin> set gone) affected;
          mc_gone = filter (mc_spent (multi_chain_provider_credits v)) affected;
          v = v\<lparr>multi_chain_provider_credits := fold dm_remove mc_gone (multi_chain_provider_credits v)\<rparr>;
          affected = filter (\<lambda>p. p \<notin> set mc_gone) affected
      in fold refresh_oldest affected v)"

section \<open>Signed messages\<close>

definition sign_message :: "(b32 \<Rightarrow> bytes \<Rightarrow> b64) \<Rightarrow> bytes \<Rightarrow> vault_state \<Rightarrow> b64" where
  "sign_message ed25519_sign message v = ed25519_sign (vault_signer v) message"

definition build_participant_receipt_message ::
    "vault_state \<Rightarrow> pubkey \<Rightarrow> u8 \<Rightarrow> pubkey \<Rightarrow> u64 \<Rightarrow> u64 \<Rightarrow> i64 \<Rightarrow> u64 \<Rightarrow> i64 \<Rightarrow> u64 \<Rightarrow> bytes" where
  "build_participant_receipt_message v participant participant_kind recipient_ata free_balance
     locked_balance max_lock_expires_at nonce timestamp seqno =
     word_bytes participant @ [participant_kind] @ word_bytes recipient_ata
     @ word_bytes free_balance @ word_bytes locked_balance @ word_bytes max_lock_expires_at
     @ word_bytes nonce @ word_bytes timestamp @ word_bytes seqno @ word_bytes (vault_config v)"

definition build_withdraw_authorization_message ::
    "vault_state \<Rightarrow> pubkey \<Rightarrow> pubkey \<Rightarrow> u64 \<Rightarrow> u64 \<Rightarrow> i64 \<Rightarrow> bytes" where
  "build_withdraw_authorization_message v client recipient_ata amount nonce expires_at =
     word_bytes client @ word_bytes recipient_ata @ word_bytes amount @ word_bytes nonce
     @ word_bytes expires_at @ word_bytes (vault_config v)"

end
