(* ===== verification/Asc_Claim.thy ===== *)
theory Asc_Claim
  imports Codec
begin

text \<open>
  The signed messages of an atomic service channel
  (\<open>programs/a402_vault/src/asc_claim.rs\<close>), shared by the enclave, which builds them, and by
  the on-chain program, which parses them: the payment message the provider signs and the
  claim voucher the vault signs. SHA-256 is a parameter.
\<close>

section \<open>Definitions\<close>

definition ASC_CLAIM_VOUCHER_PREFIX :: string where
  "ASC_CLAIM_VOUCHER_PREFIX = ''A402-ASC-CLAIM-VOUCHER''"

definition ASC_PAYMENT_MESSAGE_PREFIX :: string where
  "ASC_PAYMENT_MESSAGE_PREFIX = ''a402-asc-pay-v1''"

definition ASC_CLAIM_VOUCHER_PREFIX_WITH_NUL_LEN :: nat where
  "ASC_CLAIM_VOUCHER_PREFIX_WITH_NUL_LEN = length ASC_CLAIM_VOUCHER_PREFIX + 1"

definition ASC_CLAIM_VOUCHER_MESSAGE_LEN :: nat where
  "ASC_CLAIM_VOUCHER_MESSAGE_LEN =
     ASC_CLAIM_VOUCHER_PREFIX_WITH_NUL_LEN + 32 + 32 + 8 + 32 + 32 + 8 + 32"

record asc_claim_voucher_fields =
  v_channel_id_hash :: b32
  v_request_id_hash :: b32
  v_amount :: u64
  v_request_hash :: b32
  v_provider_pubkey :: b32
  v_issued_at :: i64
  v_vault_config :: b32

definition hash_identifier :: "(bytes \<Rightarrow> b32) \<Rightarrow> string \<Rightarrow> b32" where
  "hash_identifier sha256 value = sha256 (str_bytes value)"

definition build_asc_payment_message_from_hashes :: "b32 \<Rightarrow> b32 \<Rightarrow> u64 \<Rightarrow> b32 \<Rightarrow> bytes" where
  "build_asc_payment_message_from_hashes channel_id_hash request_id_hash amount request_hash =
     str_bytes ASC_PAYMENT_MESSAGE_PREFIX @ word_bytes channel_id_hash
     @ word_bytes request_id_hash @ word_bytes amount @ word_bytes request_hash"

definition build_asc_payment_message ::
    "(bytes \<Rightarrow> b32) \<Rightarrow> string \<Rightarrow> string \<Rightarrow> u64 \<Rightarrow> b32 \<Rightarrow> bytes" where
  "build_asc_payment_message sha256 channel_id request_id amount request_hash =
     build_asc_payment_message_from_hashes (hash_identifier sha256 channel_id)
       (hash_identifier sha256 request_id) amount request_hash"

definition build_asc_claim_voucher_message :: "asc_claim_voucher_fields \<Rightarrow> bytes" where
  "build_asc_claim_voucher_message f =
     str_bytes ASC_CLAIM_VOUCHER_PREFIX @ [0] @ word_bytes (v_channel_id_hash f)
     @ word_bytes (v_request_id_hash f) @ word_bytes (v_amount f) @ word_bytes (v_request_hash f)
     @ word_bytes (v_provider_pubkey f) @ word_bytes (v_issued_at f) @ word_bytes (v_vault_config f)"

text \<open>
  The parser reads the fields one after the other from the bytes behind the prefix; the
  \<open>take_32\<close> closure and the two 8-byte reads of the source advance one offset, which is the
  rest of the input here.
\<close>

definition parse_asc_claim_voucher_message :: "bytes \<Rightarrow> asc_claim_voucher_fields option" where
  "parse_asc_claim_voucher_message message =
     (if length message \<noteq> ASC_CLAIM_VOUCHER_MESSAGE_LEN then None
      else
        let expected_prefix = str_bytes ASC_CLAIM_VOUCHER_PREFIX @ [0];
            prefix = take ASC_CLAIM_VOUCHER_PREFIX_WITH_NUL_LEN message;
            rest = drop ASC_CLAIM_VOUCHER_PREFIX_WITH_NUL_LEN message
        in if prefix \<noteq> expected_prefix then None
        else case take_word rest of None \<Rightarrow> None | Some (channel_id_hash, rest) \<Rightarrow>
          (case take_word rest of None \<Rightarrow> None | Some (request_id_hash, rest) \<Rightarrow>
          (case take_word rest of None \<Rightarrow> None | Some (amount, rest) \<Rightarrow>
          (case take_word rest of None \<Rightarrow> None | Some (request_hash, rest) \<Rightarrow>
          (case take_word rest of None \<Rightarrow> None | Some (provider_pubkey, rest) \<Rightarrow>
          (case take_word rest of None \<Rightarrow> None | Some (issued_at, rest) \<Rightarrow>
          (case take_word rest of None \<Rightarrow> None | Some (vault_config, rest) \<Rightarrow>
             Some \<lparr>v_channel_id_hash = channel_id_hash, v_request_id_hash = request_id_hash,
                   v_amount = amount, v_request_hash = request_hash,
                   v_provider_pubkey = provider_pubkey, v_issued_at = issued_at,
                   v_vault_config = vault_config\<rparr>)))))))"

section \<open>Lemmas\<close>

lemma length_str_bytes [simp]: "length (str_bytes s) = length s"
  by (simp add: str_bytes_def)

lemma voucher_prefix_len [simp]: "ASC_CLAIM_VOUCHER_PREFIX_WITH_NUL_LEN = 23"
  by (simp add: ASC_CLAIM_VOUCHER_PREFIX_WITH_NUL_LEN_def ASC_CLAIM_VOUCHER_PREFIX_def)

lemma length_voucher_prefix [simp]: "length ASC_CLAIM_VOUCHER_PREFIX = 22"
  by (simp add: ASC_CLAIM_VOUCHER_PREFIX_def)

lemma length_build_voucher:
  "length (build_asc_claim_voucher_message f) = ASC_CLAIM_VOUCHER_MESSAGE_LEN"
  by (simp add: build_asc_claim_voucher_message_def ASC_CLAIM_VOUCHER_MESSAGE_LEN_def)

lemma payment_message_inj:
  assumes "build_asc_payment_message_from_hashes c r a h = build_asc_payment_message_from_hashes c' r' a' h'"
  shows "c = c' \<and> r = r' \<and> a = a' \<and> h = h'"
proof -
  from assms have eq: "word_bytes c @ word_bytes r @ word_bytes a @ word_bytes h
      = word_bytes c' @ word_bytes r' @ word_bytes a' @ word_bytes h'"
    by (simp add: build_asc_payment_message_from_hashes_def)
  from b32_codec.prefix_free [OF eq] have "c = c'"
    and eq: "word_bytes r @ word_bytes a @ word_bytes h = word_bytes r' @ word_bytes a' @ word_bytes h'"
    by auto
  moreover from b32_codec.prefix_free [OF eq] have "r = r'"
    and eq: "word_bytes a @ word_bytes h = word_bytes a' @ word_bytes h'"
    by auto
  moreover from u64_codec.prefix_free [OF eq] have "a = a'" and "word_bytes h = word_bytes h'"
    by auto
  ultimately show ?thesis by (auto dest: b32_codec.enc_inj)
qed

lemma parse_voucher_build:
  "parse_asc_claim_voucher_message (build_asc_claim_voucher_message f) = Some f"
  using length_build_voucher [of f]
  by (simp add: parse_asc_claim_voucher_message_def)
    (simp add: build_asc_claim_voucher_message_def word_codec_dec Let_def
      b32_codec.dec_enc [of _ "[]", simplified])

lemma parse_voucher_sound:
  assumes "parse_asc_claim_voucher_message message = Some f"
  shows "message = build_asc_claim_voucher_message f"
proof -
  let ?rest = "drop 23 message"
  from assms have len: "length message = ASC_CLAIM_VOUCHER_MESSAGE_LEN"
    and pre: "take 23 message = str_bytes ASC_CLAIM_VOUCHER_PREFIX @ [0]"
    by (auto simp: parse_asc_claim_voucher_message_def Let_def split: if_splits)
  from assms len pre obtain r1 r2 r3 r4 r5 r6 r7 where
      r: "take_word ?rest = Some (v_channel_id_hash f, r1)" "take_word r1 = Some (v_request_id_hash f, r2)"
         "take_word r2 = Some (v_amount f, r3)" "take_word r3 = Some (v_request_hash f, r4)"
         "take_word r4 = Some (v_provider_pubkey f, r5)" "take_word r5 = Some (v_issued_at f, r6)"
         "take_word r6 = Some (v_vault_config f, r7)"
    by (auto simp: parse_asc_claim_voucher_message_def Let_def split: if_splits option.splits)
  have "?rest = word_bytes (v_channel_id_hash f) @ word_bytes (v_request_id_hash f)
      @ word_bytes (v_amount f) @ word_bytes (v_request_hash f) @ word_bytes (v_provider_pubkey f)
      @ word_bytes (v_issued_at f) @ word_bytes (v_vault_config f) @ r7"
    using r by (simp add: word_codec_sound)
  with pre have msg: "message = build_asc_claim_voucher_message f @ r7"
    using append_take_drop_id [of 23 message] by (simp add: build_asc_claim_voucher_message_def)
  with len length_build_voucher [of f] show ?thesis by simp
qed

text \<open>Reading a voucher from the front of a buffer, as the codec interface has it.\<close>

definition take_voucher :: "bytes \<Rightarrow> (asc_claim_voucher_fields \<times> bytes) option" where
  "take_voucher bs =
     map_option (\<lambda>f. (f, drop ASC_CLAIM_VOUCHER_MESSAGE_LEN bs))
       (parse_asc_claim_voucher_message (take ASC_CLAIM_VOUCHER_MESSAGE_LEN bs))"

interpretation voucher_codec: codec build_asc_claim_voucher_message take_voucher
proof
  fix f rest
  show "take_voucher (build_asc_claim_voucher_message f @ rest) = Some (f, rest)"
    by (simp add: take_voucher_def length_build_voucher parse_voucher_build)
next
  fix bs f rest
  assume "take_voucher bs = Some (f, rest)"
  then show "bs = build_asc_claim_voucher_message f @ rest"
    using append_take_drop_id [of ASC_CLAIM_VOUCHER_MESSAGE_LEN bs]
    by (auto simp: take_voucher_def dest!: parse_voucher_sound)
qed

text \<open>
  A claim voucher is read back exactly: parsing accepts a message if and only if it
  is the encoding of the fields it returns.
\<close>

theorem voucher_roundtrip:
  "parse_asc_claim_voucher_message message = Some f \<longleftrightarrow> message = build_asc_claim_voucher_message f"
  by (auto simp: parse_voucher_build dest: parse_voucher_sound)

end
