(* ===== verification/Asc_Manager.thy ===== *)
theory Asc_Manager
  imports Enclave_State Asc_Claim
begin

text \<open>
  The lifecycle of an atomic service channel (\<open>enclave/src/asc_manager.rs\<close>): open, submit a
  request, deliver the adaptor pre-signature, finalise with the revealed secret (off-chain or
  recovered from an on-chain claim), expire, close, and the rollback of each step that the
  HTTP handlers run when the write-ahead log cannot be written. The wall clock
  (\<open>Utc::now().timestamp()\<close>), fresh UUIDs, the curve and SHA-256 are arguments.
\<close>

unbundle bit_operations_syntax

section \<open>Results of the operations\<close>

definition REQUEST_EXPIRY_SEC :: i64 where
  "REQUEST_EXPIRY_SEC = 120"

record finalize_outcome =
  fo_request_id :: string
  fo_result_bytes :: bytes
  fo_amount :: u64
  fo_request :: channel_request

record close_outcome =
  co_client :: pubkey
  co_provider_id :: string
  co_returned_to_client :: u64
  co_provider_earned :: u64
  co_settlement_id :: "string option"
  co_closed_channel :: channel_state
  co_previous_provider_credit :: "provider_credit option"

record expired_request_outcome =
  eo_channel_id :: string
  eo_client :: pubkey
  eo_previous_status :: channel_status
  eo_request :: channel_request

record 'p pending_request_crypto_material =
  pm_request :: channel_request
  pm_pre_sig :: adaptor_pre_signature
  pm_adaptor_point :: 'p
  pm_provider_pubkey :: b32

section \<open>Helpers\<close>

definition put_channel :: "string \<Rightarrow> channel_state \<Rightarrow> vault_state \<Rightarrow> vault_state" where
  "put_channel channel_id ch v = v\<lparr>active_channels := dm_insert channel_id ch (active_channels v)\<rparr>"

fun debug_status :: "channel_status \<Rightarrow> string" where
  "debug_status ChOpen = ''Open''"
| "debug_status ChLocked = ''Locked''"
| "debug_status ChPending = ''Pending''"
| "debug_status ChClosed = ''Closed''"

definition invalid_status :: "string \<Rightarrow> channel_status \<Rightarrow> enclave_error" where
  "invalid_status expected st = InvalidChannelStatus (''expected '' @ expected @ '', got '' @ debug_status st)"

definition build_payment_message :: "(bytes \<Rightarrow> b32) \<Rightarrow> string \<Rightarrow> string \<Rightarrow> u64 \<Rightarrow> b32 \<Rightarrow> bytes" where
  "build_payment_message sha256 channel_id request_id amount request_hash =
     build_asc_payment_message sha256 channel_id request_id amount request_hash"

text \<open>The keystream block of index \<open>i\<close> is \<open>SHA256("a402-asc-enc-v1" || key || i)\<close>.\<close>

definition keystream_block :: "(bytes \<Rightarrow> b32) \<Rightarrow> b32 \<Rightarrow> u64 \<Rightarrow> bytes" where
  "keystream_block sha256 key block_idx =
     word_bytes (sha256 (str_bytes ''a402-asc-enc-v1'' @ word_bytes key @ word_bytes block_idx))"

function decrypt_blocks :: "(bytes \<Rightarrow> b32) \<Rightarrow> b32 \<Rightarrow> u64 \<Rightarrow> bytes \<Rightarrow> bytes" where
  "decrypt_blocks sha256 key block_idx ciphertext =
     (if ciphertext = [] then []
      else map2 (XOR) (take 32 ciphertext) (keystream_block sha256 key block_idx)
           @ decrypt_blocks sha256 key (block_idx + 1) (drop 32 ciphertext))"
  by pat_completeness auto
termination
  by (relation "measure (\<lambda>(_, _, _, ciphertext). length ciphertext)") auto

declare decrypt_blocks.simps [simp del]

definition decrypt_with_scalar :: "(bytes \<Rightarrow> b32) \<Rightarrow> bytes \<Rightarrow> b32 \<Rightarrow> bytes" where
  "decrypt_with_scalar sha256 ciphertext key = decrypt_blocks sha256 key 0 ciphertext"

definition encrypt_with_scalar :: "(bytes \<Rightarrow> b32) \<Rightarrow> bytes \<Rightarrow> b32 \<Rightarrow> bytes" where
  "encrypt_with_scalar sha256 plaintext key = decrypt_with_scalar sha256 plaintext key"

section \<open>Opening a channel\<close>

definition open_channel_with_id :: "i64 \<Rightarrow> string \<Rightarrow> pubkey \<Rightarrow> string \<Rightarrow> u64 \<Rightarrow> unit vault_op" where
  "open_channel_with_id now channel_id client provider_id initial_deposit v =
     (case dm_get (providers v) provider_id of None \<Rightarrow> (Err ProviderNotFound, v)
      | Some _ \<Rightarrow>
     (case dm_get (client_balances v) client of None \<Rightarrow> (Err InsufficientBalance, v)
      | Some balance \<Rightarrow>
          if cb_free balance < initial_deposit then (Err InsufficientBalance, v)
          else
            let channel = \<lparr>ch_channel_id = channel_id, ch_client = client, ch_provider_id = provider_id,
                  ch_balance = \<lparr>client_free = initial_deposit, client_locked = 0, provider_earned = 0\<rparr>,
                  ch_status = ChOpen, ch_nonce = 0, ch_created_at = now, ch_updated_at = now,
                  ch_used_request_ids = {}, ch_active_request = None\<rparr>
            in case reserve_balance client initial_deposit v of
                 (Ok _, v1) \<Rightarrow> (Ok (), put_channel channel_id channel v1)
               | (Err e, v1) \<Rightarrow> (Err e, v1)
               | (Panic, v1) \<Rightarrow> (Panic, v1)))"

definition open_channel :: "i64 \<Rightarrow> string \<Rightarrow> pubkey \<Rightarrow> string \<Rightarrow> u64 \<Rightarrow> string vault_op" where
  "open_channel now uuid client provider_id initial_deposit v =
     (let channel_id = ''ch_'' @ uuid
      in case open_channel_with_id now channel_id client provider_id initial_deposit v of
           (Ok _, v1) \<Rightarrow> (Ok channel_id, v1)
         | (Err e, v1) \<Rightarrow> (Err e, v1)
         | (Panic, v1) \<Rightarrow> (Panic, v1))"

text \<open>A sum of three balances; an overflow panics.\<close>

definition channel_total :: "channel_balance \<Rightarrow> u64 option" where
  "channel_total b =
     (case checked_add (client_free b) (client_locked b) of None \<Rightarrow> None
      | Some x \<Rightarrow> checked_add x (provider_earned b))"

definition rollback_open_channel :: "string \<Rightarrow> unit vault_op" where
  "rollback_open_channel channel_id v =
     (case dm_get (active_channels v) channel_id of None \<Rightarrow> (Err ChannelNotFound, v)
      | Some channel \<Rightarrow>
          let v1 = v\<lparr>active_channels := dm_remove channel_id (active_channels v)\<rparr>
          in case channel_total (ch_balance channel) of None \<Rightarrow> (Panic, v1)
             | Some total_channel_amount \<Rightarrow>
                 if 0 < total_channel_amount then
                   (case release_balance (ch_client channel) total_channel_amount v1 of
                      (Ok _, v2) \<Rightarrow> (Ok (), v2) | (Err e, v2) \<Rightarrow> (Err e, v2) | (Panic, v2) \<Rightarrow> (Panic, v2))
                 else (Ok (), v1))"

section \<open>Requests\<close>

definition submit_request :: "i64 \<Rightarrow> string \<Rightarrow> string \<Rightarrow> u64 \<Rightarrow> b32 \<Rightarrow> unit vault_op" where
  "submit_request now channel_id request_id amount request_hash v =
     (case dm_get (active_channels v) channel_id of None \<Rightarrow> (Err ChannelNotFound, v)
      | Some ch \<Rightarrow>
          if ch_status ch \<noteq> ChOpen then (Err (invalid_status ''Open'' (ch_status ch)), v)
          else if request_id \<in> ch_used_request_ids ch then (Err ChannelRequestIdReused, v)
          else if client_free (ch_balance ch) < amount then (Err InsufficientBalance, v)
          else
            let b1 = (ch_balance ch)\<lparr>client_free := client_free (ch_balance ch) - amount\<rparr>
            in case checked_add (client_locked b1) amount of
                 None \<Rightarrow> (Panic, put_channel channel_id (ch\<lparr>ch_balance := b1\<rparr>) v)
               | Some l \<Rightarrow>
            let ch2 = ch\<lparr>ch_balance := b1\<lparr>client_locked := l\<rparr>, ch_status := ChLocked\<rparr>
            in (case checked_add (ch_nonce ch) 1 of
                 None \<Rightarrow> (Panic, put_channel channel_id ch2 v)
               | Some n \<Rightarrow>
            let ch3 = ch2\<lparr>ch_nonce := n, ch_updated_at := now,
                          ch_used_request_ids := insert request_id (ch_used_request_ids ch)\<rparr>
            in (case checked_sadd now REQUEST_EXPIRY_SEC of
                 None \<Rightarrow> (Panic, put_channel channel_id ch3 v)
               | Some expires \<Rightarrow>
                   (Ok (), put_channel channel_id (ch3\<lparr>ch_active_request :=
                      Some \<lparr>rq_request_id = request_id, rq_amount = amount, rq_request_hash = request_hash,
                            rq_provider_pubkey = None, rq_adaptor_point = None, rq_provider_pre_sig = None,
                            rq_encrypted_result = None, rq_result_hash = None, rq_created_at = now,
                            rq_expires_at = expires\<rparr>\<rparr>) v))))"

definition rollback_submit_request :: "i64 \<Rightarrow> string \<Rightarrow> string \<Rightarrow> unit vault_op" where
  "rollback_submit_request now channel_id request_id v =
     (case dm_get (active_channels v) channel_id of None \<Rightarrow> (Err ChannelNotFound, v)
      | Some ch \<Rightarrow>
     (case ch_active_request ch of None \<Rightarrow> (Err ChannelNotFound, v)
      | Some request \<Rightarrow>
          if rq_request_id request \<noteq> request_id then (Err ChannelNotFound, v)
          else
            let amount = rq_amount request;
                b1 = (ch_balance ch)\<lparr>client_locked := saturating_sub (client_locked (ch_balance ch)) amount\<rparr>
            in case checked_add (client_free b1) amount of
                 None \<Rightarrow> (Panic, put_channel channel_id (ch\<lparr>ch_balance := b1\<rparr>) v)
               | Some f \<Rightarrow>
                   (Ok (), put_channel channel_id
                      (ch\<lparr>ch_balance := b1\<lparr>client_free := f\<rparr>, ch_status := ChOpen, ch_active_request := None,
                         ch_nonce := saturating_sub (ch_nonce ch) 1, ch_updated_at := now,
                         ch_used_request_ids := ch_used_request_ids ch - {request_id}\<rparr>) v)))"

definition deliver_adaptor ::
    "('p, 's) curve \<Rightarrow> (bytes \<Rightarrow> b32) \<Rightarrow> i64 \<Rightarrow> string \<Rightarrow> b32 \<Rightarrow> adaptor_pre_signature \<Rightarrow> bytes \<Rightarrow> b32
       \<Rightarrow> b32 \<Rightarrow> unit vault_op" where
  "deliver_adaptor C sha256 now channel_id adaptor_point_bytes pre_sig encrypted_result result_hash provider_pubkey v =
     (case dm_get (active_channels v) channel_id of None \<Rightarrow> (Err ChannelNotFound, v)
      | Some ch \<Rightarrow>
          if ch_status ch \<noteq> ChLocked then (Err (invalid_status ''Locked'' (ch_status ch)), v)
          else case ch_active_request ch of None \<Rightarrow> (Err ChannelNotFound, v)
          | Some request \<Rightarrow>
          if sint (rq_expires_at request) < sint now then (Err ChannelRequestExpired, v)
          else case decompress C adaptor_point_bytes of None \<Rightarrow> (Err InvalidAdaptorSignature, v)
          | Some adaptor_point \<Rightarrow>
            let message = build_payment_message sha256 (ch_channel_id ch) (rq_request_id request)
                  (rq_amount request) (rq_request_hash request)
            in if \<not> pre_verify C provider_pubkey message adaptor_point pre_sig
               then (Err InvalidAdaptorSignature, v)
               else
                 let request' = request\<lparr>rq_provider_pubkey := Some provider_pubkey,
                       rq_adaptor_point := Some adaptor_point_bytes, rq_provider_pre_sig := Some pre_sig,
                       rq_encrypted_result := Some encrypted_result, rq_result_hash := Some result_hash\<rparr>;
                     ch1 = ch\<lparr>ch_active_request := Some request', ch_status := ChPending\<rparr>
                 in case checked_add (ch_nonce ch) 1 of
                      None \<Rightarrow> (Panic, put_channel channel_id ch1 v)
                    | Some n \<Rightarrow> (Ok (), put_channel channel_id (ch1\<lparr>ch_nonce := n, ch_updated_at := now\<rparr>) v))"

definition rollback_deliver_adaptor :: "i64 \<Rightarrow> string \<Rightarrow> string \<Rightarrow> unit vault_op" where
  "rollback_deliver_adaptor now channel_id request_id v =
     (case dm_get (active_channels v) channel_id of None \<Rightarrow> (Err ChannelNotFound, v)
      | Some ch \<Rightarrow>
          if ch_status ch \<noteq> ChPending then (Err (invalid_status ''Pending'' (ch_status ch)), v)
          else case ch_active_request ch of None \<Rightarrow> (Err ChannelNotFound, v)
          | Some request \<Rightarrow>
          if rq_request_id request \<noteq> request_id then (Err ChannelNotFound, v)
          else (Ok (), put_channel channel_id
                 (ch\<lparr>ch_active_request := Some (request\<lparr>rq_provider_pubkey := None, rq_adaptor_point := None,
                       rq_provider_pre_sig := None, rq_encrypted_result := None, rq_result_hash := None\<rparr>),
                     ch_status := ChLocked, ch_nonce := saturating_sub (ch_nonce ch) 1,
                     ch_updated_at := now\<rparr>) v))"

section \<open>Finalisation\<close>

text \<open>The payment step itself: locked funds become the provider's earnings.\<close>

definition pay_out :: "i64 \<Rightarrow> string \<Rightarrow> channel_state \<Rightarrow> u64 \<Rightarrow> 'a \<Rightarrow> 'a vault_op" where
  "pay_out now channel_id ch amount result v =
     (case checked_sub (client_locked (ch_balance ch)) amount of None \<Rightarrow> (Panic, v)
      | Some l \<Rightarrow>
          let b1 = (ch_balance ch)\<lparr>client_locked := l\<rparr>
          in case checked_add (provider_earned b1) amount of
               None \<Rightarrow> (Panic, put_channel channel_id (ch\<lparr>ch_balance := b1\<rparr>) v)
             | Some e \<Rightarrow>
                 let ch1 = ch\<lparr>ch_balance := b1\<lparr>provider_earned := e\<rparr>, ch_status := ChOpen,
                              ch_active_request := None\<rparr>
                 in (case checked_add (ch_nonce ch) 1 of
                       None \<Rightarrow> (Panic, put_channel channel_id ch1 v)
                     | Some n \<Rightarrow> (Ok result, put_channel channel_id (ch1\<lparr>ch_nonce := n, ch_updated_at := now\<rparr>) v)))"

definition finalize_with_secret ::
    "('p, 's) curve \<Rightarrow> (bytes \<Rightarrow> b32) \<Rightarrow> i64 \<Rightarrow> string \<Rightarrow> 's \<Rightarrow> b32 option \<Rightarrow> finalize_outcome vault_op" where
  "finalize_with_secret C sha256 now channel_id adaptor_secret secret_bytes_override v =
     (case dm_get (active_channels v) channel_id of None \<Rightarrow> (Err ChannelNotFound, v)
      | Some ch \<Rightarrow>
          if ch_status ch \<noteq> ChPending then (Err (invalid_status ''Pending'' (ch_status ch)), v)
          else case ch_active_request ch of None \<Rightarrow> (Err ChannelNotFound, v)
          | Some request \<Rightarrow>
         (case rq_provider_pre_sig request of None \<Rightarrow> (Err InvalidAdaptorSignature, v)
          | Some pre_sig \<Rightarrow>
         (case rq_adaptor_point request of None \<Rightarrow> (Err InvalidAdaptorSignature, v)
          | Some adaptor_point_bytes \<Rightarrow>
         (case decompress C adaptor_point_bytes of None \<Rightarrow> (Err InvalidAdaptorSignature, v)
          | Some adaptor_point \<Rightarrow>
         (case rq_provider_pubkey request of None \<Rightarrow> (Err InvalidAdaptorSignature, v)
          | Some provider_pubkey \<Rightarrow>
          if adaptor_point \<noteq> smul C adaptor_secret (basepoint C) then (Err InvalidAdaptorSignature, v)
          else case adapt C pre_sig adaptor_secret adaptor_point of None \<Rightarrow> (Err InvalidAdaptorSignature, v)
          | Some full_sig \<Rightarrow>
            let message = build_payment_message sha256 (ch_channel_id ch) (rq_request_id request)
                  (rq_amount request) (rq_request_hash request)
            in if \<not> verify_adapted C provider_pubkey message full_sig then (Err InvalidAdaptorSignature, v)
               else case rq_encrypted_result request of None \<Rightarrow> (Err ChannelNotFound, v)
               | Some encrypted_result \<Rightarrow>
                 let secret_bytes = (case secret_bytes_override of Some b \<Rightarrow> b
                                     | None \<Rightarrow> scalar_bytes C adaptor_secret);
                     decrypted = decrypt_with_scalar sha256 encrypted_result secret_bytes
                 in if (case rq_result_hash request of None \<Rightarrow> False
                        | Some expected_hash \<Rightarrow> sha256 decrypted \<noteq> expected_hash)
                    then (Err (Internal ''Result hash mismatch after decryption''), v)
                    else pay_out now channel_id ch (rq_amount request)
                           \<lparr>fo_request_id = rq_request_id request, fo_result_bytes = decrypted,
                            fo_amount = rq_amount request, fo_request = request\<rparr> v)))))"

definition finalize_offchain ::
    "('p, 's) curve \<Rightarrow> (bytes \<Rightarrow> b32) \<Rightarrow> i64 \<Rightarrow> string \<Rightarrow> b32 \<Rightarrow> finalize_outcome vault_op" where
  "finalize_offchain C sha256 now channel_id adaptor_secret_bytes v =
     (case from_canonical_bytes C adaptor_secret_bytes of None \<Rightarrow> (Err InvalidAdaptorSignature, v)
      | Some t \<Rightarrow> finalize_with_secret C sha256 now channel_id t (Some adaptor_secret_bytes) v)"

definition pending_request_crypto_materials ::
    "('p, 's) curve \<Rightarrow> string \<Rightarrow> vault_state \<Rightarrow> enclave_error + 'p pending_request_crypto_material" where
  "pending_request_crypto_materials C channel_id v =
     (case dm_get (active_channels v) channel_id of None \<Rightarrow> Inl ChannelNotFound
      | Some ch \<Rightarrow>
          if ch_status ch \<noteq> ChPending then Inl (invalid_status ''Pending'' (ch_status ch))
          else case ch_active_request ch of None \<Rightarrow> Inl ChannelNotFound
          | Some request \<Rightarrow>
         (case rq_provider_pre_sig request of None \<Rightarrow> Inl InvalidAdaptorSignature
          | Some pre_sig \<Rightarrow>
         (case rq_adaptor_point request of None \<Rightarrow> Inl InvalidAdaptorSignature
          | Some adaptor_point_bytes \<Rightarrow>
         (case decompress C adaptor_point_bytes of None \<Rightarrow> Inl InvalidAdaptorSignature
          | Some adaptor_point \<Rightarrow>
         (case rq_provider_pubkey request of None \<Rightarrow> Inl InvalidAdaptorSignature
          | Some provider_pubkey \<Rightarrow>
              Inr \<lparr>pm_request = request, pm_pre_sig = pre_sig, pm_adaptor_point = adaptor_point,
                   pm_provider_pubkey = provider_pubkey\<rparr>)))))"

definition finalize_onchain_claim ::
    "('p, 's) curve \<Rightarrow> (bytes \<Rightarrow> b32) \<Rightarrow> i64 \<Rightarrow> string \<Rightarrow> b32 \<Rightarrow> b32 \<Rightarrow> finalize_outcome vault_op" where
  "finalize_onchain_claim C sha256 now channel_id full_sig_r full_sig_s v =
     (case pending_request_crypto_materials C channel_id v of Inl e \<Rightarrow> (Err e, v)
      | Inr pending \<Rightarrow>
          let full_sig = \<lparr>r_bytes = full_sig_r, s_bytes = full_sig_s\<rparr>
          in case extract_secret C full_sig (pm_pre_sig pending) of None \<Rightarrow> (Err InvalidAdaptorSignature, v)
             | Some extracted \<Rightarrow>
            (case decompress C (r_prime (pm_pre_sig pending)) of None \<Rightarrow> (Err InvalidAdaptorSignature, v)
             | Some r' \<Rightarrow>
               let expected_r = padd C r' (pm_adaptor_point pending);
                   request = pm_request pending
               in if compress C expected_r \<noteq> full_sig_r then (Err InvalidAdaptorSignature, v)
                  else if \<not> verify_adapted C (pm_provider_pubkey pending)
                       (build_payment_message sha256 channel_id (rq_request_id request) (rq_amount request)
                          (rq_request_hash request)) full_sig
                  then (Err InvalidAdaptorSignature, v)
                  else finalize_with_secret C sha256 now channel_id extracted
                         (Some (scalar_bytes C extracted)) v))"

definition rollback_finalize_offchain :: "i64 \<Rightarrow> string \<Rightarrow> channel_request \<Rightarrow> unit vault_op" where
  "rollback_finalize_offchain now channel_id request v =
     (case dm_get (active_channels v) channel_id of None \<Rightarrow> (Err ChannelNotFound, v)
      | Some ch \<Rightarrow>
          if ch_status ch \<noteq> ChOpen \<or> ch_active_request ch \<noteq> None
          then (Err (invalid_status ''Open without active request'' (ch_status ch)), v)
          else case checked_add (client_locked (ch_balance ch)) (rq_amount request) of None \<Rightarrow> (Panic, v)
          | Some l \<Rightarrow>
              (Ok (), put_channel channel_id
                 (ch\<lparr>ch_balance := (ch_balance ch)\<lparr>client_locked := l,
                        provider_earned := saturating_sub (provider_earned (ch_balance ch)) (rq_amount request)\<rparr>,
                     ch_status := ChPending, ch_active_request := Some request,
                     ch_nonce := saturating_sub (ch_nonce ch) 1, ch_updated_at := now\<rparr>) v))"

definition finalize_replayed_request :: "i64 \<Rightarrow> string \<Rightarrow> string \<Rightarrow> u64 \<Rightarrow> unit vault_op" where
  "finalize_replayed_request now channel_id request_id amount_paid v =
     (case dm_get (active_channels v) channel_id of None \<Rightarrow> (Err ChannelNotFound, v)
      | Some ch \<Rightarrow>
          if ch_status ch \<noteq> ChPending then (Err (invalid_status ''Pending'' (ch_status ch)), v)
          else case ch_active_request ch of None \<Rightarrow> (Err ChannelNotFound, v)
          | Some request \<Rightarrow>
          if rq_request_id request \<noteq> request_id then (Err ChannelNotFound, v)
          else if rq_amount request \<noteq> amount_paid
          then (Err (Internal ''WAL replay amount mismatch for finalized channel request''), v)
          else
            let b1 = (ch_balance ch)\<lparr>client_locked := saturating_sub (client_locked (ch_balance ch)) amount_paid\<rparr>
            in case checked_add (provider_earned b1) amount_paid of
                 None \<Rightarrow> (Panic, put_channel channel_id (ch\<lparr>ch_balance := b1\<rparr>) v)
               | Some e \<Rightarrow>
                   let ch1 = ch\<lparr>ch_balance := b1\<lparr>provider_earned := e\<rparr>, ch_status := ChOpen,
                                ch_active_request := None\<rparr>
                   in (case checked_add (ch_nonce ch) 1 of
                         None \<Rightarrow> (Panic, put_channel channel_id ch1 v)
                       | Some n \<Rightarrow> (Ok (), put_channel channel_id (ch1\<lparr>ch_nonce := n, ch_updated_at := now\<rparr>) v)))"

section \<open>Closing a channel\<close>

text \<open>Crediting the provider with the channel's earnings, the last step of closing.\<close>

definition credit_channel :: "i64 \<Rightarrow> string \<Rightarrow> u64 \<Rightarrow> string option \<Rightarrow> unit vault_op" where
  "credit_channel now provider_id earned settlement_id v =
     (case dm_get (providers v) provider_id of None \<Rightarrow> (Err ProviderNotFound, v)
      | Some p \<Rightarrow>
     (case settlement_id of None \<Rightarrow> (Err (Internal ''missing settlement id''), v)
      | Some sid \<Rightarrow>
     (case dm_get (provider_credits v) provider_id of
        Some c \<Rightarrow>
          (case checked_add (pc_credited_amount c) earned of None \<Rightarrow> (Panic, v)
           | Some a \<Rightarrow>
               (Ok (), v\<lparr>provider_credits := dm_insert provider_id
                  (c\<lparr>pc_credited_amount := a, pc_settlement_ids := pc_settlement_ids c @ [sid]\<rparr>)
                  (provider_credits v)\<rparr>))
      | None \<Rightarrow>
          (Ok (), v\<lparr>provider_credits := dm_insert provider_id
             \<lparr>pc_provider_id = provider_id, pc_settlement_token_account = pr_settlement_token_account p,
              pc_credited_amount = earned, pc_oldest_credit_at = now, pc_settlement_ids = [sid]\<rparr>
             (provider_credits v)\<rparr>))))"

definition refund_channel :: "pubkey \<Rightarrow> u64 \<Rightarrow> u64 \<Rightarrow> unit vault_op" where
  "refund_channel client total_channel_amount remaining_free v =
     (if 0 < total_channel_amount then
       (case dm_get (client_balances v) client of None \<Rightarrow> (Err ClientNotFound, v)
        | Some b \<Rightarrow>
            let b1 = b\<lparr>cb_locked := saturating_sub (cb_locked b) total_channel_amount\<rparr>
            in case checked_add (cb_free b1) remaining_free of
                 None \<Rightarrow> (Panic, put_balance client b1 v)
               | Some f \<Rightarrow> (Ok (), put_balance client (b1\<lparr>cb_free := f\<rparr>) v))
      else (Ok (), v))"

definition close_channel_with_settlement_id ::
    "i64 \<Rightarrow> string \<Rightarrow> string \<Rightarrow> string option \<Rightarrow> close_outcome vault_op" where
  "close_channel_with_settlement_id now uuid channel_id settlement_id_override v =
     (case dm_get (active_channels v) channel_id of None \<Rightarrow> (Err ChannelNotFound, v)
      | Some ch \<Rightarrow>
          if ch_status ch \<noteq> ChOpen
          then (Err (InvalidChannelStatus (''expected Open, got '' @ debug_status (ch_status ch)
                      @ '' (close only from Open)'')), v)
          else
            let remaining_free = client_free (ch_balance ch);
                earned = provider_earned (ch_balance ch);
                previous = (if 0 < earned then dm_get (provider_credits v) (ch_provider_id ch) else None);
                settlement_id = (if 0 < earned
                  then Some (case settlement_id_override of Some s \<Rightarrow> s | None \<Rightarrow> ''asc_'' @ uuid) else None);
                result = \<lparr>co_client = ch_client ch, co_provider_id = ch_provider_id ch,
                  co_returned_to_client = remaining_free, co_provider_earned = earned,
                  co_settlement_id = settlement_id, co_closed_channel = ch,
                  co_previous_provider_credit = previous\<rparr>;
                v1 = v\<lparr>active_channels := dm_remove channel_id (active_channels v)\<rparr>
            in case checked_add remaining_free earned of None \<Rightarrow> (Panic, v1)
               | Some total_channel_amount \<Rightarrow>
              (case refund_channel (ch_client ch) total_channel_amount remaining_free v1 of
                 (Err e, v2) \<Rightarrow> (Err e, v2) | (Panic, v2) \<Rightarrow> (Panic, v2)
               | (Ok _, v2) \<Rightarrow>
                   if 0 < earned then
                     (case credit_channel now (ch_provider_id ch) earned settlement_id v2 of
                        (Err e, v3) \<Rightarrow> (Err e, v3) | (Panic, v3) \<Rightarrow> (Panic, v3)
                      | (Ok _, v3) \<Rightarrow> (Ok result, v3))
                   else (Ok result, v2)))"

definition close_channel :: "i64 \<Rightarrow> string \<Rightarrow> string \<Rightarrow> close_outcome vault_op" where
  "close_channel now uuid channel_id = close_channel_with_settlement_id now uuid channel_id None"

definition rollback_close_channel :: "close_outcome \<Rightarrow> unit vault_op" where
  "rollback_close_channel outcome v =
     (case checked_add (co_returned_to_client outcome) (co_provider_earned outcome) of None \<Rightarrow> (Panic, v)
      | Some total_channel_amount \<Rightarrow>
          let finish = (\<lambda>v.
                let v = (if 0 < co_provider_earned outcome
                         then v\<lparr>provider_credits :=
                           (case co_previous_provider_credit outcome of
                              Some previous \<Rightarrow> dm_insert (co_provider_id outcome) previous (provider_credits v)
                            | None \<Rightarrow> dm_remove (co_provider_id outcome) (provider_credits v))\<rparr>
                         else v)
                in (Ok (), put_channel (ch_channel_id (co_closed_channel outcome)) (co_closed_channel outcome) v))
          in if 0 < total_channel_amount then
               (case dm_get (client_balances v) (co_client outcome) of None \<Rightarrow> (Err ClientNotFound, v)
                | Some b \<Rightarrow>
                    case checked_add (cb_locked b) total_channel_amount of None \<Rightarrow> (Panic, v)
                    | Some l \<Rightarrow>
                        finish (put_balance (co_client outcome)
                          (b\<lparr>cb_locked := l,
                             cb_free := saturating_sub (cb_free b) (co_returned_to_client outcome)\<rparr>) v))
             else finish v)"

section \<open>Expiry\<close>

text \<open>The refund step shared by the two expiry paths: locked funds return to the client.\<close>

definition refund_request :: "i64 \<Rightarrow> string \<Rightarrow> channel_state \<Rightarrow> u64 \<Rightarrow> 'a \<Rightarrow> 'a vault_op" where
  "refund_request now channel_id ch amount result v =
     (let b1 = (ch_balance ch)\<lparr>client_locked := saturating_sub (client_locked (ch_balance ch)) amount\<rparr>
      in case checked_add (client_free b1) amount of
           None \<Rightarrow> (Panic, put_channel channel_id (ch\<lparr>ch_balance := b1\<rparr>) v)
         | Some f \<Rightarrow>
             let ch1 = ch\<lparr>ch_balance := b1\<lparr>client_free := f\<rparr>, ch_status := ChOpen, ch_active_request := None\<rparr>
             in (case checked_add (ch_nonce ch) 1 of
                   None \<Rightarrow> (Panic, put_channel channel_id ch1 v)
                 | Some n \<Rightarrow> (Ok result, put_channel channel_id (ch1\<lparr>ch_nonce := n, ch_updated_at := now\<rparr>) v)))"

definition expire_request :: "string \<Rightarrow> i64 \<Rightarrow> expired_request_outcome option vault_op" where
  "expire_request channel_id now v =
     (case dm_get (active_channels v) channel_id of None \<Rightarrow> (Err ChannelNotFound, v)
      | Some ch \<Rightarrow>
          if ch_status ch \<noteq> ChLocked \<and> ch_status ch \<noteq> ChPending then (Ok None, v)
          else case ch_active_request ch of None \<Rightarrow> (Ok None, v)
          | Some request \<Rightarrow>
          if sint now \<le> sint (rq_expires_at request) then (Ok None, v)
          else refund_request now channel_id ch (rq_amount request)
                 (Some \<lparr>eo_channel_id = ch_channel_id ch, eo_client = ch_client ch,
                        eo_previous_status = ch_status ch, eo_request = request\<rparr>) v)"

definition rollback_expire_request :: "i64 \<Rightarrow> expired_request_outcome \<Rightarrow> unit vault_op" where
  "rollback_expire_request now outcome v =
     (case dm_get (active_channels v) (eo_channel_id outcome) of None \<Rightarrow> (Err ChannelNotFound, v)
      | Some ch \<Rightarrow>
          if ch_status ch \<noteq> ChOpen \<or> ch_active_request ch \<noteq> None
          then (Err (invalid_status ''Open without active request'' (ch_status ch)), v)
          else
            let amount = rq_amount (eo_request outcome);
                b1 = (ch_balance ch)\<lparr>client_free := saturating_sub (client_free (ch_balance ch)) amount\<rparr>
            in case checked_add (client_locked b1) amount of
                 None \<Rightarrow> (Panic, put_channel (eo_channel_id outcome) (ch\<lparr>ch_balance := b1\<rparr>) v)
               | Some l \<Rightarrow>
                   (Ok (), put_channel (eo_channel_id outcome)
                      (ch\<lparr>ch_balance := b1\<lparr>client_locked := l\<rparr>, ch_status := eo_previous_status outcome,
                         ch_active_request := Some (eo_request outcome),
                         ch_nonce := saturating_sub (ch_nonce ch) 1, ch_updated_at := now\<rparr>) v))"

definition expire_replayed_request :: "i64 \<Rightarrow> string \<Rightarrow> string \<Rightarrow> u64 \<Rightarrow> unit vault_op" where
  "expire_replayed_request now channel_id request_id amount v =
     (case dm_get (active_channels v) channel_id of None \<Rightarrow> (Err ChannelNotFound, v)
      | Some ch \<Rightarrow>
          if ch_status ch \<noteq> ChLocked \<and> ch_status ch \<noteq> ChPending
          then (Err (invalid_status ''Locked or Pending'' (ch_status ch)), v)
          else case ch_active_request ch of None \<Rightarrow> (Err ChannelNotFound, v)
          | Some request \<Rightarrow>
          if rq_request_id request \<noteq> request_id then (Err ChannelNotFound, v)
          else if rq_amount request \<noteq> amount
          then (Err (Internal ''WAL replay amount mismatch for expired channel request''), v)
          else refund_request now channel_id ch amount () v)"

end
