(* ===== verification/Enclave_Ledger.thy ===== *)
theory Enclave_Ledger
  imports Enclave_State
begin

text \<open>
  Accounting of the enclave's balance operations (\<open>enclave/src/state.rs\<close>): what each of them
  does to the funds of the client it names, to every other client, and to the value the vault
  owes in total; that every rollback undoes its operation exactly; and that the refreshed
  lock expiry bounds every outstanding lock. The locale \<open>client_ledger\<close> is the contract the
  channel manager relies on.
\<close>

section \<open>Value\<close>

definition funds :: "vault_state \<Rightarrow> pubkey \<Rightarrow> (nat \<times> nat) option" where
  "funds v c = map_option (\<lambda>b. (unat (cb_free b), unat (cb_locked b))) (dm_get (client_balances v) c)"

definition client_value :: "vault_state \<Rightarrow> nat" where
  "client_value v = dm_sum (\<lambda>_ b. unat (cb_free b) + unat (cb_locked b)) (client_balances v)"

definition credit_value :: "vault_state \<Rightarrow> nat" where
  "credit_value v = dm_sum (\<lambda>_ c. unat (pc_credited_amount c)) (provider_credits v)
     + dm_sum (\<lambda>_ c. unat (mc_credited_amount c)) (multi_chain_provider_credits v)"

definition vault_value :: "vault_state \<Rightarrow> nat" where
  "vault_value v = client_value v + credit_value v"

definition locked_of :: "vault_state \<Rightarrow> pubkey \<Rightarrow> nat" where
  "locked_of v c = (case funds v c of None \<Rightarrow> 0 | Some (f, l) \<Rightarrow> l)"

section \<open>Balance updates\<close>

lemma put_balance_get [simp]:
  "dm_get (client_balances (put_balance c b v)) c' = (if c' = c then Some b else dm_get (client_balances v) c')"
  by (simp add: put_balance_def dm_get_insert)

lemma put_balance_frame [simp]:
  "provider_credits (put_balance c b v) = provider_credits v"
  "multi_chain_provider_credits (put_balance c b v) = multi_chain_provider_credits v"
  "providers (put_balance c b v) = providers v"
  "reservations (put_balance c b v) = reservations v"
  "pending_withdrawals (put_balance c b v) = pending_withdrawals v"
  "active_channels (put_balance c b v) = active_channels v"
  "settlement_history (put_balance c b v) = settlement_history v"
  by (simp_all add: put_balance_def)

lemma put_balance_twice [simp]: "put_balance c b (put_balance c b' v) = put_balance c b v"
  by (simp add: put_balance_def)

lemma put_balance_same: "dm_get (client_balances v) c = Some b \<Longrightarrow> put_balance c b v = v"
  by (simp add: put_balance_def update_triv)

lemma funds_put_balance [simp]:
  "funds (put_balance c b v) c' = (if c' = c then Some (unat (cb_free b), unat (cb_locked b)) else funds v c')"
  by (simp add: funds_def)

lemma credit_value_put_balance [simp]: "credit_value (put_balance c b v) = credit_value v"
  by (simp add: credit_value_def)

lemma client_value_put_balance:
  "dm_get (client_balances v) c = Some b \<Longrightarrow>
     client_value (put_balance c b' v) + (unat (cb_free b) + unat (cb_locked b))
       = client_value v + (unat (cb_free b') + unat (cb_locked b'))"
  using dm_sum_insert_old [of "client_balances v" c b
    "\<lambda>_ b. unat (cb_free b) + unat (cb_locked b)" b']
  by (simp add: client_value_def put_balance_def)

lemma client_value_put_balance_new:
  "dm_get (client_balances v) c = None \<Longrightarrow>
     client_value (put_balance c b' v) = client_value v + (unat (cb_free b') + unat (cb_locked b'))"
  by (simp add: client_value_def put_balance_def dm_sum_insert_new)

lemma client_value_ge: "dm_get (client_balances v) c = Some b \<Longrightarrow>
    unat (cb_free b) + unat (cb_locked b) \<le> client_value v"
  unfolding client_value_def
  by (rule dm_get_le_sum [where f = "\<lambda>_ b. unat (cb_free b) + unat (cb_locked b)"])

lemma client_value_cong [simp]:
  "client_value (v\<lparr>pending_withdrawals := x\<rparr>) = client_value v"
  "client_value (v\<lparr>active_channels := y\<rparr>) = client_value v"
  "client_value (v\<lparr>provider_credits := z\<rparr>) = client_value v"
  "client_value (v\<lparr>multi_chain_provider_credits := z'\<rparr>) = client_value v"
  "credit_value (v\<lparr>pending_withdrawals := x\<rparr>) = credit_value v"
  "credit_value (v\<lparr>active_channels := y\<rparr>) = credit_value v"
  "funds (v\<lparr>pending_withdrawals := x\<rparr>) = funds v"
  "funds (v\<lparr>active_channels := y\<rparr>) = funds v"
  "funds (v\<lparr>provider_credits := z\<rparr>) = funds v"
  "funds (v\<lparr>multi_chain_provider_credits := z'\<rparr>) = funds v"
  by (simp_all add: client_value_def credit_value_def funds_def fun_eq_iff)

section \<open>The operations\<close>

lemma reserve_balance_Ok:
  assumes "reserve_balance c a v = (Ok u, v')"
  obtains b l where "dm_get (client_balances v) c = Some b" and "a \<le> cb_free b"
    and "checked_add (cb_locked b) a = Some l"
    and "v' = put_balance c (b\<lparr>cb_free := cb_free b - a, cb_locked := l\<rparr>) v"
  using assms
  by (auto simp: reserve_balance_def Let_def not_less split: option.splits if_splits)

lemma reserve_balance_Err: "reserve_balance c a v = (Err e, v') \<Longrightarrow> v' = v"
  by (auto simp: reserve_balance_def Let_def split: option.splits if_splits)

lemma release_balance_Ok:
  assumes "release_balance c a v = (Ok u, v')"
  obtains b f where "dm_get (client_balances v) c = Some b"
    and "checked_add (cb_free b) a = Some f"
    and "v' = put_balance c (b\<lparr>cb_locked := saturating_sub (cb_locked b) a, cb_free := f\<rparr>) v"
  using assms by (auto simp: release_balance_def Let_def split: option.splits)

lemma release_balance_Err: "release_balance c a v = (Err e, v') \<Longrightarrow> v' = v"
  by (auto simp: release_balance_def Let_def split: option.splits)

section \<open>The contract of the balance operations\<close>

locale client_ledger =
  fixes view :: "'s \<Rightarrow> pubkey \<Rightarrow> (nat \<times> nat) option"
    and reserve :: "pubkey \<Rightarrow> u64 \<Rightarrow> 's \<Rightarrow> unit outcome \<times> 's"
    and release :: "pubkey \<Rightarrow> u64 \<Rightarrow> 's \<Rightarrow> unit outcome \<times> 's"
  assumes reserve_ok: "reserve c a s = (Ok u, s') \<Longrightarrow>
      \<exists>f l. view s c = Some (f, l) \<and> unat a \<le> f \<and> view s' = (view s)(c \<mapsto> (f - unat a, l + unat a))"
    and reserve_err: "reserve c a s = (Err e, s') \<Longrightarrow> s' = s"
    and release_ok: "release c a s = (Ok u, s') \<Longrightarrow>
      \<exists>f l. view s c = Some (f, l) \<and> view s' = (view s)(c \<mapsto> (f + unat a, l - unat a))"
    and release_err: "release c a s = (Err e, s') \<Longrightarrow> s' = s"
begin

text \<open>A reservation that is released again leaves every client's funds as they were.\<close>

lemma reserve_release:
  assumes "reserve c a s = (Ok u, s1)" and "release c a s1 = (Ok u', s2)"
  shows "view s2 = view s"
proof -
  from reserve_ok [OF assms(1)] obtain f l where v: "view s c = Some (f, l)" and "unat a \<le> f"
    and s1: "view s1 = (view s)(c \<mapsto> (f - unat a, l + unat a))"
    by blast
  moreover from release_ok [OF assms(2)] s1
  have "view s2 = (view s1)(c \<mapsto> (f - unat a + unat a, l + unat a - unat a))"
    by auto
  ultimately show ?thesis by (auto simp: fun_eq_iff)
qed

text \<open>A reservation keeps the sum of free and locked funds of the client.\<close>

lemma reserve_sum:
  assumes "reserve c a s = (Ok u, s')"
  shows "\<exists>f l f' l'. view s c = Some (f, l) \<and> view s' c = Some (f', l') \<and> f' + l' = f + l \<and> l' = l + unat a"
  using reserve_ok [OF assms] by fastforce

lemma reserve_other:
  "reserve c a s = (Ok u, s') \<Longrightarrow> c' \<noteq> c \<Longrightarrow> view s' c' = view s c'"
  by (auto dest: reserve_ok)

end

interpretation vault_ledger: client_ledger funds reserve_balance release_balance
proof
  fix c a v u v'
  assume "reserve_balance c a v = (Ok u, v')"
  then obtain b l where "dm_get (client_balances v) c = Some b" and "a \<le> cb_free b"
    and "checked_add (cb_locked b) a = Some l"
    and "v' = put_balance c (b\<lparr>cb_free := cb_free b - a, cb_locked := l\<rparr>) v"
    by (rule reserve_balance_Ok)
  then show "\<exists>f l. funds v c = Some (f, l) \<and> unat a \<le> f
      \<and> funds v' = (funds v)(c \<mapsto> (f - unat a, l + unat a))"
    by (auto simp: fun_eq_iff funds_def unat_sub word_le_nat_alt dest: checked_add_SomeD)
next
  fix c a v u v'
  assume "release_balance c a v = (Ok u, v')"
  then obtain b f where "dm_get (client_balances v) c = Some b"
    and "checked_add (cb_free b) a = Some f"
    and "v' = put_balance c (b\<lparr>cb_locked := saturating_sub (cb_locked b) a, cb_free := f\<rparr>) v"
    by (rule release_balance_Ok)
  then show "\<exists>f l. funds v c = Some (f, l) \<and> funds v' = (funds v)(c \<mapsto> (f + unat a, l - unat a))"
    by (auto simp: fun_eq_iff funds_def dest: checked_add_SomeD)
qed (auto dest: reserve_balance_Err release_balance_Err)

section \<open>Value of the vault\<close>

lemma reserve_balance_value: "reserve_balance c a v = (Ok u, v') \<Longrightarrow> vault_value v' = vault_value v"
proof (erule reserve_balance_Ok)
  fix b l
  assume b: "dm_get (client_balances v) c = Some b" and "a \<le> cb_free b"
    and "checked_add (cb_locked b) a = Some l"
    and v': "v' = put_balance c (b\<lparr>cb_free := cb_free b - a, cb_locked := l\<rparr>) v"
  then show "vault_value v' = vault_value v"
    using client_value_put_balance [OF b, of "b\<lparr>cb_free := cb_free b - a, cb_locked := l\<rparr>"]
    by (auto simp: vault_value_def unat_sub word_le_nat_alt dest: checked_add_SomeD)
qed

lemma release_balance_value:
  assumes "release_balance c a v = (Ok u, v')" and "unat a \<le> locked_of v c"
  shows "vault_value v' = vault_value v"
  using assms(1)
proof (rule release_balance_Ok)
  fix b f
  assume b: "dm_get (client_balances v) c = Some b" and f: "checked_add (cb_free b) a = Some f"
    and v': "v' = put_balance c (b\<lparr>cb_locked := saturating_sub (cb_locked b) a, cb_free := f\<rparr>) v"
  from b assms(2) have "unat a \<le> unat (cb_locked b)" by (simp add: locked_of_def funds_def)
  with b f v' show "vault_value v' = vault_value v"
    using client_value_put_balance [OF b, of "b\<lparr>cb_locked := saturating_sub (cb_locked b) a, cb_free := f\<rparr>"]
    by (auto simp: vault_value_def dest: checked_add_SomeD)
qed

lemma credit_value_upsert_pc:
  assumes "unat (pc_credited_amount c)
      = (case dm_get (provider_credits v) k of None \<Rightarrow> 0 | Some u \<Rightarrow> unat (pc_credited_amount u)) + d"
  shows "credit_value (v\<lparr>provider_credits := dm_insert k c (provider_credits v)\<rparr>) = credit_value v + d"
  using dm.total_upsert [of "\<lambda>_ c. unat (pc_credited_amount c)", OF assms] by (simp add: credit_value_def)

lemma credit_value_upsert_mc:
  assumes "unat (mc_credited_amount c)
      = (case dm_get (multi_chain_provider_credits v) k of None \<Rightarrow> 0 | Some u \<Rightarrow> unat (mc_credited_amount u)) + d"
  shows "credit_value (v\<lparr>multi_chain_provider_credits := dm_insert k c (multi_chain_provider_credits v)\<rparr>)
    = credit_value v + d"
  using dm.total_upsert [of "\<lambda>_ c. unat (mc_credited_amount c)", OF assms] by (simp add: credit_value_def)

lemma credit_provider_cases:
  assumes "credit_provider pid p a sid now v = (Ok u, v')"
  obtains
    (pc) c where "v' = v\<lparr>provider_credits := dm_insert pid c (provider_credits v)\<rparr>"
      "unat (pc_credited_amount c)
        = (case dm_get (provider_credits v) pid of None \<Rightarrow> 0 | Some x \<Rightarrow> unat (pc_credited_amount x)) + unat a"
  | (mc) c where "v' = v\<lparr>multi_chain_provider_credits := dm_insert pid c (multi_chain_provider_credits v)\<rparr>"
      "unat (mc_credited_amount c)
        = (case dm_get (multi_chain_provider_credits v) pid of None \<Rightarrow> 0 | Some x \<Rightarrow> unat (mc_credited_amount x))
          + unat a"
proof (cases "is_solana_network (pr_network p)")
  case True
  with assms show thesis
    by (cases "dm_get (provider_credits v) pid")
      (auto simp: credit_provider_def Let_def dest!: checked_add_SomeD split: option.splits intro!: pc)
next
  case False
  with assms show thesis
    by (cases "dm_get (multi_chain_provider_credits v) pid")
      (auto simp: credit_provider_def Let_def dest!: checked_add_SomeD split: option.splits intro!: mc)
qed

lemma credit_provider_Ok:
  assumes "credit_provider pid p a sid now v = (Ok u, v')"
  shows "credit_value v' = credit_value v + unat a \<and> client_balances v' = client_balances v"
  using assms
proof (cases rule: credit_provider_cases)
  case (pc c)
  with credit_value_upsert_pc [OF pc(2)] show ?thesis by simp
next
  case (mc c)
  with credit_value_upsert_mc [OF mc(2)] show ?thesis by simp
qed

lemma client_value_eq: "client_balances v' = client_balances v \<Longrightarrow> client_value v' = client_value v"
  by (simp add: client_value_def)

lemma settle_payment_value:
  assumes "settle_payment c a pid sid now v = (Ok u, v')" and "unat a \<le> locked_of v c"
  shows "vault_value v' = vault_value v"
proof -
  from assms(1) obtain b p where b: "dm_get (client_balances v) c = Some b"
    and p: "dm_get (providers v) pid = Some p"
    and cr: "credit_provider pid p a sid now
      (put_balance c (b\<lparr>cb_locked := saturating_sub (cb_locked b) a\<rparr>) v) = (Ok u, v')"
    by (auto simp: settle_payment_def Let_def split: option.splits)
  from b assms(2) have "unat a \<le> unat (cb_locked b)" by (simp add: locked_of_def funds_def)
  moreover from credit_provider_Ok [OF cr]
  have "client_value v' = client_value (put_balance c (b\<lparr>cb_locked := saturating_sub (cb_locked b) a\<rparr>) v)"
    by (blast intro: client_value_eq)
  ultimately show ?thesis
    using client_value_put_balance [OF b, of "b\<lparr>cb_locked := saturating_sub (cb_locked b) a\<rparr>"]
      credit_provider_Ok [OF cr]
    by (simp add: vault_value_def)
qed


section \<open>Withdrawals\<close>

lemma apply_withdrawal_Ok:
  assumes "apply_withdrawal n v = (Ok w, v')"
  obtains b t where "dm_get (pending_withdrawals v) n = Some w"
    and "dm_get (client_balances v) (pw_client w) = Some b"
    and "checked_add (cb_total_withdrawn b) (pw_amount w) = Some t"
    and "v' = put_balance (pw_client w)
          (b\<lparr>cb_locked := saturating_sub (cb_locked b) (pw_amount w), cb_total_withdrawn := t\<rparr>)
          (v\<lparr>pending_withdrawals := dm_remove n (pending_withdrawals v)\<rparr>)"
  using assms by (auto simp: apply_withdrawal_def Let_def split: option.splits)

lemma put_balance_pending [simp]:
  "(put_balance c b v)\<lparr>pending_withdrawals := x\<rparr> = put_balance c b (v\<lparr>pending_withdrawals := x\<rparr>)"
  by (simp add: put_balance_def)

lemma client_balances_pending [simp]: "client_balances (v\<lparr>pending_withdrawals := x\<rparr>) = client_balances v"
  by simp

lemma apply_withdrawal_value:
  assumes "apply_withdrawal n v = (Ok w, v')" and "unat (pw_amount w) \<le> locked_of v (pw_client w)"
  shows "vault_value v' + unat (pw_amount w) = vault_value v"
  using assms(1)
proof (rule apply_withdrawal_Ok)
  fix b :: client_balance and t
  let ?v1 = "v\<lparr>pending_withdrawals := dm_remove n (pending_withdrawals v)\<rparr>"
  let ?b = "b\<lparr>cb_locked := saturating_sub (cb_locked b) (pw_amount w), cb_total_withdrawn := t\<rparr>"
  assume b: "dm_get (client_balances v) (pw_client w) = Some b"
    and v': "v' = put_balance (pw_client w) ?b ?v1"
  from b assms(2) have "unat (pw_amount w) \<le> unat (cb_locked b)" by (simp add: locked_of_def funds_def)
  with b v' show ?thesis
    using client_value_put_balance [of ?v1 "pw_client w" b ?b] by (simp add: vault_value_def)
qed

lemma apply_deposit_value:
  assumes "apply_deposit c a v = (Ok u, v')"
  shows "vault_value v' = vault_value v + unat a"
proof (cases "dm_get (client_balances v) c")
  case None
  with assms show ?thesis
    by (auto simp: apply_deposit_def Let_def default_client_balance_def vault_value_def
        client_value_put_balance_new split: option.splits)
next
  case (Some b)
  with assms obtain f d where "checked_add (cb_free b) a = Some f"
    and "v' = put_balance c (b\<lparr>cb_free := f, cb_total_deposited := d\<rparr>) v"
    by (auto simp: apply_deposit_def Let_def split: option.splits)
  with client_value_put_balance [OF Some, of "b\<lparr>cb_free := f, cb_total_deposited := d\<rparr>"]
  show ?thesis by (auto simp: vault_value_def dest: checked_add_SomeD)
qed

section \<open>Rollbacks\<close>

lemma dm_insert_back: "dm_get m k = Some u \<Longrightarrow> dm_insert k u (dm_insert k v m) = m"
  by (simp add: update_triv)

lemma dm_remove_insert_new: "dm_get m k = None \<Longrightarrow> dm_remove k (dm_insert k v m) = m"
  by (induction m) auto

lemma filter_snoc_fresh: "x \<notin> set xs \<Longrightarrow> filter (\<lambda>s. s \<noteq> x) (xs @ [x]) = xs"
  by (auto intro: filter_True)

lemma checked_sub_back:
  "y \<le> x \<Longrightarrow> checked_add (saturating_sub x y) y = Some x"
  by (simp add: checked_add_eq_Some_iff word_le_nat_alt)

text \<open>
  A credit is in order when its amount is positive, its ids are not empty and do not hold the
  new settlement id. \<open>settle_payment\<close> only makes credits of this kind out of positive amounts.
\<close>

definition credits_fresh :: "vault_state \<Rightarrow> string \<Rightarrow> string \<Rightarrow> bool" where
  "credits_fresh v pid sid \<longleftrightarrow>
     (case dm_get (provider_credits v) pid of None \<Rightarrow> True
      | Some c \<Rightarrow> pc_credited_amount c \<noteq> 0 \<and> pc_settlement_ids c \<noteq> [] \<and> sid \<notin> set (pc_settlement_ids c))
   \<and> (case dm_get (multi_chain_provider_credits v) pid of None \<Rightarrow> True
      | Some c \<Rightarrow> mc_credited_amount c \<noteq> 0 \<and> mc_settlement_ids c \<noteq> [] \<and> sid \<notin> set (mc_settlement_ids c))"

lemma uncredit_credit_pc:
  assumes "is_solana_network (pr_network p)" and "credits_fresh v pid sid"
    and "credit_provider pid p a sid now v = (Ok u, v')"
  shows "uncredit_provider pid p a sid v' = (Ok (), v)"
proof (cases "dm_get (provider_credits v) pid")
  case None
  with assms show ?thesis
    by (auto simp: credit_provider_def uncredit_provider_def Let_def dm_get_insert
        dm_remove_insert_new split: option.splits)
next
  case (Some c)
  with assms obtain x where x: "checked_add (pc_credited_amount c) a = Some x"
    and v': "v' = v\<lparr>provider_credits := dm_insert pid (c\<lparr>pc_credited_amount := x,
      pc_settlement_ids := pc_settlement_ids c @ [sid]\<rparr>) (provider_credits v)\<rparr>"
    by (auto simp: credit_provider_def Let_def split: option.splits)
  from assms(2) Some have "pc_credited_amount c \<noteq> 0" "pc_settlement_ids c \<noteq> []"
    "sid \<notin> set (pc_settlement_ids c)"
    by (auto simp: credits_fresh_def)
  with assms(1) Some v' show ?thesis
    by (simp add: uncredit_provider_def Let_def saturating_sub_add [OF x] filter_snoc_fresh
        update_triv del: filter_append)
qed

lemma uncredit_credit_mc:
  assumes "\<not> is_solana_network (pr_network p)" and "credits_fresh v pid sid"
    and "credit_provider pid p a sid now v = (Ok u, v')"
  shows "uncredit_provider pid p a sid v' = (Ok (), v)"
proof (cases "dm_get (multi_chain_provider_credits v) pid")
  case None
  with assms show ?thesis
    by (auto simp: credit_provider_def uncredit_provider_def Let_def dm_get_insert
        dm_remove_insert_new split: option.splits)
next
  case (Some c)
  with assms obtain x where x: "checked_add (mc_credited_amount c) a = Some x"
    and v': "v' = v\<lparr>multi_chain_provider_credits := dm_insert pid (c\<lparr>mc_credited_amount := x,
      mc_settlement_ids := mc_settlement_ids c @ [sid]\<rparr>) (multi_chain_provider_credits v)\<rparr>"
    by (auto simp: credit_provider_def Let_def split: option.splits)
  from assms(2) Some have "mc_credited_amount c \<noteq> 0" "mc_settlement_ids c \<noteq> []"
    "sid \<notin> set (mc_settlement_ids c)"
    by (auto simp: credits_fresh_def)
  with assms(1) Some v' show ?thesis
    by (simp add: uncredit_provider_def Let_def saturating_sub_add [OF x] filter_snoc_fresh
        update_triv del: filter_append)
qed

lemma credit_provider_frame:
  "credit_provider pid p a sid now (put_balance c b v) = (Ok u, v') \<Longrightarrow>
     \<exists>v1. credit_provider pid p a sid now v = (Ok u, v1) \<and> v' = put_balance c b v1"
  by (auto simp: credit_provider_def Let_def put_balance_def split: option.splits if_splits)

lemma uncredit_provider_frame:
  "uncredit_provider pid p a sid (put_balance c b v)
     = (let (r, v') = uncredit_provider pid p a sid v in (r, put_balance c b v'))"
  by (auto simp: uncredit_provider_def Let_def put_balance_def split: option.splits)

lemma credit_provider_keeps:
  "credit_provider pid p a sid now v = (Ok u, v') \<Longrightarrow>
     client_balances v' = client_balances v \<and> providers v' = providers v"
  by (auto simp: credit_provider_def Let_def split: option.splits if_splits)

section \<open>Lock expiry\<close>

lemma smax_list_ge: "x \<in> set xs \<Longrightarrow> sint x \<le> sint (smax_list xs)"
  by (induction xs rule: smax_list.induct) (auto simp: smax_def)

lemma smax_trans: "sint z \<le> sint x \<Longrightarrow> sint z \<le> sint (smax x y)"
  "sint z \<le> sint y \<Longrightarrow> sint z \<le> sint (smax x y)"
  by (auto simp: smax_def)

section \<open>Batch confirmation\<close>

lemma confirm_one_batches:
  "dm_get (settlement_batches (snd (confirm_one b t sid (aff, v)))) k
     = (if k = sid then Some \<lparr>sb_batch_id = b, sb_tx_signature = t\<rparr> else dm_get (settlement_batches v) k)"
  and confirm_one_history:
  "dm_get (settlement_history (snd (confirm_one b t sid (aff, v)))) k
     = (if k = sid then None else dm_get (settlement_history v) k)"
  and confirm_one_balances: "client_balances (snd (confirm_one b t sid (aff, v))) = client_balances v"
  by (auto simp: confirm_one_def Let_def confirm_reserved_def dm_get_insert dm_get_remove
      split: option.splits)

lemma confirm_fold:
  "dm_get (settlement_batches (snd (fold (confirm_one b t) sids s))) k
     = (if k \<in> set sids then Some \<lparr>sb_batch_id = b, sb_tx_signature = t\<rparr>
        else dm_get (settlement_batches (snd s)) k)
   \<and> dm_get (settlement_history (snd (fold (confirm_one b t) sids s))) k
     = (if k \<in> set sids then None else dm_get (settlement_history (snd s)) k)
   \<and> client_balances (snd (fold (confirm_one b t) sids s)) = client_balances (snd s)"
proof (induction sids arbitrary: s)
  case (Cons sid sids)
  obtain aff v where s: "s = (aff, v)" by (cases s)
  show ?case
    using Cons [of "confirm_one b t sid s"] s
    by (auto simp: confirm_one_batches confirm_one_history confirm_one_balances)
qed simp

lemma refresh_fold [simp]:
  "settlement_batches (fold refresh_oldest ps v) = settlement_batches v"
  "settlement_history (fold refresh_oldest ps v) = settlement_history v"
  "client_balances (fold refresh_oldest ps v) = client_balances v"
  by (induction ps arbitrary: v) (simp_all add: refresh_oldest_def)

text \<open>An id that no reservation carries is taken off a credit without changing any amount.\<close>

lemma confirm_one_unreserved_value:
  assumes "find (\<lambda>(_, r). rs_settlement_id r = Some sid) (reservations v) = None"
    and "dm_wf (provider_credits v)" and "dm_wf (multi_chain_provider_credits v)"
  shows "credit_value (snd (confirm_one b t sid (aff, v))) = credit_value v"
proof -
  have get: "dm_wf m \<Longrightarrow> find P m = Some (k, c) \<Longrightarrow> dm_get m k = Some c" for P m and k :: string and c
    by (auto simp: find_Some_iff dm_wf_def in_set_conv_nth intro!: map_of_is_SomeI)
  have pc: "dm_sum (\<lambda>_ c. unat (pc_credited_amount c)) (dm_insert k (strip_pc sid c) m)
      = dm_sum (\<lambda>_ c. unat (pc_credited_amount c)) m" if "dm_get m k = Some c" for k c m
    by (rule dm.total_keep [OF that]) (simp add: strip_pc_def)
  have mc: "dm_sum (\<lambda>_ c. unat (mc_credited_amount c)) (dm_insert k (strip_mc sid c) m)
      = dm_sum (\<lambda>_ c. unat (mc_credited_amount c)) m" if "dm_get m k = Some c" for k c m
    by (rule dm.total_keep [OF that]) (simp add: strip_mc_def)
  from assms show ?thesis
    by (auto simp: confirm_one_def Let_def credit_value_def pc [OF get] mc [OF get] split: option.splits)
qed

section \<open>A sample state\<close>

text \<open>
  One client (key 10) with 900 free and 100 locked, one Solana provider, one outstanding
  reservation that locks the 100; used by the witnesses.
\<close>

definition demo_provider :: provider_registration where
  "demo_provider =
     \<lparr>pr_provider_id = ''p1'', pr_display_name = ''P'', pr_participant_pubkey = Some 77,
      pr_participant_attestation_policy_hash = None, pr_participant_attestation_verified_at_ms = None,
      pr_participant_attestation_mode = None, pr_settlement_token_account = 55,
      pr_network = ''solana:localnet'', pr_asset_mint = 3, pr_allowed_origins = [], pr_auth_mode = ''none'',
      pr_api_key_hash = None, pr_mtls_cert_fingerprint = None, pr_settlement_address = [],
      pr_asset_id = [], pr_chain_kind = ''solana''\<rparr>"

definition demo_reservation :: reservation where
  "demo_reservation =
     \<lparr>rs_verification_id = ''ver'', rs_reservation_id = ''res'', rs_payment_id = ''pay'', rs_client = 10,
      rs_provider_id = ''p1'', rs_amount = 100, rs_request_hash = 5, rs_payment_details_hash = 6,
      rs_status = Reserved, rs_created_at = 1000, rs_expires_at = 1060, rs_settlement_id = None,
      rs_settled_at = None\<rparr>"

definition demo_vault :: vault_state where
  "demo_vault =
     (vault_state_new (\<lambda>k. k) 1 2 3 4
        \<lparr>sc_program_id = 8, sc_vault_token_account = 9, sc_rpc_url = [], sc_ws_url = []\<rparr>)
     \<lparr>client_balances := [(10, \<lparr>cb_free = 900, cb_locked = 100, cb_max_lock_expires_at = 0,
        cb_total_deposited = 1000, cb_total_withdrawn = 0\<rparr>)],
      providers := [(''p1'', demo_provider)],
      reservations := [(''ver'', demo_reservation)]\<rparr>"

lemma is_solana_demo [simp]: "is_solana_network ''solana:localnet''"
  by (simp add: is_solana_network_def parse_network_def starts_with_def)

lemmas demo_defs = demo_vault_def demo_provider_def demo_reservation_def vault_state_new_def

section \<open>Properties\<close>

text \<open>
  Settling a payment moves value and never creates or destroys it: when the client's locked
  funds cover the amount, the sum of all client balances and provider credits is unchanged by
  a successful \<open>settle_payment\<close>, for Solana and for other networks.
\<close>

theorem settle_payment_conserves_value:
  assumes "settle_payment c a pid sid now v = (Ok u, v')" and "unat a \<le> locked_of v c"
  shows "vault_value v' = vault_value v"
  using assms by (rule settle_payment_value)

theorem settle_payment_conserves_value_witness:
  "\<exists>v'. settle_payment 10 100 ''p1'' ''s1'' 1010 demo_vault = (Ok (), v')
     \<and> vault_value v' = vault_value demo_vault"
proof -
  let ?r = "settle_payment 10 100 ''p1'' ''s1'' 1010 demo_vault"
  have ok: "?r = (Ok (), snd ?r)"
    by (simp add: settle_payment_def credit_provider_def checked_add_def demo_defs put_balance_def)
  have "unat (100 :: u64) \<le> locked_of demo_vault 10"
    by (simp add: locked_of_def funds_def demo_defs)
  with ok settle_payment_conserves_value [OF ok] show ?thesis by blast
qed

text \<open>
  \<open>rollback_settle_payment\<close> undoes \<open>settle_payment\<close> exactly: after a successful settlement
  covered by locked funds, with a settlement id that is new to the provider's credit, the
  rollback succeeds and restores the whole vault state.
\<close>

theorem rollback_settle_payment_exact:
  assumes ok: "settle_payment c a pid sid now v = (Ok u, v')"
    and cover: "unat a \<le> locked_of v c" and fresh: "credits_fresh v pid sid"
  shows "rollback_settle_payment c a pid sid v' = (Ok (), v)"
proof -
  from ok obtain b p where b: "dm_get (client_balances v) c = Some b"
    and p: "dm_get (providers v) pid = Some p"
    and cr: "credit_provider pid p a sid now
      (put_balance c (b\<lparr>cb_locked := saturating_sub (cb_locked b) a\<rparr>) v) = (Ok u, v')"
    by (auto simp: settle_payment_def Let_def split: option.splits)
  from credit_provider_frame [OF cr] obtain v1
    where cr1: "credit_provider pid p a sid now v = (Ok u, v1)"
      and v': "v' = put_balance c (b\<lparr>cb_locked := saturating_sub (cb_locked b) a\<rparr>) v1"
    by blast
  from cover b have "a \<le> cb_locked b" by (simp add: locked_of_def funds_def word_le_nat_alt)
  moreover have "uncredit_provider pid p a sid v1 = (Ok (), v)"
    using uncredit_credit_pc [OF _ fresh cr1] uncredit_credit_mc [OF _ fresh cr1] by blast
  moreover have "client_balances v1 = client_balances v" "providers v1 = providers v"
    using credit_provider_keeps [OF cr1] by auto
  ultimately show ?thesis
    using b p v' put_balance_same [OF b]
    by (simp add: rollback_settle_payment_def checked_sub_back uncredit_provider_frame)
qed


theorem rollback_settle_payment_exact_witness:
  "rollback_settle_payment 10 100 ''p1'' ''s1'' (snd (settle_payment 10 100 ''p1'' ''s1'' 1010 demo_vault))
     = (Ok (), demo_vault)"
  by (rule rollback_settle_payment_exact [where u = "()" and now = 1010])
    (simp_all add: settle_payment_def credit_provider_def checked_add_def demo_defs put_balance_def
      locked_of_def funds_def credits_fresh_def)

text \<open>
  The expiry that \<open>refresh_client_max_lock_expires_at\<close> stores is an upper bound of every
  outstanding lock of the client: reservations still reserved, pending withdrawals, and the
  active requests of its channels. The escape hatch on chain releases locked funds only after
  that time.
\<close>

theorem refresh_bounds_every_lock:
  assumes ok: "refresh_client_max_lock_expires_at c v = (Ok m, v')"
  shows "(\<exists>b. dm_get (client_balances v') c = Some b \<and> cb_max_lock_expires_at b = m)
    \<and> (\<forall>k r. (k, r) \<in> set (reservations v) \<and> rs_client r = c \<and> rs_status r = Reserved
          \<longrightarrow> sint (rs_expires_at r) \<le> sint m)
    \<and> (\<forall>k w. (k, w) \<in> set (pending_withdrawals v) \<and> pw_client w = c \<longrightarrow> sint (pw_expires_at w) \<le> sint m)
    \<and> (\<forall>k ch q. (k, ch) \<in> set (active_channels v) \<and> ch_client ch = c \<and> ch_active_request ch = Some q
          \<longrightarrow> sint (rq_expires_at q) \<le> sint m)"
proof -
  let ?R = "map (rs_expires_at \<circ> snd)
      (filter (\<lambda>(_, r). rs_client r = c \<and> rs_status r = Reserved) (reservations v))"
  let ?W = "map (pw_expires_at \<circ> snd) (filter (\<lambda>(_, w). pw_client w = c) (pending_withdrawals v))"
  let ?C = "List.map_filter (\<lambda>(_, ch). if ch_client ch = c then map_option rq_expires_at (ch_active_request ch)
      else None) (active_channels v)"
  from ok have m: "m = smax (smax (smax_list ?R) (smax_list ?W)) (smax_list ?C)"
    and b: "\<exists>b. dm_get (client_balances v') c = Some b \<and> cb_max_lock_expires_at b = m"
    by (auto simp: refresh_client_max_lock_expires_at_def Let_def split: option.splits)
  have "x \<in> set ?R \<Longrightarrow> sint x \<le> sint m" "x \<in> set ?W \<Longrightarrow> sint x \<le> sint m"
    "x \<in> set ?C \<Longrightarrow> sint x \<le> sint m" for x
    unfolding m by (blast intro: smax_trans smax_list_ge)+
  note bound = this
  show ?thesis
  proof (intro conjI allI impI b)
    fix k r assume "(k, r) \<in> set (reservations v) \<and> rs_client r = c \<and> rs_status r = Reserved"
    then show "sint (rs_expires_at r) \<le> sint m" by (intro bound(1)) force
  next
    fix k w assume "(k, w) \<in> set (pending_withdrawals v) \<and> pw_client w = c"
    then show "sint (pw_expires_at w) \<le> sint m" by (intro bound(2)) force
  next
    fix k ch q assume "(k, ch) \<in> set (active_channels v) \<and> ch_client ch = c \<and> ch_active_request ch = Some q"
    then show "sint (rq_expires_at q) \<le> sint m"
      by (intro bound(3)) (force simp: List.map_filter_def)
  qed
qed

theorem refresh_bounds_every_lock_witness:
  "\<exists>m v'. refresh_client_max_lock_expires_at 10 demo_vault = (Ok m, v')
     \<and> sint (rs_expires_at demo_reservation) \<le> sint m"
proof -
  let ?r = "refresh_client_max_lock_expires_at 10 demo_vault"
  have ok: "?r = (Ok 1060, snd ?r)"
    by (simp add: refresh_client_max_lock_expires_at_def demo_defs smax_def List.map_filter_def)
  have "(''ver'', demo_reservation) \<in> set (reservations demo_vault)" "rs_client demo_reservation = 10"
    "rs_status demo_reservation = Reserved"
    by (simp_all add: demo_defs)
  with ok refresh_bounds_every_lock [OF ok] show ?thesis by blast
qed

text \<open>
  A confirmed batch is recorded for every settlement id it names: afterwards the lookup by
  settlement id finds the batch and its transaction, the pending history entry is gone, and no
  client balance has changed.
\<close>

theorem batch_confirmation_recorded:
  assumes "sid \<in> set sids"
  shows "dm_get (settlement_batches (apply_batch_confirmation sids b t v)) sid
      = Some \<lparr>sb_batch_id = b, sb_tx_signature = t\<rparr>
    \<and> dm_get (settlement_history (apply_batch_confirmation sids b t v)) sid = None
    \<and> client_balances (apply_batch_confirmation sids b t v) = client_balances v"
  using assms confirm_fold [of b t sids "([], v)" sid]
  by (auto simp: apply_batch_confirmation_def Let_def split: prod.splits)

theorem batch_confirmation_recorded_witness:
  "dm_get (settlement_batches (apply_batch_confirmation [''s1''] 7 ''tx'' demo_vault)) ''s1''
      = Some \<lparr>sb_batch_id = 7, sb_tx_signature = ''tx''\<rparr>
    \<and> dm_get (settlement_history (apply_batch_confirmation [''s1''] 7 ''tx'' demo_vault)) ''s1'' = None
    \<and> client_balances (apply_batch_confirmation [''s1''] 7 ''tx'' demo_vault) = client_balances demo_vault"
  by (rule batch_confirmation_recorded) simp

text \<open>
  Confirming a settlement id that no reservation carries (the id of a closed channel) takes
  the id off the provider's credit but leaves the credited amounts as they were: the value owed
  to providers does not go down although the id has been paid on chain.
\<close>

theorem confirm_channel_id_keeps_amounts:
  assumes "find (\<lambda>(_, r). rs_settlement_id r = Some sid) (reservations v) = None"
    and "dm_wf (provider_credits v)" and "dm_wf (multi_chain_provider_credits v)"
  shows "credit_value (snd (confirm_one b t sid (aff, v))) = credit_value v"
  using assms by (rule confirm_one_unreserved_value)

theorem confirm_channel_id_keeps_amounts_witness:
  "credit_value (snd (confirm_one 7 ''tx'' ''asc_1'' ([], demo_vault
      \<lparr>provider_credits := [(''p1'', \<lparr>pc_provider_id = ''p1'', pc_settlement_token_account = 55,
         pc_credited_amount = 40, pc_oldest_credit_at = 0, pc_settlement_ids = [''asc_1'', ''asc_2'']\<rparr>)]\<rparr>)))
     = credit_value (demo_vault
      \<lparr>provider_credits := [(''p1'', \<lparr>pc_provider_id = ''p1'', pc_settlement_token_account = 55,
         pc_credited_amount = 40, pc_oldest_credit_at = 0, pc_settlement_ids = [''asc_1'', ''asc_2'']\<rparr>)]\<rparr>)"
  by (rule confirm_channel_id_keeps_amounts) (simp_all add: demo_defs dm_wf_def)

end
