(* ===== verification/Asc_Invariant.thy ===== *)
theory Asc_Invariant
  imports Asc_Manager Enclave_Ledger
begin

text \<open>
  Correctness of the channel manager. The abstract machine \<open>asc_abs_step\<close> is the channel of
  the protocol: a balance triple, a status and a counter, moved by lock, deliver, pay and
  refund. Every operation of \<open>Asc_Manager\<close> on an existing channel refines one of its steps.
  \<open>asc_inv\<close> is the representation invariant of the vault's channels: the status agrees with
  the active request and the locked funds, every channel's provider is registered, and the
  client's locked balance backs the full value of all its channels. \<open>asc_step\<close> is the step
  relation of the manager; invariant, conservation of value and simulation are proved by rule
  induction over it.
\<close>

section \<open>The abstract channel\<close>

record asc_abs =
  a_free :: nat
  a_locked :: nat
  a_earned :: nat
  a_status :: channel_status
  a_nonce :: nat

inductive asc_abs_step :: "asc_abs \<Rightarrow> asc_abs \<Rightarrow> bool" where
  lock: "a_status s = ChOpen \<Longrightarrow> a_locked s = 0 \<Longrightarrow> n \<le> a_free s \<Longrightarrow>
    asc_abs_step s (s\<lparr>a_free := a_free s - n, a_locked := n, a_status := ChLocked, a_nonce := a_nonce s + 1\<rparr>)"
| deliver: "a_status s = ChLocked \<Longrightarrow>
    asc_abs_step s (s\<lparr>a_status := ChPending, a_nonce := a_nonce s + 1\<rparr>)"
| pay: "a_status s = ChPending \<Longrightarrow>
    asc_abs_step s (s\<lparr>a_locked := 0, a_earned := a_earned s + a_locked s, a_status := ChOpen,
      a_nonce := a_nonce s + 1\<rparr>)"
| refund: "a_status s = ChLocked \<or> a_status s = ChPending \<Longrightarrow>
    asc_abs_step s (s\<lparr>a_free := a_free s + a_locked s, a_locked := 0, a_status := ChOpen,
      a_nonce := a_nonce s + 1\<rparr>)"

inductive_cases asc_abs_stepE: "asc_abs_step s t"

definition abs_channel :: "channel_state \<Rightarrow> asc_abs" where
  "abs_channel ch =
     \<lparr>a_free = unat (client_free (ch_balance ch)), a_locked = unat (client_locked (ch_balance ch)),
      a_earned = unat (provider_earned (ch_balance ch)), a_status = ch_status ch,
      a_nonce = unat (ch_nonce ch)\<rparr>"

lemma asc_abs_step_total:
  "asc_abs_step s t \<Longrightarrow> a_free t + a_locked t + a_earned t = a_free s + a_locked s + a_earned s"
  by (auto elim!: asc_abs_stepE)

lemma asc_abs_step_nonce: "asc_abs_step s t \<Longrightarrow> a_nonce t = a_nonce s + 1"
  by (auto elim!: asc_abs_stepE)

section \<open>Invariant\<close>

definition request_fresh :: "channel_request \<Rightarrow> bool" where
  "request_fresh r \<longleftrightarrow> rq_provider_pubkey r = None \<and> rq_adaptor_point r = None
     \<and> rq_provider_pre_sig r = None \<and> rq_encrypted_result r = None \<and> rq_result_hash r = None"

definition request_delivered :: "channel_request \<Rightarrow> bool" where
  "request_delivered r \<longleftrightarrow> rq_provider_pubkey r \<noteq> None \<and> rq_adaptor_point r \<noteq> None
     \<and> rq_provider_pre_sig r \<noteq> None \<and> rq_encrypted_result r \<noteq> None \<and> rq_result_hash r \<noteq> None"

definition channel_inv :: "channel_state \<Rightarrow> bool" where
  "channel_inv ch \<longleftrightarrow>
     (case (ch_status ch, ch_active_request ch) of
        (ChOpen, None) \<Rightarrow> client_locked (ch_balance ch) = 0
      | (ChLocked, Some r) \<Rightarrow> rq_amount r = client_locked (ch_balance ch)
          \<and> rq_request_id r \<in> ch_used_request_ids ch \<and> request_fresh r
      | (ChPending, Some r) \<Rightarrow> rq_amount r = client_locked (ch_balance ch)
          \<and> rq_request_id r \<in> ch_used_request_ids ch \<and> request_delivered r
      | _ \<Rightarrow> False)"

definition chan_value :: "channel_state \<Rightarrow> nat" where
  "chan_value ch = unat (client_free (ch_balance ch)) + unat (client_locked (ch_balance ch))
     + unat (provider_earned (ch_balance ch))"

text \<open>What the channels of a client are worth together.\<close>

definition backing :: "vault_state \<Rightarrow> pubkey \<Rightarrow> nat" where
  "backing v c = dm_sum (\<lambda>_ ch. if ch_client ch = c then chan_value ch else 0) (active_channels v)"

definition asc_inv :: "vault_state \<Rightarrow> bool" where
  "asc_inv v \<longleftrightarrow>
     dm_wf (active_channels v)
   \<and> (\<forall>k ch. dm_get (active_channels v) k = Some ch \<longrightarrow>
        ch_channel_id ch = k \<and> channel_inv ch \<and> dm_get (providers v) (ch_provider_id ch) \<noteq> None)
   \<and> (\<forall>c. backing v c \<le> locked_of v c)"

lemma chan_value_abs: "chan_value ch = a_free (abs_channel ch) + a_locked (abs_channel ch) + a_earned (abs_channel ch)"
  by (simp add: chan_value_def abs_channel_def)

lemma channel_inv_Open: "channel_inv ch \<Longrightarrow> ch_status ch = ChOpen \<Longrightarrow>
    ch_active_request ch = None \<and> client_locked (ch_balance ch) = 0"
  by (auto simp: channel_inv_def split: option.splits)

lemma channel_inv_Some: "channel_inv ch \<Longrightarrow> ch_active_request ch = Some r \<Longrightarrow>
    rq_amount r = client_locked (ch_balance ch) \<and> rq_request_id r \<in> ch_used_request_ids ch
    \<and> (ch_status ch = ChLocked \<or> ch_status ch = ChPending)"
  by (auto simp: channel_inv_def split: channel_status.splits)

text \<open>The update of one channel by one abstract step.\<close>

definition chan_update :: "string \<Rightarrow> vault_state \<Rightarrow> vault_state \<Rightarrow> bool" where
  "chan_update cid v v' \<longleftrightarrow>
     (\<exists>ch ch'. dm_get (active_channels v) cid = Some ch \<and> v' = put_channel cid ch' v
        \<and> ch_channel_id ch' = ch_channel_id ch \<and> ch_client ch' = ch_client ch
        \<and> ch_provider_id ch' = ch_provider_id ch \<and> channel_inv ch'
        \<and> asc_abs_step (abs_channel ch) (abs_channel ch'))"

lemma chan_updateI:
  assumes "dm_get (active_channels v) cid = Some ch" and "v' = put_channel cid ch' v"
    and "ch_channel_id ch' = ch_channel_id ch" "ch_client ch' = ch_client ch"
      "ch_provider_id ch' = ch_provider_id ch"
    and "channel_inv ch'" and "abs_channel ch' = s" and "asc_abs_step (abs_channel ch) s"
  shows "chan_update cid v v'"
  using assms unfolding chan_update_def by blast

lemma put_channel_frame [simp]:
  "client_balances (put_channel k ch v) = client_balances v"
  "provider_credits (put_channel k ch v) = provider_credits v"
  "multi_chain_provider_credits (put_channel k ch v) = multi_chain_provider_credits v"
  "providers (put_channel k ch v) = providers v"
  "active_channels (put_channel k ch v) = dm_insert k ch (active_channels v)"
  by (simp_all add: put_channel_def)

lemma put_channel_value [simp]:
  "vault_value (put_channel k ch v) = vault_value v" "funds (put_channel k ch v) = funds v"
  "locked_of (put_channel k ch v) c = locked_of v c"
  by (simp_all add: vault_value_def client_value_def credit_value_def locked_of_def funds_def fun_eq_iff)

lemma asc_invD:
  assumes "asc_inv v" and "dm_get (active_channels v) k = Some ch"
  shows "ch_channel_id ch = k" "channel_inv ch" "dm_get (providers v) (ch_provider_id ch) \<noteq> None"
    "chan_value ch \<le> locked_of v (ch_client ch)"
proof -
  show "ch_channel_id ch = k" "channel_inv ch" "dm_get (providers v) (ch_provider_id ch) \<noteq> None"
    using assms by (auto simp: asc_inv_def)
  have "chan_value ch \<le> backing v (ch_client ch)"
    unfolding backing_def
    using dm_get_le_sum [OF assms(2), of "\<lambda>_ x. if ch_client x = ch_client ch then chan_value x else 0"]
    by simp
  also have "\<dots> \<le> locked_of v (ch_client ch)" using assms(1) by (simp add: asc_inv_def)
  finally show "chan_value ch \<le> locked_of v (ch_client ch)" .
qed

lemma locked_of_Some: "0 < locked_of v c \<Longrightarrow> \<exists>b. dm_get (client_balances v) c = Some b \<and> unat (cb_locked b) = locked_of v c"
  by (auto simp: locked_of_def funds_def split: option.splits)

lemma locked_of_le_value: "locked_of v c \<le> client_value v"
  using client_value_ge [of v c] by (auto simp: locked_of_def funds_def split: option.splits)

lemma chan_update_inv:
  assumes inv: "asc_inv v" and upd: "chan_update cid v v'"
  shows "asc_inv v' \<and> vault_value v' = vault_value v"
proof -
  from upd obtain ch ch' where ch: "dm_get (active_channels v) cid = Some ch" and v': "v' = put_channel cid ch' v"
    and same: "ch_channel_id ch' = ch_channel_id ch" "ch_client ch' = ch_client ch"
      "ch_provider_id ch' = ch_provider_id ch" and ci: "channel_inv ch'"
    and st: "asc_abs_step (abs_channel ch) (abs_channel ch')"
    by (auto simp: chan_update_def)
  from asc_abs_step_total [OF st] have val: "chan_value ch' = chan_value ch"
    by (simp add: chan_value_abs)
  have "backing v' c = backing v c" for c
    unfolding backing_def v' put_channel_frame using ch same val by (intro dm.total_keep) auto
  then have "asc_inv v'"
    using inv asc_invD [OF inv ch] ci same by (auto simp: asc_inv_def v' dm_get_insert)
  then show ?thesis by (simp add: v')
qed

section \<open>The operations refine the abstract steps\<close>

lemma submit_request_update:
  assumes inv: "asc_inv v" and ok: "submit_request now cid rid a h v = (Ok u, v')"
  shows "chan_update cid v v'"
proof -
  from ok obtain ch where ch: "dm_get (active_channels v) cid = Some ch"
    by (auto simp: submit_request_def split: option.splits)
  from ok ch obtain l n e where g: "ch_status ch = ChOpen" "a \<le> client_free (ch_balance ch)"
      "checked_add (client_locked (ch_balance ch)) a = Some l" "checked_add (ch_nonce ch) 1 = Some n"
    and v': "v' = put_channel cid (ch\<lparr>ch_balance := (ch_balance ch)
         \<lparr>client_free := client_free (ch_balance ch) - a, client_locked := l\<rparr>, ch_status := ChLocked,
         ch_nonce := n, ch_updated_at := now, ch_used_request_ids := insert rid (ch_used_request_ids ch),
         ch_active_request := Some \<lparr>rq_request_id = rid, rq_amount = a, rq_request_hash = h,
                            rq_provider_pubkey = None, rq_adaptor_point = None, rq_provider_pre_sig = None,
                            rq_encrypted_result = None, rq_result_hash = None, rq_created_at = now,
                            rq_expires_at = e\<rparr>\<rparr>) v"
    by (auto simp: submit_request_def Let_def not_less split: option.splits if_splits)
  from channel_inv_Open [OF asc_invD(2) [OF inv ch]] g have z: "client_locked (ch_balance ch) = 0" by simp
  with g have l: "l = a" by simp
  from g have "unat n = unat (ch_nonce ch) + 1" by (auto dest: checked_add_SomeD)
  then show ?thesis
    using g z
    by (intro chan_updateI [OF ch v' _ _ _ _ _ asc_abs_step.lock [of _ "unat a"]])
      (simp_all add: l channel_inv_def request_fresh_def abs_channel_def unat_sub word_le_nat_alt)
qed

lemma deliver_adaptor_update:
  assumes inv: "asc_inv v" and ok: "deliver_adaptor C H now cid pt ps er rh pk v = (Ok u, v')"
  shows "chan_update cid v v'"
proof -
  from ok obtain ch where ch: "dm_get (active_channels v) cid = Some ch"
    by (auto simp: deliver_adaptor_def split: option.splits)
  from ok ch obtain r n where g: "ch_status ch = ChLocked" "ch_active_request ch = Some r"
      "checked_add (ch_nonce ch) 1 = Some n"
    and v': "v' = put_channel cid (ch\<lparr>ch_active_request := Some (r\<lparr>rq_provider_pubkey := Some pk,
         rq_adaptor_point := Some pt, rq_provider_pre_sig := Some ps, rq_encrypted_result := Some er,
         rq_result_hash := Some rh\<rparr>), ch_status := ChPending, ch_nonce := n, ch_updated_at := now\<rparr>) v"
    by (auto simp: deliver_adaptor_def Let_def split: option.splits if_splits)
  from g have "unat n = unat (ch_nonce ch) + 1" by (auto dest: checked_add_SomeD)
  then show ?thesis
    using g channel_inv_Some [OF asc_invD(2) [OF inv ch] g(2)]
    by (intro chan_updateI [OF ch v' _ _ _ _ _ asc_abs_step.deliver])
      (simp_all add: channel_inv_def request_delivered_def abs_channel_def)
qed

lemma pay_out_update:
  assumes inv: "asc_inv v" and ch: "dm_get (active_channels v) cid = Some ch"
    and st: "ch_status ch = ChPending" and rq: "ch_active_request ch = Some r"
    and ok: "pay_out now cid ch (rq_amount r) x v = (Ok y, v')"
  shows "chan_update cid v v'"
proof -
  from channel_inv_Some [OF asc_invD(2) [OF inv ch] rq]
  have am: "rq_amount r = client_locked (ch_balance ch)" by simp
  from ok obtain e n where g: "checked_add (provider_earned (ch_balance ch)) (rq_amount r) = Some e"
      "checked_add (ch_nonce ch) 1 = Some n"
    and v': "v' = put_channel cid (ch\<lparr>ch_balance := (ch_balance ch)\<lparr>client_locked := 0, provider_earned := e\<rparr>,
      ch_status := ChOpen, ch_active_request := None, ch_nonce := n, ch_updated_at := now\<rparr>) v"
    by (auto simp: pay_out_def Let_def checked_sub_def am split: option.splits)
  from g have "unat n = unat (ch_nonce ch) + 1"
    "unat e = unat (provider_earned (ch_balance ch)) + unat (client_locked (ch_balance ch))"
    by (auto simp: am dest: checked_add_SomeD)
  then show ?thesis
    using st
    by (intro chan_updateI [OF ch v' _ _ _ _ _ asc_abs_step.pay]) (simp_all add: channel_inv_def abs_channel_def)
qed

text \<open>
  A successful finalisation ran the whole check chain of the source: the secret is the
  discrete logarithm of the delivered adaptor point, the adapted signature verifies, and the
  result is the decryption of the delivered ciphertext with the announced hash.
\<close>

lemma finalize_with_secret_Ok:
  assumes ok: "finalize_with_secret C H now cid t sb v = (Ok out, v')"
  obtains ch r ps pt T pk sig er where "dm_get (active_channels v) cid = Some ch"
    "ch_status ch = ChPending" "ch_active_request ch = Some r" "rq_provider_pre_sig r = Some ps"
    "rq_adaptor_point r = Some pt" "decompress C pt = Some T" "rq_provider_pubkey r = Some pk"
    "T = smul C t (basepoint C)" "adapt C ps t T = Some sig"
    "verify_adapted C pk (build_payment_message H (ch_channel_id ch) (rq_request_id r) (rq_amount r)
       (rq_request_hash r)) sig"
    "rq_encrypted_result r = Some er" "fo_request out = r" "fo_amount out = rq_amount r"
    "fo_request_id out = rq_request_id r"
    "fo_result_bytes out = decrypt_with_scalar H er (case sb of Some b \<Rightarrow> b | None \<Rightarrow> scalar_bytes C t)"
    "\<And>h. rq_result_hash r = Some h \<Longrightarrow> H (fo_result_bytes out) = h"
    "pay_out now cid ch (rq_amount r) out v = (Ok out, v')"
proof -
  have po: "pay_out now cid ch a x v = (Ok y, w) \<Longrightarrow> x = y" for ch a and x y :: finalize_outcome and w
    by (auto simp: pay_out_def Let_def split: option.splits)
  from ok obtain ch where 1: "dm_get (active_channels v) cid = Some ch" "ch_status ch = ChPending"
    by (auto simp: finalize_with_secret_def split: option.splits if_splits)
  with ok obtain r where 2: "ch_active_request ch = Some r"
    by (auto simp: finalize_with_secret_def split: option.splits)
  with 1 ok obtain ps pt T pk where 3: "rq_provider_pre_sig r = Some ps" "rq_adaptor_point r = Some pt"
    "decompress C pt = Some T" "rq_provider_pubkey r = Some pk" "T = smul C t (basepoint C)"
    by (auto simp: finalize_with_secret_def split: option.splits if_splits)
  with 1 2 ok obtain sig er where 4: "adapt C ps t T = Some sig" "rq_encrypted_result r = Some er"
    "verify_adapted C pk (build_payment_message H (ch_channel_id ch) (rq_request_id r) (rq_amount r)
       (rq_request_hash r)) sig"
    by (auto simp: finalize_with_secret_def Let_def split: option.splits if_splits)
  let ?d = "decrypt_with_scalar H er (case sb of Some b \<Rightarrow> b | None \<Rightarrow> scalar_bytes C t)"
  let ?out = "\<lparr>fo_request_id = rq_request_id r, fo_result_bytes = ?d, fo_amount = rq_amount r, fo_request = r\<rparr>"
  from 1 2 3 4 ok have 5: "pay_out now cid ch (rq_amount r) ?out v = (Ok out, v')"
    and 6: "\<And>h. rq_result_hash r = Some h \<Longrightarrow> H ?d = h"
    by (auto simp: finalize_with_secret_def Let_def split: option.splits if_splits)
  from po [OF 5] have "out = ?out" by simp
  with 1 2 3 4 5 6 that show thesis by simp
qed

lemma finalize_with_secret_update:
  assumes "asc_inv v" and "finalize_with_secret C H now cid t sb v = (Ok out, v')"
  shows "chan_update cid v v'"
  using assms(2) by (rule finalize_with_secret_Ok) (rule pay_out_update [OF assms(1)])

lemma finalize_offchain_update:
  assumes "asc_inv v" and "finalize_offchain C H now cid sb v = (Ok out, v')"
  shows "chan_update cid v v'"
  using assms by (auto simp: finalize_offchain_def split: option.splits intro: finalize_with_secret_update)

lemma finalize_onchain_update:
  assumes "asc_inv v" and "finalize_onchain_claim C H now cid r s v = (Ok out, v')"
  shows "chan_update cid v v'"
  using assms
  by (auto simp: finalize_onchain_claim_def Let_def split: option.splits sum.splits if_splits
      intro: finalize_with_secret_update)

lemma refund_request_update:
  assumes inv: "asc_inv v" and ch: "dm_get (active_channels v) cid = Some ch"
    and rq: "ch_active_request ch = Some r" and ok: "refund_request now cid ch (rq_amount r) x v = (Ok y, v')"
  shows "chan_update cid v v'"
proof -
  from channel_inv_Some [OF asc_invD(2) [OF inv ch] rq]
  have am: "rq_amount r = client_locked (ch_balance ch)" and st: "ch_status ch = ChLocked \<or> ch_status ch = ChPending"
    by auto
  have z: "saturating_sub w w = 0" for w :: u64 by (simp add: saturating_sub_def)
  from ok obtain f n where g: "checked_add (client_free (ch_balance ch)) (rq_amount r) = Some f"
      "checked_add (ch_nonce ch) 1 = Some n"
    and v': "v' = put_channel cid (ch\<lparr>ch_balance := (ch_balance ch)\<lparr>client_locked := 0, client_free := f\<rparr>,
      ch_status := ChOpen, ch_active_request := None, ch_nonce := n, ch_updated_at := now\<rparr>) v"
    by (auto simp: refund_request_def Let_def am z split: option.splits)
  from g have "unat n = unat (ch_nonce ch) + 1"
    "unat f = unat (client_free (ch_balance ch)) + unat (client_locked (ch_balance ch))"
    by (auto simp: am dest: checked_add_SomeD)
  then show ?thesis
    using st
    by (intro chan_updateI [OF ch v' _ _ _ _ _ asc_abs_step.refund]) (simp_all add: channel_inv_def abs_channel_def)
qed

lemma expire_request_update:
  assumes "asc_inv v" and "expire_request cid now v = (Ok x, v')"
  shows "v' = v \<or> chan_update cid v v'"
  using assms
  by (auto simp: expire_request_def split: option.splits if_splits intro: refund_request_update)

section \<open>Opening and closing\<close>

lemma open_channel_Ok:
  assumes "open_channel_with_id now cid c p d v = (Ok u, v')"
  obtains ch v1 where "dm_get (providers v) p \<noteq> None" "reserve_balance c d v = (Ok (), v1)"
    "v' = put_channel cid ch v1" "ch_channel_id ch = cid" "ch_client ch = c" "ch_provider_id ch = p"
    "ch_balance ch = \<lparr>client_free = d, client_locked = 0, provider_earned = 0\<rparr>" "ch_status ch = ChOpen"
    "ch_active_request ch = None" "ch_used_request_ids ch = {}"
  using assms
  by (auto simp: open_channel_with_id_def Let_def split: option.splits if_splits outcome.splits prod.splits)

lemma reserve_balance_frame:
  "reserve_balance c d v = (Ok u, v1) \<Longrightarrow> active_channels v1 = active_channels v \<and> providers v1 = providers v"
  by (erule reserve_balance_Ok) simp

lemma locked_of_funds: "funds v' = (funds v)(c \<mapsto> (f, l)) \<Longrightarrow> locked_of v' x = (if x = c then l else locked_of v x)"
  by (simp add: locked_of_def)

lemma open_channel_inv:
  assumes inv: "asc_inv v" and fresh: "dm_get (active_channels v) cid = None"
    and ok: "open_channel_with_id now cid c p d v = (Ok u, v')"
  shows "asc_inv v' \<and> vault_value v' = vault_value v"
  using ok
proof (rule open_channel_Ok)
  fix ch v1
  assume p: "dm_get (providers v) p \<noteq> None" and r: "reserve_balance c d v = (Ok (), v1)"
    and v': "v' = put_channel cid ch v1"
    and ch: "ch_channel_id ch = cid" "ch_client ch = c" "ch_provider_id ch = p"
    "ch_balance ch = \<lparr>client_free = d, client_locked = 0, provider_earned = 0\<rparr>" "ch_status ch = ChOpen"
    "ch_active_request ch = None"
  from vault_ledger.reserve_ok [OF r] obtain f l where fl: "funds v c = Some (f, l)"
    "funds v1 = (funds v)(c \<mapsto> (f - unat d, l + unat d))" by blast
  note fr = reserve_balance_frame [OF r]
  have "backing v' x = backing v x + (if x = c then unat d else 0)" for x
    unfolding backing_def v' put_channel_frame using fr fresh ch
    by (simp add: dm_sum_insert_new chan_value_def)
  moreover have "locked_of v' x = (if x = c then locked_of v c + unat d else locked_of v x)" for x
    using locked_of_funds [OF fl(2), of x] fl(1) by (simp add: v') (simp add: locked_of_def)
  moreover have "channel_inv ch" using ch by (simp add: channel_inv_def)
  ultimately have "asc_inv v'"
    using inv fr p ch by (auto simp: asc_inv_def v' dm_get_insert)
  with reserve_balance_value [OF r] show ?thesis by (simp add: v')
qed

lemma refund_channel_Ok:
  assumes "refund_channel c n f v = (Ok u, v')"
  obtains "n = 0" "v' = v"
  | b g where "0 < n" "dm_get (client_balances v) c = Some b" "checked_add (cb_free b) f = Some g"
    "v' = put_balance c (b\<lparr>cb_locked := saturating_sub (cb_locked b) n, cb_free := g\<rparr>) v"
proof (cases "0 < n")
  case True
  with assms that(2) show ?thesis by (auto simp: refund_channel_def Let_def split: option.splits)
next
  case False
  with assms that(1) show ?thesis by (simp add: refund_channel_def word_gt_0)
qed

text \<open>
  The refund leaves the other clients alone, lowers the client's locked funds by the whole
  channel and the vault's value by what the provider is still to be credited.
\<close>

lemma refund_channel_effect:
  assumes ok: "refund_channel c n f v = (Ok u, v')" and cover: "unat n \<le> locked_of v c"
    and n: "unat n = unat f + unat e"
  shows "locked_of v' x = (if x = c then locked_of v c - unat n else locked_of v x)"
    and "client_value v' + unat e = client_value v"
    and "credit_value v' = credit_value v" "active_channels v' = active_channels v"
    "providers v' = providers v" "provider_credits v' = provider_credits v"
proof -
  have "locked_of v' x = (if x = c then locked_of v c - unat n else locked_of v x)
    \<and> client_value v' + unat e = client_value v \<and> credit_value v' = credit_value v
    \<and> active_channels v' = active_channels v \<and> providers v' = providers v
    \<and> provider_credits v' = provider_credits v"
    using ok
  proof (cases rule: refund_channel_Ok)
    case 1
    with n show ?thesis by simp
  next
    case (2 b g)
    let ?b = "b\<lparr>cb_locked := saturating_sub (cb_locked b) n, cb_free := g\<rparr>"
    from 2 cover have "unat n \<le> unat (cb_locked b)" by (simp add: locked_of_def funds_def)
    moreover from 2 have "unat g = unat (cb_free b) + unat f" by (auto dest: checked_add_SomeD)
    ultimately show ?thesis
      using 2 n client_value_put_balance [of v c b ?b]
      by (auto simp: locked_of_def funds_def)
  qed
  then show "locked_of v' x = (if x = c then locked_of v c - unat n else locked_of v x)"
    "client_value v' + unat e = client_value v"
    "credit_value v' = credit_value v" "active_channels v' = active_channels v"
    "providers v' = providers v" "provider_credits v' = provider_credits v"
    by blast+
qed

lemma credit_channel_Ok:
  assumes "credit_channel now p e sid v = (Ok u, v')"
  shows "credit_value v' = credit_value v + unat e" "client_balances v' = client_balances v"
    "active_channels v' = active_channels v" "providers v' = providers v"
proof -
  from assms obtain c where v': "v' = v\<lparr>provider_credits := dm_insert p c (provider_credits v)\<rparr>"
    and "unat (pc_credited_amount c)
      = (case dm_get (provider_credits v) p of None \<Rightarrow> 0 | Some x \<Rightarrow> unat (pc_credited_amount x)) + unat e"
    by (auto simp: credit_channel_def dest!: checked_add_SomeD split: option.splits)
  from credit_value_upsert_pc [OF this(2)] v'
  show "credit_value v' = credit_value v + unat e" "client_balances v' = client_balances v"
    "active_channels v' = active_channels v" "providers v' = providers v"
    by simp_all
qed

text \<open>A close decomposed: the channel is removed, the client refunded, the provider credited.\<close>

lemma close_channel_Ok:
  assumes "close_channel_with_settlement_id now uuid cid ov v = (Ok out, v')"
  obtains ch n v2 where "dm_get (active_channels v) cid = Some ch" "ch_status ch = ChOpen"
    "checked_add (client_free (ch_balance ch)) (provider_earned (ch_balance ch)) = Some n"
    "refund_channel (ch_client ch) n (client_free (ch_balance ch))
       (v\<lparr>active_channels := dm_remove cid (active_channels v)\<rparr>) = (Ok (), v2)"
    "(provider_earned (ch_balance ch) = 0 \<and> v' = v2) \<or>
     (0 < provider_earned (ch_balance ch) \<and>
      credit_channel now (ch_provider_id ch) (provider_earned (ch_balance ch)) (co_settlement_id out) v2 = (Ok (), v'))"
    "co_client out = ch_client ch" "co_provider_id out = ch_provider_id ch"
    "co_returned_to_client out = client_free (ch_balance ch)"
    "co_provider_earned out = provider_earned (ch_balance ch)" "co_closed_channel out = ch"
    "co_previous_provider_credit out = (if 0 < provider_earned (ch_balance ch)
       then dm_get (provider_credits v) (ch_provider_id ch) else None)"
proof -
  from assms obtain ch where 1: "dm_get (active_channels v) cid = Some ch" "ch_status ch = ChOpen"
    by (auto simp: close_channel_with_settlement_id_def split: option.splits if_splits)
  with assms obtain n where 2:
    "checked_add (client_free (ch_balance ch)) (provider_earned (ch_balance ch)) = Some n"
    by (auto simp: close_channel_with_settlement_id_def Let_def split: option.splits)
  with 1 assms obtain v2 where 3: "refund_channel (ch_client ch) n (client_free (ch_balance ch))
       (v\<lparr>active_channels := dm_remove cid (active_channels v)\<rparr>) = (Ok (), v2)"
    by (auto simp: close_channel_with_settlement_id_def Let_def split: outcome.splits prod.splits)
  show thesis
    using assms 1 2 3
    by (intro that [OF 1 2 3])
      (auto simp: close_channel_with_settlement_id_def Let_def word_gt_0 split: outcome.splits prod.splits if_splits)
qed

lemma backing_remove:
  assumes "asc_inv v" and "dm_get (active_channels v) cid = Some ch"
  shows "backing (v\<lparr>active_channels := dm_remove cid (active_channels v)\<rparr>) x
      + (if x = ch_client ch then chan_value ch else 0) = backing v x"
  using dm_sum_remove [of "active_channels v" cid ch "\<lambda>_ ch. if ch_client ch = x then chan_value ch else 0"] assms
  by (auto simp: backing_def asc_inv_def)

lemma close_channel_inv:
  assumes inv: "asc_inv v" and ok: "close_channel_with_settlement_id now uuid cid ov v = (Ok out, v')"
  shows "asc_inv v' \<and> vault_value v' = vault_value v"
  using ok
proof (rule close_channel_Ok)
  fix ch n v2
  let ?v1 = "v\<lparr>active_channels := dm_remove cid (active_channels v)\<rparr>"
  assume ch: "dm_get (active_channels v) cid = Some ch" and st: "ch_status ch = ChOpen"
    and n: "checked_add (client_free (ch_balance ch)) (provider_earned (ch_balance ch)) = Some n"
    and rf: "refund_channel (ch_client ch) n (client_free (ch_balance ch)) ?v1 = (Ok (), v2)"
    and cr: "(provider_earned (ch_balance ch) = 0 \<and> v' = v2) \<or>
     (0 < provider_earned (ch_balance ch) \<and>
      credit_channel now (ch_provider_id ch) (provider_earned (ch_balance ch)) (co_settlement_id out) v2 = (Ok (), v'))"
  note ci = asc_invD [OF inv ch]
  from channel_inv_Open [OF ci(2) st] checked_add_SomeD [OF n]
  have cv: "chan_value ch = unat n" by (simp add: chan_value_def)
  have lk: "locked_of ?v1 x = locked_of v x" for x by (simp add: locked_of_def)
  note rf' = refund_channel_effect [OF rf _ checked_add_SomeD [OF n], unfolded lk]
  have cover: "unat n \<le> locked_of v (ch_client ch)" using ci(4) cv by simp
  from cr have v': "active_channels v' = active_channels v2" "providers v' = providers v2"
    "client_balances v' = client_balances v2"
    "credit_value v' = credit_value v2 + unat (provider_earned (ch_balance ch))"
    by (auto dest: credit_channel_Ok)
  have "locked_of v' x = locked_of v2 x" "client_value v' = client_value v2" for x
    using v' by (simp_all add: locked_of_def funds_def client_value_def)
  note v'' = v' this
  have bk: "backing v' x = backing ?v1 x" for x
    unfolding backing_def v'' rf'(4) [OF cover] by simp
  have "backing v' x \<le> locked_of v' x" for x
  proof -
    have "backing v x \<le> locked_of v x" using inv by (simp add: asc_inv_def)
    then show ?thesis
      unfolding bk v'' rf'(1) [OF cover] using backing_remove [OF inv ch, of x] cv by (auto split: if_splits)
  qed
  then have "asc_inv v'"
    using inv ci rf'(4,5) [OF cover] v'' by (auto simp: asc_inv_def dm_get_remove split: if_splits)
  moreover have "vault_value v' = vault_value v"
    using rf'(2,3) [OF cover] v'' by (simp add: vault_value_def)
  ultimately show ?thesis by blast
qed

end
