(* ===== verification/Asc_Correct.thy ===== *)
theory Asc_Correct
  imports Asc_Invariant
begin

text \<open>
  The channel manager as a transition system and its theorems: invariant and conservation of
  value over every reachable state, refinement of the abstract channel, errors that change
  nothing, absence of panics, single use of request ids, atomicity of finalisation, agreement
  of the two finalisation paths, exact rollbacks and agreement of the write-ahead-log replay.
\<close>

section \<open>Errors change nothing\<close>

lemma open_channel_Err: "open_channel_with_id now cid c p d v = (Err e, v') \<Longrightarrow> v' = v"
  by (auto simp: open_channel_with_id_def Let_def dest: reserve_balance_Err
      split: option.splits if_splits outcome.splits prod.splits)

lemma submit_request_Err: "submit_request now cid rid a h v = (Err e, v') \<Longrightarrow> v' = v"
  by (auto simp: submit_request_def Let_def split: option.splits if_splits)

lemma deliver_adaptor_Err: "deliver_adaptor C H now cid pt ps er rh pk v = (Err e, v') \<Longrightarrow> v' = v"
  by (auto simp: deliver_adaptor_def Let_def split: option.splits if_splits)

lemma pay_out_not_Err: "pay_out now cid ch a x v \<noteq> (Err e, v')"
  by (auto simp: pay_out_def Let_def split: option.splits)

lemma finalize_with_secret_Err: "finalize_with_secret C H now cid t sb v = (Err e, v') \<Longrightarrow> v' = v"
  by (auto simp: finalize_with_secret_def Let_def pay_out_not_Err split: option.splits if_splits)

lemma finalize_offchain_Err: "finalize_offchain C H now cid sb v = (Err e, v') \<Longrightarrow> v' = v"
  by (auto simp: finalize_offchain_def dest: finalize_with_secret_Err split: option.splits)

lemma finalize_onchain_Err: "finalize_onchain_claim C H now cid r s v = (Err e, v') \<Longrightarrow> v' = v"
  by (auto simp: finalize_onchain_claim_def Let_def dest: finalize_with_secret_Err
      split: sum.splits option.splits if_splits)

lemma expire_request_Err: "expire_request cid now v = (Err e, v') \<Longrightarrow> v' = v"
  by (auto simp: expire_request_def refund_request_def Let_def split: option.splits if_splits)

text \<open>
  \<open>close_channel\<close> removes the channel before it looks up the client and the provider. Under
  the invariant both lookups succeed, so its late errors cannot happen.
\<close>

lemma refund_channel_no_Err:
  assumes "unat n \<le> locked_of v c"
  shows "refund_channel c n f v \<noteq> (Err e, v')"
proof (cases "dm_get (client_balances v) c")
  case None
  with assms have "n = 0" by (simp add: locked_of_def funds_def)
  then show ?thesis by (simp add: refund_channel_def)
qed (auto simp: refund_channel_def Let_def split: option.splits)

lemma credit_channel_no_Err:
  "dm_get (providers v) p \<noteq> None \<Longrightarrow> credit_channel now p e (Some sid) v \<noteq> (Err x, v')"
  by (auto simp: credit_channel_def split: option.splits)

lemma refund_channel_frame:
  "refund_channel c n f v = (r, v') \<Longrightarrow> providers v' = providers v \<and> provider_credits v' = provider_credits v
     \<and> multi_chain_provider_credits v' = multi_chain_provider_credits v"
  by (auto simp: refund_channel_def Let_def split: option.splits if_splits)

lemma closing_cover:
  assumes inv: "asc_inv v" and ch: "dm_get (active_channels v) cid = Some ch"
    and n: "checked_add (client_free (ch_balance ch)) (provider_earned (ch_balance ch)) = Some n"
  shows "unat n \<le> locked_of (v\<lparr>active_channels := x\<rparr>) (ch_client ch)"
  using asc_invD(4) [OF inv ch] checked_add_SomeD [OF n] by (simp add: chan_value_def locked_of_def)

lemma close_channel_Err:
  assumes inv: "asc_inv v" and err: "close_channel_with_settlement_id now uuid cid ov v = (Err e, v')"
  shows "v' = v"
proof (rule ccontr)
  assume "v' \<noteq> v"
  with err obtain ch n where ch: "dm_get (active_channels v) cid = Some ch"
    and n: "checked_add (client_free (ch_balance ch)) (provider_earned (ch_balance ch)) = Some n"
    by (auto simp: close_channel_with_settlement_id_def Let_def split: option.splits if_splits)
  have p: "dm_get (providers v) (ch_provider_id ch) \<noteq> None" using asc_invD(3) [OF inv ch] .
  show False
    using err \<open>v' \<noteq> v\<close> ch n p
    by (auto simp: close_channel_with_settlement_id_def Let_def
        refund_channel_no_Err [OF closing_cover [OF inv ch n]] credit_channel_no_Err
        dest!: refund_channel_frame split: outcome.splits prod.splits if_splits)
qed

section \<open>No panics\<close>

text \<open>
  The arithmetic of the manager cannot overflow as long as the vault holds less than 2^64 in
  all and no channel counter is at its maximum.
\<close>

definition headroom :: "vault_state \<Rightarrow> bool" where
  "headroom v \<longleftrightarrow> vault_value v < 2 ^ 64
     \<and> (\<forall>k ch. dm_get (active_channels v) k = Some ch \<longrightarrow> unat (ch_nonce ch) + 1 < 2 ^ 64)"

lemma checked_add_fits:
  "unat (x :: u64) + unat y < 2 ^ 64 \<Longrightarrow> checked_add x y = Some (x + y)"
  by (simp add: checked_add_def)

lemma nonce_fits: "headroom v \<Longrightarrow> dm_get (active_channels v) k = Some ch \<Longrightarrow>
    checked_add (ch_nonce ch) 1 = Some (ch_nonce ch + 1)"
  by (rule checked_add_fits) (auto simp: headroom_def)

lemma chan_value_fits:
  assumes "asc_inv v" and "headroom v" and "dm_get (active_channels v) k = Some ch"
  shows "chan_value ch < 2 ^ 64"
  using asc_invD(4) [OF assms(1,3)] locked_of_le_value [of v "ch_client ch"] assms(2)
  by (simp add: headroom_def vault_value_def)

lemma chan_sums_fit:
  assumes "asc_inv v" and "headroom v" and "dm_get (active_channels v) k = Some ch"
  shows "checked_add (provider_earned (ch_balance ch)) (client_locked (ch_balance ch)) \<noteq> None"
    "checked_add (client_free (ch_balance ch)) (client_locked (ch_balance ch)) \<noteq> None"
    "checked_add (client_free (ch_balance ch)) (provider_earned (ch_balance ch)) \<noteq> None"
  using chan_value_fits [OF assms] by (auto simp: checked_add_None_iff chan_value_def)

lemma open_channel_no_panic:
  assumes "headroom v"
  shows "fst (open_channel_with_id now cid c p d v) \<noteq> Panic"
proof -
  have "checked_add (cb_locked b) d \<noteq> None"
    if "dm_get (client_balances v) c = Some b" and "\<not> cb_free b < d" for b
    using client_value_ge [OF that(1)] that(2) assms
    by (auto simp: checked_add_None_iff headroom_def vault_value_def word_less_nat_alt)
  then show ?thesis
    by (auto simp: open_channel_with_id_def reserve_balance_def Let_def split: option.splits)
qed

lemma submit_request_no_panic:
  assumes inv: "asc_inv v" and hr: "headroom v" and t: "checked_sadd now REQUEST_EXPIRY_SEC \<noteq> None"
  shows "fst (submit_request now cid rid a h v) \<noteq> Panic"
proof (cases "dm_get (active_channels v) cid")
  case (Some ch)
  show ?thesis
    using channel_inv_Open [OF asc_invD(2) [OF inv Some]] t nonce_fits [OF hr Some] Some
    by (auto simp: submit_request_def Let_def split: option.splits)
qed (simp add: submit_request_def)

lemma deliver_adaptor_no_panic:
  assumes hr: "headroom v"
  shows "fst (deliver_adaptor C H now cid pt ps er rh pk v) \<noteq> Panic"
  using nonce_fits [OF hr] by (auto simp: deliver_adaptor_def Let_def split: option.splits)

lemma pay_out_no_panic:
  assumes "asc_inv v" and "headroom v" and "dm_get (active_channels v) cid = Some ch"
    and "ch_active_request ch = Some r"
  shows "fst (pay_out now cid ch (rq_amount r) x v) \<noteq> Panic"
  using channel_inv_Some [OF asc_invD(2) [OF assms(1,3)] assms(4)] chan_sums_fit(1) [OF assms(1-3)]
    nonce_fits [OF assms(2,3)]
  by (auto simp: pay_out_def Let_def checked_sub_def)

lemma finalize_with_secret_no_panic:
  assumes "asc_inv v" and "headroom v"
  shows "fst (finalize_with_secret C H now cid t sb v) \<noteq> Panic"
  by (auto simp: finalize_with_secret_def Let_def pay_out_no_panic [OF assms] split: option.splits)

lemma finalize_offchain_no_panic:
  assumes "asc_inv v" and "headroom v"
  shows "fst (finalize_offchain C H now cid sb v) \<noteq> Panic"
  by (auto simp: finalize_offchain_def finalize_with_secret_no_panic [OF assms] split: option.splits)

lemma finalize_onchain_no_panic:
  assumes "asc_inv v" and "headroom v"
  shows "fst (finalize_onchain_claim C H now cid r s v) \<noteq> Panic"
  by (auto simp: finalize_onchain_claim_def Let_def finalize_with_secret_no_panic [OF assms]
      split: option.splits sum.splits)

lemma expire_request_no_panic:
  assumes inv: "asc_inv v" and hr: "headroom v"
  shows "fst (expire_request cid now v) \<noteq> Panic"
proof (cases "dm_get (active_channels v) cid")
  case (Some ch)
  show ?thesis
    using channel_inv_Some [OF asc_invD(2) [OF inv Some]] chan_sums_fit(2) [OF inv hr Some] nonce_fits [OF hr Some] Some
    by (auto simp: expire_request_def refund_request_def Let_def split: option.splits)
qed (simp add: expire_request_def)

lemma refund_channel_no_panic:
  assumes "unat n \<le> locked_of v c" and "unat f \<le> unat n" and "client_value v < 2 ^ 64"
  shows "fst (refund_channel c n f v) \<noteq> Panic"
proof (cases "dm_get (client_balances v) c")
  case (Some b)
  with assms client_value_ge [OF Some] have "checked_add (cb_free b) f \<noteq> None"
    by (simp add: checked_add_None_iff locked_of_def funds_def)
  with Some show ?thesis by (auto simp: refund_channel_def Let_def)
qed (simp add: refund_channel_def)

lemma credit_value_ge: "dm_get (provider_credits v) p = Some c \<Longrightarrow> unat (pc_credited_amount c) \<le> credit_value v"
  using dm_get_le_sum [of "provider_credits v" p c "\<lambda>_ c. unat (pc_credited_amount c)"]
  by (simp add: credit_value_def)

lemma credit_channel_no_panic:
  assumes "credit_value v + unat e < 2 ^ 64"
  shows "fst (credit_channel now p e sid v) \<noteq> Panic"
proof -
  have "checked_add (pc_credited_amount c) e \<noteq> None" if "dm_get (provider_credits v) p = Some c" for c
    using credit_value_ge [OF that] assms by (simp add: checked_add_None_iff)
  then show ?thesis by (auto simp: credit_channel_def split: option.splits)
qed

lemma close_channel_no_panic:
  assumes inv: "asc_inv v" and hr: "headroom v"
  shows "fst (close_channel_with_settlement_id now uuid cid ov v) \<noteq> Panic"
proof (cases "dm_get (active_channels v) cid")
  case (Some ch)
  let ?v1 = "v\<lparr>active_channels := dm_remove cid (active_channels v)\<rparr>"
  let ?f = "client_free (ch_balance ch)" and ?e = "provider_earned (ch_balance ch)"
  from chan_sums_fit(3) [OF inv hr Some] obtain n where n: "checked_add ?f ?e = Some n" by auto
  note cover = closing_cover [OF inv Some n]
  have cv: "client_value v < 2 ^ 64" using hr by (simp add: headroom_def vault_value_def)
  have "fst (refund_channel (ch_client ch) n ?f ?v1) \<noteq> Panic"
    using cover checked_add_SomeD [OF n] cv by (intro refund_channel_no_panic) simp_all
  moreover have "credit_channel now (ch_provider_id ch) ?e sid v2 \<noteq> (Panic, v3)"
    if "refund_channel (ch_client ch) n ?f ?v1 = (Ok (), v2)" for sid v2 v3
    using refund_channel_effect(2,3) [OF that cover checked_add_SomeD [OF n]] hr
      credit_channel_no_panic [of v2 ?e now "ch_provider_id ch" sid]
    by (auto simp: headroom_def vault_value_def)
  ultimately show ?thesis
    using Some n
    by (auto simp: close_channel_with_settlement_id_def Let_def split: outcome.splits prod.splits)
qed (simp add: close_channel_with_settlement_id_def)

section \<open>The transition system\<close>

text \<open>
  One step is one call of the manager that returns (a result or an error). A fresh UUID names
  the channel that is opened.
\<close>

inductive asc_step :: "('p, 's) curve \<Rightarrow> (bytes \<Rightarrow> b32) \<Rightarrow> vault_state \<Rightarrow> vault_state \<Rightarrow> bool"
  for C :: "('p, 's) curve" and H :: "bytes \<Rightarrow> b32" where
  step_open: "dm_get (active_channels v) (''ch_'' @ uuid) = None \<Longrightarrow>
    open_channel now uuid c p d v = (r, v') \<Longrightarrow> r \<noteq> Panic \<Longrightarrow> asc_step C H v v'"
| step_submit: "submit_request now cid rid a h v = (r, v') \<Longrightarrow> r \<noteq> Panic \<Longrightarrow> asc_step C H v v'"
| step_deliver: "deliver_adaptor C H now cid pt ps er rh pk v = (r, v') \<Longrightarrow> r \<noteq> Panic \<Longrightarrow> asc_step C H v v'"
| step_finalize: "finalize_offchain C H now cid sb v = (r', v') \<Longrightarrow> r' \<noteq> Panic \<Longrightarrow> asc_step C H v v'"
| step_claim: "finalize_onchain_claim C H now cid R S v = (r', v') \<Longrightarrow> r' \<noteq> Panic \<Longrightarrow> asc_step C H v v'"
| step_expire: "expire_request cid now v = (r'', v') \<Longrightarrow> r'' \<noteq> Panic \<Longrightarrow> asc_step C H v v'"
| step_close: "close_channel now uuid cid v = (r''', v') \<Longrightarrow> r''' \<noteq> Panic \<Longrightarrow> asc_step C H v v'"

lemma open_channel_cases:
  assumes "open_channel now uuid c p d v = (r, v')" and "r \<noteq> Panic"
  obtains "v' = v" | "open_channel_with_id now (''ch_'' @ uuid) c p d v = (Ok (), v')"
  using assms
  by (auto simp: open_channel_def Let_def dest: open_channel_Err split: outcome.splits prod.splits)

text \<open>Every step leaves the state alone, moves one channel, opens one or closes one.\<close>

lemma asc_step_cases:
  assumes inv: "asc_inv v" and step: "asc_step C H v v'"
  obtains (stay) "v' = v"
  | (move) cid where "chan_update cid v v'"
  | (opened) now cid c p d where "dm_get (active_channels v) cid = None"
      "open_channel_with_id now cid c p d v = (Ok (), v')"
  | (closed) now uuid cid out where "close_channel_with_settlement_id now uuid cid None v = (Ok out, v')"
  using step
proof cases
  case (step_open uuid now c p d r)
  then show ?thesis using stay opened by (blast elim: open_channel_cases)
next
  case (step_submit now cid rid a h r)
  with stay move [OF submit_request_update [OF inv]] show ?thesis by (cases r) (auto dest: submit_request_Err)
next
  case (step_deliver now cid pt ps er rh pk r)
  with stay move [OF deliver_adaptor_update [OF inv]] show ?thesis by (cases r) (auto dest: deliver_adaptor_Err)
next
  case (step_finalize now cid sb r)
  with stay move [OF finalize_offchain_update [OF inv]] show ?thesis by (cases r) (auto dest: finalize_offchain_Err)
next
  case (step_claim now cid R S r)
  with stay move [OF finalize_onchain_update [OF inv]] show ?thesis by (cases r) (auto dest: finalize_onchain_Err)
next
  case (step_expire cid now r)
  with stay move show ?thesis
    by (cases r) (auto dest: expire_request_Err expire_request_update [OF inv])
next
  case (step_close now uuid cid r)
  with stay closed show ?thesis
    by (cases r) (auto simp: close_channel_def dest: close_channel_Err [OF inv])
qed

lemma asc_step_inv:
  assumes inv: "asc_inv v" and step: "asc_step C H v v'"
  shows "asc_inv v' \<and> vault_value v' = vault_value v"
  using inv step
  by (cases rule: asc_step_cases)
    (auto intro: chan_update_inv [OF inv] open_channel_inv [OF inv] close_channel_inv [OF inv] simp: inv
      dest: chan_update_inv [OF inv] open_channel_inv [OF inv] close_channel_inv [OF inv])

lemma chan_update_get:
  assumes "chan_update cid v v'"
  shows "k \<noteq> cid \<Longrightarrow> dm_get (active_channels v') k = dm_get (active_channels v) k"
    and "\<exists>ch ch'. dm_get (active_channels v) cid = Some ch \<and> dm_get (active_channels v') cid = Some ch'
           \<and> asc_abs_step (abs_channel ch) (abs_channel ch')"
  using assms by (auto simp: chan_update_def dm_get_insert)

lemma open_channel_get:
  assumes "open_channel_with_id now cid c p d v = (Ok u, v')"
  shows "k \<noteq> cid \<Longrightarrow> dm_get (active_channels v') k = dm_get (active_channels v) k"
    and "\<exists>ch. dm_get (active_channels v') cid = Some ch
       \<and> abs_channel ch = \<lparr>a_free = unat d, a_locked = 0, a_earned = 0, a_status = ChOpen, a_nonce = 0\<rparr>"
proof -
  from assms obtain ch v1 where r: "reserve_balance c d v = (Ok (), v1)" and v': "v' = put_channel cid ch v1"
    and "abs_channel ch = \<lparr>a_free = unat d, a_locked = 0, a_earned = 0, a_status = ChOpen, a_nonce = 0\<rparr>"
    by (auto simp: open_channel_with_id_def Let_def abs_channel_def
        split: option.splits if_splits outcome.splits prod.splits)
  with reserve_balance_frame [OF r]
  show "k \<noteq> cid \<Longrightarrow> dm_get (active_channels v') k = dm_get (active_channels v) k"
    "\<exists>ch. dm_get (active_channels v') cid = Some ch
       \<and> abs_channel ch = \<lparr>a_free = unat d, a_locked = 0, a_earned = 0, a_status = ChOpen, a_nonce = 0\<rparr>"
    by (auto simp: dm_get_insert)
qed

lemma close_channel_channels:
  assumes "close_channel_with_settlement_id now uuid cid ov v = (Ok out, v')"
  shows "active_channels v' = dm_remove cid (active_channels v)"
  using assms
proof (rule close_channel_Ok)
  fix ch n v2
  assume "refund_channel (ch_client ch) n (client_free (ch_balance ch))
       (v\<lparr>active_channels := dm_remove cid (active_channels v)\<rparr>) = (Ok (), v2)"
  then have "active_channels v2 = dm_remove cid (active_channels v)"
    by (auto elim!: refund_channel_Ok)
  moreover assume "(provider_earned (ch_balance ch) = 0 \<and> v' = v2) \<or>
     (0 < provider_earned (ch_balance ch) \<and>
      credit_channel now (ch_provider_id ch) (provider_earned (ch_balance ch)) (co_settlement_id out) v2 = (Ok (), v'))"
  ultimately show ?thesis by (auto dest: credit_channel_Ok(3))
qed

section \<open>Used request ids\<close>

lemma chan_used_ids:
  assumes "asc_step C H v v'" and "dm_get (active_channels v) k = Some ch"
    and "dm_get (active_channels v') k = Some ch'" and inv: "asc_inv v"
  shows "ch_used_request_ids ch \<subseteq> ch_used_request_ids ch'"
  using assms(1)
proof cases
  case (step_open uuid now c p d r)
  then show ?thesis using assms(2,3)
    by (cases "k = ''ch_'' @ uuid") (auto elim!: open_channel_cases dest: open_channel_get(1))
next
  case (step_submit now cid rid a h r)
  with assms(2,3) show ?thesis
    by (auto simp: submit_request_def Let_def dm_get_insert split: option.splits if_splits)
next
  case (step_deliver now cid pt ps er rh pk r)
  with assms(2,3) show ?thesis
    by (auto simp: deliver_adaptor_def Let_def dm_get_insert split: option.splits if_splits)
next
  case (step_finalize now cid sb r)
  with assms(2,3) show ?thesis
    by (cases r) (auto simp: finalize_offchain_def dm_get_insert pay_out_def Let_def dest: finalize_with_secret_Err
        elim!: finalize_with_secret_Ok split: option.splits if_splits)
next
  case (step_claim now cid R S r)
  with assms(2,3) show ?thesis
    by (cases r) (auto simp: finalize_onchain_claim_def Let_def dm_get_insert pay_out_def
        dest: finalize_with_secret_Err elim!: finalize_with_secret_Ok split: sum.splits option.splits if_splits)
next
  case (step_expire cid now r)
  with assms(2,3) show ?thesis
    by (auto simp: expire_request_def refund_request_def Let_def dm_get_insert split: option.splits if_splits)
next
  case (step_close now uuid cid r)
  show ?thesis
  proof (cases r)
    case (Ok out)
    with step_close assms(2,3) show ?thesis
      by (auto simp: close_channel_def dm_get_remove dest!: close_channel_channels split: if_splits)
  next
    case (Err e)
    with step_close assms(2,3) show ?thesis
      by (auto simp: close_channel_def dest!: close_channel_Err [OF inv])
  qed (use step_close in simp)
qed

section \<open>A sample run\<close>

text \<open>
  A channel of the sample client taken through its states on the word curve: opened with 300,
  a request of 40 locked, the adaptor (point 5, nonce 9, public key 0) delivered, paid.
\<close>

definition demo_hash :: "bytes \<Rightarrow> b32" where
  "demo_hash bs = 0"

definition demo_open :: vault_state where
  "demo_open = snd (open_channel 1000 ''1'' 10 ''p1'' 300 demo_vault)"

definition demo_locked :: vault_state where
  "demo_locked = snd (submit_request 1000 ''ch_1'' ''r1'' 40 5 demo_open)"

definition demo_pending :: vault_state where
  "demo_pending = snd (deliver_adaptor word_curve demo_hash 1010 ''ch_1'' 5 \<lparr>r_prime = 9, s_prime = 9\<rparr>
     [1, 2, 3] 0 0 demo_locked)"

definition demo_paid :: vault_state where
  "demo_paid = snd (finalize_offchain word_curve demo_hash 1020 ''ch_1'' 5 demo_pending)"

lemma demo_vault_inv: "asc_inv demo_vault"
  by (simp add: asc_inv_def backing_def demo_defs)

definition demo_request :: channel_request where
  "demo_request = \<lparr>rq_request_id = ''r1'', rq_amount = 40, rq_request_hash = 5, rq_provider_pubkey = None,
     rq_adaptor_point = None, rq_provider_pre_sig = None, rq_encrypted_result = None, rq_result_hash = None,
     rq_created_at = 1000, rq_expires_at = 1120\<rparr>"

definition demo_delivery :: channel_request where
  "demo_delivery = demo_request\<lparr>rq_provider_pubkey := Some 0, rq_adaptor_point := Some 5,
     rq_provider_pre_sig := Some \<lparr>r_prime = 9, s_prime = 9\<rparr>, rq_encrypted_result := Some [1, 2, 3],
     rq_result_hash := Some 0\<rparr>"

definition demo_channel :: "channel_status \<Rightarrow> u64 \<Rightarrow> channel_balance \<Rightarrow> string set \<Rightarrow> i64
    \<Rightarrow> channel_request option \<Rightarrow> channel_state" where
  "demo_channel st n b ids t rq = \<lparr>ch_channel_id = ''ch_1'', ch_client = 10, ch_provider_id = ''p1'',
     ch_balance = b, ch_status = st, ch_nonce = n, ch_created_at = 1000, ch_updated_at = t,
     ch_used_request_ids = ids, ch_active_request = rq\<rparr>"

lemma demo_open_run: "open_channel 1000 ''1'' 10 ''p1'' 300 demo_vault = (Ok ''ch_1'', demo_open)"
  by (simp add: demo_open_def open_channel_def open_channel_with_id_def reserve_balance_def demo_defs
      put_balance_def Let_def)

lemma demo_open_channel [simp]: "active_channels demo_open = [(''ch_1'', demo_channel ChOpen 0
    \<lparr>client_free = 300, client_locked = 0, provider_earned = 0\<rparr> {} 1000 None)]"
  by (simp add: demo_open_def open_channel_def open_channel_with_id_def reserve_balance_def demo_defs
      put_balance_def Let_def put_channel_def demo_channel_def)

lemma demo_locked_run: "submit_request 1000 ''ch_1'' ''r1'' 40 5 demo_open = (Ok (), demo_locked)"
  and demo_locked_channel [simp]: "active_channels demo_locked = [(''ch_1'', demo_channel ChLocked 1
    \<lparr>client_free = 260, client_locked = 40, provider_earned = 0\<rparr> {''r1''} 1000 (Some demo_request))]"
  by (simp_all add: demo_locked_def submit_request_def checked_sadd_def REQUEST_EXPIRY_SEC_def Let_def
      demo_channel_def demo_request_def)

lemma demo_pending_run: "deliver_adaptor word_curve demo_hash 1010 ''ch_1'' 5 \<lparr>r_prime = 9, s_prime = 9\<rparr>
     [1, 2, 3] 0 0 demo_locked = (Ok (), demo_pending)"
  and demo_pending_channel [simp]: "active_channels demo_pending = [(''ch_1'', demo_channel ChPending 2
    \<lparr>client_free = 260, client_locked = 40, provider_earned = 0\<rparr> {''r1''} 1010 (Some demo_delivery))]"
  by (simp_all add: demo_pending_def deliver_adaptor_def Let_def demo_channel_def demo_delivery_def
      demo_request_def word_curve_def pre_verify_def)

lemma demo_paid_run: "finalize_offchain word_curve demo_hash 1020 ''ch_1'' 5 demo_pending
     = (Ok \<lparr>fo_request_id = ''r1'', fo_result_bytes = decrypt_with_scalar demo_hash [1, 2, 3] 5,
            fo_amount = 40, fo_request = demo_delivery\<rparr>, demo_paid)"
  and demo_paid_channel [simp]: "active_channels demo_paid = [(''ch_1'', demo_channel ChOpen 3
    \<lparr>client_free = 260, client_locked = 0, provider_earned = 40\<rparr> {''r1''} 1020 None)]"
  by (simp_all add: demo_paid_def finalize_offchain_def finalize_with_secret_def Let_def demo_channel_def
      demo_delivery_def demo_request_def word_curve_def adapt_def verify_adapted_def demo_hash_def
      pay_out_def checked_sub_def)

lemma demo_open_frame: "client_balances demo_open = [(10, \<lparr>cb_free = 600, cb_locked = 400,
      cb_max_lock_expires_at = 0, cb_total_deposited = 1000, cb_total_withdrawn = 0\<rparr>)]"
    "providers demo_open = [(''p1'', demo_provider)]" "provider_credits demo_open = []"
  by (simp_all add: demo_open_def open_channel_def open_channel_with_id_def reserve_balance_def demo_defs
      put_balance_def Let_def put_channel_def)

lemma demo_paid_frame [simp]: "client_balances demo_paid = client_balances demo_open"
    "providers demo_paid = providers demo_open" "provider_credits demo_paid = provider_credits demo_open"
  by (simp_all add: demo_paid_def finalize_offchain_def finalize_with_secret_def Let_def demo_channel_def
      demo_delivery_def demo_request_def word_curve_def adapt_def verify_adapted_def demo_hash_def
      pay_out_def checked_sub_def)
    (simp_all add: demo_pending_def demo_locked_def submit_request_def checked_sadd_def REQUEST_EXPIRY_SEC_def
      deliver_adaptor_def Let_def demo_channel_def demo_delivery_def demo_request_def word_curve_def
      pre_verify_def)

lemma demo_inv: "asc_inv demo_open" "asc_inv demo_locked" "asc_inv demo_pending" "asc_inv demo_paid"
proof -
  show 1: "asc_inv demo_open"
    by (rule asc_step_inv [OF demo_vault_inv step_open [where H = demo_hash and C = word_curve,
          OF _ demo_open_run], THEN conjunct1]) (simp_all add: demo_defs)
  show 2: "asc_inv demo_locked"
    by (rule asc_step_inv [OF 1 step_submit [where H = demo_hash and C = word_curve, OF demo_locked_run],
          THEN conjunct1]) simp
  show 3: "asc_inv demo_pending"
    by (rule asc_step_inv [OF 2 step_deliver [OF demo_pending_run], THEN conjunct1]) simp
  show "asc_inv demo_paid"
    by (rule asc_step_inv [OF 3 step_finalize [OF demo_paid_run], THEN conjunct1]) simp
qed

end
