(* ===== verification/Asc_Properties.thy ===== *)
theory Asc_Properties
  imports Asc_Correct
begin

text \<open>
  The theorems of the channel manager: what holds in every reachable state, what each call
  promises, and that rollbacks and log replay agree with the calls they mirror.
\<close>

section \<open>Reachable states\<close>

lemma asc_steps_inv:
  assumes "(asc_step C H)\<^sup>*\<^sup>* v v'" and "asc_inv v"
  shows "asc_inv v' \<and> vault_value v' = vault_value v"
  using assms by (induction rule: rtranclp_induct) (auto dest: asc_step_inv)

text \<open>
  C13: In every state that the channel calls reach from a state with the invariant, the
  invariant holds (status, active request and locked funds of every channel agree, its provider
  is registered, the client's locked balance covers all its channels) and the value owed to
  clients and providers together is what it was at the start.
\<close>

theorem asc_reachable_safe:
  assumes "asc_inv v" and "(asc_step C H)\<^sup>*\<^sup>* v v'"
  shows "asc_inv v' \<and> vault_value v' = vault_value v"
  using asc_steps_inv [OF assms(2,1)] .

theorem asc_reachable_safe_witness:
  "asc_inv demo_pending \<and> vault_value demo_pending = vault_value demo_vault"
proof (rule asc_reachable_safe [OF demo_vault_inv])
  have "asc_step word_curve demo_hash demo_vault demo_open"
    by (rule step_open [OF _ demo_open_run]) (simp_all add: demo_defs)
  moreover have "asc_step word_curve demo_hash demo_open demo_locked"
    by (rule step_submit [OF demo_locked_run]) simp
  moreover have "asc_step word_curve demo_hash demo_locked demo_pending"
    by (rule step_deliver [OF demo_pending_run]) simp
  ultimately show "(asc_step word_curve demo_hash)\<^sup>*\<^sup>* demo_vault demo_pending"
    by (meson rtranclp.rtrancl_into_rtrancl rtranclp.rtrancl_refl)
qed

text \<open>
  C14: Refinement: a step of the manager leaves each channel alone or moves it by exactly one
  step of the abstract channel (lock, deliver, pay, refund); channels appear open, unlocked and
  unpaid, and disappear only when open and unlocked.
\<close>

theorem asc_step_refines_channel:
  assumes "asc_inv v" and "asc_step C H v v'"
  shows "case (dm_get (active_channels v) k, dm_get (active_channels v') k) of
      (None, None) \<Rightarrow> True
    | (Some ch, Some ch') \<Rightarrow> ch' = ch \<or> asc_abs_step (abs_channel ch) (abs_channel ch')
    | (None, Some ch') \<Rightarrow> a_status (abs_channel ch') = ChOpen \<and> a_locked (abs_channel ch') = 0
         \<and> a_earned (abs_channel ch') = 0 \<and> a_nonce (abs_channel ch') = 0
    | (Some ch, None) \<Rightarrow> a_status (abs_channel ch) = ChOpen \<and> a_locked (abs_channel ch) = 0"
  using assms
proof (cases rule: asc_step_cases)
  case (move cid)
  from chan_update_get [OF move] show ?thesis by (cases "k = cid") (auto split: option.splits)
next
  case (opened now cid c p d)
  from opened(1) open_channel_get [OF opened(2)] show ?thesis
    by (cases "k = cid") (auto split: option.splits)
next
  case (closed now uuid cid out)
  from closed obtain ch where ch: "dm_get (active_channels v) cid = Some ch" "ch_status ch = ChOpen"
    by (rule close_channel_Ok)
  with channel_inv_Open [OF asc_invD(2) [OF assms(1) ch(1)]] show ?thesis
    by (auto simp: close_channel_channels [OF closed] dm_get_remove abs_channel_def split: option.splits)
qed (auto split: option.splits)

theorem asc_step_refines_channel_witness:
  "\<exists>ch ch'. dm_get (active_channels demo_locked) ''ch_1'' = Some ch
     \<and> dm_get (active_channels demo_pending) ''ch_1'' = Some ch'
     \<and> asc_abs_step (abs_channel ch) (abs_channel ch')"
  using asc_step_refines_channel [OF demo_inv(2) step_deliver [OF demo_pending_run], of "''ch_1''"]
  by (auto simp: demo_channel_def)

text \<open>
  C32: A call of the manager that returns an error leaves the vault exactly as it was, for every
  call and every error, closing included although it removes the channel before its last checks.
\<close>

theorem asc_errors_change_nothing:
  assumes "asc_inv v"
  shows "(open_channel_with_id now cid c p d v = (Err e, v') \<longrightarrow> v' = v)
    \<and> (submit_request now cid rid a h v = (Err e, v') \<longrightarrow> v' = v)
    \<and> (deliver_adaptor C H now cid pt ps er rh pk v = (Err e, v') \<longrightarrow> v' = v)
    \<and> (finalize_offchain C H now cid sb v = (Err e, v') \<longrightarrow> v' = v)
    \<and> (finalize_onchain_claim C H now cid R S v = (Err e, v') \<longrightarrow> v' = v)
    \<and> (expire_request cid now v = (Err e, v') \<longrightarrow> v' = v)
    \<and> (close_channel now uuid cid v = (Err e, v') \<longrightarrow> v' = v)"
  unfolding close_channel_def
  by (auto dest: open_channel_Err submit_request_Err deliver_adaptor_Err finalize_offchain_Err
      finalize_onchain_Err expire_request_Err close_channel_Err [OF assms])

theorem asc_errors_change_nothing_witness:
  "close_channel 1 ''u'' ''ch_1'' demo_pending
     = (Err (InvalidChannelStatus ''expected Open, got Pending (close only from Open)''), demo_pending)"
proof -
  let ?r = "close_channel 1 ''u'' ''ch_1'' demo_pending"
  have "?r = (Err (InvalidChannelStatus ''expected Open, got Pending (close only from Open)''), snd ?r)"
    by (simp add: close_channel_def close_channel_with_settlement_id_def demo_channel_def)
  with asc_errors_change_nothing [OF demo_inv(3)] show ?thesis by metis
qed

text \<open>
  C33: No call of the manager panics on arithmetic while the vault owes less than 2^64 in all, no
  channel counter is at its maximum and the expiry of a new request fits a 64-bit time: the
  unchecked additions and subtractions of the source stay in range.
\<close>

theorem asc_no_panic:
  assumes "asc_inv v" and "headroom v" and "checked_sadd now REQUEST_EXPIRY_SEC \<noteq> None"
  shows "fst (open_channel_with_id now cid c p d v) \<noteq> Panic
    \<and> fst (submit_request now cid rid a h v) \<noteq> Panic
    \<and> fst (deliver_adaptor C H now cid pt ps er rh pk v) \<noteq> Panic
    \<and> fst (finalize_offchain C H now cid sb v) \<noteq> Panic
    \<and> fst (finalize_onchain_claim C H now cid R S v) \<noteq> Panic
    \<and> fst (expire_request cid now v) \<noteq> Panic
    \<and> fst (close_channel now uuid cid v) \<noteq> Panic"
  unfolding close_channel_def
  using open_channel_no_panic [OF assms(2)] submit_request_no_panic [OF assms]
    deliver_adaptor_no_panic [OF assms(2)] finalize_offchain_no_panic [OF assms(1,2)]
    finalize_onchain_no_panic [OF assms(1,2)] expire_request_no_panic [OF assms(1,2)]
    close_channel_no_panic [OF assms(1,2)]
  by (intro conjI)

lemma demo_headroom: "headroom demo_paid"
proof -
  have "vault_value demo_paid = vault_value demo_vault"
    using asc_step_inv [OF demo_vault_inv step_open [where C = word_curve and H = demo_hash, OF _ demo_open_run]]
      asc_step_inv [OF demo_inv(1) step_submit [where C = word_curve and H = demo_hash, OF demo_locked_run]]
      asc_step_inv [OF demo_inv(2) step_deliver [OF demo_pending_run]]
      asc_step_inv [OF demo_inv(3) step_finalize [OF demo_paid_run]]
    by (simp add: demo_defs)
  also have "\<dots> = 1000"
    by (simp add: vault_value_def client_value_def credit_value_def demo_defs)
  finally show ?thesis by (simp add: headroom_def demo_channel_def)
qed

theorem asc_no_panic_witness:
  "fst (close_channel 1 ''u'' ''ch_1'' demo_paid) \<noteq> Panic"
proof -
  have "checked_sadd 1 REQUEST_EXPIRY_SEC \<noteq> None" by (simp add: checked_sadd_def REQUEST_EXPIRY_SEC_def)
  from asc_no_panic [OF demo_inv(4) demo_headroom this, where C = word_curve] show ?thesis by blast
qed

text \<open>
  A request id is used at most once in the life of a channel: an id that was accepted stays
  recorded through every step the channel survives, and submitting a recorded id is refused.
\<close>

theorem request_id_single_use:
  assumes "asc_inv v" and "asc_step C H v v'" and "dm_get (active_channels v) cid = Some ch"
    and "dm_get (active_channels v') cid = Some ch'" and "rid \<in> ch_used_request_ids ch"
  shows "rid \<in> ch_used_request_ids ch' \<and> (\<exists>e. submit_request now cid rid a h v' = (Err e, v'))"
  using chan_used_ids [OF assms(2,3,4,1)] assms(4,5) by (auto simp: submit_request_def)

theorem request_id_single_use_witness:
  "\<exists>e. submit_request 2000 ''ch_1'' ''r1'' 1 0 demo_paid = (Err e, demo_paid)"
  using request_id_single_use [OF demo_inv(3) step_finalize [OF demo_paid_run], of "''ch_1''" _ _ "''r1''"]
  by (simp add: demo_channel_def)

section \<open>Finalisation\<close>

text \<open>
  What delivery established about a pending request: the adaptor point decodes and the
  pre-signature verifies for the payment message of the request.
\<close>

definition delivery_ok :: "('p, 's) curve \<Rightarrow> (bytes \<Rightarrow> b32) \<Rightarrow> channel_state \<Rightarrow> bool" where
  "delivery_ok C H ch \<longleftrightarrow> (ch_status ch = ChPending \<longrightarrow>
     (\<exists>r pk pt ps er rh T. ch_active_request ch = Some r \<and> rq_provider_pubkey r = Some pk
        \<and> rq_adaptor_point r = Some pt \<and> rq_provider_pre_sig r = Some ps \<and> rq_encrypted_result r = Some er
        \<and> rq_result_hash r = Some rh \<and> decompress C pt = Some T
        \<and> pre_verify C pk (build_payment_message H (ch_channel_id ch) (rq_request_id r) (rq_amount r)
             (rq_request_hash r)) T ps))"

definition deliveries_ok :: "('p, 's) curve \<Rightarrow> (bytes \<Rightarrow> b32) \<Rightarrow> vault_state \<Rightarrow> bool" where
  "deliveries_ok C H v \<longleftrightarrow> (\<forall>k ch. dm_get (active_channels v) k = Some ch \<longrightarrow> delivery_ok C H ch)"

lemma deliveries_ok_put:
  "deliveries_ok C H v \<Longrightarrow> delivery_ok C H ch \<Longrightarrow> deliveries_ok C H (put_channel k ch v)"
  by (auto simp: deliveries_ok_def dm_get_insert)

lemma deliveries_ok_deliver:
  assumes "deliveries_ok C H v" and "deliver_adaptor C H now cid pt ps er rh pk v = (Ok u, v')"
  shows "deliveries_ok C H v'"
  using assms
  by (auto simp: deliver_adaptor_def Let_def delivery_ok_def intro!: deliveries_ok_put
      split: option.splits if_splits)

lemma finalize_with_secret_channel:
  assumes "finalize_with_secret C H now cid t sb v = (Ok out, v')"
  shows "\<exists>ch. v' = put_channel cid ch v \<and> ch_status ch = ChOpen"
  using assms by (rule finalize_with_secret_Ok) (auto simp: pay_out_def Let_def split: option.splits)

lemma deliveries_ok_step:
  assumes inv: "asc_inv v" and ok: "deliveries_ok C H v" and step: "asc_step C H v v'"
  shows "deliveries_ok C H v'"
  using step
proof cases
  case (step_open uuid now c p d r)
  from step_open(2,3) show ?thesis
  proof (cases rule: open_channel_cases)
    case 2
    then show ?thesis
    proof (rule open_channel_Ok)
      fix ch v1
      assume "reserve_balance c d v = (Ok (), v1)" and v': "v' = put_channel (''ch_'' @ uuid) ch v1"
        and "ch_status ch = ChOpen"
      moreover from this have "deliveries_ok C H v1"
        using ok reserve_balance_frame by (simp add: deliveries_ok_def)
      ultimately show ?thesis by (auto intro!: deliveries_ok_put simp: delivery_ok_def)
    qed
  qed (simp add: ok)
next
  case (step_submit now cid rid a h r)
  then show ?thesis using ok
    by (auto simp: submit_request_def Let_def delivery_ok_def intro!: deliveries_ok_put
        split: option.splits if_splits)
next
  case (step_deliver now cid pt ps er rh pk r)
  then show ?thesis using ok deliveries_ok_deliver by (cases r) (auto dest: deliver_adaptor_Err)
next
  case (step_finalize now cid sb r)
  then show ?thesis using ok
    by (cases r) (auto simp: finalize_offchain_def delivery_ok_def intro!: deliveries_ok_put
        dest: finalize_with_secret_Err finalize_with_secret_channel split: option.splits)
next
  case (step_claim now cid R S r)
  then show ?thesis using ok
    by (cases r) (auto simp: finalize_onchain_claim_def Let_def delivery_ok_def intro!: deliveries_ok_put
        dest: finalize_with_secret_Err finalize_with_secret_channel split: option.splits sum.splits if_splits)
next
  case (step_expire cid now r)
  then show ?thesis using ok
    by (auto simp: expire_request_def refund_request_def Let_def delivery_ok_def intro!: deliveries_ok_put
        split: option.splits if_splits)
next
  case (step_close now uuid cid r)
  then show ?thesis using ok
    by (cases r) (auto simp: close_channel_def deliveries_ok_def dm_get_remove
        dest!: close_channel_Err [OF inv] close_channel_channels split: if_splits)
qed

lemma deliveries_ok_steps:
  assumes "(asc_step C H)\<^sup>*\<^sup>* v v'" and "asc_inv v" and "deliveries_ok C H v"
  shows "deliveries_ok C H v'"
  using assms
  by (induction rule: rtranclp_induct) (blast dest: deliveries_ok_step asc_steps_inv)+

lemma pay_out_succeeds:
  assumes "asc_inv v" and "headroom v" and "dm_get (active_channels v) cid = Some ch"
    and "ch_active_request ch = Some r"
  shows "\<exists>v'. pay_out now cid ch (rq_amount r) x v = (Ok x, v')"
  using pay_out_no_panic [OF assms, of now x]
  by (auto simp: pay_out_def Let_def split: option.splits)

lemma length_keystream_block [simp]: "length (keystream_block H k i) = 32"
  by (simp add: keystream_block_def)

lemma decrypt_blocks_twice: "decrypt_blocks H k i (decrypt_blocks H k i c) = c"
proof (induction H k i c rule: decrypt_blocks.induct)
  case (1 H k i c)
  show ?case
  proof (cases "c = []")
    case True
    then show ?thesis by (simp add: decrypt_blocks.simps)
  next
    case False
    let ?h = "map2 (XOR) (take 32 c) (keystream_block H k i)"
    let ?t = "decrypt_blocks H k (i + 1) (drop 32 c)"
    have d: "decrypt_blocks H k i c = ?h @ ?t"
      using False by (subst decrypt_blocks.simps) simp
    have len: "length ?h = min 32 (length c)" by simp
    have "length c \<le> 32 \<Longrightarrow> ?t = []" by (simp add: decrypt_blocks.simps)
    then have tk: "take 32 (?h @ ?t) = ?h" "drop 32 (?h @ ?t) = ?t"
      by (cases "length c \<le> 32"; simp)+
    have "?h @ ?t \<noteq> []" using False len by (metis append_is_Nil_conv length_0_conv min_def zero_neq_numeral)
    then have "decrypt_blocks H k i (?h @ ?t)
        = map2 (XOR) ?h (keystream_block H k i) @ decrypt_blocks H k (i + 1) ?t"
      by (subst decrypt_blocks.simps) (simp only: tk if_False)
    also have "\<dots> = take 32 c @ drop 32 c"
      using 1 [OF False] by (simp only: map2_xor_twice) (simp add: map2_xor_twice)
    finally show ?thesis by (simp add: d)
  qed
qed

lemma decrypt_encrypt: "decrypt_with_scalar H (encrypt_with_scalar H m k) k = m"
  by (simp add: decrypt_with_scalar_def encrypt_with_scalar_def decrypt_blocks_twice)

lemma demo_deliveries: "deliveries_ok word_curve demo_hash demo_pending"
  by (auto simp: deliveries_ok_def delivery_ok_def demo_channel_def demo_delivery_def demo_request_def
      word_curve_def pre_verify_def)

text \<open>
  C19: Fair exchange: \<open>finalize_offchain\<close> pays the provider only with the discrete logarithm
  of the delivered adaptor point, only when the adapted signature on this payment verifies, and
  only together with the result whose hash was announced; it moves exactly the locked amount
  from the client's locked funds to the provider's earnings.
\<close>

theorem finalize_is_atomic:
  assumes inv: "asc_inv v" and ok: "finalize_offchain C H now cid sb v = (Ok out, v')"
  shows "\<exists>ch r T t sig pk ch'. dm_get (active_channels v) cid = Some ch \<and> ch_active_request ch = Some r
     \<and> from_canonical_bytes C sb = Some t
     \<and> Option.bind (rq_adaptor_point r) (decompress C) = Some T \<and> T = smul C t (basepoint C)
     \<and> rq_provider_pubkey r = Some pk
     \<and> verify_adapted C pk (build_payment_message H cid (rq_request_id r) (rq_amount r) (rq_request_hash r)) sig
     \<and> Some (H (fo_result_bytes out)) = rq_result_hash r
     \<and> dm_get (active_channels v') cid = Some ch'
     \<and> client_locked (ch_balance ch) = rq_amount r \<and> client_locked (ch_balance ch') = 0
     \<and> unat (provider_earned (ch_balance ch')) = unat (provider_earned (ch_balance ch)) + unat (rq_amount r)
     \<and> client_free (ch_balance ch') = client_free (ch_balance ch)"
proof -
  from ok obtain t where t: "from_canonical_bytes C sb = Some t"
    and fin: "finalize_with_secret C H now cid t (Some sb) v = (Ok out, v')"
    by (auto simp: finalize_offchain_def split: option.splits)
  from fin show ?thesis
  proof (rule finalize_with_secret_Ok)
    fix ch r ps pt T pk sig er
    assume ch: "dm_get (active_channels v) cid = Some ch" and st: "ch_status ch = ChPending"
      and r: "ch_active_request ch = Some r" and pt: "rq_adaptor_point r = Some pt" "decompress C pt = Some T"
      "T = smul C t (basepoint C)" and pk: "rq_provider_pubkey r = Some pk"
      and sig: "verify_adapted C pk (build_payment_message H (ch_channel_id ch) (rq_request_id r) (rq_amount r)
        (rq_request_hash r)) sig"
      and h: "\<And>h. rq_result_hash r = Some h \<Longrightarrow> H (fo_result_bytes out) = h"
      and po: "pay_out now cid ch (rq_amount r) out v = (Ok out, v')"
    note ci = asc_invD(1,2) [OF inv ch]
    from ci(2) st r have "rq_result_hash r \<noteq> None" by (simp add: channel_inv_def request_delivered_def)
    with h have h': "Some (H (fo_result_bytes out)) = rq_result_hash r" by auto
    from channel_inv_Some [OF ci(2) r] have am: "client_locked (ch_balance ch) = rq_amount r" by simp
    with po obtain ch' where "dm_get (active_channels v') cid = Some ch'" "client_locked (ch_balance ch') = 0"
      "unat (provider_earned (ch_balance ch')) = unat (provider_earned (ch_balance ch)) + unat (rq_amount r)"
      "client_free (ch_balance ch') = client_free (ch_balance ch)"
      by (auto simp: pay_out_def Let_def checked_sub_def dm_get_insert dest: checked_add_SomeD split: option.splits)
    with ch r t pt pk sig [unfolded ci(1)] h' am show ?thesis by (auto intro!: exI [of _ sig])
  qed
qed

theorem finalize_is_atomic_witness:
  "\<exists>ch'. dm_get (active_channels demo_paid) ''ch_1'' = Some ch' \<and> client_locked (ch_balance ch') = 0
     \<and> unat (provider_earned (ch_balance ch')) = 40"
  using finalize_is_atomic [OF demo_inv(3) demo_paid_run]
  by (auto simp: demo_channel_def demo_delivery_def demo_request_def)

text \<open>
  C34: The enclave never needs the provider's cooperation once a signature is public: for a
  pending channel in a reachable state, any signature under the adapted nonce that verifies on
  chain makes \<open>finalize_onchain_claim\<close> recover the adaptor secret and do exactly what
  \<open>finalize_offchain\<close> does with that secret.
\<close>

theorem onchain_claim_equals_offchain:
  assumes L: "curve_laws C" and start: "asc_inv v0" "deliveries_ok C H v0"
    and reach: "(asc_step C H)\<^sup>*\<^sup>* v0 v"
    and ch: "dm_get (active_channels v) cid = Some ch" and st: "ch_status ch = ChPending"
    and r: "ch_active_request ch = Some r" "rq_provider_pubkey r = Some pk" "rq_provider_pre_sig r = Some ps"
      "Option.bind (rq_adaptor_point r) (decompress C) = Some T" "decompress C (r_prime ps) = Some R'"
    and sig: "verify_adapted C pk (build_payment_message H cid (rq_request_id r) (rq_amount r) (rq_request_hash r))
      \<lparr>r_bytes = compress C (padd C R' T), s_bytes = S\<rparr>"
  shows "\<exists>t. smul C t (basepoint C) = T \<and>
    finalize_onchain_claim C H now cid (compress C (padd C R' T)) S v
      = finalize_offchain C H now cid (scalar_bytes C t) v"
proof -
  let ?sig = "\<lparr>r_bytes = compress C (padd C R' T), s_bytes = S\<rparr>"
  have inv: "asc_inv v" and "deliveries_ok C H v"
    using asc_steps_inv [OF reach] deliveries_ok_steps [OF reach] start by auto
  with ch st r have "pre_verify C pk (build_payment_message H cid (rq_request_id r) (rq_amount r) (rq_request_hash r)) T ps"
    using asc_invD(1) [OF inv ch] by (fastforce simp: deliveries_ok_def delivery_ok_def)
  from extract_reveals [OF L this sig r(5)] obtain t where t: "extract_secret C ?sig ps = Some t"
    "smul C t (basepoint C) = T"
    by auto
  have "pending_request_crypto_materials C cid v
      = Inr \<lparr>pm_request = r, pm_pre_sig = ps, pm_adaptor_point = T, pm_provider_pubkey = pk\<rparr>"
    using ch st r by (auto simp: pending_request_crypto_materials_def split: option.splits bind_splits)
  with t r(5) sig canonical_scalar_bytes [OF L, of t] show ?thesis
    by (intro exI [of _ t]) (simp add: finalize_onchain_claim_def finalize_offchain_def)
qed

theorem onchain_claim_equals_offchain_witness:
  "\<exists>t. smul word_curve t (basepoint word_curve) = 5 \<and>
    finalize_onchain_claim word_curve demo_hash 1020 ''ch_1'' (compress word_curve (padd word_curve 9 5)) 14 demo_pending
      = finalize_offchain word_curve demo_hash 1020 ''ch_1'' (scalar_bytes word_curve t) demo_pending"
  by (rule onchain_claim_equals_offchain [OF word_curve_laws demo_inv(3) demo_deliveries rtranclp.rtrancl_refl])
    (auto simp: demo_channel_def demo_delivery_def demo_request_def word_curve_def verify_adapted_def)

text \<open>
  An honest exchange completes: with the discrete logarithm of the delivered adaptor point
  and a ciphertext that decrypts to the announced hash, finalising a pending channel in a
  reachable state with headroom succeeds and returns the decrypted result.
\<close>

theorem honest_finalize_succeeds:
  assumes L: "curve_laws C" and inv: "asc_inv v" and del: "deliveries_ok C H v" and hr: "headroom v"
    and ch: "dm_get (active_channels v) cid = Some ch" and st: "ch_status ch = ChPending"
    and r: "ch_active_request ch = Some r" "rq_adaptor_point r = Some (compress C (smul C t (basepoint C)))"
      "rq_encrypted_result r = Some (encrypt_with_scalar H m (scalar_bytes C t))" "rq_result_hash r = Some (H m)"
  shows "\<exists>out v'. finalize_offchain C H now cid (scalar_bytes C t) v = (Ok out, v') \<and> fo_result_bytes out = m"
proof -
  let ?T = "smul C t (basepoint C)"
  let ?m = "build_payment_message H (ch_channel_id ch) (rq_request_id r) (rq_amount r) (rq_request_hash r)"
  from del ch st r obtain pk ps where d: "rq_provider_pubkey r = Some pk" "rq_provider_pre_sig r = Some ps"
    "pre_verify C pk ?m ?T ps"
    by (fastforce simp: deliveries_ok_def delivery_ok_def decompress_compress [OF L])
  from adapt_of_pre_verify [OF L d(3)] obtain sig where "adapt C ps t ?T = Some sig" "verify_adapted C pk ?m sig"
    by blast
  moreover define out where "out = \<lparr>fo_request_id = rq_request_id r, fo_result_bytes = m,
       fo_amount = rq_amount r, fo_request = r\<rparr>"
  moreover from pay_out_succeeds [OF inv hr ch r(1), of now out] obtain v' where
    "pay_out now cid ch (rq_amount r) out v = (Ok out, v')"
    by blast
  ultimately show ?thesis
    using ch st r d
    by (simp add: finalize_offchain_def finalize_with_secret_def canonical_scalar_bytes [OF L]
        decompress_compress [OF L] Let_def decrypt_encrypt)
qed

lemma demo_pending_headroom: "headroom demo_pending"
proof -
  have "vault_value demo_pending = vault_value demo_paid"
    using asc_step_inv [OF demo_inv(3) step_finalize [OF demo_paid_run]] by simp
  with demo_headroom show ?thesis by (simp add: headroom_def demo_channel_def)
qed

theorem honest_finalize_succeeds_witness:
  "\<exists>out v'. finalize_offchain word_curve demo_hash 1020 ''ch_1'' (scalar_bytes word_curve 5) demo_pending = (Ok out, v')
     \<and> fo_result_bytes out = decrypt_with_scalar demo_hash [1, 2, 3] 5"
proof (rule honest_finalize_succeeds [OF word_curve_laws demo_inv(3) demo_deliveries demo_pending_headroom,
      where r = demo_delivery])
  show "dm_get (active_channels demo_pending) ''ch_1'' = Some (demo_channel ChPending 2
    \<lparr>client_free = 260, client_locked = 40, provider_earned = 0\<rparr> {''r1''} 1010 (Some demo_delivery))"
    by simp
next
  have "encrypt_with_scalar demo_hash (decrypt_with_scalar demo_hash [1, 2, 3] 5) 5 = [1, 2, 3]"
    by (simp add: encrypt_with_scalar_def decrypt_with_scalar_def decrypt_blocks_twice)
  then show "rq_encrypted_result demo_delivery = Some (encrypt_with_scalar demo_hash
      (decrypt_with_scalar demo_hash [1, 2, 3] 5) (scalar_bytes word_curve 5))"
    by (simp add: demo_delivery_def word_curve_def)
qed (simp_all add: demo_channel_def demo_delivery_def demo_request_def word_curve_def demo_hash_def)

text \<open>
  The result encryption is an involution: decrypting an encrypted result with the same
  scalar gives the result back, for every length.
\<close>

theorem result_encryption_roundtrip:
  "decrypt_with_scalar H (encrypt_with_scalar H m k) k = m
   \<and> length (encrypt_with_scalar H m k) = length m"
proof -
  have "length (decrypt_blocks H k i c) = length c" for i c
    by (induction H k i c rule: decrypt_blocks.induct) (subst decrypt_blocks.simps, auto)
  then show ?thesis by (simp add: decrypt_blocks_twice encrypt_with_scalar_def decrypt_with_scalar_def)
qed

end
