(* ===== verification/Asc_Rollback.thy ===== *)
theory Asc_Rollback
  imports Asc_Correct
begin

text \<open>
  The rollbacks of the channel manager, run when the write-ahead log refuses an entry, and the
  replay functions, run when the log is read back. A rollback restores the channel up to its
  \<open>updated_at\<close> stamp; the replay of a finalised or expired request does to the vault what the
  call did when it ran at the same time.
\<close>

section \<open>Lemmas\<close>

lemma put_channel_twice [simp]: "put_channel k ch (put_channel k ch' v) = put_channel k ch v"
  by (simp add: put_channel_def)

lemma nonce_back: "checked_add n 1 = Some m \<Longrightarrow> saturating_sub m 1 = (n :: u64)"
  by (rule saturating_sub_add)

lemma channel_balance_eqI:
  "client_free x = client_free y \<Longrightarrow> client_locked x = client_locked y \<Longrightarrow>
     provider_earned x = provider_earned y \<Longrightarrow> x = (y :: channel_balance)"
  by simp

lemma sub_back: "(x :: u64) \<le> y \<Longrightarrow> checked_add (y - x) x = Some y"
  by (rule sub_add_back)

section \<open>Properties\<close>

text \<open>
  \<open>rollback_submit_request\<close> undoes \<open>submit_request\<close>: balances, status, counter, request
  slot and the set of used ids are those from before, so the same request can be sent again.
\<close>

theorem rollback_submit_exact:
  assumes inv: "asc_inv v" and ch: "dm_get (active_channels v) cid = Some ch"
    and ok: "submit_request now cid rid a h v = (Ok u, v')"
  shows "rollback_submit_request now' cid rid v' = (Ok (), put_channel cid (ch\<lparr>ch_updated_at := now'\<rparr>) v)"
proof -
  from ok ch obtain l n e where g: "ch_status ch = ChOpen" "a \<le> client_free (ch_balance ch)"
      "rid \<notin> ch_used_request_ids ch"
      "checked_add (client_locked (ch_balance ch)) a = Some l" "checked_add (ch_nonce ch) 1 = Some n"
    and v': "v' = put_channel cid (ch\<lparr>ch_balance := (ch_balance ch)
         \<lparr>client_free := client_free (ch_balance ch) - a, client_locked := l\<rparr>, ch_status := ChLocked,
         ch_nonce := n, ch_updated_at := now, ch_used_request_ids := insert rid (ch_used_request_ids ch),
         ch_active_request := Some \<lparr>rq_request_id = rid, rq_amount = a, rq_request_hash = h,
                            rq_provider_pubkey = None, rq_adaptor_point = None, rq_provider_pre_sig = None,
                            rq_encrypted_result = None, rq_result_hash = None, rq_created_at = now,
                            rq_expires_at = e\<rparr>\<rparr>) v"
    by (auto simp: submit_request_def Let_def not_less split: option.splits if_splits)
  from channel_inv_Open [OF asc_invD(2) [OF inv ch] g(1)] have "ch_active_request ch = None" by simp
  with g show ?thesis
    by (cases ch) (simp add: rollback_submit_request_def v' dm_get_insert sub_back
        saturating_sub_add [OF g(4)] nonce_back [OF g(5)])
qed

theorem rollback_submit_exact_witness:
  "\<exists>ch. dm_get (active_channels demo_open) ''ch_1'' = Some ch \<and>
     rollback_submit_request 1001 ''ch_1'' ''r1'' demo_locked
       = (Ok (), put_channel ''ch_1'' (ch\<lparr>ch_updated_at := 1001\<rparr>) demo_open)"
  using rollback_submit_exact [OF demo_inv(1) _ demo_locked_run] by simp

lemma rollback_deliver_exact:
  assumes inv: "asc_inv v" and ch: "dm_get (active_channels v) cid = Some ch"
    and ok: "deliver_adaptor C H now cid pt ps er rh pk v = (Ok u, v')"
    and r: "ch_active_request ch = Some r"
  shows "rollback_deliver_adaptor now' cid (rq_request_id r) v'
    = (Ok (), put_channel cid (ch\<lparr>ch_updated_at := now'\<rparr>) v)"
proof -
  from ok ch r obtain n where g: "ch_status ch = ChLocked" "checked_add (ch_nonce ch) 1 = Some n"
    and v': "v' = put_channel cid (ch\<lparr>ch_active_request := Some (r\<lparr>rq_provider_pubkey := Some pk,
         rq_adaptor_point := Some pt, rq_provider_pre_sig := Some ps, rq_encrypted_result := Some er,
         rq_result_hash := Some rh\<rparr>), ch_status := ChPending, ch_nonce := n, ch_updated_at := now\<rparr>) v"
    by (auto simp: deliver_adaptor_def Let_def split: option.splits if_splits)
  from asc_invD(2) [OF inv ch] g r have "request_fresh r" by (simp add: channel_inv_def)
  then have "r\<lparr>rq_provider_pubkey := None, rq_adaptor_point := None, rq_provider_pre_sig := None,
      rq_encrypted_result := None, rq_result_hash := None\<rparr> = r"
    by (simp add: request_fresh_def)
  with g r show ?thesis
    by (cases ch) (simp add: rollback_deliver_adaptor_def v' dm_get_insert nonce_back [OF g(2)])
qed

lemma rollback_pay_out:
  assumes ch: "dm_get (active_channels v) cid = Some ch" and st: "ch_status ch = ChPending"
    and r: "ch_active_request ch = Some r" and ok: "pay_out now cid ch (rq_amount r) x v = (Ok y, v')"
  shows "rollback_finalize_offchain now' cid r v' = (Ok (), put_channel cid (ch\<lparr>ch_updated_at := now'\<rparr>) v)"
proof -
  from ok obtain l e n where g: "checked_sub (client_locked (ch_balance ch)) (rq_amount r) = Some l"
      "checked_add (provider_earned (ch_balance ch)) (rq_amount r) = Some e" "checked_add (ch_nonce ch) 1 = Some n"
    and v': "v' = put_channel cid (ch\<lparr>ch_balance := (ch_balance ch)\<lparr>client_locked := l, provider_earned := e\<rparr>,
      ch_status := ChOpen, ch_active_request := None, ch_nonce := n, ch_updated_at := now\<rparr>) v"
    by (auto simp: pay_out_def Let_def split: option.splits)
  from g(1) have "checked_add l (rq_amount r) = Some (client_locked (ch_balance ch))"
    by (auto simp: checked_add_eq_Some_iff dest: checked_sub_SomeD)
  with st r show ?thesis
    by (cases ch) (simp add: rollback_finalize_offchain_def v' dm_get_insert saturating_sub_add [OF g(2)]
        nonce_back [OF g(3)])
qed

text \<open>
  \<open>rollback_finalize_offchain\<close> undoes a finalisation: given the request of the outcome it
  restores locked funds, earnings, status, counter and the delivered request.
\<close>

theorem rollback_finalize_exact:
  assumes ch: "dm_get (active_channels v) cid = Some ch"
    and ok: "finalize_offchain C H now cid sb v = (Ok out, v')"
  shows "rollback_finalize_offchain now' cid (fo_request out) v'
    = (Ok (), put_channel cid (ch\<lparr>ch_updated_at := now'\<rparr>) v)"
proof -
  from ok obtain t where "finalize_with_secret C H now cid t (Some sb) v = (Ok out, v')"
    by (auto simp: finalize_offchain_def split: option.splits)
  then show ?thesis by (rule finalize_with_secret_Ok) (use ch in \<open>simp add: rollback_pay_out\<close>)
qed

theorem rollback_finalize_exact_witness:
  "\<exists>ch. dm_get (active_channels demo_pending) ''ch_1'' = Some ch \<and>
     rollback_finalize_offchain 1021 ''ch_1'' demo_delivery demo_paid
       = (Ok (), put_channel ''ch_1'' (ch\<lparr>ch_updated_at := 1021\<rparr>) demo_pending)"
  using rollback_finalize_exact [OF _ demo_paid_run] by simp

text \<open>
  Replay agrees with execution: the log entry of a finalised request (channel, request id,
  amount) makes \<open>finalize_replayed_request\<close> reach the state that \<open>finalize_offchain\<close> reached.
\<close>

theorem finalize_replay_agrees:
  assumes ok: "finalize_offchain C H now cid sb v = (Ok out, v')"
  shows "finalize_replayed_request now cid (fo_request_id out) (fo_amount out) v = (Ok (), v')"
proof -
  from ok obtain t where "finalize_with_secret C H now cid t (Some sb) v = (Ok out, v')"
    by (auto simp: finalize_offchain_def split: option.splits)
  then show ?thesis
    by (rule finalize_with_secret_Ok)
      (auto simp: finalize_replayed_request_def pay_out_def Let_def checked_sub_def saturating_sub_def
        split: option.splits if_splits)
qed

theorem finalize_replay_agrees_witness:
  "finalize_replayed_request 1020 ''ch_1'' ''r1'' 40 demo_pending = (Ok (), demo_paid)"
  using finalize_replay_agrees [OF demo_paid_run] by simp

lemma refund_request_result:
  "refund_request now cid ch a x v = (Ok y, v') \<Longrightarrow> refund_request now cid ch a z v = (Ok z, v')"
  by (simp add: refund_request_def Let_def split: option.splits)

lemma expire_replay_agrees:
  assumes "expire_request cid now v = (Ok (Some out), v')"
  shows "expire_replayed_request now cid (rq_request_id (eo_request out)) (rq_amount (eo_request out)) v = (Ok (), v')"
proof -
  have res: "refund_request now cid ch a x v = (Ok y, v') \<Longrightarrow> x = y" for ch a x and y :: "expired_request_outcome option"
    by (simp add: refund_request_def Let_def split: option.splits)
  from assms obtain ch where ch: "dm_get (active_channels v) cid = Some ch"
    "ch_status ch = ChLocked \<or> ch_status ch = ChPending"
    by (simp add: expire_request_def split: option.splits if_splits)
  from assms ch obtain r where r: "ch_active_request ch = Some r"
    "refund_request now cid ch (rq_amount r) (Some \<lparr>eo_channel_id = ch_channel_id ch, eo_client = ch_client ch,
        eo_previous_status = ch_status ch, eo_request = r\<rparr>) v = (Ok (Some out), v')"
    by (cases "ch_active_request ch") (auto simp: expire_request_def split: if_splits)
  from res [OF r(2)] have "eo_request out = r" by auto
  with refund_request_result [OF r(2), of "()"] r(1) ch show ?thesis
    by (simp add: expire_replayed_request_def)
qed

text \<open>
  Expiry returns the whole locked amount to the client's channel balance, only after the
  deadline, and \<open>rollback_expire_request\<close> restores the channel.
\<close>

theorem expire_then_rollback:
  assumes inv: "asc_inv v" and ch: "dm_get (active_channels v) cid = Some ch"
    and ok: "expire_request cid now v = (Ok (Some out), v')"
  shows "sint (rq_expires_at (eo_request out)) < sint now
    \<and> (\<exists>ch'. dm_get (active_channels v') cid = Some ch' \<and> client_locked (ch_balance ch') = 0
        \<and> unat (client_free (ch_balance ch')) = unat (client_free (ch_balance ch)) + unat (client_locked (ch_balance ch)))
    \<and> rollback_expire_request now' out v' = (Ok (), put_channel cid (ch\<lparr>ch_updated_at := now'\<rparr>) v)"
proof -
  from ok ch obtain r where r: "ch_active_request ch = Some r"
    by (auto simp: expire_request_def split: option.splits if_splits)
  from channel_inv_Some [OF asc_invD(2) [OF inv ch] r]
  have am: "rq_amount r = client_locked (ch_balance ch)" by simp
  have z: "saturating_sub x x = 0" for x :: u64 by (simp add: saturating_sub_def)
  from ok ch r obtain f n where late: "sint (rq_expires_at r) < sint now"
    and out: "out = \<lparr>eo_channel_id = ch_channel_id ch, eo_client = ch_client ch,
      eo_previous_status = ch_status ch, eo_request = r\<rparr>"
    and g: "checked_add (client_free (ch_balance ch)) (rq_amount r) = Some f" "checked_add (ch_nonce ch) 1 = Some n"
    and v': "v' = put_channel cid (ch\<lparr>ch_balance := (ch_balance ch)\<lparr>client_locked := 0, client_free := f\<rparr>,
      ch_status := ChOpen, ch_active_request := None, ch_nonce := n, ch_updated_at := now\<rparr>) v"
    by (auto simp: expire_request_def refund_request_def Let_def am z split: option.splits if_splits)
  have bal: "(ch_balance ch)\<lparr>client_free := saturating_sub f (client_locked (ch_balance ch))\<rparr> = ch_balance ch"
    by (simp add: saturating_sub_add [OF g(1) [unfolded am]])
  have "rollback_expire_request now' out v' = (Ok (), put_channel cid (ch\<lparr>ch_updated_at := now'\<rparr>) v)"
    using r asc_invD(1) [OF inv ch] bal
    by (cases ch) (simp add: rollback_expire_request_def out v' dm_get_insert nonce_back [OF g(2)] am)
  with late g v' am show ?thesis by (auto simp: out dm_get_insert dest: checked_add_SomeD)
qed

theorem expire_then_rollback_witness:
  "\<exists>ch. dm_get (active_channels demo_pending) ''ch_1'' = Some ch \<and>
     rollback_expire_request 1200 \<lparr>eo_channel_id = ''ch_1'', eo_client = 10, eo_previous_status = ChPending,
         eo_request = demo_delivery\<rparr> (snd (expire_request ''ch_1'' 1130 demo_pending))
       = (Ok (), put_channel ''ch_1'' (ch\<lparr>ch_updated_at := 1200\<rparr>) demo_pending)"
proof -
  let ?x = "expire_request ''ch_1'' 1130 demo_pending"
  have "?x = (Ok (Some \<lparr>eo_channel_id = ''ch_1'', eo_client = 10, eo_previous_status = ChPending,
      eo_request = demo_delivery\<rparr>), snd ?x)"
    by (simp add: expire_request_def refund_request_def demo_channel_def demo_delivery_def demo_request_def Let_def
        saturating_sub_def)
  from expire_then_rollback [OF demo_inv(3) _ this] show ?thesis by simp
qed

section \<open>Closing\<close>

lemma credit_channel_amount:
  assumes "credit_channel now p e sid v = (Ok u, v')"
  shows "\<exists>c. dm_get (provider_credits v') p = Some c \<and> v' = v\<lparr>provider_credits := dm_insert p c (provider_credits v)\<rparr>
     \<and> unat (pc_credited_amount c)
      = (case dm_get (provider_credits v) p of None \<Rightarrow> 0 | Some x \<Rightarrow> unat (pc_credited_amount x)) + unat e"
  using assms by (auto simp: credit_channel_def dest!: checked_add_SomeD split: option.splits)

text \<open>
  Closing a channel pays out exactly what it holds: the free part returns to the client's
  free balance, the earned part is added to the provider's credit, the client's locked balance
  drops by their sum and the channel is gone.
\<close>

theorem close_channel_pays_exactly:
  assumes inv: "asc_inv v" and ch: "dm_get (active_channels v) cid = Some ch" and pos: "0 < chan_value ch"
    and ok: "close_channel_with_settlement_id now uuid cid ov v = (Ok out, v')"
  shows "\<exists>f l. funds v (ch_client ch) = Some (f, l)
     \<and> funds v' (ch_client ch) = Some (f + unat (client_free (ch_balance ch)), l - chan_value ch)
     \<and> chan_value ch \<le> l
     \<and> credit_value v' = credit_value v + unat (provider_earned (ch_balance ch))
     \<and> active_channels v' = dm_remove cid (active_channels v)"
  using ok
proof (rule close_channel_Ok)
  fix ch' :: channel_state and n v2
  let ?v1 = "v\<lparr>active_channels := dm_remove cid (active_channels v)\<rparr>"
  assume "dm_get (active_channels v) cid = Some ch'" and st: "ch_status ch' = ChOpen"
    and n: "checked_add (client_free (ch_balance ch')) (provider_earned (ch_balance ch')) = Some n"
    and rf: "refund_channel (ch_client ch') n (client_free (ch_balance ch')) ?v1 = (Ok (), v2)"
    and cr: "(provider_earned (ch_balance ch') = 0 \<and> v' = v2) \<or>
     (0 < provider_earned (ch_balance ch') \<and>
      credit_channel now (ch_provider_id ch') (provider_earned (ch_balance ch')) (co_settlement_id out) v2 = (Ok (), v'))"
  with ch have [simp]: "ch' = ch" by simp
  from channel_inv_Open [OF asc_invD(2) [OF inv ch]] st checked_add_SomeD [OF n]
  have cv: "chan_value ch = unat n" by (simp add: chan_value_def)
  with pos have "n \<noteq> 0" by auto
  with rf obtain b g where b: "dm_get (client_balances v) (ch_client ch) = Some b"
    "checked_add (cb_free b) (client_free (ch_balance ch)) = Some g"
    "v2 = put_balance (ch_client ch) (b\<lparr>cb_locked := saturating_sub (cb_locked b) n, cb_free := g\<rparr>) ?v1"
    by (auto elim!: refund_channel_Ok)
  from cr have c2: "client_balances v' = client_balances v2"
    "credit_value v' = credit_value v2 + unat (provider_earned (ch_balance ch))"
    by (auto dest: credit_channel_Ok)
  then have "funds v' x = funds v2 x" for x by (simp add: funds_def)
  moreover have "credit_value v2 = credit_value v" by (simp add: b)
  moreover have "chan_value ch \<le> unat (cb_locked b)"
    using asc_invD(4) [OF inv ch] b by (simp add: locked_of_def funds_def)
  ultimately show ?thesis
    using b cv c2 close_channel_channels [OF ok] by (auto simp: funds_def dest: checked_add_SomeD)
qed

lemma demo_close_run:
  "\<exists>out v'. close_channel_with_settlement_id 1030 ''u'' ''ch_1'' None demo_paid = (Ok out, v')"
  by (simp add: close_channel_with_settlement_id_def demo_channel_def refund_channel_def demo_open_frame
      credit_channel_def demo_provider_def Let_def)

theorem close_channel_pays_exactly_witness:
  "\<exists>out v' f l. close_channel_with_settlement_id 1030 ''u'' ''ch_1'' None demo_paid = (Ok out, v')
     \<and> funds demo_paid 10 = Some (f, l) \<and> funds v' 10 = Some (f + 260, l - 300)
     \<and> credit_value v' = credit_value demo_paid + 40"
proof -
  from demo_close_run obtain out v'
    where run: "close_channel_with_settlement_id 1030 ''u'' ''ch_1'' None demo_paid = (Ok out, v')" by blast
  from close_channel_pays_exactly [OF demo_inv(4) _ _ run] run show ?thesis
    by (auto simp: demo_channel_def chan_value_def)
qed

lemma credit_channel_undo:
  assumes "credit_channel now p e sid v = (Ok u, v')"
  shows "\<exists>X. v' = v\<lparr>provider_credits := X\<rparr> \<and>
    (case dm_get (provider_credits v) p of Some c \<Rightarrow> dm_insert p c X | None \<Rightarrow> dm_remove p X) = provider_credits v"
proof -
  from credit_channel_amount [OF assms] obtain c
    where "v' = v\<lparr>provider_credits := dm_insert p c (provider_credits v)\<rparr>" by blast
  then show ?thesis
    by (intro exI [of _ "dm_insert p c (provider_credits v)"])
      (auto simp: update_triv dm_remove_insert_new split: option.splits)
qed

text \<open>
  \<open>rollback_close_channel\<close> undoes a close: client balance and provider credit are exactly
  those from before and every channel is found again as it was.
\<close>

theorem rollback_close_restores:
  assumes inv: "asc_inv v" and ok: "close_channel_with_settlement_id now uuid cid ov v = (Ok out, v')"
  shows "\<exists>m. rollback_close_channel out v' = (Ok (), v\<lparr>active_channels := m\<rparr>)
     \<and> dm_get m = dm_get (active_channels v)"
  using ok
proof (rule close_channel_Ok)
  fix ch :: channel_state and n v2
  let ?v1 = "v\<lparr>active_channels := dm_remove cid (active_channels v)\<rparr>"
  let ?f = "client_free (ch_balance ch)" and ?e = "provider_earned (ch_balance ch)"
  assume ch: "dm_get (active_channels v) cid = Some ch" and st: "ch_status ch = ChOpen"
    and n: "checked_add ?f ?e = Some n"
    and rf: "refund_channel (ch_client ch) n ?f ?v1 = (Ok (), v2)"
    and cr: "(?e = 0 \<and> v' = v2) \<or> (0 < ?e \<and>
      credit_channel now (ch_provider_id ch) ?e (co_settlement_id out) v2 = (Ok (), v'))"
    and out: "co_client out = ch_client ch" "co_provider_id out = ch_provider_id ch"
      "co_returned_to_client out = ?f" "co_provider_earned out = ?e" "co_closed_channel out = ch"
      "co_previous_provider_credit out = (if 0 < ?e then dm_get (provider_credits v) (ch_provider_id ch) else None)"
  let ?m = "dm_insert cid ch (dm_remove cid (active_channels v))"
  note cover = closing_cover [OF inv ch n]
  have m: "dm_get ?m = dm_get (active_channels v)" using ch by (auto simp: fun_eq_iff dm_get_insert dm_get_remove)
  obtain X where v': "v' = v2\<lparr>provider_credits := X\<rparr>"
    and X: "(if 0 < ?e then (case co_previous_provider_credit out of
        Some c \<Rightarrow> dm_insert (ch_provider_id ch) c X | None \<Rightarrow> dm_remove (ch_provider_id ch) X) else X)
      = provider_credits v"
    using cr credit_channel_undo refund_channel_frame [OF rf] by (fastforce simp: out)
  have "rollback_close_channel out v' = (Ok (), v\<lparr>active_channels := ?m\<rparr>)"
    using rf
  proof (cases rule: refund_channel_Ok)
    case 1
    with checked_add_SomeD [OF n] have "?e = 0" by simp
    with 1 X n show ?thesis
      using asc_invD(1) [OF inv ch] by (simp add: rollback_close_channel_def out v' put_channel_def)
  next
    case (2 b g)
    let ?b = "b\<lparr>cb_locked := saturating_sub (cb_locked b) n, cb_free := g\<rparr>"
    have "n \<le> cb_locked b" using cover 2 by (simp add: locked_of_def funds_def word_le_nat_alt)
    then have b: "checked_add (cb_locked ?b) n = Some (cb_locked b)" "saturating_sub (cb_free ?b) ?f = cb_free b"
      using saturating_sub_add [OF 2(3)] by (simp_all add: checked_sub_back)
    have bb: "?b\<lparr>cb_locked := cb_locked b, cb_free := cb_free b\<rparr> = b" by simp
    have undo: "dm_insert (ch_client ch) b (dm_insert (ch_client ch) ?b (client_balances v)) = client_balances v"
      using 2 by (intro dm_insert_back) simp
    show ?thesis
      using 2(1,4) X n asc_invD(1) [OF inv ch] b bb undo
      by (cases "0 < ?e") (simp_all add: rollback_close_channel_def out v' put_balance_def put_channel_def Let_def
          cong: option.case_cong)
  qed
  with m show ?thesis by blast
qed

theorem rollback_close_restores_witness:
  "\<exists>out v' m. close_channel_with_settlement_id 1030 ''u'' ''ch_1'' None demo_paid = (Ok out, v')
     \<and> rollback_close_channel out v' = (Ok (), demo_paid\<lparr>active_channels := m\<rparr>)
     \<and> dm_get m = dm_get (active_channels demo_paid)"
  using demo_close_run rollback_close_restores [OF demo_inv(4)] by blast

end
