(* ===== verification/Onchain_State.thy ===== *)
theory Onchain_State
  imports Codec
begin

text \<open>
  Accounts, errors and environment of the on-chain program (\<open>programs/a402_vault/src\<close>:
  \<open>constants.rs\<close>, \<open>error.rs\<close>, \<open>state/*.rs\<close>). The program's accounts are maps from addresses
  to the structs the source declares; the token accounts belong to the SPL token program.
  The Solana runtime, Anchor and the token program are not part of the repository: address
  derivation, SHA-256 and the token transfer are fields of the environment record, the clock
  and the instructions sysvar are fields of the transaction context, and the account
  attributes of the source (\<open>address\<close>, \<open>constraint\<close>, \<open>seeds\<close>, \<open>init\<close>, \<open>Signer\<close>) are
  explicit checks. An instruction that fails changes nothing, so a handler is a function into
  \<open>prog_error + chain\<close>. Rent, lamports and account sizes are not modelled.
\<close>

section \<open>Constants and errors\<close>

definition MAX_SETTLEMENTS_PER_TX :: nat where "MAX_SETTLEMENTS_PER_TX = 20"
definition MAX_ATOMIC_AUDITS_PER_TX :: nat where "MAX_ATOMIC_AUDITS_PER_TX = 5"
definition DISPUTE_WINDOW_SEC :: i64 where "DISPUTE_WINDOW_SEC = 86400"

definition VAULT_STATUS_ACTIVE :: u8 where "VAULT_STATUS_ACTIVE = 0"
definition VAULT_STATUS_PAUSED :: u8 where "VAULT_STATUS_PAUSED = 1"
definition VAULT_STATUS_MIGRATING :: u8 where "VAULT_STATUS_MIGRATING = 2"
definition VAULT_STATUS_RETIRED :: u8 where "VAULT_STATUS_RETIRED = 3"

lemmas status_defs = VAULT_STATUS_ACTIVE_def VAULT_STATUS_PAUSED_def VAULT_STATUS_MIGRATING_def
  VAULT_STATUS_RETIRED_def

datatype vault_error =
    VaultInactive | VaultPaused | VaultAlreadyPaused | VaultRetired | VaultAlreadyRetired
  | VaultMigrating | ExitDeadlineExceeded | ExitDeadlineNotReached | VaultInsolvent
  | InvalidVaultSigner | InvalidParticipantReceipt | InvalidReceiptMessage | StaleReceiptNonce
  | DisputeWindowActive | DisputeWindowExpired | NonceAlreadyUsed | WithdrawExpired
  | AtomicChunkHashMismatch | BatchIdMismatch | AuditRecordIndexOutOfOrder
  | RecordAuditWithoutSettle | SettleVaultWithoutAudit | InvalidAmount | ArithmeticOverflow
  | InvalidEd25519Instruction | AlreadyResolved | InvalidStatusTransition | TooManySettlements
  | InvalidAscCloseClaim | InvalidAscClaimVoucher

text \<open>The program's own errors and those that Anchor and the runtime raise for it.\<close>

datatype prog_error =
    VaultErr vault_error | ConstraintRaw | ConstraintAddress | ConstraintSeeds | AccountNotSigner
  | AccountNotInitialized | AccountAlreadyInUse | PrivilegeEscalation | TokenError

section \<open>Accounts\<close>

record vault_config =
  vc_bump :: u8
  vc_vault_id :: u64
  vc_governance :: pubkey
  vc_status :: u8
  vc_vault_signer_pubkey :: pubkey
  vc_usdc_mint :: pubkey
  vc_vault_token_account :: pubkey
  vc_auditor_master_pubkey :: b32
  vc_auditor_epoch :: u32
  vc_attestation_policy_hash :: b32
  vc_successor_vault :: pubkey
  vc_exit_deadline :: i64
  vc_lifetime_deposited :: u64
  vc_lifetime_withdrawn :: u64
  vc_lifetime_settled :: u64

record used_withdraw_nonce =
  un_bump :: u8
  un_vault :: pubkey
  un_client :: pubkey
  un_withdraw_nonce :: u64

record force_settle_request =
  fs_bump :: u8
  fs_vault :: pubkey
  fs_participant :: pubkey
  fs_participant_kind :: u8
  fs_recipient_ata :: pubkey
  fs_free_balance_due :: u64
  fs_locked_balance_due :: u64
  fs_max_lock_expires_at :: i64
  fs_receipt_nonce :: u64
  fs_receipt_signature :: b64
  fs_initiated_at :: i64
  fs_dispute_deadline :: i64
  fs_is_resolved :: bool

record asc_close_claim =
  cc_bump :: u8
  cc_vault :: pubkey
  cc_channel_id_hash :: b32
  cc_request_id_hash :: b32
  cc_request_hash :: b32
  cc_provider_pubkey :: b32
  cc_full_sig_r :: b32
  cc_full_sig_s :: b32
  cc_amount :: u64
  cc_voucher_issued_at :: i64
  cc_claimed_at :: i64

record audit_record =
  ar_bump :: u8
  ar_vault :: pubkey
  ar_batch_id :: u64
  ar_index :: u8
  ar_encrypted_sender :: b64
  ar_encrypted_amount :: b64
  ar_provider :: pubkey
  ar_timestamp :: i64
  ar_auditor_epoch :: u32

text \<open>What the handlers read of an SPL token account.\<close>

record token_account =
  ta_mint :: pubkey
  ta_owner :: pubkey
  ta_amount :: u64

type_synonym tokens = "(pubkey, token_account) dashmap"

record chain =
  vaults :: "(pubkey, vault_config) dashmap"
  token_accounts :: tokens
  used_nonces :: "(pubkey, used_withdraw_nonce) dashmap"
  force_settles :: "(pubkey, force_settle_request) dashmap"
  close_claims :: "(pubkey, asc_close_claim) dashmap"
  audits :: "(pubkey, audit_record) dashmap"

section \<open>Environment\<close>

text \<open>An instruction of the running transaction, as the instructions sysvar shows it.\<close>

record instruction =
  ix_program_id :: pubkey
  ix_accounts :: "pubkey list"
  ix_data :: bytes

record env =
  program_id :: pubkey
  ed25519_program_id :: pubkey
  sysvar_instructions_id :: pubkey
  find_program_address :: "bytes list \<Rightarrow> pubkey \<times> u8"
  create_program_address :: "bytes list \<Rightarrow> pubkey option"
  env_sha256 :: "bytes \<Rightarrow> b32"
  spl_transfer :: "pubkey \<Rightarrow> pubkey \<Rightarrow> pubkey \<Rightarrow> u64 \<Rightarrow> tokens \<Rightarrow> tokens option"

record tx_ctx =
  unix_timestamp :: i64
  current_index :: u16
  tx_instructions :: "instruction list"
  tx_signers :: "pubkey list"

definition load_instruction_at :: "tx_ctx \<Rightarrow> nat \<Rightarrow> instruction option" where
  "load_instruction_at tx i = (if i < length (tx_instructions tx) then Some (tx_instructions tx ! i) else None)"

type_synonym 'a result = "prog_error + 'a"

definition bind_result :: "'a result \<Rightarrow> ('a \<Rightarrow> 'b result) \<Rightarrow> 'b result" where
  "bind_result r f = (case r of Inl e \<Rightarrow> Inl e | Inr x \<Rightarrow> f x)"

text \<open>\<open>require!(cond, err)\<close> and the account attributes.\<close>

definition require :: "bool \<Rightarrow> prog_error \<Rightarrow> 'a result \<Rightarrow> 'a result" where
  "require b e k = (if b then k else Inl e)"

definition ok_or :: "'a option \<Rightarrow> prog_error \<Rightarrow> ('a \<Rightarrow> 'b result) \<Rightarrow> 'b result" where
  "ok_or x e k = (case x of None \<Rightarrow> Inl e | Some y \<Rightarrow> k y)"

lemma require_Inr [simp]: "require b e k = Inr x \<longleftrightarrow> b \<and> k = Inr x"
  by (simp add: require_def)

lemma ok_or_Inr [simp]: "ok_or x e k = Inr y \<longleftrightarrow> (\<exists>z. x = Some z \<and> k z = Inr y)"
  by (simp add: ok_or_def split: option.splits)

lemma bind_result_Inr [simp]: "bind_result r f = Inr y \<longleftrightarrow> (\<exists>x. r = Inr x \<and> f x = Inr y)"
  by (simp add: bind_result_def split: sum.splits)

lemma require_Inl [simp]: "require b e k = Inl x \<longleftrightarrow> (\<not> b \<and> x = e) \<or> (b \<and> k = Inl x)"
  by (auto simp: require_def)

lemma ok_or_Inl [simp]: "ok_or y e k = Inl x \<longleftrightarrow> (y = None \<and> x = e) \<or> (\<exists>z. y = Some z \<and> k z = Inl x)"
  by (auto simp: ok_or_def split: option.splits)

lemma bind_result_Inl [simp]: "bind_result r f = Inl x \<longleftrightarrow> r = Inl x \<or> (\<exists>y. r = Inr y \<and> f y = Inl x)"
  by (simp add: bind_result_def split: sum.splits)

lemma require_eval [simp]: "require True e k = k" "require False e k = Inl e"
  by (simp_all add: require_def)

lemma ok_or_eval [simp]: "ok_or None e k = Inl e" "ok_or (Some x) e k' = k' x"
  by (simp_all add: ok_or_def)

lemma bind_result_eval [simp]: "bind_result (Inl e) f = Inl e" "bind_result (Inr x) f = f x"
  by (simp_all add: bind_result_def)

definition account_exists :: "pubkey \<Rightarrow> chain \<Rightarrow> bool" where
  "account_exists k s \<longleftrightarrow> dm_get (vaults s) k \<noteq> None \<or> dm_get (token_accounts s) k \<noteq> None
     \<or> dm_get (used_nonces s) k \<noteq> None \<or> dm_get (force_settles s) k \<noteq> None
     \<or> dm_get (close_claims s) k \<noteq> None \<or> dm_get (audits s) k \<noteq> None"

text \<open>
  \<open>init, seeds = [...], bump\<close>: the account passed must be the address derived from the seeds
  and must not exist; the bump is handed to the handler.
\<close>

definition init_pda :: "env \<Rightarrow> bytes list \<Rightarrow> pubkey \<Rightarrow> chain \<Rightarrow> (u8 \<Rightarrow> 'a result) \<Rightarrow> 'a result" where
  "init_pda E seeds key s k =
     (let (pda, bump) = find_program_address E seeds
      in require (key = pda) ConstraintSeeds
        (require (\<not> account_exists key s) AccountAlreadyInUse (k bump)))"

lemma init_pda_Inr [simp]:
  "init_pda E seeds key s k = Inr x \<longleftrightarrow>
     key = fst (find_program_address E seeds) \<and> \<not> account_exists key s
     \<and> k (snd (find_program_address E seeds)) = Inr x"
  by (simp add: init_pda_def split: prod.splits)

definition signer :: "tx_ctx \<Rightarrow> pubkey \<Rightarrow> bool" where
  "signer tx k \<longleftrightarrow> k \<in> set (tx_signers tx)"

section \<open>Vault authority\<close>

definition vault_seeds :: "pubkey \<Rightarrow> u64 \<Rightarrow> bytes list" where
  "vault_seeds governance vault_id = [str_bytes ''vault_config'', word_bytes governance, word_bytes vault_id]"

text \<open>
  \<open>token::transfer\<close> with \<open>CpiContext::new_with_signer\<close>: the runtime grants the vault's
  signature when the seeds derive the authority's address.
\<close>

definition vault_transfer :: "env \<Rightarrow> pubkey \<Rightarrow> vault_config \<Rightarrow> pubkey \<Rightarrow> pubkey \<Rightarrow> u64 \<Rightarrow> tokens \<Rightarrow> tokens result" where
  "vault_transfer E vault_key vault from_acc to_acc amount t =
     (let signer_seeds = vault_seeds (vc_governance vault) (vc_vault_id vault) @ [[vc_bump vault]]
      in require (create_program_address E signer_seeds = Some vault_key) PrivilegeEscalation
        (ok_or (spl_transfer E from_acc to_acc vault_key amount t) TokenError Inr))"

text \<open>What the program relies on of address derivation and of the token program.\<close>

definition pda_laws :: "env \<Rightarrow> bool" where
  "pda_laws E \<longleftrightarrow> (\<forall>seeds. create_program_address E (seeds @ [[snd (find_program_address E seeds)]])
     = Some (fst (find_program_address E seeds)))"

definition token_total :: "pubkey \<Rightarrow> tokens \<Rightarrow> nat" where
  "token_total mint t = dm_sum (\<lambda>_ a. if ta_mint a = mint then unat (ta_amount a) else 0) t"

definition balance :: "tokens \<Rightarrow> pubkey \<Rightarrow> nat" where
  "balance t k = (case dm_get t k of None \<Rightarrow> 0 | Some a \<Rightarrow> unat (ta_amount a))"

definition token_laws :: "env \<Rightarrow> bool" where
  "token_laws E \<longleftrightarrow> (\<forall>from_acc to_acc auth amount t t'.
     spl_transfer E from_acc to_acc auth amount t = Some t' \<longrightarrow>
       unat amount \<le> balance t from_acc
     \<and> (\<exists>a. dm_get t from_acc = Some a \<and> ta_owner a = auth)
     \<and> (from_acc \<noteq> to_acc \<longrightarrow> balance t' from_acc + unat amount = balance t from_acc
          \<and> balance t' to_acc = balance t to_acc + unat amount)
     \<and> (from_acc = to_acc \<longrightarrow> balance t' from_acc = balance t from_acc)
     \<and> (\<forall>k. k \<noteq> from_acc \<and> k \<noteq> to_acc \<longrightarrow> dm_get t' k = dm_get t k)
     \<and> (\<forall>k. map_option (\<lambda>a. (ta_mint a, ta_owner a)) (dm_get t' k)
          = map_option (\<lambda>a. (ta_mint a, ta_owner a)) (dm_get t k)))"

text \<open>A token program that satisfies the laws, for the witnesses.\<close>

definition reference_transfer :: "pubkey \<Rightarrow> pubkey \<Rightarrow> pubkey \<Rightarrow> u64 \<Rightarrow> tokens \<Rightarrow> tokens option" where
  "reference_transfer from_acc to_acc auth amount t =
     (case (dm_get t from_acc, dm_get t to_acc) of
        (Some a, Some b) \<Rightarrow>
          if ta_owner a \<noteq> auth \<or> ta_mint a \<noteq> ta_mint b then None
          else (case checked_sub (ta_amount a) amount of None \<Rightarrow> None
            | Some x \<Rightarrow>
               if from_acc = to_acc then Some t
               else (case checked_add (ta_amount b) amount of None \<Rightarrow> None
                 | Some y \<Rightarrow> Some (dm_insert to_acc (b\<lparr>ta_amount := y\<rparr>)
                                   (dm_insert from_acc (a\<lparr>ta_amount := x\<rparr>) t))))
      | _ \<Rightarrow> None)"

definition demo_pda :: "bytes list \<Rightarrow> pubkey" where
  "demo_pda seeds = of_nat (1000 * length (concat seeds) + le_nat (take 1 (last seeds)))"

definition demo_env :: env where
  "demo_env = \<lparr>program_id = 100, ed25519_program_id = 101, sysvar_instructions_id = 102,
     find_program_address = (\<lambda>seeds. (demo_pda seeds, 255)),
     create_program_address = (\<lambda>seeds. if seeds = [] then None else Some (demo_pda (butlast seeds))),
     env_sha256 = (\<lambda>bs. of_nat (le_nat bs)), spl_transfer = reference_transfer\<rparr>"

lemma demo_pda_laws: "pda_laws demo_env"
  by (simp add: pda_laws_def demo_env_def)

lemma demo_token_laws: "token_laws demo_env"
  unfolding token_laws_def
  by (auto simp: demo_env_def reference_transfer_def balance_def dm_get_insert
      dest!: checked_add_SomeD checked_sub_SomeD split: option.splits if_splits)

lemma token_lawsD:
  assumes "token_laws E" and "spl_transfer E x y auth amount t = Some t'"
  shows "unat amount \<le> balance t x" and "x \<noteq> y \<Longrightarrow> balance t' x + unat amount = balance t x"
    and "x \<noteq> y \<Longrightarrow> balance t' y = balance t y + unat amount"
    and "k \<noteq> x \<Longrightarrow> k \<noteq> y \<Longrightarrow> balance t' k = balance t k"
    and "map_option (\<lambda>a. (ta_mint a, ta_owner a)) (dm_get t' k) = map_option (\<lambda>a. (ta_mint a, ta_owner a)) (dm_get t k)"
    and "\<exists>a. dm_get t x = Some a \<and> ta_owner a = auth"
proof -
  note L = assms(1) [unfolded token_laws_def, rule_format, OF assms(2)]
  show "unat amount \<le> balance t x" "\<exists>a. dm_get t x = Some a \<and> ta_owner a = auth"
    "x \<noteq> y \<Longrightarrow> balance t' x + unat amount = balance t x"
    "x \<noteq> y \<Longrightarrow> balance t' y = balance t y + unat amount"
    "map_option (\<lambda>a. (ta_mint a, ta_owner a)) (dm_get t' k) = map_option (\<lambda>a. (ta_mint a, ta_owner a)) (dm_get t k)"
    using L by blast+
  show "k \<noteq> x \<Longrightarrow> k \<noteq> y \<Longrightarrow> balance t' k = balance t k"
    using L by (simp add: balance_def)
qed

lemma vault_transfer_Inr [simp]:
  "vault_transfer E vk vault x y amount t = Inr t' \<longleftrightarrow>
     create_program_address E (vault_seeds (vc_governance vault) (vc_vault_id vault) @ [[vc_bump vault]]) = Some vk
     \<and> spl_transfer E x y vk amount t = Some t'"
  by (auto simp: vault_transfer_def)

end
