(* ===== verification/Ed25519_Utils.thy ===== *)
theory Ed25519_Utils
  imports Onchain_State
begin

text \<open>
  Reading a verified signature out of the transaction (\<open>ed25519_utils.rs\<close>). The Ed25519
  precompile runs as its own instruction and aborts the transaction when a signature is wrong;
  the program only looks at the bytes that instruction names. The property of this theory is
  that the program reads the very bytes the precompile checked, which fails if an offset may
  point into another instruction. The second half is the participant receipt codec.
\<close>

section \<open>Definitions\<close>

definition PARTICIPANT_RECEIPT_MESSAGE_LEN :: nat where
  "PARTICIPANT_RECEIPT_MESSAGE_LEN = 145"

record verified_ed25519_signature =
  ve_signature :: b64
  ve_message :: bytes

record participant_receipt_message =
  prm_participant :: pubkey
  prm_participant_kind :: u8
  prm_recipient_ata :: pubkey
  prm_free_balance :: u64
  prm_locked_balance :: u64
  prm_max_lock_expires_at :: i64
  prm_nonce :: u64
  prm_timestamp :: i64
  prm_snapshot_seqno :: u64
  prm_vault_config :: pubkey

definition instruction_index_refs_embedded_data :: "u16 \<Rightarrow> u16 \<Rightarrow> bool" where
  "instruction_index_refs_embedded_data instruction_index ed25519_index \<longleftrightarrow>
     instruction_index = - 1 \<or> instruction_index = ed25519_index"

text \<open>\<open>u16::from_le_bytes([data[i], data[i + 1]])\<close> and a slice of the instruction data.\<close>

definition le16 :: "bytes \<Rightarrow> nat \<Rightarrow> u16" where
  "le16 data i = word_of_bytes [data ! i, data ! (i + 1)]"

definition slice :: "bytes \<Rightarrow> nat \<Rightarrow> nat \<Rightarrow> bytes" where
  "slice data offset len = take len (drop offset data)"

definition verify_ed25519_signature_details_relative ::
    "env \<Rightarrow> tx_ctx \<Rightarrow> nat \<Rightarrow> b32 \<Rightarrow> verified_ed25519_signature result" where
  "verify_ed25519_signature_details_relative E tx offset_from_current expected_pubkey =
     (let bad = VaultErr InvalidEd25519Instruction
      in require (offset_from_current \<le> unat (current_index tx)) bad
     (let target_index = current_index tx - of_nat offset_from_current
      in ok_or (load_instruction_at tx (unat target_index)) bad (\<lambda>ed25519_ix.
         require (ix_program_id ed25519_ix = ed25519_program_id E) bad
        (let d = ix_data ed25519_ix;
             own = (\<lambda>i. instruction_index_refs_embedded_data (le16 d i) target_index)
         in require (16 \<le> length d) bad
           (require (d ! 0 = 1) bad
           (require (own 4) bad
           (let signature_offset = unat (le16 d 2)
            in require (signature_offset + 64 \<le> length d) bad
           (let signature = word_of_bytes (slice d signature_offset 64);
                pubkey_offset = unat (le16 d 6)
            in require (pubkey_offset + 32 \<le> length d) bad
              (require (own 8) bad
              (require (slice d pubkey_offset 32 = word_bytes expected_pubkey) (VaultErr InvalidVaultSigner)
              (require (own 14) bad
              (let message_offset = unat (le16 d 10);
                   message_size = unat (le16 d 12)
               in require (message_offset + message_size \<le> length d) bad
                 (Inr \<lparr>ve_signature = signature, ve_message = slice d message_offset message_size\<rparr>)))))))))))))"

definition verify_ed25519_signature_details :: "env \<Rightarrow> tx_ctx \<Rightarrow> pubkey \<Rightarrow> verified_ed25519_signature result" where
  "verify_ed25519_signature_details E tx expected_pubkey =
     verify_ed25519_signature_details_relative E tx 1 expected_pubkey"

definition verify_ed25519_signature :: "env \<Rightarrow> tx_ctx \<Rightarrow> pubkey \<Rightarrow> bytes result" where
  "verify_ed25519_signature E tx expected_pubkey =
     bind_result (verify_ed25519_signature_details E tx expected_pubkey) (\<lambda>v. Inr (ve_message v))"

definition decode_participant_receipt_message :: "bytes \<Rightarrow> participant_receipt_message result" where
  "decode_participant_receipt_message message =
     (let bad = VaultErr InvalidReceiptMessage
      in require (length message = PARTICIPANT_RECEIPT_MESSAGE_LEN) bad
     (ok_or (take_word message) bad (\<lambda>(participant, rest).
      ok_or (take_word rest) bad (\<lambda>(participant_kind, rest).
      ok_or (take_word rest) bad (\<lambda>(recipient_ata, rest).
      ok_or (take_word rest) bad (\<lambda>(free_balance, rest).
      ok_or (take_word rest) bad (\<lambda>(locked_balance, rest).
      ok_or (take_word rest) bad (\<lambda>(max_lock_expires_at, rest).
      ok_or (take_word rest) bad (\<lambda>(nonce, rest).
      ok_or (take_word rest) bad (\<lambda>(timestamp, rest).
      ok_or (take_word rest) bad (\<lambda>(snapshot_seqno, rest).
      ok_or (take_word rest) bad (\<lambda>(vault_config, rest).
        Inr \<lparr>prm_participant = participant, prm_participant_kind = participant_kind,
             prm_recipient_ata = recipient_ata, prm_free_balance = free_balance,
             prm_locked_balance = locked_balance, prm_max_lock_expires_at = max_lock_expires_at,
             prm_nonce = nonce, prm_timestamp = timestamp, prm_snapshot_seqno = snapshot_seqno,
             prm_vault_config = vault_config\<rparr>))))))))))))"

section \<open>What the precompile checks\<close>

text \<open>
  The meaning of the offsets of an Ed25519 instruction with one signature, following the layout
  quoted in the source: each of signature, key and message lives in the instruction whose index
  stands beside its offset, where 65535 means this instruction.
\<close>

definition ed25519_data :: "tx_ctx \<Rightarrow> bytes \<Rightarrow> u16 \<Rightarrow> bytes" where
  "ed25519_data tx own i = (if i = - 1 then own else
     case load_instruction_at tx (unat i) of None \<Rightarrow> [] | Some ix \<Rightarrow> ix_data ix)"

definition ed25519_checked :: "tx_ctx \<Rightarrow> bytes \<Rightarrow> bytes \<times> bytes \<times> bytes" where
  "ed25519_checked tx d =
     (slice (ed25519_data tx d (le16 d 4)) (unat (le16 d 2)) 64,
      slice (ed25519_data tx d (le16 d 8)) (unat (le16 d 6)) 32,
      slice (ed25519_data tx d (le16 d 14)) (unat (le16 d 10)) (unat (le16 d 12)))"

lemma verify_Inr:
  assumes "verify_ed25519_signature_details_relative E tx n pk = Inr r"
  obtains ix where "n \<le> unat (current_index tx)"
    "load_instruction_at tx (unat (current_index tx - of_nat n)) = Some ix"
    "ix_program_id ix = ed25519_program_id E"
    "ed25519_checked tx (ix_data ix) = (word_bytes (ve_signature r), word_bytes pk, ve_message r)"
proof -
  let ?t = "current_index tx - of_nat n"
  from assms obtain ix where ix: "n \<le> unat (current_index tx)" "load_instruction_at tx (unat ?t) = Some ix"
    "ix_program_id ix = ed25519_program_id E"
    by (auto simp: verify_ed25519_signature_details_relative_def Let_def)
  let ?d = "ix_data ix"
  from assms ix have refs: "instruction_index_refs_embedded_data (le16 ?d 4) ?t"
    "instruction_index_refs_embedded_data (le16 ?d 8) ?t" "instruction_index_refs_embedded_data (le16 ?d 14) ?t"
    and len: "unat (le16 ?d 2) + 64 \<le> length ?d"
    and pk: "slice ?d (unat (le16 ?d 6)) 32 = word_bytes pk"
    and r: "r = \<lparr>ve_signature = word_of_bytes (slice ?d (unat (le16 ?d 2)) 64),
      ve_message = slice ?d (unat (le16 ?d 10)) (unat (le16 ?d 12))\<rparr>"
    by (auto simp: verify_ed25519_signature_details_relative_def Let_def)
  have own: "instruction_index_refs_embedded_data i ?t \<Longrightarrow> ed25519_data tx ?d i = ?d" for i
    using ix by (auto simp: instruction_index_refs_embedded_data_def ed25519_data_def)
  have "word_bytes (word_of_bytes (slice ?d (unat (le16 ?d 2)) 64) :: b64) = slice ?d (unat (le16 ?d 2)) 64"
    using len by (intro word_bytes_word_of_bytes) (simp_all add: slice_def)
  with r pk have "ed25519_checked tx ?d = (word_bytes (ve_signature r), word_bytes pk, ve_message r)"
    by (simp add: ed25519_checked_def own [OF refs(1)] own [OF refs(2)] own [OF refs(3)])
  with ix show thesis by (rule that)
qed

section \<open>An instruction that is accepted\<close>

text \<open>
  The instruction a client builds: header, signature, key and message in a row, every index
  pointing at the instruction itself.
\<close>

definition ed25519_instruction :: "env \<Rightarrow> b64 \<Rightarrow> b32 \<Rightarrow> bytes \<Rightarrow> instruction" where
  "ed25519_instruction E sig pk msg =
     \<lparr>ix_program_id = ed25519_program_id E, ix_accounts = [],
      ix_data = [1, 0, 16, 0, 255, 255, 80, 0, 255, 255, 112, 0]
        @ word_bytes (of_nat (length msg) :: u16) @ [255, 255] @ word_bytes sig @ word_bytes pk @ msg\<rparr>"

lemma le16_word_bytes:
  assumes "i = length xs"
  shows "le16 (xs @ word_bytes w @ ys) i = w"
proof -
  have w: "word_bytes w = [word_bytes w ! 0, word_bytes w ! 1]"
    by (simp add: list_eq_iff_nth_eq nth_Cons less_Suc_eq numeral_2_eq_2 split: nat.splits)
  have "le16 (xs @ word_bytes w @ ys) i = word_of_bytes [word_bytes w ! 0, word_bytes w ! 1]"
    by (simp add: assms le16_def nth_append)
  then show ?thesis using word_of_bytes_word_bytes [of w] w by simp
qed

lemma ed25519_instruction_accepted:
  assumes i: "n \<le> unat (current_index tx)"
    and ix: "load_instruction_at tx (unat (current_index tx - of_nat n)) = Some (ed25519_instruction E sig pk msg)"
    and len: "length msg < 65536"
  shows "verify_ed25519_signature_details_relative E tx n pk = Inr \<lparr>ve_signature = sig, ve_message = msg\<rparr>"
proof -
  let ?d = "ix_data (ed25519_instruction E sig pk msg)"
  have n: "unat (of_nat (length msg) :: u16) = length msg" using len by (simp add: unat_of_nat)
  have "le16 ?d 12 = of_nat (length msg)"
    using le16_word_bytes [of 12 "[1, 0, 16, 0, 255, 255, 80, 0, 255, 255, 112, 0]"]
    by (simp add: ed25519_instruction_def)
  moreover have "le16 ?d 2 = 16" "le16 ?d 4 = - 1" "le16 ?d 6 = 80" "le16 ?d 8 = - 1" "le16 ?d 10 = 112"
    by (simp_all add: le16_def ed25519_instruction_def word_of_bytes_def)
  moreover have "le16 ?d 14 = - 1"
    by (simp add: le16_def ed25519_instruction_def word_of_bytes_def nth_append)
  moreover have "?d ! 0 = 1" "length ?d = 112 + length msg"
    by (simp_all add: ed25519_instruction_def)
  moreover have "slice ?d 16 64 = word_bytes sig" "slice ?d 80 32 = word_bytes pk"
    "slice ?d 112 (length msg) = msg"
    by (simp_all add: slice_def ed25519_instruction_def)
  ultimately show ?thesis
    using i ix n
    by (simp add: verify_ed25519_signature_details_relative_def Let_def instruction_index_refs_embedded_data_def
        word_of_bytes_word_bytes)
      (simp add: ed25519_instruction_def)
qed

section \<open>Receipts\<close>

definition participant_receipt_bytes :: "participant_receipt_message \<Rightarrow> bytes" where
  "participant_receipt_bytes m =
     word_bytes (prm_participant m) @ word_bytes (prm_participant_kind m) @ word_bytes (prm_recipient_ata m)
     @ word_bytes (prm_free_balance m) @ word_bytes (prm_locked_balance m) @ word_bytes (prm_max_lock_expires_at m)
     @ word_bytes (prm_nonce m) @ word_bytes (prm_timestamp m) @ word_bytes (prm_snapshot_seqno m)
     @ word_bytes (prm_vault_config m)"

lemma decode_receipt_bytes: "decode_participant_receipt_message (participant_receipt_bytes m) = Inr m"
  by (simp add: decode_participant_receipt_message_def participant_receipt_bytes_def word_codec_dec
      b32_codec.dec_enc [of _ "[]", simplified] Let_def PARTICIPANT_RECEIPT_MESSAGE_LEN_def)

lemma decode_receipt_sound:
  assumes "decode_participant_receipt_message b = Inr m"
  shows "b = participant_receipt_bytes m"
proof -
  from assms have len: "length b = 145"
    by (simp add: decode_participant_receipt_message_def Let_def PARTICIPANT_RECEIPT_MESSAGE_LEN_def)
  from assms obtain r1 r2 r3 r4 r5 r6 r7 r8 r9 r10 where
    r: "take_word b = Some (prm_participant m, r1)" "take_word r1 = Some (prm_participant_kind m, r2)"
      "take_word r2 = Some (prm_recipient_ata m, r3)" "take_word r3 = Some (prm_free_balance m, r4)"
      "take_word r4 = Some (prm_locked_balance m, r5)" "take_word r5 = Some (prm_max_lock_expires_at m, r6)"
      "take_word r6 = Some (prm_nonce m, r7)" "take_word r7 = Some (prm_timestamp m, r8)"
      "take_word r8 = Some (prm_snapshot_seqno m, r9)" "take_word r9 = Some (prm_vault_config m, r10)"
    by (auto simp: decode_participant_receipt_message_def Let_def)
  have "b = participant_receipt_bytes m @ r10"
    using r by (simp add: participant_receipt_bytes_def word_codec_sound)
  moreover have "length (participant_receipt_bytes m) = 145"
    by (simp add: participant_receipt_bytes_def)
  ultimately show ?thesis using len by simp
qed

section \<open>Properties\<close>

text \<open>
  C36: The program acts on the bytes that the Ed25519 precompile checked: when signature
  verification succeeds, the instruction at the expected place is an Ed25519 instruction and
  the signature, key and message it made the precompile check are the ones returned, under the
  expected key. Offsets into other instructions are refused.
\<close>

theorem ed25519_reads_what_was_checked:
  assumes "verify_ed25519_signature_details_relative E tx n pk = Inr r"
  shows "\<exists>ix. n \<le> unat (current_index tx)
    \<and> load_instruction_at tx (unat (current_index tx - of_nat n)) = Some ix
    \<and> ix_program_id ix = ed25519_program_id E
    \<and> ed25519_checked tx (ix_data ix) = (word_bytes (ve_signature r), word_bytes pk, ve_message r)"
  using assms by (rule verify_Inr) blast

theorem ed25519_reads_what_was_checked_witness:
  "\<exists>tx r ix. verify_ed25519_signature_details_relative demo_env tx 1 7 = Inr r
    \<and> load_instruction_at tx 0 = Some ix
    \<and> ed25519_checked tx (ix_data ix) = (word_bytes (ve_signature r), word_bytes (7 :: b32), [1, 2, 3])"
proof -
  let ?tx = "\<lparr>unix_timestamp = 0, current_index = 1,
    tx_instructions = [ed25519_instruction demo_env 9 7 [1, 2, 3]], tx_signers = []\<rparr>"
  have v: "verify_ed25519_signature_details_relative demo_env ?tx 1 7
      = Inr \<lparr>ve_signature = 9, ve_message = [1, 2, 3]\<rparr>"
    by (rule ed25519_instruction_accepted) (simp_all add: load_instruction_at_def)
  from ed25519_reads_what_was_checked [OF v] show ?thesis
    by (intro exI [of _ ?tx] exI [of _ "\<lparr>ve_signature = 9, ve_message = [1, 2, 3]\<rparr>"]) (use v in auto)
qed

text \<open>
  The receipt decoder of the chain accepts a message if and only if it is the encoding of
  the fields it returns.
\<close>

theorem receipt_decode_iff:
  "decode_participant_receipt_message b = Inr m \<longleftrightarrow> b = participant_receipt_bytes m"
  by (auto simp: decode_receipt_bytes dest: decode_receipt_sound)

end
