(* ===== verification/Batch_Pairing.thy ===== *)
theory Batch_Pairing
  imports Onchain_State
begin

text \<open>
  The link between \<open>settle_vault\<close> and \<open>record_audit\<close>: the chunk hash (\<open>batch_hash.rs\<close>), the
  Borsh readers of the two instructions and the search of the transaction for the partner
  (\<open>settle_vault.rs\<close>, \<open>record_audit.rs\<close>). The hash preimage has no length fields; the theory
  shows that the limits on both lists still make it unambiguous.
\<close>

section \<open>Data\<close>

record settlement_entry =
  se_provider_token_account :: pubkey
  se_amount :: u64

record audit_record_data =
  ad_encrypted_sender :: b64
  ad_encrypted_amount :: b64
  ad_provider :: pubkey
  ad_timestamp :: i64

definition settlement_entry_bytes :: "settlement_entry \<Rightarrow> bytes" where
  "settlement_entry_bytes e = word_bytes (se_provider_token_account e) @ word_bytes (se_amount e)"

definition take_settlement_entry :: "bytes \<Rightarrow> (settlement_entry \<times> bytes) option" where
  "take_settlement_entry bs =
     (case take_word bs of None \<Rightarrow> None
      | Some (account, bs) \<Rightarrow>
     (case take_word bs of None \<Rightarrow> None
      | Some (amount, bs) \<Rightarrow> Some (\<lparr>se_provider_token_account = account, se_amount = amount\<rparr>, bs)))"

definition audit_record_data_bytes :: "audit_record_data \<Rightarrow> bytes" where
  "audit_record_data_bytes r = word_bytes (ad_encrypted_sender r) @ word_bytes (ad_encrypted_amount r)
     @ word_bytes (ad_provider r) @ word_bytes (ad_timestamp r)"

definition take_audit_record_data :: "bytes \<Rightarrow> (audit_record_data \<times> bytes) option" where
  "take_audit_record_data bs =
     (case take_word bs of None \<Rightarrow> None
      | Some (sender, bs) \<Rightarrow>
     (case take_word bs of None \<Rightarrow> None
      | Some (amount, bs) \<Rightarrow>
     (case take_word bs of None \<Rightarrow> None
      | Some (provider, bs) \<Rightarrow>
     (case take_word bs of None \<Rightarrow> None
      | Some (timestamp, bs) \<Rightarrow>
          Some (\<lparr>ad_encrypted_sender = sender, ad_encrypted_amount = amount, ad_provider = provider,
                 ad_timestamp = timestamp\<rparr>, bs)))))"

interpretation settlement_codec: codec settlement_entry_bytes take_settlement_entry
  by unfold_locales
    (auto simp: settlement_entry_bytes_def take_settlement_entry_def word_codec_dec
      dest!: word_codec_sound split: option.splits)

interpretation audit_codec: codec audit_record_data_bytes take_audit_record_data
  by unfold_locales
    (auto simp: audit_record_data_bytes_def take_audit_record_data_def word_codec_dec
      dest!: word_codec_sound split: option.splits)

section \<open>Chunk hash\<close>

definition batch_chunk_preimage :: "u64 \<Rightarrow> settlement_entry list \<Rightarrow> audit_record_data list \<Rightarrow> bytes" where
  "batch_chunk_preimage batch_id settlements records =
     str_bytes ''a402-batch-chunk-v1'' @ word_bytes batch_id
     @ concat (map settlement_entry_bytes settlements) @ concat (map audit_record_data_bytes records)"

definition compute_batch_chunk_hash :: "(bytes \<Rightarrow> b32) \<Rightarrow> u64 \<Rightarrow> settlement_entry list \<Rightarrow> audit_record_data list \<Rightarrow> b32" where
  "compute_batch_chunk_hash sha256 batch_id settlements records =
     sha256 (batch_chunk_preimage batch_id settlements records)"

section \<open>Instructions\<close>

definition instruction_discriminator :: "(bytes \<Rightarrow> b32) \<Rightarrow> string \<Rightarrow> bytes" where
  "instruction_discriminator sha256 name = take 8 (word_bytes (sha256 (str_bytes (''global:'' @ name))))"

record parsed_record_audit =
  pa_batch_id :: u64
  pa_batch_chunk_hash :: b32
  pa_records :: "audit_record_data list"

definition parse_record_audit_instruction :: "env \<Rightarrow> instruction \<Rightarrow> bytes \<Rightarrow> parsed_record_audit option" where
  "parse_record_audit_instruction E ix expected_discriminator =
     (if ix_program_id ix \<noteq> program_id E \<or> length (ix_data ix) < 48
         \<or> take 8 (ix_data ix) \<noteq> expected_discriminator then None
      else case take_word (drop 8 (ix_data ix)) of None \<Rightarrow> None
        | Some (batch_id, data) \<Rightarrow>
       (case take_word data of None \<Rightarrow> None
        | Some (batch_chunk_hash, data) \<Rightarrow>
       (case take_vec take_audit_record_data data of None \<Rightarrow> None
        | Some (records, data) \<Rightarrow>
            Some \<lparr>pa_batch_id = batch_id, pa_batch_chunk_hash = batch_chunk_hash, pa_records = records\<rparr>)))"

record parsed_settle_vault =
  ps_batch_id :: u64
  ps_batch_chunk_hash :: b32
  ps_settlements :: "settlement_entry list"

definition parse_settle_vault_instruction :: "env \<Rightarrow> instruction \<Rightarrow> bytes \<Rightarrow> parsed_settle_vault option" where
  "parse_settle_vault_instruction E ix expected_discriminator =
     (if ix_program_id ix \<noteq> program_id E \<or> length (ix_data ix) < 48
         \<or> take 8 (ix_data ix) \<noteq> expected_discriminator then None
      else case take_word (drop 8 (ix_data ix)) of None \<Rightarrow> None
        | Some (batch_id, data) \<Rightarrow>
       (case take_word data of None \<Rightarrow> None
        | Some (batch_chunk_hash, data) \<Rightarrow>
       (case take_vec take_settlement_entry data of None \<Rightarrow> None
        | Some (settlements, data) \<Rightarrow>
            Some \<lparr>ps_batch_id = batch_id, ps_batch_chunk_hash = batch_chunk_hash, ps_settlements = settlements\<rparr>)))"

section \<open>The search for the partner\<close>

text \<open>
  The loop \<open>for i in 0..32u16\<close> of both searches: it skips the running instruction, stops at the
  end of the transaction, and gives the first candidate's verdict.
\<close>

fun scan_instructions ::
    "tx_ctx \<Rightarrow> vault_error \<Rightarrow> (instruction \<Rightarrow> unit result option) \<Rightarrow> nat list \<Rightarrow> unit result" where
  "scan_instructions tx missing f [] = Inl (VaultErr missing)"
| "scan_instructions tx missing f (i # is) =
     (if i = unat (current_index tx) then scan_instructions tx missing f is
      else case load_instruction_at tx i of None \<Rightarrow> Inl (VaultErr missing)
      | Some ix \<Rightarrow>
          (case f ix of Some r \<Rightarrow> r | None \<Rightarrow> scan_instructions tx missing f is))"

definition verify_record_audit_pairing ::
    "env \<Rightarrow> tx_ctx \<Rightarrow> u64 \<Rightarrow> b32 \<Rightarrow> pubkey \<Rightarrow> settlement_entry list \<Rightarrow> unit result" where
  "verify_record_audit_pairing E tx expected_batch_id expected_batch_chunk_hash expected_vault_config
     expected_settlements =
     (let record_audit_disc = instruction_discriminator (env_sha256 E) ''record_audit''
      in scan_instructions tx SettleVaultWithoutAudit (\<lambda>ix.
           case parse_record_audit_instruction E ix record_audit_disc of None \<Rightarrow> None
           | Some parsed \<Rightarrow>
               if pa_batch_id parsed \<noteq> expected_batch_id
                 \<or> pa_batch_chunk_hash parsed \<noteq> expected_batch_chunk_hash
                 \<or> length (ix_accounts ix) < 2 \<or> ix_accounts ix ! 1 \<noteq> expected_vault_config
               then None
               else Some (require
                 (compute_batch_chunk_hash (env_sha256 E) expected_batch_id expected_settlements (pa_records parsed)
                    = expected_batch_chunk_hash) (VaultErr AtomicChunkHashMismatch) (Inr ()))) [0..<32])"

definition verify_settle_vault_pairing ::
    "env \<Rightarrow> tx_ctx \<Rightarrow> u64 \<Rightarrow> b32 \<Rightarrow> pubkey \<Rightarrow> audit_record_data list \<Rightarrow> unit result" where
  "verify_settle_vault_pairing E tx expected_batch_id expected_batch_chunk_hash expected_vault_config
     expected_records =
     (let settle_disc = instruction_discriminator (env_sha256 E) ''settle_vault''
      in scan_instructions tx RecordAuditWithoutSettle (\<lambda>ix.
           case parse_settle_vault_instruction E ix settle_disc of None \<Rightarrow> None
           | Some parsed \<Rightarrow>
               if ps_batch_id parsed \<noteq> expected_batch_id
                 \<or> ps_batch_chunk_hash parsed \<noteq> expected_batch_chunk_hash
                 \<or> length (ix_accounts ix) < 2 \<or> ix_accounts ix ! 1 \<noteq> expected_vault_config
               then None
               else Some (require
                 (compute_batch_chunk_hash (env_sha256 E) expected_batch_id (ps_settlements parsed) expected_records
                    = expected_batch_chunk_hash) (VaultErr AtomicChunkHashMismatch) (Inr ()))) [0..<32])"

section \<open>Audit addresses\<close>

definition audit_seeds :: "pubkey \<Rightarrow> u64 \<Rightarrow> u8 \<Rightarrow> bytes list" where
  "audit_seeds vault_key batch_id index = [str_bytes ''audit'', word_bytes vault_key, word_bytes batch_id, [index]]"

text \<open>\<open>for index in 0..=u8::MAX\<close>\<close>

definition resolve_audit_index :: "env \<Rightarrow> pubkey \<Rightarrow> u64 \<Rightarrow> pubkey \<Rightarrow> (u8 \<times> u8) result" where
  "resolve_audit_index E vault_key batch_id account_key =
     (case find (\<lambda>i. fst (find_program_address E (audit_seeds vault_key batch_id (of_nat i))) = account_key) [0..<256] of
        Some i \<Rightarrow> Inr (of_nat i, snd (find_program_address E (audit_seeds vault_key batch_id (of_nat i))))
      | None \<Rightarrow> Inl (VaultErr AuditRecordIndexOutOfOrder))"

section \<open>Lemmas\<close>

lemma scan_instructions_Inr:
  assumes "scan_instructions tx missing f is = Inr u"
  shows "\<exists>i ix. i \<in> set is \<and> i \<noteq> unat (current_index tx) \<and> load_instruction_at tx i = Some ix \<and> f ix = Some (Inr u)"
  using assms by (induction "is") (auto split: if_splits option.splits)

lemma length_discriminator [simp]: "length (instruction_discriminator H name) = 8"
  by (simp add: instruction_discriminator_def)

text \<open>The instructions as a client encodes them, and that the readers accept them.\<close>

definition record_audit_instruction :: "env \<Rightarrow> pubkey list \<Rightarrow> u64 \<Rightarrow> b32 \<Rightarrow> audit_record_data list \<Rightarrow> instruction" where
  "record_audit_instruction E accs b h rs = \<lparr>ix_program_id = program_id E, ix_accounts = accs,
     ix_data = instruction_discriminator (env_sha256 E) ''record_audit'' @ word_bytes b @ word_bytes h
       @ vec_bytes audit_record_data_bytes rs\<rparr>"

definition settle_vault_instruction :: "env \<Rightarrow> pubkey list \<Rightarrow> u64 \<Rightarrow> b32 \<Rightarrow> settlement_entry list \<Rightarrow> instruction" where
  "settle_vault_instruction E accs b h es = \<lparr>ix_program_id = program_id E, ix_accounts = accs,
     ix_data = instruction_discriminator (env_sha256 E) ''settle_vault'' @ word_bytes b @ word_bytes h
       @ vec_bytes settlement_entry_bytes es\<rparr>"

lemma parse_record_audit:
  assumes "length rs < 2 ^ 32"
  shows "parse_record_audit_instruction E (record_audit_instruction E accs b h rs)
      (instruction_discriminator (env_sha256 E) ''record_audit'')
    = Some \<lparr>pa_batch_id = b, pa_batch_chunk_hash = h, pa_records = rs\<rparr>"
  using audit_codec.take_vec_bytes [OF assms, of "[]"]
  by (simp add: parse_record_audit_instruction_def record_audit_instruction_def word_codec_dec vec_bytes_def)

lemma parse_settle_vault:
  assumes "length es < 2 ^ 32"
  shows "parse_settle_vault_instruction E (settle_vault_instruction E accs b h es)
      (instruction_discriminator (env_sha256 E) ''settle_vault'')
    = Some \<lparr>ps_batch_id = b, ps_batch_chunk_hash = h, ps_settlements = es\<rparr>"
  using settlement_codec.take_vec_bytes [OF assms, of "[]"]
  by (simp add: parse_settle_vault_instruction_def settle_vault_instruction_def word_codec_dec vec_bytes_def)

lemma length_settlements: "length (concat (map settlement_entry_bytes es)) = 40 * length es"
  by (induction es) (simp_all add: settlement_entry_bytes_def)

lemma length_records: "length (concat (map audit_record_data_bytes rs)) = 168 * length rs"
  by (induction rs) (simp_all add: audit_record_data_bytes_def)

text \<open>40 m + 168 n determines both numbers as long as the number of records stays within 1 to 5.\<close>

lemma chunk_lengths_determined:
  fixes m n m' n' :: nat
  assumes "40 * m + 168 * n = 40 * m' + 168 * n'" and "1 \<le> n" "n \<le> 5" "1 \<le> n'" "n' \<le> 5"
  shows "m = m' \<and> n = n'"
proof -
  from assms(1) have eq: "5 * m + 21 * n = 5 * m' + 21 * n'" by simp
  have "(5 * a + 21 * b) mod 5 = b mod 5" for a b :: nat
  proof -
    have "5 * a + 21 * b = b + 5 * (a + 4 * b)" by simp
    then show ?thesis by (simp only: mod_mult_self2)
  qed
  from this [of m n] this [of m' n'] eq have "n mod 5 = n' mod 5" by metis
  moreover have "k mod 5 = (if k = 5 then 0 else k)" if "1 \<le> k" "k \<le> 5" for k :: nat
    using that by auto
  ultimately have "n = n'" using assms(2-5) by (metis not_one_le_zero)
  with eq show ?thesis by simp
qed

lemma batch_chunk_preimage_inj:
  assumes eq: "batch_chunk_preimage b es rs = batch_chunk_preimage b' es' rs'"
    and n: "1 \<le> length rs" "length rs \<le> 5" "1 \<le> length rs'" "length rs' \<le> 5"
  shows "b = b' \<and> es = es' \<and> rs = rs'"
proof -
  from eq have "word_bytes b @ (concat (map settlement_entry_bytes es) @ concat (map audit_record_data_bytes rs))
      = word_bytes b' @ (concat (map settlement_entry_bytes es') @ concat (map audit_record_data_bytes rs'))"
    by (simp add: batch_chunk_preimage_def)
  from u64_codec.prefix_free [OF this] have b: "b = b'"
    and body: "concat (map settlement_entry_bytes es) @ concat (map audit_record_data_bytes rs)
      = concat (map settlement_entry_bytes es') @ concat (map audit_record_data_bytes rs')"
    by auto
  from arg_cong [OF body, of length] chunk_lengths_determined [OF _ n]
  have len: "length es = length es'" "length rs = length rs'"
    by (auto simp: length_settlements length_records)
  from settlement_codec.take_many_concat [of es] settlement_codec.take_many_concat [of es'] body len
  have "es = es' \<and> concat (map audit_record_data_bytes rs) = concat (map audit_record_data_bytes rs')"
    by (metis Pair_inject option.inject)
  with audit_codec.take_many_concat [of rs "[]"] audit_codec.take_many_concat [of rs' "[]"] len b
  show ?thesis by (metis Pair_inject option.inject)
qed

lemma resolve_audit_index_Inr:
  assumes "resolve_audit_index E vault_key batch_id key = Inr (index, bump)"
  shows "find_program_address E (audit_seeds vault_key batch_id index) = (key, bump)"
  using assms by (auto simp: resolve_audit_index_def find_Some_iff prod_eq_iff split: option.splits)

section \<open>Properties\<close>

text \<open>
  The chunk hash binds its batch: with between one and five audit records, the preimage
  determines the batch id, every settlement and every record, although it carries no lengths
  (settlements take 40 bytes and records 168, so longer lists would be ambiguous).
\<close>

theorem chunk_preimage_binds_batch:
  assumes "batch_chunk_preimage b es rs = batch_chunk_preimage b' es' rs'"
    and "1 \<le> length rs" "length rs \<le> MAX_ATOMIC_AUDITS_PER_TX"
    and "1 \<le> length rs'" "length rs' \<le> MAX_ATOMIC_AUDITS_PER_TX"
  shows "b = b' \<and> es = es' \<and> rs = rs'"
  using batch_chunk_preimage_inj assms by (simp add: MAX_ATOMIC_AUDITS_PER_TX_def)

theorem chunk_preimage_binds_batch_witness:
  "batch_chunk_preimage 7 [] [\<lparr>ad_encrypted_sender = 1, ad_encrypted_amount = 2, ad_provider = 3, ad_timestamp = 4\<rparr>]
     \<noteq> batch_chunk_preimage 7 [] [\<lparr>ad_encrypted_sender = 1, ad_encrypted_amount = 2, ad_provider = 3, ad_timestamp = 5\<rparr>]"
proof
  assume "batch_chunk_preimage 7 [] [\<lparr>ad_encrypted_sender = 1, ad_encrypted_amount = 2, ad_provider = 3, ad_timestamp = 4\<rparr>]
     = batch_chunk_preimage 7 [] [\<lparr>ad_encrypted_sender = 1, ad_encrypted_amount = 2, ad_provider = 3, ad_timestamp = 5\<rparr>]"
  from chunk_preimage_binds_batch [OF this] show False by (simp add: MAX_ATOMIC_AUDITS_PER_TX_def)
qed

end
