(* ===== verification/Vault_Program.thy ===== *)
theory Vault_Program
  imports Ed25519_Utils Batch_Pairing Asc_Claim
begin

text \<open>
  The instruction handlers of the vault program (\<open>instructions/*.rs\<close>), each with its accounts
  struct. Account attributes are checked in the order in which Anchor runs them: the accounts
  are loaded first (missing account or signature), then \<open>init\<close>, then the constraints; the
  handler body follows.
\<close>

abbreviation verr :: "vault_error \<Rightarrow> prog_error" where
  "verr \<equiv> VaultErr"

definition put_vault :: "pubkey \<Rightarrow> vault_config \<Rightarrow> chain \<Rightarrow> chain" where
  "put_vault k vc s = s\<lparr>vaults := dm_insert k vc (vaults s)\<rparr>"

section \<open>Lifecycle\<close>

record initialize_vault_accounts =
  iv_governance :: pubkey
  iv_vault_config :: pubkey
  iv_usdc_mint :: pubkey
  iv_vault_token_account :: pubkey

definition initialize_vault ::
    "env \<Rightarrow> tx_ctx \<Rightarrow> initialize_vault_accounts \<Rightarrow> u64 \<Rightarrow> pubkey \<Rightarrow> b32 \<Rightarrow> b32 \<Rightarrow> chain \<Rightarrow> chain result" where
  "initialize_vault E tx a vault_id vault_signer_pubkey auditor_master_pubkey attestation_policy_hash s =
     require (signer tx (iv_governance a)) AccountNotSigner
    (init_pda E (vault_seeds (iv_governance a) vault_id) (iv_vault_config a) s (\<lambda>bump.
     init_pda E [str_bytes ''vault_token'', word_bytes (iv_vault_config a)] (iv_vault_token_account a) s (\<lambda>_.
     require (iv_vault_token_account a \<noteq> iv_vault_config a) AccountAlreadyInUse
    (Inr (put_vault (iv_vault_config a)
       \<lparr>vc_bump = bump, vc_vault_id = vault_id, vc_governance = iv_governance a,
        vc_status = VAULT_STATUS_ACTIVE, vc_vault_signer_pubkey = vault_signer_pubkey,
        vc_usdc_mint = iv_usdc_mint a, vc_vault_token_account = iv_vault_token_account a,
        vc_auditor_master_pubkey = auditor_master_pubkey, vc_auditor_epoch = 0,
        vc_attestation_policy_hash = attestation_policy_hash, vc_successor_vault = 0,
        vc_exit_deadline = 0, vc_lifetime_deposited = 0, vc_lifetime_withdrawn = 0,
        vc_lifetime_settled = 0\<rparr>
       (s\<lparr>token_accounts := dm_insert (iv_vault_token_account a)
          \<lparr>ta_mint = iv_usdc_mint a, ta_owner = iv_vault_config a, ta_amount = 0\<rparr>
          (token_accounts s)\<rparr>))))))"

record governance_accounts =
  ga_governance :: pubkey
  ga_vault_config :: pubkey

definition pause_vault :: "env \<Rightarrow> tx_ctx \<Rightarrow> governance_accounts \<Rightarrow> chain \<Rightarrow> chain result" where
  "pause_vault E tx a s =
     require (signer tx (ga_governance a)) AccountNotSigner
    (ok_or (dm_get (vaults s) (ga_vault_config a)) AccountNotInitialized (\<lambda>vault.
     require (vc_governance vault = ga_governance a) ConstraintRaw
    (require (vc_status vault = VAULT_STATUS_ACTIVE) (verr VaultAlreadyPaused)
    (Inr (put_vault (ga_vault_config a) (vault\<lparr>vc_status := VAULT_STATUS_PAUSED\<rparr>) s)))))"

definition announce_migration :: "env \<Rightarrow> tx_ctx \<Rightarrow> governance_accounts \<Rightarrow> pubkey \<Rightarrow> i64 \<Rightarrow> chain \<Rightarrow> chain result" where
  "announce_migration E tx a successor_vault exit_deadline s =
     require (signer tx (ga_governance a)) AccountNotSigner
    (ok_or (dm_get (vaults s) (ga_vault_config a)) AccountNotInitialized (\<lambda>vault.
     require (vc_governance vault = ga_governance a) ConstraintRaw
    (require (vc_status vault = VAULT_STATUS_ACTIVE) (verr VaultInactive)
    (require (sint (unix_timestamp tx) < sint exit_deadline) (verr ExitDeadlineExceeded)
    (Inr (put_vault (ga_vault_config a)
       (vault\<lparr>vc_status := VAULT_STATUS_MIGRATING, vc_successor_vault := successor_vault,
              vc_exit_deadline := exit_deadline\<rparr>) s))))))"

definition retire_vault :: "env \<Rightarrow> tx_ctx \<Rightarrow> governance_accounts \<Rightarrow> chain \<Rightarrow> chain result" where
  "retire_vault E tx a s =
     require (signer tx (ga_governance a)) AccountNotSigner
    (ok_or (dm_get (vaults s) (ga_vault_config a)) AccountNotInitialized (\<lambda>vault.
     require (vc_governance vault = ga_governance a) ConstraintRaw
    (require (vc_status vault = VAULT_STATUS_PAUSED \<or> vc_status vault = VAULT_STATUS_MIGRATING)
       (verr InvalidStatusTransition)
    (require (\<not> (vc_status vault = VAULT_STATUS_MIGRATING
                  \<and> sint (unix_timestamp tx) < sint (vc_exit_deadline vault))) (verr ExitDeadlineNotReached)
    (Inr (put_vault (ga_vault_config a) (vault\<lparr>vc_status := VAULT_STATUS_RETIRED\<rparr>) s))))))"

definition rotate_auditor :: "env \<Rightarrow> tx_ctx \<Rightarrow> governance_accounts \<Rightarrow> b32 \<Rightarrow> chain \<Rightarrow> chain result" where
  "rotate_auditor E tx a new_auditor_master_pubkey s =
     require (signer tx (ga_governance a)) AccountNotSigner
    (ok_or (dm_get (vaults s) (ga_vault_config a)) AccountNotInitialized (\<lambda>vault.
     require (vc_governance vault = ga_governance a) ConstraintRaw
    (ok_or (checked_add (vc_auditor_epoch vault) 1) (verr ArithmeticOverflow) (\<lambda>epoch.
     Inr (put_vault (ga_vault_config a)
       (vault\<lparr>vc_auditor_master_pubkey := new_auditor_master_pubkey, vc_auditor_epoch := epoch\<rparr>) s)))))"

section \<open>Deposit and withdrawal\<close>

record deposit_accounts =
  da_client :: pubkey
  da_vault_config :: pubkey
  da_client_token_account :: pubkey
  da_vault_token_account :: pubkey

definition deposit :: "env \<Rightarrow> tx_ctx \<Rightarrow> deposit_accounts \<Rightarrow> u64 \<Rightarrow> chain \<Rightarrow> chain result" where
  "deposit E tx a amount s =
     require (signer tx (da_client a)) AccountNotSigner
    (ok_or (dm_get (vaults s) (da_vault_config a)) AccountNotInitialized (\<lambda>vault.
     ok_or (dm_get (token_accounts s) (da_client_token_account a)) AccountNotInitialized (\<lambda>client_token_account.
     ok_or (dm_get (token_accounts s) (da_vault_token_account a)) AccountNotInitialized (\<lambda>_.
     require (vc_status vault = VAULT_STATUS_ACTIVE) (verr VaultInactive)
    (require (ta_mint client_token_account = vc_usdc_mint vault) ConstraintRaw
    (require (ta_owner client_token_account = da_client a) ConstraintRaw
    (require (da_vault_token_account a = vc_vault_token_account vault) ConstraintAddress
    (require (0 < amount) (verr InvalidAmount)
    (ok_or (spl_transfer E (da_client_token_account a) (da_vault_token_account a) (da_client a) amount
              (token_accounts s)) TokenError (\<lambda>t.
     ok_or (checked_add (vc_lifetime_deposited vault) amount) (verr ArithmeticOverflow) (\<lambda>d.
     Inr (put_vault (da_vault_config a) (vault\<lparr>vc_lifetime_deposited := d\<rparr>) (s\<lparr>token_accounts := t\<rparr>)))))))))))))"

record withdraw_accounts =
  wa_client :: pubkey
  wa_vault_config :: pubkey
  wa_vault_token_account :: pubkey
  wa_client_token_account :: pubkey
  wa_used_withdraw_nonce :: pubkey
  wa_instructions_sysvar :: pubkey

definition nonce_seeds :: "pubkey \<Rightarrow> pubkey \<Rightarrow> u64 \<Rightarrow> bytes list" where
  "nonce_seeds vault client withdraw_nonce =
     [str_bytes ''withdraw_nonce'', word_bytes vault, word_bytes client, word_bytes withdraw_nonce]"

definition withdraw ::
    "env \<Rightarrow> tx_ctx \<Rightarrow> withdraw_accounts \<Rightarrow> u64 \<Rightarrow> u64 \<Rightarrow> i64 \<Rightarrow> b64 \<Rightarrow> chain \<Rightarrow> chain result" where
  "withdraw E tx a amount nonce expires_at enclave_signature s =
     require (signer tx (wa_client a)) AccountNotSigner
    (ok_or (dm_get (vaults s) (wa_vault_config a)) AccountNotInitialized (\<lambda>vault.
     ok_or (dm_get (token_accounts s) (wa_vault_token_account a)) AccountNotInitialized (\<lambda>_.
     ok_or (dm_get (token_accounts s) (wa_client_token_account a)) AccountNotInitialized (\<lambda>client_token_account.
     init_pda E (nonce_seeds (wa_vault_config a) (wa_client a) nonce) (wa_used_withdraw_nonce a) s (\<lambda>bump.
     require (vc_status vault = VAULT_STATUS_ACTIVE \<or> vc_status vault = VAULT_STATUS_MIGRATING) (verr VaultInactive)
    (require (wa_vault_token_account a = vc_vault_token_account vault) ConstraintAddress
    (require (ta_mint client_token_account = vc_usdc_mint vault) ConstraintRaw
    (require (ta_owner client_token_account = wa_client a) ConstraintRaw
    (require (wa_instructions_sysvar a = sysvar_instructions_id E) ConstraintAddress
    (require (0 < amount) (verr InvalidAmount)
    (require (vc_status vault = VAULT_STATUS_MIGRATING \<longrightarrow>
                sint (unix_timestamp tx) \<le> sint (vc_exit_deadline vault)) (verr ExitDeadlineExceeded)
    (require (sint (unix_timestamp tx) \<le> sint expires_at) (verr WithdrawExpired)
    (bind_result (verify_ed25519_signature E tx (vc_vault_signer_pubkey vault)) (\<lambda>signed_message.
     let expected_message = word_bytes (wa_client a) @ word_bytes (wa_client_token_account a) @ word_bytes amount
           @ word_bytes nonce @ word_bytes expires_at @ word_bytes (wa_vault_config a)
     in require (signed_message = expected_message) (verr InvalidParticipantReceipt)
       (bind_result (vault_transfer E (wa_vault_config a) vault (wa_vault_token_account a)
                       (wa_client_token_account a) amount (token_accounts s)) (\<lambda>t.
        ok_or (checked_add (vc_lifetime_withdrawn vault) amount) (verr ArithmeticOverflow) (\<lambda>w.
        Inr (put_vault (wa_vault_config a) (vault\<lparr>vc_lifetime_withdrawn := w\<rparr>)
          (s\<lparr>token_accounts := t, used_nonces := dm_insert (wa_used_withdraw_nonce a)
             \<lparr>un_bump = bump, un_vault = wa_vault_config a, un_client = wa_client a, un_withdraw_nonce = nonce\<rparr>
             (used_nonces s)\<rparr>)))))))))))))))))))"

section \<open>Settlement\<close>

record settle_vault_accounts =
  sa_vault_signer :: pubkey
  sa_vault_config :: pubkey
  sa_vault_token_account :: pubkey
  sa_instructions_sysvar :: pubkey
  sa_remaining :: "pubkey list"

text \<open>The payment loop: one transfer per entry, the total checked for overflow.\<close>

fun settle_entries ::
    "env \<Rightarrow> pubkey \<Rightarrow> vault_config \<Rightarrow> pubkey \<Rightarrow> (settlement_entry \<times> pubkey) list \<Rightarrow> u64 \<Rightarrow> tokens \<Rightarrow> (u64 \<times> tokens) result" where
  "settle_entries E vault_key vault from_acc [] total_settled t = Inr (total_settled, t)"
| "settle_entries E vault_key vault from_acc ((entry, provider_account) # rest) total_settled t =
     require (0 < se_amount entry) (verr InvalidAmount)
    (require (provider_account = se_provider_token_account entry) (verr InvalidAmount)
    (bind_result (vault_transfer E vault_key vault from_acc provider_account (se_amount entry) t) (\<lambda>t.
     ok_or (checked_add total_settled (se_amount entry)) (verr ArithmeticOverflow) (\<lambda>total_settled.
     settle_entries E vault_key vault from_acc rest total_settled t))))"

definition settle_vault ::
    "env \<Rightarrow> tx_ctx \<Rightarrow> settle_vault_accounts \<Rightarrow> u64 \<Rightarrow> b32 \<Rightarrow> settlement_entry list \<Rightarrow> chain \<Rightarrow> chain result" where
  "settle_vault E tx a batch_id batch_chunk_hash settlements s =
     require (signer tx (sa_vault_signer a)) AccountNotSigner
    (ok_or (dm_get (vaults s) (sa_vault_config a)) AccountNotInitialized (\<lambda>vault.
     ok_or (dm_get (token_accounts s) (sa_vault_token_account a)) AccountNotInitialized (\<lambda>_.
     require (vc_vault_signer_pubkey vault = sa_vault_signer a) (verr InvalidVaultSigner)
    (require (vc_status vault = VAULT_STATUS_ACTIVE \<or> vc_status vault = VAULT_STATUS_MIGRATING) (verr VaultInactive)
    (require (sa_vault_token_account a = vc_vault_token_account vault) ConstraintAddress
    (require (sa_instructions_sysvar a = sysvar_instructions_id E) ConstraintAddress
    (require (length settlements \<le> MAX_SETTLEMENTS_PER_TX) (verr TooManySettlements)
    (require (settlements \<noteq> []) (verr InvalidAmount)
    (require (vc_status vault = VAULT_STATUS_MIGRATING \<longrightarrow>
                sint (unix_timestamp tx) \<le> sint (vc_exit_deadline vault)) (verr ExitDeadlineExceeded)
    (bind_result (verify_record_audit_pairing E tx batch_id batch_chunk_hash (sa_vault_config a) settlements) (\<lambda>_.
     require (length (sa_remaining a) = length settlements) (verr InvalidAmount)
    (bind_result (settle_entries E (sa_vault_config a) vault (sa_vault_token_account a)
                    (zip settlements (sa_remaining a)) 0 (token_accounts s)) (\<lambda>(total_settled, t).
     ok_or (checked_add (vc_lifetime_settled vault) total_settled) (verr ArithmeticOverflow) (\<lambda>l.
     Inr (put_vault (sa_vault_config a) (vault\<lparr>vc_lifetime_settled := l\<rparr>)
       (s\<lparr>token_accounts := t\<rparr>))))))))))))))))"

record record_audit_accounts =
  ra_vault_signer :: pubkey
  ra_vault_config :: pubkey
  ra_instructions_sysvar :: pubkey
  ra_remaining :: "pubkey list"

text \<open>
  The loop that creates the audit accounts. The expected next index is \<open>index.checked_add(1)\<close>,
  so after index 255 no order is enforced.
\<close>

fun create_audits ::
    "env \<Rightarrow> pubkey \<Rightarrow> u64 \<Rightarrow> u32 \<Rightarrow> (audit_record_data \<times> pubkey) list \<Rightarrow> u8 option \<Rightarrow> chain \<Rightarrow> chain result" where
  "create_audits E vault_key batch_id auditor_epoch [] next_expected_index s = Inr s"
| "create_audits E vault_key batch_id auditor_epoch ((record_data, audit_account) # rest) next_expected_index s =
     bind_result (resolve_audit_index E vault_key batch_id audit_account) (\<lambda>(index, bump).
     require (case next_expected_index of None \<Rightarrow> True | Some expected_index \<Rightarrow> index = expected_index)
       (verr AuditRecordIndexOutOfOrder)
    (require (create_program_address E (audit_seeds vault_key batch_id index @ [[bump]]) = Some audit_account)
       PrivilegeEscalation
    (require (\<not> account_exists audit_account s) AccountAlreadyInUse
    (create_audits E vault_key batch_id auditor_epoch rest (checked_add index 1)
       (s\<lparr>audits := dm_insert audit_account
          \<lparr>ar_bump = bump, ar_vault = vault_key, ar_batch_id = batch_id, ar_index = index,
           ar_encrypted_sender = ad_encrypted_sender record_data,
           ar_encrypted_amount = ad_encrypted_amount record_data, ar_provider = ad_provider record_data,
           ar_timestamp = ad_timestamp record_data, ar_auditor_epoch = auditor_epoch\<rparr> (audits s)\<rparr>)))))"

definition record_audit ::
    "env \<Rightarrow> tx_ctx \<Rightarrow> record_audit_accounts \<Rightarrow> u64 \<Rightarrow> b32 \<Rightarrow> audit_record_data list \<Rightarrow> chain \<Rightarrow> chain result" where
  "record_audit E tx a batch_id batch_chunk_hash records s =
     require (signer tx (ra_vault_signer a)) AccountNotSigner
    (ok_or (dm_get (vaults s) (ra_vault_config a)) AccountNotInitialized (\<lambda>vault.
     require (vc_vault_signer_pubkey vault = ra_vault_signer a) (verr InvalidVaultSigner)
    (require (vc_status vault = VAULT_STATUS_ACTIVE \<or> vc_status vault = VAULT_STATUS_MIGRATING) (verr VaultInactive)
    (require (ra_instructions_sysvar a = sysvar_instructions_id E) ConstraintAddress
    (require (records \<noteq> [] \<and> length records \<le> MAX_ATOMIC_AUDITS_PER_TX) (verr InvalidAmount)
    (require (vc_status vault = VAULT_STATUS_MIGRATING \<longrightarrow>
                sint (unix_timestamp tx) \<le> sint (vc_exit_deadline vault)) (verr ExitDeadlineExceeded)
    (bind_result (verify_settle_vault_pairing E tx batch_id batch_chunk_hash (ra_vault_config a) records) (\<lambda>_.
     require (length (ra_remaining a) = length records) (verr InvalidAmount)
    (create_audits E (ra_vault_config a) batch_id (vc_auditor_epoch vault)
       (zip records (ra_remaining a)) None s)))))))))"

section \<open>Forced settlement\<close>

record force_settle_init_accounts =
  fi_participant :: pubkey
  fi_vault_config :: pubkey
  fi_force_settle_request :: pubkey
  fi_instructions_sysvar :: pubkey

definition force_settle_seeds :: "pubkey \<Rightarrow> pubkey \<Rightarrow> u8 \<Rightarrow> bytes list" where
  "force_settle_seeds vault participant participant_kind =
     [str_bytes ''force_settle'', word_bytes vault, word_bytes participant, [participant_kind]]"

definition force_settle_init ::
    "env \<Rightarrow> tx_ctx \<Rightarrow> force_settle_init_accounts \<Rightarrow> u8 \<Rightarrow> pubkey \<Rightarrow> u64 \<Rightarrow> u64 \<Rightarrow> i64 \<Rightarrow> u64 \<Rightarrow> b64 \<Rightarrow> bytes
       \<Rightarrow> chain \<Rightarrow> chain result" where
  "force_settle_init E tx a participant_kind recipient_ata free_balance locked_balance max_lock_expires_at
     receipt_nonce' receipt_signature receipt_message s =
     require (signer tx (fi_participant a)) AccountNotSigner
    (ok_or (dm_get (vaults s) (fi_vault_config a)) AccountNotInitialized (\<lambda>vault.
     init_pda E (force_settle_seeds (fi_vault_config a) (fi_participant a) participant_kind)
       (fi_force_settle_request a) s (\<lambda>bump.
     require (fi_instructions_sysvar a = sysvar_instructions_id E) ConstraintAddress
    (bind_result (verify_ed25519_signature_details E tx (vc_vault_signer_pubkey vault)) (\<lambda>verified.
     require (ve_message verified = receipt_message) (verr InvalidParticipantReceipt)
    (require (ve_signature verified = receipt_signature) (verr InvalidParticipantReceipt)
    (bind_result (decode_participant_receipt_message receipt_message) (\<lambda>decoded.
     require (prm_participant decoded = fi_participant a) (verr InvalidReceiptMessage)
    (require (prm_participant_kind decoded = participant_kind) (verr InvalidReceiptMessage)
    (require (prm_recipient_ata decoded = recipient_ata) (verr InvalidReceiptMessage)
    (require (prm_free_balance decoded = free_balance) (verr InvalidReceiptMessage)
    (require (prm_locked_balance decoded = locked_balance) (verr InvalidReceiptMessage)
    (require (prm_max_lock_expires_at decoded = max_lock_expires_at) (verr InvalidReceiptMessage)
    (require (prm_nonce decoded = receipt_nonce') (verr InvalidReceiptMessage)
    (require (prm_vault_config decoded = fi_vault_config a) (verr InvalidReceiptMessage)
    (ok_or (checked_sadd (unix_timestamp tx) DISPUTE_WINDOW_SEC) (verr ArithmeticOverflow) (\<lambda>deadline.
     Inr (s\<lparr>force_settles := dm_insert (fi_force_settle_request a)
       \<lparr>fs_bump = bump, fs_vault = fi_vault_config a, fs_participant = fi_participant a,
        fs_participant_kind = participant_kind, fs_recipient_ata = recipient_ata,
        fs_free_balance_due = free_balance, fs_locked_balance_due = locked_balance,
        fs_max_lock_expires_at = max_lock_expires_at, fs_receipt_nonce = receipt_nonce',
        fs_receipt_signature = receipt_signature, fs_initiated_at = unix_timestamp tx,
        fs_dispute_deadline = deadline, fs_is_resolved = False\<rparr> (force_settles s)\<rparr>))))))))))))))))))"

record force_settle_challenge_accounts =
  fc_challenger :: pubkey
  fc_vault_config :: pubkey
  fc_force_settle_request :: pubkey
  fc_instructions_sysvar :: pubkey

definition force_settle_challenge ::
    "env \<Rightarrow> tx_ctx \<Rightarrow> force_settle_challenge_accounts \<Rightarrow> pubkey \<Rightarrow> u64 \<Rightarrow> u64 \<Rightarrow> i64 \<Rightarrow> u64 \<Rightarrow> b64 \<Rightarrow> bytes
       \<Rightarrow> chain \<Rightarrow> chain result" where
  "force_settle_challenge E tx a newer_recipient_ata newer_free_balance newer_locked_balance
     newer_max_lock_expires_at newer_receipt_nonce newer_receipt_signature newer_receipt_message s =
     require (signer tx (fc_challenger a)) AccountNotSigner
    (ok_or (dm_get (vaults s) (fc_vault_config a)) AccountNotInitialized (\<lambda>vault.
     ok_or (dm_get (force_settles s) (fc_force_settle_request a)) AccountNotInitialized (\<lambda>request.
     require (fs_vault request = fc_vault_config a) ConstraintRaw
    (require (\<not> fs_is_resolved request) (verr AlreadyResolved)
    (require (fc_instructions_sysvar a = sysvar_instructions_id E) ConstraintAddress
    (require (sint (unix_timestamp tx) \<le> sint (fs_dispute_deadline request)) (verr DisputeWindowExpired)
    (require (fs_receipt_nonce request < newer_receipt_nonce) (verr StaleReceiptNonce)
    (bind_result (verify_ed25519_signature_details E tx (vc_vault_signer_pubkey vault)) (\<lambda>verified.
     require (ve_message verified = newer_receipt_message) (verr InvalidParticipantReceipt)
    (require (ve_signature verified = newer_receipt_signature) (verr InvalidParticipantReceipt)
    (bind_result (decode_participant_receipt_message newer_receipt_message) (\<lambda>decoded.
     require (prm_participant decoded = fs_participant request) (verr InvalidReceiptMessage)
    (require (prm_participant_kind decoded = fs_participant_kind request) (verr InvalidReceiptMessage)
    (require (prm_recipient_ata decoded = newer_recipient_ata) (verr InvalidReceiptMessage)
    (require (prm_free_balance decoded = newer_free_balance) (verr InvalidReceiptMessage)
    (require (prm_locked_balance decoded = newer_locked_balance) (verr InvalidReceiptMessage)
    (require (prm_max_lock_expires_at decoded = newer_max_lock_expires_at) (verr InvalidReceiptMessage)
    (require (prm_nonce decoded = newer_receipt_nonce) (verr InvalidReceiptMessage)
    (require (prm_vault_config decoded = fc_vault_config a) (verr InvalidReceiptMessage)
    (Inr (s\<lparr>force_settles := dm_insert (fc_force_settle_request a)
       (request\<lparr>fs_recipient_ata := newer_recipient_ata, fs_free_balance_due := newer_free_balance,
          fs_locked_balance_due := newer_locked_balance, fs_max_lock_expires_at := newer_max_lock_expires_at,
          fs_receipt_nonce := newer_receipt_nonce, fs_receipt_signature := newer_receipt_signature\<rparr>)
       (force_settles s)\<rparr>)))))))))))))))))))))"

record force_settle_finalize_accounts =
  ff_caller :: pubkey
  ff_vault_config :: pubkey
  ff_force_settle_request :: pubkey
  ff_vault_token_account :: pubkey
  ff_recipient_token_account :: pubkey

definition force_settle_finalize :: "env \<Rightarrow> tx_ctx \<Rightarrow> force_settle_finalize_accounts \<Rightarrow> chain \<Rightarrow> chain result" where
  "force_settle_finalize E tx a s =
     require (signer tx (ff_caller a)) AccountNotSigner
    (ok_or (dm_get (vaults s) (ff_vault_config a)) AccountNotInitialized (\<lambda>vault.
     ok_or (dm_get (force_settles s) (ff_force_settle_request a)) AccountNotInitialized (\<lambda>request.
     ok_or (dm_get (token_accounts s) (ff_vault_token_account a)) AccountNotInitialized (\<lambda>vault_token_account.
     ok_or (dm_get (token_accounts s) (ff_recipient_token_account a)) AccountNotInitialized (\<lambda>_.
     require (fs_vault request = ff_vault_config a) ConstraintRaw
    (require (\<not> fs_is_resolved request) (verr AlreadyResolved)
    (require (ff_vault_token_account a = vc_vault_token_account vault) ConstraintAddress
    (require (ff_recipient_token_account a = fs_recipient_ata request) ConstraintAddress
    (require (sint (fs_dispute_deadline request) < sint (unix_timestamp tx)) (verr DisputeWindowActive)
    (let free = fs_free_balance_due request;
         unlocked = sint (fs_max_lock_expires_at request) \<le> sint (unix_timestamp tx);
         locked = (if unlocked then fs_locked_balance_due request else 0)
     in ok_or (checked_add free locked) (verr ArithmeticOverflow) (\<lambda>claimable.
        if claimable = 0 then
          (if fs_locked_balance_due request = 0
           then Inr (s\<lparr>force_settles := dm_insert (ff_force_settle_request a) (request\<lparr>fs_is_resolved := True\<rparr>)
                        (force_settles s)\<rparr>)
           else Inr s)
        else
          require (claimable \<le> ta_amount vault_token_account) (verr VaultInsolvent)
         (bind_result (vault_transfer E (ff_vault_config a) vault (ff_vault_token_account a)
                         (ff_recipient_token_account a) claimable (token_accounts s)) (\<lambda>t.
          let request1 = request\<lparr>fs_free_balance_due := 0\<rparr>;
              request2 = (if unlocked then request1\<lparr>fs_locked_balance_due := 0\<rparr> else request1);
              request3 = (if fs_free_balance_due request2 = 0 \<and> fs_locked_balance_due request2 = 0
                          then request2\<lparr>fs_is_resolved := True\<rparr> else request2)
          in Inr (s\<lparr>token_accounts := t, force_settles := dm_insert (ff_force_settle_request a) request3
                     (force_settles s)\<rparr>))))))))))))))"

section \<open>Channel close claims\<close>

record asc_close_claim_accounts =
  ac_caller :: pubkey
  ac_vault_config :: pubkey
  ac_asc_close_claim :: pubkey
  ac_instructions_sysvar :: pubkey

definition claim_seeds :: "pubkey \<Rightarrow> b32 \<Rightarrow> b32 \<Rightarrow> bytes list" where
  "claim_seeds vault channel_id_hash request_id_hash =
     [str_bytes ''asc_close_claim'', word_bytes vault, word_bytes channel_id_hash, word_bytes request_id_hash]"

definition asc_close_claim_handler ::
    "env \<Rightarrow> tx_ctx \<Rightarrow> asc_close_claim_accounts \<Rightarrow> b32 \<Rightarrow> b32 \<Rightarrow> chain \<Rightarrow> chain result" where
  "asc_close_claim_handler E tx a channel_id_hash request_id_hash s =
     require (signer tx (ac_caller a)) AccountNotSigner
    (ok_or (dm_get (vaults s) (ac_vault_config a)) AccountNotInitialized (\<lambda>vault.
     init_pda E (claim_seeds (ac_vault_config a) channel_id_hash request_id_hash) (ac_asc_close_claim a) s (\<lambda>bump.
     require (ac_instructions_sysvar a = sysvar_instructions_id E) ConstraintAddress
    (bind_result (verify_ed25519_signature_details_relative E tx 2 (vc_vault_signer_pubkey vault)) (\<lambda>voucher_verified.
     ok_or (parse_asc_claim_voucher_message (ve_message voucher_verified)) (verr InvalidAscClaimVoucher) (\<lambda>voucher.
     require (v_channel_id_hash voucher = channel_id_hash) (verr InvalidAscClaimVoucher)
    (require (v_request_id_hash voucher = request_id_hash) (verr InvalidAscClaimVoucher)
    (require (v_vault_config voucher = ac_vault_config a) (verr InvalidAscClaimVoucher)
    (bind_result (verify_ed25519_signature_details_relative E tx 1 (v_provider_pubkey voucher)) (\<lambda>payment_verified.
     let payment_message = build_asc_payment_message_from_hashes channel_id_hash request_id_hash
           (v_amount voucher) (v_request_hash voucher);
         signature = word_bytes (ve_signature payment_verified)
     in require (ve_message payment_verified = payment_message) (verr InvalidAscCloseClaim)
       (require (length signature = 64) (verr InvalidAscCloseClaim)
       (Inr (s\<lparr>close_claims := dm_insert (ac_asc_close_claim a)
          \<lparr>cc_bump = bump, cc_vault = ac_vault_config a, cc_channel_id_hash = channel_id_hash,
           cc_request_id_hash = request_id_hash, cc_request_hash = v_request_hash voucher,
           cc_provider_pubkey = v_provider_pubkey voucher, cc_full_sig_r = word_of_bytes (take 32 signature),
           cc_full_sig_s = word_of_bytes (drop 32 signature), cc_amount = v_amount voucher,
           cc_voucher_issued_at = v_issued_at voucher, cc_claimed_at = unix_timestamp tx\<rparr>
          (close_claims s)\<rparr>)))))))))))))"

end
