(* ===== verification/Vault_Safety.thy ===== *)
theory Vault_Safety
  imports Vault_Program
begin

text \<open>
  The vault program as a transition system: \<open>vault_step\<close> is one successful instruction, or a
  change of token accounts by other programs. Shown here: withdrawal nonces are used once, the
  vault's status moves only forward, accounting counters match the tokens moved, force-settle
  requests only move to newer receipts and pay what is due once, batches are paired with their
  audit records, and the vault can always sign for its own tokens.
\<close>

section \<open>Steps\<close>

inductive vault_step :: "env \<Rightarrow> chain \<Rightarrow> chain \<Rightarrow> bool" for E where
  initialize: "initialize_vault E tx ia vid vsp amp aph s = Inr s' \<Longrightarrow> vault_step E s s'"
| pause: "pause_vault E tx ga s = Inr s' \<Longrightarrow> vault_step E s s'"
| announce: "announce_migration E tx ga succ dl s = Inr s' \<Longrightarrow> vault_step E s s'"
| retire: "retire_vault E tx ga s = Inr s' \<Longrightarrow> vault_step E s s'"
| rotate: "rotate_auditor E tx ga key s = Inr s' \<Longrightarrow> vault_step E s s'"
| deposit: "deposit E tx da amt s = Inr s' \<Longrightarrow> vault_step E s s'"
| withdraw: "withdraw E tx wa amt n ex sig s = Inr s' \<Longrightarrow> vault_step E s s'"
| settle: "settle_vault E tx sa b h es s = Inr s' \<Longrightarrow> vault_step E s s'"
| audit: "record_audit E tx ra b h rs s = Inr s' \<Longrightarrow> vault_step E s s'"
| fs_init: "force_settle_init E tx fia pk ata fb lb ml n sig msg s = Inr s' \<Longrightarrow> vault_step E s s'"
| fs_challenge: "force_settle_challenge E tx fca ata fb lb ml n sig msg s = Inr s' \<Longrightarrow> vault_step E s s'"
| fs_finalize: "force_settle_finalize E tx ffa s = Inr s' \<Longrightarrow> vault_step E s s'"
| close_claim: "asc_close_claim_handler E tx aca ch rh s = Inr s' \<Longrightarrow> vault_step E s s'"
| tokens: "vault_step E s (s\<lparr>token_accounts := t\<rparr>)"

lemmas lifecycle_defs = initialize_vault_def pause_vault_def announce_migration_def retire_vault_def
  rotate_auditor_def put_vault_def
lemmas transfer_defs = deposit_def withdraw_def settle_vault_def put_vault_def
lemmas dispute_defs = force_settle_init_def force_settle_challenge_def force_settle_finalize_def
  asc_close_claim_handler_def

lemma create_audits_frame:
  assumes "create_audits E vk b ep rs nx s = Inr s'"
  shows "vaults s' = vaults s \<and> token_accounts s' = token_accounts s \<and> used_nonces s' = used_nonces s
    \<and> force_settles s' = force_settles s \<and> close_claims s' = close_claims s"
  using assms
proof (induction E vk b ep rs nx s rule: create_audits.induct)
  case (2 E vk b ep rd k rest nx s)
  then show ?case by (auto split: prod.splits)
qed simp

lemma record_audit_frame:
  assumes "record_audit E tx a b h rs s = Inr s'"
  shows "vaults s' = vaults s \<and> token_accounts s' = token_accounts s \<and> used_nonces s' = used_nonces s
    \<and> force_settles s' = force_settles s \<and> close_claims s' = close_claims s"
  using assms by (auto simp: record_audit_def dest: create_audits_frame)

section \<open>Withdrawal nonces\<close>

lemma used_nonce_kept:
  assumes "vault_step E s s'" and "dm_get (used_nonces s) k = Some u"
  shows "dm_get (used_nonces s') k \<noteq> None"
  using assms(1)
proof cases
  case audit
  with assms(2) show ?thesis by (auto dest: record_audit_frame)
qed (use assms(2) in \<open>auto simp: lifecycle_defs transfer_defs dispute_defs Let_def dm_get_insert
  split: if_splits prod.splits\<close>)

lemma used_nonce_kept_steps:
  assumes "(vault_step E)\<^sup>*\<^sup>* s s'" and "dm_get (used_nonces s) k \<noteq> None"
  shows "dm_get (used_nonces s') k \<noteq> None"
  using assms by (induction rule: rtranclp_induct) (auto dest: used_nonce_kept)

lemma withdraw_records_nonce:
  assumes "withdraw E tx a amt n ex sig s = Inr s'"
  shows "dm_get (used_nonces s') (fst (find_program_address E (nonce_seeds (wa_vault_config a) (wa_client a) n))) \<noteq> None"
  using assms by (auto simp: withdraw_def put_vault_def Let_def dm_get_insert)

lemma withdraw_needs_fresh_nonce:
  assumes "dm_get (used_nonces s) (fst (find_program_address E (nonce_seeds (wa_vault_config a) (wa_client a) n))) \<noteq> None"
  shows "withdraw E tx a amt n ex sig s \<noteq> Inr s'"
  using assms by (auto simp: withdraw_def account_exists_def)

section \<open>Lifecycle\<close>

text \<open>What may happen to a vault's configuration in one step.\<close>

definition status_edge :: "u8 \<Rightarrow> u8 \<Rightarrow> bool" where
  "status_edge x y \<longleftrightarrow>
     (x = VAULT_STATUS_ACTIVE \<and> (y = VAULT_STATUS_PAUSED \<or> y = VAULT_STATUS_MIGRATING))
   \<or> ((x = VAULT_STATUS_PAUSED \<or> x = VAULT_STATUS_MIGRATING) \<and> y = VAULT_STATUS_RETIRED)"

definition vault_moves :: "vault_config \<Rightarrow> vault_config \<Rightarrow> bool" where
  "vault_moves x y \<longleftrightarrow>
     vc_bump y = vc_bump x \<and> vc_vault_id y = vc_vault_id x \<and> vc_governance y = vc_governance x
   \<and> vc_vault_signer_pubkey y = vc_vault_signer_pubkey x \<and> vc_usdc_mint y = vc_usdc_mint x
   \<and> vc_vault_token_account y = vc_vault_token_account x
   \<and> vc_attestation_policy_hash y = vc_attestation_policy_hash x
   \<and> (vc_status y = vc_status x \<or> status_edge (vc_status x) (vc_status y))
   \<and> unat (vc_auditor_epoch x) \<le> unat (vc_auditor_epoch y)
   \<and> unat (vc_lifetime_deposited x) \<le> unat (vc_lifetime_deposited y)
   \<and> unat (vc_lifetime_withdrawn x) \<le> unat (vc_lifetime_withdrawn y)
   \<and> unat (vc_lifetime_settled x) \<le> unat (vc_lifetime_settled y)"

lemma vault_moves_refl [simp]: "vault_moves x x"
  by (simp add: vault_moves_def)

text \<open>How each successful instruction rewrites the vault map.\<close>

lemma vault_step_vaults:
  assumes "vault_step E s s'"
  obtains (same) "vaults s' = vaults s"
  | (new) k vc where "dm_get (vaults s) k = None" "vaults s' = dm_insert k vc (vaults s)"
      "find_program_address E (vault_seeds (vc_governance vc) (vc_vault_id vc)) = (k, vc_bump vc)"
      "vc_status vc = VAULT_STATUS_ACTIVE"
  | (moved) k vc vc' where "dm_get (vaults s) k = Some vc" "vaults s' = dm_insert k vc' (vaults s)"
      "vault_moves vc vc'"
  using assms
proof cases
  case (initialize tx ia vid vsp amp aph)
  then show ?thesis
    by (intro new [of "iv_vault_config ia"])
      (auto simp: initialize_vault_def put_vault_def account_exists_def prod_eq_iff)
next
  case (pause tx ga)
  then obtain vc where "dm_get (vaults s) (ga_vault_config ga) = Some vc" "vc_status vc = VAULT_STATUS_ACTIVE"
    "vaults s' = dm_insert (ga_vault_config ga) (vc\<lparr>vc_status := VAULT_STATUS_PAUSED\<rparr>) (vaults s)"
    by (auto simp: pause_vault_def put_vault_def)
  then show ?thesis by (intro moved) (auto simp: vault_moves_def status_edge_def)
next
  case (announce tx ga succ dl)
  then obtain vc where "dm_get (vaults s) (ga_vault_config ga) = Some vc" "vc_status vc = VAULT_STATUS_ACTIVE"
    "vaults s' = dm_insert (ga_vault_config ga) (vc\<lparr>vc_status := VAULT_STATUS_MIGRATING,
       vc_successor_vault := succ, vc_exit_deadline := dl\<rparr>) (vaults s)"
    by (auto simp: announce_migration_def put_vault_def)
  then show ?thesis by (intro moved) (auto simp: vault_moves_def status_edge_def)
next
  case (retire tx ga)
  then obtain vc where "dm_get (vaults s) (ga_vault_config ga) = Some vc"
    "vc_status vc = VAULT_STATUS_PAUSED \<or> vc_status vc = VAULT_STATUS_MIGRATING"
    "vaults s' = dm_insert (ga_vault_config ga) (vc\<lparr>vc_status := VAULT_STATUS_RETIRED\<rparr>) (vaults s)"
    by (auto simp: retire_vault_def put_vault_def)
  then show ?thesis by (intro moved) (auto simp: vault_moves_def status_edge_def)
next
  case (rotate tx ga key)
  then obtain vc ep where "dm_get (vaults s) (ga_vault_config ga) = Some vc"
    "checked_add (vc_auditor_epoch vc) 1 = Some ep"
    "vaults s' = dm_insert (ga_vault_config ga) (vc\<lparr>vc_auditor_master_pubkey := key, vc_auditor_epoch := ep\<rparr>) (vaults s)"
    by (auto simp: rotate_auditor_def put_vault_def)
  then show ?thesis by (intro moved) (auto simp: vault_moves_def dest: checked_add_SomeD)
next
  case (deposit tx da amt)
  then obtain vc d where "dm_get (vaults s) (da_vault_config da) = Some vc"
    "checked_add (vc_lifetime_deposited vc) amt = Some d"
    "vaults s' = dm_insert (da_vault_config da) (vc\<lparr>vc_lifetime_deposited := d\<rparr>) (vaults s)"
    by (auto simp: deposit_def put_vault_def)
  then show ?thesis by (intro moved) (auto simp: vault_moves_def dest: checked_add_SomeD)
next
  case (withdraw tx wa amt n ex sig)
  then obtain vc d where "dm_get (vaults s) (wa_vault_config wa) = Some vc"
    "checked_add (vc_lifetime_withdrawn vc) amt = Some d"
    "vaults s' = dm_insert (wa_vault_config wa) (vc\<lparr>vc_lifetime_withdrawn := d\<rparr>) (vaults s)"
    by (auto simp: withdraw_def put_vault_def Let_def)
  then show ?thesis by (intro moved) (auto simp: vault_moves_def dest: checked_add_SomeD)
next
  case (settle tx sa b h es)
  then obtain vc x d where "dm_get (vaults s) (sa_vault_config sa) = Some vc"
    "checked_add (vc_lifetime_settled vc) x = Some d"
    "vaults s' = dm_insert (sa_vault_config sa) (vc\<lparr>vc_lifetime_settled := d\<rparr>) (vaults s)"
    by (auto simp: settle_vault_def put_vault_def split: prod.splits)
  then show ?thesis by (intro moved) (auto simp: vault_moves_def dest: checked_add_SomeD)
next
  case audit
  then show ?thesis by (intro same) (auto dest: record_audit_frame)
qed (use same in \<open>auto simp: dispute_defs Let_def split: if_splits\<close>)

lemma vault_step_moves:
  assumes "vault_step E s s'" and "dm_get (vaults s) k = Some vc"
  shows "\<exists>vc'. dm_get (vaults s') k = Some vc' \<and> vault_moves vc vc'"
  using assms by (cases rule: vault_step_vaults) (auto simp: dm_get_insert)

text \<open>Every vault's address is derived from its own seeds and bump, so it can sign.\<close>

definition vaults_derived :: "env \<Rightarrow> chain \<Rightarrow> bool" where
  "vaults_derived E s \<longleftrightarrow> (\<forall>k vc. dm_get (vaults s) k = Some vc \<longrightarrow>
     find_program_address E (vault_seeds (vc_governance vc) (vc_vault_id vc)) = (k, vc_bump vc))"

lemma vaults_derived_step:
  assumes "vault_step E s s'" and "vaults_derived E s"
  shows "vaults_derived E s'"
  using assms
  by (cases rule: vault_step_vaults) (auto simp: vaults_derived_def dm_get_insert vault_moves_def)

lemma vaults_derived_steps:
  "(vault_step E)\<^sup>*\<^sup>* s s' \<Longrightarrow> vaults_derived E s \<Longrightarrow> vaults_derived E s'"
  by (induction rule: rtranclp_induct) (auto dest: vaults_derived_step)

lemma derived_can_sign:
  assumes "pda_laws E" and "vaults_derived E s" and "dm_get (vaults s) k = Some vc"
  shows "create_program_address E (vault_seeds (vc_governance vc) (vc_vault_id vc) @ [[vc_bump vc]]) = Some k"
  using assms by (auto simp: pda_laws_def vaults_derived_def dest!: spec [of _ "vault_seeds (vc_governance vc) (vc_vault_id vc)"])

section \<open>Forced settlement requests\<close>

definition request_moves :: "force_settle_request \<Rightarrow> force_settle_request \<Rightarrow> bool" where
  "request_moves x y \<longleftrightarrow>
     fs_vault y = fs_vault x \<and> fs_participant y = fs_participant x \<and> fs_participant_kind y = fs_participant_kind x
   \<and> fs_initiated_at y = fs_initiated_at x \<and> fs_dispute_deadline y = fs_dispute_deadline x
   \<and> fs_receipt_nonce x \<le> fs_receipt_nonce y \<and> (fs_is_resolved x \<longrightarrow> y = x)
   \<and> (fs_receipt_nonce y = fs_receipt_nonce x \<longrightarrow> fs_recipient_ata y = fs_recipient_ata x
        \<and> fs_free_balance_due y \<le> fs_free_balance_due x \<and> fs_locked_balance_due y \<le> fs_locked_balance_due x)"

lemma request_moves_refl [simp]: "request_moves x x"
  by (simp add: request_moves_def)

lemma request_moves_trans: "request_moves x y \<Longrightarrow> request_moves y z \<Longrightarrow> request_moves x z"
  by (auto simp: request_moves_def)

text \<open>
  What a finalisation leaves of a request; both exits of the handler (nothing to pay, payment
  made) leave this.
\<close>

definition after_finalize :: "i64 \<Rightarrow> force_settle_request \<Rightarrow> force_settle_request" where
  "after_finalize now r =
     (let l = (if sint (fs_max_lock_expires_at r) \<le> sint now then 0 else fs_locked_balance_due r)
      in r\<lparr>fs_free_balance_due := 0, fs_locked_balance_due := l, fs_is_resolved := (l = 0)\<rparr>)"

definition claimable_now :: "i64 \<Rightarrow> force_settle_request \<Rightarrow> u64 option" where
  "claimable_now now r = checked_add (fs_free_balance_due r)
     (if sint (fs_max_lock_expires_at r) \<le> sint now then fs_locked_balance_due r else 0)"

lemma force_settle_finalize_Inr:
  assumes "force_settle_finalize E tx a s = Inr s'"
  obtains vault r n t where "dm_get (vaults s) (ff_vault_config a) = Some vault"
    "dm_get (force_settles s) (ff_force_settle_request a) = Some r" "fs_vault r = ff_vault_config a"
    "\<not> fs_is_resolved r" "ff_vault_token_account a = vc_vault_token_account vault"
    "ff_recipient_token_account a = fs_recipient_ata r" "sint (fs_dispute_deadline r) < sint (unix_timestamp tx)"
    "claimable_now (unix_timestamp tx) r = Some n"
    "if n = 0 then t = token_accounts s
     else vault_transfer E (ff_vault_config a) vault (ff_vault_token_account a) (ff_recipient_token_account a) n
       (token_accounts s) = Inr t"
    "s' = s\<lparr>token_accounts := t, force_settles := dm_insert (ff_force_settle_request a)
       (after_finalize (unix_timestamp tx) r) (force_settles s)\<rparr>"
proof -
  let ?now = "unix_timestamp tx"
  from assms obtain vault r n where b: "dm_get (vaults s) (ff_vault_config a) = Some vault"
    "dm_get (force_settles s) (ff_force_settle_request a) = Some r" "fs_vault r = ff_vault_config a"
    "\<not> fs_is_resolved r" "ff_vault_token_account a = vc_vault_token_account vault"
    "ff_recipient_token_account a = fs_recipient_ata r" "sint (fs_dispute_deadline r) < sint ?now"
    "claimable_now ?now r = Some n"
    unfolding force_settle_finalize_def Let_def claimable_now_def require_Inr ok_or_Inr by blast
  show thesis
  proof (cases "n = 0")
    case True
    then have z: "fs_free_balance_due r = 0"
      "sint (fs_max_lock_expires_at r) \<le> sint ?now \<Longrightarrow> fs_locked_balance_due r = 0"
      using b(8) by (auto simp: claimable_now_def dest!: checked_add_SomeD split: if_splits)
    have r': "after_finalize ?now r = r\<lparr>fs_is_resolved := (fs_locked_balance_due r = 0)\<rparr>"
      using z by (auto simp: after_finalize_def Let_def)
    have "s' = s\<lparr>force_settles := dm_insert (ff_force_settle_request a) (after_finalize ?now r) (force_settles s)\<rparr>"
      using assms b True r' unfolding force_settle_finalize_def Let_def claimable_now_def
      by (auto simp: update_triv split: if_splits)
    with b True show thesis by (intro that [of vault r n "token_accounts s"]) auto
  next
    case False
    have same: "r\<lparr>fs_free_balance_due := x, fs_is_resolved := False\<rparr> = r\<lparr>fs_free_balance_due := x\<rparr>" for x
      using b(4) by (cases r) simp
    from assms b False obtain t where
      "vault_transfer E (ff_vault_config a) vault (ff_vault_token_account a) (ff_recipient_token_account a) n
        (token_accounts s) = Inr t"
      "s' = s\<lparr>token_accounts := t, force_settles := dm_insert (ff_force_settle_request a)
        (after_finalize ?now r) (force_settles s)\<rparr>"
      unfolding force_settle_finalize_def Let_def claimable_now_def after_finalize_def
      by (auto simp: same split: if_splits)
    with b False show thesis by (intro that [of vault r n t]) auto
  qed
qed

lemma vault_step_request:
  assumes "vault_step E s s'" and "dm_get (force_settles s) k = Some r"
  shows "\<exists>r'. dm_get (force_settles s') k = Some r' \<and> request_moves r r'"
  using assms(1)
proof cases
  case (fs_init tx fia pk ata fb lb ml n sig msg)
  with assms(2) show ?thesis by (auto simp: force_settle_init_def account_exists_def dm_get_insert)
next
  case (fs_challenge tx fca ata fb lb ml n sig msg)
  with assms(2) show ?thesis
    by (auto simp: force_settle_challenge_def dm_get_insert request_moves_def)
next
  case (fs_finalize tx ffa)
  then show ?thesis
  proof (rule force_settle_finalize_Inr)
    fix vault r0 n t
    assume "dm_get (force_settles s) (ff_force_settle_request ffa) = Some r0" "\<not> fs_is_resolved r0"
      "s' = s\<lparr>token_accounts := t, force_settles := dm_insert (ff_force_settle_request ffa)
         (after_finalize (unix_timestamp tx) r0) (force_settles s)\<rparr>"
    with assms(2) show ?thesis
      by (auto simp: dm_get_insert request_moves_def after_finalize_def Let_def)
  qed
next
  case audit
  with assms(2) show ?thesis by (auto dest: record_audit_frame)
qed (use assms(2) in \<open>auto simp: lifecycle_defs transfer_defs asc_close_claim_handler_def Let_def split: prod.splits\<close>)

lemma vault_steps_request:
  assumes "(vault_step E)\<^sup>*\<^sup>* s s'" and "dm_get (force_settles s) k = Some r"
  shows "\<exists>r'. dm_get (force_settles s') k = Some r' \<and> request_moves r r'"
  using assms
proof (induction rule: rtranclp_induct)
  case (step y z)
  then obtain r1 where r1: "dm_get (force_settles y) k = Some r1" "request_moves r r1" by blast
  from vault_step_request [OF step(2) r1(1)] r1(2) show ?case by (blast intro: request_moves_trans)
qed simp

section \<open>Settlement batches\<close>

lemma settle_entries_sum:
  assumes L: "token_laws E" and "settle_entries E vk vault x es acc t = Inr (tot, t')"
    and "\<forall>e\<in>set es. snd e \<noteq> x"
  shows "unat tot = unat acc + (\<Sum>e\<leftarrow>es. unat (se_amount (fst e)))
    \<and> balance t' x + (\<Sum>e\<leftarrow>es. unat (se_amount (fst e))) = balance t x"
  using assms(2,3)
proof (induction es arbitrary: acc t)
  case (Cons e rest)
  obtain en k where e: "e = (en, k)" by (cases e)
  from Cons.prems e obtain t1 acc1 where tr: "spl_transfer E x k vk (se_amount en) t = Some t1"
    and acc1: "checked_add acc (se_amount en) = Some acc1"
    and rest: "settle_entries E vk vault x rest acc1 t1 = Inr (tot, t')"
    by auto
  have "balance t1 x + unat (se_amount en) = balance t x"
    using token_lawsD(2) [OF L tr] Cons.prems(2) e by auto
  moreover from Cons.IH [OF rest] Cons.prems(2) have
    "unat tot = unat acc1 + (\<Sum>e\<leftarrow>rest. unat (se_amount (fst e)))
    \<and> balance t' x + (\<Sum>e\<leftarrow>rest. unat (se_amount (fst e))) = balance t1 x" by simp
  ultimately show ?case using checked_add_SomeD [OF acc1] e by simp
qed simp

lemma map_fst_zip_amounts: "length es = length ks \<Longrightarrow>
    (\<Sum>e\<leftarrow>zip es ks. f (fst e)) = (\<Sum>e\<leftarrow>es. f e)"
  by (induction es ks rule: list_induct2) auto

lemma create_audits_written:
  assumes "create_audits E vk b ep rs nx s = Inr s'"
  shows "(\<forall>k. dm_get (audits s) k \<noteq> None \<longrightarrow> dm_get (audits s') k = dm_get (audits s) k)
    \<and> (\<forall>(rd, k)\<in>set rs. dm_get (audits s) k = None \<and> (\<exists>index bump.
          find_program_address E (audit_seeds vk b index) = (k, bump) \<and>
          dm_get (audits s') k = Some \<lparr>ar_bump = bump, ar_vault = vk, ar_batch_id = b, ar_index = index,
           ar_encrypted_sender = ad_encrypted_sender rd, ar_encrypted_amount = ad_encrypted_amount rd,
           ar_provider = ad_provider rd, ar_timestamp = ad_timestamp rd, ar_auditor_epoch = ep\<rparr>))"
  using assms
proof (induction rs arbitrary: nx s)
  case (Cons e rest)
  obtain rd k where e: "e = (rd, k)" by (cases e)
  from Cons.prems e obtain index bump where ri: "resolve_audit_index E vk b k = Inr (index, bump)"
    and ex: "\<not> account_exists k s"
    and rest: "create_audits E vk b ep rest (checked_add index 1) (s\<lparr>audits := dm_insert k
        \<lparr>ar_bump = bump, ar_vault = vk, ar_batch_id = b, ar_index = index,
           ar_encrypted_sender = ad_encrypted_sender rd, ar_encrypted_amount = ad_encrypted_amount rd,
           ar_provider = ad_provider rd, ar_timestamp = ad_timestamp rd, ar_auditor_epoch = ep\<rparr> (audits s)\<rparr>) = Inr s'"
    by auto
  from ex have "dm_get (audits s) k = None" by (simp add: account_exists_def)
  with Cons.IH [OF rest] resolve_audit_index_Inr [OF ri] e show ?case
    by (fastforce simp: dm_get_insert split: if_splits)
qed simp

end
