(* ===== verification/Vault_Properties.thy ===== *)
theory Vault_Properties
  imports Vault_Safety
begin

text \<open>The theorems of the vault program, with a sample vault for the witnesses.\<close>

section \<open>A sample vault\<close>

definition demo_vc :: vault_config where
  "demo_vc = \<lparr>vc_bump = 255, vc_vault_id = 0, vc_governance = 1, vc_status = VAULT_STATUS_ACTIVE,
     vc_vault_signer_pubkey = 2, vc_usdc_mint = 3, vc_vault_token_account = 43032,
     vc_auditor_master_pubkey = 0, vc_auditor_epoch = 0, vc_attestation_policy_hash = 0,
     vc_successor_vault = 0, vc_exit_deadline = 0, vc_lifetime_deposited = 1000,
     vc_lifetime_withdrawn = 0, vc_lifetime_settled = 0\<rparr>"

definition demo_chain :: chain where
  "demo_chain = \<lparr>vaults = [(52000, demo_vc)],
     token_accounts = [(43032, \<lparr>ta_mint = 3, ta_owner = 52000, ta_amount = 1000\<rparr>),
                       (20, \<lparr>ta_mint = 3, ta_owner = 10, ta_amount = 500\<rparr>)],
     used_nonces = [], force_settles = [], close_claims = [], audits = []\<rparr>"

definition demo_tx :: "i64 \<Rightarrow> b64 \<Rightarrow> b32 \<Rightarrow> bytes \<Rightarrow> tx_ctx" where
  "demo_tx now sig pk msg = \<lparr>unix_timestamp = now, current_index = 1,
     tx_instructions = [ed25519_instruction demo_env sig pk msg], tx_signers = [10, 1, 2]\<rparr>"

lemma demo_tx_verify:
  "length msg < 65536 \<Longrightarrow> verify_ed25519_signature_details demo_env (demo_tx now sig pk msg) pk
     = Inr \<lparr>ve_signature = sig, ve_message = msg\<rparr>"
  unfolding verify_ed25519_signature_details_def demo_tx_def
  by (rule ed25519_instruction_accepted) (simp_all add: load_instruction_at_def)

lemma demo_vault_address: "demo_pda (vault_seeds 1 0) = 52000"
  by (simp add: demo_pda_def vault_seeds_def str_bytes_def word_bytes_def)

lemma demo_derived: "vaults_derived demo_env demo_chain"
  by (simp add: vaults_derived_def demo_chain_def demo_vc_def demo_env_def demo_vault_address)

definition demo_withdraw_accounts :: withdraw_accounts where
  "demo_withdraw_accounts = \<lparr>wa_client = 10, wa_vault_config = 52000, wa_vault_token_account = 43032,
     wa_client_token_account = 20, wa_used_withdraw_nonce = 86007, wa_instructions_sysvar = 102\<rparr>"

definition demo_withdraw_message :: bytes where
  "demo_withdraw_message = word_bytes (10 :: pubkey) @ word_bytes (20 :: pubkey) @ word_bytes (100 :: u64)
     @ word_bytes (7 :: u64) @ word_bytes (5000 :: i64) @ word_bytes (52000 :: pubkey)"

lemma demo_nonce_address: "demo_pda (nonce_seeds 52000 10 7) = 86007"
  by (simp add: demo_pda_def nonce_seeds_def str_bytes_def word_bytes_def)

lemma demo_withdraw_ok:
  "\<exists>s'. withdraw demo_env (demo_tx 4000 9 2 demo_withdraw_message) demo_withdraw_accounts 100 7 5000 9 demo_chain = Inr s'"
proof -
  have v: "verify_ed25519_signature demo_env (demo_tx 4000 9 2 demo_withdraw_message) 2 = Inr demo_withdraw_message"
    by (simp add: verify_ed25519_signature_def demo_tx_verify demo_withdraw_message_def)
  show ?thesis
    by (simp add: withdraw_def demo_withdraw_accounts_def demo_chain_def demo_vc_def v init_pda_def
        account_exists_def status_defs)
      (simp add: demo_env_def demo_nonce_address demo_tx_def signer_def demo_withdraw_message_def vault_transfer_def
        demo_vault_address reference_transfer_def checked_sub_def)
qed

lemma demo_withdraw_run:
  obtains s' where
    "withdraw demo_env (demo_tx 4000 9 2 demo_withdraw_message) demo_withdraw_accounts 100 7 5000 9 demo_chain = Inr s'"
  using demo_withdraw_ok by blast

section \<open>Withdrawals\<close>

text \<open>
  C18: A withdrawal nonce works once: after a successful withdrawal no withdrawal of the same
  vault, client and nonce succeeds again, whatever instructions run in between and whatever
  amount, expiry and signature are presented.
\<close>

theorem withdraw_nonce_used_once:
  assumes "withdraw E tx a amt n ex sig s = Inr s1" and "(vault_step E)\<^sup>*\<^sup>* s1 s2"
    and "wa_vault_config a' = wa_vault_config a" and "wa_client a' = wa_client a"
  shows "withdraw E tx' a' amt' n ex' sig' s2 \<noteq> Inr s3"
  using used_nonce_kept_steps [OF assms(2) withdraw_records_nonce [OF assms(1)]] assms(3,4)
  by (intro withdraw_needs_fresh_nonce) simp

theorem withdraw_nonce_used_once_witness:
  "\<exists>s1. withdraw demo_env (demo_tx 4000 9 2 demo_withdraw_message) demo_withdraw_accounts 100 7 5000 9 demo_chain = Inr s1
     \<and> withdraw demo_env (demo_tx 4001 9 2 demo_withdraw_message) demo_withdraw_accounts 100 7 5000 9 s1 \<noteq> Inr s1"
proof -
  obtain s1 where r: "withdraw demo_env (demo_tx 4000 9 2 demo_withdraw_message) demo_withdraw_accounts 100 7 5000 9
      demo_chain = Inr s1"
    by (rule demo_withdraw_run)
  from withdraw_nonce_used_once [OF r rtranclp.rtrancl_refl refl refl] r show ?thesis by blast
qed

text \<open>
  C17: A withdrawal pays exactly what the enclave signed: the message the precompile checked
  under the vault's signer key names this client, token account, amount, nonce, expiry and
  vault; the authorisation has not expired; the vault's tokens drop by the amount and the
  client's account, which belongs to the client, rises by it.
\<close>

theorem withdraw_pays_what_was_signed:
  assumes L: "token_laws E" and ok: "withdraw E tx a amt n ex sig s = Inr s'"
    and ne: "wa_client_token_account a \<noteq> wa_vault_token_account a"
  shows "\<exists>vault acc. dm_get (vaults s) (wa_vault_config a) = Some vault
    \<and> verify_ed25519_signature E tx (vc_vault_signer_pubkey vault)
        = Inr (word_bytes (wa_client a) @ word_bytes (wa_client_token_account a) @ word_bytes amt
            @ word_bytes n @ word_bytes ex @ word_bytes (wa_vault_config a))
    \<and> sint (unix_timestamp tx) \<le> sint ex
    \<and> dm_get (token_accounts s) (wa_client_token_account a) = Some acc \<and> ta_owner acc = wa_client a
    \<and> wa_vault_token_account a = vc_vault_token_account vault
    \<and> balance (token_accounts s') (wa_vault_token_account a) + unat amt
        = balance (token_accounts s) (wa_vault_token_account a)
    \<and> balance (token_accounts s') (wa_client_token_account a)
        = balance (token_accounts s) (wa_client_token_account a) + unat amt"
proof -
  from ok obtain vault acc t where g: "dm_get (vaults s) (wa_vault_config a) = Some vault"
    "verify_ed25519_signature E tx (vc_vault_signer_pubkey vault)
        = Inr (word_bytes (wa_client a) @ word_bytes (wa_client_token_account a) @ word_bytes amt
            @ word_bytes n @ word_bytes ex @ word_bytes (wa_vault_config a))"
    "sint (unix_timestamp tx) \<le> sint ex"
    "dm_get (token_accounts s) (wa_client_token_account a) = Some acc" "ta_owner acc = wa_client a"
    "wa_vault_token_account a = vc_vault_token_account vault"
    and t: "spl_transfer E (wa_vault_token_account a) (wa_client_token_account a) (wa_vault_config a) amt
      (token_accounts s) = Some t" "token_accounts s' = t"
    by (auto simp: withdraw_def put_vault_def Let_def)
  with token_lawsD(2,3) [OF L t(1)] ne show ?thesis by auto
qed

theorem withdraw_pays_what_was_signed_witness:
  "\<exists>s'. withdraw demo_env (demo_tx 4000 9 2 demo_withdraw_message) demo_withdraw_accounts 100 7 5000 9 demo_chain = Inr s'
     \<and> balance (token_accounts s') 43032 + 100 = 1000"
proof -
  obtain s1 where r: "withdraw demo_env (demo_tx 4000 9 2 demo_withdraw_message) demo_withdraw_accounts 100 7 5000 9
      demo_chain = Inr s1"
    by (rule demo_withdraw_run)
  from withdraw_pays_what_was_signed [OF demo_token_laws r] r show ?thesis
    by (auto simp: demo_withdraw_accounts_def balance_def demo_chain_def)
qed

section \<open>Lifecycle\<close>

lemma status_edges_from_retired: "status_edge\<^sup>*\<^sup>* x y \<Longrightarrow> x = VAULT_STATUS_RETIRED \<Longrightarrow> y = x"
  by (induction rule: converse_rtranclp_induct) (auto simp: status_edge_def status_defs)

lemma vault_steps_moves:
  assumes "(vault_step E)\<^sup>*\<^sup>* s s'" and "dm_get (vaults s) k = Some vc"
  shows "\<exists>vc'. dm_get (vaults s') k = Some vc' \<and> status_edge\<^sup>*\<^sup>* (vc_status vc) (vc_status vc')
    \<and> vault_moves vc (vc'\<lparr>vc_status := vc_status vc\<rparr>)"
  using assms
proof (induction rule: rtranclp_induct)
  case (step y z)
  then obtain vc1 where 1: "dm_get (vaults y) k = Some vc1" "status_edge\<^sup>*\<^sup>* (vc_status vc) (vc_status vc1)"
    "vault_moves vc (vc1\<lparr>vc_status := vc_status vc\<rparr>)" by blast
  from vault_step_moves [OF step(2) 1(1)] obtain vc2 where 2: "dm_get (vaults z) k = Some vc2" "vault_moves vc1 vc2"
    by blast
  from 2(2) have "vc_status vc2 = vc_status vc1 \<or> status_edge (vc_status vc1) (vc_status vc2)"
    by (simp add: vault_moves_def)
  with 1(2) have "status_edge\<^sup>*\<^sup>* (vc_status vc) (vc_status vc2)" by auto
  with 1(3) 2 show ?case by (auto simp: vault_moves_def)
qed auto

text \<open>
  The lifecycle only moves forward: whatever instructions run, a vault keeps its
  governance, signer, mint, token account, id and bump, its counters never decrease, its status
  only follows Active to Paused or Migrating to Retired, and Retired is final.
\<close>

theorem vault_lifecycle_forward:
  assumes "(vault_step E)\<^sup>*\<^sup>* s s'" and "dm_get (vaults s) k = Some vc"
  shows "\<exists>vc'. dm_get (vaults s') k = Some vc'
    \<and> vc_governance vc' = vc_governance vc \<and> vc_vault_signer_pubkey vc' = vc_vault_signer_pubkey vc
    \<and> vc_usdc_mint vc' = vc_usdc_mint vc \<and> vc_vault_token_account vc' = vc_vault_token_account vc
    \<and> vc_vault_id vc' = vc_vault_id vc \<and> vc_bump vc' = vc_bump vc
    \<and> unat (vc_lifetime_deposited vc) \<le> unat (vc_lifetime_deposited vc')
    \<and> unat (vc_lifetime_withdrawn vc) \<le> unat (vc_lifetime_withdrawn vc')
    \<and> unat (vc_lifetime_settled vc) \<le> unat (vc_lifetime_settled vc')
    \<and> status_edge\<^sup>*\<^sup>* (vc_status vc) (vc_status vc')
    \<and> (vc_status vc = VAULT_STATUS_RETIRED \<longrightarrow> vc_status vc' = VAULT_STATUS_RETIRED)"
  using vault_steps_moves [OF assms] status_edges_from_retired by (fastforce simp: vault_moves_def)

theorem vault_lifecycle_forward_witness:
  "\<exists>s' vc'. pause_vault demo_env (demo_tx 0 0 0 []) \<lparr>ga_governance = 1, ga_vault_config = 52000\<rparr> demo_chain = Inr s'
    \<and> dm_get (vaults s') 52000 = Some vc' \<and> vc_governance vc' = 1
    \<and> status_edge\<^sup>*\<^sup>* VAULT_STATUS_ACTIVE (vc_status vc')"
proof -
  let ?r = "pause_vault demo_env (demo_tx 0 0 0 []) \<lparr>ga_governance = 1, ga_vault_config = 52000\<rparr> demo_chain"
  obtain s' where r: "?r = Inr s'"
    by (simp add: pause_vault_def demo_chain_def demo_vc_def signer_def demo_tx_def)
  have "dm_get (vaults demo_chain) 52000 = Some demo_vc" by (simp add: demo_chain_def)
  from vault_lifecycle_forward [OF r_into_rtranclp [of "vault_step demo_env", OF vault_step.pause [OF r]] this] r
  show ?thesis
    by (auto simp: demo_vc_def)
qed

section \<open>Settlement\<close>

definition demo_entries :: "settlement_entry list" where
  "demo_entries = [\<lparr>se_provider_token_account = 20, se_amount = 50\<rparr>]"

definition demo_records :: "audit_record_data list" where
  "demo_records = [\<lparr>ad_encrypted_sender = 1, ad_encrypted_amount = 2, ad_provider = 3, ad_timestamp = 4\<rparr>]"

definition demo_chunk :: b32 where
  "demo_chunk = compute_batch_chunk_hash (env_sha256 demo_env) 6 demo_entries demo_records"

definition demo_batch_tx :: "u16 \<Rightarrow> tx_ctx" where
  "demo_batch_tx i = \<lparr>unix_timestamp = 0, current_index = i,
     tx_instructions = [settle_vault_instruction demo_env [2, 52000] 6 demo_chunk demo_entries,
       record_audit_instruction demo_env [2, 52000] 6 demo_chunk demo_records],
     tx_signers = [2]\<rparr>"

lemma scan_first: "[0..<32] = 0 # 1 # [2..<32]"
  by (simp add: upt_rec)

lemma demo_settle_pairing:
  "verify_record_audit_pairing demo_env (demo_batch_tx 0) 6 demo_chunk 52000 demo_entries = Inr ()"
  by (simp add: verify_record_audit_pairing_def scan_first demo_batch_tx_def load_instruction_at_def
      parse_record_audit demo_records_def)
    (simp add: record_audit_instruction_def demo_chunk_def demo_records_def)

lemma demo_audit_pairing:
  "verify_settle_vault_pairing demo_env (demo_batch_tx 1) 6 demo_chunk 52000 demo_records = Inr ()"
  by (simp add: verify_settle_vault_pairing_def scan_first demo_batch_tx_def load_instruction_at_def
      parse_settle_vault demo_entries_def)
    (simp add: settle_vault_instruction_def demo_chunk_def demo_entries_def)

definition demo_settle_accounts :: settle_vault_accounts where
  "demo_settle_accounts = \<lparr>sa_vault_signer = 2, sa_vault_config = 52000, sa_vault_token_account = 43032,
     sa_instructions_sysvar = 102, sa_remaining = [20]\<rparr>"

definition demo_audit_accounts :: record_audit_accounts where
  "demo_audit_accounts = \<lparr>ra_vault_signer = 2, ra_vault_config = 52000, ra_instructions_sysvar = 102,
     ra_remaining = [46000]\<rparr>"

lemma demo_settle_run:
  obtains s' where "settle_vault demo_env (demo_batch_tx 0) demo_settle_accounts 6 demo_chunk demo_entries demo_chain = Inr s'"
proof -
  have "\<exists>s'. settle_vault demo_env (demo_batch_tx 0) demo_settle_accounts 6 demo_chunk demo_entries demo_chain = Inr s'"
    using demo_settle_pairing
    by (simp add: settle_vault_def demo_settle_accounts_def demo_chain_def demo_vc_def status_defs
        MAX_SETTLEMENTS_PER_TX_def signer_def)
      (simp add: demo_batch_tx_def demo_env_def demo_entries_def vault_transfer_def demo_vault_address
        reference_transfer_def checked_sub_def)
  with that show thesis by blast
qed


lemma demo_audit_address: "demo_pda (audit_seeds 52000 6 i) = of_nat (46000 + unat i)"
  by (simp add: demo_pda_def audit_seeds_def str_bytes_def)

lemma demo_audit_run:
  obtains s' where "record_audit demo_env (demo_batch_tx 1) demo_audit_accounts 6 demo_chunk demo_records demo_chain = Inr s'"
proof -
  have up: "[0..<256] = 0 # [1..<256]" by (simp add: upt_rec)
  have ri: "resolve_audit_index demo_env 52000 6 46000 = Inr (0, 255)"
    by (simp add: resolve_audit_index_def up demo_env_def demo_audit_address)
  have "\<exists>s'. record_audit demo_env (demo_batch_tx 1) demo_audit_accounts 6 demo_chunk demo_records demo_chain = Inr s'"
    using demo_audit_pairing ri
    by (simp add: record_audit_def demo_audit_accounts_def demo_chain_def demo_vc_def status_defs
        MAX_ATOMIC_AUDITS_PER_TX_def signer_def)
      (simp add: demo_batch_tx_def demo_env_def demo_records_def demo_audit_address account_exists_def)
  with that show thesis by blast
qed

text \<open>
  A settlement batch moves exactly its total: with no entry that pays the vault itself, the
  sum of the amounts of its 1 to 20 entries leaves the vault's token account and is what the
  lifetime counter gains.
\<close>

theorem settle_vault_moves_total:
  assumes L: "token_laws E" and ok: "settle_vault E tx a b h es s = Inr s'"
    and ne: "\<forall>e\<in>set es. se_provider_token_account e \<noteq> sa_vault_token_account a"
  shows "\<exists>vault vault'. dm_get (vaults s) (sa_vault_config a) = Some vault
    \<and> dm_get (vaults s') (sa_vault_config a) = Some vault'
    \<and> es \<noteq> [] \<and> length es \<le> 20
    \<and> balance (token_accounts s') (vc_vault_token_account vault) + (\<Sum>e\<leftarrow>es. unat (se_amount e))
        = balance (token_accounts s) (vc_vault_token_account vault)
    \<and> unat (vc_lifetime_settled vault') = unat (vc_lifetime_settled vault) + (\<Sum>e\<leftarrow>es. unat (se_amount e))"
proof -
  from ok obtain vault tot t l where g: "dm_get (vaults s) (sa_vault_config a) = Some vault"
    "sa_vault_token_account a = vc_vault_token_account vault" "es \<noteq> []" "length es \<le> 20"
    "length (sa_remaining a) = length es"
    and se: "settle_entries E (sa_vault_config a) vault (sa_vault_token_account a) (zip es (sa_remaining a)) 0
      (token_accounts s) = Inr (tot, t)"
    and l: "checked_add (vc_lifetime_settled vault) tot = Some l"
    and s': "s' = put_vault (sa_vault_config a) (vault\<lparr>vc_lifetime_settled := l\<rparr>) (s\<lparr>token_accounts := t\<rparr>)"
    by (auto simp: settle_vault_def MAX_SETTLEMENTS_PER_TX_def split: prod.splits)
  have keys: "settle_entries E vk v x zs acc t0 = Inr r \<Longrightarrow> \<forall>z\<in>set zs. snd z = se_provider_token_account (fst z)"
    for vk v x zs acc t0 r
    by (induction zs arbitrary: acc t0) fastforce+
  have "\<forall>z\<in>set (zip es (sa_remaining a)). snd z \<noteq> sa_vault_token_account a"
    using keys [OF se] ne by (auto dest: set_zip_leftD)
  from settle_entries_sum [OF L se this] map_fst_zip_amounts [of es "sa_remaining a" "\<lambda>e. unat (se_amount e)"] g(5)
  have "unat tot = (\<Sum>e\<leftarrow>es. unat (se_amount e))"
    "balance t (sa_vault_token_account a) + (\<Sum>e\<leftarrow>es. unat (se_amount e)) = balance (token_accounts s) (sa_vault_token_account a)"
    by auto
  with g l s' show ?thesis by (auto simp: put_vault_def dm_get_insert dest: checked_add_SomeD)
qed

theorem settle_vault_moves_total_witness:
  "\<exists>s'. settle_vault demo_env (demo_batch_tx 0) demo_settle_accounts 6 demo_chunk demo_entries demo_chain = Inr s'
     \<and> balance (token_accounts s') 43032 + 50 = 1000"
proof -
  obtain s' where r: "settle_vault demo_env (demo_batch_tx 0) demo_settle_accounts 6 demo_chunk demo_entries demo_chain = Inr s'"
    by (rule demo_settle_run)
  have "\<forall>e\<in>set demo_entries. se_provider_token_account e \<noteq> sa_vault_token_account demo_settle_accounts"
    by (simp add: demo_entries_def demo_settle_accounts_def)
  from settle_vault_moves_total [OF demo_token_laws r this] r show ?thesis
    by (auto simp: demo_settle_accounts_def demo_chain_def demo_vc_def balance_def demo_entries_def)
qed

text \<open>
  C29: A batch never settles without its audit trail: a successful \<open>settle_vault\<close> found, at
  another index of the same transaction, a \<open>record_audit\<close> instruction of this program for the
  same vault, batch and chunk hash whose records hash together with the settlements to that
  chunk hash.
\<close>

theorem settle_vault_needs_audit:
  assumes "settle_vault E tx a b h es s = Inr s'"
  shows "\<exists>i ix parsed. i < 32 \<and> i \<noteq> unat (current_index tx) \<and> load_instruction_at tx i = Some ix
    \<and> parse_record_audit_instruction E ix (instruction_discriminator (env_sha256 E) ''record_audit'') = Some parsed
    \<and> pa_batch_id parsed = b \<and> pa_batch_chunk_hash parsed = h \<and> ix_accounts ix ! 1 = sa_vault_config a
    \<and> compute_batch_chunk_hash (env_sha256 E) b es (pa_records parsed) = h"
proof -
  from assms have "verify_record_audit_pairing E tx b h (sa_vault_config a) es = Inr ()"
    by (auto simp: settle_vault_def)
  from scan_instructions_Inr [OF this [unfolded verify_record_audit_pairing_def Let_def]]
  show ?thesis by (fastforce split: option.splits if_splits)
qed

theorem settle_vault_needs_audit_witness:
  "\<exists>i ix parsed. i \<noteq> 0 \<and> load_instruction_at (demo_batch_tx 0) i = Some ix
    \<and> parse_record_audit_instruction demo_env ix (instruction_discriminator (env_sha256 demo_env) ''record_audit'') = Some parsed
    \<and> compute_batch_chunk_hash (env_sha256 demo_env) 6 demo_entries (pa_records parsed) = demo_chunk"
proof -
  obtain s' where "settle_vault demo_env (demo_batch_tx 0) demo_settle_accounts 6 demo_chunk demo_entries demo_chain = Inr s'"
    by (rule demo_settle_run)
  from settle_vault_needs_audit [OF this] show ?thesis by (auto simp: demo_batch_tx_def)
qed

text \<open>
  \<open>record_audit\<close> writes every record of its batch to a fresh account at the derived address
  of its index, with the vault, batch id and auditor epoch, and overwrites no earlier record.
\<close>

theorem record_audit_writes_all:
  assumes "record_audit E tx a b h rs s = Inr s'"
  shows "\<exists>vault. dm_get (vaults s) (ra_vault_config a) = Some vault
    \<and> (\<forall>k. dm_get (audits s) k \<noteq> None \<longrightarrow> dm_get (audits s') k = dm_get (audits s) k)
    \<and> (\<forall>(rd, k)\<in>set (zip rs (ra_remaining a)). dm_get (audits s) k = None \<and> (\<exists>index bump.
          find_program_address E (audit_seeds (ra_vault_config a) b index) = (k, bump) \<and>
          dm_get (audits s') k = Some \<lparr>ar_bump = bump, ar_vault = ra_vault_config a, ar_batch_id = b, ar_index = index,
           ar_encrypted_sender = ad_encrypted_sender rd, ar_encrypted_amount = ad_encrypted_amount rd,
           ar_provider = ad_provider rd, ar_timestamp = ad_timestamp rd,
           ar_auditor_epoch = vc_auditor_epoch vault\<rparr>))
    \<and> length (ra_remaining a) = length rs \<and> rs \<noteq> []"
proof -
  from assms obtain vault where v: "dm_get (vaults s) (ra_vault_config a) = Some vault"
    and ca: "create_audits E (ra_vault_config a) b (vc_auditor_epoch vault) (zip rs (ra_remaining a)) None s = Inr s'"
    and len: "length (ra_remaining a) = length rs" "rs \<noteq> []"
    by (auto simp: record_audit_def)
  from create_audits_written [OF ca] v len show ?thesis by blast
qed

theorem record_audit_writes_all_witness:
  "\<exists>s' r. record_audit demo_env (demo_batch_tx 1) demo_audit_accounts 6 demo_chunk demo_records demo_chain = Inr s'
    \<and> dm_get (audits s') 46000 = Some r \<and> ar_batch_id r = 6 \<and> ar_timestamp r = 4"
proof -
  obtain s' where r: "record_audit demo_env (demo_batch_tx 1) demo_audit_accounts 6 demo_chunk demo_records demo_chain = Inr s'"
    by (rule demo_audit_run)
  from record_audit_writes_all [OF r] r show ?thesis
    by (auto simp: demo_audit_accounts_def demo_records_def)
qed

section \<open>Forced settlement\<close>

text \<open>
  A force-settle request never goes back: whatever instructions run after it was opened,
  it stays on chain for the same vault and participant with the same dispute deadline, its
  receipt nonce never decreases, under an unchanged nonce the amounts due only shrink and the
  recipient stays, and a resolved request never changes again.
\<close>

theorem force_settle_request_monotone:
  assumes "(vault_step E)\<^sup>*\<^sup>* s s'" and "dm_get (force_settles s) k = Some r"
  shows "\<exists>r'. dm_get (force_settles s') k = Some r'
    \<and> fs_vault r' = fs_vault r \<and> fs_participant r' = fs_participant r
    \<and> fs_dispute_deadline r' = fs_dispute_deadline r \<and> fs_receipt_nonce r \<le> fs_receipt_nonce r'
    \<and> (fs_receipt_nonce r' = fs_receipt_nonce r \<longrightarrow> fs_recipient_ata r' = fs_recipient_ata r
         \<and> fs_free_balance_due r' \<le> fs_free_balance_due r \<and> fs_locked_balance_due r' \<le> fs_locked_balance_due r)
    \<and> (fs_is_resolved r \<longrightarrow> r' = r)"
  using vault_steps_request [OF assms] by (auto simp: request_moves_def)

definition demo_fs_request :: force_settle_request where
  "demo_fs_request = \<lparr>fs_bump = 255, fs_vault = 52000, fs_participant = 10, fs_participant_kind = 0,
     fs_recipient_ata = 20, fs_free_balance_due = 30, fs_locked_balance_due = 12, fs_max_lock_expires_at = 95000,
     fs_receipt_nonce = 4, fs_receipt_signature = 0, fs_initiated_at = 1000, fs_dispute_deadline = 87400,
     fs_is_resolved = False\<rparr>"

definition demo_fs_chain :: chain where
  "demo_fs_chain = demo_chain\<lparr>force_settles := [(77010, demo_fs_request)]\<rparr>"

definition demo_finalize_accounts :: force_settle_finalize_accounts where
  "demo_finalize_accounts = \<lparr>ff_caller = 10, ff_vault_config = 52000, ff_force_settle_request = 77010,
     ff_vault_token_account = 43032, ff_recipient_token_account = 20\<rparr>"

lemma demo_finalize_run:
  obtains s' where "force_settle_finalize demo_env (demo_tx 90000 0 0 []) demo_finalize_accounts demo_fs_chain = Inr s'"
proof -
  have "\<exists>s'. force_settle_finalize demo_env (demo_tx 90000 0 0 []) demo_finalize_accounts demo_fs_chain = Inr s'"
    by (simp add: force_settle_finalize_def demo_finalize_accounts_def demo_fs_chain_def demo_chain_def
        demo_fs_request_def demo_vc_def signer_def demo_tx_def Let_def)
      (simp add: demo_env_def vault_transfer_def demo_vault_address reference_transfer_def checked_sub_def)
  with that show thesis by blast
qed

theorem force_settle_request_monotone_witness:
  "\<exists>s' r'. force_settle_finalize demo_env (demo_tx 90000 0 0 []) demo_finalize_accounts demo_fs_chain = Inr s'
    \<and> dm_get (force_settles s') 77010 = Some r' \<and> 4 \<le> fs_receipt_nonce r' \<and> fs_dispute_deadline r' = 87400"
proof -
  obtain s' where r: "force_settle_finalize demo_env (demo_tx 90000 0 0 []) demo_finalize_accounts demo_fs_chain = Inr s'"
    by (rule demo_finalize_run)
  have "dm_get (force_settles demo_fs_chain) 77010 = Some demo_fs_request" by (simp add: demo_fs_chain_def)
  from force_settle_request_monotone [OF r_into_rtranclp [of "vault_step demo_env", OF vault_step.fs_finalize [OF r]] this]
  show ?thesis using r by (auto simp: demo_fs_request_def)
qed

text \<open>
  C26: Finalisation pays what is due, once: it runs only after the dispute deadline on an
  unresolved request, pays the recipient exactly the free balance plus the locked balance when
  its locks have expired, and what it paid plus what it leaves due is what was due before; the
  request is resolved exactly when nothing is left.
\<close>

theorem force_settle_finalize_pays_due:
  assumes L: "token_laws E" and ok: "force_settle_finalize E tx a s = Inr s'"
    and ne: "ff_recipient_token_account a \<noteq> ff_vault_token_account a"
  shows "\<exists>r r' n. dm_get (force_settles s) (ff_force_settle_request a) = Some r
    \<and> dm_get (force_settles s') (ff_force_settle_request a) = Some r'
    \<and> \<not> fs_is_resolved r \<and> sint (fs_dispute_deadline r) < sint (unix_timestamp tx)
    \<and> ff_recipient_token_account a = fs_recipient_ata r
    \<and> n = unat (fs_free_balance_due r)
        + (if sint (fs_max_lock_expires_at r) \<le> sint (unix_timestamp tx) then unat (fs_locked_balance_due r) else 0)
    \<and> balance (token_accounts s') (ff_recipient_token_account a)
        = balance (token_accounts s) (ff_recipient_token_account a) + n
    \<and> balance (token_accounts s') (ff_vault_token_account a) + n
        = balance (token_accounts s) (ff_vault_token_account a)
    \<and> n + unat (fs_free_balance_due r') + unat (fs_locked_balance_due r')
        = unat (fs_free_balance_due r) + unat (fs_locked_balance_due r)
    \<and> fs_is_resolved r' = (fs_free_balance_due r' = 0 \<and> fs_locked_balance_due r' = 0)"
  using ok
proof (rule force_settle_finalize_Inr)
  fix vault r n t
  let ?now = "unix_timestamp tx"
  assume r: "dm_get (force_settles s) (ff_force_settle_request a) = Some r" "\<not> fs_is_resolved r"
    "ff_recipient_token_account a = fs_recipient_ata r" "sint (fs_dispute_deadline r) < sint ?now"
    and n: "claimable_now ?now r = Some n"
    and t: "if n = 0 then t = token_accounts s
     else vault_transfer E (ff_vault_config a) vault (ff_vault_token_account a) (ff_recipient_token_account a) n
       (token_accounts s) = Inr t"
    and s': "s' = s\<lparr>token_accounts := t, force_settles := dm_insert (ff_force_settle_request a)
       (after_finalize ?now r) (force_settles s)\<rparr>"
  have pay: "balance t (ff_recipient_token_account a) = balance (token_accounts s) (ff_recipient_token_account a) + unat n
    \<and> balance t (ff_vault_token_account a) + unat n = balance (token_accounts s) (ff_vault_token_account a)"
  proof (cases "n = 0")
    case False
    with t have tr: "spl_transfer E (ff_vault_token_account a) (ff_recipient_token_account a) (ff_vault_config a) n
        (token_accounts s) = Some t" by simp
    show ?thesis using token_lawsD(2,3) [OF L tr] ne by auto
  qed (use t in simp)
  have "unat n = unat (fs_free_balance_due r)
      + (if sint (fs_max_lock_expires_at r) \<le> sint ?now then unat (fs_locked_balance_due r) else 0)"
    using n by (auto simp: claimable_now_def dest: checked_add_SomeD split: if_splits)
  with r pay show ?thesis
    by (intro exI [of _ r] exI [of _ "after_finalize ?now r"] exI [of _ "unat n"])
      (auto simp: s' dm_get_insert after_finalize_def Let_def)
qed

theorem force_settle_finalize_pays_due_witness:
  "\<exists>s'. force_settle_finalize demo_env (demo_tx 90000 0 0 []) demo_finalize_accounts demo_fs_chain = Inr s'
    \<and> balance (token_accounts s') 20 = 530"
proof -
  obtain s' where r: "force_settle_finalize demo_env (demo_tx 90000 0 0 []) demo_finalize_accounts demo_fs_chain = Inr s'"
    by (rule demo_finalize_run)
  have "ff_recipient_token_account demo_finalize_accounts \<noteq> ff_vault_token_account demo_finalize_accounts"
    by (simp add: demo_finalize_accounts_def)
  from force_settle_finalize_pays_due [OF demo_token_laws r this] r show ?thesis
    by (auto simp: demo_finalize_accounts_def demo_fs_chain_def demo_fs_request_def demo_tx_def demo_chain_def
        balance_def)
qed

text \<open>
  A challenge replaces a request only by a newer receipt that the vault's signer signed for
  the same participant and vault, inside the dispute window; its nonce is strictly greater.
\<close>

theorem challenge_needs_newer_signed_receipt:
  assumes "force_settle_challenge E tx a ata free locked lock_exp nonce sig msg s = Inr s'"
  shows "\<exists>vault r r' m. dm_get (vaults s) (fc_vault_config a) = Some vault
    \<and> dm_get (force_settles s) (fc_force_settle_request a) = Some r
    \<and> dm_get (force_settles s') (fc_force_settle_request a) = Some r'
    \<and> verify_ed25519_signature_details E tx (vc_vault_signer_pubkey vault) = Inr \<lparr>ve_signature = sig, ve_message = msg\<rparr>
    \<and> decode_participant_receipt_message msg = Inr m
    \<and> prm_participant m = fs_participant r \<and> prm_participant_kind m = fs_participant_kind r
    \<and> prm_vault_config m = fs_vault r \<and> fs_receipt_nonce r < prm_nonce m
    \<and> sint (unix_timestamp tx) \<le> sint (fs_dispute_deadline r)
    \<and> r' = r\<lparr>fs_recipient_ata := prm_recipient_ata m, fs_free_balance_due := prm_free_balance m,
         fs_locked_balance_due := prm_locked_balance m, fs_max_lock_expires_at := prm_max_lock_expires_at m,
         fs_receipt_nonce := prm_nonce m, fs_receipt_signature := sig\<rparr>"
  using assms by (auto simp: force_settle_challenge_def dm_get_insert)

definition demo_receipt :: participant_receipt_message where
  "demo_receipt = \<lparr>prm_participant = 10, prm_participant_kind = 0, prm_recipient_ata = 20, prm_free_balance = 5,
     prm_locked_balance = 0, prm_max_lock_expires_at = 0, prm_nonce = 9, prm_timestamp = 2000,
     prm_snapshot_seqno = 1, prm_vault_config = 52000\<rparr>"

definition demo_challenge_accounts :: force_settle_challenge_accounts where
  "demo_challenge_accounts = \<lparr>fc_challenger = 1, fc_vault_config = 52000, fc_force_settle_request = 77010,
     fc_instructions_sysvar = 102\<rparr>"

lemma length_receipt [simp]: "length (participant_receipt_bytes m) = 145"
  by (simp add: participant_receipt_bytes_def)

theorem challenge_needs_newer_signed_receipt_witness:
  "\<exists>s' r'. force_settle_challenge demo_env (demo_tx 3000 8 2 (participant_receipt_bytes demo_receipt))
      demo_challenge_accounts 20 5 0 0 9 8 (participant_receipt_bytes demo_receipt) demo_fs_chain = Inr s'
    \<and> dm_get (force_settles s') 77010 = Some r' \<and> fs_receipt_nonce r' = 9 \<and> fs_free_balance_due r' = 5"
proof -
  let ?m = "participant_receipt_bytes demo_receipt"
  have v: "verify_ed25519_signature_details demo_env (demo_tx 3000 8 2 ?m) 2 = Inr \<lparr>ve_signature = 8, ve_message = ?m\<rparr>"
    by (rule demo_tx_verify) simp
  have "\<exists>s'. force_settle_challenge demo_env (demo_tx 3000 8 2 ?m) demo_challenge_accounts 20 5 0 0 9 8 ?m demo_fs_chain = Inr s'"
    using v
    by (simp add: force_settle_challenge_def demo_challenge_accounts_def demo_fs_chain_def demo_chain_def demo_vc_def
        demo_fs_request_def decode_receipt_bytes)
      (simp add: signer_def demo_tx_def demo_env_def demo_receipt_def)
  then obtain s' where r: "force_settle_challenge demo_env (demo_tx 3000 8 2 ?m) demo_challenge_accounts 20 5 0 0 9 8 ?m
      demo_fs_chain = Inr s'" by blast
  from challenge_needs_newer_signed_receipt [OF r] r show ?thesis
    by (auto simp: demo_challenge_accounts_def decode_receipt_bytes demo_receipt_def)
qed

text \<open>
  A participant can force a settlement only once per vault and kind: after a successful
  \<open>force_settle_init\<close>, every later one of the same vault, participant and kind fails, also after
  the request was resolved, because no instruction closes the request account.
\<close>

theorem force_settle_only_once:
  assumes ok: "force_settle_init E tx a kind ata free locked lock_exp nonce sig msg s = Inr s1"
    and steps: "(vault_step E)\<^sup>*\<^sup>* s1 s2"
    and same: "fi_vault_config a' = fi_vault_config a" "fi_participant a' = fi_participant a"
  shows "force_settle_init E tx' a' kind ata' free' locked' lock_exp' nonce' sig' msg' s2 \<noteq> Inr s3"
proof -
  let ?k = "fst (find_program_address E (force_settle_seeds (fi_vault_config a) (fi_participant a) kind))"
  from ok have "dm_get (force_settles s1) ?k \<noteq> None" by (auto simp: force_settle_init_def dm_get_insert)
  with vault_steps_request [OF steps] have "dm_get (force_settles s2) ?k \<noteq> None" by blast
  with same show ?thesis by (auto simp: force_settle_init_def account_exists_def)
qed

definition demo_init_accounts :: force_settle_init_accounts where
  "demo_init_accounts = \<lparr>fi_participant = 10, fi_vault_config = 52000, fi_force_settle_request = 77000,
     fi_instructions_sysvar = 102\<rparr>"

lemma demo_fs_address: "demo_pda (force_settle_seeds 52000 10 0) = 77000"
  by (simp add: demo_pda_def force_settle_seeds_def str_bytes_def)

theorem force_settle_only_once_witness:
  "\<exists>s1. force_settle_init demo_env (demo_tx 3000 8 2 (participant_receipt_bytes demo_receipt))
      demo_init_accounts 0 20 5 0 0 9 8 (participant_receipt_bytes demo_receipt) demo_chain = Inr s1
    \<and> force_settle_init demo_env (demo_tx 4000 8 2 (participant_receipt_bytes demo_receipt))
      demo_init_accounts 0 20 5 0 0 9 8 (participant_receipt_bytes demo_receipt) s1 \<noteq> Inr s1"
proof -
  let ?m = "participant_receipt_bytes demo_receipt"
  have v: "verify_ed25519_signature_details demo_env (demo_tx 3000 8 2 ?m) 2 = Inr \<lparr>ve_signature = 8, ve_message = ?m\<rparr>"
    by (rule demo_tx_verify) simp
  have "\<exists>s'. force_settle_init demo_env (demo_tx 3000 8 2 ?m) demo_init_accounts 0 20 5 0 0 9 8 ?m demo_chain = Inr s'"
    using v
    by (simp add: force_settle_init_def demo_init_accounts_def demo_chain_def demo_vc_def account_exists_def
        decode_receipt_bytes)
      (simp add: signer_def demo_tx_def demo_env_def demo_receipt_def demo_fs_address checked_sadd_def DISPUTE_WINDOW_SEC_def)
  then obtain s1 where r: "force_settle_init demo_env (demo_tx 3000 8 2 ?m) demo_init_accounts 0 20 5 0 0 9 8 ?m demo_chain = Inr s1"
    by blast
  from force_settle_only_once [OF r rtranclp.rtrancl_refl refl refl] r show ?thesis by blast
qed

section \<open>Authority\<close>

text \<open>
  The vault can always sign for its own tokens: in every state reached from one whose
  vaults have their derived addresses (the empty chain for instance), no withdrawal, batch
  settlement or forced settlement fails because the stored seeds and bump do not derive the
  vault's address.
\<close>

theorem vault_can_always_sign:
  assumes P: "pda_laws E" and "vaults_derived E s0" and "(vault_step E)\<^sup>*\<^sup>* s0 s"
  shows "withdraw E tx wa amt n ex sig s \<noteq> Inl PrivilegeEscalation
    \<and> force_settle_finalize E tx fa s \<noteq> Inl PrivilegeEscalation
    \<and> settle_vault E tx sa b h es s \<noteq> Inl PrivilegeEscalation"
proof -
  have vd: "vaults_derived E s" using vaults_derived_steps assms by blast
  have tr: "dm_get (vaults s) k = Some vc \<Longrightarrow> vault_transfer E k vc x y m t \<noteq> Inl PrivilegeEscalation" for k vc x y m t
    using derived_can_sign [OF P vd] by (simp add: vault_transfer_def)
  have se: "dm_get (vaults s) k = Some vc \<Longrightarrow> settle_entries E k vc x zs acc t \<noteq> Inl PrivilegeEscalation" for k vc x zs acc t
  proof (induction zs arbitrary: acc t)
    case (Cons z zs)
    then show ?case by (cases z) (simp add: tr)
  qed simp
  have ed: "verify_ed25519_signature_details_relative E tx j pk \<noteq> Inl PrivilegeEscalation" for j pk
    by (auto simp: verify_ed25519_signature_details_relative_def Let_def)
  have pr: "verify_record_audit_pairing E tx b h k es \<noteq> Inl PrivilegeEscalation" for k
  proof -
    have "(\<And>ix r. f ix = Some r \<Longrightarrow> r \<noteq> Inl PrivilegeEscalation) \<Longrightarrow>
        scan_instructions tx e f is \<noteq> Inl PrivilegeEscalation" for f e "is"
      by (induction "is") (auto split: option.splits)
    note scan = this
    show ?thesis unfolding verify_record_audit_pairing_def Let_def
      by (rule scan) (auto split: option.splits if_splits)
  qed
  show ?thesis
    by (auto simp: withdraw_def force_settle_finalize_def settle_vault_def Let_def init_pda_def tr se pr ed
        verify_ed25519_signature_def verify_ed25519_signature_details_def split: prod.splits if_splits)
qed

theorem vault_can_always_sign_witness:
  "withdraw demo_env (demo_tx 4000 9 2 []) demo_withdraw_accounts 100 7 5000 9 demo_chain \<noteq> Inl PrivilegeEscalation"
  using vault_can_always_sign [OF demo_pda_laws demo_derived rtranclp.rtrancl_refl] by blast

section \<open>Channel close claims\<close>

lemma signature_halves:
  "word_bytes (word_of_bytes (take 32 (word_bytes (w :: b64))) :: b32)
     @ word_bytes (word_of_bytes (drop 32 (word_bytes w)) :: b32) = word_bytes w"
  by (subst (1 2) word_bytes_word_of_bytes) simp_all

text \<open>
  An on-chain close claim carries both signatures: the vault's signer vouched for this
  channel, request, amount, request hash and provider key of this vault, and the provider key
  signed the payment message with exactly the signature (R, S) that the claim stores; no claim
  existed for the pair before.
\<close>

theorem close_claim_doubly_signed:
  assumes "asc_close_claim_handler E tx a ch rh s = Inr s'"
  shows "\<exists>vault voucher sig claim. dm_get (vaults s) (ac_vault_config a) = Some vault
    \<and> verify_ed25519_signature_details_relative E tx 2 (vc_vault_signer_pubkey vault)
        = Inr \<lparr>ve_signature = sig, ve_message = build_asc_claim_voucher_message voucher\<rparr>
    \<and> v_channel_id_hash voucher = ch \<and> v_request_id_hash voucher = rh \<and> v_vault_config voucher = ac_vault_config a
    \<and> dm_get (close_claims s) (ac_asc_close_claim a) = None
    \<and> dm_get (close_claims s') (ac_asc_close_claim a) = Some claim
    \<and> cc_amount claim = v_amount voucher \<and> cc_request_hash claim = v_request_hash voucher
    \<and> cc_provider_pubkey claim = v_provider_pubkey voucher
    \<and> verify_ed25519_signature_details_relative E tx 1 (cc_provider_pubkey claim)
        = Inr \<lparr>ve_signature = word_of_bytes (word_bytes (cc_full_sig_r claim) @ word_bytes (cc_full_sig_s claim)),
               ve_message = build_asc_payment_message_from_hashes ch rh (cc_amount claim) (cc_request_hash claim)\<rparr>"
proof -
  from assms obtain vault vv voucher pv where g: "dm_get (vaults s) (ac_vault_config a) = Some vault"
    "\<not> account_exists (ac_asc_close_claim a) s"
    "verify_ed25519_signature_details_relative E tx 2 (vc_vault_signer_pubkey vault) = Inr vv"
    "parse_asc_claim_voucher_message (ve_message vv) = Some voucher"
    "v_channel_id_hash voucher = ch" "v_request_id_hash voucher = rh" "v_vault_config voucher = ac_vault_config a"
    "verify_ed25519_signature_details_relative E tx 1 (v_provider_pubkey voucher) = Inr pv"
    "ve_message pv = build_asc_payment_message_from_hashes ch rh (v_amount voucher) (v_request_hash voucher)"
    and s': "\<exists>claim. dm_get (close_claims s') (ac_asc_close_claim a) = Some claim
      \<and> cc_amount claim = v_amount voucher \<and> cc_request_hash claim = v_request_hash voucher
      \<and> cc_provider_pubkey claim = v_provider_pubkey voucher
      \<and> cc_full_sig_r claim = word_of_bytes (take 32 (word_bytes (ve_signature pv)))
      \<and> cc_full_sig_s claim = word_of_bytes (drop 32 (word_bytes (ve_signature pv)))"
    by (auto simp: asc_close_claim_handler_def Let_def dm_get_insert)
  from s' obtain claim where c: "dm_get (close_claims s') (ac_asc_close_claim a) = Some claim"
      "cc_amount claim = v_amount voucher" "cc_request_hash claim = v_request_hash voucher"
      "cc_provider_pubkey claim = v_provider_pubkey voucher"
      "cc_full_sig_r claim = word_of_bytes (take 32 (word_bytes (ve_signature pv)))"
      "cc_full_sig_s claim = word_of_bytes (drop 32 (word_bytes (ve_signature pv)))" by blast
  have "word_of_bytes (word_bytes (cc_full_sig_r claim) @ word_bytes (cc_full_sig_s claim)) = ve_signature pv"
    by (simp add: c signature_halves word_of_bytes_word_bytes)
  moreover have "vv = \<lparr>ve_signature = ve_signature vv, ve_message = build_asc_claim_voucher_message voucher\<rparr>"
    using parse_voucher_sound [OF g(4)] by simp
  moreover have "dm_get (close_claims s) (ac_asc_close_claim a) = None" using g(2) by (simp add: account_exists_def)
  ultimately show ?thesis using g c
    by (intro exI [of _ vault] exI [of _ voucher] exI [of _ "ve_signature vv"] exI [of _ claim]) auto
qed

definition demo_voucher :: asc_claim_voucher_fields where
  "demo_voucher = \<lparr>v_channel_id_hash = 11, v_request_id_hash = 12, v_amount = 40, v_request_hash = 5,
     v_provider_pubkey = 33, v_issued_at = 1000, v_vault_config = 52000\<rparr>"

definition demo_claim_tx :: tx_ctx where
  "demo_claim_tx = \<lparr>unix_timestamp = 2000, current_index = 2,
     tx_instructions = [ed25519_instruction demo_env 8 2 (build_asc_claim_voucher_message demo_voucher),
       ed25519_instruction demo_env 9 33 (build_asc_payment_message_from_hashes 11 12 40 5)],
     tx_signers = [10]\<rparr>"

definition demo_claim_accounts :: asc_close_claim_accounts where
  "demo_claim_accounts = \<lparr>ac_caller = 10, ac_vault_config = 52000, ac_asc_close_claim = 111012,
     ac_instructions_sysvar = 102\<rparr>"

lemma demo_claim_run:
  obtains s' where "asc_close_claim_handler demo_env demo_claim_tx demo_claim_accounts 11 12 demo_chain = Inr s'"
proof -
  have v: "verify_ed25519_signature_details_relative demo_env demo_claim_tx 2 2
      = Inr \<lparr>ve_signature = 8, ve_message = build_asc_claim_voucher_message demo_voucher\<rparr>"
    by (rule ed25519_instruction_accepted)
      (simp_all add: demo_claim_tx_def load_instruction_at_def length_build_voucher ASC_CLAIM_VOUCHER_MESSAGE_LEN_def)
  have p: "verify_ed25519_signature_details_relative demo_env demo_claim_tx 1 33
      = Inr \<lparr>ve_signature = 9, ve_message = build_asc_payment_message_from_hashes 11 12 40 5\<rparr>"
    by (rule ed25519_instruction_accepted)
      (simp_all add: demo_claim_tx_def load_instruction_at_def build_asc_payment_message_from_hashes_def
        ASC_PAYMENT_MESSAGE_PREFIX_def)
  have key: "demo_pda (claim_seeds 52000 11 12) = 111012"
    by (simp add: demo_pda_def claim_seeds_def str_bytes_def word_bytes_def)
  have env: "find_program_address demo_env (claim_seeds 52000 11 12) = (111012, 255)"
    "sysvar_instructions_id demo_env = 102" "signer demo_claim_tx 10"
    by (simp_all add: demo_env_def key signer_def demo_claim_tx_def)
  have fields: "v_channel_id_hash demo_voucher = 11" "v_request_id_hash demo_voucher = 12" "v_amount demo_voucher = 40"
    "v_request_hash demo_voucher = 5" "v_provider_pubkey demo_voucher = 33" "v_vault_config demo_voucher = 52000"
    by (simp_all add: demo_voucher_def)
  have "\<exists>s'. asc_close_claim_handler demo_env demo_claim_tx demo_claim_accounts 11 12 demo_chain = Inr s'"
    using v p
    by (simp add: asc_close_claim_handler_def demo_claim_accounts_def demo_chain_def demo_vc_def account_exists_def
        parse_voucher_build fields env Let_def)
  with that show thesis by blast
qed

theorem close_claim_doubly_signed_witness:
  "\<exists>s' claim. asc_close_claim_handler demo_env demo_claim_tx demo_claim_accounts 11 12 demo_chain = Inr s'
    \<and> dm_get (close_claims s') 111012 = Some claim
    \<and> ve_message (projr (verify_ed25519_signature_details_relative demo_env demo_claim_tx 1 (cc_provider_pubkey claim)))
        = build_asc_payment_message_from_hashes 11 12 (cc_amount claim) (cc_request_hash claim)"
proof -
  obtain s' where r: "asc_close_claim_handler demo_env demo_claim_tx demo_claim_accounts 11 12 demo_chain = Inr s'"
    by (rule demo_claim_run)
  from close_claim_doubly_signed [OF r] r show ?thesis by (auto simp: demo_claim_accounts_def)
qed

end
