(* ===== verification/Enclave_Chain.thy ===== *)
theory Enclave_Chain
  imports Asc_Correct Vault_Properties
begin

text \<open>
  The two halves of the system meet in three byte formats that the enclave writes
  (\<open>enclave/src/state.rs\<close>, \<open>asc_manager.rs\<close>) and the vault program reads. The theorems
  compose the models of both sides: what the enclave signs is what the chain acts on.
\<close>

section \<open>Messages\<close>

definition receipt_of :: "vault_state \<Rightarrow> pubkey \<Rightarrow> u8 \<Rightarrow> pubkey \<Rightarrow> u64 \<Rightarrow> u64 \<Rightarrow> i64 \<Rightarrow> u64 \<Rightarrow> i64 \<Rightarrow> u64
    \<Rightarrow> participant_receipt_message" where
  "receipt_of v p kind ata free locked lock_exp nonce ts seqno =
     \<lparr>prm_participant = p, prm_participant_kind = kind, prm_recipient_ata = ata, prm_free_balance = free,
      prm_locked_balance = locked, prm_max_lock_expires_at = lock_exp, prm_nonce = nonce, prm_timestamp = ts,
      prm_snapshot_seqno = seqno, prm_vault_config = vault_config v\<rparr>"

lemma byte_word_bytes [simp]: "word_bytes (b :: u8) = [b]"
proof -
  have "unat b < 256" using unsigned_less [of b] by simp
  then show ?thesis by (simp add: word_bytes_def)
qed

lemma receipt_bytes_enclave:
  "build_participant_receipt_message v p kind ata free locked lock_exp nonce ts seqno
     = participant_receipt_bytes (receipt_of v p kind ata free locked lock_exp nonce ts seqno)"
  by (simp add: build_participant_receipt_message_def participant_receipt_bytes_def receipt_of_def)

lemma withdraw_message_inj:
  assumes "word_bytes (c :: pubkey) @ word_bytes (r :: pubkey) @ word_bytes (a :: u64) @ word_bytes (n :: u64)
      @ word_bytes (e :: i64) @ word_bytes (k :: pubkey)
    = word_bytes c' @ word_bytes r' @ word_bytes a' @ word_bytes n' @ word_bytes e' @ word_bytes k'"
  shows "c = c' \<and> r = r' \<and> a = a' \<and> n = n' \<and> e = e' \<and> k = k'"
proof -
  from b32_codec.prefix_free [OF assms] have 1: "c = c'" and eq: "word_bytes r @ word_bytes a @ word_bytes n
      @ word_bytes e @ word_bytes k = word_bytes r' @ word_bytes a' @ word_bytes n' @ word_bytes e' @ word_bytes k'"
    by auto
  from b32_codec.prefix_free [OF eq] have 2: "r = r'" and eq: "word_bytes a @ word_bytes n @ word_bytes e @ word_bytes k
      = word_bytes a' @ word_bytes n' @ word_bytes e' @ word_bytes k'" by auto
  from u64_codec.prefix_free [OF eq] have 3: "a = a'" and eq: "word_bytes n @ word_bytes e @ word_bytes k
      = word_bytes n' @ word_bytes e' @ word_bytes k'" by auto
  from u64_codec.prefix_free [OF eq] have 4: "n = n'" and eq: "word_bytes e @ word_bytes k = word_bytes e' @ word_bytes k'"
    by auto
  from u64_codec.prefix_free [OF eq] 1 2 3 4 show ?thesis by (auto dest: b32_codec.enc_inj)
qed

section \<open>Properties\<close>

text \<open>
  C35: A receipt of the enclave opens a forced settlement: the bytes of
  \<open>build_participant_receipt_message\<close>, checked by the precompile under the vault's signer,
  make \<open>force_settle_init\<close> succeed for that participant and record exactly the balances, lock
  expiry and nonce the enclave wrote.
\<close>

theorem enclave_receipt_opens_force_settle:
  assumes msg: "msg = build_participant_receipt_message v p kind ata free locked lock_exp nonce ts seqno"
    and vault: "dm_get (vaults s) (vault_config v) = Some vc"
    and sig: "verify_ed25519_signature_details E tx (vc_vault_signer_pubkey vc)
      = Inr \<lparr>ve_signature = sg, ve_message = msg\<rparr>"
    and acc: "a = \<lparr>fi_participant = p, fi_vault_config = vault_config v,
       fi_force_settle_request = fst (find_program_address E (force_settle_seeds (vault_config v) p kind)),
       fi_instructions_sysvar = sysvar_instructions_id E\<rparr>"
    and new: "\<not> account_exists (fi_force_settle_request a) s" and signed: "signer tx p"
    and time: "checked_sadd (unix_timestamp tx) DISPUTE_WINDOW_SEC = Some deadline"
  shows "\<exists>s' r. force_settle_init E tx a kind ata free locked lock_exp nonce sg msg s = Inr s'
    \<and> dm_get (force_settles s') (fi_force_settle_request a) = Some r
    \<and> fs_participant r = p \<and> fs_recipient_ata r = ata \<and> fs_free_balance_due r = free
    \<and> fs_locked_balance_due r = locked \<and> fs_max_lock_expires_at r = lock_exp \<and> fs_receipt_nonce r = nonce
    \<and> sint (fs_dispute_deadline r) = sint (unix_timestamp tx) + 86400"
  using vault sig new signed time checked_sadd_SomeD [OF time]
  by (auto simp: msg acc force_settle_init_def init_pda_def receipt_bytes_enclave decode_receipt_bytes
      receipt_of_def dm_get_insert DISPUTE_WINDOW_SEC_def split: prod.splits)

theorem enclave_receipt_opens_force_settle_witness:
  "\<exists>v s' r msg. force_settle_init demo_env (demo_tx 3000 8 2 msg)
      \<lparr>fi_participant = 10, fi_vault_config = 52000,
       fi_force_settle_request = fst (find_program_address demo_env (force_settle_seeds 52000 10 0)),
       fi_instructions_sysvar = sysvar_instructions_id demo_env\<rparr> 0 20 5 6 7 9 8 msg demo_chain = Inr s'
    \<and> msg = build_participant_receipt_message v 10 0 20 5 6 7 9 2000 1
    \<and> dm_get (force_settles s') 77000 = Some r \<and> fs_free_balance_due r = 5 \<and> fs_locked_balance_due r = 6"
proof -
  let ?v = "demo_vault\<lparr>vault_config := 52000\<rparr>"
  let ?m = "build_participant_receipt_message ?v 10 0 20 5 6 7 9 2000 1"
  have key: "fst (find_program_address demo_env (force_settle_seeds 52000 10 0)) = 77000"
    by (simp add: demo_env_def demo_fs_address)
  have vault: "dm_get (vaults demo_chain) (vault_config ?v) = Some demo_vc" by (simp add: demo_chain_def)
  have sig: "verify_ed25519_signature_details demo_env (demo_tx 3000 8 2 ?m) (vc_vault_signer_pubkey demo_vc)
      = Inr \<lparr>ve_signature = 8, ve_message = ?m\<rparr>"
    by (simp add: demo_tx_verify demo_vc_def receipt_bytes_enclave)
  have new: "\<not> account_exists (fi_force_settle_request \<lparr>fi_participant = 10, fi_vault_config = vault_config ?v,
       fi_force_settle_request = fst (find_program_address demo_env (force_settle_seeds (vault_config ?v) 10 0)),
       fi_instructions_sysvar = sysvar_instructions_id demo_env\<rparr>) demo_chain"
    by (simp add: key account_exists_def demo_chain_def)
  have "signer (demo_tx 3000 8 2 ?m) 10"
    "checked_sadd (unix_timestamp (demo_tx 3000 8 2 ?m)) DISPUTE_WINDOW_SEC = Some 89400"
    by (simp_all add: demo_tx_def signer_def checked_sadd_def DISPUTE_WINDOW_SEC_def)
  from enclave_receipt_opens_force_settle [OF refl vault sig refl new this]
  have "\<exists>s' r. force_settle_init demo_env (demo_tx 3000 8 2 ?m)
      \<lparr>fi_participant = 10, fi_vault_config = 52000,
       fi_force_settle_request = fst (find_program_address demo_env (force_settle_seeds 52000 10 0)),
       fi_instructions_sysvar = sysvar_instructions_id demo_env\<rparr> 0 20 5 6 7 9 8 ?m demo_chain = Inr s'
    \<and> dm_get (force_settles s') 77000 = Some r \<and> fs_free_balance_due r = 5 \<and> fs_locked_balance_due r = 6"
    by (auto simp: key)
  then show ?thesis by blast
qed

text \<open>
  The chain pays a withdrawal only for the authorisation the enclave built: if the message
  under which \<open>withdraw\<close> succeeded is one the enclave built for some client, token account,
  amount, nonce and expiry, then these are the ones paid, for that enclave's vault.
\<close>

theorem withdrawal_matches_authorization:
  assumes ok: "withdraw E tx a amt n ex sig s = Inr s'"
    and vault: "dm_get (vaults s) (wa_vault_config a) = Some vc"
    and msg: "verify_ed25519_signature E tx (vc_vault_signer_pubkey vc)
      = Inr (build_withdraw_authorization_message v client ata amount nonce expires)"
  shows "client = wa_client a \<and> ata = wa_client_token_account a \<and> amount = amt \<and> nonce = n \<and> expires = ex
    \<and> vault_config v = wa_vault_config a"
proof -
  from ok vault have "verify_ed25519_signature E tx (vc_vault_signer_pubkey vc)
      = Inr (word_bytes (wa_client a) @ word_bytes (wa_client_token_account a) @ word_bytes amt @ word_bytes n
        @ word_bytes ex @ word_bytes (wa_vault_config a))"
    by (auto simp: withdraw_def Let_def)
  with msg have "word_bytes client @ word_bytes ata @ word_bytes amount @ word_bytes nonce @ word_bytes expires
      @ word_bytes (vault_config v) = word_bytes (wa_client a) @ word_bytes (wa_client_token_account a)
      @ word_bytes amt @ word_bytes n @ word_bytes ex @ word_bytes (wa_vault_config a)"
    by (simp add: build_withdraw_authorization_message_def)
  from withdraw_message_inj [OF this] show ?thesis by blast
qed

theorem withdrawal_matches_authorization_witness:
  "\<exists>s' v. withdraw demo_env (demo_tx 4000 9 2 demo_withdraw_message) demo_withdraw_accounts 100 7 5000 9 demo_chain = Inr s'
     \<and> demo_withdraw_message = build_withdraw_authorization_message v 10 20 100 7 5000
     \<and> vault_config v = wa_vault_config demo_withdraw_accounts"
proof -
  let ?v = "demo_vault\<lparr>vault_config := 52000\<rparr>"
  obtain s' where r: "withdraw demo_env (demo_tx 4000 9 2 demo_withdraw_message) demo_withdraw_accounts 100 7 5000 9
      demo_chain = Inr s'"
    by (rule demo_withdraw_run)
  have m: "demo_withdraw_message = build_withdraw_authorization_message ?v 10 20 100 7 5000"
    by (simp add: demo_withdraw_message_def build_withdraw_authorization_message_def)
  have "verify_ed25519_signature demo_env (demo_tx 4000 9 2 demo_withdraw_message) (vc_vault_signer_pubkey demo_vc)
      = Inr (build_withdraw_authorization_message ?v 10 20 100 7 5000)"
    by (simp add: verify_ed25519_signature_def demo_tx_verify demo_withdraw_message_def demo_vc_def m [symmetric])
  from withdrawal_matches_authorization [OF r _ this] r m show ?thesis
    by (auto simp: demo_withdraw_accounts_def demo_chain_def)
qed

text \<open>
  The signature of a close claim is over the enclave's payment message: when the claim was
  made for the hashed ids of a channel and request, the message the provider's key signed on
  chain is the message of \<open>build_payment_message\<close> for which \<open>finalize_onchain_claim\<close> verifies
  the same signature, and it determines the amount and the request hash.
\<close>

theorem claim_signature_is_payment_signature:
  assumes ok: "asc_close_claim_handler E tx a (hash_identifier H cid) (hash_identifier H rid) s = Inr s'"
  shows "\<exists>claim. dm_get (close_claims s') (ac_asc_close_claim a) = Some claim
    \<and> verify_ed25519_signature_details_relative E tx 1 (cc_provider_pubkey claim)
        = Inr \<lparr>ve_signature = word_of_bytes (word_bytes (cc_full_sig_r claim) @ word_bytes (cc_full_sig_s claim)),
               ve_message = build_payment_message H cid rid (cc_amount claim) (cc_request_hash claim)\<rparr>
    \<and> (\<forall>amount request_hash.
         build_payment_message H cid rid (cc_amount claim) (cc_request_hash claim)
           = build_payment_message H cid rid amount request_hash
         \<longrightarrow> amount = cc_amount claim \<and> request_hash = cc_request_hash claim)"
  using close_claim_doubly_signed [OF ok]
  by (auto simp: build_payment_message_def build_asc_payment_message_def dest!: payment_message_inj)

theorem claim_signature_is_payment_signature_witness:
  "\<exists>s' claim sig. asc_close_claim_handler demo_env demo_claim_tx demo_claim_accounts
      (hash_identifier (\<lambda>bs. of_nat (10 + length bs)) ''c'') (hash_identifier (\<lambda>bs. of_nat (10 + length bs)) ''r1'')
      demo_chain = Inr s'
    \<and> dm_get (close_claims s') 111012 = Some claim
    \<and> verify_ed25519_signature_details_relative demo_env demo_claim_tx 1 (cc_provider_pubkey claim)
        = Inr \<lparr>ve_signature = sig, ve_message = build_payment_message (\<lambda>bs. of_nat (10 + length bs)) ''c'' ''r1''
                (cc_amount claim) (cc_request_hash claim)\<rparr>"
proof -
  let ?H = "\<lambda>bs. of_nat (10 + length bs)"
  obtain s' where r: "asc_close_claim_handler demo_env demo_claim_tx demo_claim_accounts 11 12 demo_chain = Inr s'"
    by (rule demo_claim_run)
  have h: "hash_identifier ?H ''c'' = 11" "hash_identifier ?H ''r1'' = 12"
    by (simp_all add: hash_identifier_def)
  with r have r': "asc_close_claim_handler demo_env demo_claim_tx demo_claim_accounts (hash_identifier ?H ''c'')
      (hash_identifier ?H ''r1'') demo_chain = Inr s'"
    by simp
  from claim_signature_is_payment_signature [OF r'] r' show ?thesis by (auto simp: demo_claim_accounts_def)
qed

end
