(* ===== verification/Enclave_Audit.thy ===== *)
theory Enclave_Audit
  imports Adaptor_Sig
begin

text \<open>
  Audit encryption (\<open>enclave/src/audit.rs\<close>): per-provider keys derived from the auditor's
  master secret, an ElGamal variant that masks 32 bytes with a hash of the shared point, and
  the records the batches publish. The Ristretto group is a \<open>curve\<close> record as in theory
  \<open>Adaptor_Sig\<close>; HKDF, SHA-256 and the fresh random scalars are arguments.
\<close>

unbundle bit_operations_syntax

section \<open>Definitions\<close>

record ('p, 's) elgamal_key_pair =
  eg_secret :: 's
  eg_public :: 'p
  eg_public_compressed :: b32

record encrypted_audit_record =
  ea_encrypted_sender :: b64
  ea_encrypted_amount :: b64
  ea_provider :: pubkey
  ea_timestamp :: i64
  ea_auditor_epoch :: u32

text \<open>\<open>hkdf salt ikm info\<close> is the 64-byte output of HKDF-SHA256.\<close>

definition derive_provider_key ::
    "('p, 's) curve \<Rightarrow> (bytes \<Rightarrow> bytes \<Rightarrow> bytes \<Rightarrow> b64) \<Rightarrow> b32 \<Rightarrow> pubkey \<Rightarrow> ('p, 's) elgamal_key_pair" where
  "derive_provider_key C hkdf master_secret provider =
     (let okm = hkdf (str_bytes ''a402-audit-v1'') (word_bytes master_secret) (word_bytes provider);
          secret = from_bytes_mod_order_wide C okm;
          public = smul C secret (basepoint C)
      in \<lparr>eg_secret = secret, eg_public = public, eg_public_compressed = compress C public\<rparr>)"

definition kdf_mask :: "(bytes \<Rightarrow> b32) \<Rightarrow> b32 \<Rightarrow> b32" where
  "kdf_mask sha256 shared_secret = sha256 (str_bytes ''a402-elgamal-mask-v1'' @ word_bytes shared_secret)"

definition elgamal_encrypt :: "('p, 's) curve \<Rightarrow> (bytes \<Rightarrow> b32) \<Rightarrow> 's \<Rightarrow> 'p \<Rightarrow> b32 \<Rightarrow> b64" where
  "elgamal_encrypt C sha256 r public_key plaintext =
     (let c1 = compress C (smul C r (basepoint C));
          shared_secret = smul C r public_key;
          mask = kdf_mask sha256 (compress C shared_secret);
          c2 = map2 (XOR) (word_bytes plaintext) (word_bytes mask)
      in word_of_bytes (word_bytes c1 @ c2))"

definition elgamal_decrypt :: "('p, 's) curve \<Rightarrow> (bytes \<Rightarrow> b32) \<Rightarrow> 's \<Rightarrow> b64 \<Rightarrow> b32 option" where
  "elgamal_decrypt C sha256 secret_key ciphertext =
     (let c1_bytes = word_of_bytes (take 32 (word_bytes ciphertext));
          c2 = drop 32 (word_bytes ciphertext)
      in case decompress C c1_bytes of None \<Rightarrow> None
         | Some c1_point \<Rightarrow>
             let shared_secret = compress C (smul C secret_key c1_point);
                 mask = kdf_mask sha256 shared_secret
             in Some (word_of_bytes (map2 (XOR) c2 (word_bytes mask))))"

definition generate_audit_record_at ::
    "('p, 's) curve \<Rightarrow> (bytes \<Rightarrow> b32) \<Rightarrow> (bytes \<Rightarrow> bytes \<Rightarrow> bytes \<Rightarrow> b64) \<Rightarrow> 's \<Rightarrow> 's \<Rightarrow> pubkey \<Rightarrow> pubkey \<Rightarrow> u64
       \<Rightarrow> u32 \<Rightarrow> b32 \<Rightarrow> i64 \<Rightarrow> encrypted_audit_record" where
  "generate_audit_record_at C sha256 hkdf r1 r2 client provider amount auditor_epoch auditor_master_secret timestamp =
     (let provider_key = derive_provider_key C hkdf auditor_master_secret provider;
          encrypted_sender = elgamal_encrypt C sha256 r1 (eg_public provider_key) client;
          amount_bytes = word_of_bytes (word_bytes amount @ replicate 24 0);
          encrypted_amount = elgamal_encrypt C sha256 r2 (eg_public provider_key) amount_bytes
      in \<lparr>ea_encrypted_sender = encrypted_sender, ea_encrypted_amount = encrypted_amount,
          ea_provider = provider, ea_timestamp = timestamp, ea_auditor_epoch = auditor_epoch\<rparr>)"

definition generate_audit_record ::
    "('p, 's) curve \<Rightarrow> (bytes \<Rightarrow> b32) \<Rightarrow> (bytes \<Rightarrow> bytes \<Rightarrow> bytes \<Rightarrow> b64) \<Rightarrow> 's \<Rightarrow> 's \<Rightarrow> i64 \<Rightarrow> pubkey \<Rightarrow> pubkey \<Rightarrow> u64
       \<Rightarrow> u32 \<Rightarrow> b32 \<Rightarrow> encrypted_audit_record" where
  "generate_audit_record C sha256 hkdf r1 r2 now client provider amount auditor_epoch auditor_master_secret =
     generate_audit_record_at C sha256 hkdf r1 r2 client provider amount auditor_epoch auditor_master_secret now"

definition decrypt_sender :: "('p, 's) curve \<Rightarrow> (bytes \<Rightarrow> b32) \<Rightarrow> 's \<Rightarrow> b64 \<Rightarrow> pubkey option" where
  "decrypt_sender C sha256 secret_key encrypted_sender = elgamal_decrypt C sha256 secret_key encrypted_sender"

definition decrypt_amount :: "('p, 's) curve \<Rightarrow> (bytes \<Rightarrow> b32) \<Rightarrow> 's \<Rightarrow> b64 \<Rightarrow> u64 option" where
  "decrypt_amount C sha256 secret_key encrypted_amount =
     (case elgamal_decrypt C sha256 secret_key encrypted_amount of None \<Rightarrow> None
      | Some bytes \<Rightarrow> Some (word_of_bytes (take 8 (word_bytes bytes))))"

definition export_provider_key :: "('p, 's) curve \<Rightarrow> (bytes \<Rightarrow> bytes \<Rightarrow> bytes \<Rightarrow> b64) \<Rightarrow> b32 \<Rightarrow> pubkey \<Rightarrow> b32" where
  "export_provider_key C hkdf master_secret provider =
     scalar_bytes C (eg_secret (derive_provider_key C hkdf master_secret provider))"

text \<open>Besides the laws of encodings, encryption relies on the Diffie-Hellman identity.\<close>

definition dh_laws :: "('p, 's) curve \<Rightarrow> bool" where
  "dh_laws C \<longleftrightarrow> (\<forall>a b. smul C a (smul C b (basepoint C)) = smul C b (smul C a (basepoint C)))"

section \<open>Lemmas\<close>

lemma word_bytes_of_bytes64: "length bs = 64 \<Longrightarrow> word_bytes (word_of_bytes bs :: b64) = bs"
  by (rule word_bytes_word_of_bytes) simp_all

lemma word_of_bytes_b32 [simp]: "word_of_bytes (word_bytes w) = (w :: b32)"
  by (rule word_of_bytes_word_bytes) simp

lemma elgamal_decrypt_encrypt:
  assumes L: "curve_laws C" and D: "dh_laws C"
  shows "elgamal_decrypt C H k (elgamal_encrypt C H r (smul C k (basepoint C)) m) = Some m"
proof -
  let ?c1 = "compress C (smul C r (basepoint C))"
  let ?mask = "word_bytes (kdf_mask H (compress C (smul C r (smul C k (basepoint C)))))"
  let ?c2 = "map2 (XOR) (word_bytes m) ?mask"
  have ct: "word_bytes (elgamal_encrypt C H r (smul C k (basepoint C)) m) = word_bytes ?c1 @ ?c2"
    by (simp add: elgamal_encrypt_def Let_def word_bytes_of_bytes64)
  have "smul C k (smul C r (basepoint C)) = smul C r (smul C k (basepoint C))"
    using D by (simp add: dh_laws_def)
  then show ?thesis
    by (simp add: elgamal_decrypt_def ct decompress_compress [OF L] map2_xor_twice)
qed

section \<open>Properties\<close>

text \<open>
  An audit record opens for whoever holds the provider's derived key: the key exported for
  the record's provider decrypts the sender to the client and the amount to the amount that was
  settled, for every choice of randomness.
\<close>

theorem audit_record_opens:
  assumes "curve_laws C" and "dh_laws C"
    and "rec = generate_audit_record_at C H hkdf r1 r2 client provider amount epoch master ts"
    and "from_canonical_bytes C (export_provider_key C hkdf master (ea_provider rec)) = Some k"
  shows "decrypt_sender C H k (ea_encrypted_sender rec) = Some client
    \<and> decrypt_amount C H k (ea_encrypted_amount rec) = Some amount"
proof -
  let ?s = "from_bytes_mod_order_wide C (hkdf (str_bytes ''a402-audit-v1'') (word_bytes master) (word_bytes provider))"
  have k: "k = ?s"
    using assms(3,4) canonical_scalar_bytes [OF assms(1), of ?s]
    by (simp add: export_provider_key_def derive_provider_key_def generate_audit_record_at_def Let_def)
  have "word_bytes (word_of_bytes (word_bytes amount @ replicate 24 0) :: b32) = word_bytes amount @ replicate 24 0"
    by (rule word_bytes_word_of_bytes) simp_all
  then show ?thesis
    using elgamal_decrypt_encrypt [OF assms(1,2)] assms(3)
    by (simp add: generate_audit_record_at_def derive_provider_key_def Let_def k decrypt_sender_def decrypt_amount_def
        word_of_bytes_word_bytes)
qed

theorem audit_record_opens_witness:
  "decrypt_amount word_curve (\<lambda>_. 0) 9
     (ea_encrypted_amount (generate_audit_record_at word_curve (\<lambda>_. 0) (\<lambda>_ _ _. 9) 3 4 10 20 1500 0 42 1000)) = Some 1500"
proof -
  have "dh_laws word_curve" by (simp add: dh_laws_def word_curve_def)
  moreover have "from_canonical_bytes word_curve (export_provider_key word_curve (\<lambda>_ _ _. 9) 42 (ea_provider
      (generate_audit_record_at word_curve (\<lambda>_. 0) (\<lambda>_ _ _. 9) 3 4 10 20 1500 0 42 1000))) = Some 9"
    by (simp add: export_provider_key_def derive_provider_key_def word_curve_def)
  ultimately show ?thesis by (blast dest: audit_record_opens [OF word_curve_laws _ refl])
qed

end
