(* ===== verification/Batch.thy ===== *)
theory Batch
  imports Enclave_State Enclave_Audit "HOL-Library.Char_ord" "HOL-Library.List_Lexorder" "HOL-Library.Product_Lexorder"
begin

text \<open>
  Batch construction (\<open>enclave/src/batch.rs\<close>): which settlements of which providers go into
  the next on-chain batch, in which order, and how they are cut into atomic chunks. The loop
  that ticks, the submission and the receipts mirrored afterwards are in \<open>Batch_Fire\<close>.
  Ages are differences of two 64-bit times taken in the integers; the source subtracts
  \<open>i64\<close> values, which agrees unless the two times are more than 2^63 seconds apart.
\<close>

section \<open>Constants and data\<close>

definition MAX_SETTLEMENT_DELAY_SEC :: int where "MAX_SETTLEMENT_DELAY_SEC = 900"
definition BATCH_MAX_SETTLEMENTS_PER_TX :: nat where "BATCH_MAX_SETTLEMENTS_PER_TX = 20"
definition MAX_ATOMIC_SETTLEMENTS_WITH_AUDIT :: nat where "MAX_ATOMIC_SETTLEMENTS_WITH_AUDIT = 2"
definition DEFAULT_BATCH_WINDOW_SEC :: i64 where "DEFAULT_BATCH_WINDOW_SEC = 120"
definition DEFAULT_AUTO_BATCH_MIN_PROVIDER_PAYOUT_ATOMIC :: u64 where
  "DEFAULT_AUTO_BATCH_MIN_PROVIDER_PAYOUT_ATOMIC = 1000000"
definition DEFAULT_MIN_ANONYMITY_WINDOW_SEC :: i64 where "DEFAULT_MIN_ANONYMITY_WINDOW_SEC = 300"
definition DEFAULT_MIN_BATCH_PROVIDERS :: nat where "DEFAULT_MIN_BATCH_PROVIDERS = 2"

record batch_settlement_entry =
  bs_provider_token_account :: pubkey
  bs_amount :: u64

record batch_audit_entry =
  ba_encrypted_sender :: b64
  ba_encrypted_amount :: b64
  ba_provider :: pubkey
  ba_timestamp :: i64

record prepared_settlement =
  pp_settlement_id :: string
  pp_provider_id :: string
  pp_settlement :: batch_settlement_entry
  pp_audit :: batch_audit_entry

record provider_batch_cursor =
  pbc_provider_id :: string
  pbc_oldest_credit_at :: i64
  pbc_settlement_ids :: "string list"
  pbc_next_index :: nat

record batch_privacy_config =
  bp_batch_window_sec :: i64
  bp_auto_batch_min_provider_payout_atomic :: u64
  bp_min_anonymity_window_sec :: i64
  bp_min_batch_providers :: nat

definition default_batch_privacy_config :: batch_privacy_config where
  "default_batch_privacy_config =
     \<lparr>bp_batch_window_sec = DEFAULT_BATCH_WINDOW_SEC,
      bp_auto_batch_min_provider_payout_atomic = DEFAULT_AUTO_BATCH_MIN_PROVIDER_PAYOUT_ATOMIC,
      bp_min_anonymity_window_sec = DEFAULT_MIN_ANONYMITY_WINDOW_SEC,
      bp_min_batch_providers = DEFAULT_MIN_BATCH_PROVIDERS\<rparr>"

datatype batch_build_mode = Auto | Flush
datatype batch_loop_decision = Skip | Wait | Fire

record provider_batch_selection =
  sel_settlement_ids :: "string list"
  sel_oldest_timestamp :: i64

record batch_chunk =
  bc_start_index :: u8
  bc_entries :: "prepared_settlement list"

definition chunk_audits :: "batch_chunk \<Rightarrow> batch_audit_entry list" where
  "chunk_audits c = map pp_audit (bc_entries c)"

section \<open>Whether to fire\<close>

definition decide_batch_action ::
    "int \<Rightarrow> int \<Rightarrow> int \<Rightarrow> nat \<Rightarrow> int \<Rightarrow> int option \<Rightarrow> int \<Rightarrow> nat \<Rightarrow> batch_loop_decision \<times> int option" where
  "decide_batch_action now elapsed batch_window_sec provider_count oldest_credit_age jitter_deadline
     sampled_jitter_sec min_batch_providers =
     (if provider_count = 0 then (Skip, None)
      else if \<not> (batch_window_sec \<le> elapsed \<or> BATCH_MAX_SETTLEMENTS_PER_TX \<le> provider_count
                 \<or> MAX_SETTLEMENT_DELAY_SEC \<le> oldest_credit_age) then (Skip, None)
      else
        let deadline_reached = (MAX_SETTLEMENT_DELAY_SEC \<le> oldest_credit_age)
        in if provider_count < min_batch_providers \<and> \<not> deadline_reached then (Skip, None)
           else if deadline_reached then (Fire, None)
           else
             let deadline = (case jitter_deadline of Some d \<Rightarrow> d | None \<Rightarrow> now + sampled_jitter_sec)
             in if now < deadline then (Wait, Some deadline) else (Fire, None))"

section \<open>Per-provider selection\<close>

definition settlement_is_age_eligible :: "int \<Rightarrow> batch_privacy_config \<Rightarrow> bool" where
  "settlement_is_age_eligible age config \<longleftrightarrow>
     MAX_SETTLEMENT_DELAY_SEC \<le> age \<or> sint (bp_min_anonymity_window_sec config) \<le> age"

definition provider_payout_floor_satisfied :: "u64 \<Rightarrow> int \<Rightarrow> batch_privacy_config \<Rightarrow> bool" where
  "provider_payout_floor_satisfied eligible_amount eligible_oldest_age config =
     (if eligible_amount = 0 then False
      else if MAX_SETTLEMENT_DELAY_SEC \<le> eligible_oldest_age then True
      else bp_auto_batch_min_provider_payout_atomic config = 0
           \<or> bp_auto_batch_min_provider_payout_atomic config \<le> eligible_amount)"

text \<open>The accumulator of the loop: eligible ids, their saturating sum, the oldest time.\<close>

definition add_candidate ::
    "i64 \<Rightarrow> batch_build_mode \<Rightarrow> batch_privacy_config \<Rightarrow> string \<times> i64 \<times> u64
       \<Rightarrow> string list \<times> u64 \<times> i64 option \<Rightarrow> string list \<times> u64 \<times> i64 option" where
  "add_candidate batch_timestamp mode config cand acc =
     (case (cand, acc) of ((sid, timestamp, amount), (ids, total_amount, oldest)) \<Rightarrow>
        if (case mode of Flush \<Rightarrow> True
            | Auto \<Rightarrow> settlement_is_age_eligible (sint batch_timestamp - sint timestamp) config)
        then (ids @ [sid], saturating_add total_amount amount,
              Some (case oldest of None \<Rightarrow> timestamp
                    | Some current \<Rightarrow> if sint timestamp < sint current then timestamp else current))
        else acc)"

definition select_provider_batch_entries ::
    "(string \<times> i64 \<times> u64) list \<Rightarrow> i64 \<Rightarrow> batch_build_mode \<Rightarrow> batch_privacy_config \<Rightarrow> provider_batch_selection option" where
  "select_provider_batch_entries candidates batch_timestamp mode config =
     (case fold (add_candidate batch_timestamp mode config) candidates ([], 0, None) of
        (eligible_ids, eligible_amount, eligible_oldest_timestamp) \<Rightarrow>
          if eligible_ids = [] then None
          else
            let oldest_timestamp = (case eligible_oldest_timestamp of None \<Rightarrow> batch_timestamp | Some t \<Rightarrow> t);
                eligible_oldest_age = sint batch_timestamp - sint oldest_timestamp
            in if mode = Auto \<and> \<not> provider_payout_floor_satisfied eligible_amount eligible_oldest_age config
               then None
               else Some \<lparr>sel_settlement_ids = eligible_ids, sel_oldest_timestamp = oldest_timestamp\<rparr>)"

section \<open>Cursors\<close>

definition reconstruct_settlement_record :: "string \<Rightarrow> string \<Rightarrow> vault_state \<Rightarrow> settlement_record option" where
  "reconstruct_settlement_record provider_id settlement_id v =
     (case find (\<lambda>(_, r). rs_settlement_id r = Some settlement_id) (reservations v) of None \<Rightarrow> None
      | Some (_, reservation) \<Rightarrow>
          if rs_provider_id reservation \<noteq> provider_id \<or> rs_status reservation \<noteq> SettledOffchain then None
          else (case dm_get (providers v) provider_id of None \<Rightarrow> None
            | Some provider \<Rightarrow>
                Some \<lparr>sr_settlement_id = settlement_id, sr_client = rs_client reservation,
                  sr_provider = pr_settlement_token_account provider, sr_amount = rs_amount reservation,
                  sr_timestamp = (case rs_settled_at reservation of Some t \<Rightarrow> t | None \<Rightarrow> rs_created_at reservation)\<rparr>))"

definition recompute_credit :: "vault_state \<Rightarrow> provider_credit \<Rightarrow> provider_credit" where
  "recompute_credit v credit =
     (let records = List.map_filter (dm_get (settlement_history v)) (pc_settlement_ids credit);
          credit1 = credit\<lparr>pc_credited_amount := fold (\<lambda>r a. saturating_add a (sr_amount r)) records 0\<rparr>
      in case smin_list (map sr_timestamp records) of None \<Rightarrow> credit1
         | Some t \<Rightarrow> credit1\<lparr>pc_oldest_credit_at := t\<rparr>)"

definition prune_missing_settlement_reference :: "string \<Rightarrow> string \<Rightarrow> vault_state \<Rightarrow> vault_state" where
  "prune_missing_settlement_reference provider_id settlement_id v =
     (case dm_get (provider_credits v) provider_id of None \<Rightarrow> v
      | Some credit \<Rightarrow>
          let credit1 = recompute_credit v
                (credit\<lparr>pc_settlement_ids := filter (\<lambda>s. s \<noteq> settlement_id) (pc_settlement_ids credit)\<rparr>);
              v1 = v\<lparr>provider_credits := dm_insert provider_id credit1 (provider_credits v)\<rparr>
          in if pc_credited_amount credit1 = 0 \<or> pc_settlement_ids credit1 = []
             then v1\<lparr>provider_credits := dm_remove provider_id (provider_credits v1)\<rparr>
             else v1)"

text \<open>The inner loop over the ids of one provider: found entries, missing ids, the state.\<close>

fun collect_provider ::
    "string \<Rightarrow> string list \<Rightarrow> vault_state \<Rightarrow> (string \<times> i64 \<times> u64) list \<times> (string \<times> string) list \<times> vault_state" where
  "collect_provider provider_id [] v = ([], [], v)"
| "collect_provider provider_id (sid # sids) v =
     (let (record_opt, v1) =
            (case dm_get (settlement_history v) sid of Some rec \<Rightarrow> (Some rec, v)
             | None \<Rightarrow>
                 (case reconstruct_settlement_record provider_id sid v of None \<Rightarrow> (None, v)
                  | Some rec \<Rightarrow> (Some rec, v\<lparr>settlement_history := dm_insert sid rec (settlement_history v)\<rparr>)));
          (timestamped, missing, v2) = collect_provider provider_id sids v1
      in case record_opt of
           Some rec \<Rightarrow> ((sid, sr_timestamp rec, sr_amount rec) # timestamped, missing, v2)
         | None \<Rightarrow> (timestamped, (provider_id, sid) # missing, v2))"

fun collect_cursors ::
    "i64 \<Rightarrow> batch_build_mode \<Rightarrow> batch_privacy_config \<Rightarrow> (string \<times> string list) list \<Rightarrow> vault_state
       \<Rightarrow> provider_batch_cursor list \<times> (string \<times> string) list \<times> vault_state" where
  "collect_cursors batch_timestamp mode config [] v = ([], [], v)"
| "collect_cursors batch_timestamp mode config ((provider_id, settlement_ids) # rest) v =
     (let (timestamped, missing1, v1) = collect_provider provider_id settlement_ids v;
          (cursors, missing2, v2) = collect_cursors batch_timestamp mode config rest v1
      in ((case select_provider_batch_entries timestamped batch_timestamp mode config of None \<Rightarrow> cursors
           | Some selection \<Rightarrow>
               \<lparr>pbc_provider_id = provider_id, pbc_oldest_credit_at = sel_oldest_timestamp selection,
                pbc_settlement_ids = sel_settlement_ids selection, pbc_next_index = 0\<rparr> # cursors),
          missing1 @ missing2, v2))"

definition build_provider_batch_cursors ::
    "i64 \<Rightarrow> batch_build_mode \<Rightarrow> batch_privacy_config \<Rightarrow> vault_state \<Rightarrow> provider_batch_cursor list \<times> vault_state" where
  "build_provider_batch_cursors batch_timestamp mode config v =
     (let provider_snapshots = map (\<lambda>(_, c). (pc_provider_id c, pc_settlement_ids c)) (provider_credits v);
          (cursors, missing, v1) = collect_cursors batch_timestamp mode config provider_snapshots v
      in (cursors, fold (\<lambda>(provider_id, sid). prune_missing_settlement_reference provider_id sid) missing v1))"

section \<open>Selection across providers\<close>

text \<open>One pass of the \<open>for cursor in &mut cursors\<close> loop.\<close>

fun pass_cursors ::
    "nat \<Rightarrow> provider_batch_cursor list \<Rightarrow> (string \<times> string) list
       \<Rightarrow> provider_batch_cursor list \<times> (string \<times> string) list" where
  "pass_cursors max_entries [] selected = ([], selected)"
| "pass_cursors max_entries (c # cs) selected =
     (if max_entries \<le> length selected then (c # cs, selected)
      else if pbc_next_index c < length (pbc_settlement_ids c) then
        (let (cs', selected') = pass_cursors max_entries cs
               (selected @ [(pbc_provider_id c, pbc_settlement_ids c ! pbc_next_index c)])
         in (c\<lparr>pbc_next_index := pbc_next_index c + 1\<rparr> # cs', selected'))
      else
        (let (cs', selected') = pass_cursors max_entries cs selected in (c # cs', selected')))"

lemma pass_cursors_length:
  "pass_cursors m cs sel = (cs', sel') \<Longrightarrow> length sel \<le> length sel' \<and> (length sel \<le> m \<longrightarrow> length sel' \<le> m)"
proof (induction m cs sel arbitrary: cs' sel' rule: pass_cursors.induct)
  case (2 m c cs sel)
  then show ?case by (fastforce split: if_splits prod.splits)
qed simp

text \<open>\<open>while selected.len() < max_entries\<close>; a pass that selects nothing ends it.\<close>

function select_passes ::
    "nat \<Rightarrow> provider_batch_cursor list \<Rightarrow> (string \<times> string) list \<Rightarrow> (string \<times> string) list" where
  "select_passes max_entries cursors selected =
     (if length selected < max_entries then
        (let (cursors', selected') = pass_cursors max_entries cursors selected
         in if length selected' = length selected then selected'
            else select_passes max_entries cursors' selected')
      else selected)"
  by pat_completeness auto
termination
proof (relation "measure (\<lambda>(m, _, sel). m - length sel)", goal_cases)
  case (2 m cs sel p cs' sel')
  then have "pass_cursors m cs sel = (cs', sel')" by simp
  from pass_cursors_length [OF this] 2(1,4) show ?case by auto
qed simp

declare select_passes.simps [simp del]

definition select_batch_settlement_ids :: "provider_batch_cursor list \<Rightarrow> nat \<Rightarrow> (string \<times> string) list" where
  "select_batch_settlement_ids cursors max_entries =
     (let cursors1 = filter (\<lambda>c. pbc_settlement_ids c \<noteq> []) cursors;
          cursors2 = sort_key (\<lambda>c. (sint (pbc_oldest_credit_at c), pbc_provider_id c)) cursors1
      in select_passes max_entries cursors2 [])"

section \<open>Preparation\<close>

text \<open>The random scalars of the encryption are taken from a function of the settlement id.\<close>

definition prepare_batch ::
    "('p, 's) curve \<Rightarrow> (bytes \<Rightarrow> b32) \<Rightarrow> (bytes \<Rightarrow> bytes \<Rightarrow> bytes \<Rightarrow> b64) \<Rightarrow> (string \<Rightarrow> 's \<times> 's)
       \<Rightarrow> i64 \<Rightarrow> batch_build_mode \<Rightarrow> batch_privacy_config \<Rightarrow> vault_state
       \<Rightarrow> prepared_settlement list \<times> vault_state" where
  "prepare_batch C sha256 hkdf rand batch_timestamp mode config v =
     (let (cursors, v1) = build_provider_batch_cursors batch_timestamp mode config v
      in (List.map_filter (\<lambda>(provider_id, sid).
            map_option (\<lambda>record.
              let encrypted = generate_audit_record_at C sha256 hkdf (fst (rand sid)) (snd (rand sid))
                    (sr_client record) (sr_provider record) (sr_amount record) (auditor_epoch v)
                    (auditor_master_secret v) batch_timestamp
              in \<lparr>pp_settlement_id = sid, pp_provider_id = provider_id,
                  pp_settlement = \<lparr>bs_provider_token_account = sr_provider record, bs_amount = sr_amount record\<rparr>,
                  pp_audit = \<lparr>ba_encrypted_sender = ea_encrypted_sender encrypted,
                    ba_encrypted_amount = ea_encrypted_amount encrypted, ba_provider = ea_provider encrypted,
                    ba_timestamp = ea_timestamp encrypted\<rparr>\<rparr>)
              (dm_get (settlement_history v1) sid))
          (select_batch_settlement_ids cursors BATCH_MAX_SETTLEMENTS_PER_TX), v1))"

section \<open>Chunks\<close>

fun cut_chunks :: "nat \<Rightarrow> nat \<Rightarrow> nat list \<Rightarrow> nat \<Rightarrow> prepared_settlement list \<Rightarrow> batch_chunk list" where
  "cut_chunks base_chunk_size extra_entries [] start entries = []"
| "cut_chunks base_chunk_size extra_entries (chunk_idx # rest) start entries =
     (let chunk_size = base_chunk_size + (if chunk_idx < extra_entries then 1 else 0);
          stop = start + chunk_size
      in \<lparr>bc_start_index = of_nat start, bc_entries = take chunk_size (drop start entries)\<rparr>
         # cut_chunks base_chunk_size extra_entries rest stop entries)"

definition build_batch_chunks :: "prepared_settlement list \<Rightarrow> batch_chunk list" where
  "build_batch_chunks entries =
     (if entries = [] then []
      else
        let chunk_count = (length entries + MAX_ATOMIC_SETTLEMENTS_WITH_AUDIT - 1)
              div MAX_ATOMIC_SETTLEMENTS_WITH_AUDIT;
            base_chunk_size = length entries div chunk_count;
            extra_entries = length entries mod chunk_count
        in cut_chunks base_chunk_size extra_entries [0..<chunk_count] 0 entries)"

definition privacy_filter_batch_chunks ::
    "batch_chunk list \<Rightarrow> i64 \<Rightarrow> batch_build_mode \<Rightarrow> batch_privacy_config \<Rightarrow> batch_chunk list" where
  "privacy_filter_batch_chunks chunks batch_timestamp mode config =
     (if mode = Flush \<or> bp_min_batch_providers config \<le> 1 then chunks
      else filter (\<lambda>chunk.
        let provider_count = card (set (map (bs_provider_token_account \<circ> pp_settlement) (bc_entries chunk)));
            liveness_deadline_reached = list_ex (\<lambda>entry. MAX_SETTLEMENT_DELAY_SEC
              \<le> sint batch_timestamp - sint (ba_timestamp (pp_audit entry))) (bc_entries chunk)
        in bp_min_batch_providers config \<le> provider_count \<or> liveness_deadline_reached) chunks)"

fun aggregate_into :: "prepared_settlement list \<Rightarrow> (pubkey, u64) dashmap \<Rightarrow> (pubkey, u64) dashmap option" where
  "aggregate_into [] m = Some m"
| "aggregate_into (entry # rest) m =
     (let k = bs_provider_token_account (pp_settlement entry);
          old = (case dm_get m k of None \<Rightarrow> 0 | Some a \<Rightarrow> a)
      in case checked_add old (bs_amount (pp_settlement entry)) of None \<Rightarrow> None
         | Some a \<Rightarrow> aggregate_into rest (dm_insert k a m))"

text \<open>The \<open>BTreeMap\<close> is walked in the byte order of its keys; overflow is the only error.\<close>

definition aggregate_settlements :: "prepared_settlement list \<Rightarrow> batch_settlement_entry list option" where
  "aggregate_settlements entries =
     map_option (\<lambda>m. map (\<lambda>(k, a). \<lparr>bs_provider_token_account = k, bs_amount = a\<rparr>)
                       (sort_key (word_bytes \<circ> fst) m)) (aggregate_into entries [])"

definition batch_chunk_hash :: "(bytes \<Rightarrow> b32) \<Rightarrow> u64 \<Rightarrow> batch_settlement_entry list \<Rightarrow> batch_audit_entry list \<Rightarrow> b32" where
  "batch_chunk_hash sha256 batch_id settlements audits =
     sha256 (str_bytes ''a402-batch-chunk-v1'' @ word_bytes batch_id
       @ concat (map (\<lambda>s. word_bytes (bs_provider_token_account s) @ word_bytes (bs_amount s)) settlements)
       @ concat (map (\<lambda>a. word_bytes (ba_encrypted_sender a) @ word_bytes (ba_encrypted_amount a)
            @ word_bytes (ba_provider a) @ word_bytes (ba_timestamp a)) audits))"

end
