(* ===== verification/Batch_Properties.thy ===== *)
theory Batch_Properties
  imports Batch Asc_Correct Batch_Pairing "HOL-Library.Multiset"
begin

text \<open>
  The theorems of batch construction: privacy window and payout floor, the round-robin
  selection, chunking within the limits the chain enforces, exact aggregation, the hash the
  chain recomputes; and two shortcomings of the source, stated as theorems.
\<close>

section \<open>Eligibility\<close>

definition eligible :: "i64 \<Rightarrow> batch_build_mode \<Rightarrow> batch_privacy_config \<Rightarrow> string \<times> i64 \<times> u64 \<Rightarrow> bool" where
  "eligible t mode config c \<longleftrightarrow> mode = Flush \<or> settlement_is_age_eligible (sint t - sint (fst (snd c))) config"

lemma add_candidate_fold_ids:
  "fst (fold (add_candidate t mode config) cs (ids, a, o'))
     = ids @ map fst (filter (eligible t mode config) cs)"
  by (induction cs arbitrary: ids a o')
    (auto simp: add_candidate_def eligible_def split: batch_build_mode.splits prod.splits)

text \<open>
  Privacy: an automatic batch takes from a provider exactly the settlements that have aged
  past the anonymity window or the liveness ceiling, in the provider's order; if it takes any,
  the payout floor was reached or the oldest of them hit the ceiling.
\<close>

theorem auto_selection_respects_privacy:
  assumes "select_provider_batch_entries cs t Auto config = Some sel"
  shows "sel_settlement_ids sel = map fst (filter (\<lambda>(_, ts, _).
       900 \<le> sint t - sint ts \<or> sint (bp_min_anonymity_window_sec config) \<le> sint t - sint ts) cs)
    \<and> sel_settlement_ids sel \<noteq> []
    \<and> (\<exists>amount. amount \<noteq> 0 \<and> (900 \<le> sint t - sint (sel_oldest_timestamp sel)
         \<or> bp_auto_batch_min_provider_payout_atomic config \<le> amount))"
proof -
  obtain ids a old where f: "fold (add_candidate t Auto config) cs ([], 0, None) = (ids, a, old)"
    by (cases "fold (add_candidate t Auto config) cs ([], 0, None)")
  have "ids = map fst (filter (eligible t Auto config) cs)"
    using add_candidate_fold_ids [of t Auto config cs "[]" 0 None] f by simp
  moreover have "eligible t Auto config = (\<lambda>(_, ts, _). 900 \<le> sint t - sint ts
      \<or> sint (bp_min_anonymity_window_sec config) \<le> sint t - sint ts)"
    by (auto simp: eligible_def settlement_is_age_eligible_def MAX_SETTLEMENT_DELAY_SEC_def fun_eq_iff)
  ultimately show ?thesis
    using assms f
    by (auto simp: select_provider_batch_entries_def Let_def provider_payout_floor_satisfied_def
        MAX_SETTLEMENT_DELAY_SEC_def split: if_splits intro!: exI [of _ a])
qed

theorem auto_selection_respects_privacy_witness:
  "\<exists>sel. select_provider_batch_entries [(''a'', 600, 5000000), (''b'', 900, 7)] 1000 Auto default_batch_privacy_config = Some sel
     \<and> sel_settlement_ids sel = [''a'']"
proof -
  have "\<exists>sel. select_provider_batch_entries [(''a'', 600, 5000000), (''b'', 900, 7)] 1000 Auto default_batch_privacy_config = Some sel"
    by (simp add: select_provider_batch_entries_def add_candidate_def settlement_is_age_eligible_def
        provider_payout_floor_satisfied_def default_batch_privacy_config_def MAX_SETTLEMENT_DELAY_SEC_def
        DEFAULT_MIN_ANONYMITY_WINDOW_SEC_def DEFAULT_AUTO_BATCH_MIN_PROVIDER_PAYOUT_ATOMIC_def saturating_add_def Let_def)
  then obtain sel where "select_provider_batch_entries [(''a'', 600, 5000000), (''b'', 900, 7)] 1000 Auto
      default_batch_privacy_config = Some sel" by blast
  from this auto_selection_respects_privacy [OF this] show ?thesis
    by (simp add: default_batch_privacy_config_def DEFAULT_MIN_ANONYMITY_WINDOW_SEC_def)
qed

text \<open>
  The batch loop fires with too few providers only when the oldest credit has reached the
  liveness ceiling, and it always fires then if any provider is due.
\<close>

theorem decide_batch_liveness_and_privacy:
  "(0 < n \<and> 900 \<le> oldest \<longrightarrow> decide_batch_action now elapsed window n oldest j sj minp = (Fire, None))
   \<and> (fst (decide_batch_action now elapsed window n oldest j sj minp) = Fire \<longrightarrow>
        0 < n \<and> (minp \<le> n \<or> 900 \<le> oldest))"
  by (auto simp: decide_batch_action_def Let_def MAX_SETTLEMENT_DELAY_SEC_def split: if_splits)

theorem decide_batch_liveness_and_privacy_witness:
  "decide_batch_action 5000 10 120 1 901 (Some 9000) 4 2 = (Fire, None)"
  using decide_batch_liveness_and_privacy [of 1 901 5000 10 120 "Some 9000" 4 2] by simp

section \<open>Round robin\<close>

text \<open>What a pass and the whole loop select of each cursor is the next part of its ids.\<close>

definition taken :: "provider_batch_cursor \<Rightarrow> (string \<times> string) list" where
  "taken c = map (Pair (pbc_provider_id c)) (take (pbc_next_index c) (pbc_settlement_ids c))"

definition left :: "provider_batch_cursor list \<Rightarrow> nat" where
  "left cs = (\<Sum>c\<leftarrow>cs. length (pbc_settlement_ids c) - pbc_next_index c)"

lemma taken_next: "pbc_next_index c < length (pbc_settlement_ids c) \<Longrightarrow>
    taken (c\<lparr>pbc_next_index := Suc (pbc_next_index c)\<rparr>) = taken c @ [(pbc_provider_id c, pbc_settlement_ids c ! pbc_next_index c)]"
  by (simp add: taken_def take_Suc_conv_app_nth)

lemma left_Cons [simp]: "left (c # cs) = (length (pbc_settlement_ids c) - pbc_next_index c) + left cs"
  by (simp add: left_def)

lemma left_Nil [simp]: "left [] = 0"
  by (simp add: left_def)

text \<open>\<open>even_at r cs\<close>: every cursor has been read up to index \<open>r\<close>, as far as its ids go.\<close>

definition even_at :: "nat \<Rightarrow> provider_batch_cursor list \<Rightarrow> bool" where
  "even_at r cs \<longleftrightarrow> (\<forall>c\<in>set cs. pbc_next_index c = min (length (pbc_settlement_ids c)) r)"

definition nearly_even_at :: "nat \<Rightarrow> provider_batch_cursor list \<Rightarrow> bool" where
  "nearly_even_at r cs \<longleftrightarrow> (\<forall>c\<in>set cs. min (length (pbc_settlement_ids c)) r \<le> pbc_next_index c
     \<and> pbc_next_index c \<le> min (length (pbc_settlement_ids c)) (r + 1))"

definition same_ids :: "provider_batch_cursor \<Rightarrow> provider_batch_cursor \<Rightarrow> bool" where
  "same_ids c c' \<longleftrightarrow> pbc_provider_id c' = pbc_provider_id c \<and> pbc_settlement_ids c' = pbc_settlement_ids c"

lemma same_ids_refl [simp]: "same_ids c c"
  by (simp add: same_ids_def)

lemma same_ids_list_refl: "list_all2 same_ids cs cs"
  by (simp add: list_all2_same)

lemma even_nearly: "even_at r cs \<Longrightarrow> nearly_even_at r cs"
  by (auto simp: even_at_def nearly_even_at_def)

lemma pass_cursors_effect:
  assumes "pass_cursors m cs sel = (cs', sel')" and "even_at r cs"
  shows "mset sel' + mset (concat (map taken cs)) = mset sel + mset (concat (map taken cs'))
    \<and> length sel' + left cs' = length sel + left cs
    \<and> list_all2 same_ids cs cs' \<and> nearly_even_at r cs'
    \<and> (length sel' < m \<longrightarrow> even_at (r + 1) cs')
    \<and> (length sel' = length sel \<longrightarrow> m \<le> length sel \<or> left cs = 0)"
  using assms
proof (induction m cs sel arbitrary: cs' sel' rule: pass_cursors.induct)
  case (2 m c cs sel)
  consider (full) "m \<le> length sel" | (pick) "length sel < m" "pbc_next_index c < length (pbc_settlement_ids c)"
    | (spent) "length sel < m" "length (pbc_settlement_ids c) \<le> pbc_next_index c" by linarith
  then show ?case
  proof cases
    case full
    with 2(3,4) show ?thesis by (auto simp: same_ids_list_refl list_all2_same intro: even_nearly)
  next
    case pick
    let ?c = "c\<lparr>pbc_next_index := pbc_next_index c + 1\<rparr>"
    let ?sel = "sel @ [(pbc_provider_id c, pbc_settlement_ids c ! pbc_next_index c)]"
    obtain ds where p: "pass_cursors m cs ?sel = (ds, sel')" and cs': "cs' = ?c # ds"
      using 2(3) pick by (auto split: prod.splits)
    have ev: "even_at r cs" and ci: "pbc_next_index c = r"
      using 2(4) pick by (auto simp: even_at_def)
    note IH = 2(1) [OF _ pick(2) p ev]
    have "length ?sel \<le> length sel'" using pass_cursors_length [OF p] by simp
    with IH pick ci show ?thesis
      by (auto simp: cs' taken_next [OF pick(2)] nearly_even_at_def even_at_def same_ids_def)
  next
    case spent
    obtain ds where p: "pass_cursors m cs sel = (ds, sel')" and cs': "cs' = c # ds"
      using 2(3) spent by (auto split: prod.splits)
    have ev: "even_at r cs" and ci: "pbc_next_index c = length (pbc_settlement_ids c)" "length (pbc_settlement_ids c) \<le> r"
      using 2(4) spent by (auto simp: even_at_def)
    have "\<not> m \<le> length sel" "\<not> pbc_next_index c < length (pbc_settlement_ids c)" using spent by auto
    from 2(2) [OF this p ev] ci show ?thesis
      by (auto simp: cs' nearly_even_at_def even_at_def)
  qed
qed (simp add: nearly_even_at_def even_at_def)

lemma same_ids_trans: "list_all2 same_ids as bs \<Longrightarrow> list_all2 same_ids bs cs \<Longrightarrow> list_all2 same_ids as cs"
  by (rule list_all2_trans) (auto simp: same_ids_def)

lemma mset_shift:
  fixes A :: "'a multiset"
  assumes "B + S = A + D" and "R + D = B + E"
  shows "R + S = A + E"
proof -
  have "R + S + (B + D) = A + E + (B + D)"
    using arg_cong2 [OF assms, of "(+)"] by (simp only: ac_simps)
  then show ?thesis by simp
qed

lemma select_passes_effect:
  assumes "even_at r cs" and "length sel \<le> m"
  shows "\<exists>cs' r'. list_all2 same_ids cs cs' \<and> nearly_even_at r' cs'
    \<and> mset (select_passes m cs sel) + mset (concat (map taken cs)) = mset sel + mset (concat (map taken cs'))
    \<and> length (select_passes m cs sel) = min m (length sel + left cs)"
  using assms
proof (induction m cs sel arbitrary: r rule: select_passes.induct)
  case (1 m cs sel)
  obtain ds sel' where p: "pass_cursors m cs sel = (ds, sel')"
    by (cases "pass_cursors m cs sel")
  note eff = pass_cursors_effect [OF p 1(2)]
  have len: "length sel \<le> length sel'" "length sel' \<le> m"
    using pass_cursors_length [OF p] 1(3) by auto
  consider (full) "length sel = m" | (stuck) "length sel < m" "length sel' = length sel"
    | (last) "length sel < m" "length sel' \<noteq> length sel" "length sel' = m"
    | (go) "length sel < m" "length sel' \<noteq> length sel" "length sel' < m"
    using 1(3) len by linarith
  then show ?case
  proof cases
    case full
    then have "select_passes m cs sel = sel" by (simp add: select_passes.simps)
    with full 1(2) show ?thesis
      using even_nearly [OF 1(2)] same_ids_list_refl [of cs] by auto
  next
    case stuck
    then have "select_passes m cs sel = sel'" by (simp add: select_passes.simps [of m cs sel] p)
    with stuck eff 1(3) show ?thesis
      by (intro exI [of _ ds] exI [of _ r]) auto
  next
    case last
    then have "select_passes m cs sel = sel'"
      by (simp add: select_passes.simps [of m cs sel] p select_passes.simps [of m ds sel'])
    with last eff show ?thesis
      by (intro exI [of _ ds] exI [of _ r]) auto
  next
    case go
    then have sp: "select_passes m cs sel = select_passes m ds sel'"
      by (simp add: select_passes.simps [of m cs sel] p)
    from eff go have ev: "even_at (r + 1) ds" by simp
    obtain es r' where IH: "list_all2 same_ids ds es" "nearly_even_at r' es"
      "mset (select_passes m ds sel') + mset (concat (map taken ds)) = mset sel' + mset (concat (map taken es))"
      "length (select_passes m ds sel') = min m (length sel' + left ds)"
      using 1(1) [OF go(1) p [symmetric] _ go(2) ev len(2)] by auto
    have "mset (select_passes m ds sel') + mset (concat (map taken cs)) = mset sel + mset (concat (map taken es))"
      by (rule mset_shift [OF _ IH(3)]) (use eff in blast)
    moreover have "list_all2 same_ids cs es" using eff IH(1) same_ids_trans by blast
    ultimately show ?thesis using IH(2,4) eff sp by auto
  qed
qed

lemma sum_list_mset_eq: "mset xs = mset ys \<Longrightarrow> (\<Sum>x\<leftarrow>xs. f x :: nat) = (\<Sum>x\<leftarrow>ys. f x)"
  by (simp flip: sum_mset_sum_list)

text \<open>
  Fairness and completeness of a batch: with fresh cursors the selection has exactly
  \<open>min max_entries n\<close> entries, \<open>n\<close> the number of eligible settlements; it takes from every
  provider an initial segment of its ids, and no provider is more than one round ahead of
  another that still has ids left.
\<close>

theorem select_batch_round_robin:
  assumes "\<forall>c\<in>set cursors. pbc_next_index c = 0"
  shows "length (select_batch_settlement_ids cursors m) = min m (\<Sum>c\<leftarrow>cursors. length (pbc_settlement_ids c))
    \<and> (\<exists>cs r. mset (map (\<lambda>c. (pbc_provider_id c, pbc_settlement_ids c)) cs)
             = mset (map (\<lambda>c. (pbc_provider_id c, pbc_settlement_ids c)) (filter (\<lambda>c. pbc_settlement_ids c \<noteq> []) cursors))
         \<and> nearly_even_at r cs
         \<and> mset (select_batch_settlement_ids cursors m) = mset (concat (map taken cs)))"
proof -
  let ?f = "filter (\<lambda>c. pbc_settlement_ids c \<noteq> []) cursors"
  let ?s = "sort_key (\<lambda>c. (sint (pbc_oldest_credit_at c), pbc_provider_id c)) ?f"
  let ?k = "\<lambda>c. (pbc_provider_id c, pbc_settlement_ids c)"
  have zero: "\<forall>c\<in>set ?s. pbc_next_index c = 0" using assms by auto
  then have ev: "even_at 0 ?s" and tk: "concat (map taken ?s) = []"
    by (auto simp: even_at_def taken_def)
  obtain cs r where e: "list_all2 same_ids ?s cs" "nearly_even_at r cs"
    "mset (select_passes m ?s []) + mset (concat (map taken ?s)) = mset [] + mset (concat (map taken cs))"
    "length (select_passes m ?s []) = min m (length ([] :: (string \<times> string) list) + left ?s)"
    using select_passes_effect [OF ev, of "[]" m] by auto
  have "map ?k cs = map ?k ?s" using e(1) by (induction rule: list_all2_induct) (auto simp: same_ids_def)
  then have "mset (map ?k cs) = image_mset ?k (mset ?s)" by simp
  moreover have "left ?s = (\<Sum>c\<leftarrow>?s. length (pbc_settlement_ids c))"
    using zero unfolding left_def by (intro arg_cong [where f = sum_list] map_cong) auto
  moreover have "(\<Sum>c\<leftarrow>?s. length (pbc_settlement_ids c)) = (\<Sum>c\<leftarrow>?f. length (pbc_settlement_ids c))"
    by (intro sum_list_mset_eq) simp
  moreover have "(\<Sum>c\<leftarrow>?f. length (pbc_settlement_ids c)) = (\<Sum>c\<leftarrow>cursors. length (pbc_settlement_ids c))"
    by (induction cursors) auto
  ultimately have "length (select_passes m ?s []) = min m (\<Sum>c\<leftarrow>cursors. length (pbc_settlement_ids c))"
      and "mset (map ?k cs) = mset (map ?k ?f)"
    using e(4) by simp_all
  moreover have "mset (select_passes m ?s []) = mset (concat (map taken cs))" using e(3) tk by simp
  ultimately show ?thesis
    using e(2) unfolding select_batch_settlement_ids_def Let_def by blast
qed

definition demo_cursor :: "string \<Rightarrow> string list \<Rightarrow> provider_batch_cursor" where
  "demo_cursor p ids = \<lparr>pbc_provider_id = p, pbc_oldest_credit_at = 7, pbc_settlement_ids = ids, pbc_next_index = 0\<rparr>"

theorem select_batch_round_robin_witness:
  "length (select_batch_settlement_ids [demo_cursor ''p'' [''a'', ''b'', ''c''], demo_cursor ''q'' [''d'']] 3) = 3"
  using select_batch_round_robin [of "[demo_cursor ''p'' [''a'', ''b'', ''c''], demo_cursor ''q'' [''d'']]" 3]
  by (simp add: demo_cursor_def)

section \<open>Chunks\<close>

text \<open>
  The cut is described by the sizes of the chunks: \<open>cut_chunks\<close> splits off consecutive pieces.
\<close>

definition chunk_sizes :: "nat \<Rightarrow> nat \<Rightarrow> nat list \<Rightarrow> nat list" where
  "chunk_sizes b e is = map (\<lambda>i. b + (if i < e then 1 else 0)) is"

lemma cut_chunks_entries:
  "start + sum_list (chunk_sizes b e is) \<le> length es \<Longrightarrow>
     concat (map bc_entries (cut_chunks b e is start es)) = take (sum_list (chunk_sizes b e is)) (drop start es)
     \<and> map (length \<circ> bc_entries) (cut_chunks b e is start es) = chunk_sizes b e is"
  by (induction "is" arbitrary: start) (auto simp: chunk_sizes_def Let_def take_add add.commute)

lemma cut_chunks_start:
  "c \<in> set (cut_chunks b e is start es) \<Longrightarrow>
     \<exists>n. bc_start_index c = of_nat n \<and> start \<le> n \<and> n \<le> start + sum_list (chunk_sizes b e is)
         \<and> bc_entries c = take (length (bc_entries c)) (drop n es)"
proof (induction "is" arbitrary: start)
  case (Cons i "is")
  let ?n = "b + (if i < e then 1 else 0)"
  from Cons.prems consider (here) "c = \<lparr>bc_start_index = of_nat start, bc_entries = take ?n (drop start es)\<rparr>"
    | (rest) "c \<in> set (cut_chunks b e is (start + ?n) es)" by (auto simp: Let_def)
  then show ?case
  proof cases
    case here then show ?thesis by (intro exI [of _ start]) (auto simp: min_def)
  next
    case rest
    from Cons.IH [OF rest] show ?thesis by (fastforce simp: chunk_sizes_def)
  qed
qed simp

lemma sum_chunk_sizes_all: "sum_list (chunk_sizes b e [0..<n]) = b * n + min e n"
  by (induction n) (auto simp: chunk_sizes_def min_def)

lemma pairs_division:
  assumes "0 < (l :: nat)"
  shows "(l div ((l + 2 - 1) div 2) = 2 \<and> l mod ((l + 2 - 1) div 2) = 0) \<or> l div ((l + 2 - 1) div 2) = 1"
proof (cases "even l")
  case True
  then obtain k where "l = 2 * k" by blast
  with assms show ?thesis by simp
next
  case False
  then obtain k where "l = 2 * k + 1" by (rule oddE)
  moreover have "(2 * k + 1) div (k + 1) = 1" by (rule div_nat_eqI) simp_all
  ultimately show ?thesis by simp
qed

lemma build_batch_chunks_cut:
  assumes "es \<noteq> []"
  obtains b e n where "build_batch_chunks es = cut_chunks b e [0..<n] 0 es"
    and "sum_list (chunk_sizes b e [0..<n]) = length es" and "set (chunk_sizes b e [0..<n]) \<subseteq> {1, 2}"
proof -
  let ?l = "length es" let ?n = "(?l + 2 - 1) div 2"
  have n0: "0 < ?n" using assms by (cases es) auto
  have "sum_list (chunk_sizes (?l div ?n) (?l mod ?n) [0..<?n]) = ?l"
    using n0 by (simp only: sum_chunk_sizes_all min_absorb1 [OF less_imp_le [OF mod_less_divisor]] div_mult_mod_eq)
  moreover have "set (chunk_sizes (?l div ?n) (?l mod ?n) [0..<?n]) \<subseteq> {1, 2}"
    using pairs_division [of ?l] assms unfolding chunk_sizes_def by (auto split: if_splits)
  moreover have "build_batch_chunks es = cut_chunks (?l div ?n) (?l mod ?n) [0..<?n] 0 es"
    using assms by (simp add: build_batch_chunks_def MAX_ATOMIC_SETTLEMENTS_WITH_AUDIT_def Let_def)
  ultimately show thesis using that by blast
qed

lemma build_batch_chunks_size:
  assumes c: "c \<in> set (build_batch_chunks es)"
  shows "length (bc_entries c) \<in> {1, 2}"
proof -
  have "es \<noteq> []" using c by (auto simp: build_batch_chunks_def)
  then obtain b e n where B: "build_batch_chunks es = cut_chunks b e [0..<n] 0 es"
    and S: "sum_list (chunk_sizes b e [0..<n]) = length es" and T: "set (chunk_sizes b e [0..<n]) \<subseteq> {1, 2}"
    by (rule build_batch_chunks_cut)
  have "map (length \<circ> bc_entries) (build_batch_chunks es) = chunk_sizes b e [0..<n]"
    using cut_chunks_entries [of 0 b e "[0..<n]" es] S by (simp add: B)
  then have "(length \<circ> bc_entries) c \<in> set (chunk_sizes b e [0..<n])" using c by (metis image_eqI set_map)
  with T show ?thesis by auto
qed

text \<open>
  A batch is cut into chunks of one or two settlements (what fits one atomic transaction
  with its audit records), in order, without losing or repeating an entry; the start index
  of a chunk is the position of its first entry.
\<close>

theorem build_batch_chunks_partition:
  assumes "length es \<le> 255"
  shows "concat (map bc_entries (build_batch_chunks es)) = es
    \<and> (\<forall>c\<in>set (build_batch_chunks es). length (bc_entries c) \<in> {1, 2}
         \<and> bc_entries c = take (length (bc_entries c)) (drop (unat (bc_start_index c)) es))"
proof (cases "es = []")
  case True then show ?thesis by (simp add: build_batch_chunks_def)
next
  case False
  then obtain b e n where B: "build_batch_chunks es = cut_chunks b e [0..<n] 0 es"
    and S: "sum_list (chunk_sizes b e [0..<n]) = length es"
    by (rule build_batch_chunks_cut)
  have P: "concat (map bc_entries (build_batch_chunks es)) = es"
    using cut_chunks_entries [of 0 b e "[0..<n]" es] S by (simp add: B)
  have "length (bc_entries c) \<in> {1, 2} \<and> bc_entries c = take (length (bc_entries c)) (drop (unat (bc_start_index c)) es)"
    if c: "c \<in> set (build_batch_chunks es)" for c
  proof
    show "length (bc_entries c) \<in> {1, 2}" using c by (rule build_batch_chunks_size)
    obtain k where k: "bc_start_index c = of_nat k" "k \<le> length es"
      "bc_entries c = take (length (bc_entries c)) (drop k es)"
      using cut_chunks_start [of c b e "[0..<n]" 0 es] c S by (auto simp: B)
    then have "unat (bc_start_index c) = k" using assms by (simp add: unat_of_nat)
    with k(3) show "bc_entries c = take (length (bc_entries c)) (drop (unat (bc_start_index c)) es)" by simp
  qed
  with P show ?thesis by blast
qed

definition demo_entry :: "string \<Rightarrow> u64 \<Rightarrow> prepared_settlement" where
  "demo_entry sid amount = \<lparr>pp_settlement_id = sid, pp_provider_id = ''p'',
     pp_settlement = \<lparr>bs_provider_token_account = 55, bs_amount = amount\<rparr>,
     pp_audit = \<lparr>ba_encrypted_sender = 1, ba_encrypted_amount = 2, ba_provider = 55, ba_timestamp = 9\<rparr>\<rparr>"

theorem build_batch_chunks_partition_witness:
  "concat (map bc_entries (build_batch_chunks [demo_entry ''a'' 1, demo_entry ''b'' 2, demo_entry ''c'' 3]))
     = [demo_entry ''a'' 1, demo_entry ''b'' 2, demo_entry ''c'' 3]"
  using build_batch_chunks_partition [of "[demo_entry ''a'' 1, demo_entry ''b'' 2, demo_entry ''c'' 3]"] by simp

section \<open>Aggregation and the hash\<close>

definition paid_to :: "pubkey \<Rightarrow> prepared_settlement list \<Rightarrow> nat" where
  "paid_to k es = (\<Sum>e\<leftarrow>es. if bs_provider_token_account (pp_settlement e) = k then unat (bs_amount (pp_settlement e)) else 0)"

definition held_for :: "pubkey \<Rightarrow> (pubkey, u64) dashmap \<Rightarrow> nat" where
  "held_for k m = (case dm_get m k of None \<Rightarrow> 0 | Some a \<Rightarrow> unat a)"

lemma held_for_insert: "held_for k (dm_insert k' a m) = (if k = k' then unat a else held_for k m)"
  by (simp add: held_for_def dm_get_insert)

lemma aggregate_into_effect:
  "aggregate_into es m = Some m' \<Longrightarrow> dm_wf m \<Longrightarrow>
     dm_wf m' \<and> held_for k m' = held_for k m + paid_to k es
     \<and> (dm_get m' k \<noteq> None \<longleftrightarrow> dm_get m k \<noteq> None \<or> k \<in> (\<lambda>e. bs_provider_token_account (pp_settlement e)) ` set es)"
proof (induction es m rule: aggregate_into.induct)
  case (2 e es m)
  let ?k = "bs_provider_token_account (pp_settlement e)"
  let ?old = "case dm_get m ?k of None \<Rightarrow> 0 | Some a \<Rightarrow> a"
  obtain a where a: "checked_add ?old (bs_amount (pp_settlement e)) = Some a"
    and r: "aggregate_into es (dm_insert ?k a m) = Some m'"
    using 2(2) by (auto simp: Let_def split: option.splits)
  have "unat a = held_for ?k m + unat (bs_amount (pp_settlement e))"
    using checked_add_SomeD [OF a] by (auto simp: held_for_def split: option.splits)
  with 2(1) [OF refl refl a r] 2(3) show ?case
    by (auto simp: held_for_insert paid_to_def dm_get_insert)
qed (simp add: paid_to_def)

text \<open>
  The chunk submitted on chain pays every provider account exactly the sum of its
  settlements in the chunk, names each account once, and names no other account.
\<close>

theorem aggregate_settlements_exact:
  assumes "aggregate_settlements es = Some agg"
  shows "distinct (map bs_provider_token_account agg)
    \<and> bs_provider_token_account ` set agg = (bs_provider_token_account \<circ> pp_settlement) ` set es
    \<and> (\<forall>s\<in>set agg. unat (bs_amount s) = paid_to (bs_provider_token_account s) es)"
proof -
  obtain m where m: "aggregate_into es [] = Some m"
    and agg: "agg = map (\<lambda>(k, a). \<lparr>bs_provider_token_account = k, bs_amount = a\<rparr>) (sort_key (word_bytes \<circ> fst) m)"
    using assms by (auto simp: aggregate_settlements_def)
  note eff = aggregate_into_effect [OF m dm_wf_Nil]
  have wf: "distinct (map fst m)" using eff by (simp add: dm_wf_def)
  have acc: "map bs_provider_token_account agg = map fst (sort_key (word_bytes \<circ> fst) m)"
    by (simp add: agg case_prod_beta comp_def)
  have "distinct (map fst (sort_key (word_bytes \<circ> fst) m))"
    using wf by (simp add: distinct_map)
  moreover have "fst ` set m = (bs_provider_token_account \<circ> pp_settlement) ` set es"
    using eff by (auto simp: map_of_eq_None_iff)
  moreover have "unat (bs_amount s) = paid_to (bs_provider_token_account s) es" if s: "s \<in> set agg" for s
  proof -
    obtain k a where "s = \<lparr>bs_provider_token_account = k, bs_amount = a\<rparr>" "(k, a) \<in> set m"
      using s by (auto simp: agg)
    with wf eff [of k] show ?thesis by (simp add: held_for_def)
  qed
  ultimately show ?thesis using acc by (metis set_map set_sort)
qed

theorem aggregate_settlements_exact_witness:
  "\<exists>agg. aggregate_settlements [demo_entry ''a'' 30, demo_entry ''b'' 12] = Some agg
     \<and> distinct (map bs_provider_token_account agg) \<and> (\<forall>s\<in>set agg. unat (bs_amount s) = 42)"
proof -
  have "\<exists>agg. aggregate_settlements [demo_entry ''a'' 30, demo_entry ''b'' 12] = Some agg"
    by (simp add: aggregate_settlements_def demo_entry_def Let_def)
  then obtain agg where "aggregate_settlements [demo_entry ''a'' 30, demo_entry ''b'' 12] = Some agg" by blast
  from this aggregate_settlements_exact [OF this] show ?thesis
    by (auto simp: paid_to_def demo_entry_def)
qed

text \<open>The enclave and the program hash a chunk to the same value.\<close>

definition onchain_entry :: "batch_settlement_entry \<Rightarrow> settlement_entry" where
  "onchain_entry s = \<lparr>se_provider_token_account = bs_provider_token_account s, se_amount = bs_amount s\<rparr>"

definition onchain_record :: "batch_audit_entry \<Rightarrow> audit_record_data" where
  "onchain_record a = \<lparr>ad_encrypted_sender = ba_encrypted_sender a, ad_encrypted_amount = ba_encrypted_amount a,
     ad_provider = ba_provider a, ad_timestamp = ba_timestamp a\<rparr>"

lemma batch_chunk_hash_is_onchain:
  "batch_chunk_hash sha256 batch_id settlements recs
     = compute_batch_chunk_hash sha256 batch_id (map onchain_entry settlements) (map onchain_record recs)"
  by (simp add: batch_chunk_hash_def compute_batch_chunk_hash_def batch_chunk_preimage_def onchain_entry_def
      onchain_record_def settlement_entry_bytes_def audit_record_data_bytes_def comp_def)

section \<open>Two shortcomings\<close>

lemma prepare_batch_timestamp:
  "e \<in> set (fst (prepare_batch C sha256 hkdf rand t mode config v)) \<Longrightarrow> ba_timestamp (pp_audit e) = t"
  by (auto simp: prepare_batch_def generate_audit_record_at_def Let_def map_filter_def split: prod.splits)

lemma cut_chunks_sub: "c \<in> set (cut_chunks b e is start es) \<Longrightarrow> set (bc_entries c) \<subseteq> set es"
proof (induction "is" arbitrary: start)
  case (Cons i "is")
  then show ?case by (auto simp: Let_def dest!: in_set_takeD in_set_dropD)
qed simp

lemma build_batch_chunks_sub: "c \<in> set (build_batch_chunks es) \<Longrightarrow> set (bc_entries c) \<subseteq> set es"
  by (auto simp: build_batch_chunks_def Let_def dest!: cut_chunks_sub split: if_splits)

text \<open>
  The audit record of a batch carries the batch's own time, so the age the chunk filter
  computes is zero: in automatic mode a chunk is submitted exactly when it names enough
  provider accounts, however long its settlements have waited. The liveness ceiling of
  \<open>privacy_filter_batch_chunks\<close> has no effect.
\<close>

theorem privacy_filter_ignores_age:
  "privacy_filter_batch_chunks (build_batch_chunks (fst (prepare_batch C sha256 hkdf rand t Auto config v))) t Auto config
     = filter (\<lambda>c. bp_min_batch_providers config
           \<le> card (set (map (bs_provider_token_account \<circ> pp_settlement) (bc_entries c))))
         (build_batch_chunks (fst (prepare_batch C sha256 hkdf rand t Auto config v)))"
    (is "privacy_filter_batch_chunks (build_batch_chunks ?es) t Auto config = filter ?enough _")
proof -
  have "\<not> list_ex (\<lambda>e. MAX_SETTLEMENT_DELAY_SEC \<le> sint t - sint (ba_timestamp (pp_audit e))) (bc_entries c)"
    if "c \<in> set (build_batch_chunks ?es)" for c
    using build_batch_chunks_sub [OF that] prepare_batch_timestamp
    by (fastforce simp: list_ex_iff MAX_SETTLEMENT_DELAY_SEC_def)
  moreover have "?enough c" if "c \<in> set (build_batch_chunks ?es)" "bp_min_batch_providers config \<le> 1" for c
  proof -
    have "bc_entries c \<noteq> []" using build_batch_chunks_size [OF that(1)] by auto
    then have "0 < card (set (map (bs_provider_token_account \<circ> pp_settlement) (bc_entries c)))"
      by (simp add: card_gt_0_iff)
    with that(2) show ?thesis by simp
  qed
  ultimately show ?thesis
    unfolding privacy_filter_batch_chunks_def Let_def
    by (auto intro!: filter_cong [OF refl] simp: filter_id_conv [THEN iffD2])
qed

text \<open>Collecting leaves an id that no reservation explains out of the history and reports it.\<close>

definition unexplained :: "string \<Rightarrow> vault_state \<Rightarrow> bool" where
  "unexplained sid v \<longleftrightarrow> dm_get (settlement_history v) sid = None
     \<and> (\<forall>(_, r)\<in>set (reservations v). rs_settlement_id r \<noteq> Some sid)"

lemma unexplained_reconstruct: "unexplained sid v \<Longrightarrow> reconstruct_settlement_record p sid v = None"
  by (auto simp: unexplained_def reconstruct_settlement_record_def find_Some_iff split: option.splits dest!: nth_mem)

lemma collect_provider_unexplained:
  "collect_provider p sids v = (ts, miss, v') \<Longrightarrow> unexplained sid v \<Longrightarrow>
     unexplained sid v' \<and> provider_credits v' = provider_credits v \<and> (sid \<in> set sids \<longrightarrow> (p, sid) \<in> set miss)"
proof (induction p sids v arbitrary: ts miss v' rule: collect_provider.induct)
  case (2 p s sids v)
  show ?case
  proof (cases "dm_get (settlement_history v) s")
    case (Some r)
    then obtain ts1 where "collect_provider p sids v = (ts1, miss, v')"
      using 2(2) by (auto split: prod.splits)
    with 2(1) [of "(Some r, v)" "Some r" v] 2(3) Some show ?thesis
      by (auto simp: unexplained_def)
  next
    case None
    show ?thesis
    proof (cases "reconstruct_settlement_record p s v")
      case (Some r)
      let ?v = "v\<lparr>settlement_history := dm_insert s r (settlement_history v)\<rparr>"
      obtain ts1 where c: "collect_provider p sids ?v = (ts1, miss, v')"
        using 2(2) None Some by (auto split: prod.splits)
      have "s \<noteq> sid" using Some unexplained_reconstruct [OF 2(3)] by auto
      moreover from this 2(3) have "unexplained sid ?v" by (auto simp: unexplained_def dm_get_insert)
      ultimately show ?thesis using 2(1) [of "(Some r, ?v)" "Some r" ?v, OF _ refl c] None Some by auto
    next
      case none: None
      then obtain miss1 where "collect_provider p sids v = (ts, miss1, v')" "miss = (p, s) # miss1"
        using 2(2) None by (auto split: prod.splits)
      with 2(1) [of "(None, v)" None v] 2(3) None none show ?thesis by auto
    qed
  qed
qed simp

lemma collect_cursors_unexplained:
  "collect_cursors t mode config snaps v = (cs, miss, v') \<Longrightarrow> unexplained sid v \<Longrightarrow>
     unexplained sid v' \<and> provider_credits v' = provider_credits v
     \<and> ((p, sids) \<in> set snaps \<longrightarrow> sid \<in> set sids \<longrightarrow> (p, sid) \<in> set miss)"
proof (induction t mode config snaps v arbitrary: cs miss v' rule: collect_cursors.induct)
  case (2 t mode config q qs rest v)
  obtain ts m1 v1 where c1: "collect_provider q qs v = (ts, m1, v1)"
    by (cases "collect_provider q qs v")
  obtain cs2 m2 v2 where c2: "collect_cursors t mode config rest v1 = (cs2, m2, v2)"
    by (cases "collect_cursors t mode config rest v1")
  have "miss = m1 @ m2" "v' = v2" using 2(2) c1 c2 by (auto simp: Let_def split: option.splits)
  with collect_provider_unexplained [OF c1 2(3)] 2(1) [OF c1 [symmetric] refl refl c2] show ?case by auto
qed simp

text \<open>Pruning: the credit of \<open>p\<close> is gone, or still lists at most \<open>sid\<close>; it is gone after \<open>sid\<close>.\<close>

definition only_id :: "string \<Rightarrow> string \<Rightarrow> vault_state \<Rightarrow> bool" where
  "only_id p sid v \<longleftrightarrow> (\<forall>c. dm_get (provider_credits v) p = Some c \<longrightarrow> set (pc_settlement_ids c) \<subseteq> {sid})"

lemma recompute_credit_ids [simp]: "pc_settlement_ids (recompute_credit v c) = pc_settlement_ids c"
  by (simp add: recompute_credit_def Let_def split: option.splits)

lemma prune_only_id: "only_id p sid v \<Longrightarrow> only_id p sid (prune_missing_settlement_reference q s v)"
  by (auto simp: only_id_def prune_missing_settlement_reference_def Let_def dm_get_insert dm_get_remove
      split: option.splits if_splits)

lemma prune_gone: "dm_get (provider_credits v) p = None \<Longrightarrow>
    dm_get (provider_credits (prune_missing_settlement_reference q s v)) p = None"
  by (auto simp: prune_missing_settlement_reference_def Let_def dm_get_insert dm_get_remove
      split: option.splits if_splits)

lemma prune_removes: "only_id p sid v \<Longrightarrow>
    dm_get (provider_credits (prune_missing_settlement_reference p sid v)) p = None"
  by (auto simp: only_id_def prune_missing_settlement_reference_def Let_def dm_get_remove filter_empty_conv
      split: option.splits)

lemma prune_fold_gone: "dm_get (provider_credits v) p = None \<Longrightarrow>
    dm_get (provider_credits (fold (\<lambda>(q, s). prune_missing_settlement_reference q s) miss v)) p = None"
  by (induction miss arbitrary: v) (auto simp: prune_gone)

lemma prune_fold_removes:
  "only_id p sid v \<Longrightarrow> (p, sid) \<in> set miss \<Longrightarrow>
     dm_get (provider_credits (fold (\<lambda>(q, s). prune_missing_settlement_reference q s) miss v)) p = None"
  by (induction miss arbitrary: v) (auto simp: prune_only_id prune_removes prune_fold_gone)

lemma unexplained_credit_is_dropped:
  assumes "dm_get (provider_credits v) p = Some credit" and "pc_provider_id credit = p"
    and "pc_settlement_ids credit = [sid]" and "unexplained sid v"
  shows "dm_get (provider_credits (snd (build_provider_batch_cursors t mode config v))) p = None"
proof -
  let ?snaps = "map (\<lambda>(_, c). (pc_provider_id c, pc_settlement_ids c)) (provider_credits v)"
  obtain cs miss v1 where c: "collect_cursors t mode config ?snaps v = (cs, miss, v1)"
    by (cases "collect_cursors t mode config ?snaps v")
  have "(p, [sid]) \<in> set ?snaps" using map_of_SomeD [OF assms(1)] assms(2,3) by force
  with collect_cursors_unexplained [OF c assms(4), of p "[sid]"]
  have "(p, sid) \<in> set miss" and "provider_credits v1 = provider_credits v" by auto
  moreover from this have "only_id p sid v1" using assms(1,3) by (simp add: only_id_def)
  ultimately show ?thesis
    by (simp add: build_provider_batch_cursors_def c prune_fold_removes)
qed

lemma close_channel_credit:
  assumes "close_channel now uuid cid v = (Ok out, v')" and "0 < co_provider_earned out"
    and "dm_get (provider_credits v) (co_provider_id out) = None"
  shows "\<exists>c. dm_get (provider_credits v') (co_provider_id out) = Some c \<and> pc_provider_id c = co_provider_id out
    \<and> pc_credited_amount c = co_provider_earned out \<and> pc_settlement_ids c = [''asc_'' @ uuid]
    \<and> settlement_history v' = settlement_history v \<and> reservations v' = reservations v"
  using assms
  by (auto simp: close_channel_def close_channel_with_settlement_id_def refund_channel_def credit_channel_def
      put_balance_def Let_def dm_get_insert split: option.splits if_splits prod.splits outcome.splits)

text \<open>
  Closing a channel credits the provider under a fresh id that has neither a history entry
  nor a reservation. For a provider with no other credit, building the next batch finds that
  id missing and removes the credit: the earnings of the channel are never paid.
\<close>

theorem closed_channel_earnings_dropped:
  assumes "close_channel now uuid cid v = (Ok out, v')" and "0 < co_provider_earned out"
    and "dm_get (provider_credits v) (co_provider_id out) = None" and "unexplained (''asc_'' @ uuid) v"
  shows "(\<exists>c. dm_get (provider_credits v') (co_provider_id out) = Some c \<and> pc_credited_amount c = co_provider_earned out)
    \<and> dm_get (provider_credits (snd (build_provider_batch_cursors t mode config v'))) (co_provider_id out) = None"
proof -
  from close_channel_credit [OF assms(1-3)] obtain c
    where c: "dm_get (provider_credits v') (co_provider_id out) = Some c" "pc_provider_id c = co_provider_id out"
      "pc_credited_amount c = co_provider_earned out" "pc_settlement_ids c = [''asc_'' @ uuid]"
      and "settlement_history v' = settlement_history v" "reservations v' = reservations v" by blast
  with assms(4) have "unexplained (''asc_'' @ uuid) v'" by (simp add: unexplained_def)
  with c unexplained_credit_is_dropped [OF c(1,2,4)] show ?thesis by blast
qed

lemma demo_open_records: "settlement_history demo_open = []" "reservations demo_open = [(''ver'', demo_reservation)]"
  by (simp_all add: demo_open_def open_channel_def open_channel_with_id_def reserve_balance_def demo_defs
      put_balance_def put_channel_def Let_def)

lemma demo_paid_records: "settlement_history demo_paid = []" "reservations demo_paid = [(''ver'', demo_reservation)]"
  by (simp_all add: demo_paid_def finalize_offchain_def finalize_with_secret_def Let_def demo_channel_def
      demo_delivery_def demo_request_def word_curve_def adapt_def verify_adapted_def demo_hash_def
      pay_out_def checked_sub_def put_channel_def)
    (simp_all add: demo_pending_def demo_locked_def submit_request_def checked_sadd_def REQUEST_EXPIRY_SEC_def
      deliver_adaptor_def Let_def demo_channel_def demo_delivery_def demo_request_def word_curve_def
      pre_verify_def put_channel_def demo_open_records)

theorem closed_channel_earnings_dropped_witness:
  "\<exists>out v'. close_channel 1030 ''u'' ''ch_1'' demo_paid = (Ok out, v') \<and> co_provider_earned out = 40
     \<and> dm_get (provider_credits (snd (build_provider_batch_cursors 2000 Auto default_batch_privacy_config v'))) ''p1'' = None"
proof -
  let ?r = "close_channel 1030 ''u'' ''ch_1'' demo_paid"
  have "\<exists>out v'. ?r = (Ok out, v') \<and> co_provider_earned out = 40 \<and> co_provider_id out = ''p1''"
    by (simp add: close_channel_def close_channel_with_settlement_id_def demo_channel_def refund_channel_def
        demo_open_frame credit_channel_def demo_provider_def Let_def)
  then obtain out v' where r: "?r = (Ok out, v')" "co_provider_earned out = 40" "co_provider_id out = ''p1''" by blast
  have "unexplained (''asc_'' @ ''u'') demo_paid"
    by (simp add: unexplained_def demo_paid_records demo_reservation_def)
  from closed_channel_earnings_dropped [OF r(1) _ _ this] r show ?thesis
    by (auto simp: demo_open_frame)
qed

end
