(* ===== verification/Wal_Log.thy ===== *)
theory Wal_Log
  imports Enclave_State "HOL-Library.Countable"
begin

text \<open>
  The write-ahead log (first half of \<open>enclave/src/wal.rs\<close>): the entries, the encrypted envelope,
  appending, reading back in order, and the sequence number a restart derives. JSON, base64,
  hexadecimal, base58 and AES-GCM are library code: the record \<open>wal_lib\<close> collects them as
  parameters and \<open>wal_lib_laws\<close> states what the source relies on.
\<close>

section \<open>Entries\<close>

record wal_provider =
  wp_provider_id :: string
  wp_display_name :: string
  wp_participant_pubkey :: "string option"
  wp_participant_attestation_policy_hash :: "string option"
  wp_participant_attestation_verified_at_ms :: "i64 option"
  wp_participant_attestation_mode :: "string option"
  wp_settlement_token_account :: string
  wp_network :: string
  wp_asset_mint :: string
  wp_allowed_origins :: "string list"
  wp_auth_mode :: string
  wp_api_key_hash :: "string option"
  wp_mtls_cert_fingerprint :: "string option"
  wp_settlement_address :: "string option"
  wp_asset_id :: "string option"
  wp_chain_kind :: "string option"

text \<open>The constructors carry the fields in the order of the source; \<open>W\<close> keeps them apart from
  the errors of the same names.\<close>

datatype wal_entry =
    WDepositApplied (wd_client: string) (wd_amount: u64) (wd_slot: u64) (wd_tx: string)
  | WWithdrawAuthorized string string u64 u64 i64 i64
  | WWithdrawApplied string string u64 u64 i64 u64 string
  | WWithdrawExpired string u64
  | WReservationCreated string "string option" string string string u64 "string option" "string option"
      "i64 option" "i64 option"
  | WReservationCancelled string string
  | WReservationExpired string
  | WSettlementCommitted string string string u64 "i64 option"
  | WParticipantReceiptIssued string u8 u64
  | WParticipantReceiptMirrored string u8 u64
  | WProviderRegistered wal_provider
  | WClientBalanceSeeded string u64 u64 i64 u64 u64
  | WBatchSubmitted u64 nat u64
  | WBatchConfirmed u64 string "string list"
  | WChannelOpened string string string u64
  | WChannelRequestSubmitted string string u64 "string option"
  | WChannelRequestExpired string string u64
  | WChannelAdaptorDelivered string string "string option" "string option" "string option" "string option"
      "string option" "string option"
  | WChannelFinalized string string u64
  | WChannelClosed string u64 u64 "string option"
  | WBtcUtxoAdded string u32 u64 "string option"
  | WBtcUtxoSpent string u32 string
  | WBtcChangeCreated string u32 u64

record wal_record =
  wr_seqno :: u64
  wr_timestamp :: i64
  wr_entry :: wal_entry

record encrypted_wal_envelope =
  en_version :: u8
  en_nonce :: string
  en_ciphertext :: string

section \<open>Library code\<close>

record wal_lib =
  json_of_record :: "wal_record \<Rightarrow> bytes"
  record_of_json :: "bytes \<Rightarrow> wal_record option"
  json_of_envelope :: "encrypted_wal_envelope \<Rightarrow> bytes"
  envelope_of_json :: "bytes \<Rightarrow> encrypted_wal_envelope option"
  aes_encrypt :: "b32 \<Rightarrow> bytes \<Rightarrow> bytes \<Rightarrow> bytes option"
  aes_decrypt :: "b32 \<Rightarrow> bytes \<Rightarrow> bytes \<Rightarrow> bytes option"
  base64_encode :: "bytes \<Rightarrow> string"
  base64_decode :: "string \<Rightarrow> bytes option"
  hex_encode :: "bytes \<Rightarrow> string"
  hex_decode :: "string \<Rightarrow> bytes option"
  pubkey_from_str :: "string \<Rightarrow> pubkey option"
  pubkey_to_string :: "pubkey \<Rightarrow> string"
  txid_from_str :: "string \<Rightarrow> b32 option"

definition wal_lib_laws :: "wal_lib \<Rightarrow> bool" where
  "wal_lib_laws L \<longleftrightarrow>
     (\<forall>r. record_of_json L (json_of_record L r) = Some r)
   \<and> (\<forall>e. envelope_of_json L (json_of_envelope L e) = Some e)
   \<and> (\<forall>e. record_of_json L (json_of_envelope L e) = None)
   \<and> (\<forall>k n p c. aes_encrypt L k n p = Some c \<longrightarrow> aes_decrypt L k n c = Some p)
   \<and> (\<forall>bs. base64_decode L (base64_encode L bs) = Some bs)
   \<and> (\<forall>bs. hex_decode L (hex_encode L bs) = Some bs)
   \<and> (\<forall>k. pubkey_from_str L (pubkey_to_string L k) = Some k)"

section \<open>Envelope\<close>

definition encrypt_record :: "wal_lib \<Rightarrow> b32 \<Rightarrow> bytes \<Rightarrow> bytes \<Rightarrow> encrypted_wal_envelope option" where
  "encrypt_record L key nonce plaintext =
     map_option (\<lambda>ciphertext. \<lparr>en_version = 1, en_nonce = base64_encode L nonce,
       en_ciphertext = base64_encode L ciphertext\<rparr>) (aes_encrypt L key nonce plaintext)"

definition decrypt_record :: "wal_lib \<Rightarrow> b32 \<Rightarrow> encrypted_wal_envelope \<Rightarrow> bytes option" where
  "decrypt_record L key envelope =
     (if en_version envelope \<noteq> 1 then None
      else (case base64_decode L (en_nonce envelope) of None \<Rightarrow> None
        | Some nonce_bytes \<Rightarrow>
            if length nonce_bytes \<noteq> 12 then None
            else (case base64_decode L (en_ciphertext envelope) of None \<Rightarrow> None
              | Some ciphertext \<Rightarrow> aes_decrypt L key nonce_bytes ciphertext)))"

definition parse_stored_record :: "wal_lib \<Rightarrow> b32 \<Rightarrow> bytes \<Rightarrow> wal_record option" where
  "parse_stored_record L key line =
     (case record_of_json L line of Some r \<Rightarrow> Some r
      | None \<Rightarrow>
          (case envelope_of_json L line of None \<Rightarrow> None
           | Some envelope \<Rightarrow>
               (case decrypt_record L key envelope of None \<Rightarrow> None
                | Some plaintext \<Rightarrow> record_of_json L plaintext)))"

section \<open>The log\<close>

text \<open>
  The stored lines of a log file, or the objects of a snapshot store under its prefix in the
  order of their keys; a line is the JSON text of an envelope, which is never blank. \<open>w_seqno\<close>
  is the next sequence number.
\<close>

record wal =
  w_key :: b32
  w_lines :: "bytes list"
  w_seqno :: u64

text \<open>\<open>new_with_backend\<close>: the next number is the number of stored lines.\<close>

definition wal_open :: "b32 \<Rightarrow> bytes list \<Rightarrow> wal" where
  "wal_open key stored = \<lparr>w_key = key, w_lines = stored, w_seqno = of_nat (length stored)\<rparr>"

text \<open>
  \<open>append\<close>: the number is taken with \<open>fetch_add\<close> before anything can fail. \<open>nonce\<close> is the
  random nonce, \<open>now\<close> the clock, \<open>io_ok\<close> says whether the write was made durable.
\<close>

definition wal_append :: "wal_lib \<Rightarrow> bytes \<Rightarrow> i64 \<Rightarrow> bool \<Rightarrow> wal_entry \<Rightarrow> wal \<Rightarrow> u64 option \<times> wal" where
  "wal_append L nonce now io_ok entry w =
     (let seqno = w_seqno w;
          w1 = w\<lparr>w_seqno := seqno + 1\<rparr>;
          record_bytes = json_of_record L \<lparr>wr_seqno = seqno, wr_timestamp = now, wr_entry = entry\<rparr>
      in case encrypt_record L (w_key w) nonce record_bytes of None \<Rightarrow> (None, w1)
         | Some envelope \<Rightarrow>
             if io_ok then (Some seqno, w1\<lparr>w_lines := w_lines w @ [json_of_envelope L envelope]\<rparr>)
             else (None, w1))"

fun parse_lines :: "wal_lib \<Rightarrow> b32 \<Rightarrow> bytes list \<Rightarrow> wal_record list option" where
  "parse_lines L key [] = Some []"
| "parse_lines L key (line # lines) =
     (case parse_stored_record L key line of None \<Rightarrow> None
      | Some r \<Rightarrow> map_option (\<lambda>rs. r # rs) (parse_lines L key lines))"

definition read_records :: "wal_lib \<Rightarrow> wal \<Rightarrow> wal_record list option" where
  "read_records L w = map_option (sort_key wr_seqno) (parse_lines L (w_key w) (w_lines w))"

definition read_records_after :: "wal_lib \<Rightarrow> u64 option \<Rightarrow> wal \<Rightarrow> wal_record list option" where
  "read_records_after L min_exclusive w =
     map_option (\<lambda>rs. case min_exclusive of None \<Rightarrow> rs
        | Some min_seqno \<Rightarrow> filter (\<lambda>r. min_seqno < wr_seqno r) rs) (read_records L w)"

definition last_seqno :: "wal \<Rightarrow> u64 option" where
  "last_seqno w = checked_sub (w_seqno w) 1"

section \<open>Round trip\<close>

lemma parse_lines_append: "parse_lines L key (xs @ ys) =
    (case parse_lines L key xs of None \<Rightarrow> None | Some rs \<Rightarrow> map_option ((@) rs) (parse_lines L key ys))"
  by (induction xs; cases "parse_lines L key ys") (auto split: option.splits)

lemma parse_stored_envelope:
  assumes "wal_lib_laws L" and "length nonce = 12"
    and "encrypt_record L key nonce (json_of_record L r) = Some envelope"
  shows "parse_stored_record L key (json_of_envelope L envelope) = Some r"
  using assms by (auto simp: parse_stored_record_def encrypt_record_def decrypt_record_def wal_lib_laws_def)

text \<open>\<open>wal_holds\<close>: the log reads back as the records \<open>rs\<close>, whose numbers are increasing and below the next.\<close>

definition wal_holds :: "wal_lib \<Rightarrow> wal \<Rightarrow> wal_record list \<Rightarrow> bool" where
  "wal_holds L w rs \<longleftrightarrow> parse_lines L (w_key w) (w_lines w) = Some rs
     \<and> sorted_wrt (<) (map wr_seqno rs) \<and> (\<forall>r\<in>set rs. wr_seqno r < w_seqno w)"

lemma sorted_wrt_sort_key: "sorted_wrt (<) (map f xs) \<Longrightarrow> sort_key f xs = (xs :: 'a list)"
  for f :: "'a \<Rightarrow> 'b::linorder"
  by (induction xs) (auto simp: insort_is_Cons less_imp_le)

lemma read_records_holds: "wal_holds L w rs \<Longrightarrow> read_records L w = Some rs"
  by (auto simp: wal_holds_def read_records_def sorted_wrt_sort_key)

lemma word_less_succ: "unat (w :: u64) + 1 < 2 ^ 64 \<Longrightarrow> w < w + 1 \<and> unat (w + 1) = unat w + 1"
  by (simp add: word_less_nat_alt unat_word_ariths)

lemma wal_append_holds:
  assumes "wal_lib_laws L" and "length nonce = 12" and "wal_holds L w rs"
    and "wal_append L nonce now ok e w = (res, w')" and "unat (w_seqno w) + 1 < 2 ^ 64"
  shows "wal_holds L w' (case res of None \<Rightarrow> rs
       | Some n \<Rightarrow> rs @ [\<lparr>wr_seqno = n, wr_timestamp = now, wr_entry = e\<rparr>])
     \<and> unat (w_seqno w') = unat (w_seqno w) + 1 \<and> w_key w' = w_key w \<and> (\<forall>n. res = Some n \<longrightarrow> n = w_seqno w)"
  using assms word_less_succ [OF assms(5)]
  by (auto simp: wal_append_def wal_holds_def Let_def parse_lines_append parse_stored_envelope
      sorted_wrt_append split: option.splits if_splits intro: less_trans)

text \<open>A sequence of attempts: nonce, clock, whether the write succeeds, entry.\<close>

fun run_appends :: "wal_lib \<Rightarrow> (bytes \<times> i64 \<times> bool \<times> wal_entry) list \<Rightarrow> wal \<Rightarrow> wal_record list \<times> wal" where
  "run_appends L [] w = ([], w)"
| "run_appends L ((nonce, now, ok, e) # rest) w =
     (let (res, w1) = wal_append L nonce now ok e w;
          (rs, w2) = run_appends L rest w1
      in (case res of None \<Rightarrow> rs | Some n \<Rightarrow> \<lparr>wr_seqno = n, wr_timestamp = now, wr_entry = e\<rparr> # rs, w2))"

lemma run_appends_holds:
  assumes "wal_lib_laws L" and "\<forall>(nonce, _)\<in>set es. length nonce = 12" and "wal_holds L w rs0"
    and "run_appends L es w = (rs, w')" and "unat (w_seqno w) + length es < 2 ^ 64"
  shows "wal_holds L w' (rs0 @ rs) \<and> unat (w_seqno w') = unat (w_seqno w) + length es"
  using assms(2-)
proof (induction es arbitrary: w rs0 rs w')
  case (Cons x rest)
  obtain nonce now ok e where x: "x = (nonce, now, ok, e)" by (cases x)
  obtain res w1 where a: "wal_append L nonce now ok e w = (res, w1)" by (cases "wal_append L nonce now ok e w")
  obtain rs1 w2 where r: "run_appends L rest w1 = (rs1, w2)" by (cases "run_appends L rest w1")
  have n: "length nonce = 12" using Cons.prems(1) x by simp
  have l: "unat (w_seqno w) + 1 < 2 ^ 64" using Cons.prems(4) by simp
  note H = wal_append_holds [OF assms(1) n Cons.prems(2) a l]
  from H Cons.prems(4) have "unat (w_seqno w1) + length rest < 2 ^ 64" by simp
  from Cons.IH [OF _ _ r this] H Cons.prems(1,3) x a r show ?case by (fastforce split: option.splits)
qed simp

lemma wal_open_holds: "parse_lines L key [] = Some [] \<and> wal_holds L (wal_open key []) []"
  by (simp add: wal_holds_def wal_open_def)

lemma filter_after_sorted:
  fixes m :: "'b::linorder"
  shows "sorted_wrt (<) (map f (xs @ ys)) \<Longrightarrow> (\<forall>x\<in>set xs. f x \<le> m) \<Longrightarrow> (\<forall>y\<in>set ys. m < f y)
     \<Longrightarrow> filter (\<lambda>x. m < f x) (xs @ ys) = ys"
  by (auto simp: filter_id_conv filter_empty_conv not_less)

section \<open>Properties\<close>


text \<open>
  A concrete library that satisfies the laws: texts in unary notation, the identity as cipher.
  The record types are countable, so they have injective codes.
\<close>

instance word :: (len) countable
  by (rule countable_classI [of unat]) (simp add: word_eq_iff_unsigned [where 'a = nat])

instance wal_provider_ext :: (countable) countable
  by (rule countable_classI [of "\<lambda>p. to_nat ((wp_provider_id p, wp_display_name p, wp_participant_pubkey p,
        wp_participant_attestation_policy_hash p), (wp_participant_attestation_verified_at_ms p,
        wp_participant_attestation_mode p, wp_settlement_token_account p, wp_network p), (wp_asset_mint p,
        wp_allowed_origins p, wp_auth_mode p, wp_api_key_hash p), (wp_mtls_cert_fingerprint p,
        wp_settlement_address p, wp_asset_id p, wp_chain_kind p), wal_provider.more p)"]) simp

instance wal_entry :: countable
  by countable_datatype

instance wal_record_ext :: (countable) countable
  by (rule countable_classI [of "\<lambda>r. to_nat (wr_seqno r, wr_timestamp r, wr_entry r, wal_record.more r)"]) simp

instance encrypted_wal_envelope_ext :: (countable) countable
  by (rule countable_classI [of "\<lambda>e. to_nat (en_version e, en_nonce e, en_ciphertext e, encrypted_wal_envelope.more e)"]) simp

definition unary :: "u8 \<Rightarrow> 'a::countable \<Rightarrow> bytes" where
  "unary tag x = tag # replicate (to_nat x) 0"

definition un_unary :: "u8 \<Rightarrow> bytes \<Rightarrow> 'a::countable option" where
  "un_unary tag bs = (if bs \<noteq> [] \<and> hd bs = tag then Some (from_nat (length (tl bs))) else None)"

definition chars :: "bytes \<Rightarrow> string" where
  "chars bs = map (\<lambda>b. char_of (unat b)) bs"

definition demo_lib :: wal_lib where
  "demo_lib = \<lparr>json_of_record = unary 0, record_of_json = un_unary 0, json_of_envelope = unary 1,
     envelope_of_json = un_unary 1, aes_encrypt = (\<lambda>k n p. Some p), aes_decrypt = (\<lambda>k n c. Some c),
     base64_encode = chars, base64_decode = (\<lambda>s. Some (str_bytes s)), hex_encode = chars,
     hex_decode = (\<lambda>s. Some (str_bytes s)), pubkey_from_str = (\<lambda>s. Some (of_nat (length s))),
     pubkey_to_string = (\<lambda>k. replicate (unat k) (CHR ''x'')), txid_from_str = (\<lambda>s. Some (of_nat (length s)))\<rparr>"

lemma str_bytes_chars: "str_bytes (chars bs) = bs"
proof -
  have "of_nat (of_char (char_of (unat b) :: char)) = (b :: u8)" for b
    using unsigned_less [of b, where ?'a = nat] by (simp add: take_bit_nat_eq_self)
  then show ?thesis by (simp add: str_bytes_def chars_def map_idI)
qed

lemma demo_lib_laws: "wal_lib_laws demo_lib"
  by (simp add: wal_lib_laws_def demo_lib_def unary_def un_unary_def str_bytes_chars)

definition demo_appends :: "(bytes \<times> i64 \<times> bool \<times> wal_entry) list" where
  "demo_appends = [(replicate 12 0, 5, True, WReservationExpired ''a''),
     (replicate 12 0, 6, False, WReservationExpired ''b''), (replicate 12 0, 7, True, WReservationExpired ''c'')]"


text \<open>
  A restart after a failed append forgets numbers: the next number becomes the count of
  stored records, which is below the last one used. The next record logged then carries a
  number that a snapshot taken before the restart already covers, and a recovery from that
  snapshot skips it although it was made durable.
\<close>

theorem restart_after_failed_append_loses_record:
  assumes L: "wal_lib_laws L" and nonce: "length nonce = 12" and w: "wal_holds L w rs"
    and gap: "length rs < unat (w_seqno w)" and snap: "last_seqno w = Some k"
    and log: "wal_append L nonce now True e (wal_open (w_key w) (w_lines w)) = (Some n, w')"
  shows "unat n = length rs
    \<and> (\<exists>recs. read_records L w' = Some recs \<and> \<lparr>wr_seqno = n, wr_timestamp = now, wr_entry = e\<rparr> \<in> set recs)
    \<and> (\<exists>late. read_records_after L (Some k) w' = Some late
         \<and> \<lparr>wr_seqno = n, wr_timestamp = now, wr_entry = e\<rparr> \<notin> set late)"
proof -
  have ln: "length (w_lines w) = length rs"
  proof -
    have "parse_lines L key xs = Some ys \<Longrightarrow> length ys = length xs" for key xs ys
      by (induction xs arbitrary: ys) (auto split: option.splits)
    then show ?thesis using w by (auto simp: wal_holds_def)
  qed
  have n: "n = of_nat (length rs)" using log ln
    by (auto simp: wal_append_def wal_open_def Let_def split: option.splits)
  have lt: "length rs < 2 ^ 64" using gap unsigned_less [of "w_seqno w", where ?'a = nat] by simp
  then have un: "unat n = length rs" by (simp add: n unat_of_nat)
  have k: "unat k = unat (w_seqno w) - 1" using snap checked_sub_SomeD [of "w_seqno w" 1 k] by (simp add: last_seqno_def)
  then have "\<not> k < n" using gap un by (simp add: word_less_nat_alt)
  moreover have "parse_lines L (w_key w') (w_lines w') = Some (rs @ [\<lparr>wr_seqno = n, wr_timestamp = now, wr_entry = e\<rparr>])"
    using log w L nonce by (auto simp: wal_append_def wal_open_def wal_holds_def Let_def parse_lines_append
        parse_stored_envelope split: option.splits)
  ultimately show ?thesis by (auto simp: un read_records_after_def read_records_def)
qed

definition demo_gap_log :: wal where
  "demo_gap_log = snd (run_appends demo_lib demo_appends (wal_open 3 []))"

theorem restart_after_failed_append_loses_record_witness:
  "\<exists>n w'. wal_append demo_lib (replicate 12 0) 9 True (WReservationExpired ''d'')
       (wal_open (w_key demo_gap_log) (w_lines demo_gap_log)) = (Some n, w')
     \<and> (\<exists>late. read_records_after demo_lib (Some 2) w' = Some late
          \<and> \<lparr>wr_seqno = n, wr_timestamp = 9, wr_entry = WReservationExpired ''d''\<rparr> \<notin> set late)"
proof -
  obtain rs where r: "run_appends demo_lib demo_appends (wal_open 3 []) = (rs, demo_gap_log)"
    unfolding demo_gap_log_def by (metis prod.collapse)
  have h: "wal_holds demo_lib demo_gap_log ([] @ rs) \<and> unat (w_seqno demo_gap_log) = unat (w_seqno (wal_open 3 [])) + length demo_appends"
    using wal_open_holds by (intro run_appends_holds [OF demo_lib_laws _ _ r]) (auto simp: wal_open_def demo_appends_def)
  have l: "length rs = 2" using r by (auto simp: wal_append_def encrypt_record_def demo_lib_def wal_open_def demo_appends_def)
  have s: "w_seqno demo_gap_log = 3"
    by (simp add: demo_gap_log_def wal_append_def encrypt_record_def demo_lib_def wal_open_def demo_appends_def)
  have "\<exists>n w'. wal_append demo_lib (replicate 12 0) 9 True (WReservationExpired ''d'')
       (wal_open (w_key demo_gap_log) (w_lines demo_gap_log)) = (Some n, w')"
    by (simp add: wal_append_def encrypt_record_def demo_lib_def Let_def)
  then obtain n w' where a: "wal_append demo_lib (replicate 12 0) 9 True (WReservationExpired ''d'')
       (wal_open (w_key demo_gap_log) (w_lines demo_gap_log)) = (Some n, w')" by blast
  have "last_seqno demo_gap_log = Some 2" by (simp add: last_seqno_def s checked_sub_def)
  from restart_after_failed_append_loses_record [OF demo_lib_laws _ _ _ this a, of rs] h l s a show ?thesis by auto
qed

end
