(* ===== verification/Btc_Ledger.thy ===== *)
theory Btc_Ledger
  imports Codec "HOL-Library.Char_ord" "HOL-Library.List_Lexorder" "HOL-Library.Product_Lexorder"
begin

text \<open>
  The Bitcoin UTXO ledger of the vault (\<open>enclave/src/btc_ledger.rs\<close>): the outputs the vault owns,
  inserted by deposits and change, removed by settlements, and the choice of an input. A
  transaction id is its 32 bytes; the \<open>BTreeMap\<close> is walked in the order of its keys.
\<close>

record vault_utxo =
  vu_txid :: b32
  vu_vout :: u32
  vu_value_sat :: u64

record utxo_key =
  uk_txid :: b32
  uk_vout :: u32

definition utxo_key_from_utxo :: "vault_utxo \<Rightarrow> utxo_key" where
  "utxo_key_from_utxo u = \<lparr>uk_txid = vu_txid u, uk_vout = vu_vout u\<rparr>"

datatype ledger_error = Duplicate b32 u32 | NotFound b32 u32 | InsufficientFunds u64 u64

record btc_utxo_ledger =
  bl_utxos :: "(utxo_key, u64) dashmap"
  bl_spent_count :: u64

definition btc_ledger_new :: btc_utxo_ledger where
  "btc_ledger_new = \<lparr>bl_utxos = [], bl_spent_count = 0\<rparr>"

definition btc_add :: "utxo_key \<Rightarrow> u64 \<Rightarrow> btc_utxo_ledger \<Rightarrow> ledger_error + btc_utxo_ledger" where
  "btc_add key value_sat l =
     (case dm_get (bl_utxos l) key of Some _ \<Rightarrow> Inl (Duplicate (uk_txid key) (uk_vout key))
      | None \<Rightarrow> Inr (l\<lparr>bl_utxos := dm_insert key value_sat (bl_utxos l)\<rparr>))"

text \<open>The spend counter is a metric; its wrap-around is not reached in practice.\<close>

definition btc_spend :: "utxo_key \<Rightarrow> btc_utxo_ledger \<Rightarrow> ledger_error + u64 \<times> btc_utxo_ledger" where
  "btc_spend key l =
     (case dm_get (bl_utxos l) key of None \<Rightarrow> Inl (NotFound (uk_txid key) (uk_vout key))
      | Some v \<Rightarrow> Inr (v, l\<lparr>bl_utxos := dm_remove key (bl_utxos l), bl_spent_count := bl_spent_count l + 1\<rparr>))"

definition btc_iter :: "btc_utxo_ledger \<Rightarrow> (utxo_key \<times> u64) list" where
  "btc_iter l = sort_key (\<lambda>(k, _). (word_bytes (uk_txid k), uk_vout k)) (bl_utxos l)"

text \<open>\<open>values().sum()\<close> panics on overflow: \<open>None\<close>.\<close>

definition btc_total_sat :: "btc_utxo_ledger \<Rightarrow> u64 option" where
  "btc_total_sat l = fold (\<lambda>(_, v) acc. Option.bind acc (\<lambda>a. checked_add a v)) (btc_iter l) (Some 0)"

definition utxo_of :: "utxo_key \<times> u64 \<Rightarrow> vault_utxo" where
  "utxo_of = (\<lambda>(k, v). \<lparr>vu_txid = uk_txid k, vu_vout = uk_vout k, vu_value_sat = v\<rparr>)"

definition btc_snapshot :: "btc_utxo_ledger \<Rightarrow> vault_utxo list" where
  "btc_snapshot l = map utxo_of (btc_iter l)"

fun pick_loop :: "u64 \<Rightarrow> (utxo_key \<times> u64) list \<Rightarrow> (utxo_key \<times> u64) option \<Rightarrow> u64
    \<Rightarrow> (utxo_key \<times> u64) option \<times> u64" where
  "pick_loop needed [] best largest = (best, largest)"
| "pick_loop needed ((k, v) # rest) best largest =
     pick_loop needed rest
       (if needed \<le> v then
          (case best of None \<Rightarrow> Some (k, v)
           | Some (_, prev) \<Rightarrow> if v < prev then Some (k, v) else best)
        else best)
       (max largest v)"

definition pick_single :: "u64 \<Rightarrow> btc_utxo_ledger \<Rightarrow> ledger_error + vault_utxo" where
  "pick_single needed l =
     (case pick_loop needed (btc_iter l) None 0 of
        (Some kv, _) \<Rightarrow> Inr (utxo_of kv)
      | (None, largest) \<Rightarrow> Inl (InsufficientFunds needed largest))"

section \<open>Value held\<close>

definition btc_value :: "btc_utxo_ledger \<Rightarrow> nat" where
  "btc_value l = dm_sum (\<lambda>_ v. unat v) (bl_utxos l)"

lemma btc_add_value: "btc_add k v l = Inr l' \<Longrightarrow> btc_value l' = btc_value l + unat v \<and> dm_wf (bl_utxos l) = dm_wf (bl_utxos l')"
  by (auto simp: btc_add_def btc_value_def dm_sum_insert_new dm_wf_def distinct_update update_keys
      map_of_eq_None_iff split: option.splits)

lemma btc_spend_value: "btc_spend k l = Inr (v, l') \<Longrightarrow> dm_wf (bl_utxos l) \<Longrightarrow>
    btc_value l' + unat v = btc_value l \<and> dm_wf (bl_utxos l')"
  by (auto simp: btc_spend_def btc_value_def split: option.splits
      dest: dm_sum_remove [where f = "\<lambda>_ v. unat v"])

section \<open>Choice of an input\<close>

definition better :: "u64 \<Rightarrow> utxo_key \<times> u64 \<Rightarrow> (utxo_key \<times> u64) option \<Rightarrow> (utxo_key \<times> u64) option" where
  "better needed kv best =
     (if needed \<le> snd kv then (case best of None \<Rightarrow> Some kv | Some p \<Rightarrow> if snd kv < snd p then Some kv else best)
      else best)"

lemma pick_loop_fold:
  "pick_loop n kvs best largest = (fold (better n) kvs best, fold (\<lambda>kv. max (snd kv)) kvs largest)"
  by (induction n kvs best largest rule: pick_loop.induct)
    (auto simp: better_def max.commute split: option.splits)

lemma better_sound:
  "fold (better n) kvs best = Some kv \<Longrightarrow> best = Some kv \<or> kv \<in> set kvs \<and> n \<le> snd kv"
proof (induction kvs arbitrary: best)
  case (Cons x kvs)
  then have "better n x best = Some kv \<or> kv \<in> set kvs \<and> n \<le> snd kv" by simp
  then show ?case by (auto simp: better_def split: option.splits if_splits)
qed simp

lemma better_keeps: "fold (better n) kvs (Some b) \<noteq> None"
  by (induction kvs arbitrary: b) (auto simp: better_def)

lemma better_min:
  "fold (better n) kvs best = Some kv \<Longrightarrow> (\<forall>b. best = Some b \<longrightarrow> snd kv \<le> snd b) \<and>
     (\<forall>x\<in>set kvs. n \<le> snd x \<longrightarrow> snd kv \<le> snd x)"
proof (induction kvs arbitrary: best)
  case (Cons x kvs)
  from Cons.IH [of "better n x best"] Cons.prems
  have IH: "\<And>b. better n x best = Some b \<Longrightarrow> snd kv \<le> snd b" "\<forall>x\<in>set kvs. n \<le> snd x \<longrightarrow> snd kv \<le> snd x"
    by auto
  have "snd kv \<le> snd b" if "best = Some b" for b
    using IH(1) that by (cases "n \<le> snd x"; cases "snd x < snd b") (fastforce simp: better_def)+
  moreover have "snd kv \<le> snd x" if n: "n \<le> snd x"
  proof (cases "\<exists>b. best = Some b \<and> \<not> snd x < snd b")
    case True
    then obtain b where b: "best = Some b" "snd b \<le> snd x" by (auto simp: not_less)
    then have "better n x best = Some b" by (auto simp: better_def)
    from IH(1) [OF this] b(2) show ?thesis by (rule order_trans)
  next
    case False
    with IH(1) [of x] n show ?thesis by (cases best) (auto simp: better_def)
  qed
  ultimately show ?case using IH(2) by simp
qed simp

lemma better_None: "fold (better n) kvs None = None \<longleftrightarrow> (\<forall>x\<in>set kvs. snd x < n)"
proof (induction kvs)
  case (Cons x kvs)
  show ?case
  proof (cases "n \<le> snd x")
    case True
    then have "fold (better n) (x # kvs) None \<noteq> None" using better_keeps [of n kvs x] by (simp add: better_def)
    moreover from True have "\<not> snd x < n" by simp
    ultimately show ?thesis by auto
  next
    case False
    then have "better n x None = None" by (simp add: better_def)
    with Cons False show ?thesis by (simp add: not_le)
  qed
qed simp

lemma fold_max: "fold (\<lambda>kv. max (snd kv)) kvs m = Max (insert m (snd ` set kvs))"
proof (induction kvs arbitrary: m)
  case (Cons x kvs)
  have "Max (insert (max (snd x) m) (snd ` set kvs)) = Max (insert m (insert (snd x) (snd ` set kvs)))"
    by (cases "snd ` set kvs = {}") (simp_all add: max.assoc max.left_commute max.commute)
  with Cons show ?case by simp
qed simp

lemma set_btc_iter [simp]: "set (btc_iter l) = set (bl_utxos l)"
  by (simp add: btc_iter_def)

section \<open>Properties\<close>

text \<open>
  The input chosen for a settlement is an output the ledger holds, covers the amount and is
  the smallest that does; the choice fails exactly when no single output covers the amount, and
  then reports the largest one.
\<close>

theorem pick_single_minimal:
  "case pick_single n l of
     Inr u \<Rightarrow> (utxo_key_from_utxo u, vu_value_sat u) \<in> set (bl_utxos l) \<and> n \<le> vu_value_sat u
        \<and> (\<forall>kv\<in>set (bl_utxos l). n \<le> snd kv \<longrightarrow> vu_value_sat u \<le> snd kv)
   | Inl e \<Rightarrow> (\<forall>kv\<in>set (bl_utxos l). snd kv < n)
        \<and> e = InsufficientFunds n (Max (insert 0 (snd ` set (bl_utxos l))))"
proof (cases "fold (better n) (btc_iter l) None")
  case None
  then show ?thesis
    using better_None [of n "btc_iter l"] by (simp add: pick_single_def pick_loop_fold fold_max)
next
  case (Some kv)
  then have "kv \<in> set (bl_utxos l)" "n \<le> snd kv" "\<forall>x\<in>set (bl_utxos l). n \<le> snd x \<longrightarrow> snd kv \<le> snd x"
    using better_sound [OF Some] better_min [OF Some] by auto
  with Some show ?thesis
    by (cases kv; cases "fst kv") (simp add: pick_single_def pick_loop_fold utxo_of_def utxo_key_from_utxo_def)
qed

theorem pick_single_minimal_witness:
  "pick_single 5 \<lparr>bl_utxos = [(\<lparr>uk_txid = 1, uk_vout = 0\<rparr>, 9), (\<lparr>uk_txid = 2, uk_vout = 0\<rparr>, 7)], bl_spent_count = 0\<rparr>
     \<noteq> Inr \<lparr>vu_txid = 1, vu_vout = 0, vu_value_sat = 9\<rparr>"
  using pick_single_minimal [where n = 5 and l = "\<lparr>bl_utxos = [(\<lparr>uk_txid = 1, uk_vout = 0\<rparr>, 9), (\<lparr>uk_txid = 2, uk_vout = 0\<rparr>, 7)], bl_spent_count = 0\<rparr>"]
  by (auto split: sum.splits)

end
