(* ===== verification/Wal_Replay.thy ===== *)
theory Wal_Replay
  imports Wal_Log Asc_Manager Btc_Ledger
begin

text \<open>
  Recovery (second half of \<open>enclave/src/wal.rs\<close>): what each log entry does to the state at
  start-up. The state has the parts of \<open>AppState\<close> that the log restores; an error aborts the
  start. Replayed channel entries read the clock again, as the source does.
\<close>

section \<open>State\<close>

record app_state =
  as_vault :: vault_state
  as_wal :: wal
  as_processed_signatures :: "string set"
  as_last_processed_signature :: "string option"
  as_btc_ledger :: btc_utxo_ledger

datatype replay_error =
    InvalidWalField string | MissingWalField string | WalMismatch string
  | WalReplayFailed enclave_error | WalLedgerError ledger_error | WalReadFailed | ReplayPanic

type_synonym 'a replay = "replay_error + 'a"

definition replay_bind :: "'a replay \<Rightarrow> ('a \<Rightarrow> 'b replay) \<Rightarrow> 'b replay" where
  "replay_bind m k = (case m of Inl e \<Rightarrow> Inl e | Inr x \<Rightarrow> k x)"

definition field :: "'a option \<Rightarrow> replay_error \<Rightarrow> 'a replay" where
  "field x e = (case x of None \<Rightarrow> Inl e | Some y \<Rightarrow> Inr y)"

text \<open>A vault operation inside the replay; its error or panic aborts.\<close>

definition replay_op :: "'a vault_op \<Rightarrow> app_state \<Rightarrow> ('a \<times> app_state) replay" where
  "replay_op f s = (case f (as_vault s) of
       (Ok x, v) \<Rightarrow> Inr (x, s\<lparr>as_vault := v\<rparr>)
     | (Err e, v) \<Rightarrow> Inl (WalReplayFailed e)
     | (Panic, v) \<Rightarrow> Inl ReplayPanic)"

definition parse_pubkey :: "wal_lib \<Rightarrow> string \<Rightarrow> string \<Rightarrow> pubkey replay" where
  "parse_pubkey L name value = field (pubkey_from_str L value) (InvalidWalField name)"

definition decode_fixed_hex_32 :: "wal_lib \<Rightarrow> string \<Rightarrow> string \<Rightarrow> b32 replay" where
  "decode_fixed_hex_32 L name value =
     replay_bind (field (hex_decode L value) (InvalidWalField name)) (\<lambda>bs.
       if length bs = 32 then Inr (word_of_bytes bs) else Inl (InvalidWalField name))"

definition parse_btc_txid :: "wal_lib \<Rightarrow> string \<Rightarrow> b32 replay" where
  "parse_btc_txid L s = field (txid_from_str L s) (InvalidWalField ''txid'')"

section \<open>Pieces of the replay\<close>

definition mark_processed :: "string \<Rightarrow> u64 \<Rightarrow> app_state \<Rightarrow> app_state" where
  "mark_processed tx slot s =
     s\<lparr>as_processed_signatures := insert tx (as_processed_signatures s),
       as_last_processed_signature := Some tx,
       as_vault := (as_vault s)\<lparr>last_finalized_slot := max (last_finalized_slot (as_vault s)) slot\<rparr>\<rparr>"

definition bump_withdraw_nonce :: "u64 \<Rightarrow> app_state \<Rightarrow> app_state" where
  "bump_withdraw_nonce n s = s\<lparr>as_vault := (as_vault s)\<lparr>withdraw_nonce :=
     max (withdraw_nonce (as_vault s)) (saturating_add n 1)\<rparr>\<rparr>"

definition bump_receipt_nonce :: "u64 \<Rightarrow> app_state \<Rightarrow> app_state" where
  "bump_receipt_nonce n s = s\<lparr>as_vault := (as_vault s)\<lparr>receipt_nonce :=
     max (receipt_nonce (as_vault s)) (saturating_add n 1)\<rparr>\<rparr>"

definition put_reservation :: "string \<Rightarrow> reservation \<Rightarrow> vault_state \<Rightarrow> vault_state" where
  "put_reservation key r v = v\<lparr>reservations := dm_insert key r (reservations v)\<rparr>"

text \<open>Cancelling and expiring differ in the status only.\<close>

definition end_reservation :: "reservation_status \<Rightarrow> string \<Rightarrow> app_state \<Rightarrow> app_state replay" where
  "end_reservation status verification_id s =
     (case dm_get (reservations (as_vault s)) verification_id of
        None \<Rightarrow> Inl (MissingWalField verification_id)
      | Some r \<Rightarrow>
          let s1 = s\<lparr>as_vault := put_reservation verification_id (r\<lparr>rs_status := status\<rparr>) (as_vault s)\<rparr>
          in if rs_status r = Reserved
             then replay_bind (replay_op (release_balance (rs_client r) (rs_amount r)) s1) (\<lambda>(_, s2). Inr s2)
             else Inr s1)"

definition replay_settlement ::
    "string \<Rightarrow> string \<Rightarrow> string \<Rightarrow> u64 \<Rightarrow> i64 option \<Rightarrow> app_state \<Rightarrow> app_state replay" where
  "replay_settlement settlement_id verification_id provider_id amount settled_at s =
     (case dm_get (reservations (as_vault s)) verification_id of
        None \<Rightarrow> Inl (MissingWalField verification_id)
      | Some r \<Rightarrow>
          if rs_provider_id r \<noteq> provider_id then Inl (WalMismatch ''provider_id'')
          else if rs_amount r \<noteq> amount then Inl (WalMismatch ''amount'')
          else
            let timestamp = (case settled_at of Some t \<Rightarrow> t | None \<Rightarrow> rs_created_at r);
                s1 = (if rs_status r = Reserved
                      then s\<lparr>as_vault := put_reservation verification_id
                             (r\<lparr>rs_status := SettledOffchain, rs_settlement_id := Some settlement_id,
                                rs_settled_at := Some timestamp\<rparr>) (as_vault s)\<rparr>
                      else s)
            in replay_bind (replay_op (settle_payment (rs_client r) amount provider_id settlement_id timestamp) s1)
                 (\<lambda>(_, s2).
                   replay_bind (field (dm_get (providers (as_vault s2)) provider_id) (MissingWalField provider_id)) (\<lambda>p.
                     Inr (s2\<lparr>as_vault := (as_vault s2)\<lparr>settlement_history := dm_insert settlement_id
                       \<lparr>sr_settlement_id = settlement_id, sr_client = rs_client r,
                        sr_provider = pr_settlement_token_account p, sr_amount = amount, sr_timestamp = timestamp\<rparr>
                       (settlement_history (as_vault s2))\<rparr>\<rparr>))))"

definition opt_map_replay :: "('a \<Rightarrow> 'b replay) \<Rightarrow> 'a option \<Rightarrow> 'b option replay" where
  "opt_map_replay f x = (case x of None \<Rightarrow> Inr None | Some y \<Rightarrow> replay_bind (f y) (\<lambda>z. Inr (Some z)))"

definition chain_kind_name :: "chain_kind \<Rightarrow> string" where
  "chain_kind_name k = (case k of Solana \<Rightarrow> ''solana'' | Ethereum \<Rightarrow> ''ethereum'' | Bitcoin \<Rightarrow> ''bitcoin'')"

definition replay_provider :: "wal_lib \<Rightarrow> wal_provider \<Rightarrow> provider_registration replay" where
  "replay_provider L p =
     (case settlement_target_parse (pubkey_from_str L) (wp_network p) (wp_asset_mint p) (wp_settlement_token_account p) of
        Inl e \<Rightarrow> Inl (InvalidWalField e)
      | Inr target \<Rightarrow>
     replay_bind (opt_map_replay (parse_pubkey L ''participant_pubkey'') (wp_participant_pubkey p)) (\<lambda>participant.
     replay_bind (opt_map_replay (decode_fixed_hex_32 L ''participant_attestation_policy_hash'')
                    (wp_participant_attestation_policy_hash p)) (\<lambda>policy_hash.
     replay_bind (opt_map_replay (\<lambda>v. field (hex_decode L v) (InvalidWalField ''api_key_hash'')) (wp_api_key_hash p)) (\<lambda>api_key.
     replay_bind (opt_map_replay (\<lambda>v. field (hex_decode L v) (InvalidWalField ''mtls_cert_fingerprint''))
                    (wp_mtls_cert_fingerprint p)) (\<lambda>mtls.
       Inr \<lparr>pr_provider_id = wp_provider_id p, pr_display_name = wp_display_name p,
         pr_participant_pubkey = participant, pr_participant_attestation_policy_hash = policy_hash,
         pr_participant_attestation_verified_at_ms = wp_participant_attestation_verified_at_ms p,
         pr_participant_attestation_mode = wp_participant_attestation_mode p,
         pr_settlement_token_account = (case st_solana_settlement_token_account target of Some a \<Rightarrow> a | None \<Rightarrow> 0),
         pr_network = wp_network p,
         pr_asset_mint = (case st_solana_asset_mint target of Some a \<Rightarrow> a | None \<Rightarrow> 0),
         pr_allowed_origins = wp_allowed_origins p, pr_auth_mode = wp_auth_mode p,
         pr_api_key_hash = api_key, pr_mtls_cert_fingerprint = mtls,
         pr_settlement_address = (case wp_settlement_address p of Some a \<Rightarrow> a | None \<Rightarrow> st_settlement_address target),
         pr_asset_id = (case wp_asset_id p of Some a \<Rightarrow> a | None \<Rightarrow> st_asset_id target),
         pr_chain_kind = (case wp_chain_kind p of Some k \<Rightarrow> k
           | None \<Rightarrow> (case parse_network (wp_network p) of Inl _ \<Rightarrow> '''' | Inr d \<Rightarrow> chain_kind_name (cd_kind d)))\<rparr>)))))"

definition replay_btc_add :: "wal_lib \<Rightarrow> string \<Rightarrow> u32 \<Rightarrow> u64 \<Rightarrow> app_state \<Rightarrow> app_state replay" where
  "replay_btc_add L txid vout value_sat s =
     replay_bind (parse_btc_txid L txid) (\<lambda>t.
       case btc_add \<lparr>uk_txid = t, uk_vout = vout\<rparr> value_sat (as_btc_ledger s) of
         Inl e \<Rightarrow> Inl (WalLedgerError e)
       | Inr l \<Rightarrow> Inr (s\<lparr>as_btc_ledger := l\<rparr>))"

definition replay_btc_spend :: "wal_lib \<Rightarrow> string \<Rightarrow> u32 \<Rightarrow> app_state \<Rightarrow> app_state replay" where
  "replay_btc_spend L txid vout s =
     replay_bind (parse_btc_txid L txid) (\<lambda>t.
       case btc_spend \<lparr>uk_txid = t, uk_vout = vout\<rparr> (as_btc_ledger s) of
         Inl e \<Rightarrow> Inl (WalLedgerError e)
       | Inr (_, l) \<Rightarrow> Inr (s\<lparr>as_btc_ledger := l\<rparr>))"

definition replay_unit :: "'a vault_op \<Rightarrow> app_state \<Rightarrow> app_state replay" where
  "replay_unit f s = replay_bind (replay_op f s) (\<lambda>(_, s1). Inr s1)"

section \<open>One entry\<close>

text \<open>
  \<open>now\<close> is the clock of the replay and \<open>uuid\<close> the fresh id that closing a channel draws when
  its entry names none.
\<close>

fun replay_entry :: "('p, 's) curve \<Rightarrow> (bytes \<Rightarrow> b32) \<Rightarrow> wal_lib \<Rightarrow> i64 \<Rightarrow> string \<Rightarrow> wal_entry \<Rightarrow> app_state \<Rightarrow> app_state replay" where
  "replay_entry C sha256 L now uuid (WDepositApplied client amount slot tx) s =
     replay_bind (parse_pubkey L ''client'' client) (\<lambda>client.
     replay_bind (replay_unit (apply_deposit client amount) s) (\<lambda>s. Inr (mark_processed tx slot s)))"
| "replay_entry C sha256 L now uuid (WWithdrawAuthorized client recipient_ata amount nonce issued_at expires_at) s =
     replay_bind (parse_pubkey L ''client'' client) (\<lambda>client.
     replay_bind (parse_pubkey L ''recipient_ata'' recipient_ata) (\<lambda>recipient_ata.
     replay_bind (replay_unit (authorize_withdrawal \<lparr>pw_client = client, pw_recipient_ata = recipient_ata,
        pw_amount = amount, pw_withdraw_nonce = nonce, pw_issued_at = issued_at, pw_expires_at = expires_at\<rparr>) s) (\<lambda>s.
     replay_unit (refresh_client_max_lock_expires_at client) (bump_withdraw_nonce nonce s))))"
| "replay_entry C sha256 L now uuid (WWithdrawApplied client recipient_ata amount nonce expires_at slot tx) s =
     replay_bind (parse_pubkey L ''client'' client) (\<lambda>client.
     replay_bind (parse_pubkey L ''recipient_ata'' recipient_ata) (\<lambda>recipient_ata.
     replay_bind (replay_op (apply_withdrawal nonce) s) (\<lambda>(applied, s).
     if pw_client applied \<noteq> client \<or> pw_recipient_ata applied \<noteq> recipient_ata \<or> pw_amount applied \<noteq> amount
        \<or> pw_expires_at applied \<noteq> expires_at
     then Inl (WalMismatch ''withdraw'')
     else replay_unit (refresh_client_max_lock_expires_at client)
            (bump_withdraw_nonce nonce (mark_processed tx slot s)))))"
| "replay_entry C sha256 L now uuid (WWithdrawExpired client nonce) s =
     replay_bind (parse_pubkey L ''client'' client) (\<lambda>client.
     replay_bind (replay_op (expire_pending_withdrawal nonce) s) (\<lambda>(expired, s).
     if pw_client expired \<noteq> client then Inl (WalMismatch ''client'')
     else replay_unit (refresh_client_max_lock_expires_at client) s))"
| "replay_entry C sha256 L now uuid (WReservationCreated verification_id reservation_id payment_id client provider_id
       amount request_hash payment_details_hash created_at expires_at) s =
     replay_bind (parse_pubkey L ''client'' client) (\<lambda>client.
     replay_bind (field reservation_id (MissingWalField ''reservation_id'')) (\<lambda>reservation_id.
     replay_bind (replay_bind (field request_hash (MissingWalField ''request_hash''))
        (decode_fixed_hex_32 L ''request_hash'')) (\<lambda>request_hash.
     replay_bind (replay_bind (field payment_details_hash (MissingWalField ''payment_details_hash''))
        (decode_fixed_hex_32 L ''payment_details_hash'')) (\<lambda>payment_details_hash.
     replay_bind (field created_at (MissingWalField ''created_at'')) (\<lambda>created_at.
     replay_bind (field expires_at (MissingWalField ''expires_at'')) (\<lambda>expires_at.
     replay_bind (replay_unit (reserve_balance client amount) s) (\<lambda>s.
     Inr (s\<lparr>as_vault := put_reservation verification_id
        \<lparr>rs_verification_id = verification_id, rs_reservation_id = reservation_id, rs_payment_id = payment_id,
         rs_client = client, rs_provider_id = provider_id, rs_amount = amount, rs_request_hash = request_hash,
         rs_payment_details_hash = payment_details_hash, rs_status = Reserved, rs_created_at = created_at,
         rs_expires_at = expires_at, rs_settlement_id = None, rs_settled_at = None\<rparr>
        ((as_vault s)\<lparr>payment_id_index := dm_insert payment_id verification_id (payment_id_index (as_vault s))\<rparr>)\<rparr>))))))))"
| "replay_entry C sha256 L now uuid (WReservationCancelled verification_id reason) s =
     end_reservation Cancelled verification_id s"
| "replay_entry C sha256 L now uuid (WReservationExpired verification_id) s = end_reservation Expired verification_id s"
| "replay_entry C sha256 L now uuid (WSettlementCommitted settlement_id verification_id provider_id amount settled_at) s =
     replay_settlement settlement_id verification_id provider_id amount settled_at s"
| "replay_entry C sha256 L now uuid (WProviderRegistered p) s =
     replay_bind (replay_provider L p) (\<lambda>reg.
     Inr (s\<lparr>as_vault := (as_vault s)\<lparr>providers := dm_insert (wp_provider_id p) reg (providers (as_vault s))\<rparr>\<rparr>))"
| "replay_entry C sha256 L now uuid (WParticipantReceiptIssued participant kind nonce) s = Inr (bump_receipt_nonce nonce s)"
| "replay_entry C sha256 L now uuid (WParticipantReceiptMirrored participant kind nonce) s = Inr (bump_receipt_nonce nonce s)"
| "replay_entry C sha256 L now uuid (WClientBalanceSeeded client free locked lock_exp deposited withdrawn) s =
     replay_bind (parse_pubkey L ''client'' client) (\<lambda>client.
     Inr (s\<lparr>as_vault := put_balance client \<lparr>cb_free = free, cb_locked = locked, cb_max_lock_expires_at = lock_exp,
        cb_total_deposited = deposited, cb_total_withdrawn = withdrawn\<rparr> (as_vault s)\<rparr>))"
| "replay_entry C sha256 L now uuid (WBatchSubmitted batch_id provider_count total_amount) s = Inr s"
| "replay_entry C sha256 L now uuid (WBatchConfirmed batch_id tx settlement_ids) s =
     Inr (s\<lparr>as_vault := apply_batch_confirmation settlement_ids batch_id tx (as_vault s)\<rparr>)"
| "replay_entry C sha256 L now uuid (WChannelOpened channel_id client provider_id initial_deposit) s =
     replay_bind (parse_pubkey L ''client'' client) (\<lambda>client.
     replay_unit (open_channel_with_id now channel_id client provider_id initial_deposit) s)"
| "replay_entry C sha256 L now uuid (WChannelRequestSubmitted channel_id request_id amount request_hash) s =
     replay_bind (replay_bind (field request_hash (MissingWalField ''request_hash''))
        (decode_fixed_hex_32 L ''request_hash'')) (\<lambda>request_hash.
     replay_unit (submit_request now channel_id request_id amount request_hash) s)"
| "replay_entry C sha256 L now uuid (WChannelRequestExpired channel_id request_id amount) s =
     replay_unit (expire_replayed_request now channel_id request_id amount) s"
| "replay_entry C sha256 L now uuid (WChannelAdaptorDelivered channel_id request_id adaptor_point rp sp
       encrypted_result result_hash provider_pubkey) s =
     replay_bind (replay_bind (field adaptor_point (MissingWalField ''adaptor_point''))
        (decode_fixed_hex_32 L ''adaptor_point'')) (\<lambda>adaptor_point.
     replay_bind (replay_bind (field rp (MissingWalField ''pre_sig_r_prime''))
        (decode_fixed_hex_32 L ''pre_sig_r_prime'')) (\<lambda>rp.
     replay_bind (replay_bind (field sp (MissingWalField ''pre_sig_s_prime''))
        (decode_fixed_hex_32 L ''pre_sig_s_prime'')) (\<lambda>sp.
     replay_bind (replay_bind (field encrypted_result (MissingWalField ''encrypted_result''))
        (\<lambda>v. field (base64_decode L v) (InvalidWalField ''encrypted_result''))) (\<lambda>encrypted_result.
     replay_bind (replay_bind (field result_hash (MissingWalField ''result_hash''))
        (decode_fixed_hex_32 L ''result_hash'')) (\<lambda>result_hash.
     replay_bind (replay_bind (field provider_pubkey (MissingWalField ''provider_pubkey''))
        (decode_fixed_hex_32 L ''provider_pubkey'')) (\<lambda>provider_pubkey.
     replay_unit (deliver_adaptor C sha256 now channel_id adaptor_point \<lparr>r_prime = rp, s_prime = sp\<rparr>
       encrypted_result result_hash provider_pubkey) s))))))"
| "replay_entry C sha256 L now uuid (WChannelFinalized channel_id request_id amount_paid) s =
     replay_unit (finalize_replayed_request now channel_id request_id amount_paid) s"
| "replay_entry C sha256 L now uuid (WChannelClosed channel_id returned earned settlement_id) s =
     replay_unit (close_channel_with_settlement_id now uuid channel_id settlement_id) s"
| "replay_entry C sha256 L now uuid (WBtcUtxoAdded txid vout value_sat src) s = replay_btc_add L txid vout value_sat s"
| "replay_entry C sha256 L now uuid (WBtcChangeCreated txid vout value_sat) s = replay_btc_add L txid vout value_sat s"
| "replay_entry C sha256 L now uuid (WBtcUtxoSpent txid vout settlement_txid) s = replay_btc_spend L txid vout s"

section \<open>The whole log\<close>

text \<open>\<open>clock i\<close> gives the time and the fresh id for the entry at position \<open>i\<close>.\<close>

fun replay_entries :: "('p, 's) curve \<Rightarrow> (bytes \<Rightarrow> b32) \<Rightarrow> wal_lib \<Rightarrow> (nat \<Rightarrow> i64 \<times> string) \<Rightarrow> wal_entry list
    \<Rightarrow> app_state \<Rightarrow> app_state replay" where
  "replay_entries C sha256 L clock [] s = Inr s"
| "replay_entries C sha256 L clock (e # es) s =
     replay_bind (replay_entry C sha256 L (fst (clock 0)) (snd (clock 0)) e s)
       (replay_entries C sha256 L (clock \<circ> Suc) es)"

fun refresh_clients :: "pubkey list \<Rightarrow> app_state \<Rightarrow> app_state replay" where
  "refresh_clients [] s = Inr s"
| "refresh_clients (c # cs) s =
     replay_bind (replay_unit (refresh_client_max_lock_expires_at c) s) (refresh_clients cs)"

definition replay_app_state_from :: "('p, 's) curve \<Rightarrow> (bytes \<Rightarrow> b32) \<Rightarrow> wal_lib \<Rightarrow> (nat \<Rightarrow> i64 \<times> string)
    \<Rightarrow> u64 option \<Rightarrow> app_state \<Rightarrow> app_state replay" where
  "replay_app_state_from C sha256 L clock min_seqno_exclusive s =
     replay_bind (field (read_records_after L min_seqno_exclusive (as_wal s)) WalReadFailed) (\<lambda>records.
     replay_bind (replay_entries C sha256 L clock (map wr_entry records) s) (\<lambda>s.
     refresh_clients (map fst (client_balances (as_vault s))) s))"

end
