(* ===== verification/Snapshot.thy ===== *)
theory Snapshot
  imports Wal_Replay Enclave_Ledger "HOL-Library.Multiset"
begin

text \<open>
  Snapshots (\<open>enclave/src/snapshot.rs\<close>): what is captured, how it is applied at start-up, which
  objects pruning removes and when a snapshot is due. The envelope is the one of the log; the
  upload and the timer are not modelled.
\<close>

section \<open>Data\<close>

record state_snapshot =
  ss_version :: u32
  ss_snapshot_seqno :: u64
  ss_included_wal_seqno :: "u64 option"
  ss_created_at :: i64
  ss_client_balances :: "(string \<times> client_balance) list"
  ss_reservations :: "reservation list"
  ss_provider_credits :: "provider_credit list"
  ss_multi_chain_provider_credits :: "multi_chain_provider_credit list"
  ss_providers :: "provider_registration list"
  ss_settlement_history :: "settlement_record list"
  ss_settlement_batches :: "(string \<times> settlement_batch_info) list"
  ss_pending_withdrawals :: "pending_withdrawal list"
  ss_active_channels :: "channel_state list"
  ss_auditor_master_secret :: string
  ss_auditor_epoch :: u32
  ss_receipt_nonce :: u64
  ss_withdraw_nonce :: u64
  ss_last_batch_at :: i64
  ss_last_finalized_slot :: u64
  ss_processed_signatures :: "string list"
  ss_last_processed_signature :: "string option"

section \<open>Capture and apply\<close>

definition capture_snapshot :: "wal_lib \<Rightarrow> i64 \<Rightarrow> u64 \<Rightarrow> u64 option \<Rightarrow> app_state \<Rightarrow> state_snapshot" where
  "capture_snapshot L now seqno included_wal_seqno s =
     (let v = as_vault s
      in \<lparr>ss_version = 1, ss_snapshot_seqno = seqno, ss_included_wal_seqno = included_wal_seqno,
          ss_created_at = now,
          ss_client_balances = sort_key fst (map (\<lambda>(k, b). (pubkey_to_string L k, b)) (client_balances v)),
          ss_reservations = sort_key rs_verification_id (map snd (reservations v)),
          ss_provider_credits = sort_key pc_provider_id (map snd (provider_credits v)),
          ss_multi_chain_provider_credits = sort_key mc_provider_id (map snd (multi_chain_provider_credits v)),
          ss_providers = sort_key pr_provider_id (map snd (providers v)),
          ss_settlement_history = sort_key sr_settlement_id (map snd (settlement_history v)),
          ss_settlement_batches = sort_key fst (settlement_batches v),
          ss_pending_withdrawals = sort_key pw_withdraw_nonce (map snd (pending_withdrawals v)),
          ss_active_channels = sort_key ch_channel_id (map snd (active_channels v)),
          ss_auditor_master_secret = base64_encode L (word_bytes (auditor_master_secret v)),
          ss_auditor_epoch = auditor_epoch v, ss_receipt_nonce = receipt_nonce v,
          ss_withdraw_nonce = withdraw_nonce v, ss_last_batch_at = last_batch_at v,
          ss_last_finalized_slot = last_finalized_slot v,
          ss_processed_signatures = sorted_list_of_set (as_processed_signatures s),
          ss_last_processed_signature = as_last_processed_signature s\<rparr>)"

text \<open>Inserting values one after the other into an empty map.\<close>

definition dm_build :: "('v \<Rightarrow> 'k) \<Rightarrow> 'v list \<Rightarrow> ('k, 'v) dashmap" where
  "dm_build key vs = fold (\<lambda>x. dm_insert (key x) x) vs []"

fun load_balances :: "wal_lib \<Rightarrow> (string \<times> client_balance) list \<Rightarrow> (pubkey, client_balance) dashmap
    \<Rightarrow> (pubkey, client_balance) dashmap replay" where
  "load_balances L [] m = Inr m"
| "load_balances L ((c, b) # rest) m =
     replay_bind (field (pubkey_from_str L c) (InvalidWalField ''client'')) (\<lambda>k. load_balances L rest (dm_insert k b m))"

definition apply_snapshot :: "wal_lib \<Rightarrow> state_snapshot \<Rightarrow> app_state \<Rightarrow> app_state replay" where
  "apply_snapshot L snap s =
     replay_bind (load_balances L (ss_client_balances snap) []) (\<lambda>balances.
     replay_bind (field (base64_decode L (ss_auditor_master_secret snap)) (InvalidWalField ''auditor_master_secret'')) (\<lambda>secret.
     if length secret \<noteq> 32 then Inl (InvalidWalField ''auditor_master_secret'')
     else
       let v = (as_vault s)\<lparr>client_balances := balances,
             reservations := dm_build rs_verification_id (ss_reservations snap),
             payment_id_index := fold (\<lambda>r. dm_insert (rs_payment_id r) (rs_verification_id r)) (ss_reservations snap) [],
             provider_credits := dm_build pc_provider_id (ss_provider_credits snap),
             multi_chain_provider_credits := dm_build mc_provider_id (ss_multi_chain_provider_credits snap),
             providers := dm_build pr_provider_id (ss_providers snap),
             settlement_history := dm_build sr_settlement_id (ss_settlement_history snap),
             settlement_batches := fold (\<lambda>(k, b). dm_insert k b) (ss_settlement_batches snap) [],
             pending_withdrawals := dm_build pw_withdraw_nonce (ss_pending_withdrawals snap),
             active_channels := dm_build ch_channel_id (ss_active_channels snap),
             auditor_master_secret := word_of_bytes secret, auditor_epoch := ss_auditor_epoch snap,
             receipt_nonce := ss_receipt_nonce snap, withdraw_nonce := ss_withdraw_nonce snap,
             snapshot_seqno := ss_snapshot_seqno snap, last_batch_at := ss_last_batch_at snap,
             last_finalized_slot := ss_last_finalized_slot snap\<rparr>
       in refresh_clients (map fst (client_balances v))
            (s\<lparr>as_vault := v, as_processed_signatures := set (ss_processed_signatures snap),
               as_last_processed_signature := ss_last_processed_signature snap\<rparr>)))"

section \<open>When to take one, which to keep\<close>

text \<open>\<open>background_loop\<close>: elapsed time and the limits in seconds and events.\<close>

definition should_persist :: "u64 option \<Rightarrow> u64 option \<Rightarrow> nat \<Rightarrow> nat \<Rightarrow> u64 \<Rightarrow> bool" where
  "should_persist current_wal_seqno last_wal_seqno elapsed every_sec every_n_events =
     (case current_wal_seqno of None \<Rightarrow> False
      | Some current \<Rightarrow>
          if Some current = last_wal_seqno then False
          else
            let delta = (case last_wal_seqno of Some prev \<Rightarrow> saturating_sub current prev | None \<Rightarrow> - 1)
            in every_n_events \<le> delta \<or> every_sec \<le> elapsed)"

definition snapshot_keys_to_prune :: "'a list \<Rightarrow> nat \<Rightarrow> 'a list" where
  "snapshot_keys_to_prune keys retain_count =
     (if retain_count = 0 \<or> length keys \<le> retain_count then []
      else take (length keys - retain_count) keys)"

section \<open>Rebuilt maps\<close>

lemma map_of_mset_eq: "distinct (map fst xs) \<Longrightarrow> mset xs = mset ys \<Longrightarrow> map_of xs = map_of ys"
  by (metis map_of_inject_set mset_eq_imp_distinct_iff mset_map set_mset_mset)

lemma mset_map_sort: "mset (map h (sort_key f xs)) = mset (map h xs)"
  by (simp only: mset_map mset_sort)

lemma dm_get_fold_insert:
  "dm_get (fold (\<lambda>x. dm_insert (kf x) (vf x)) xs m) = dm_get m ++ map_of (rev (map (\<lambda>x. (kf x, vf x)) xs))"
proof (induction xs arbitrary: m)
  case (Cons x xs)
  have "dm_get (dm_insert (kf x) (vf x) m) = dm_get m ++ [kf x \<mapsto> vf x]" by (simp add: update_conv')
  with Cons show ?case by (simp add: fun_upd_def)
qed simp

lemma dm_get_fold_distinct:
  assumes "distinct (map kf xs)"
  shows "dm_get (fold (\<lambda>x. dm_insert (kf x) (vf x)) xs []) = map_of (map (\<lambda>x. (kf x, vf x)) xs)"
proof -
  have "distinct (map fst (map (\<lambda>x. (kf x, vf x)) xs))" using assms by (simp add: comp_def)
  from map_of_mset_eq [OF this, of "rev (map (\<lambda>x. (kf x, vf x)) xs)"] show ?thesis
    by (simp add: dm_get_fold_insert)
qed

text \<open>A map whose keys are the ids of its values is rebuilt from its sorted values.\<close>

definition keyed :: "('v \<Rightarrow> 'k) \<Rightarrow> ('k, 'v) dashmap \<Rightarrow> bool" where
  "keyed key m \<longleftrightarrow> dm_wf m \<and> (\<forall>(k, v)\<in>set m. key v = k)"

lemma keyed_pairs: "keyed key m \<Longrightarrow> map (\<lambda>x. (key x, x)) (map snd m) = m"
  by (auto simp: keyed_def intro!: map_idI)

lemma keyed_rebuild:
  assumes "keyed key m"
  shows "dm_get (dm_build key (sort_key f (map snd m))) = dm_get m"
proof -
  let ?vs = "sort_key f (map snd m)"
  have ms: "mset (map (\<lambda>x. (key x, x)) ?vs) = mset m"
    by (metis keyed_pairs [OF assms] mset_map mset_sort)
  have d: "distinct (map fst m)" using assms by (simp add: keyed_def dm_wf_def)
  have "mset (map key ?vs) = mset (map fst m)"
    using arg_cong [OF ms, of "image_mset fst"] by (simp add: image_mset.compositionality comp_def)
  then have "distinct (map key ?vs)" using d by (metis mset_eq_imp_distinct_iff)
  then show ?thesis using map_of_mset_eq [OF d ms [symmetric]] using dm_get_fold_distinct [of key ?vs "\<lambda>x. x"] by (simp add: dm_build_def)
qed

lemma pairs_rebuild:
  assumes "dm_wf m"
  shows "dm_get (fold (\<lambda>(k, b). dm_insert k b) (sort_key f m) []) = dm_get m"
proof -
  have d: "distinct (map fst m)" using assms by (simp add: dm_wf_def)
  then have "distinct (map fst (sort_key f m))"
    by (metis mset_eq_imp_distinct_iff mset_map mset_sort)
  from dm_get_fold_distinct [OF this, of snd] map_of_mset_eq [OF d, of "sort_key f m"] show ?thesis
    by (simp add: case_prod_unfold)
qed

text \<open>Client balances pass through the text form of the key.\<close>

lemma load_balances_fold:
  "wal_lib_laws L \<Longrightarrow> load_balances L (map (\<lambda>(k, b). (pubkey_to_string L k, b)) kbs) m
     = Inr (fold (\<lambda>(k, b). dm_insert k b) kbs m)"
  by (induction kbs arbitrary: m) (auto simp: replay_bind_def field_def wal_lib_laws_def)

section \<open>Lock expiry\<close>

text \<open>The recomputed expiry is the only part of a balance that may differ.\<close>

definition erase_lock :: "client_balance \<Rightarrow> client_balance" where
  "erase_lock b = b\<lparr>cb_max_lock_expires_at := 0\<rparr>"

lemma erase_lock_set [simp]: "erase_lock (b\<lparr>cb_max_lock_expires_at := x\<rparr>) = erase_lock b"
  by (simp add: erase_lock_def)

lemma refresh_clients_total:
  "set cs \<subseteq> fst ` set (client_balances (as_vault s)) \<Longrightarrow>
     \<exists>m. refresh_clients cs s = Inr (s\<lparr>as_vault := (as_vault s)\<lparr>client_balances := m\<rparr>\<rparr>)
       \<and> (\<forall>c. map_option erase_lock (dm_get m c) = map_option erase_lock (dm_get (client_balances (as_vault s)) c))"
proof (induction cs arbitrary: s)
  case Nil
  then show ?case by (intro exI [of _ "client_balances (as_vault s)"]) simp
next
  case (Cons c cs)
  let ?m = "client_balances (as_vault s)"
  obtain b where b: "dm_get ?m c = Some b" using Cons.prems by (auto simp: weak_map_of_SomeI dest!: weak_map_of_SomeI)
  then obtain x where r: "replay_unit (refresh_client_max_lock_expires_at c) s
      = Inr (s\<lparr>as_vault := (as_vault s)\<lparr>client_balances := dm_insert c (b\<lparr>cb_max_lock_expires_at := x\<rparr>) ?m\<rparr>\<rparr>)"
    by (simp add: replay_unit_def replay_op_def replay_bind_def refresh_client_max_lock_expires_at_def
        put_balance_def Let_def)
  let ?s = "s\<lparr>as_vault := (as_vault s)\<lparr>client_balances := dm_insert c (b\<lparr>cb_max_lock_expires_at := x\<rparr>) ?m\<rparr>\<rparr>"
  have "set cs \<subseteq> fst ` set (client_balances (as_vault ?s))"
    using Cons.prems unfolding dom_map_of_conv_image_fst [symmetric] by (auto simp: dm_get_insert split: if_splits)
  from Cons.IH [OF this] obtain m where m: "refresh_clients cs ?s = Inr (?s\<lparr>as_vault := (as_vault ?s)\<lparr>client_balances := m\<rparr>\<rparr>)"
    "\<forall>k. map_option erase_lock (dm_get m k) = map_option erase_lock (dm_get (client_balances (as_vault ?s)) k)" by blast
  then show ?case using r b
    by (intro exI [of _ m]) (auto simp: replay_bind_def dm_get_insert split: if_splits)
qed

section \<open>Well-formed states\<close>

definition snapshot_wf :: "app_state \<Rightarrow> bool" where
  "snapshot_wf s \<longleftrightarrow> (let v = as_vault s in dm_wf (client_balances v)
     \<and> keyed rs_verification_id (reservations v) \<and> keyed pc_provider_id (provider_credits v)
     \<and> keyed mc_provider_id (multi_chain_provider_credits v) \<and> keyed pr_provider_id (providers v)
     \<and> keyed sr_settlement_id (settlement_history v) \<and> dm_wf (settlement_batches v)
     \<and> keyed pw_withdraw_nonce (pending_withdrawals v) \<and> keyed ch_channel_id (active_channels v)
     \<and> finite (as_processed_signatures s))"

definition indexed :: "vault_state \<Rightarrow> bool" where
  "indexed v \<longleftrightarrow> distinct (map (rs_payment_id \<circ> snd) (reservations v))
     \<and> dm_get (payment_id_index v) = map_of (map (\<lambda>(_, r). (rs_payment_id r, rs_verification_id r)) (reservations v))"

lemma index_rebuild:
  assumes "indexed v"
  shows "dm_get (fold (\<lambda>r. dm_insert (rs_payment_id r) (rs_verification_id r)) (sort_key f (map snd (reservations v))) [])
     = dm_get (payment_id_index v)"
proof -
  let ?rs = "map snd (reservations v)" and ?p = "\<lambda>r. (rs_payment_id r, rs_verification_id r)"
  have d: "distinct (map fst (map ?p ?rs))" using assms by (simp add: indexed_def comp_def)
  have m: "mset (map ?p ?rs) = mset (map ?p (sort_key f ?rs))" by (simp only: mset_map_sort)
  have "mset (map rs_payment_id ?rs) = mset (map rs_payment_id (sort_key f ?rs))" by (simp only: mset_map_sort)
  moreover have "distinct (map rs_payment_id ?rs)" using d by (simp add: comp_def)
  ultimately have "distinct (map rs_payment_id (sort_key f ?rs))" by (metis mset_eq_imp_distinct_iff)
  from dm_get_fold_distinct [OF this, of rs_verification_id] map_of_mset_eq [OF d m] assms show ?thesis
    by (simp add: indexed_def case_prod_unfold comp_def)
qed

section \<open>Round trip\<close>

lemma balances_rebuild:
  assumes "wal_lib_laws L" "dm_wf m"
  shows "\<exists>m'. load_balances L (sort_key fst (map (\<lambda>(k, b). (pubkey_to_string L k, b)) m)) [] = Inr m' \<and> dm_get m' = dm_get m"
proof -
  let ?ord = "\<lambda>p. pubkey_to_string L (fst p)"
  have "sort_key fst (map (\<lambda>(k, b). (pubkey_to_string L k, b)) m)
      = map (\<lambda>(k, b). (pubkey_to_string L k, b)) (sort_key ?ord m)"
    by (simp add: sort_key_map case_prod_unfold)
  then show ?thesis using load_balances_fold [OF assms(1)] pairs_rebuild [OF assms(2)] by simp
qed

text \<open>The state that apply builds before the lock expiries are recomputed.\<close>

definition same_vault :: "vault_state \<Rightarrow> vault_state \<Rightarrow> bool" where
  "same_vault v w \<longleftrightarrow>
     (\<forall>c. map_option erase_lock (dm_get (client_balances v) c) = map_option erase_lock (dm_get (client_balances w) c))
   \<and> dm_get (reservations v) = dm_get (reservations w)
   \<and> dm_get (payment_id_index v) = dm_get (payment_id_index w)
   \<and> dm_get (provider_credits v) = dm_get (provider_credits w)
   \<and> dm_get (multi_chain_provider_credits v) = dm_get (multi_chain_provider_credits w)
   \<and> dm_get (providers v) = dm_get (providers w)
   \<and> dm_get (settlement_history v) = dm_get (settlement_history w)
   \<and> dm_get (settlement_batches v) = dm_get (settlement_batches w)
   \<and> dm_get (pending_withdrawals v) = dm_get (pending_withdrawals w)
   \<and> dm_get (active_channels v) = dm_get (active_channels w)
   \<and> auditor_master_secret v = auditor_master_secret w \<and> auditor_epoch v = auditor_epoch w
   \<and> receipt_nonce v = receipt_nonce w \<and> withdraw_nonce v = withdraw_nonce w
   \<and> last_batch_at v = last_batch_at w \<and> last_finalized_slot v = last_finalized_slot w"

lemma same_vault_refresh:
  "\<forall>c. map_option erase_lock (dm_get m c) = map_option erase_lock (dm_get (client_balances v) c)
     \<Longrightarrow> same_vault v w \<Longrightarrow> same_vault (v\<lparr>client_balances := m\<rparr>) w"
  by (simp add: same_vault_def)

text \<open>
  Snapshot round trip. Applying a captured snapshot to any state succeeds and gives back every
  table, counter and secret of the captured vault and the detector's progress; only the lock expiry
  of a balance is recomputed. The Bitcoin ledger is not in the snapshot and stays as it was.
\<close>

theorem snapshot_roundtrip:
  assumes L: "wal_lib_laws L" and wf: "snapshot_wf s" and ix: "indexed (as_vault s)"
  shows "\<exists>s'. apply_snapshot L (capture_snapshot L now n inc s) s0 = Inr s'
    \<and> same_vault (as_vault s') (as_vault s) \<and> snapshot_seqno (as_vault s') = n
    \<and> as_processed_signatures s' = as_processed_signatures s
    \<and> as_last_processed_signature s' = as_last_processed_signature s
    \<and> as_btc_ledger s' = as_btc_ledger s0"
proof -
  let ?v = "as_vault s" and ?c = "capture_snapshot L now n inc s"
  note wfs = wf [unfolded snapshot_wf_def Let_def]
  obtain bs where bs: "load_balances L (ss_client_balances ?c) [] = Inr bs" "dm_get bs = dm_get (client_balances ?v)"
    using balances_rebuild [OF L, of "client_balances ?v"] wfs by (auto simp: capture_snapshot_def Let_def)
  define w where "w = (as_vault s0)\<lparr>client_balances := bs,
     reservations := dm_build rs_verification_id (ss_reservations ?c),
     payment_id_index := fold (\<lambda>r. dm_insert (rs_payment_id r) (rs_verification_id r)) (ss_reservations ?c) [],
     provider_credits := dm_build pc_provider_id (ss_provider_credits ?c),
     multi_chain_provider_credits := dm_build mc_provider_id (ss_multi_chain_provider_credits ?c),
     providers := dm_build pr_provider_id (ss_providers ?c),
     settlement_history := dm_build sr_settlement_id (ss_settlement_history ?c),
     settlement_batches := fold (\<lambda>(k, b). dm_insert k b) (ss_settlement_batches ?c) [],
     pending_withdrawals := dm_build pw_withdraw_nonce (ss_pending_withdrawals ?c),
     active_channels := dm_build ch_channel_id (ss_active_channels ?c),
     auditor_master_secret := auditor_master_secret ?v, auditor_epoch := auditor_epoch ?v,
     receipt_nonce := receipt_nonce ?v, withdraw_nonce := withdraw_nonce ?v,
     snapshot_seqno := n, last_batch_at := last_batch_at ?v,
     last_finalized_slot := last_finalized_slot ?v\<rparr>"
  have same: "same_vault w ?v"
    using wfs bs(2) by (simp add: same_vault_def w_def capture_snapshot_def Let_def keyed_rebuild pairs_rebuild index_rebuild [OF ix])
  define t where "t = s0\<lparr>as_vault := w, as_processed_signatures := set (ss_processed_signatures ?c),
     as_last_processed_signature := as_last_processed_signature s\<rparr>"
  have sec: "base64_decode L (ss_auditor_master_secret ?c) = Some (word_bytes (auditor_master_secret ?v))"
    using L by (simp add: capture_snapshot_def Let_def wal_lib_laws_def)
  have ap: "apply_snapshot L ?c s0 = refresh_clients (map fst (client_balances (as_vault t))) t"
    unfolding apply_snapshot_def bs(1) sec
    by (simp add: replay_bind_def field_def t_def w_def Let_def word_of_bytes_word_bytes capture_snapshot_def)
  obtain m where m: "refresh_clients (map fst (client_balances (as_vault t))) t
      = Inr (t\<lparr>as_vault := (as_vault t)\<lparr>client_balances := m\<rparr>\<rparr>)"
    "\<forall>c. map_option erase_lock (dm_get m c) = map_option erase_lock (dm_get (client_balances (as_vault t)) c)"
    using refresh_clients_total [of "map fst (client_balances (as_vault t))" t] by auto
  have "same_vault (w\<lparr>client_balances := m\<rparr>) ?v"
    using m(2) same by (intro same_vault_refresh) (simp_all add: t_def)
  moreover have "set (ss_processed_signatures ?c) = as_processed_signatures s"
    using wfs by (simp add: capture_snapshot_def Let_def)
  moreover have "snapshot_seqno w = n" by (simp add: w_def)
  ultimately show ?thesis by (simp add: ap m(1)) (simp add: t_def)
qed

text \<open>A recovered node as it starts, and one that has served a payment and holds a Bitcoin output.\<close>

definition fresh_app :: app_state where
  "fresh_app = \<lparr>as_vault = vault_state_new (\<lambda>k. k) 1 2 3 4 (solana demo_vault), as_wal = wal_open 3 [],
     as_processed_signatures = {}, as_last_processed_signature = None, as_btc_ledger = btc_ledger_new\<rparr>"

definition demo_app :: app_state where
  "demo_app = fresh_app\<lparr>as_vault := demo_vault\<lparr>payment_id_index :=
       [(rs_payment_id demo_reservation, rs_verification_id demo_reservation)]\<rparr>,
     as_processed_signatures := {''sig1''}, as_last_processed_signature := Some ''sig1'',
     as_btc_ledger := \<lparr>bl_utxos = [(\<lparr>uk_txid = 7, uk_vout = 0\<rparr>, 5000)], bl_spent_count = 0\<rparr>\<rparr>"

lemma demo_app_wf: "snapshot_wf demo_app" "indexed (as_vault demo_app)"
  by (simp_all add: snapshot_wf_def indexed_def keyed_def dm_wf_def demo_app_def fresh_app_def demo_defs)

theorem snapshot_roundtrip_witness:
  "\<exists>s'. apply_snapshot demo_lib (capture_snapshot demo_lib 9 1 None demo_app) fresh_app = Inr s'
     \<and> dm_get (reservations (as_vault s')) = dm_get (reservations (as_vault demo_app))"
  using snapshot_roundtrip [OF demo_lib_laws demo_app_wf, of 9 1 None fresh_app] by (auto simp: same_vault_def)


text \<open>
  A snapshot forgets the Bitcoin ledger. An output recorded before the snapshot and spent after
  it replays on the full log, but a node that restarts from the snapshot rejects the spend entry
  as unknown, and the start fails.
\<close>

theorem snapshot_forgets_btc_ledger:
  assumes L: "wal_lib_laws L" and wf: "snapshot_wf s" and ix: "indexed (as_vault s)"
    and s0: "as_btc_ledger s0 = btc_ledger_new" and t: "txid_from_str L txid = Some t"
    and held: "dm_get (bl_utxos (as_btc_ledger s)) \<lparr>uk_txid = t, uk_vout = vout\<rparr> = Some sat"
  shows "(\<exists>s1. replay_entries C H L clock [WBtcUtxoSpent txid vout stx] s = Inr s1)
    \<and> replay_bind (apply_snapshot L (capture_snapshot L now n inc s) s0)
        (replay_entries C H L clock [WBtcUtxoSpent txid vout stx]) = Inl (WalLedgerError (NotFound t vout))"
proof -
  obtain s' where "apply_snapshot L (capture_snapshot L now n inc s) s0 = Inr s'" "as_btc_ledger s' = btc_ledger_new"
    using snapshot_roundtrip [OF L wf ix] s0 by metis
  then show ?thesis using t held
    by (simp add: replay_btc_spend_def replay_bind_def parse_btc_txid_def field_def btc_spend_def btc_ledger_new_def)
qed

theorem snapshot_forgets_btc_ledger_witness:
  "replay_bind (apply_snapshot demo_lib (capture_snapshot demo_lib 9 1 None demo_app) fresh_app)
     (replay_entries word_curve (\<lambda>_. 0) demo_lib (\<lambda>_. (0, [])) [WBtcUtxoSpent ''xxxxxxx'' 0 ''t''])
     = Inl (WalLedgerError (NotFound 7 0))"
proof (rule snapshot_forgets_btc_ledger [OF demo_lib_laws demo_app_wf, THEN conjunct2])
  show "as_btc_ledger fresh_app = btc_ledger_new" by (simp add: fresh_app_def)
  show "txid_from_str demo_lib ''xxxxxxx'' = Some 7" by (simp add: demo_lib_def)
  show "dm_get (bl_utxos (as_btc_ledger demo_app)) \<lparr>uk_txid = 7, uk_vout = 0\<rparr> = Some 5000" by (simp add: demo_app_def)
qed

end
