(* ===== verification/Snapshot_Store.thy ===== *)
theory Snapshot_Store
  imports Snapshot
begin

text \<open>
  The snapshot manager of \<open>enclave/src/snapshot.rs\<close> over its object store: naming the objects,
  persisting, pruning, recovering the latest. The store is the list of objects under their keys;
  \<open>put_ok\<close> and \<open>fail\<close> say which of its calls fail. The JSON form of a snapshot is library code and
  a pair of parameters.
\<close>

section \<open>Data\<close>

type_synonym object_store = "(string, bytes) dashmap"

record snapshot_manager =
  sm_prefix :: string
  sm_key :: b32
  sm_every_sec :: nat
  sm_every_n_events :: u64
  sm_retain_count :: nat
  sm_last_included_wal_seqno :: "u64 option"
  sm_last_persisted_at :: nat

record snapshot_json =
  json_of_snapshot :: "state_snapshot \<Rightarrow> bytes"
  snapshot_of_json :: "bytes \<Rightarrow> state_snapshot option"

section \<open>Object names\<close>

text \<open>\<open>{:020}\<close>: a \<open>u64\<close> has at most 20 decimal digits, so the padded form has exactly 20.\<close>

fun dec_digits :: "nat \<Rightarrow> nat \<Rightarrow> string" where
  "dec_digits 0 n = []"
| "dec_digits (Suc w) n = dec_digits w (n div 10) @ [char_of (48 + n mod 10)]"

definition trim_end_slash :: "string \<Rightarrow> string" where
  "trim_end_slash s = rev (dropWhile (\<lambda>c. c = CHR ''/'') (rev s))"

definition snapshot_object_key :: "string \<Rightarrow> u64 \<Rightarrow> string" where
  "snapshot_object_key prefix seqno =
     trim_end_slash prefix @ ''/snapshot-'' @ dec_digits 20 (unat seqno) @ ''.json''"

definition store_list :: "string \<Rightarrow> object_store \<Rightarrow> string list" where
  "store_list prefix st = filter (\<lambda>k. starts_with k prefix) (map fst st)"

section \<open>Envelope\<close>

definition encrypt_snapshot :: "wal_lib \<Rightarrow> b32 \<Rightarrow> bytes \<Rightarrow> bytes \<Rightarrow> encrypted_wal_envelope option" where
  "encrypt_snapshot L key nonce plaintext =
     map_option (\<lambda>ciphertext. \<lparr>en_version = 1, en_nonce = base64_encode L nonce,
       en_ciphertext = base64_encode L ciphertext\<rparr>) (aes_encrypt L key nonce plaintext)"

definition decrypt_snapshot :: "wal_lib \<Rightarrow> b32 \<Rightarrow> encrypted_wal_envelope \<Rightarrow> bytes replay" where
  "decrypt_snapshot L key envelope =
     (if en_version envelope \<noteq> 1 then Inl (InvalidWalField ''version'')
      else replay_bind (field (base64_decode L (en_nonce envelope)) (InvalidWalField ''nonce'')) (\<lambda>nonce.
        if length nonce \<noteq> 12 then Inl (InvalidWalField ''nonce'')
        else replay_bind (field (base64_decode L (en_ciphertext envelope)) (InvalidWalField ''ciphertext'')) (\<lambda>ciphertext.
          field (aes_decrypt L key nonce ciphertext) (InvalidWalField ''ciphertext''))))"

section \<open>Persist and prune\<close>

text \<open>\<open>fail = Some n\<close>: the delete after \<open>n\<close> successful ones fails.\<close>

definition prune_old_snapshots :: "snapshot_manager \<Rightarrow> string \<Rightarrow> nat option \<Rightarrow> object_store \<Rightarrow> bool \<times> object_store" where
  "prune_old_snapshots m latest_key fail st =
     (if sm_retain_count m = 0 then (True, st)
      else
        let stale = filter (\<lambda>k. k \<noteq> latest_key)
              (snapshot_keys_to_prune (sort (store_list (sm_prefix m) st)) (sm_retain_count m))
        in case fail of
             Some n \<Rightarrow> if n < length stale then (False, fold dm_remove (take n stale) st) else (True, fold dm_remove stale st)
           | None \<Rightarrow> (True, fold dm_remove stale st))"

definition persist_now :: "wal_lib \<Rightarrow> snapshot_json \<Rightarrow> bytes \<Rightarrow> i64 \<Rightarrow> nat \<Rightarrow> bool \<Rightarrow> nat option
    \<Rightarrow> snapshot_manager \<Rightarrow> app_state \<Rightarrow> object_store \<Rightarrow> u64 option \<times> snapshot_manager \<times> app_state \<times> object_store" where
  "persist_now L J nonce now instant put_ok fail m s st =
     (let seqno = saturating_add (snapshot_seqno (as_vault s)) 1;
          included = last_seqno (as_wal s);
          snap = capture_snapshot L now seqno included s
      in case encrypt_snapshot L (sm_key m) nonce (json_of_snapshot J snap) of
           None \<Rightarrow> (None, m, s, st)
         | Some envelope \<Rightarrow>
             let key = snapshot_object_key (sm_prefix m) seqno
             in if \<not> put_ok then (None, m, s, st)
                else (case prune_old_snapshots m key fail (dm_insert key (json_of_envelope L envelope) st) of
                   (False, st') \<Rightarrow> (None, m, s, st')
                 | (True, st') \<Rightarrow>
                     (Some seqno, m\<lparr>sm_last_included_wal_seqno := included, sm_last_persisted_at := instant\<rparr>,
                      s\<lparr>as_vault := (as_vault s)\<lparr>snapshot_seqno := seqno\<rparr>\<rparr>, st')))"

text \<open>\<open>background_loop\<close>: one tick.\<close>

definition snapshot_tick :: "wal_lib \<Rightarrow> snapshot_json \<Rightarrow> bytes \<Rightarrow> i64 \<Rightarrow> nat \<Rightarrow> bool \<Rightarrow> nat option
    \<Rightarrow> snapshot_manager \<Rightarrow> app_state \<Rightarrow> object_store \<Rightarrow> snapshot_manager \<times> app_state \<times> object_store" where
  "snapshot_tick L J nonce now instant put_ok fail m s st =
     (if should_persist (last_seqno (as_wal s)) (sm_last_included_wal_seqno m) (instant - sm_last_persisted_at m)
           (sm_every_sec m) (sm_every_n_events m)
      then snd (persist_now L J nonce now instant put_ok fail m s st)
      else (m, s, st))"

section \<open>Recover\<close>

definition recover_latest :: "wal_lib \<Rightarrow> snapshot_json \<Rightarrow> nat \<Rightarrow> snapshot_manager \<Rightarrow> app_state \<Rightarrow> object_store
    \<Rightarrow> (u64 option \<times> snapshot_manager \<times> app_state) replay" where
  "recover_latest L J instant m s st =
     (case sort (store_list (sm_prefix m) st) of
        [] \<Rightarrow> Inr (None, m, s)
      | keys \<Rightarrow>
          replay_bind (field (dm_get st (last keys)) (MissingWalField ''snapshot'')) (\<lambda>blob.
          replay_bind (field (envelope_of_json L blob) (InvalidWalField ''envelope'')) (\<lambda>envelope.
          replay_bind (decrypt_snapshot L (sm_key m) envelope) (\<lambda>plaintext.
          replay_bind (field (snapshot_of_json J plaintext) (InvalidWalField ''snapshot'')) (\<lambda>snap.
          replay_bind (apply_snapshot L snap s) (\<lambda>s'.
          Inr (ss_included_wal_seqno snap,
               m\<lparr>sm_last_included_wal_seqno := ss_included_wal_seqno snap, sm_last_persisted_at := instant\<rparr>, s')))))))"

section \<open>Names sort like numbers\<close>

lemma less_append_same: "p @ xs < p @ ys \<longleftrightarrow> xs < (ys :: 'a::order list)"
  by (induction p) auto

lemma less_append_eq_length:
  "length xs = length ys \<Longrightarrow> xs @ s < ys @ t \<longleftrightarrow> xs < ys \<or> xs = ys \<and> s < (t :: 'a::order list)"
  by (induction xs ys rule: list_induct2) auto

lemma dec_digits_length [simp]: "length (dec_digits w n) = w"
  by (induction w arbitrary: n) auto

lemma digit_less: "a < 10 \<Longrightarrow> b < 10 \<Longrightarrow> (char_of (48 + a) :: char) < char_of (48 + b) \<longleftrightarrow> a < (b :: nat)"
  by (simp add: less_char_def)

lemma digit_eq: "a < 10 \<Longrightarrow> b < 10 \<Longrightarrow> (char_of (48 + a) :: char) = char_of (48 + b) \<longleftrightarrow> a = (b :: nat)"
  by (metis digit_less less_irrefl linorder_neq_iff)

lemma position_less: "r < 10 \<Longrightarrow> r' < 10 \<Longrightarrow> 10 * q + r < 10 * q' + r' \<longleftrightarrow> q < q' \<or> q = q' \<and> r < (r' :: nat)"
  by linarith

lemma dec_digits_less: "n < 10 ^ w \<Longrightarrow> m < 10 ^ w \<Longrightarrow>
    (dec_digits w n < dec_digits w m \<longleftrightarrow> n < m) \<and> (dec_digits w n = dec_digits w m \<longleftrightarrow> n = m)"
proof (induction w arbitrary: n m)
  case (Suc w)
  have IH: "(dec_digits w (n div 10) < dec_digits w (m div 10) \<longleftrightarrow> n div 10 < m div 10)
      \<and> (dec_digits w (n div 10) = dec_digits w (m div 10) \<longleftrightarrow> n div 10 = m div 10)"
    using Suc.prems by (intro Suc.IH) (auto simp: less_mult_imp_div_less mult.commute)
  have "n < m \<longleftrightarrow> n div 10 < m div 10 \<or> n div 10 = m div 10 \<and> n mod 10 < m mod 10"
    using position_less [of "n mod 10" "m mod 10" "n div 10" "m div 10"] by simp
  moreover have "n = m \<longleftrightarrow> n div 10 = m div 10 \<and> n mod 10 = m mod 10" by (metis div_mult_mod_eq)
  ultimately show ?case using IH by (simp add: less_append_eq_length digit_less digit_eq)
qed simp

lemma u64_digits: "unat (n :: u64) < 10 ^ 20"
  using unsigned_less [of n, where ?'a = nat] by simp

lemma snapshot_object_key_less: "snapshot_object_key p n < snapshot_object_key p m \<longleftrightarrow> n < m"
  using dec_digits_less [OF u64_digits u64_digits, of n m]
  by (simp add: snapshot_object_key_def less_append_same less_append_eq_length word_less_nat_alt)

lemma snapshot_object_key_inj: "snapshot_object_key p n = snapshot_object_key p m \<longleftrightarrow> n = m"
  by (metis snapshot_object_key_less neqE order.irrefl)


section \<open>The newest object survives\<close>

lemma last_sort_max: "x \<in> set xs \<Longrightarrow> (\<And>y. y \<in> set xs \<Longrightarrow> y \<le> x) \<Longrightarrow> last (sort xs) = (x :: 'a::linorder)"
proof -
  assume x: "x \<in> set xs" and le: "\<And>y. y \<in> set xs \<Longrightarrow> y \<le> x"
  obtain ys z where s: "sort xs = ys @ [z]" using x by (cases "sort xs" rule: rev_cases) (auto dest: arg_cong [where f = set])
  have "set (sort xs) = set xs" by simp
  then have zx: "z \<le> x" and "x = z \<or> x \<in> set ys" using x le s by auto
  moreover have "\<forall>y\<in>set ys. y \<le> z" using sorted_sort [of xs] s by (simp add: sorted_append)
  ultimately have "z = x" by (auto intro: antisym)
  with s show ?thesis by simp
qed

lemma fold_remove_get: "k \<notin> set ks \<Longrightarrow> dm_get (fold dm_remove ks st) k = dm_get st k"
  by (induction ks arbitrary: st) (auto simp: dm_get_remove)

lemma fold_remove_keys: "fst ` set (fold dm_remove ks st) \<subseteq> fst ` set st"
proof (induction ks arbitrary: st)
  case (Cons k ks)
  have "fst ` set (dm_remove k st) \<subseteq> fst ` set st"
    unfolding dom_map_of_conv_image_fst [symmetric] by (auto simp: dm_get_remove split: if_splits)
  with Cons [of "dm_remove k st"] show ?case by auto
qed simp

lemma prune_keeps_latest:
  "prune_old_snapshots m latest fail st = (ok, st') \<Longrightarrow>
     dm_get st' latest = dm_get st latest \<and> fst ` set st' \<subseteq> fst ` set st"
proof -
  assume "prune_old_snapshots m latest fail st = (ok, st')"
  then obtain ks where "st' = fold dm_remove ks st" "latest \<notin> set ks"
    by (force simp: prune_old_snapshots_def Let_def split: if_splits option.splits dest: in_set_takeD intro: fold_simps(1) [symmetric])
  then show ?thesis using fold_remove_keys [of ks st] by (simp add: fold_remove_get)
qed

lemma object_key_prefix: "trim_end_slash p = p \<Longrightarrow> starts_with (snapshot_object_key p n) p"
  by (simp add: starts_with_def snapshot_object_key_def)

lemma decrypt_encrypt_snapshot:
  "wal_lib_laws L \<Longrightarrow> length nonce = 12 \<Longrightarrow> encrypt_snapshot L key nonce p = Some e \<Longrightarrow> decrypt_snapshot L key e = Inr p"
  by (auto simp: encrypt_snapshot_def decrypt_snapshot_def wal_lib_laws_def replay_bind_def field_def)

lemma persist_now_Some:
  assumes "persist_now L J nonce now instant put_ok fail m s st = (Some n, m', s', st')"
  shows "n = saturating_add (snapshot_seqno (as_vault s)) 1 \<and> sm_prefix m' = sm_prefix m \<and> sm_key m' = sm_key m
    \<and> (\<exists>e. encrypt_snapshot L (sm_key m) nonce (json_of_snapshot J (capture_snapshot L now n (last_seqno (as_wal s)) s)) = Some e
        \<and> prune_old_snapshots m (snapshot_object_key (sm_prefix m) n) fail
            (dm_insert (snapshot_object_key (sm_prefix m) n) (json_of_envelope L e) st) = (True, st'))"
  using assms by (auto simp: persist_now_def Let_def split: option.splits if_splits prod.splits bool.splits)

lemma saturating_add_ge: "(x :: 'a::len word) \<le> saturating_add x y"
proof (cases "unat x + unat y < 2 ^ LENGTH('a)")
  case True
  then show ?thesis by (simp add: saturating_add_def word_le_nat_alt unat_add_lem [THEN iffD1])
qed (simp add: saturating_add_def)

text \<open>The object persisted is the last one in the order of names.\<close>

lemma persisted_is_last:
  assumes p: "trim_end_slash p = p" and old: "\<forall>k\<in>set (store_list p st). \<exists>i. i \<le> q \<and> k = snapshot_object_key p i"
    and n: "q \<le> n" and get: "dm_get st' (snapshot_object_key p n) = Some blob"
    and keys: "fst ` set st' \<subseteq> insert (snapshot_object_key p n) (fst ` set st)"
  shows "last (sort (store_list p st')) = snapshot_object_key p n \<and> store_list p st' \<noteq> []"
proof -
  have "snapshot_object_key p n \<in> set (store_list p st')"
    using map_of_SomeD [OF get] object_key_prefix [OF p] by (force simp: store_list_def)
  moreover have "k \<le> snapshot_object_key p n" if "k \<in> set (store_list p st')" for k
  proof -
    have "k = snapshot_object_key p n \<or> k \<in> set (store_list p st)" using that keys by (auto simp: store_list_def)
    then obtain i where "k = snapshot_object_key p i" "i \<le> n" using old n by (metis order.refl order.trans)
    then show ?thesis by (metis snapshot_object_key_less not_le)
  qed
  ultimately show ?thesis using last_sort_max by (metis empty_iff empty_set)
qed



definition demo_manager :: snapshot_manager where
  "demo_manager = \<lparr>sm_prefix = ''p'', sm_key = 3, sm_every_sec = 30, sm_every_n_events = 100, sm_retain_count = 5,
     sm_last_included_wal_seqno = None, sm_last_persisted_at = 0\<rparr>"

definition demo_json :: snapshot_json where
  "demo_json = \<lparr>json_of_snapshot = (\<lambda>_. [1]), snapshot_of_json = (\<lambda>_. Some (capture_snapshot demo_lib 9 1 None demo_app))\<rparr>"

lemma demo_persist_run:
  "\<exists>m' s' st'. persist_now demo_lib demo_json (replicate 12 0) 9 7 True None demo_manager demo_app [] = (Some 1, m', s', st')"
proof -
  have "snapshot_seqno (as_vault demo_app) = 0" by (simp add: demo_app_def demo_defs)
  moreover have "prune_old_snapshots demo_manager k None [(k, e)] = (True, [(k, e)])" for k e
    by (simp add: prune_old_snapshots_def snapshot_keys_to_prune_def demo_manager_def store_list_def)
  ultimately show ?thesis
    by (simp add: persist_now_def encrypt_snapshot_def demo_lib_def saturating_add_def Let_def)
qed


end
