(* ===== verification/Text_Format.thy ===== *)
theory Text_Format
  imports Codec "HOL-Library.List_Lexorder" "HOL-Library.Char_ord" "HOL-Library.Multiset"
begin

text \<open>
  What the handlers use of Rust's text formatting: decimal numbers as \<open>format!\<close> prints and
  \<open>str::parse\<close> reads them, messages whose fields are lines, and JSON values with the canonical
  text of \<open>canonical_json\<close> (\<open>enclave/src/handlers.rs\<close>).
\<close>

section \<open>Decimal numbers\<close>

definition digit :: "nat \<Rightarrow> char" where
  "digit n = char_of (48 + n)"

definition digit_val :: "char \<Rightarrow> nat option" where
  "digit_val c = (let n = of_char c :: nat in if 48 \<le> n \<and> n \<le> 57 then Some (n - 48) else None)"

fun show_nat :: "nat \<Rightarrow> string" where
  "show_nat n = (if n < 10 then [digit n] else show_nat (n div 10) @ [digit (n mod 10)])"

declare show_nat.simps [simp del]

definition show_u64 :: "u64 \<Rightarrow> string" where
  "show_u64 n = show_nat (unat n)"

definition show_i64 :: "i64 \<Rightarrow> string" where
  "show_i64 x = (if sint x < 0 then CHR ''-'' # show_nat (nat (- sint x)) else show_nat (nat (sint x)))"

fun read_digits :: "nat \<Rightarrow> string \<Rightarrow> nat option" where
  "read_digits acc [] = Some acc"
| "read_digits acc (c # cs) = (case digit_val c of None \<Rightarrow> None | Some d \<Rightarrow> read_digits (10 * acc + d) cs)"

text \<open>\<open>str::parse::<u64>\<close>: an optional plus sign, then at least one digit, no overflow.\<close>

definition parse_u64 :: "string \<Rightarrow> u64 option" where
  "parse_u64 s =
     (let ds = (case s of c # cs \<Rightarrow> if c = CHR ''+'' then cs else s | [] \<Rightarrow> s)
      in if ds = [] then None
         else (case read_digits 0 ds of None \<Rightarrow> None
               | Some n \<Rightarrow> if n < 2 ^ 64 then Some (of_nat n) else None))"

lemma digit_val_digit [simp]: "n < 10 \<Longrightarrow> digit_val (digit n) = Some n"
  by (simp add: digit_val_def digit_def)

lemma read_digits_append: "read_digits a (xs @ ys) = Option.bind (read_digits a xs) (\<lambda>b. read_digits b ys)"
  by (induction a xs rule: read_digits.induct) (auto split: option.splits)

lemma read_show: "read_digits 0 (show_nat n) = Some n"
proof (induction n rule: show_nat.induct)
  case (1 n)
  then show ?case by (subst show_nat.simps) (auto simp: read_digits_append)
qed

lemma show_nat_nonempty [simp]: "show_nat n \<noteq> []"
  by (subst show_nat.simps) simp

lemma show_nat_inj: "show_nat n = show_nat m \<longleftrightarrow> n = m"
  by (metis option.inject read_show)

lemma show_nat_digits: "c \<in> set (show_nat n) \<Longrightarrow> digit_val c \<noteq> None"
proof (induction n rule: show_nat.induct)
  case (1 n)
  then show ?case by (subst (asm) (2) show_nat.simps) (auto split: if_splits)
qed

lemma digit_not_special: "digit_val c \<noteq> None \<Longrightarrow> c \<noteq> CHR ''+'' \<and> c \<noteq> CHR 0x0A \<and> c \<noteq> CHR ''-''"
  by (auto simp: digit_val_def)

lemma parse_show_u64: "parse_u64 (show_u64 n) = Some n"
proof -
  obtain c cs where s: "show_nat (unat n) = c # cs" by (cases "show_nat (unat n)") auto
  then have "c \<noteq> CHR ''+''" using digit_not_special [OF show_nat_digits, of c "unat n"] by simp
  moreover have "unat n < 2 ^ 64" using unsigned_less [of n, where ?'a = nat] by simp
  ultimately show ?thesis using read_show [of "unat n"] by (simp add: parse_u64_def show_u64_def s)
qed

lemma show_u64_inj: "show_u64 n = show_u64 m \<longleftrightarrow> n = m"
  by (simp add: show_u64_def show_nat_inj word_unat_eq_iff)

lemma show_i64_inj: "show_i64 x = show_i64 y \<longleftrightarrow> x = y"
proof
  assume eq: "show_i64 x = show_i64 y"
  have minus: "CHR ''-'' # s \<noteq> show_nat n" for s n
    using digit_not_special [OF show_nat_digits, of "CHR ''-''" n] by (metis list.set_intros(1))
  have "sint x = sint y" using eq minus [symmetric] minus
    by (auto simp: show_i64_def show_nat_inj split: if_splits)
  then show "x = y" by (rule signed_word_eqI)
qed simp

section \<open>Lines\<close>

text \<open>\<open>format!("TAG\n{}\n{}\n", ...)\<close>: every part is followed by a line feed.\<close>

definition no_newline :: "string \<Rightarrow> bool" where
  "no_newline s \<longleftrightarrow> CHR 0x0A \<notin> set s"

definition lines_text :: "string list \<Rightarrow> string" where
  "lines_text parts = concat (map (\<lambda>p. p @ [CHR 0x0A]) parts)"

lemma no_newline_show [simp]: "no_newline (show_u64 n)" "no_newline (show_i64 x)" "no_newline (show_nat k)"
  using digit_not_special [OF show_nat_digits] by (auto simp: no_newline_def show_u64_def show_i64_def)

lemma split_line:
  "no_newline p \<Longrightarrow> no_newline q \<Longrightarrow> p @ CHR 0x0A # r = q @ CHR 0x0A # s \<Longrightarrow> p = q \<and> r = s"
proof (induction p arbitrary: q)
  case Nil
  then show ?case by (cases q) (auto simp: no_newline_def)
next
  case (Cons a p)
  then show ?case by (cases q) (auto simp: no_newline_def)
qed

lemma lines_text_inj:
  "list_all no_newline ps \<Longrightarrow> list_all no_newline qs \<Longrightarrow> length ps = length qs \<Longrightarrow>
     lines_text ps = lines_text qs \<Longrightarrow> ps = qs"
proof (induction ps arbitrary: qs)
  case (Cons p ps)
  then obtain q qs' where q: "qs = q # qs'" by (cases qs) auto
  with Cons.prems split_line [of p q "lines_text ps" "lines_text qs'"] have "p = q" "lines_text ps = lines_text qs'"
    by (auto simp: lines_text_def)
  with Cons q show ?case by simp
qed simp

section \<open>JSON values\<close>

text \<open>
  \<open>serde_json::Value\<close>: integers are \<open>i64\<close> or \<open>u64\<close>, a float keeps its bits. An object is the list
  of its members in the order of the map.
\<close>

datatype jvalue = JNull | JBool bool | JInt int | JFloat u64 | JStr string | JArr "jvalue list" | JObj "(string \<times> jvalue) list"

fun json_get :: "jvalue \<Rightarrow> string \<Rightarrow> jvalue option" where
  "json_get (JObj kvs) key = map_of kvs key"
| "json_get _ key = None"

fun as_str :: "jvalue \<Rightarrow> string option" where
  "as_str (JStr s) = Some s"
| "as_str _ = None"

definition as_i64 :: "jvalue \<Rightarrow> i64 option" where
  "as_i64 v = (case v of JInt n \<Rightarrow> if - (2 ^ 63) \<le> n \<and> n < 2 ^ 63 then Some (of_int n) else None | _ \<Rightarrow> None)"

definition as_u64 :: "jvalue \<Rightarrow> u64 option" where
  "as_u64 v = (case v of JInt n \<Rightarrow> if 0 \<le> n \<and> n < 2 ^ 64 then Some (of_int n) else None | _ \<Rightarrow> None)"

fun join_commas :: "string list \<Rightarrow> string" where
  "join_commas [] = []"
| "join_commas [x] = x"
| "join_commas (x # xs) = x @ '','' @ join_commas xs"

text \<open>\<open>scalar\<close> is \<open>serde_json::to_string\<close> on values that are no containers.\<close>

fun canonical_json :: "(jvalue \<Rightarrow> string) \<Rightarrow> jvalue \<Rightarrow> string" where
  "canonical_json scalar (JObj kvs) =
     ''{'' @ join_commas (map (\<lambda>(k, t). scalar (JStr k) @ '':'' @ t)
       (sort_key fst (map (\<lambda>(k, v). (k, canonical_json scalar v)) kvs))) @ ''}''"
| "canonical_json scalar (JArr vs) = ''['' @ join_commas (map (canonical_json scalar) vs) @ '']''"
| "canonical_json scalar v = scalar v"

text \<open>Two values that differ in the order of members only.\<close>

inductive json_perm :: "jvalue \<Rightarrow> jvalue \<Rightarrow> bool" where
  perm_refl: "json_perm v v"
| perm_members: "distinct (map fst kvs) \<Longrightarrow> mset kvs = mset kvs' \<Longrightarrow> json_perm (JObj kvs) (JObj kvs')"
| perm_inside: "map fst kvs = map fst kvs' \<Longrightarrow> list_all2 json_perm (map snd kvs) (map snd kvs')
     \<Longrightarrow> json_perm (JObj kvs) (JObj kvs')"
| perm_array: "list_all2 json_perm vs vs' \<Longrightarrow> json_perm (JArr vs) (JArr vs')"
| perm_trans: "json_perm u v \<Longrightarrow> json_perm v w \<Longrightarrow> json_perm u w"


lemma sort_key_unique:
  assumes "mset xs = mset ys" "distinct (map f xs)"
  shows "sort_key f xs = sort_key f ys"
  using assms by (intro sort_key_inj_key_eq) (simp_all add: distinct_map)

text \<open>The canonical text does not depend on the order of members.\<close>

lemma canonical_json_perm: "json_perm v w \<Longrightarrow> canonical_json scalar v = canonical_json scalar w"
proof (induction rule: json_perm.induct)
  case (perm_members kvs kvs')
  let ?f = "\<lambda>(k, v). (k, canonical_json scalar v)"
  have "mset (map ?f kvs) = mset (map ?f kvs')" using perm_members by simp
  moreover have "distinct (map fst (map ?f kvs))" using perm_members by (simp add: comp_def case_prod_unfold)
  ultimately have "sort_key fst (map ?f kvs) = sort_key fst (map ?f kvs')" by (rule sort_key_unique)
  then show ?case by simp
next
  case (perm_inside kvs kvs')
  have "map (canonical_json scalar) (map snd kvs) = map (canonical_json scalar) (map snd kvs')"
    using perm_inside(2) by (auto simp: list_all2_conv_all_nth intro!: nth_equalityI)
  then have "zip (map fst kvs) (map (canonical_json scalar) (map snd kvs))
      = zip (map fst kvs') (map (canonical_json scalar) (map snd kvs'))" using perm_inside(1) by simp
  moreover have "zip (map fst xs) (map g (map snd xs)) = map (\<lambda>(k, v). (k, g v)) xs" for xs :: "(string \<times> jvalue) list" and g :: "jvalue \<Rightarrow> string"
    by (induction xs) auto
  ultimately show ?case by simp
next
  case (perm_array vs vs')
  then have "map (canonical_json scalar) vs = map (canonical_json scalar) vs'"
    by (auto simp: list_all2_conv_all_nth intro!: nth_equalityI)
  then show ?case by simp
qed simp_all

end
