(* ===== verification/Provider_Attestation.thy ===== *)
theory Provider_Attestation
  imports Wal_Log Text_Format
begin

text \<open>
  The check of a provider's attestation (\<open>enclave/src/provider_attestation.rs\<close>): a document is an
  unsigned local-dev JSON document or a COSE\_Sign1 document of the AWS Nitro security module. The
  module models the policy and its hash, the readers of both kinds of document and every check on
  them, in the order of the source. CBOR, X.509, ECDSA, the JSON of the derived structs and RFC 3339
  times are library code and fields of \<open>attest_lib\<close>; a certificate or key is its DER encoding. An
  error is the fixed part of its message, without the detail a library adds. Failed allocations of
  OpenSSL (an empty store, a stack) are not modelled. Times are nanoseconds since the epoch.
\<close>

section \<open>Fallible steps\<close>

type_synonym 'a checked = "string + 'a"

definition abind :: "'a checked \<Rightarrow> ('a \<Rightarrow> 'b checked) \<Rightarrow> 'b checked" where
  "abind r k = (case r of Inl e \<Rightarrow> Inl e | Inr x \<Rightarrow> k x)"

definition aneed :: "'a option \<Rightarrow> string \<Rightarrow> ('a \<Rightarrow> 'b checked) \<Rightarrow> 'b checked" where
  "aneed x e k = (case x of None \<Rightarrow> Inl e | Some y \<Rightarrow> k y)"

definition aguard :: "bool \<Rightarrow> string \<Rightarrow> 'a checked \<Rightarrow> 'a checked" where
  "aguard b e k = (if b then k else Inl e)"

lemma abind_Inr: "abind r k = Inr y \<longleftrightarrow> (\<exists>x. r = Inr x \<and> k x = Inr y)"
  by (cases r) (auto simp: abind_def)

lemma aneed_Inr: "aneed x e k = Inr y \<longleftrightarrow> (\<exists>z. x = Some z \<and> k z = Inr y)"
  by (cases x) (auto simp: aneed_def)

lemma aguard_Inr: "aguard b e k = Inr y \<longleftrightarrow> b \<and> k = Inr y"
  by (auto simp: aguard_def)

lemmas checked_iffs = abind_Inr aneed_Inr aguard_Inr

lemma checked_runs [simp]:
  "abind (Inr x) k = k x" "abind (Inl e) k = Inl e" "aneed (Some z) e f = f z" "aneed None e f = Inl e"
  "aguard True e r = r" "aguard False e r = Inl e"
  by (simp_all add: abind_def aneed_def aguard_def)

section \<open>Text\<close>

text \<open>
  \<open>str::trim\<close> on UTF-8: the white space characters of Unicode by their bytes. No encoding of a
  character is a proper prefix or suffix of another one's.
\<close>

definition white_space :: "string list" where
  "white_space =
     [[CHR 0x09], [CHR 0x0A], [CHR 0x0B], [CHR 0x0C], [CHR 0x0D], [CHR 0x20], [CHR 0xC2, CHR 0x85], [CHR 0xC2, CHR 0xA0],
      [CHR 0xE1, CHR 0x9A, CHR 0x80], [CHR 0xE2, CHR 0x80, CHR 0xA8], [CHR 0xE2, CHR 0x80, CHR 0xA9], [CHR 0xE2, CHR 0x80, CHR 0xAF],
      [CHR 0xE2, CHR 0x81, CHR 0x9F], [CHR 0xE3, CHR 0x80, CHR 0x80]]
     @ map (\<lambda>n. [CHR 0xE2, CHR 0x80, char_of (n :: nat)]) [0x80..<0x8B]"

fun drop_spaces :: "string list \<Rightarrow> string \<Rightarrow> string" where
  "drop_spaces ws s =
     (case find (\<lambda>w. w \<noteq> [] \<and> starts_with s w) ws of None \<Rightarrow> s | Some w \<Rightarrow> if w = [] \<or> s = [] then s else drop_spaces ws (drop (length w) s))"

declare drop_spaces.simps [simp del]

definition trim :: "string \<Rightarrow> string" where
  "trim s = rev (drop_spaces (map rev white_space) (rev (drop_spaces white_space s)))"

definition normalize_hex :: "string \<Rightarrow> string" where
  "normalize_hex value = to_ascii_lowercase (trim_0x (trim value))"

definition show_int :: "int \<Rightarrow> string" where
  "show_int i = (if i < 0 then CHR ''-'' # show_nat (nat (- i)) else show_nat (nat i))"

section \<open>Data\<close>

text \<open>\<open>serde_cbor::Value\<close>: a map is the list of its entries in key order, a float keeps its bits.\<close>

datatype cbor =
    CNull
  | CBool bool
  | CInteger int
  | CFloat u64
  | CBytes bytes
  | CText string
  | CArray "cbor list"
  | CMap "(cbor \<times> cbor) list"
  | CTag u64 cbor

record attestation_policy =
  po_version :: u32
  po_pcrs :: "(string \<times> string) list"
  po_eif_signing_cert_sha256 :: string
  po_kms_key_arn_sha256 :: string
  po_protocol :: string

record attestation_request =
  ar_document :: string
  ar_policy :: attestation_policy
  ar_max_age_ms :: "u64 option"

datatype attestation_mode = LocalDevMode | NitroMode

fun mode_as_str :: "attestation_mode \<Rightarrow> string" where
  "mode_as_str LocalDevMode = ''local-dev''"
| "mode_as_str NitroMode = ''nitro''"

record verified_attestation =
  va_policy_hash_hex :: string
  va_verified_at_ms :: i64
  va_mode :: attestation_mode
  va_manifest_hash :: "string option"

record local_dev_document =
  ld_version :: u32
  ld_mode :: string
  ld_provider_id :: string
  ld_participant_pubkey :: string
  ld_attestation_policy_hash :: string
  ld_manifest_hash :: "string option"
  ld_issued_at :: string
  ld_expires_at :: string

record nitro_user_data =
  ud_version :: u32
  ud_provider_id :: string
  ud_participant_pubkey :: string
  ud_attestation_policy_hash :: string
  ud_manifest_hash :: "string option"

record cose_sign1 =
  cs_protected_header_bytes :: bytes
  cs_algorithm :: int
  cs_payload_bytes :: bytes
  cs_signature_bytes :: bytes

record nitro_document =
  nt_timestamp_ms :: u64
  nt_digest :: string
  nt_pcrs :: "string \<rightharpoonup> string"
  nt_certificate_der :: bytes
  nt_cabundle_der :: "bytes list"
  nt_user_data :: "bytes option"

datatype message_digest = SHA256 | SHA384 | SHA512

record attest_lib =
  al_cbor_read :: "bytes \<Rightarrow> cbor option"
  al_cbor_write :: "cbor \<Rightarrow> bytes option"
  al_local_read :: "bytes \<Rightarrow> local_dev_document option"
  al_local_write :: "local_dev_document \<Rightarrow> bytes"
  al_user_data_read :: "bytes \<Rightarrow> nitro_user_data option"
  al_rfc3339_read :: "string \<Rightarrow> int option"
  al_rfc3339_write :: "int \<Rightarrow> string"
  al_x509_der :: "bytes \<Rightarrow> bytes option"
  al_nitro_root :: "bytes option"
  al_verify_cert :: "bytes \<Rightarrow> bytes \<Rightarrow> bytes list \<Rightarrow> bool option"
  al_public_key :: "bytes \<Rightarrow> bytes option"
  al_ecdsa_der :: "nat \<Rightarrow> nat \<Rightarrow> bytes option"
  al_verifier :: "message_digest \<Rightarrow> bytes \<Rightarrow> (bytes \<Rightarrow> bytes \<Rightarrow> bool option) option"

definition COSE_SIGN1_TAG :: u64 where
  "COSE_SIGN1_TAG = 18"

definition DEFAULT_MAX_ATTESTATION_AGE_MS :: u64 where
  "DEFAULT_MAX_ATTESTATION_AGE_MS = 10 * 60 * 1000"

section \<open>CBOR values\<close>

fun unwrap_tag :: "cbor \<Rightarrow> cbor checked" where
  "unwrap_tag (CTag tag boxed) =
     (if tag = COSE_SIGN1_TAG then Inr boxed
      else Inl (''unexpected CBOR tag '' @ show_u64 tag @ '' in attestation document''))"
| "unwrap_tag other = Inr other"

fun expect_array :: "cbor \<Rightarrow> string \<Rightarrow> cbor list checked" where
  "expect_array (CArray values) field = Inr values"
| "expect_array _ field = Inl (field @ '' must be a CBOR array'')"

fun expect_map :: "cbor \<Rightarrow> string \<Rightarrow> (cbor \<times> cbor) list checked" where
  "expect_map (CMap values) field = Inr values"
| "expect_map _ field = Inl (field @ '' must be a CBOR map'')"

fun expect_bytes :: "cbor \<Rightarrow> string \<Rightarrow> bytes checked" where
  "expect_bytes (CBytes bs) field = Inr bs"
| "expect_bytes _ field = Inl (field @ '' must be a CBOR byte string'')"

fun expect_text :: "cbor \<Rightarrow> string \<Rightarrow> string checked" where
  "expect_text (CText t) field = Inr t"
| "expect_text _ field = Inl (field @ '' must be a CBOR text string'')"

fun cbor_as_i128 :: "cbor \<Rightarrow> int option" where
  "cbor_as_i128 (CInteger i) = Some i"
| "cbor_as_i128 _ = None"

definition cbor_as_u64 :: "cbor \<Rightarrow> u64 option" where
  "cbor_as_u64 v = Option.bind (cbor_as_i128 v) (\<lambda>i. if 0 \<le> i \<and> i < 2 ^ 64 then Some (of_int i) else None)"

section \<open>Reading a Nitro document\<close>

text \<open>\<open>find_map\<close> over the entries: the first integer value under the key 1.\<close>

fun find_algorithm :: "(cbor \<times> cbor) list \<Rightarrow> int option" where
  "find_algorithm [] = None"
| "find_algorithm ((key, v) # es) =
     (case (if key = CInteger 1 then cbor_as_i128 v else None) of Some a \<Rightarrow> Some a | None \<Rightarrow> find_algorithm es)"

definition parse_cose_sign1 :: "attest_lib \<Rightarrow> bytes \<Rightarrow> cose_sign1 checked" where
  "parse_cose_sign1 A input =
     aneed (al_cbor_read A input) ''invalid COSE_Sign1'' (\<lambda>decoded.
     abind (unwrap_tag decoded) (\<lambda>inner.
     abind (expect_array inner ''COSE_Sign1'') (\<lambda>items.
     aguard (length items = 4) ''COSE_Sign1 must have exactly 4 items'' (
     abind (expect_bytes (items ! 0) ''COSE protected header'') (\<lambda>header_bytes.
     aneed (al_cbor_read A header_bytes) ''invalid COSE protected header'' (\<lambda>header.
     abind (expect_map header ''COSE protected header'') (\<lambda>protected_map.
     aneed (find_algorithm protected_map) ''COSE protected header is missing alg'' (\<lambda>algorithm.
     abind (expect_bytes (items ! 2) ''COSE payload'') (\<lambda>payload.
     abind (expect_bytes (items ! 3) ''COSE signature'') (\<lambda>signature.
     Inr \<lparr>cs_protected_header_bytes = header_bytes, cs_algorithm = algorithm, cs_payload_bytes = payload,
          cs_signature_bytes = signature\<rparr>))))))))))"

fun pcr_index :: "cbor \<Rightarrow> string option" where
  "pcr_index (CInteger i) = Some (show_int i)"
| "pcr_index (CText t) = Some t"
| "pcr_index _ = None"

fun parse_pcrs :: "wal_lib \<Rightarrow> (cbor \<times> cbor) list \<Rightarrow> (string \<rightharpoonup> string) \<Rightarrow> (string \<rightharpoonup> string) checked" where
  "parse_pcrs L [] pcrs = Inr pcrs"
| "parse_pcrs L ((index, value) # es) pcrs =
     aneed (pcr_index index) ''Nitro attestation PCR index must be an integer or string'' (\<lambda>i.
     abind (expect_bytes value ''Nitro attestation PCR value'') (\<lambda>bs.
     parse_pcrs L es (pcrs(i \<mapsto> hex_encode L bs))))"

fun parse_cabundle :: "cbor list \<Rightarrow> bytes list checked" where
  "parse_cabundle [] = Inr []"
| "parse_cabundle (entry # es) =
     abind (expect_bytes entry ''Nitro attestation cabundle certificate'') (\<lambda>c. abind (parse_cabundle es) (\<lambda>cs. Inr (c # cs)))"

definition payload_field :: "(cbor \<times> cbor) list \<Rightarrow> string \<Rightarrow> (cbor \<Rightarrow> 'a checked) \<Rightarrow> 'a checked" where
  "payload_field m name k = aneed (map_of m (CText name)) (''Nitro attestation payload is missing '' @ name) k"

definition optional_bytes :: "cbor option \<Rightarrow> string \<Rightarrow> bytes option checked" where
  "optional_bytes v name = (case v of None \<Rightarrow> Inr None | Some c \<Rightarrow> abind (expect_bytes c name) (\<lambda>bs. Inr (Some bs)))"

definition parse_nitro_attestation_payload :: "wal_lib \<Rightarrow> attest_lib \<Rightarrow> bytes \<Rightarrow> nitro_document checked" where
  "parse_nitro_attestation_payload L A payload_bytes =
     aneed (al_cbor_read A payload_bytes) ''invalid Nitro payload'' (\<lambda>payload.
     abind (expect_map payload ''Nitro attestation payload'') (\<lambda>m.
     payload_field m ''pcrs'' (\<lambda>v. abind (expect_map v ''Nitro attestation pcrs'') (\<lambda>pcr_map.
     abind (parse_pcrs L pcr_map Map.empty) (\<lambda>pcrs.
     payload_field m ''cabundle'' (\<lambda>v. abind (expect_array v ''Nitro attestation cabundle'') (\<lambda>cabundle_values.
     abind (parse_cabundle cabundle_values) (\<lambda>cabundle.
     payload_field m ''timestamp'' (\<lambda>v. aneed (cbor_as_u64 v) ''Nitro attestation timestamp must be an unsigned integer'' (\<lambda>timestamp.
     payload_field m ''digest'' (\<lambda>v. abind (expect_text v ''Nitro attestation digest'') (\<lambda>digest.
     payload_field m ''certificate'' (\<lambda>v. abind (expect_bytes v ''Nitro attestation certificate'') (\<lambda>certificate.
     abind (optional_bytes (map_of m (CText ''user_data'')) ''Nitro attestation user_data'') (\<lambda>user_data.
     Inr \<lparr>nt_timestamp_ms = timestamp, nt_digest = digest, nt_pcrs = pcrs, nt_certificate_der = certificate,
          nt_cabundle_der = cabundle, nt_user_data = user_data\<rparr>)))))))))))))))"

section \<open>Checks on a Nitro document\<close>

fun bundle_certificates :: "attest_lib \<Rightarrow> bytes list \<Rightarrow> bytes list checked" where
  "bundle_certificates A [] = Inr []"
| "bundle_certificates A (der # ders) =
     aneed (al_x509_der A der) ''invalid Nitro attestation bundle certificate'' (\<lambda>c.
     abind (bundle_certificates A ders) (\<lambda>cs. Inr (c # cs)))"

definition verify_certificate_chain :: "attest_lib \<Rightarrow> bytes \<Rightarrow> bytes list \<Rightarrow> unit checked" where
  "verify_certificate_chain A certificate_der cabundle_der =
     aneed (al_x509_der A certificate_der) ''invalid Nitro attestation leaf certificate'' (\<lambda>leaf.
     aneed (al_nitro_root A) ''invalid embedded Nitro root certificate'' (\<lambda>root.
     abind (bundle_certificates A cabundle_der) (\<lambda>chain.
     aneed (al_verify_cert A root leaf chain) ''failed to verify Nitro certificate chain'' (\<lambda>verified.
     aguard verified ''Nitro certificate chain verification failed'' (Inr ())))))"

definition cose_algorithm_to_digest :: "int \<Rightarrow> message_digest checked" where
  "cose_algorithm_to_digest algorithm =
     (if algorithm = -7 then Inr SHA256 else if algorithm = -35 then Inr SHA384 else if algorithm = -36 then Inr SHA512
      else Inl (''unsupported COSE algorithm '' @ show_int algorithm))"

text \<open>\<open>BigNum::from_slice\<close> reads big-endian bytes.\<close>

definition p1363_to_der :: "attest_lib \<Rightarrow> bytes \<Rightarrow> bytes checked" where
  "p1363_to_der A signature =
     aguard (length signature mod 2 = 0) ''COSE signature must have an even length'' (
     let half = length signature div 2; r = le_nat (rev (take half signature)); s = le_nat (rev (drop half signature))
     in aneed (al_ecdsa_der A r s) ''failed to DER-encode COSE signature'' Inr)"

definition sig_structure :: "cose_sign1 \<Rightarrow> cbor" where
  "sig_structure sign1 =
     CArray [CText ''Signature1'', CBytes (cs_protected_header_bytes sign1), CBytes [], CBytes (cs_payload_bytes sign1)]"

definition verify_cose_signature :: "attest_lib \<Rightarrow> cose_sign1 \<Rightarrow> bytes \<Rightarrow> unit checked" where
  "verify_cose_signature A sign1 certificate_der =
     aneed (al_x509_der A certificate_der) ''invalid Nitro attestation leaf certificate'' (\<lambda>leaf.
     aneed (al_public_key A leaf) ''failed to extract Nitro attestation public key'' (\<lambda>public_key.
     aneed (al_cbor_write A (sig_structure sign1)) ''failed to serialize COSE Sig_structure'' (\<lambda>to_be_signed.
     abind (p1363_to_der A (cs_signature_bytes sign1)) (\<lambda>signature_der.
     abind (cose_algorithm_to_digest (cs_algorithm sign1)) (\<lambda>digest.
     aneed (al_verifier A digest public_key) ''failed to initialize COSE verifier'' (\<lambda>verifier.
     aneed (verifier to_be_signed signature_der) ''failed to verify COSE signature'' (\<lambda>ok.
     aguard ok ''Nitro attestation COSE signature verification failed'' (Inr ()))))))))"

text \<open>\<open>timestamp_millis() as u64\<close> wraps a time before the epoch.\<close>

definition millis :: "int \<Rightarrow> int" where
  "millis ns = ns div 1000000"

definition verify_nitro_timestamp :: "nitro_document \<Rightarrow> u64 \<Rightarrow> int \<Rightarrow> unit checked" where
  "verify_nitro_timestamp document max_age_ms now =
     (let now_ms = of_int (millis now) :: u64
      in aguard (\<not> nt_timestamp_ms document > saturating_add now_ms 60000) ''Nitro attestation timestamp is in the future'' (
         aguard (\<not> saturating_sub now_ms (nt_timestamp_ms document) > max_age_ms)
           ''Nitro attestation is older than the allowed maxAgeMs'' (
         aguard (nt_digest document = ''SHA384'') (''unsupported Nitro attestation digest '' @ nt_digest document) (Inr ()))))"

fun verify_pcr_list :: "nitro_document \<Rightarrow> (string \<times> string) list \<Rightarrow> unit checked" where
  "verify_pcr_list document [] = Inr ()"
| "verify_pcr_list document ((index, expected) # es) =
     aneed (nt_pcrs document index) (''Nitro attestation is missing expected PCR'' @ index) (\<lambda>actual.
     aguard (normalize_hex actual = normalize_hex expected)
       (''Nitro attestation PCR'' @ index @ '' does not match the expected value'') (verify_pcr_list document es))"

definition verify_expected_pcrs :: "nitro_document \<Rightarrow> attestation_policy \<Rightarrow> unit checked" where
  "verify_expected_pcrs document policy = verify_pcr_list document (po_pcrs policy)"

section \<open>Policy hash\<close>

definition policy_json :: "u32 \<Rightarrow> (string \<times> string) list \<Rightarrow> string \<Rightarrow> string \<Rightarrow> string \<Rightarrow> jvalue" where
  "policy_json version pcrs eif kms protocol =
     JObj [(''version'', JInt (uint version)), (''pcrs'', JObj (map (\<lambda>(i, v). (i, JStr v)) pcrs)),
           (''eifSigningCertSha256'', JStr eif), (''kmsKeyArnSha256'', JStr kms), (''protocol'', JStr protocol)]"

definition normalized_policy_json :: "(jvalue \<Rightarrow> string) \<Rightarrow> attestation_policy \<Rightarrow> string" where
  "normalized_policy_json scalar policy =
     canonical_json scalar (policy_json (po_version policy) (map (\<lambda>(i, v). (i, normalize_hex v)) (po_pcrs policy))
       (normalize_hex (po_eif_signing_cert_sha256 policy)) (normalize_hex (po_kms_key_arn_sha256 policy)) (po_protocol policy))"

definition compute_provider_attestation_policy_hash ::
    "wal_lib \<Rightarrow> (bytes \<Rightarrow> b32) \<Rightarrow> (jvalue \<Rightarrow> string) \<Rightarrow> attestation_policy \<Rightarrow> string" where
  "compute_provider_attestation_policy_hash L sha256 scalar policy =
     hex_encode L (word_bytes (sha256 (str_bytes (normalized_policy_json scalar policy))))"

section \<open>Verification\<close>

text \<open>\<open>max_age_ms as i64\<close> reads the same bits as a signed number.\<close>

definition verify_attestation_window :: "int \<Rightarrow> int \<Rightarrow> u64 \<Rightarrow> int \<Rightarrow> unit checked" where
  "verify_attestation_window issued_at_ms expires_at_ms max_age_ms now =
     (let now_ms = millis now
      in aguard (\<not> issued_at_ms > now_ms + 60000) ''provider attestation issuedAt is in the future'' (
         aguard (\<not> now_ms - issued_at_ms > sint max_age_ms) ''provider attestation is older than the allowed maxAgeMs'' (
         aguard (\<not> expires_at_ms < now_ms) ''provider attestation has expired'' (Inr ()))))"

definition verify_local_dev_attestation ::
    "wal_lib \<Rightarrow> attest_lib \<Rightarrow> local_dev_document \<Rightarrow> string \<Rightarrow> pubkey \<Rightarrow> string \<Rightarrow> u64 \<Rightarrow> int \<Rightarrow> int \<Rightarrow> verified_attestation checked" where
  "verify_local_dev_attestation L A document provider_id participant expected_policy_hash max_age_ms now later =
     aguard (ld_version document = 1) ''unsupported local-dev provider attestation version'' (
     aguard (ld_mode document = ''local-dev-provider'') ''invalid local-dev provider attestation mode'' (
     aguard (ld_provider_id document = provider_id) ''provider attestation providerId does not match registration'' (
     aguard (ld_participant_pubkey document = pubkey_to_string L participant)
       ''provider attestation participantPubkey does not match registration'' (
     aguard (normalize_hex (ld_attestation_policy_hash document) = normalize_hex expected_policy_hash)
       ''provider attestation policy hash does not match the expected value'' (
     aneed (al_rfc3339_read A (ld_issued_at document)) ''invalid local-dev provider attestation issuedAt'' (\<lambda>issued_at.
     aneed (al_rfc3339_read A (ld_expires_at document)) ''invalid local-dev provider attestation expiresAt'' (\<lambda>expires_at.
     abind (verify_attestation_window (millis issued_at) (millis expires_at) max_age_ms now) (\<lambda>_.
     Inr \<lparr>va_policy_hash_hex = expected_policy_hash, va_verified_at_ms = of_int (millis later), va_mode = LocalDevMode,
          va_manifest_hash = ld_manifest_hash document\<rparr>))))))))"

definition verify_nitro_attestation ::
    "wal_lib \<Rightarrow> attest_lib \<Rightarrow> bytes \<Rightarrow> string \<Rightarrow> pubkey \<Rightarrow> attestation_policy \<Rightarrow> string \<Rightarrow> u64 \<Rightarrow> int \<Rightarrow> int \<Rightarrow> verified_attestation checked" where
  "verify_nitro_attestation L A document_bytes provider_id participant policy expected_policy_hash max_age_ms now later =
     abind (parse_cose_sign1 A document_bytes) (\<lambda>sign1.
     abind (parse_nitro_attestation_payload L A (cs_payload_bytes sign1)) (\<lambda>document.
     abind (verify_certificate_chain A (nt_certificate_der document) (nt_cabundle_der document)) (\<lambda>_.
     abind (verify_cose_signature A sign1 (nt_certificate_der document)) (\<lambda>_.
     abind (verify_nitro_timestamp document max_age_ms now) (\<lambda>_.
     abind (verify_expected_pcrs document policy) (\<lambda>_.
     aneed (nt_user_data document) ''Nitro provider attestation is missing the required user_data'' (\<lambda>user_data_bytes.
     aneed (al_user_data_read A user_data_bytes) ''invalid Nitro provider attestation user_data'' (\<lambda>user_data.
     aguard (ud_version user_data = 1) ''unsupported Nitro provider attestation user_data version'' (
     aguard (ud_provider_id user_data = provider_id) ''Nitro provider attestation providerId does not match registration'' (
     aguard (ud_participant_pubkey user_data = pubkey_to_string L participant)
       ''Nitro provider attestation participantPubkey does not match registration'' (
     aguard (normalize_hex (ud_attestation_policy_hash user_data) = normalize_hex expected_policy_hash)
       ''Nitro provider attestation policy hash does not match the expected value'' (
     Inr \<lparr>va_policy_hash_hex = expected_policy_hash, va_verified_at_ms = of_int (millis later), va_mode = NitroMode,
          va_manifest_hash = ud_manifest_hash user_data\<rparr>))))))))))))"

text \<open>The check reads the clock twice: \<open>now\<close> for the age of the document, \<open>later\<close> for the record.\<close>

definition verify_provider_participant_attestation ::
    "wal_lib \<Rightarrow> (bytes \<Rightarrow> b32) \<Rightarrow> (jvalue \<Rightarrow> string) \<Rightarrow> attest_lib \<Rightarrow> attestation_request \<Rightarrow> string \<Rightarrow> pubkey \<Rightarrow> int \<Rightarrow> int
      \<Rightarrow> verified_attestation checked" where
  "verify_provider_participant_attestation L sha256 scalar A attestation provider_id participant now later =
     (let expected_policy_hash = compute_provider_attestation_policy_hash L sha256 scalar (ar_policy attestation);
          max_age_ms = (case ar_max_age_ms attestation of Some m \<Rightarrow> m | None \<Rightarrow> DEFAULT_MAX_ATTESTATION_AGE_MS)
      in aneed (base64_decode L (ar_document attestation)) ''invalid provider attestation base64'' (\<lambda>decoded.
         case al_local_read A decoded of
           Some local_document \<Rightarrow>
             verify_local_dev_attestation L A local_document provider_id participant expected_policy_hash max_age_ms now later
         | None \<Rightarrow>
             verify_nitro_attestation L A decoded provider_id participant (ar_policy attestation) expected_policy_hash max_age_ms now later))"

definition build_local_dev_provider_attestation ::
    "wal_lib \<Rightarrow> (bytes \<Rightarrow> b32) \<Rightarrow> (jvalue \<Rightarrow> string) \<Rightarrow> attest_lib \<Rightarrow> string \<Rightarrow> pubkey \<Rightarrow> attestation_policy \<Rightarrow> string option \<Rightarrow> int \<Rightarrow> string" where
  "build_local_dev_provider_attestation L sha256 scalar A provider_id participant policy manifest_hash issued_at =
     base64_encode L (al_local_write A
       \<lparr>ld_version = 1, ld_mode = ''local-dev-provider'', ld_provider_id = provider_id,
        ld_participant_pubkey = pubkey_to_string L participant,
        ld_attestation_policy_hash = compute_provider_attestation_policy_hash L sha256 scalar policy,
        ld_manifest_hash = manifest_hash, ld_issued_at = al_rfc3339_write A issued_at,
        ld_expires_at = al_rfc3339_write A (issued_at + 10 * 60 * 1000000000)\<rparr>)"

section \<open>Laws of the libraries\<close>

text \<open>JSON documents and RFC 3339 times up to the year 9999 are read back as they were written.\<close>

definition attest_laws :: "attest_lib \<Rightarrow> bool" where
  "attest_laws A \<longleftrightarrow> (\<forall>d. al_local_read A (al_local_write A d) = Some d)
   \<and> (\<forall>t. 0 \<le> t \<longrightarrow> t < 253402300800 * 1000000000 \<longrightarrow> al_rfc3339_read A (al_rfc3339_write A t) = Some t)"

instance cbor :: countable
  by countable_datatype

instance local_dev_document_ext :: (countable) countable
  by (rule countable_classI [of "\<lambda>d. to_nat ((ld_version d, ld_mode d, ld_provider_id d, ld_participant_pubkey d),
       (ld_attestation_policy_hash d, ld_manifest_hash d, ld_issued_at d, ld_expires_at d), local_dev_document.more d)"]) simp

instance nitro_user_data_ext :: (countable) countable
  by (rule countable_classI [of "\<lambda>d. to_nat (ud_version d, ud_provider_id d, ud_participant_pubkey d,
       ud_attestation_policy_hash d, ud_manifest_hash d, nitro_user_data.more d)"]) simp

text \<open>A concrete library that satisfies them: codes in unary notation, one root, one valid signature.\<close>

definition demo_attest :: attest_lib where
  "demo_attest = \<lparr>al_cbor_read = un_unary 1, al_cbor_write = (\<lambda>v. Some (unary 1 v)), al_local_read = un_unary 0, al_local_write = unary 0,
     al_user_data_read = un_unary 2, al_rfc3339_read = (\<lambda>t. un_unary 3 (str_bytes t)), al_rfc3339_write = (\<lambda>t. chars (unary 3 t)),
     al_x509_der = Some, al_nitro_root = Some [9], al_verify_cert = (\<lambda>root leaf chain. Some (chain = [root])),
     al_public_key = Some, al_ecdsa_der = (\<lambda>r s. Some [of_nat r, of_nat s]),
     al_verifier = (\<lambda>d key. Some (\<lambda>m s. Some (s = key)))\<rparr>"

lemma un_unary_unary [simp]: "un_unary tag (unary tag x) = Some x"
  by (simp add: unary_def un_unary_def)

lemma un_unary_other: "tag \<noteq> tag' \<Longrightarrow> un_unary tag (unary tag' x) = None"
  by (simp add: unary_def un_unary_def)

lemma demo_attest_laws: "attest_laws demo_attest"
  by (simp add: attest_laws_def demo_attest_def str_bytes_chars)

end
