(* ===== verification/Handler_Core.thy ===== *)
theory Handler_Core
  imports Wal_Replay Provider_Attestation Text_Format Asc_Claim "HOL-Library.Stream"
begin

text \<open>
  The ground of the HTTP handlers (\<open>enclave/src/handlers.rs\<close>): the node a handler runs on, its
  effects, the checks of the vault's lifecycle, provider and client authentication, and the
  issuing of receipts. A handler is a function from the node to an outcome and a node. The
  clock, fresh ids, the durability of log writes, the chain RPC and the watchtower are streams
  of the answers they will give; a handler consumes them in the order of the source.
\<close>

section \<open>Node and environment\<close>

datatype watchtower_reply = WtUnreachable | WtBadStatus | WtBadBody | WtReply bool bool u64

text \<open>\<open>nd_clock\<close> counts nanoseconds; a log write draws a nonce and says whether it became durable.\<close>

record node =
  nd_app :: app_state
  nd_clock :: "int stream"
  nd_uuid :: "string stream"
  nd_wal_io :: "(bytes \<times> bool) stream"
  nd_rpc :: "vault_lifecycle option stream"
  nd_watchtower :: "watchtower_reply stream"

text \<open>
  Library code and fixed configuration: codecs, the curve, SHA-256, strict Ed25519 verification,
  signing, associated token addresses, RFC 3339 times in nanoseconds, JSON scalars, what the check
  of a provider's attestation needs, and the flags of \<open>AppState\<close>.
\<close>

record ('p, 's) handler_env =
  he_lib :: wal_lib
  he_curve :: "('p, 's) curve"
  he_sha256 :: "bytes \<Rightarrow> b32"
  he_verify_strict :: "pubkey \<Rightarrow> bytes \<Rightarrow> b64 \<Rightarrow> bool"
  he_sign :: "b32 \<Rightarrow> bytes \<Rightarrow> b64"
  he_ata :: "pubkey \<Rightarrow> pubkey \<Rightarrow> pubkey"
  he_parse_rfc3339 :: "string \<Rightarrow> int option"
  he_json_scalar :: "jvalue \<Rightarrow> string"
  he_attest :: attest_lib
  he_watchtower_url :: bool
  he_provider_mtls_enabled :: bool
  he_detector_enabled :: bool
  he_detector_ready :: bool

type_synonym 'a handler = "node \<Rightarrow> 'a outcome \<times> node"

section \<open>Effects\<close>

definition hret :: "'a \<Rightarrow> 'a handler" where
  "hret x s = (Ok x, s)"

definition hfail :: "enclave_error \<Rightarrow> 'a handler" where
  "hfail e s = (Err e, s)"

definition hbind :: "'a handler \<Rightarrow> ('a \<Rightarrow> 'b handler) \<Rightarrow> 'b handler" where
  "hbind m k s = (case m s of (Ok x, s1) \<Rightarrow> k x s1 | (Err e, s1) \<Rightarrow> (Err e, s1) | (Panic, s1) \<Rightarrow> (Panic, s1))"

definition hthen :: "'a handler \<Rightarrow> 'b handler \<Rightarrow> 'b handler" where
  "hthen m k = hbind m (\<lambda>_. k)"

definition hguard :: "bool \<Rightarrow> enclave_error \<Rightarrow> 'a handler \<Rightarrow> 'a handler" where
  "hguard b e k = (if b then k else hfail e)"

definition hsome :: "'a option \<Rightarrow> enclave_error \<Rightarrow> ('a \<Rightarrow> 'b handler) \<Rightarrow> 'b handler" where
  "hsome x e k = (case x of None \<Rightarrow> hfail e | Some y \<Rightarrow> k y)"

definition hvault :: "(vault_state \<Rightarrow> 'a handler) \<Rightarrow> 'a handler" where
  "hvault k s = k (as_vault (nd_app s)) s"

definition set_vault :: "vault_state \<Rightarrow> node \<Rightarrow> node" where
  "set_vault v s = s\<lparr>nd_app := (nd_app s)\<lparr>as_vault := v\<rparr>\<rparr>"

definition run_vault :: "'a vault_op \<Rightarrow> 'a handler" where
  "run_vault f s = (case f (as_vault (nd_app s)) of (r, v) \<Rightarrow> (r, set_vault v s))"

definition modify_vault :: "(vault_state \<Rightarrow> vault_state) \<Rightarrow> unit handler" where
  "modify_vault f s = (Ok (), set_vault (f (as_vault (nd_app s))) s)"

text \<open>\<open>let _ = op\<close>: the result of an operation is ignored, a panic is not.\<close>

definition hignore :: "'a handler \<Rightarrow> unit handler" where
  "hignore m s = (case m s of (Ok _, s1) \<Rightarrow> (Ok (), s1) | (Err _, s1) \<Rightarrow> (Ok (), s1) | (Panic, s1) \<Rightarrow> (Panic, s1))"

definition utc_now_ns :: "int handler" where
  "utc_now_ns s = (Ok (shd (nd_clock s)), s\<lparr>nd_clock := stl (nd_clock s)\<rparr>)"

definition timestamp_of :: "int \<Rightarrow> i64" where
  "timestamp_of ns = of_int (ns div 1000000000)"

definition utc_now :: "i64 handler" where
  "utc_now = hbind utc_now_ns (\<lambda>ns. hret (timestamp_of ns))"

definition new_uuid :: "string handler" where
  "new_uuid s = (Ok (shd (nd_uuid s)), s\<lparr>nd_uuid := stl (nd_uuid s)\<rparr>)"

text \<open>\<open>wal.append\<close>: the answer says whether the entry is durable. The log stamps the time itself.\<close>

definition wal_try :: "('p, 's) handler_env \<Rightarrow> wal_entry \<Rightarrow> bool handler" where
  "wal_try E entry = hbind utc_now (\<lambda>now s.
     (let (nonce, io_ok) = shd (nd_wal_io s);
          (r, w) = wal_append (he_lib E) nonce now io_ok entry (as_wal (nd_app s))
      in (Ok (r \<noteq> None), s\<lparr>nd_wal_io := stl (nd_wal_io s), nd_app := (nd_app s)\<lparr>as_wal := w\<rparr>\<rparr>)))"

definition wal_failed :: enclave_error where
  "wal_failed = Internal ''WAL append failed''"

definition wal_log :: "('p, 's) handler_env \<Rightarrow> wal_entry \<Rightarrow> unit handler" where
  "wal_log E entry = hbind (wal_try E entry) (\<lambda>ok. hguard ok wal_failed (hret ()))"

text \<open>\<open>if let Err(e) = wal.append(..) { undo; return Err }\<close>.\<close>

definition wal_log_or_undo :: "('p, 's) handler_env \<Rightarrow> wal_entry \<Rightarrow> unit handler \<Rightarrow> unit handler" where
  "wal_log_or_undo E entry undo = hbind (wal_try E entry) (\<lambda>ok. if ok then hret () else hthen undo (hfail wal_failed))"

section \<open>Lifecycle of the vault\<close>

text \<open>A \<open>None\<close> of the RPC is a failed call or an account that does not decode.\<close>

definition load_vault_lifecycle :: "vault_lifecycle handler" where
  "load_vault_lifecycle = hbind utc_now_ns (\<lambda>ns s.
     (let s1 = s\<lparr>nd_rpc := stl (nd_rpc s)\<rparr>
      in case shd (nd_rpc s) of
           None \<Rightarrow> (Err VaultStatusUnavailable, s1)
         | Some l \<Rightarrow>
             let l1 = l\<lparr>vl_synced_at_ms := of_int (ns div 1000000)\<rparr>
             in (Ok l1, set_vault ((as_vault (nd_app s1))\<lparr>lifecycle := l1\<rparr>) s1)))"

definition ensure_vault_allows_new_verification :: "unit handler" where
  "ensure_vault_allows_new_verification = hbind load_vault_lifecycle (\<lambda>l.
     if vl_status l = 0 then hret ()
     else if vl_status l = 1 then hfail VaultPaused
     else if vl_status l = 2 then hfail VaultMigrating
     else if vl_status l = 3 then hfail VaultRetired
     else hfail VaultStatusUnavailable)"

definition ensure_vault_allows_existing_reservation_ops :: "unit handler" where
  "ensure_vault_allows_existing_reservation_ops = hbind load_vault_lifecycle (\<lambda>l.
     if vl_status l = 0 then hret ()
     else if vl_status l = 1 then hfail VaultPaused
     else if vl_status l = 2 then
       hbind utc_now (\<lambda>now. if sint now \<le> sint (vl_exit_deadline l) then hret () else hfail VaultRetired)
     else if vl_status l = 3 then hfail VaultRetired
     else hfail VaultStatusUnavailable)"

definition ensure_vault_allows_withdraw :: "unit handler" where
  "ensure_vault_allows_withdraw = hbind load_vault_lifecycle (\<lambda>l.
     if vl_status l = 0 then hret ()
     else if vl_status l = 2 then
       hbind utc_now (\<lambda>now. if sint now \<le> sint (vl_exit_deadline l) then hret () else hfail VaultRetired)
     else if vl_status l = 1 then hfail VaultPaused
     else if vl_status l = 3 then hfail VaultRetired
     else hfail VaultStatusUnavailable)"

section \<open>Provider authentication\<close>

text \<open>Headers whose value is visible ASCII, by lower-case name.\<close>

type_synonym headers = "string \<Rightarrow> string option"

definition PROVIDER_ID_HEADER :: string where
  "PROVIDER_ID_HEADER = ''x-a402-provider-id''"

definition PROVIDER_AUTH_HEADER :: string where
  "PROVIDER_AUTH_HEADER = ''x-a402-provider-auth''"

definition INTERNAL_MTLS_FINGERPRINT_HEADER :: string where
  "INTERNAL_MTLS_FINGERPRINT_HEADER = ''x-a402-internal-mtls-fingerprint''"

definition key_hash_matches :: "('p, 's) handler_env \<Rightarrow> bytes option \<Rightarrow> string option \<Rightarrow> enclave_error option" where
  "key_hash_matches E api_key_hash token =
     (case token of None \<Rightarrow> Some ProviderAuthFailed
      | Some t \<Rightarrow> if Some (word_bytes (he_sha256 E (str_bytes t))) = api_key_hash then None else Some ProviderAuthFailed)"

definition id_header_differs :: "headers \<Rightarrow> provider_registration \<Rightarrow> bool" where
  "id_header_differs hs p = (case hs PROVIDER_ID_HEADER of None \<Rightarrow> False | Some i \<Rightarrow> i \<noteq> pr_provider_id p)"

text \<open>\<open>None\<close>: authenticated.\<close>

definition authenticate_registered_provider ::
    "('p, 's) handler_env \<Rightarrow> provider_registration \<Rightarrow> headers \<Rightarrow> enclave_error option" where
  "authenticate_registered_provider E p hs =
     (let bearer = Option.bind (hs ''authorization'') (strip_prefix ''Bearer '')
      in if pr_auth_mode p = ''bearer'' then
           (case pr_api_key_hash p of None \<Rightarrow> Some InvalidProviderAuthConfig
            | Some h \<Rightarrow>
                if length h \<noteq> 32 then Some InvalidProviderAuthConfig
                else if hs PROVIDER_ID_HEADER = None then Some ProviderAuthFailed
                else if id_header_differs hs p then Some ProviderIdMismatch
                else key_hash_matches E (Some h) bearer)
         else if pr_auth_mode p = ''api-key'' then
           (case pr_api_key_hash p of None \<Rightarrow> Some InvalidProviderAuthConfig
            | Some h \<Rightarrow>
                if length h \<noteq> 32 then Some InvalidProviderAuthConfig
                else if id_header_differs hs p then Some ProviderIdMismatch
                else key_hash_matches E (Some h) (case hs PROVIDER_AUTH_HEADER of Some t \<Rightarrow> Some t | None \<Rightarrow> bearer))
         else if pr_auth_mode p = ''mtls'' then
           (case pr_mtls_cert_fingerprint p of None \<Rightarrow> Some InvalidProviderAuthConfig
            | Some f \<Rightarrow>
                if length f \<noteq> 32 then Some InvalidProviderAuthConfig
                else if id_header_differs hs p then Some ProviderIdMismatch
                else if Option.bind (hs INTERNAL_MTLS_FINGERPRINT_HEADER) (hex_decode (he_lib E)) = Some f then None
                else Some ProviderAuthFailed)
         else if pr_auth_mode p = ''none'' then
           (if id_header_differs hs p then Some ProviderIdMismatch else None)
         else Some UnsupportedProviderAuthMode)"

definition authenticate_provider :: "('p, 's) handler_env \<Rightarrow> headers \<Rightarrow> string \<Rightarrow> string handler" where
  "authenticate_provider E hs expected_provider_id = hvault (\<lambda>v.
     hsome (dm_get (providers v) expected_provider_id) ProviderNotFound (\<lambda>p.
       case authenticate_registered_provider E p hs of Some e \<Rightarrow> hfail e | None \<Rightarrow> hret expected_provider_id))"


section \<open>Client authentication\<close>

definition CLIENT_AUTH_MAX_WINDOW_SEC :: i64 where
  "CLIENT_AUTH_MAX_WINDOW_SEC = 300"

definition CLIENT_AUTH_MAX_CLOCK_SKEW_SEC :: i64 where
  "CLIENT_AUTH_MAX_CLOCK_SKEW_SEC = 60"

definition verify_client_ed25519 :: "('p, 's) handler_env \<Rightarrow> pubkey \<Rightarrow> bytes \<Rightarrow> string \<Rightarrow> unit handler" where
  "verify_client_ed25519 E signer message signature_b64 =
     hsome (base64_decode (he_lib E) signature_b64) InvalidClientSignature (\<lambda>sig_bytes.
     hguard (length sig_bytes = 64) InvalidClientSignature
    (hguard (he_verify_strict E signer message (word_of_bytes sig_bytes)) InvalidClientSignature (hret ())))"

record client_request_auth =
  ca_issued_at :: i64
  ca_expires_at :: i64
  ca_client_sig :: string

text \<open>The sums and differences of the source panic on overflow.\<close>

definition hpanic_unless :: "bool \<Rightarrow> 'a handler \<Rightarrow> 'a handler" where
  "hpanic_unless b k = (if b then k else (\<lambda>s. (Panic, s)))"

definition fits_i64 :: "int \<Rightarrow> bool" where
  "fits_i64 n \<longleftrightarrow> - (2 ^ 63) \<le> n \<and> n < 2 ^ 63"

definition validate_client_auth_window :: "i64 \<Rightarrow> i64 \<Rightarrow> unit handler" where
  "validate_client_auth_window issued_at expires_at = hbind utc_now (\<lambda>now.
     hguard (\<not> sint expires_at \<le> sint now) ClientAuthExpired
    (hguard (\<not> sint expires_at \<le> sint issued_at) InvalidClientAuthWindow
    (hpanic_unless (fits_i64 (sint now + sint CLIENT_AUTH_MAX_CLOCK_SKEW_SEC))
    (hguard (\<not> sint now + sint CLIENT_AUTH_MAX_CLOCK_SKEW_SEC < sint issued_at) InvalidClientAuthWindow
    (hpanic_unless (fits_i64 (sint now - sint CLIENT_AUTH_MAX_WINDOW_SEC))
    (hguard (\<not> sint issued_at < sint now - sint CLIENT_AUTH_MAX_WINDOW_SEC) InvalidClientAuthWindow
    (hpanic_unless (fits_i64 (sint expires_at - sint issued_at))
    (hguard (\<not> sint CLIENT_AUTH_MAX_WINDOW_SEC < sint expires_at - sint issued_at) InvalidClientAuthWindow
       (hret ())))))))))"

definition verify_client_request_auth ::
    "('p, 's) handler_env \<Rightarrow> string \<Rightarrow> string \<Rightarrow> client_request_auth \<Rightarrow> pubkey handler" where
  "verify_client_request_auth E client message auth =
     hthen (validate_client_auth_window (ca_issued_at auth) (ca_expires_at auth))
    (hsome (pubkey_from_str (he_lib E) client) InvalidClientSignature (\<lambda>client_pubkey.
     hthen (verify_client_ed25519 E client_pubkey (str_bytes message) (ca_client_sig auth)) (hret client_pubkey)))"

section \<open>Signed texts\<close>

definition build_balance_auth_message :: "string \<Rightarrow> i64 \<Rightarrow> i64 \<Rightarrow> string" where
  "build_balance_auth_message client issued_at expires_at =
     lines_text [''A402-CLIENT-BALANCE'', client, show_i64 issued_at, show_i64 expires_at]"

definition build_receipt_auth_message :: "string \<Rightarrow> string \<Rightarrow> i64 \<Rightarrow> i64 \<Rightarrow> string" where
  "build_receipt_auth_message client recipient_ata issued_at expires_at =
     lines_text [''A402-CLIENT-RECEIPT'', client, recipient_ata, show_i64 issued_at, show_i64 expires_at]"

definition build_withdraw_auth_message :: "string \<Rightarrow> string \<Rightarrow> u64 \<Rightarrow> i64 \<Rightarrow> i64 \<Rightarrow> string" where
  "build_withdraw_auth_message client recipient_ata amount issued_at expires_at =
     lines_text [''A402-CLIENT-WITHDRAW-AUTH'', client, recipient_ata, show_u64 amount, show_i64 issued_at, show_i64 expires_at]"

definition build_channel_open_message :: "string \<Rightarrow> string \<Rightarrow> u64 \<Rightarrow> string" where
  "build_channel_open_message client provider_id initial_deposit =
     lines_text [''A402-CHANNEL-OPEN'', client, provider_id, show_u64 initial_deposit]"

definition build_channel_request_message :: "string \<Rightarrow> string \<Rightarrow> u64 \<Rightarrow> string \<Rightarrow> string" where
  "build_channel_request_message channel_id request_id amount request_hash =
     lines_text [''A402-CHANNEL-REQUEST'', channel_id, request_id, show_u64 amount, request_hash]"

definition build_channel_finalize_message :: "string \<Rightarrow> string \<Rightarrow> string" where
  "build_channel_finalize_message channel_id adaptor_secret =
     lines_text [''A402-CHANNEL-FINALIZE'', channel_id, adaptor_secret]"

definition build_channel_close_message :: "string \<Rightarrow> string" where
  "build_channel_close_message channel_id = lines_text [''A402-CHANNEL-CLOSE'', channel_id]"

definition build_verification_receipt_message ::
    "wal_lib \<Rightarrow> vault_state \<Rightarrow> string \<Rightarrow> string \<Rightarrow> string \<Rightarrow> pubkey \<Rightarrow> string \<Rightarrow> u64 \<Rightarrow> string \<Rightarrow> string \<Rightarrow> i64 \<Rightarrow> bytes" where
  "build_verification_receipt_message L v verification_id reservation_id payment_id client provider_id amount
     request_hash_hex payment_details_hash_hex reservation_expires_at =
     str_bytes (lines_text [''A402-VERIFY-RECEIPT'', verification_id, reservation_id, payment_id,
       pubkey_to_string L client, provider_id, show_u64 amount, request_hash_hex, payment_details_hash_hex,
       show_i64 reservation_expires_at, pubkey_to_string L (vault_config v)])"

section \<open>Participant receipts\<close>

record receipt_response =
  rr_participant :: string
  rr_participant_kind :: u8
  rr_recipient_ata :: string
  rr_free_balance :: u64
  rr_locked_balance :: u64
  rr_max_lock_expires_at :: i64
  rr_nonce :: u64
  rr_timestamp :: i64
  rr_snapshot_seqno :: u64
  rr_vault_config :: string
  rr_signature :: string
  rr_message :: string

definition PARTICIPANT_KIND_CLIENT :: u8 where
  "PARTICIPANT_KIND_CLIENT = 0"

definition PARTICIPANT_KIND_PROVIDER :: u8 where
  "PARTICIPANT_KIND_PROVIDER = 1"

definition replicate_receipt_to_watchtower :: "('p, 's) handler_env \<Rightarrow> receipt_response \<Rightarrow> unit handler" where
  "replicate_receipt_to_watchtower E receipt s =
     (if \<not> he_watchtower_url E then (Err ReceiptWatchtowerUnavailable, s)
      else
        let s1 = s\<lparr>nd_watchtower := stl (nd_watchtower s)\<rparr>
        in case shd (nd_watchtower s) of
             WtReply ok stored current_nonce \<Rightarrow>
               if \<not> ok \<or> current_nonce \<noteq> rr_nonce receipt then (Err (Internal ''Watchtower rejected receipt''), s1)
               else (Ok (), s1)
           | _ \<Rightarrow> (Err (Internal ''Watchtower replication failed''), s1))"

definition issue_participant_receipt_locked ::
    "('p, 's) handler_env \<Rightarrow> pubkey \<Rightarrow> u8 \<Rightarrow> pubkey \<Rightarrow> u64 \<Rightarrow> u64 \<Rightarrow> i64 \<Rightarrow> receipt_response handler" where
  "issue_participant_receipt_locked E participant participant_kind recipient_ata free_balance locked_balance max_lock_expires_at =
     hbind (run_vault (\<lambda>v. case next_receipt_nonce v of (n, v1) \<Rightarrow> (Ok n, v1))) (\<lambda>nonce.
     hbind utc_now (\<lambda>timestamp.
     hvault (\<lambda>v.
     let L = he_lib E;
         message = build_participant_receipt_message v participant participant_kind recipient_ata free_balance
           locked_balance max_lock_expires_at nonce timestamp (snapshot_seqno v);
         receipt = \<lparr>rr_participant = pubkey_to_string L participant, rr_participant_kind = participant_kind,
           rr_recipient_ata = pubkey_to_string L recipient_ata, rr_free_balance = free_balance,
           rr_locked_balance = locked_balance, rr_max_lock_expires_at = max_lock_expires_at, rr_nonce = nonce,
           rr_timestamp = timestamp, rr_snapshot_seqno = snapshot_seqno v,
           rr_vault_config = pubkey_to_string L (vault_config v),
           rr_signature = base64_encode L (word_bytes (sign_message (he_sign E) message v)),
           rr_message = base64_encode L message\<rparr>
     in hthen (wal_log E (WParticipantReceiptIssued (rr_participant receipt) participant_kind nonce))
       (hthen (replicate_receipt_to_watchtower E receipt)
       (hthen (wal_log E (WParticipantReceiptMirrored (rr_participant receipt) participant_kind nonce))
          (hret receipt))))))"

definition issue_client_receipt_locked :: "('p, 's) handler_env \<Rightarrow> pubkey \<Rightarrow> receipt_response handler" where
  "issue_client_receipt_locked E client = hvault (\<lambda>v.
     hsome (dm_get (client_balances v) client) ClientNotFound (\<lambda>balance.
     issue_participant_receipt_locked E client PARTICIPANT_KIND_CLIENT (he_ata E client (usdc_mint v))
       (cb_free balance) (cb_locked balance) (cb_max_lock_expires_at balance)))"

definition issue_provider_receipt_locked :: "('p, 's) handler_env \<Rightarrow> string \<Rightarrow> receipt_response handler" where
  "issue_provider_receipt_locked E provider_id = hvault (\<lambda>v.
     hsome (dm_get (providers v) provider_id) ProviderNotFound (\<lambda>provider.
     issue_participant_receipt_locked E
       (case pr_participant_pubkey provider of Some k \<Rightarrow> k | None \<Rightarrow> pr_settlement_token_account provider)
       PARTICIPANT_KIND_PROVIDER (pr_settlement_token_account provider)
       (case dm_get (provider_credits v) provider_id of Some c \<Rightarrow> pc_credited_amount c | None \<Rightarrow> 0) 0 0))"

end
