(* ===== verification/Handler_Payment.thy ===== *)
theory Handler_Payment
  imports Handler_Core
begin

text \<open>
  The payment handlers of \<open>enclave/src/handlers.rs\<close>: verify, settle, cancel, withdrawal
  authorisation, provider registration, seeding, and the expiry jobs. Responses carry times as
  seconds and receipts as records; their RFC 3339 and base64 texts are produced by the libraries.
  What \<open>post_verify\<close> does before it takes the persistence lock is \<open>verify_decide\<close>, what it does
  under the lock is \<open>verify_commit\<close>.
\<close>

section \<open>Requests\<close>

record request_context =
  rc_method :: string
  rc_origin :: string
  rc_path_and_query :: string
  rc_body_sha256 :: string

record payment_payload =
  pp_version :: u32
  pp_scheme :: string
  pp_payment_id :: string
  pp_client :: string
  pp_vault :: string
  pp_provider_id :: string
  pp_pay_to :: string
  pp_network :: string
  pp_asset_mint :: string
  pp_amount :: string
  pp_request_hash :: string
  pp_payment_details_hash :: string
  pp_expires_at :: string
  pp_nonce :: string
  pp_client_sig :: string

record verify_request =
  vq_payment_payload :: payment_payload
  vq_payment_details :: "jvalue option"
  vq_request_context :: request_context

record verification_receipt_envelope =
  ve_reservation :: reservation
  ve_vault_config :: string
  ve_signature :: string
  ve_message :: string

record verify_response =
  vr_verification_id :: string
  vr_reservation_id :: string
  vr_reservation_expires_at :: i64
  vr_provider_id :: string
  vr_amount :: u64
  vr_verification_receipt :: verification_receipt_envelope

section \<open>Checks of a payment\<close>

definition SUPPORTED_PAYMENT_SCHEMES :: "string list" where
  "SUPPORTED_PAYMENT_SCHEMES = [''a402-svm-v1'', ''a402-v1'', ''a402-evm-v1'', ''a402-btc-v1'']"

definition is_supported_payment_scheme :: "string \<Rightarrow> bool" where
  "is_supported_payment_scheme scheme \<longleftrightarrow> scheme \<in> set SUPPORTED_PAYMENT_SCHEMES"

definition derive_open_provider_id :: "('p, 's) handler_env \<Rightarrow> string \<Rightarrow> string \<Rightarrow> string \<Rightarrow> string" where
  "derive_open_provider_id E network asset_mint pay_to =
     ''payto_'' @ take 32 (hex_encode (he_lib E) (word_bytes (he_sha256 E
       (str_bytes (lines_text [''A402-OPEN-PROVIDER-V1'', network, asset_mint, pay_to])))))"

fun json_path :: "jvalue \<Rightarrow> string list \<Rightarrow> jvalue option" where
  "json_path v [] = Some v"
| "json_path v (k # ks) = Option.bind (json_get v k) (\<lambda>w. json_path w ks)"

definition payment_details_str :: "jvalue \<Rightarrow> string list \<Rightarrow> string option" where
  "payment_details_str details path = Option.bind (json_path details path) as_str"

text \<open>One comparison: a missing text is \<open>InvalidPaymentDetails\<close>.\<close>

definition match_detail :: "jvalue \<Rightarrow> string list \<Rightarrow> string \<Rightarrow> enclave_error \<Rightarrow> 'a handler \<Rightarrow> 'a handler" where
  "match_detail details path expected e k =
     hsome (payment_details_str details path) InvalidPaymentDetails (\<lambda>t. hguard (t = expected) e k)"

definition validate_payment_details_match_payload :: "jvalue \<Rightarrow> payment_payload \<Rightarrow> unit handler" where
  "validate_payment_details_match_payload details p =
     match_detail details [''providerId''] (pp_provider_id p) ProviderIdMismatch
    (match_detail details [''payTo''] (pp_pay_to p) PayToMismatch
    (match_detail details [''network''] (pp_network p) NetworkMismatch
    (match_detail details [''asset'', ''mint''] (pp_asset_mint p) AssetMintMismatch
    (match_detail details [''amount''] (pp_amount p) InvalidPaymentDetails
    (match_detail details [''vault'', ''config''] (pp_vault p) VaultNotActive (hret ()))))))"

definition compute_payment_details_hash :: "('p, 's) handler_env \<Rightarrow> jvalue \<Rightarrow> bytes" where
  "compute_payment_details_hash E details =
     word_bytes (he_sha256 E (str_bytes (canonical_json (he_json_scalar E) details)))"

definition compute_request_hash :: "('p, 's) handler_env \<Rightarrow> request_context \<Rightarrow> string \<Rightarrow> bytes" where
  "compute_request_hash E ctx payment_details_hash =
     word_bytes (he_sha256 E (str_bytes (lines_text [''A402-SVM-V1-REQ'', rc_method ctx, rc_origin ctx,
       rc_path_and_query ctx, rc_body_sha256 ctx, payment_details_hash])))"

definition payment_auth_message :: "payment_payload \<Rightarrow> string" where
  "payment_auth_message p =
     lines_text [''A402-SVM-V1-AUTH'', show_nat (unat (pp_version p)), pp_scheme p, pp_payment_id p, pp_client p,
       pp_vault p, pp_provider_id p, pp_pay_to p, pp_network p, pp_asset_mint p, pp_amount p, pp_request_hash p,
       pp_payment_details_hash p, pp_expires_at p, pp_nonce p]"

definition verify_client_signature :: "('p, 's) handler_env \<Rightarrow> payment_payload \<Rightarrow> unit handler" where
  "verify_client_signature E p =
     hsome (pubkey_from_str (he_lib E) (pp_client p)) InvalidClientSignature (\<lambda>client_pubkey.
     verify_client_ed25519 E client_pubkey (str_bytes (payment_auth_message p)) (pp_client_sig p))"

text \<open>A \<open>u64\<close> outside \<open>i64\<close> fails to convert, so the second reading of the source adds nothing.\<close>

definition parse_verify_window_sec :: "jvalue \<Rightarrow> i64 handler" where
  "parse_verify_window_sec details =
     hsome (Option.bind (json_get details ''verifyWindowSec'') as_i64) VerifyWindowSecRequired (\<lambda>w.
     hguard (0 < sint w) InvalidVerifyWindowSec (hret w))"

definition ensure_open_provider_registered :: "('p, 's) handler_env \<Rightarrow> payment_payload \<Rightarrow> unit handler" where
  "ensure_open_provider_registered E p = hvault (\<lambda>v.
     if dm_get (providers v) (pp_provider_id p) \<noteq> None then hret ()
     else if pp_provider_id p \<noteq> derive_open_provider_id E (pp_network p) (pp_asset_mint p) (pp_pay_to p) then hret ()
     else
       case settlement_target_parse (pubkey_from_str (he_lib E)) (pp_network p) (pp_asset_mint p) (pp_pay_to p) of
         Inl _ \<Rightarrow> hfail InvalidPaymentDetails
       | Inr target \<Rightarrow>
          (case parse_network (pp_network p) of Inl _ \<Rightarrow> hfail InvalidPaymentDetails
           | Inr d \<Rightarrow>
          let registration = \<lparr>pr_provider_id = pp_provider_id p, pr_display_name = ''Open x402 seller'',
                pr_participant_pubkey = None, pr_participant_attestation_policy_hash = None,
                pr_participant_attestation_verified_at_ms = None, pr_participant_attestation_mode = None,
                pr_settlement_token_account = (case st_solana_settlement_token_account target of Some a \<Rightarrow> a | None \<Rightarrow> 0),
                pr_network = pp_network p,
                pr_asset_mint = (case st_solana_asset_mint target of Some a \<Rightarrow> a | None \<Rightarrow> 0),
                pr_allowed_origins = [], pr_auth_mode = ''none'', pr_api_key_hash = None, pr_mtls_cert_fingerprint = None,
                pr_settlement_address = st_settlement_address target, pr_asset_id = st_asset_id target,
                pr_chain_kind = chain_kind_name (cd_kind d)\<rparr>
          in hthen (wal_log E (WProviderRegistered \<lparr>wp_provider_id = pp_provider_id p, wp_display_name = ''Open x402 seller'',
               wp_participant_pubkey = None, wp_participant_attestation_policy_hash = None,
               wp_participant_attestation_verified_at_ms = None, wp_participant_attestation_mode = None,
               wp_settlement_token_account = pp_pay_to p, wp_network = pp_network p, wp_asset_mint = pp_asset_mint p,
               wp_allowed_origins = [], wp_auth_mode = ''none'', wp_api_key_hash = None, wp_mtls_cert_fingerprint = None,
               wp_settlement_address = Some (st_settlement_address target), wp_asset_id = Some (st_asset_id target),
               wp_chain_kind = Some (chain_kind_name (cd_kind d))\<rparr>))
             (modify_vault (\<lambda>v. v\<lparr>providers := dm_insert (pp_provider_id p) registration (providers v)\<rparr>))))"

definition issue_verification_receipt :: "('p, 's) handler_env \<Rightarrow> reservation \<Rightarrow> verification_receipt_envelope handler" where
  "issue_verification_receipt E r = hvault (\<lambda>v.
     let L = he_lib E;
         message = build_verification_receipt_message L v (rs_verification_id r) (rs_reservation_id r) (rs_payment_id r)
           (rs_client r) (rs_provider_id r) (rs_amount r) (hex_encode L (word_bytes (rs_request_hash r)))
           (hex_encode L (word_bytes (rs_payment_details_hash r))) (rs_expires_at r)
     in hret \<lparr>ve_reservation = r, ve_vault_config = pubkey_to_string L (vault_config v),
          ve_signature = base64_encode L (word_bytes (sign_message (he_sign E) message v)),
          ve_message = base64_encode L message\<rparr>)"

definition verify_reply :: "('p, 's) handler_env \<Rightarrow> reservation \<Rightarrow> verify_response handler" where
  "verify_reply E r = hbind (issue_verification_receipt E r) (\<lambda>receipt.
     hret \<lparr>vr_verification_id = rs_verification_id r, vr_reservation_id = rs_reservation_id r,
       vr_reservation_expires_at = rs_expires_at r, vr_provider_id = rs_provider_id r, vr_amount = rs_amount r,
       vr_verification_receipt = receipt\<rparr>)"

section \<open>Verify\<close>

datatype verify_decision = VerifyRepeat verify_response | VerifyFresh reservation

definition verify_provider_fields :: "('p, 's) handler_env \<Rightarrow> headers \<Rightarrow> verify_request \<Rightarrow> 'a handler \<Rightarrow> 'a handler" where
  "verify_provider_fields E hs req k =
     (let p = vq_payment_payload req
      in hbind (authenticate_provider E hs (pp_provider_id p)) (\<lambda>authenticated.
         hvault (\<lambda>v. hsome (dm_get (providers v) (pp_provider_id p)) ProviderNotFound (\<lambda>provider.
         hguard (authenticated = pp_provider_id p) ProviderIdMismatch
        (let pay_to = (if pr_settlement_address provider = '''' then pubkey_to_string (he_lib E) (pr_settlement_token_account provider)
               else pr_settlement_address provider);
             asset = (if pr_asset_id provider = '''' then pubkey_to_string (he_lib E) (pr_asset_mint provider)
               else pr_asset_id provider)
         in case settlement_target_parse (pubkey_from_str (he_lib E)) (pp_network p) (pp_asset_mint p) (pp_pay_to p) of
              Inl _ \<Rightarrow> hfail InvalidPaymentDetails
            | Inr target \<Rightarrow>
                hguard (st_settlement_address target = pay_to) PayToMismatch
               (hguard (st_asset_id target = asset) AssetMintMismatch
               (hguard (pp_network p = pr_network provider) NetworkMismatch
               (hguard (pr_allowed_origins provider = [] \<or> rc_origin (vq_request_context req) \<in> set (pr_allowed_origins provider))
                  OriginNotAllowed k))))))))"

definition verify_new_reservation :: "('p, 's) handler_env \<Rightarrow> payment_payload \<Rightarrow> pubkey \<Rightarrow> u64 \<Rightarrow> i64 \<Rightarrow> b32 \<Rightarrow> reservation handler" where
  "verify_new_reservation E p client amount window request_hash =
     hbind utc_now (\<lambda>now. hbind new_uuid (\<lambda>u1. hbind new_uuid (\<lambda>u2.
     hsome (checked_sadd now window) InvalidVerifyWindowSec (\<lambda>reservation_expires_at.
     hsome (hex_decode (he_lib E) (pp_payment_details_hash p)) PaymentDetailsHashMismatch (\<lambda>details_hash.
     hguard (length details_hash = 32) PaymentDetailsHashMismatch
    (hret \<lparr>rs_verification_id = ''ver_'' @ u1, rs_reservation_id = ''res_'' @ u2, rs_payment_id = pp_payment_id p,
       rs_client = client, rs_provider_id = pp_provider_id p, rs_amount = amount, rs_request_hash = request_hash,
       rs_payment_details_hash = word_of_bytes details_hash, rs_status = Reserved, rs_created_at = now,
       rs_expires_at = reservation_expires_at, rs_settlement_id = None, rs_settled_at = None\<rparr>))))))"

text \<open>The idempotency check (step 7), made before the lock is taken.\<close>

definition verify_payment_id :: "('p, 's) handler_env \<Rightarrow> payment_payload \<Rightarrow> b32 \<Rightarrow> reservation handler \<Rightarrow> verify_decision handler" where
  "verify_payment_id E p request_hash fresh = hvault (\<lambda>v.
     case Option.bind (dm_get (payment_id_index v) (pp_payment_id p)) (dm_get (reservations v)) of
       Some existing \<Rightarrow>
         if rs_request_hash existing = request_hash then hbind (verify_reply E existing) (\<lambda>r. hret (VerifyRepeat r))
         else hfail PaymentIdReused
     | None \<Rightarrow> hbind fresh (\<lambda>r. hret (VerifyFresh r)))"

definition verify_decide :: "('p, 's) handler_env \<Rightarrow> headers \<Rightarrow> verify_request \<Rightarrow> verify_decision handler" where
  "verify_decide E hs req =
     (let p = vq_payment_payload req; L = he_lib E
      in hsome (vq_payment_details req) PaymentDetailsRequired (\<lambda>details.
         hguard (\<not> (he_detector_enabled E \<and> \<not> he_detector_ready E)) DepositSyncInProgress
        (hthen ensure_vault_allows_new_verification
        (hguard (is_supported_payment_scheme (pp_scheme p)) InvalidScheme
        (hsome (Option.bind (json_get details ''scheme'') as_str) InvalidScheme (\<lambda>details_scheme.
         hguard (details_scheme = pp_scheme p \<and> is_supported_payment_scheme details_scheme) InvalidScheme
        (hsome (hex_decode L (pp_payment_details_hash p)) PaymentDetailsHashMismatch (\<lambda>provided_hash.
         hguard (compute_payment_details_hash E details = provided_hash) PaymentDetailsHashMismatch
        (hthen (validate_payment_details_match_payload details p)
        (hvault (\<lambda>v.
         hguard (pp_vault p = pubkey_to_string L (vault_config v)) VaultNotActive
        (hsome (he_parse_rfc3339 E (pp_expires_at p)) PaymentExpired (\<lambda>expires_at.
         hbind utc_now_ns (\<lambda>now_ns.
         hguard (\<not> expires_at < now_ns) PaymentExpired
        (hsome (pubkey_from_str L (pp_client p)) InvalidClientSignature (\<lambda>client_pubkey.
         hthen (verify_client_signature E p)
        (let computed = compute_request_hash E (vq_request_context req) (pp_payment_details_hash p)
         in hsome (hex_decode L (pp_request_hash p)) RequestHashMismatch (\<lambda>provided_request_hash.
            hguard (computed = provided_request_hash) RequestHashMismatch
           (hsome (parse_u64 (pp_amount p)) (Internal ''Invalid amount'') (\<lambda>amount.
            hbind (parse_verify_window_sec details) (\<lambda>window.
            hthen (ensure_open_provider_registered E p)
           (verify_provider_fields E hs req
           (verify_payment_id E p (word_of_bytes computed)
              (verify_new_reservation E p client_pubkey amount window (word_of_bytes computed)))))))))))))))))))))))))"

definition verify_commit :: "('p, 's) handler_env \<Rightarrow> payment_payload \<Rightarrow> reservation \<Rightarrow> unit handler" where
  "verify_commit E p r =
     hthen (run_vault (reserve_balance (rs_client r) (rs_amount r)))
    (hthen (wal_log_or_undo E (WReservationCreated (rs_verification_id r) (Some (rs_reservation_id r)) (rs_payment_id r)
              (pp_client p) (rs_provider_id r) (rs_amount r) (Some (hex_encode (he_lib E) (word_bytes (rs_request_hash r))))
              (Some (hex_encode (he_lib E) (word_bytes (rs_payment_details_hash r)))) (Some (rs_created_at r)) (Some (rs_expires_at r)))
            (hignore (run_vault (release_balance (rs_client r) (rs_amount r)))))
    (hthen (modify_vault (\<lambda>v. v\<lparr>reservations := dm_insert (rs_verification_id r) r (reservations v),
              payment_id_index := dm_insert (rs_payment_id r) (rs_verification_id r) (payment_id_index v)\<rparr>))
    (hthen (run_vault (refresh_client_max_lock_expires_at (rs_client r)))
    (hthen (issue_client_receipt_locked E (rs_client r)) (hret ())))))"

definition post_verify :: "('p, 's) handler_env \<Rightarrow> headers \<Rightarrow> verify_request \<Rightarrow> verify_response handler" where
  "post_verify E hs req = hbind (verify_decide E hs req) (\<lambda>d. case d of
       VerifyRepeat r \<Rightarrow> hret r
     | VerifyFresh r \<Rightarrow>
         hthen (verify_commit E (vq_payment_payload req) r)
        (hvault (\<lambda>v. hsome (dm_get (reservations v) (rs_verification_id r)) ReservationNotFound (verify_reply E))))"

section \<open>Expiry of reservations and withdrawals\<close>

definition set_reservation :: "string \<Rightarrow> (reservation \<Rightarrow> reservation) \<Rightarrow> unit handler" where
  "set_reservation verification_id f = hvault (\<lambda>v.
     hsome (dm_get (reservations v) verification_id) ReservationNotFound (\<lambda>r.
     modify_vault (put_reservation verification_id (f r))))"

definition expire_reserved_reservation_with_lock :: "('p, 's) handler_env \<Rightarrow> string \<Rightarrow> i64 \<Rightarrow> bool handler" where
  "expire_reserved_reservation_with_lock E verification_id now = hvault (\<lambda>v.
     hsome (dm_get (reservations v) verification_id) ReservationNotFound (\<lambda>r.
     if rs_status r \<noteq> Reserved \<or> sint now \<le> sint (rs_expires_at r) then hret False
     else
       hthen (wal_log E (WReservationExpired verification_id))
      (hvault (\<lambda>v. hsome (dm_get (reservations v) verification_id) ReservationNotFound (\<lambda>r1.
       if rs_status r1 \<noteq> Reserved then hret False
       else
         hthen (modify_vault (put_reservation verification_id (r1\<lparr>rs_status := Expired\<rparr>)))
        (hthen (run_vault (release_balance (rs_client r) (rs_amount r)))
        (hthen (run_vault (refresh_client_max_lock_expires_at (rs_client r)))
        (hthen (issue_client_receipt_locked E (rs_client r)) (hret True)))))))))"

definition expire_pending_withdrawal_handler :: "('p, 's) handler_env \<Rightarrow> u64 \<Rightarrow> i64 \<Rightarrow> bool handler" where
  "expire_pending_withdrawal_handler E nonce now = hvault (\<lambda>v.
     case dm_get (pending_withdrawals v) nonce of None \<Rightarrow> hret False
     | Some w \<Rightarrow>
         if sint now \<le> sint (pw_expires_at w) then hret False
         else
           hthen (wal_log E (WWithdrawExpired (pubkey_to_string (he_lib E) (pw_client w)) nonce))
          (hbind (run_vault (expire_pending_withdrawal nonce)) (\<lambda>expired.
           hthen (run_vault (refresh_client_max_lock_expires_at (pw_client expired)))
          (hthen (issue_client_receipt_locked E (pw_client expired)) (hret True)))))"

section \<open>Settle\<close>

definition debug_reservation_status :: "reservation_status \<Rightarrow> string" where
  "debug_reservation_status st = (case st of Reserved \<Rightarrow> ''Reserved'' | SettledOffchain \<Rightarrow> ''SettledOffchain''
     | Cancelled \<Rightarrow> ''Cancelled'' | Expired \<Rightarrow> ''Expired'' | BatchedOnchain \<Rightarrow> ''BatchedOnchain'')"

record settle_response =
  sp_settlement_id :: string
  sp_offchain_settled_at :: i64
  sp_provider_credit_amount :: u64
  sp_participant_receipt :: receipt_response

definition settle_repeat :: "('p, 's) handler_env \<Rightarrow> string \<Rightarrow> reservation \<Rightarrow> settle_response handler" where
  "settle_repeat E provider_id r = hbind (issue_provider_receipt_locked E provider_id) (\<lambda>receipt.
     hret \<lparr>sp_settlement_id = (case rs_settlement_id r of Some i \<Rightarrow> i | None \<Rightarrow> []),
       sp_offchain_settled_at = (case rs_settled_at r of Some t \<Rightarrow> t | None \<Rightarrow> 0),
       sp_provider_credit_amount = rs_amount r, sp_participant_receipt = receipt\<rparr>)"

text \<open>The work under the lock for a reservation that is still reserved.\<close>

definition settle_fresh :: "('p, 's) handler_env \<Rightarrow> string \<Rightarrow> string \<Rightarrow> reservation \<Rightarrow> string \<Rightarrow> i64 \<Rightarrow> settle_response handler" where
  "settle_fresh E verification_id provider_id r settlement_id now =
     (let client = rs_client r; amount = rs_amount r
      in hthen (run_vault (settle_payment client amount provider_id settlement_id now))
        (hthen (modify_vault (\<lambda>v. v\<lparr>settlement_history := dm_insert settlement_id
            \<lparr>sr_settlement_id = settlement_id, sr_client = client,
             sr_provider = (case dm_get (providers v) provider_id of Some p \<Rightarrow> pr_settlement_token_account p | None \<Rightarrow> 0),
             sr_amount = amount, sr_timestamp = now\<rparr> (settlement_history v)\<rparr>))
        (hthen (wal_log_or_undo E (WSettlementCommitted settlement_id verification_id provider_id amount (Some now))
            (hthen (modify_vault (\<lambda>v. v\<lparr>settlement_history := dm_remove settlement_id (settlement_history v)\<rparr>))
              (hignore (run_vault (rollback_settle_payment client amount provider_id settlement_id)))))
        (hthen (set_reservation verification_id (\<lambda>r. r\<lparr>rs_status := SettledOffchain,
            rs_settlement_id := Some settlement_id, rs_settled_at := Some now\<rparr>))
        (hthen (run_vault (refresh_client_max_lock_expires_at client))
        (hthen (issue_client_receipt_locked E client)
        (hbind (issue_provider_receipt_locked E provider_id) (\<lambda>receipt.
         hret \<lparr>sp_settlement_id = settlement_id, sp_offchain_settled_at = now, sp_provider_credit_amount = amount,
           sp_participant_receipt = receipt\<rparr>))))))))"

text \<open>The decision made under the lock, on a fresh look at the reservation.\<close>

definition settle_locked :: "('p, 's) handler_env \<Rightarrow> string \<Rightarrow> string \<Rightarrow> string \<Rightarrow> i64 \<Rightarrow> settle_response handler" where
  "settle_locked E verification_id provider_id settlement_id now = hvault (\<lambda>v.
     hsome (dm_get (reservations v) verification_id) ReservationNotFound (\<lambda>r.
     case rs_status r of
       SettledOffchain \<Rightarrow> settle_repeat E provider_id r
     | Expired \<Rightarrow> hfail ReservationExpired
     | Reserved \<Rightarrow>
         if sint (rs_expires_at r) < sint now
         then hthen (expire_reserved_reservation_with_lock E verification_id now) (hfail ReservationExpired)
         else settle_fresh E verification_id provider_id r settlement_id now
     | other \<Rightarrow> hfail (InvalidReservationStatus (debug_reservation_status other))))"

definition post_settle :: "('p, 's) handler_env \<Rightarrow> headers \<Rightarrow> string \<Rightarrow> settle_response handler" where
  "post_settle E hs verification_id = hvault (\<lambda>v.
     hsome (dm_get (reservations v) verification_id) ReservationNotFound (\<lambda>r0.
     hthen ensure_vault_allows_existing_reservation_ops
    (hbind (authenticate_provider E hs (rs_provider_id r0)) (\<lambda>authenticated.
     hguard (authenticated = rs_provider_id r0) ProviderIdMismatch
    (if rs_status r0 = SettledOffchain then settle_repeat E (rs_provider_id r0) r0
     else if rs_status r0 \<noteq> Reserved then
       hfail (if rs_status r0 = Expired then ReservationExpired else InvalidReservationStatus (debug_reservation_status (rs_status r0)))
     else
       hbind utc_now (\<lambda>now. hbind new_uuid (\<lambda>u.
       settle_locked E verification_id (rs_provider_id r0) (''set_'' @ u) now)))))))"

record settlement_status_response =
  st_settlement_id :: string
  st_verification_id :: string
  st_provider_id :: string
  st_status :: string
  st_batch :: "settlement_batch_info option"

definition post_settlement_status :: "('p, 's) handler_env \<Rightarrow> headers \<Rightarrow> string \<Rightarrow> settlement_status_response handler" where
  "post_settlement_status E hs settlement_id = hvault (\<lambda>v.
     hsome (find (\<lambda>r. rs_settlement_id r = Some settlement_id) (map snd (reservations v))) SettlementNotFound (\<lambda>r.
     hthen (authenticate_provider E hs (rs_provider_id r))
    (hret \<lparr>st_settlement_id = settlement_id, st_verification_id = rs_verification_id r, st_provider_id = rs_provider_id r,
       st_status = debug_reservation_status (rs_status r), st_batch = dm_get (settlement_batches v) settlement_id\<rparr>)))"

section \<open>Cancel\<close>

definition cancel_fresh :: "('p, 's) handler_env \<Rightarrow> string \<Rightarrow> string \<Rightarrow> reservation \<Rightarrow> unit handler" where
  "cancel_fresh E verification_id reason r =
     hthen (run_vault (release_balance (rs_client r) (rs_amount r)))
    (hthen (wal_log_or_undo E (WReservationCancelled verification_id reason)
        (hignore (run_vault (reserve_balance (rs_client r) (rs_amount r)))))
    (hthen (set_reservation verification_id (\<lambda>r. r\<lparr>rs_status := Cancelled\<rparr>))
    (hthen (run_vault (refresh_client_max_lock_expires_at (rs_client r)))
    (hthen (issue_client_receipt_locked E (rs_client r)) (hret ())))))"

definition post_cancel :: "('p, 's) handler_env \<Rightarrow> headers \<Rightarrow> string \<Rightarrow> string \<Rightarrow> unit handler" where
  "post_cancel E hs verification_id reason = hvault (\<lambda>v.
     hsome (dm_get (reservations v) verification_id) ReservationNotFound (\<lambda>r0.
     hthen ensure_vault_allows_existing_reservation_ops
    (hbind (authenticate_provider E hs (rs_provider_id r0)) (\<lambda>authenticated.
     hguard (authenticated = rs_provider_id r0) ProviderIdMismatch
    (if rs_status r0 = Cancelled then hret ()
     else if rs_status r0 \<noteq> Reserved then hfail (InvalidReservationStatus (debug_reservation_status (rs_status r0)))
     else
       hvault (\<lambda>v. hsome (dm_get (reservations v) verification_id) ReservationNotFound (\<lambda>r.
       if rs_status r = Cancelled then hret ()
       else if rs_status r \<noteq> Reserved then hfail (InvalidReservationStatus (debug_reservation_status (rs_status r)))
       else cancel_fresh E verification_id reason r)))))))"

section \<open>Withdrawal authorisation, balance, receipt\<close>

record withdraw_auth_request =
  wq_client :: string
  wq_recipient_ata :: string
  wq_amount :: u64
  wq_auth :: client_request_auth

record withdraw_auth_response =
  wx_withdraw_nonce :: u64
  wx_expires_at :: i64
  wx_signature :: string
  wx_message :: string

definition post_withdraw_auth :: "('p, 's) handler_env \<Rightarrow> withdraw_auth_request \<Rightarrow> withdraw_auth_response handler" where
  "post_withdraw_auth E req =
     hthen ensure_vault_allows_withdraw
    (hbind (verify_client_request_auth E (wq_client req)
        (build_withdraw_auth_message (wq_client req) (wq_recipient_ata req) (wq_amount req)
          (ca_issued_at (wq_auth req)) (ca_expires_at (wq_auth req))) (wq_auth req)) (\<lambda>client.
     hsome (pubkey_from_str (he_lib E) (wq_recipient_ata req)) (Internal ''Invalid recipient ATA'') (\<lambda>recipient_ata.
     hbind (run_vault (\<lambda>v. case next_withdraw_nonce v of (n, v1) \<Rightarrow> (Ok n, v1))) (\<lambda>nonce.
     hbind utc_now (\<lambda>now.
     hpanic_unless (fits_i64 (sint now + 300))
    (hvault (\<lambda>v.
     let L = he_lib E; expires_at = now + 300;
         message = build_withdraw_authorization_message v client recipient_ata (wq_amount req) nonce expires_at;
         signature = sign_message (he_sign E) message v
     in hthen (run_vault (authorize_withdrawal \<lparr>pw_client = client, pw_recipient_ata = recipient_ata,
            pw_amount = wq_amount req, pw_withdraw_nonce = nonce, pw_issued_at = now, pw_expires_at = expires_at\<rparr>))
       (hthen (wal_log_or_undo E (WWithdrawAuthorized (pubkey_to_string L client) (pubkey_to_string L recipient_ata)
            (wq_amount req) nonce now expires_at)
            (hignore (run_vault (rollback_authorized_withdrawal nonce))))
       (hthen (run_vault (refresh_client_max_lock_expires_at client))
       (hthen (issue_client_receipt_locked E client)
       (hret \<lparr>wx_withdraw_nonce = nonce, wx_expires_at = expires_at,
          wx_signature = base64_encode L (word_bytes signature), wx_message = base64_encode L message\<rparr>)))))))))))"

record balance_request =
  bq_client :: string
  bq_auth :: client_request_auth

definition post_balance :: "('p, 's) handler_env \<Rightarrow> balance_request \<Rightarrow> client_balance handler" where
  "post_balance E req =
     hbind (verify_client_request_auth E (bq_client req)
        (build_balance_auth_message (bq_client req) (ca_issued_at (bq_auth req)) (ca_expires_at (bq_auth req))) (bq_auth req)) (\<lambda>client.
     hvault (\<lambda>v. hsome (dm_get (client_balances v) client) ClientNotFound hret))"

record receipt_request =
  cq_client :: string
  cq_recipient_ata :: string
  cq_auth :: client_request_auth

definition post_receipt :: "('p, 's) handler_env \<Rightarrow> receipt_request \<Rightarrow> receipt_response handler" where
  "post_receipt E req =
     hbind (verify_client_request_auth E (cq_client req)
        (build_receipt_auth_message (cq_client req) (cq_recipient_ata req) (ca_issued_at (cq_auth req))
          (ca_expires_at (cq_auth req))) (cq_auth req)) (\<lambda>client.
     hsome (pubkey_from_str (he_lib E) (cq_recipient_ata req)) (Internal ''Invalid recipient ATA'') (\<lambda>recipient_ata.
     hvault (\<lambda>v. hsome (dm_get (client_balances v) client) ClientNotFound (\<lambda>balance.
     issue_participant_receipt_locked E client PARTICIPANT_KIND_CLIENT recipient_ata
       (cb_free balance) (cb_locked balance) (cb_max_lock_expires_at balance)))))"

section \<open>Registration and seeding\<close>

record register_provider_request =
  gq_provider_id :: string
  gq_display_name :: string
  gq_participant_pubkey :: "string option"
  gq_participant_attestation :: "attestation_request option"
  gq_settlement_token_account :: string
  gq_network :: string
  gq_asset_mint :: string
  gq_allowed_origins :: "string list"
  gq_auth_mode :: string
  gq_api_key_hash :: string
  gq_mtls_cert_fingerprint :: "string option"

definition hex_32 :: "wal_lib \<Rightarrow> string \<Rightarrow> bytes option" where
  "hex_32 L s = Option.bind (hex_decode L s) (\<lambda>bs. if length bs = 32 then Some bs else None)"

text \<open>Which secrets a registration keeps, by authentication mode.\<close>

definition registration_secrets ::
    "('p, 's) handler_env \<Rightarrow> register_provider_request \<Rightarrow> pubkey option \<Rightarrow> (bytes option \<times> bytes option) handler" where
  "registration_secrets E req participant =
     (if gq_auth_mode req = ''bearer'' \<or> gq_auth_mode req = ''api-key'' then
        hsome (hex_32 (he_lib E) (gq_api_key_hash req)) InvalidProviderAuthConfig (\<lambda>h. hret (Some h, None))
      else if gq_auth_mode req = ''mtls'' then
        hguard (he_provider_mtls_enabled E) MtlsNotEnabled
       (hsome (Option.bind (gq_mtls_cert_fingerprint req) (hex_32 (he_lib E))) InvalidProviderAuthConfig (\<lambda>f. hret (None, Some f)))
      else if gq_auth_mode req = ''none'' then
        hguard (participant = None) InvalidProviderAuthConfig (hret (None, None))
      else hfail UnsupportedProviderAuthMode)"

text \<open>The two readings of the clock are those of the attestation check.\<close>

definition registration_participant ::
    "('p, 's) handler_env \<Rightarrow> register_provider_request \<Rightarrow> (pubkey option \<times> verified_attestation option) handler" where
  "registration_participant E req =
     (case gq_participant_pubkey req of None \<Rightarrow> hret (None, None)
      | Some t \<Rightarrow>
          hsome (pubkey_from_str (he_lib E) t) InvalidProviderParticipant (\<lambda>k.
          hsome (gq_participant_attestation req) ProviderParticipantAttestationRequired (\<lambda>a.
          hbind utc_now_ns (\<lambda>now. hbind utc_now_ns (\<lambda>later.
          case verify_provider_participant_attestation (he_lib E) (he_sha256 E) (he_json_scalar E) (he_attest E) a (gq_provider_id req) k now later of
            Inl e \<Rightarrow> hfail (InvalidProviderParticipantAttestation e)
          | Inr r \<Rightarrow> hret (Some k, Some r))))))"

definition wal_provider_of :: "register_provider_request \<Rightarrow> verified_attestation option \<Rightarrow> settlement_target \<Rightarrow> chain_kind \<Rightarrow> wal_provider" where
  "wal_provider_of req attestation target kind =
     \<lparr>wp_provider_id = gq_provider_id req, wp_display_name = gq_display_name req,
      wp_participant_pubkey = gq_participant_pubkey req,
      wp_participant_attestation_policy_hash = map_option va_policy_hash_hex attestation,
      wp_participant_attestation_verified_at_ms = map_option va_verified_at_ms attestation,
      wp_participant_attestation_mode = map_option (\<lambda>a. mode_as_str (va_mode a)) attestation,
      wp_settlement_token_account = gq_settlement_token_account req, wp_network = gq_network req,
      wp_asset_mint = gq_asset_mint req, wp_allowed_origins = gq_allowed_origins req, wp_auth_mode = gq_auth_mode req,
      wp_api_key_hash = (if gq_api_key_hash req = [] then None else Some (gq_api_key_hash req)),
      wp_mtls_cert_fingerprint = gq_mtls_cert_fingerprint req,
      wp_settlement_address = Some (st_settlement_address target), wp_asset_id = Some (st_asset_id target),
      wp_chain_kind = Some (chain_kind_name kind)\<rparr>"

definition registration_of ::
    "wal_lib \<Rightarrow> register_provider_request \<Rightarrow> settlement_target \<Rightarrow> chain_kind \<Rightarrow> pubkey option \<Rightarrow> verified_attestation option
      \<Rightarrow> bytes option \<Rightarrow> bytes option \<Rightarrow> provider_registration" where
  "registration_of L req target kind participant attestation api_key_hash mtls =
     \<lparr>pr_provider_id = gq_provider_id req, pr_display_name = gq_display_name req,
      pr_participant_pubkey = participant,
      pr_participant_attestation_policy_hash = map_option (\<lambda>a. word_of_bytes (the (hex_32 L (va_policy_hash_hex a)))) attestation,
      pr_participant_attestation_verified_at_ms = map_option va_verified_at_ms attestation,
      pr_participant_attestation_mode = map_option (\<lambda>a. mode_as_str (va_mode a)) attestation,
      pr_settlement_token_account = (case st_solana_settlement_token_account target of Some a \<Rightarrow> a | None \<Rightarrow> 0),
      pr_network = gq_network req,
      pr_asset_mint = (case st_solana_asset_mint target of Some a \<Rightarrow> a | None \<Rightarrow> 0),
      pr_allowed_origins = gq_allowed_origins req, pr_auth_mode = gq_auth_mode req, pr_api_key_hash = api_key_hash,
      pr_mtls_cert_fingerprint = mtls, pr_settlement_address = st_settlement_address target,
      pr_asset_id = st_asset_id target, pr_chain_kind = chain_kind_name kind\<rparr>"

text \<open>
  The part under the lock. The policy hash of a verified attestation is 32 bytes of hex; otherwise
  the source panics before it takes the lock.
\<close>

definition register_commit ::
    "('p, 's) handler_env \<Rightarrow> register_provider_request \<Rightarrow> settlement_target \<Rightarrow> chain_kind \<Rightarrow> pubkey option \<Rightarrow> verified_attestation option
      \<Rightarrow> bytes option \<times> bytes option \<Rightarrow> string handler" where
  "register_commit E req target kind participant attestation secrets =
     hpanic_unless (\<forall>a\<in>set_option attestation. hex_32 (he_lib E) (va_policy_hash_hex a) \<noteq> None)
    (hvault (\<lambda>v.
     if dm_get (providers v) (gq_provider_id req) \<noteq> None then hfail ProviderAlreadyRegistered
     else
       hthen (wal_log E (WProviderRegistered (wal_provider_of req attestation target kind)))
      (hthen (modify_vault (\<lambda>v. v\<lparr>providers := dm_insert (gq_provider_id req)
          (registration_of (he_lib E) req target kind participant attestation (fst secrets) (snd secrets)) (providers v)\<rparr>))
         (hret (gq_provider_id req)))))"

definition post_register_provider :: "('p, 's) handler_env \<Rightarrow> register_provider_request \<Rightarrow> string handler" where
  "post_register_provider E req =
     (case settlement_target_parse (pubkey_from_str (he_lib E)) (gq_network req) (gq_asset_mint req) (gq_settlement_token_account req) of
        Inl e \<Rightarrow> hfail (Internal (''Invalid settlement target: '' @ e))
      | Inr target \<Rightarrow>
     (case parse_network (gq_network req) of Inl e \<Rightarrow> hfail (Internal (''Invalid network: '' @ e))
      | Inr d \<Rightarrow>
     hbind (registration_participant E req) (\<lambda>pa.
     hbind (registration_secrets E req (fst pa)) (\<lambda>secrets.
     register_commit E req target (cd_kind d) (fst pa) (snd pa) secrets))))"

record seed_balance_request =
  eq_client :: string
  eq_free :: u64
  eq_locked :: "u64 option"
  eq_max_lock_expires_at :: "i64 option"
  eq_total_deposited :: "u64 option"
  eq_total_withdrawn :: "u64 option"

definition unwrap_or :: "'a option \<Rightarrow> 'a \<Rightarrow> 'a" where
  "unwrap_or x d = (case x of Some y \<Rightarrow> y | None \<Rightarrow> d)"

definition post_seed_balance :: "('p, 's) handler_env \<Rightarrow> seed_balance_request \<Rightarrow> unit handler" where
  "post_seed_balance E req =
     hsome (pubkey_from_str (he_lib E) (eq_client req)) ClientNotFound (\<lambda>client.
     let locked = unwrap_or (eq_locked req) 0;
         max_lock = unwrap_or (eq_max_lock_expires_at req) 0;
         deposited = unwrap_or (eq_total_deposited req) (saturating_add (eq_free req) locked);
         withdrawn = unwrap_or (eq_total_withdrawn req) 0
     in hthen (wal_log E (WClientBalanceSeeded (eq_client req) (eq_free req) locked max_lock deposited withdrawn))
       (hthen (modify_vault (put_balance client \<lparr>cb_free = eq_free req, cb_locked = locked, cb_max_lock_expires_at = max_lock,
            cb_total_deposited = deposited, cb_total_withdrawn = withdrawn\<rparr>))
       (hthen (issue_client_receipt_locked E client) (hret ()))))"

end
