(* ===== verification/Handler_Channel.thy ===== *)
theory Handler_Channel
  imports Handler_Payment
begin

text \<open>
  The handlers of the atomic service channels (\<open>enclave/src/handlers.rs\<close>): open, request, deliver,
  finalise, close, and the expiry job. They run under both locks of the source. An operation of
  the channel manager that reads the clock gets a reading of its own.
\<close>

section \<open>Authentication\<close>

definition verify_channel_client_signature :: "('p, 's) handler_env \<Rightarrow> string \<Rightarrow> string \<Rightarrow> string \<Rightarrow> unit handler" where
  "verify_channel_client_signature E channel_id message client_sig = hvault (\<lambda>v.
     hsome (dm_get (active_channels v) channel_id) ChannelNotFound (\<lambda>ch.
     verify_client_ed25519 E (ch_client ch) (str_bytes message) client_sig))"

definition verify_channel_provider_auth :: "('p, 's) handler_env \<Rightarrow> string \<Rightarrow> headers \<Rightarrow> unit handler" where
  "verify_channel_provider_auth E channel_id hs = hvault (\<lambda>v.
     hsome (dm_get (active_channels v) channel_id) ChannelNotFound (\<lambda>ch.
     hsome (dm_get (providers v) (ch_provider_id ch)) ProviderNotFound (\<lambda>p.
     case authenticate_registered_provider E p hs of Some e \<Rightarrow> hfail e | None \<Rightarrow> hret ())))"

definition registered_provider_participant_pubkey :: "string \<Rightarrow> b32 handler" where
  "registered_provider_participant_pubkey provider_id = hvault (\<lambda>v.
     hsome (dm_get (providers v) provider_id) ProviderNotFound (\<lambda>p.
     hsome (pr_participant_pubkey p) ProviderParticipantRequired hret))"

definition registered_channel_provider_participant_pubkey :: "string \<Rightarrow> b32 handler" where
  "registered_channel_provider_participant_pubkey channel_id = hvault (\<lambda>v.
     hsome (dm_get (active_channels v) channel_id) ChannelNotFound (\<lambda>ch.
     registered_provider_participant_pubkey (ch_provider_id ch)))"

section \<open>Open\<close>

record open_channel_request =
  oq_client :: string
  oq_provider_id :: string
  oq_initial_deposit :: u64
  oq_client_sig :: string

definition verify_channel_open_signature :: "('p, 's) handler_env \<Rightarrow> open_channel_request \<Rightarrow> unit handler" where
  "verify_channel_open_signature E req =
     hsome (pubkey_from_str (he_lib E) (oq_client req)) InvalidClientSignature (\<lambda>client.
     verify_client_ed25519 E client
       (str_bytes (build_channel_open_message (oq_client req) (oq_provider_id req) (oq_initial_deposit req))) (oq_client_sig req))"

definition post_channel_open :: "('p, 's) handler_env \<Rightarrow> open_channel_request \<Rightarrow> string handler" where
  "post_channel_open E req =
     hthen ensure_vault_allows_new_verification
    (hsome (pubkey_from_str (he_lib E) (oq_client req)) ClientNotFound (\<lambda>client.
     hthen (verify_channel_open_signature E req)
    (hthen (registered_provider_participant_pubkey (oq_provider_id req))
    (hbind new_uuid (\<lambda>uuid. hbind utc_now (\<lambda>now.
     hbind (run_vault (open_channel now uuid client (oq_provider_id req) (oq_initial_deposit req))) (\<lambda>channel_id.
     hthen (wal_log_or_undo E (WChannelOpened channel_id (oq_client req) (oq_provider_id req) (oq_initial_deposit req))
         (hignore (run_vault (rollback_open_channel channel_id))))
    (hthen (issue_client_receipt_locked E client) (hret channel_id)))))))))"

section \<open>Request\<close>

record channel_request_req =
  uq_channel_id :: string
  uq_request_id :: string
  uq_amount :: u64
  uq_request_hash :: string
  uq_client_sig :: string

definition hex_b32 :: "wal_lib \<Rightarrow> string \<Rightarrow> b32 option" where
  "hex_b32 L s = map_option word_of_bytes (hex_32 L s)"

text \<open>What the request and the finalise handlers do after the log write: new lock expiry and receipt.\<close>

definition refresh_and_receipt :: "('p, 's) handler_env \<Rightarrow> pubkey \<Rightarrow> unit handler" where
  "refresh_and_receipt E client =
     hthen (run_vault (refresh_client_max_lock_expires_at client)) (hthen (issue_client_receipt_locked E client) (hret ()))"

definition channel_client :: "string \<Rightarrow> pubkey handler" where
  "channel_client channel_id = hvault (\<lambda>v. hsome (dm_get (active_channels v) channel_id) ChannelNotFound (\<lambda>ch. hret (ch_client ch)))"

definition post_channel_request :: "('p, 's) handler_env \<Rightarrow> channel_request_req \<Rightarrow> unit handler" where
  "post_channel_request E req =
     hthen ensure_vault_allows_new_verification
    (hthen (verify_channel_client_signature E (uq_channel_id req)
        (build_channel_request_message (uq_channel_id req) (uq_request_id req) (uq_amount req) (uq_request_hash req)) (uq_client_sig req))
    (hsome (hex_b32 (he_lib E) (uq_request_hash req)) RequestHashMismatch (\<lambda>request_hash.
     hbind utc_now (\<lambda>now.
     hthen (run_vault (submit_request now (uq_channel_id req) (uq_request_id req) (uq_amount req) request_hash))
    (hbind utc_now (\<lambda>undo_now.
     hthen (wal_log_or_undo E (WChannelRequestSubmitted (uq_channel_id req) (uq_request_id req) (uq_amount req) (Some (uq_request_hash req)))
         (hignore (run_vault (rollback_submit_request undo_now (uq_channel_id req) (uq_request_id req)))))
    (hbind (channel_client (uq_channel_id req)) (refresh_and_receipt E))))))))"

section \<open>Expiry\<close>

definition expire_stale_channel_request_with_lock :: "('p, 's) handler_env \<Rightarrow> string \<Rightarrow> i64 \<Rightarrow> bool handler" where
  "expire_stale_channel_request_with_lock E channel_id now =
     hbind (run_vault (expire_request channel_id now)) (\<lambda>r. case r of
       None \<Rightarrow> hret False
     | Some outcome \<Rightarrow>
         hbind utc_now (\<lambda>undo_now.
         hthen (wal_log_or_undo E (WChannelRequestExpired channel_id (rq_request_id (eo_request outcome)) (rq_amount (eo_request outcome)))
             (hignore (run_vault (rollback_expire_request undo_now outcome))))
        (hthen (refresh_and_receipt E (eo_client outcome)) (hret True))))"

section \<open>Deliver\<close>

record channel_deliver_request =
  dq_channel_id :: string
  dq_adaptor_point :: string
  dq_pre_sig_r_prime :: string
  dq_pre_sig_s_prime :: string
  dq_encrypted_result :: string
  dq_result_hash :: string
  dq_provider_pubkey :: string

record asc_claim_voucher_response =
  av_message :: string
  av_signature :: string
  av_issued_at :: i64
  av_channel_id_hash :: string
  av_request_id_hash :: string

definition issue_asc_claim_voucher ::
    "('p, 's) handler_env \<Rightarrow> string \<Rightarrow> string \<Rightarrow> u64 \<Rightarrow> b32 \<Rightarrow> b32 \<Rightarrow> asc_claim_voucher_response handler" where
  "issue_asc_claim_voucher E channel_id request_id amount request_hash provider_pubkey =
     hbind utc_now (\<lambda>issued_at. hvault (\<lambda>v.
     let L = he_lib E; c = hash_identifier (he_sha256 E) channel_id; r = hash_identifier (he_sha256 E) request_id;
         message = build_asc_claim_voucher_message \<lparr>v_channel_id_hash = c, v_request_id_hash = r, v_amount = amount,
           v_request_hash = request_hash, v_provider_pubkey = provider_pubkey, v_issued_at = issued_at,
           v_vault_config = vault_config v\<rparr>
     in hret \<lparr>av_message = base64_encode L message,
          av_signature = base64_encode L (word_bytes (sign_message (he_sign E) message v)), av_issued_at = issued_at,
          av_channel_id_hash = hex_encode L (word_bytes c), av_request_id_hash = hex_encode L (word_bytes r)\<rparr>))"

text \<open>A delivery that comes too late expires the request and still reports the error.\<close>

definition deliver_or_expire :: "('p, 's) handler_env \<Rightarrow> string \<Rightarrow> unit vault_op \<Rightarrow> unit handler" where
  "deliver_or_expire E channel_id deliver s =
     (case run_vault deliver s of
        (Err ChannelRequestExpired, s1) \<Rightarrow>
          hthen (hbind utc_now (expire_stale_channel_request_with_lock E channel_id)) (hfail ChannelRequestExpired) s1
      | other \<Rightarrow> other)"

definition post_channel_deliver ::
    "('p, 's) handler_env \<Rightarrow> headers \<Rightarrow> channel_deliver_request \<Rightarrow> asc_claim_voucher_response handler" where
  "post_channel_deliver E hs req =
     (let L = he_lib E; channel_id = dq_channel_id req
      in hthen ensure_vault_allows_existing_reservation_ops
        (hthen (verify_channel_provider_auth E channel_id hs)
        (hsome (hex_b32 L (dq_adaptor_point req)) InvalidAdaptorSignature (\<lambda>adaptor_point.
         hsome (hex_b32 L (dq_pre_sig_r_prime req)) InvalidAdaptorSignature (\<lambda>rp.
         hsome (hex_b32 L (dq_pre_sig_s_prime req)) InvalidAdaptorSignature (\<lambda>sp.
         hsome (base64_decode L (dq_encrypted_result req)) (Internal ''Invalid encrypted_result base64'') (\<lambda>encrypted_result.
         hsome (hex_b32 L (dq_result_hash req)) (Internal ''result_hash must be 32 bytes'') (\<lambda>result_hash.
         hsome (hex_b32 L (dq_provider_pubkey req)) (Internal ''provider_pubkey must be 32 bytes'') (\<lambda>provider_pubkey.
         hbind (registered_channel_provider_participant_pubkey channel_id) (\<lambda>registered.
         hguard (provider_pubkey = registered) ProviderParticipantMismatch
        (hvault (\<lambda>v.
         hsome (Option.bind (dm_get (active_channels v) channel_id) ch_active_request) ChannelNotFound (\<lambda>request.
         hbind utc_now (\<lambda>now.
         hthen (deliver_or_expire E channel_id (deliver_adaptor (he_curve E) (he_sha256 E) now channel_id adaptor_point
             \<lparr>r_prime = rp, s_prime = sp\<rparr> encrypted_result result_hash registered))
        (hbind utc_now (\<lambda>undo_now.
         hthen (wal_log_or_undo E (WChannelAdaptorDelivered channel_id (rq_request_id request) (Some (dq_adaptor_point req))
             (Some (dq_pre_sig_r_prime req)) (Some (dq_pre_sig_s_prime req)) (Some (dq_encrypted_result req))
             (Some (dq_result_hash req)) (Some (dq_provider_pubkey req)))
             (hignore (run_vault (rollback_deliver_adaptor undo_now channel_id (rq_request_id request)))))
        (issue_asc_claim_voucher E channel_id (rq_request_id request) (rq_amount request) (rq_request_hash request) registered)))))))))))))))))"

section \<open>Finalise and close\<close>

record channel_finalize_request =
  fq_channel_id :: string
  fq_adaptor_secret :: string
  fq_client_sig :: string

definition post_channel_finalize :: "('p, 's) handler_env \<Rightarrow> channel_finalize_request \<Rightarrow> finalize_outcome handler" where
  "post_channel_finalize E req =
     hthen ensure_vault_allows_existing_reservation_ops
    (hthen (verify_channel_client_signature E (fq_channel_id req)
        (build_channel_finalize_message (fq_channel_id req) (fq_adaptor_secret req)) (fq_client_sig req))
    (hsome (hex_b32 (he_lib E) (fq_adaptor_secret req)) InvalidAdaptorSignature (\<lambda>secret.
     hbind utc_now (\<lambda>now.
     hbind (run_vault (finalize_offchain (he_curve E) (he_sha256 E) now (fq_channel_id req) secret)) (\<lambda>outcome.
     hbind utc_now (\<lambda>undo_now.
     hthen (wal_log_or_undo E (WChannelFinalized (fq_channel_id req) (fo_request_id outcome) (fo_amount outcome))
         (hignore (run_vault (rollback_finalize_offchain undo_now (fq_channel_id req) (fo_request outcome)))))
    (hthen (hbind (channel_client (fq_channel_id req)) (refresh_and_receipt E)) (hret outcome))))))))"

definition post_channel_close :: "('p, 's) handler_env \<Rightarrow> string \<Rightarrow> string \<Rightarrow> close_outcome handler" where
  "post_channel_close E channel_id client_sig =
     hthen ensure_vault_allows_existing_reservation_ops
    (hthen (verify_channel_client_signature E channel_id (build_channel_close_message channel_id) client_sig)
    (hbind utc_now (\<lambda>now. hbind new_uuid (\<lambda>uuid.
     hbind (run_vault (close_channel now uuid channel_id)) (\<lambda>outcome.
     hthen (wal_log_or_undo E (WChannelClosed channel_id (co_returned_to_client outcome) (co_provider_earned outcome) (co_settlement_id outcome))
         (hignore (run_vault (rollback_close_channel outcome))))
    (hthen (refresh_and_receipt E (co_client outcome))
    (if 0 < co_provider_earned outcome
     then hthen (issue_provider_receipt_locked E (co_provider_id outcome)) (hret outcome)
     else hret outcome)))))))"

end
