(* ===== verification/Crash_Logic.thy ===== *)
theory Crash_Logic
  imports Handler_Channel Snapshot
begin

text \<open>
  A program logic for crash consistency. A step of a node is crash consistent when replaying the
  log entries it made durable, on any state that agrees with the state before it, gives a state
  that agrees with the state after it, whatever answer the client got. Agreement (\<open>forget\<close>) leaves
  out what a restart recomputes or reads again: lock expiries, the next nonces, the cached
  lifecycle, the update times of channels, and the log itself. The rules follow the structure of
  the handlers; the rule \<open>triple_commit\<close> covers the pattern change, log, undo on failure.
\<close>

section \<open>Agreement\<close>

definition erase_time :: "channel_state \<Rightarrow> channel_state" where
  "erase_time ch = ch\<lparr>ch_updated_at := 0\<rparr>"

definition dm_map :: "('v \<Rightarrow> 'w) \<Rightarrow> ('k, 'v) dashmap \<Rightarrow> ('k, 'w) dashmap" where
  "dm_map f m = map (\<lambda>(k, x). (k, f x)) m"

definition forget :: "vault_state \<Rightarrow> vault_state" where
  "forget v = v\<lparr>client_balances := dm_map erase_lock (client_balances v),
     active_channels := dm_map erase_time (active_channels v), receipt_nonce := 0, withdraw_nonce := 0,
     lifecycle := \<lparr>vl_status = 0, vl_successor_vault = 0, vl_exit_deadline = 0, vl_synced_at_ms = 0\<rparr>\<rparr>"

definition forget_app :: "app_state \<Rightarrow> app_state" where
  "forget_app a = a\<lparr>as_vault := forget (as_vault a), as_wal := wal_open 0 []\<rparr>"

lemma dm_get_map [simp]: "dm_get (dm_map f m) k = map_option f (dm_get m k)"
  by (induction m) (auto simp: dm_map_def)

lemma dm_map_insert [simp]: "dm_map f (dm_insert k x m) = dm_insert k (f x) (dm_map f m)"
  by (induction m) (auto simp: dm_map_def)

lemma dm_map_remove [simp]: "dm_map f (dm_remove k m) = dm_remove k (dm_map f m)"
  by (induction m) (auto simp: dm_map_def AList.delete_eq)

lemma dm_map_idem [simp]: "(\<And>x. f (f x) = f x) \<Longrightarrow> dm_map f (dm_map f m) = dm_map f m"
  by (induction m) (auto simp: dm_map_def)

lemma erase_lock_simps [simp]:
  "cb_free (erase_lock b) = cb_free b" "cb_locked (erase_lock b) = cb_locked b"
  "cb_total_deposited (erase_lock b) = cb_total_deposited b" "cb_total_withdrawn (erase_lock b) = cb_total_withdrawn b"
  "erase_lock (erase_lock b) = erase_lock b"
  "erase_lock (b\<lparr>cb_max_lock_expires_at := x\<rparr>) = erase_lock b"
  "erase_lock (b\<lparr>cb_free := f\<rparr>) = (erase_lock b)\<lparr>cb_free := f\<rparr>"
  "erase_lock (b\<lparr>cb_locked := l\<rparr>) = (erase_lock b)\<lparr>cb_locked := l\<rparr>"
  "erase_lock (b\<lparr>cb_total_withdrawn := l\<rparr>) = (erase_lock b)\<lparr>cb_total_withdrawn := l\<rparr>"
  by (simp_all add: erase_lock_def)

lemma erase_time_idem [simp]: "erase_time (erase_time ch) = erase_time ch"
  by (simp add: erase_time_def)

lemma forget_simps [simp]:
  "client_balances (forget v) = dm_map erase_lock (client_balances v)"
  "active_channels (forget v) = dm_map erase_time (active_channels v)"
  "reservations (forget v) = reservations v" "payment_id_index (forget v) = payment_id_index v"
  "provider_credits (forget v) = provider_credits v"
  "multi_chain_provider_credits (forget v) = multi_chain_provider_credits v"
  "providers (forget v) = providers v" "settlement_history (forget v) = settlement_history v"
  "pending_withdrawals (forget v) = pending_withdrawals v"
  "forget (forget v) = forget v"
  by (simp_all add: forget_def)

lemma forget_updates [simp]:
  "forget (v\<lparr>lifecycle := l\<rparr>) = forget v"
  "forget (v\<lparr>receipt_nonce := n\<rparr>) = forget v"
  "forget (v\<lparr>withdraw_nonce := n\<rparr>) = forget v"
  "forget (v\<lparr>reservations := r\<rparr>) = (forget v)\<lparr>reservations := r\<rparr>"
  "forget (v\<lparr>payment_id_index := i\<rparr>) = (forget v)\<lparr>payment_id_index := i\<rparr>"
  "forget (v\<lparr>providers := p\<rparr>) = (forget v)\<lparr>providers := p\<rparr>"
  "forget (v\<lparr>settlement_history := h\<rparr>) = (forget v)\<lparr>settlement_history := h\<rparr>"
  "forget (v\<lparr>pending_withdrawals := w\<rparr>) = (forget v)\<lparr>pending_withdrawals := w\<rparr>"
  "forget (v\<lparr>provider_credits := pcs\<rparr>) = (forget v)\<lparr>provider_credits := pcs\<rparr>"
  "forget (v\<lparr>multi_chain_provider_credits := d\<rparr>) = (forget v)\<lparr>multi_chain_provider_credits := d\<rparr>"
  "forget (put_balance c b v) = put_balance c (erase_lock b) (forget v)"
  by (simp_all add: forget_def put_balance_def)

text \<open>An operation that does not look at what is forgotten.\<close>

definition blind :: "'a vault_op \<Rightarrow> bool" where
  "blind f \<longleftrightarrow> (\<forall>v. f (forget v) = map_prod id forget (f v))"

lemma blind_cong:
  assumes "blind f" "forget t = forget v" "f v = (r, v')"
  shows "\<exists>t'. f t = (r, t') \<and> forget t' = forget v'"
proof -
  obtain r' t' where t: "f t = (r', t')" by (cases "f t")
  have "f (forget t) = (r', forget t')" "f (forget v) = (r, forget v')"
    using assms(1,3) t by (simp_all add: blind_def)
  with assms(2) t show ?thesis by auto
qed

lemma blind_reserve: "blind (reserve_balance c a)"
  by (auto simp: blind_def reserve_balance_def Let_def split: option.splits)

lemma blind_release: "blind (release_balance c a)"
  by (auto simp: blind_def release_balance_def Let_def split: option.splits)

lemma blind_authorize: "blind (authorize_withdrawal w)"
  by (auto simp: blind_def authorize_withdrawal_def Let_def split: option.splits)

lemma blind_expire_withdrawal: "blind (expire_pending_withdrawal n)"
  by (auto simp: blind_def expire_pending_withdrawal_def Let_def split: option.splits)

lemma blind_credit: "blind (credit_provider pid p a sid now)"
  by (auto simp: blind_def credit_provider_def Let_def split: option.splits)

lemma blind_settle: "blind (settle_payment c a pid sid now)"
proof -
  have "credit_provider pid p a sid now (put_balance c ((erase_lock b)\<lparr>cb_locked := l\<rparr>) (forget v))
      = map_prod id forget (credit_provider pid p a sid now (put_balance c (b\<lparr>cb_locked := l\<rparr>) v))" for p b l v
    using blind_credit [unfolded blind_def, rule_format, of pid p a sid now "put_balance c (b\<lparr>cb_locked := l\<rparr>) v"] by simp
  then show ?thesis by (auto simp: blind_def settle_payment_def Let_def split: option.splits)
qed

lemma refresh_agrees: "refresh_client_max_lock_expires_at c v = (r, v') \<Longrightarrow> forget v' = forget v"
proof -
  assume a: "refresh_client_max_lock_expires_at c v = (r, v')"
  have same: "dm_get (client_balances v) c = Some b \<Longrightarrow> put_balance c (erase_lock b) (forget v) = forget v" for b
    by (rule put_balance_same) simp
  from a show ?thesis
    by (auto simp: refresh_client_max_lock_expires_at_def Let_def same split: option.splits)
qed

section \<open>Crash-consistent steps\<close>

text \<open>The lines added to the log decode to these entries.\<close>

definition log_extends :: "wal_lib \<Rightarrow> wal \<Rightarrow> wal \<Rightarrow> wal_entry list \<Rightarrow> bool" where
  "log_extends L w w' es \<longleftrightarrow> w_key w' = w_key w
     \<and> (\<exists>new rs. w_lines w' = w_lines w @ new \<and> parse_lines L (w_key w) new = Some rs \<and> map wr_entry rs = es)"

definition crash_step :: "('p, 's) handler_env \<Rightarrow> node \<Rightarrow> node \<Rightarrow> wal_entry list \<Rightarrow> bool" where
  "crash_step E s s' es \<longleftrightarrow> log_extends (he_lib E) (as_wal (nd_app s)) (as_wal (nd_app s')) es
     \<and> (\<exists>clk. \<forall>t. forget_app t = forget_app (nd_app s) \<longrightarrow>
         (\<exists>t'. replay_entries (he_curve E) (he_sha256 E) (he_lib E) clk es t = Inr t'
           \<and> forget_app t' = forget_app (nd_app s')))"

definition nonces_ok :: "node \<Rightarrow> bool" where
  "nonces_ok s \<longleftrightarrow> (\<forall>x\<in>sset (nd_wal_io s). length (fst x) = 12)"

text \<open>
  \<open>P\<close> and \<open>Q\<close> speak about the vault and the fresh ids still to come; a panic ends the process and
  is left out.
\<close>

type_synonym assn = "vault_state \<Rightarrow> string stream \<Rightarrow> bool"

definition crash_triple :: "('p, 's) handler_env \<Rightarrow> assn \<Rightarrow> 'a handler \<Rightarrow> ('a \<Rightarrow> assn) \<Rightarrow> bool" where
  "crash_triple E P h Q \<longleftrightarrow> (\<forall>s r s'. P (as_vault (nd_app s)) (nd_uuid s) \<longrightarrow> nonces_ok s \<longrightarrow> h s = (r, s') \<longrightarrow> r \<noteq> Panic \<longrightarrow>
     nonces_ok s' \<and> (\<exists>es. crash_step E s s' es) \<and> (\<forall>x. r = Ok x \<longrightarrow> Q x (as_vault (nd_app s')) (nd_uuid s')))"

lemma log_extends_refl: "log_extends L w w []"
  by (auto simp: log_extends_def)

lemma log_extends_trans: "log_extends L w w' es \<Longrightarrow> log_extends L w' w'' es' \<Longrightarrow> log_extends L w w'' (es @ es')"
  by (fastforce simp: log_extends_def parse_lines_append)

lemma replay_entries_append:
  "replay_entries C H L clk (xs @ ys) t =
     replay_bind (replay_entries C H L clk xs t) (replay_entries C H L (\<lambda>i. clk (i + length xs)) ys)"
  by (induction xs arbitrary: clk t) (auto simp: replay_bind_def comp_def split: sum.splits)

lemma replay_entries_clock:
  "(\<And>i. i < length es \<Longrightarrow> clk i = clk' i) \<Longrightarrow> replay_entries C H L clk es t = replay_entries C H L clk' es t"
proof (induction es arbitrary: clk clk' t)
  case (Cons e es)
  have "replay_entries C H L (clk \<circ> Suc) es u = replay_entries C H L (clk' \<circ> Suc) es u" for u
    by (rule Cons.IH) (simp add: Cons.prems)
  then show ?case using Cons.prems [of 0] by (simp add: replay_bind_def split: sum.splits)
qed simp

lemma crash_step_refl: "forget_app (nd_app s') = forget_app (nd_app s) \<Longrightarrow> as_wal (nd_app s') = as_wal (nd_app s) \<Longrightarrow> crash_step E s s' []"
  by (auto simp: crash_step_def log_extends_refl)

lemma crash_step_trans:
  assumes "crash_step E s s1 es" "crash_step E s1 s2 es'"
  shows "crash_step E s s2 (es @ es')"
proof -
  let ?R = "replay_entries (he_curve E) (he_sha256 E) (he_lib E)"
  obtain c1 where c1: "\<And>t. forget_app t = forget_app (nd_app s) \<Longrightarrow> \<exists>t'. ?R c1 es t = Inr t' \<and> forget_app t' = forget_app (nd_app s1)"
    using assms(1) by (auto simp: crash_step_def)
  obtain c2 where c2: "\<And>t. forget_app t = forget_app (nd_app s1) \<Longrightarrow> \<exists>t'. ?R c2 es' t = Inr t' \<and> forget_app t' = forget_app (nd_app s2)"
    using assms(2) by (auto simp: crash_step_def)
  let ?c = "\<lambda>i. if i < length es then c1 i else c2 (i - length es)"
  have "\<exists>t'. ?R ?c (es @ es') t = Inr t' \<and> forget_app t' = forget_app (nd_app s2)"
    if "forget_app t = forget_app (nd_app s)" for t
  proof -
    obtain t1 where t1: "?R c1 es t = Inr t1" "forget_app t1 = forget_app (nd_app s1)" using c1 \<open>forget_app t = _\<close> by blast
    moreover have "?R ?c es t = ?R c1 es t" by (rule replay_entries_clock) simp
    ultimately show ?thesis using c2 [OF t1(2)] by (simp add: replay_entries_append replay_bind_def)
  qed
  then show ?thesis using assms log_extends_trans unfolding crash_step_def by blast
qed

section \<open>Rules\<close>

lemma crash_still: "forget_app (nd_app s') = forget_app (nd_app s) \<Longrightarrow> as_wal (nd_app s') = as_wal (nd_app s) \<Longrightarrow> \<exists>es. crash_step E s s' es"
  using crash_step_refl by blast

lemma tripleI:
  assumes "\<And>s r s'. P (as_vault (nd_app s)) (nd_uuid s) \<Longrightarrow> nonces_ok s \<Longrightarrow> h s = (r, s') \<Longrightarrow> r \<noteq> Panic \<Longrightarrow>
     nonces_ok s' \<and> (\<exists>es. crash_step E s s' es) \<and> (\<forall>x. r = Ok x \<longrightarrow> Q x (as_vault (nd_app s')) (nd_uuid s'))"
  shows "crash_triple E P h Q"
  using assms by (auto simp only: crash_triple_def)

lemma tripleD:
  assumes "crash_triple E P h Q" "P (as_vault (nd_app s)) (nd_uuid s)" "nonces_ok s" "h s = (r, s')" "r \<noteq> Panic"
  shows "nonces_ok s' \<and> (\<exists>es. crash_step E s s' es) \<and> (\<forall>x. r = Ok x \<longrightarrow> Q x (as_vault (nd_app s')) (nd_uuid s'))"
  using assms(1) [unfolded crash_triple_def, THEN spec, THEN spec, THEN spec, THEN mp, THEN mp, THEN mp, THEN mp, OF assms(2-5)] .

lemma triple_conseq:
  "crash_triple E P' h Q' \<Longrightarrow> (\<And>v u. P v u \<Longrightarrow> P' v u) \<Longrightarrow> (\<And>x v u. Q' x v u \<Longrightarrow> Q x v u) \<Longrightarrow> crash_triple E P h Q"
  by (rule tripleI) (frule tripleD, auto)

lemma triple_cong:
  assumes "\<And>s. P (as_vault (nd_app s)) (nd_uuid s) \<Longrightarrow> h s = h' s" "crash_triple E P h' Q"
  shows "crash_triple E P h Q"
proof (rule tripleI)
  fix s r s' assume a: "P (as_vault (nd_app s)) (nd_uuid s)" "nonces_ok s" "h s = (r, s')" "r \<noteq> Panic"
  then have "h' s = (r, s')" using assms(1) by simp
  from tripleD [OF assms(2) a(1,2) this a(4)]
  show "nonces_ok s' \<and> (\<exists>es. crash_step E s s' es) \<and> (\<forall>x. r = Ok x \<longrightarrow> Q x (as_vault (nd_app s')) (nd_uuid s'))" .
qed

lemma triple_ret: "(\<And>v u. P v u \<Longrightarrow> Q x v u) \<Longrightarrow> crash_triple E P (hret x) Q"
  by (rule tripleI) (auto simp: hret_def intro: crash_still)

lemma triple_fail: "crash_triple E P (hfail e) Q"
  by (rule tripleI) (auto simp: hfail_def intro: crash_still)

lemma triple_bind:
  assumes "crash_triple E P m R" and "\<And>x. crash_triple E (R x) (k x) Q"
  shows "crash_triple E P (hbind m k) Q"
proof (rule tripleI)
  fix s r s' assume P: "P (as_vault (nd_app s)) (nd_uuid s)" and n: "nonces_ok s" and h: "hbind m k s = (r, s')" and r: "r \<noteq> Panic"
  obtain rm s1 where m: "m s = (rm, s1)" by (cases "m s")
  from h r m have np: "rm \<noteq> Panic" by (auto simp: hbind_def)
  note M = tripleD [OF assms(1) P n m np]
  show "nonces_ok s' \<and> (\<exists>es. crash_step E s s' es) \<and> (\<forall>x. r = Ok x \<longrightarrow> Q x (as_vault (nd_app s')) (nd_uuid s'))"
  proof (cases rm)
    case (Ok x)
    then have k: "k x s1 = (r, s')" using h m by (simp add: hbind_def)
    have "R x (as_vault (nd_app s1)) (nd_uuid s1)" "nonces_ok s1" using M Ok by auto
    note K = tripleD [OF assms(2) this k r]
    from M K have "\<exists>es. crash_step E s s' es" using crash_step_trans by metis
    with K show ?thesis by simp
  next
    case (Err e)
    then have "r = Err e" "s' = s1" using h m by (simp_all add: hbind_def)
    then show ?thesis using M by simp
  qed (use np in simp)
qed

lemma triple_then:
  "crash_triple E P m (\<lambda>_. R) \<Longrightarrow> crash_triple E R k Q \<Longrightarrow> crash_triple E P (hthen m k) Q"
  unfolding hthen_def by (rule triple_bind)

lemma triple_guard: "(b \<Longrightarrow> crash_triple E P k Q) \<Longrightarrow> crash_triple E P (hguard b e k) Q"
  by (simp add: hguard_def triple_fail)

lemma triple_some: "(\<And>y. x = Some y \<Longrightarrow> crash_triple E P (k y) Q) \<Longrightarrow> crash_triple E P (hsome x e k) Q"
  by (auto simp: hsome_def triple_fail split: option.splits)

lemma triple_if: "(b \<Longrightarrow> crash_triple E P k Q) \<Longrightarrow> (\<not> b \<Longrightarrow> crash_triple E P k' Q) \<Longrightarrow> crash_triple E P (if b then k else k') Q"
  by simp

lemma triple_panic: "(b \<Longrightarrow> crash_triple E P k Q) \<Longrightarrow> crash_triple E P (hpanic_unless b k) Q"
  by (cases b) (auto simp: hpanic_unless_def intro: tripleI)

lemma triple_vault:
  assumes "\<And>v. crash_triple E (\<lambda>w u. P w u \<and> w = v) (k v) Q"
  shows "crash_triple E P (hvault k) Q"
proof (rule tripleI)
  fix s r s' assume a: "P (as_vault (nd_app s)) (nd_uuid s)" "nonces_ok s" "hvault k s = (r, s')" "r \<noteq> Panic"
  then show "nonces_ok s' \<and> (\<exists>es. crash_step E s s' es) \<and> (\<forall>x. r = Ok x \<longrightarrow> Q x (as_vault (nd_app s')) (nd_uuid s'))"
    by (intro tripleD [OF assms [of "as_vault (nd_app s)"]]) (simp_all add: hvault_def)
qed

text \<open>The usual case: what the handler learns of the vault is not needed later on.\<close>

lemma triple_read:
  "(\<And>v. crash_triple E P (k v) Q) \<Longrightarrow> crash_triple E P (hvault k) Q"
  by (rule triple_vault, erule meta_allE, erule triple_conseq) simp_all

text \<open>Steps that leave the vault and the log alone.\<close>

lemma triple_now_ns: "crash_triple E P utc_now_ns (\<lambda>_. P)"
  by (rule tripleI) (auto simp: utc_now_ns_def nonces_ok_def intro: crash_still)

lemma triple_now: "crash_triple E P utc_now (\<lambda>_. P)"
  unfolding utc_now_def by (rule triple_bind [OF triple_now_ns]) (simp add: triple_ret)

lemma triple_uuid: "crash_triple E P new_uuid (\<lambda>x v u. P v (x ## u))"
  by (rule tripleI) (auto simp: new_uuid_def nonces_ok_def intro!: crash_still)

lemma set_vault_simps [simp]:
  "as_vault (nd_app (set_vault v s)) = v" "nd_uuid (set_vault v s) = nd_uuid s" "as_wal (nd_app (set_vault v s)) = as_wal (nd_app s)"
  "nd_wal_io (set_vault v s) = nd_wal_io s" "nonces_ok (set_vault v s) = nonces_ok s"
  by (simp_all add: set_vault_def nonces_ok_def)

lemma set_vault_agrees: "forget v = forget (as_vault (nd_app s)) \<Longrightarrow> forget_app (nd_app (set_vault v s)) = forget_app (nd_app s)"
  by (simp add: forget_app_def set_vault_def)

definition lifecycle_free :: "assn \<Rightarrow> bool" where
  "lifecycle_free P \<longleftrightarrow> (\<forall>v u l. P v u \<longrightarrow> P (v\<lparr>lifecycle := l\<rparr>) u)"

lemma triple_lifecycle:
  assumes "lifecycle_free P"
  shows "crash_triple E P load_vault_lifecycle (\<lambda>_. P)"
  unfolding load_vault_lifecycle_def
proof (rule triple_bind [OF triple_now_ns])
  fix ns
  let ?k = "\<lambda>s. let s1 = s\<lparr>nd_rpc := stl (nd_rpc s)\<rparr>
      in case shd (nd_rpc s) of None \<Rightarrow> (Err VaultStatusUnavailable, s1)
         | Some l \<Rightarrow> let l1 = l\<lparr>vl_synced_at_ms := of_int (ns div 1000000)\<rparr>
             in (Ok l1, set_vault ((as_vault (nd_app s1))\<lparr>lifecycle := l1\<rparr>) s1)"
  show "crash_triple E P ?k (\<lambda>_. P)"
    using assms by (intro tripleI)
      (auto simp: Let_def lifecycle_free_def nonces_ok_def forget_app_def set_vault_def intro!: crash_still split: option.splits)
qed

lemmas triple_basic = triple_then triple_bind triple_guard triple_some triple_if triple_panic triple_fail triple_ret triple_now triple_now_ns

lemma triple_new_verification: "lifecycle_free P \<Longrightarrow> crash_triple E P ensure_vault_allows_new_verification (\<lambda>_. P)"
  unfolding ensure_vault_allows_new_verification_def
  by (rule triple_bind [OF triple_lifecycle]) (auto intro!: triple_fail triple_ret)

lemma triple_existing_ops: "lifecycle_free P \<Longrightarrow> crash_triple E P ensure_vault_allows_existing_reservation_ops (\<lambda>_. P)"
  unfolding ensure_vault_allows_existing_reservation_ops_def
  by (rule triple_bind [OF triple_lifecycle]) (auto intro!: triple_fail triple_ret triple_bind [OF triple_now])

lemma triple_allows_withdraw: "lifecycle_free P \<Longrightarrow> crash_triple E P ensure_vault_allows_withdraw (\<lambda>_. P)"
  unfolding ensure_vault_allows_withdraw_def
  by (rule triple_bind [OF triple_lifecycle]) (auto intro!: triple_fail triple_ret triple_bind [OF triple_now])

lemma triple_authenticate: "crash_triple E P (authenticate_provider E' hs pid) (\<lambda>_. P)"
  unfolding authenticate_provider_def
  by (rule triple_read, rule triple_some) (auto intro: triple_fail triple_ret split: option.splits)

lemma triple_client_ed25519: "crash_triple E P (verify_client_ed25519 E' k m sig) (\<lambda>_. P)"
  unfolding verify_client_ed25519_def by (intro triple_some triple_guard triple_ret)

section \<open>Log writes\<close>

lemma wal_try_run:
  assumes L: "wal_lib_laws (he_lib E)" and n: "nonces_ok s" and run: "wal_try E e s = (r, s')"
  shows "\<exists>ok. r = Ok ok \<and> nonces_ok s' \<and> nd_uuid s' = nd_uuid s
    \<and> (\<exists>w. nd_app s' = (nd_app s)\<lparr>as_wal := w\<rparr> \<and> log_extends (he_lib E) (as_wal (nd_app s)) w (if ok then [e] else []))"
proof -
  obtain nonce io where io: "shd (nd_wal_io s) = (nonce, io)" by (cases "shd (nd_wal_io s)")
  then have len: "length nonce = 12" using n shd_sset [of "nd_wal_io s"] by (auto simp: nonces_ok_def)
  let ?now = "timestamp_of (shd (nd_clock s))" and ?w = "as_wal (nd_app s)"
  obtain res w where a: "wal_append (he_lib E) nonce ?now io e ?w = (res, w)" by (cases "wal_append (he_lib E) nonce ?now io e ?w")
  have s': "r = Ok (res \<noteq> None)" "nd_app s' = (nd_app s)\<lparr>as_wal := w\<rparr>" "nd_uuid s' = nd_uuid s" "nd_wal_io s' = stl (nd_wal_io s)"
    using run a io by (auto simp: wal_try_def hbind_def utc_now_def utc_now_ns_def hret_def)
  have "log_extends (he_lib E) ?w w (if res \<noteq> None then [e] else [])"
    using a L len by (auto simp: wal_append_def Let_def log_extends_def parse_stored_envelope split: option.splits if_splits)
  moreover have "nonces_ok s'" using n s'(4) by (auto simp: nonces_ok_def dest!: stl_sset)
  ultimately show ?thesis using s' by auto
qed

text \<open>An entry whose replay changes nothing that matters.\<close>

definition quiet_entry :: "wal_entry \<Rightarrow> bool" where
  "quiet_entry e \<longleftrightarrow> (case e of WParticipantReceiptIssued _ _ _ \<Rightarrow> True | WParticipantReceiptMirrored _ _ _ \<Rightarrow> True | _ \<Rightarrow> False)"

lemma replay_quiet: "quiet_entry e \<Longrightarrow> \<exists>t'. replay_entry C H L now uuid e t = Inr t' \<and> forget_app t' = forget_app t"
  by (cases e) (auto simp: quiet_entry_def bump_receipt_nonce_def forget_app_def)

lemma crash_step_wal:
  assumes "log_extends (he_lib E) (as_wal (nd_app s)) w [e]" "nd_app s' = (nd_app s)\<lparr>as_wal := w, as_vault := v\<rparr>"
    and "\<And>t. forget_app t = forget_app (nd_app s) \<Longrightarrow>
      \<exists>t'. replay_entry (he_curve E) (he_sha256 E) (he_lib E) now uuid e t = Inr t' \<and> forget_app t' = forget_app ((nd_app s)\<lparr>as_vault := v\<rparr>)"
  shows "crash_step E s s' [e]"
proof -
  have f: "forget_app (nd_app s') = forget_app ((nd_app s)\<lparr>as_vault := v\<rparr>)" by (simp add: assms(2) forget_app_def)
  have "\<exists>t'. replay_entries (he_curve E) (he_sha256 E) (he_lib E) (\<lambda>_. (now, uuid)) [e] t = Inr t' \<and> forget_app t' = forget_app (nd_app s')"
    if "forget_app t = forget_app (nd_app s)" for t
    using assms(3) [OF that] f by (auto simp: replay_bind_def)
  moreover have "as_wal (nd_app s') = w" by (simp add: assms(2))
  ultimately show ?thesis using assms(1) unfolding crash_step_def by blast
qed

lemma triple_log_quiet:
  assumes L: "wal_lib_laws (he_lib E)" and q: "quiet_entry e"
  shows "crash_triple E P (wal_log E e) (\<lambda>_. P)"
proof (rule tripleI)
  fix s r s' assume P: "P (as_vault (nd_app s)) (nd_uuid s)" and n: "nonces_ok s" and h: "wal_log E e s = (r, s')"
  obtain rt s1 where t: "wal_try E e s = (rt, s1)" by (cases "wal_try E e s")
  obtain ok w where w: "rt = Ok ok" "nonces_ok s1" "nd_uuid s1 = nd_uuid s" "nd_app s1 = (nd_app s)\<lparr>as_wal := w\<rparr>"
    "log_extends (he_lib E) (as_wal (nd_app s)) w (if ok then [e] else [])" using wal_try_run [OF L n t] by blast
  have s': "s' = s1" using h t w(1) by (auto simp: wal_log_def hbind_def hguard_def hret_def hfail_def split: if_splits)
  have "crash_step E s s1 (if ok then [e] else [])"
  proof (cases ok)
    case True
    have "crash_step E s s1 [e]"
    proof (rule crash_step_wal)
      show "log_extends (he_lib E) (as_wal (nd_app s)) w [e]" using w(5) True by simp
      show "nd_app s1 = (nd_app s)\<lparr>as_wal := w, as_vault := as_vault (nd_app s)\<rparr>" using w(4) by simp
      show "\<exists>t'. replay_entry (he_curve E) (he_sha256 E) (he_lib E) 0 [] e t = Inr t'
          \<and> forget_app t' = forget_app ((nd_app s)\<lparr>as_vault := as_vault (nd_app s)\<rparr>)"
        if "forget_app t = forget_app (nd_app s)" for t using replay_quiet [OF q, of "he_curve E" "he_sha256 E" "he_lib E" 0 "[]" t] that by simp
    qed
    then show ?thesis using True by simp
  next
    case False
    then show ?thesis using w(4,5) by (auto simp: crash_step_def forget_app_def)
  qed
  then show "nonces_ok s' \<and> (\<exists>es. crash_step E s s' es) \<and> (\<forall>x. r = Ok x \<longrightarrow> P (as_vault (nd_app s')) (nd_uuid s'))"
    using s' w P by auto
qed

section \<open>Receipts\<close>

abbreviation anything :: assn where
  "anything \<equiv> \<lambda>_ _. True"

lemma triple_run_agrees:
  assumes "\<And>v r v'. f v = (r, v') \<Longrightarrow> forget v' = forget v"
  shows "crash_triple E P (run_vault f) (\<lambda>_. anything)"
  by (rule tripleI) (auto simp: run_vault_def assms intro!: crash_still set_vault_agrees split: prod.splits)

lemma triple_watchtower: "crash_triple E P (replicate_receipt_to_watchtower E' receipt) (\<lambda>_. P)"
  by (rule tripleI) (auto simp: replicate_receipt_to_watchtower_def Let_def nonces_ok_def intro!: crash_still split: if_splits watchtower_reply.splits)

lemma triple_participant_receipt:
  assumes "wal_lib_laws (he_lib E)"
  shows "crash_triple E P (issue_participant_receipt_locked E k kind ata f l m) (\<lambda>_. anything)"
  unfolding issue_participant_receipt_locked_def
  by (rule triple_bind [OF triple_run_agrees])
    (auto simp: next_receipt_nonce_def Let_def quiet_entry_def
      intro!: triple_bind [OF triple_now] triple_read triple_then [OF triple_log_quiet [OF assms]] triple_then [OF triple_watchtower] triple_ret)

lemma triple_client_receipt:
  "wal_lib_laws (he_lib E) \<Longrightarrow> crash_triple E P (issue_client_receipt_locked E c) (\<lambda>_. anything)"
  unfolding issue_client_receipt_locked_def by (intro triple_read triple_some triple_participant_receipt)

lemma triple_provider_receipt:
  "wal_lib_laws (he_lib E) \<Longrightarrow> crash_triple E P (issue_provider_receipt_locked E pid) (\<lambda>_. anything)"
  unfolding issue_provider_receipt_locked_def by (intro triple_read triple_some triple_participant_receipt)

lemma triple_refresh: "crash_triple E P (run_vault (refresh_client_max_lock_expires_at c)) (\<lambda>_. anything)"
  using refresh_agrees by (rule triple_run_agrees)

lemmas triple_tail = triple_then [OF triple_refresh] triple_then [OF triple_client_receipt] triple_bind [OF triple_provider_receipt]

section \<open>The commit pattern\<close>

definition vault_step :: "'a handler \<Rightarrow> 'a vault_op \<Rightarrow> bool" where
  "vault_step m F \<longleftrightarrow> (\<forall>s. m s = (case F (as_vault (nd_app s)) of (r, v) \<Rightarrow> (r, set_vault v s)))"

definition op_then :: "'a vault_op \<Rightarrow> 'b vault_op \<Rightarrow> 'b vault_op" where
  "op_then F G v = (case F v of (Ok _, v1) \<Rightarrow> G v1 | (Err e, v1) \<Rightarrow> (Err e, v1) | (Panic, v1) \<Rightarrow> (Panic, v1))"

definition op_ignore :: "'a vault_op \<Rightarrow> unit vault_op" where
  "op_ignore F v = (case F v of (Ok _, v1) \<Rightarrow> (Ok (), v1) | (Err _, v1) \<Rightarrow> (Ok (), v1) | (Panic, v1) \<Rightarrow> (Panic, v1))"

lemma set_vault_twice [simp]: "set_vault v (set_vault w s) = set_vault v s"
  by (simp add: set_vault_def)

lemma set_vault_same [simp]: "set_vault (as_vault (nd_app s)) s = s"
  by (simp add: set_vault_def)

lemma vault_step_run: "vault_step (run_vault F) F"
  by (simp add: vault_step_def run_vault_def)

lemma vault_step_modify: "vault_step (modify_vault f) (\<lambda>v. (Ok (), f v))"
  by (simp add: vault_step_def modify_vault_def)

lemma vault_step_ret: "vault_step (hret x) (\<lambda>v. (Ok x, v))"
  by (simp add: vault_step_def hret_def)

lemma vault_step_then: "vault_step a F \<Longrightarrow> vault_step b G \<Longrightarrow> vault_step (hthen a b) (op_then F G)"
  by (auto simp: vault_step_def hthen_def hbind_def op_then_def split: prod.splits outcome.splits)

lemma vault_step_ignore: "vault_step a F \<Longrightarrow> vault_step (hignore a) (op_ignore F)"
  by (auto simp: vault_step_def hignore_def op_ignore_def split: prod.splits outcome.splits)

lemma vault_step_set_reservation:
  "vault_step (set_reservation vid f) (\<lambda>v. case dm_get (reservations v) vid of None \<Rightarrow> (Err ReservationNotFound, v)
     | Some r \<Rightarrow> (Ok (), put_reservation vid (f r) v))"
  by (auto simp: vault_step_def set_reservation_def hvault_def hsome_def hfail_def modify_vault_def split: option.splits)

lemma triple_commit:
  assumes L: "wal_lib_laws (he_lib E)"
    and m: "vault_step m F" and undo: "\<And>x. vault_step (undo x) (U x)" and fin: "\<And>x. vault_step (fin x) (G x)"
    and err: "\<And>v us e v'. P v us \<Longrightarrow> F v = (Err e, v') \<Longrightarrow> forget v' = forget v"
    and undone: "\<And>v us x v' r v''. P v us \<Longrightarrow> F v = (Ok x, v') \<Longrightarrow> U x v' = (r, v'') \<Longrightarrow> r \<noteq> Panic \<Longrightarrow> r = Ok () \<and> forget v'' = forget v"
    and ok: "\<And>v us x v' r v''. P v us \<Longrightarrow> F v = (Ok x, v') \<Longrightarrow> G x v' = (r, v'') \<Longrightarrow> r \<noteq> Panic \<Longrightarrow> (\<exists>y. r = Ok y \<and> Q y v'' us)
      \<and> (\<exists>now uuid. \<forall>t. forget (as_vault t) = forget v \<longrightarrow>
          (\<exists>w. replay_entry (he_curve E) (he_sha256 E) (he_lib E) now uuid (e x) t = Inr (t\<lparr>as_vault := w\<rparr>) \<and> forget w = forget v''))"
  shows "crash_triple E P (hbind m (\<lambda>x. hthen (wal_log_or_undo E (e x) (undo x)) (fin x))) Q"
proof (rule tripleI)
  fix s r s' assume P: "P (as_vault (nd_app s)) (nd_uuid s)" and n: "nonces_ok s" and np: "r \<noteq> Panic"
    and h: "hbind m (\<lambda>x. hthen (wal_log_or_undo E (e x) (undo x)) (fin x)) s = (r, s')"
  let ?v = "as_vault (nd_app s)"
  obtain r1 v1 where F: "F ?v = (r1, v1)" by (cases "F ?v")
  then have ms: "m s = (r1, set_vault v1 s)" using m by (simp add: vault_step_def)
  show "nonces_ok s' \<and> (\<exists>es. crash_step E s s' es) \<and> (\<forall>x. r = Ok x \<longrightarrow> Q x (as_vault (nd_app s')) (nd_uuid s'))"
  proof (cases r1)
    case (Err er)
    then have "r = Err er" "s' = set_vault v1 s" using h ms by (simp_all add: hbind_def)
    then show ?thesis using err [OF P] F Err n by (auto intro!: crash_still set_vault_agrees)
  next
    case Panic
    then show ?thesis using h ms np by (simp add: hbind_def)
  next
    case (Ok x)
    let ?s1 = "set_vault v1 s"
    obtain rt s2 where t: "wal_try E (e x) ?s1 = (rt, s2)" by (cases "wal_try E (e x) ?s1")
    obtain b w where w: "rt = Ok b" "nonces_ok s2" "nd_uuid s2 = nd_uuid s" "nd_app s2 = (nd_app s)\<lparr>as_vault := v1, as_wal := w\<rparr>"
      "log_extends (he_lib E) (as_wal (nd_app s)) w (if b then [e x] else [])"
      using wal_try_run [OF L _ t] n by (auto simp: set_vault_def nonces_ok_def)
    show ?thesis
    proof (cases b)
      case True
      obtain r2 v2 where G: "G x v1 = (r2, v2)" by (cases "G x v1")
      have r2: "r = r2" and s': "s' = set_vault v2 s2"
        using h ms t Ok True w fin [of x] G by (auto simp: hbind_def hthen_def wal_log_or_undo_def hret_def vault_step_def)
      obtain y now uuid where r: "r = Ok y" and Q: "Q y v2 (nd_uuid s)"
        and rep: "\<And>t. forget (as_vault t) = forget ?v \<Longrightarrow>
          \<exists>w. replay_entry (he_curve E) (he_sha256 E) (he_lib E) now uuid (e x) t = Inr (t\<lparr>as_vault := w\<rparr>) \<and> forget w = forget v2"
        using ok [OF P _ G] F Ok r2 np by blast
      have "crash_step E s s' [e x]"
      proof (rule crash_step_wal)
        show "log_extends (he_lib E) (as_wal (nd_app s)) w [e x]" using w(5) True by simp
        show "nd_app s' = (nd_app s)\<lparr>as_wal := w, as_vault := v2\<rparr>" using s' w(4) by (simp add: set_vault_def)
        show "\<exists>t'. replay_entry (he_curve E) (he_sha256 E) (he_lib E) now uuid (e x) t = Inr t'
            \<and> forget_app t' = forget_app ((nd_app s)\<lparr>as_vault := v2\<rparr>)" if "forget_app t = forget_app (nd_app s)" for t
        proof -
          have "forget (as_vault t) = forget ?v" using arg_cong [OF that, of as_vault] by (simp add: forget_app_def)
          with rep obtain w where "replay_entry (he_curve E) (he_sha256 E) (he_lib E) now uuid (e x) t = Inr (t\<lparr>as_vault := w\<rparr>)" "forget w = forget v2" by blast
          moreover have "forget_app (t\<lparr>as_vault := w\<rparr>) = (forget_app t)\<lparr>as_vault := forget w\<rparr>" for w by (simp add: forget_app_def)
          moreover have "forget_app ((nd_app s)\<lparr>as_vault := v2\<rparr>) = (forget_app (nd_app s))\<lparr>as_vault := forget v2\<rparr>" by (simp add: forget_app_def)
          ultimately show ?thesis using that by simp
        qed
      qed
      then show ?thesis using r s' Q w(2,3) by auto
    next
      case False
      obtain r2 v2 where U: "U x v1 = (r2, v2)" by (cases "U x v1")
      have "r = (case r2 of Ok _ \<Rightarrow> Err wal_failed | Err er \<Rightarrow> Err er | Panic \<Rightarrow> Panic)" and s': "s' = set_vault v2 s2"
        using h ms t Ok False w undo [of x] U
        by (auto simp: hbind_def hthen_def wal_log_or_undo_def hfail_def vault_step_def split: outcome.splits)
      moreover have "r2 \<noteq> Panic" using calculation np by auto
      ultimately have r: "r = Err wal_failed" and f: "forget v2 = forget ?v" using undone [OF P _ U] F Ok by auto
      have "crash_step E s s' []"
        using w(4,5) False f s' by (auto simp: crash_step_def forget_app_def set_vault_def)
      then show ?thesis using r s' w(2) by auto
    qed
  qed
qed

end
