(* ===== verification/Handler_Crash.thy ===== *)
theory Handler_Crash
  imports Crash_Logic
begin

text \<open>
  Crash consistency of the payment handlers: for every request, whatever fails, the durable log
  and the memory of the enclave tell the same story. The state a request starts from has to be in
  order (\<open>pay_ready\<close>): reservations and withdrawals belong to known clients and are covered by
  locked funds, and fresh ids are fresh.
\<close>

section \<open>Shapes\<close>

lemma hbind_assoc: "hbind (hbind m f) g = hbind m (\<lambda>x. hbind (f x) g)"
  by (rule ext) (auto simp: hbind_def split: prod.splits outcome.splits)

lemma hbind_ret [simp]: "hbind (hret x) k = k x"
  by (rule ext) (simp add: hbind_def hret_def)

lemma commit_then: "hthen m (hthen w (hthen fin rest)) = hthen (hbind m (\<lambda>_. hthen w fin)) rest"
  by (simp add: hthen_def hbind_assoc)

lemma commit_only: "hthen m (hthen w rest) = hthen (hbind m (\<lambda>_. hthen w (hret ()))) rest"
  by (simp add: hthen_def hbind_assoc)

lemma wal_log_undo: "wal_log E e = wal_log_or_undo E e (hret ())"
  by (rule ext) (simp add: wal_log_def wal_log_or_undo_def hguard_def hthen_def hbind_def split: prod.splits outcome.splits)

lemma log_first: "hthen (wal_log E e) (hthen fin rest) = hthen (hbind (hret ()) (\<lambda>_. hthen (wal_log_or_undo E e (hret ())) fin)) rest"
  by (simp add: wal_log_undo hthen_def hbind_assoc)

lemma vault_step_hvault: "(\<And>v. vault_step (k v) (K v)) \<Longrightarrow> vault_step (hvault k) (\<lambda>v. K v v)"
  by (simp add: vault_step_def hvault_def)

lemma vault_step_some:
  "(\<And>y. vault_step (k y) (K y)) \<Longrightarrow> vault_step (hsome x e k) (case x of None \<Rightarrow> (\<lambda>v. (Err e, v)) | Some y \<Rightarrow> K y)"
  by (auto simp: vault_step_def hsome_def hfail_def split: option.splits)

section \<open>Undoing\<close>

lemma reserve_then_release: "reserve_balance c a v = (Ok u, v') \<Longrightarrow> release_balance c a v' = (Ok (), v)"
proof -
  assume "reserve_balance c a v = (Ok u, v')"
  then obtain b l where b: "dm_get (client_balances v) c = Some b" "\<not> cb_free b < a" "checked_add (cb_locked b) a = Some l"
    "v' = put_balance c (b\<lparr>cb_free := cb_free b - a, cb_locked := l\<rparr>) v"
    by (auto simp: reserve_balance_def Let_def split: option.splits if_splits)
  then have "checked_add (cb_free b - a) a = Some (cb_free b)" "saturating_sub l a = cb_locked b"
    by (auto intro: sub_add_back saturating_sub_add)
  then show ?thesis using b by (simp add: release_balance_def put_balance_same)
qed

lemma release_then_reserve:
  assumes "release_balance c a v = (Ok u, v')" "unat a \<le> locked_of v c"
  shows "reserve_balance c a v' = (Ok (), v)"
proof -
  obtain b f where b: "dm_get (client_balances v) c = Some b" "checked_add (cb_free b) a = Some f"
    "v' = put_balance c (b\<lparr>cb_locked := saturating_sub (cb_locked b) a, cb_free := f\<rparr>) v"
    using assms(1) by (auto simp: release_balance_def Let_def split: option.splits)
  have le: "a \<le> cb_locked b" using assms(2) b(1) by (simp add: locked_of_def funds_def word_le_nat_alt)
  have "checked_add (saturating_sub (cb_locked b) a) a = Some (cb_locked b)"
    using sub_add_back [OF le] le by (simp add: saturating_sub_def)
  moreover have "\<not> f < a" "f - a = cb_free b"
    using b(2) by (auto dest!: checked_add_SomeD simp: word_less_nat_alt word_unat_eq_iff unat_sub_if')
  ultimately show ?thesis using b by (simp add: reserve_balance_def put_balance_same)
qed

lemma authorize_then_expire:
  assumes "authorize_withdrawal w v = (Ok u, v')" "dm_get (pending_withdrawals v) (pw_withdraw_nonce w) = None"
  shows "expire_pending_withdrawal (pw_withdraw_nonce w) v' = (Ok w, v)"
proof -
  obtain b l where b: "dm_get (client_balances v) (pw_client w) = Some b" "\<not> cb_free b < pw_amount w"
    "checked_add (cb_locked b) (pw_amount w) = Some l"
    "v' = (put_balance (pw_client w) (b\<lparr>cb_free := cb_free b - pw_amount w, cb_locked := l\<rparr>) v)
       \<lparr>pending_withdrawals := dm_insert (pw_withdraw_nonce w) w (pending_withdrawals v)\<rparr>"
    using assms(1) by (auto simp: authorize_withdrawal_def Let_def split: option.splits if_splits)
  then have "checked_add (cb_free b - pw_amount w) (pw_amount w) = Some (cb_free b)" "saturating_sub l (pw_amount w) = cb_locked b"
    by (auto intro: sub_add_back saturating_sub_add)
  then show ?thesis using b assms(2)
    by (simp add: expire_pending_withdrawal_def dm_get_insert dm_remove_insert_new put_balance_def dm_insert_back
      put_balance_same [OF b(1), unfolded put_balance_def])
qed

section \<open>States in order\<close>

definition pay_ready :: assn where
  "pay_ready v us \<longleftrightarrow>
     (\<forall>vid r. dm_get (reservations v) vid = Some r \<longrightarrow> rs_status r = Reserved \<longrightarrow>
        dm_get (client_balances v) (rs_client r) \<noteq> None \<and> unat (rs_amount r) \<le> locked_of v (rs_client r))
   \<and> (\<forall>n w. dm_get (pending_withdrawals v) n = Some w \<longrightarrow> dm_get (client_balances v) (pw_client w) \<noteq> None)
   \<and> dm_get (pending_withdrawals v) (withdraw_nonce v) = None
   \<and> (\<forall>u\<in>sset us. \<forall>pid. credits_fresh v pid (''set_'' @ u) \<and> dm_get (settlement_history v) (''set_'' @ u) = None)"

lemma pay_ready_lifecycle: "lifecycle_free pay_ready"
  by (simp add: lifecycle_free_def pay_ready_def locked_of_def funds_def credits_fresh_def)

lemma pay_ready_providers: "pay_ready (v\<lparr>providers := p\<rparr>) us = pay_ready v us"
  by (simp add: pay_ready_def locked_of_def funds_def credits_fresh_def)

lemma pay_ready_uuid: "pay_ready v (u ## us) \<Longrightarrow> pay_ready v us"
  by (simp add: pay_ready_def)

text \<open>The replay of a vault operation follows the operation.\<close>

lemma replay_unit_blind:
  assumes "blind f" "f v = (Ok x, v')" "forget (as_vault t) = forget v"
  shows "\<exists>w. replay_unit f t = Inr (t\<lparr>as_vault := w\<rparr>) \<and> forget w = forget v'"
  using blind_cong [OF assms(1,3,2)] by (auto simp: replay_unit_def replay_op_def replay_bind_def)

lemma replay_op_blind:
  assumes "blind f" "f v = (Ok x, v')" "forget (as_vault t) = forget v"
  shows "\<exists>w. replay_op f t = Inr (x, t\<lparr>as_vault := w\<rparr>) \<and> forget w = forget v'"
  using blind_cong [OF assms(1,3,2)] by (auto simp: replay_op_def replay_bind_def)

lemma replay_refresh:
  assumes "dm_get (client_balances (as_vault t)) c \<noteq> None"
  shows "\<exists>w. replay_unit (refresh_client_max_lock_expires_at c) t = Inr (t\<lparr>as_vault := w\<rparr>) \<and> forget w = forget (as_vault t)"
proof -
  obtain r w where r: "refresh_client_max_lock_expires_at c (as_vault t) = (r, w)" by (cases "refresh_client_max_lock_expires_at c (as_vault t)")
  moreover from r assms have "\<exists>m. r = Ok m" by (auto simp: refresh_client_max_lock_expires_at_def Let_def)
  ultimately show ?thesis using refresh_agrees [OF r] by (auto simp: replay_unit_def replay_op_def replay_bind_def)
qed

lemma agree_clients: "forget w = forget v \<Longrightarrow> dm_get (client_balances w) c = None \<longleftrightarrow> dm_get (client_balances v) c = None"
  using forget_simps(1) [of w] forget_simps(1) [of v] dm_get_map [of erase_lock]
  by (metis option.map_disc_iff)

lemma agree_fields:
  assumes "forget w = forget v"
  shows "reservations w = reservations v" "providers w = providers v" "settlement_history w = settlement_history v"
    "payment_id_index w = payment_id_index v" "pending_withdrawals w = pending_withdrawals v"
  using arg_cong [OF assms, of reservations] arg_cong [OF assms, of providers] arg_cong [OF assms, of settlement_history]
    arg_cong [OF assms, of payment_id_index] arg_cong [OF assms, of pending_withdrawals] by simp_all

section \<open>Verify\<close>

definition new_reservation :: "reservation \<Rightarrow> bool" where
  "new_reservation r \<longleftrightarrow> rs_status r = Reserved \<and> rs_settlement_id r = None \<and> rs_settled_at r = None"

lemma hex_word_roundtrip: "wal_lib_laws L \<Longrightarrow> decode_fixed_hex_32 L n (hex_encode L (word_bytes (w :: b32))) = Inr w"
  by (simp add: decode_fixed_hex_32_def replay_bind_def field_def wal_lib_laws_def word_of_bytes_word_bytes)

lemma parse_pubkey_to_string: "wal_lib_laws L \<Longrightarrow> parse_pubkey L n (pubkey_to_string L k) = Inr k"
  by (simp add: parse_pubkey_def field_def wal_lib_laws_def)

lemma triple_verify_commit:
  assumes L: "wal_lib_laws (he_lib E)" and c: "pubkey_from_str (he_lib E) (pp_client p) = Some (rs_client r)" and r: "new_reservation r"
  shows "crash_triple E P (verify_commit E p r) (\<lambda>_. anything)"
proof (unfold verify_commit_def, subst commit_then, rule triple_then)
  let ?e = "WReservationCreated (rs_verification_id r) (Some (rs_reservation_id r)) (rs_payment_id r)
      (pp_client p) (rs_provider_id r) (rs_amount r) (Some (hex_encode (he_lib E) (word_bytes (rs_request_hash r))))
      (Some (hex_encode (he_lib E) (word_bytes (rs_payment_details_hash r)))) (Some (rs_created_at r)) (Some (rs_expires_at r))"
  let ?G = "\<lambda>v. v\<lparr>reservations := dm_insert (rs_verification_id r) r (reservations v),
              payment_id_index := dm_insert (rs_payment_id r) (rs_verification_id r) (payment_id_index v)\<rparr>"
  show "crash_triple E P (hbind (run_vault (reserve_balance (rs_client r) (rs_amount r)))
      (\<lambda>_. hthen (wal_log_or_undo E ?e (hignore (run_vault (release_balance (rs_client r) (rs_amount r))))) (modify_vault ?G))) (\<lambda>_. anything)"
  proof (rule triple_commit [OF L vault_step_run vault_step_ignore [OF vault_step_run] vault_step_modify])
    fix v us e v' assume "reserve_balance (rs_client r) (rs_amount r) v = (Err e, v')"
    then show "forget v' = forget v" by (auto dest: reserve_balance_Err)
  next
    fix v us x v' q v'' assume "reserve_balance (rs_client r) (rs_amount r) v = (Ok x, v')"
      "op_ignore (release_balance (rs_client r) (rs_amount r)) v' = (q, v'')"
    then show "q = Ok () \<and> forget v'' = forget v" using reserve_then_release by (fastforce simp: op_ignore_def)
  next
    fix v us x v' q v'' assume a: "reserve_balance (rs_client r) (rs_amount r) v = (Ok x, v')" "(Ok (), ?G v') = (q, v'')"
    have "\<exists>w. replay_entry (he_curve E) (he_sha256 E) (he_lib E) 0 [] ?e t = Inr (t\<lparr>as_vault := w\<rparr>) \<and> forget w = forget (?G v')"
      if t: "forget (as_vault t) = forget v" for t
    proof -
      obtain w where w: "replay_unit (reserve_balance (rs_client r) (rs_amount r)) t = Inr (t\<lparr>as_vault := w\<rparr>)" "forget w = forget v'"
        using replay_unit_blind [OF blind_reserve a(1) t] by blast
      have rr: "\<lparr>rs_verification_id = rs_verification_id r, rs_reservation_id = rs_reservation_id r, rs_payment_id = rs_payment_id r,
          rs_client = rs_client r, rs_provider_id = rs_provider_id r, rs_amount = rs_amount r, rs_request_hash = rs_request_hash r,
          rs_payment_details_hash = rs_payment_details_hash r, rs_status = Reserved, rs_created_at = rs_created_at r,
          rs_expires_at = rs_expires_at r, rs_settlement_id = None, rs_settled_at = None\<rparr> = r"
        using r by (simp add: new_reservation_def)
      show ?thesis using w agree_fields [OF w(2)] c L
        by (simp add: parse_pubkey_def field_def replay_bind_def hex_word_roundtrip rr put_reservation_def)
          (rule exI, rule conjI, rule refl, simp)
    qed
    then show "(\<exists>y. q = Ok y \<and> True) \<and> (\<exists>now uuid. \<forall>t. forget (as_vault t) = forget v \<longrightarrow>
        (\<exists>w. replay_entry (he_curve E) (he_sha256 E) (he_lib E) now uuid ?e t = Inr (t\<lparr>as_vault := w\<rparr>) \<and> forget w = forget v''))"
      using a(2) by blast
  qed
qed (intro triple_tail L triple_ret TrueI)

section \<open>Cancel\<close>

text \<open>Cancelling and expiring replay to the same change.\<close>

lemma replay_end_reservation:
  assumes r: "dm_get (reservations v) vid = Some r" "rs_status r = Reserved"
    and rel: "release_balance (rs_client r) (rs_amount r) v = (Ok u, v')" and t: "forget (as_vault t) = forget v"
  shows "\<exists>w. end_reservation st vid t = Inr (t\<lparr>as_vault := w\<rparr>) \<and> forget w = forget (put_reservation vid (r\<lparr>rs_status := st\<rparr>) v')"
proof -
  let ?put = "put_reservation vid (r\<lparr>rs_status := st\<rparr>)"
  have rel2: "release_balance (rs_client r) (rs_amount r) (?put v) = (Ok u, ?put v')"
    using rel by (auto simp: release_balance_def put_reservation_def put_balance_def Let_def split: option.splits)
  have "forget (?put (as_vault t)) = forget (?put v)" using t agree_fields(1) [OF t] by (simp add: put_reservation_def)
  then obtain w where "replay_op (release_balance (rs_client r) (rs_amount r)) (t\<lparr>as_vault := ?put (as_vault t)\<rparr>)
      = Inr (u, t\<lparr>as_vault := w\<rparr>)" "forget w = forget (?put v')"
    using replay_op_blind [OF blind_release rel2, of "t\<lparr>as_vault := ?put (as_vault t)\<rparr>"] by auto
  then show ?thesis using r agree_fields(1) [OF t] by (simp add: end_reservation_def replay_bind_def) blast
qed

lemma release_keeps: "release_balance c a v = (q, v') \<Longrightarrow> reservations v' = reservations v \<and> providers v' = providers v"
  by (auto simp: release_balance_def Let_def split: option.splits)

lemma triple_cancel_fresh:
  assumes L: "wal_lib_laws (he_lib E)"
  shows "crash_triple E (\<lambda>v us. pay_ready v us \<and> dm_get (reservations v) vid = Some r \<and> rs_status r = Reserved)
    (cancel_fresh E vid reason r) (\<lambda>_. anything)"
proof (unfold cancel_fresh_def, subst commit_then, rule triple_then)
  let ?P = "\<lambda>v us. pay_ready v us \<and> dm_get (reservations v) vid = Some r \<and> rs_status r = Reserved"
  let ?f = "\<lambda>r. r\<lparr>rs_status := Cancelled\<rparr>"
  let ?G = "\<lambda>v. case dm_get (reservations v) vid of None \<Rightarrow> (Err ReservationNotFound, v) | Some r \<Rightarrow> (Ok (), put_reservation vid (?f r) v)"
  let ?rel = "release_balance (rs_client r) (rs_amount r)" and ?e = "WReservationCancelled vid reason"
  show "crash_triple E ?P (hbind (run_vault ?rel) (\<lambda>_. hthen (wal_log_or_undo E ?e
      (hignore (run_vault (reserve_balance (rs_client r) (rs_amount r))))) (set_reservation vid ?f))) (\<lambda>_. anything)"
  proof (rule triple_commit [OF L vault_step_run vault_step_ignore [OF vault_step_run] vault_step_set_reservation])
    fix v us e v' assume "?rel v = (Err e, v')"
    then show "forget v' = forget v" by (auto dest: release_balance_Err)
  next
    fix v us x v' q v'' assume P: "?P v us" and a: "?rel v = (Ok x, v')" "op_ignore (reserve_balance (rs_client r) (rs_amount r)) v' = (q, v'')"
    have "unat (rs_amount r) \<le> locked_of v (rs_client r)" using P by (auto simp: pay_ready_def)
    from release_then_reserve [OF a(1) this] a(2) show "q = Ok () \<and> forget v'' = forget v" by (simp add: op_ignore_def)
  next
    fix v us x v' q v'' assume P: "?P v us" and a: "?rel v = (Ok x, v')" "?G v' = (q, v'')"
    have "dm_get (reservations v') vid = Some r" using P release_keeps [OF a(1)] by simp
    with a(2) have q: "q = Ok ()" "v'' = put_reservation vid (?f r) v'" by simp_all
    have "\<exists>w. replay_entry (he_curve E) (he_sha256 E) (he_lib E) 0 [] ?e t = Inr (t\<lparr>as_vault := w\<rparr>) \<and> forget w = forget v''"
      if "forget (as_vault t) = forget v" for t
      using replay_end_reservation [OF _ _ a(1) that, of vid Cancelled] P q by simp
    then show "(\<exists>y. q = Ok y \<and> True) \<and> (\<exists>now uuid. \<forall>t. forget (as_vault t) = forget v \<longrightarrow>
        (\<exists>w. replay_entry (he_curve E) (he_sha256 E) (he_lib E) now uuid ?e t = Inr (t\<lparr>as_vault := w\<rparr>) \<and> forget w = forget v''))"
      using q by blast
  qed
qed (intro triple_tail L triple_ret TrueI)

lemma triple_post_cancel:
  assumes L: "wal_lib_laws (he_lib E)"
  shows "crash_triple E pay_ready (post_cancel E hs vid reason) (\<lambda>_. anything)"
proof (unfold post_cancel_def, rule triple_read, intro triple_some triple_then [OF triple_existing_ops [OF pay_ready_lifecycle]]
    triple_bind [OF triple_authenticate] triple_guard triple_if triple_ret triple_fail TrueI)
  show "crash_triple E pay_ready (hvault (\<lambda>v. hsome (dm_get (reservations v) vid) ReservationNotFound
      (\<lambda>r. if rs_status r = Cancelled then hret ()
        else if rs_status r \<noteq> Reserved then hfail (InvalidReservationStatus (debug_reservation_status (rs_status r)))
        else cancel_fresh E vid reason r))) (\<lambda>_. anything)"
  proof (rule triple_vault, intro triple_some triple_if triple_ret triple_fail TrueI)
    fix v :: vault_state and r assume "dm_get (reservations v) vid = Some r" "\<not> rs_status r \<noteq> Reserved"
    then show "crash_triple E (\<lambda>w us. pay_ready w us \<and> w = v) (cancel_fresh E vid reason r) (\<lambda>_. anything)"
      by (intro triple_conseq [OF triple_cancel_fresh [OF L]]) auto
  qed
qed

section \<open>Settle\<close>

lemma commit_two: "hthen a (hthen b (hthen w (hthen fin rest))) = hthen (hbind (hthen a b) (\<lambda>_. hthen w fin)) rest"
  by (simp add: hthen_def hbind_assoc)

lemma credit_provider_scope:
  "credit_provider pid p a sid now (v\<lparr>reservations := R\<rparr>) = map_prod id (\<lambda>w. w\<lparr>reservations := R\<rparr>) (credit_provider pid p a sid now v)"
  by (auto simp: credit_provider_def Let_def split: option.splits)

lemma put_balance_scope: "put_balance c b (v\<lparr>reservations := R\<rparr>) = (put_balance c b v)\<lparr>reservations := R\<rparr>"
  by (simp add: put_balance_def)

lemma settle_payment_scope:
  "settle_payment c a pid sid now (v\<lparr>reservations := R\<rparr>) = map_prod id (\<lambda>w. w\<lparr>reservations := R\<rparr>) (settle_payment c a pid sid now v)"
  by (auto simp: settle_payment_def Let_def put_balance_scope credit_provider_scope split: option.splits)

lemma settle_payment_keeps:
  assumes "settle_payment c a pid sid now v = (Ok u, v')"
  shows "reservations v' = reservations v \<and> settlement_history v' = settlement_history v \<and> providers v' = providers v
    \<and> (\<exists>p. dm_get (providers v) pid = Some p)"
  using assms by (auto simp: settle_payment_def credit_provider_def Let_def split: option.splits if_splits)

lemma settle_payment_Err_known:
  "settle_payment c a pid sid now v = (Err e, v') \<Longrightarrow> dm_get (providers v) pid \<noteq> None \<Longrightarrow> v' = v"
  by (auto simp: settle_payment_def credit_provider_def Let_def split: option.splits if_splits)

definition settlement_entry_of :: "string \<Rightarrow> reservation \<Rightarrow> string \<Rightarrow> i64 \<Rightarrow> vault_state \<Rightarrow> vault_state" where
  "settlement_entry_of sid r pid now v = v\<lparr>settlement_history := dm_insert sid
     \<lparr>sr_settlement_id = sid, sr_client = rs_client r,
      sr_provider = (case dm_get (providers v) pid of Some p \<Rightarrow> pr_settlement_token_account p | None \<Rightarrow> 0),
      sr_amount = rs_amount r, sr_timestamp = now\<rparr> (settlement_history v)\<rparr>"

lemma replay_settlement_follows:
  assumes r: "dm_get (reservations v) vid = Some r" "rs_status r = Reserved"
    and set: "settle_payment (rs_client r) (rs_amount r) (rs_provider_id r) sid now v = (Ok u, v')"
    and t: "forget (as_vault t) = forget v"
  shows "\<exists>w. replay_settlement sid vid (rs_provider_id r) (rs_amount r) (Some now) t = Inr (t\<lparr>as_vault := w\<rparr>)
    \<and> forget w = forget (put_reservation vid (r\<lparr>rs_status := SettledOffchain, rs_settlement_id := Some sid, rs_settled_at := Some now\<rparr>)
        (settlement_entry_of sid r (rs_provider_id r) now v'))"
proof -
  let ?put = "put_reservation vid (r\<lparr>rs_status := SettledOffchain, rs_settlement_id := Some sid, rs_settled_at := Some now\<rparr>)"
  note keeps = settle_payment_keeps [OF set]
  have set2: "settle_payment (rs_client r) (rs_amount r) (rs_provider_id r) sid now (?put v) = (Ok u, ?put v')"
    using set keeps by (simp add: put_reservation_def settle_payment_scope)
  have "forget (?put (as_vault t)) = forget (?put v)" using t agree_fields(1) [OF t] by (simp add: put_reservation_def)
  then obtain w where w: "replay_op (settle_payment (rs_client r) (rs_amount r) (rs_provider_id r) sid now)
      (t\<lparr>as_vault := ?put (as_vault t)\<rparr>) = Inr (u, t\<lparr>as_vault := w\<rparr>)" "forget w = forget (?put v')"
    using replay_op_blind [OF blind_settle set2, of "t\<lparr>as_vault := ?put (as_vault t)\<rparr>"] by auto
  obtain p where p: "dm_get (providers v) (rs_provider_id r) = Some p" using keeps by blast
  have f: "providers w = providers v" "settlement_history w = settlement_history v"
    using agree_fields [OF w(2)] keeps by (simp_all add: put_reservation_def)
  have "replay_settlement sid vid (rs_provider_id r) (rs_amount r) (Some now) t
      = Inr (t\<lparr>as_vault := w\<lparr>settlement_history := dm_insert sid \<lparr>sr_settlement_id = sid, sr_client = rs_client r,
          sr_provider = pr_settlement_token_account p, sr_amount = rs_amount r, sr_timestamp = now\<rparr> (settlement_history v)\<rparr>\<rparr>)"
    using r agree_fields(1) [OF t] w(1) p f by (simp add: replay_settlement_def Let_def replay_bind_def field_def)
  moreover have "forget (w\<lparr>settlement_history := H\<rparr>) = forget ((?put v')\<lparr>settlement_history := H\<rparr>)" for H using w(2) by simp
  ultimately show ?thesis using p keeps by (auto simp: settlement_entry_of_def put_reservation_def)
qed

lemma triple_settle_fresh:
  assumes L: "wal_lib_laws (he_lib E)"
  shows "crash_triple E (\<lambda>v us. pay_ready v us \<and> dm_get (reservations v) vid = Some r \<and> rs_status r = Reserved
      \<and> dm_get (providers v) (rs_provider_id r) \<noteq> None \<and> credits_fresh v (rs_provider_id r) sid \<and> dm_get (settlement_history v) sid = None)
    (settle_fresh E vid (rs_provider_id r) r sid now) (\<lambda>_. anything)" (is "crash_triple E ?P _ _")
proof (unfold settle_fresh_def Let_def, subst commit_two, rule triple_then)
  let ?pid = "rs_provider_id r"
  let ?set = "settle_payment (rs_client r) (rs_amount r) ?pid sid now" and ?hist = "settlement_entry_of sid r ?pid now"
  let ?undo = "rollback_settle_payment (rs_client r) (rs_amount r) ?pid sid"
  let ?f = "\<lambda>r. r\<lparr>rs_status := SettledOffchain, rs_settlement_id := Some sid, rs_settled_at := Some now\<rparr>"
  let ?G = "\<lambda>v. case dm_get (reservations v) vid of None \<Rightarrow> (Err ReservationNotFound, v) | Some r \<Rightarrow> (Ok (), put_reservation vid (?f r) v)"
  let ?e = "WSettlementCommitted sid vid ?pid (rs_amount r) (Some now)"
  let ?drop = "\<lambda>v. v\<lparr>settlement_history := dm_remove sid (settlement_history v)\<rparr>"
  let ?F = "op_then ?set (\<lambda>v. (Ok (), ?hist v))" and ?U = "op_then (\<lambda>v. (Ok (), ?drop v)) (op_ignore ?undo)"
  have F: "?F v = (Ok x, v') \<Longrightarrow> \<exists>v1. ?set v = (Ok (), v1) \<and> v' = ?hist v1" for v x v'
    by (auto simp: op_then_def split: prod.splits outcome.splits)
  have "crash_triple E ?P (hbind (hthen (run_vault ?set) (modify_vault ?hist)) (\<lambda>_. hthen (wal_log_or_undo E ?e
      (hthen (modify_vault ?drop) (hignore (run_vault ?undo)))) (set_reservation vid ?f))) (\<lambda>_. anything)"
  proof (rule triple_commit [OF L vault_step_then [OF vault_step_run vault_step_modify]
        vault_step_then [OF vault_step_modify vault_step_ignore [OF vault_step_run]] vault_step_set_reservation])
    fix v us e v' assume "?P v us" "?F v = (Err e, v')"
    then show "forget v' = forget v"
      by (auto simp: op_then_def split: prod.splits outcome.splits dest: settle_payment_Err_known)
  next
    fix v us x v' q v'' assume P: "?P v us" and a: "?F v = (Ok x, v')" "?U v' = (q, v'')"
    obtain v1 where v1: "?set v = (Ok (), v1)" "v' = ?hist v1" using F [OF a(1)] by blast
    have "?drop v' = v1" using v1(2) P settle_payment_keeps [OF v1(1)]
      by (simp add: settlement_entry_of_def dm_remove_insert_new)
    moreover have "?undo v1 = (Ok (), v)" using P by (intro rollback_settle_payment_exact [OF v1(1)]) (auto simp: pay_ready_def)
    ultimately show "q = Ok () \<and> forget v'' = forget v" using a(2) by (simp add: op_then_def op_ignore_def)
  next
    fix v us x v' q v'' assume P: "?P v us" and a: "?F v = (Ok x, v')" "?G v' = (q, v'')"
    obtain v1 where v1: "?set v = (Ok (), v1)" "v' = ?hist v1" using F [OF a(1)] by blast
    have "dm_get (reservations v') vid = Some r" using P v1(2) settle_payment_keeps [OF v1(1)] by (simp add: settlement_entry_of_def)
    with a(2) have q: "q = Ok ()" "v'' = put_reservation vid (?f r) (?hist v1)" using v1(2) by simp_all
    have "\<exists>w. replay_entry (he_curve E) (he_sha256 E) (he_lib E) 0 [] ?e t = Inr (t\<lparr>as_vault := w\<rparr>) \<and> forget w = forget v''"
      if "forget (as_vault t) = forget v" for t
      using replay_settlement_follows [OF _ _ v1(1) that] P q by simp
    then show "(\<exists>y. q = Ok y \<and> True) \<and> (\<exists>now uuid. \<forall>t. forget (as_vault t) = forget v \<longrightarrow>
        (\<exists>w. replay_entry (he_curve E) (he_sha256 E) (he_lib E) now uuid ?e t = Inr (t\<lparr>as_vault := w\<rparr>) \<and> forget w = forget v''))"
      using q by blast
  qed
  then show "crash_triple E ?P (hbind (hthen (run_vault ?set) (modify_vault (\<lambda>v. v\<lparr>settlement_history := dm_insert sid
      \<lparr>sr_settlement_id = sid, sr_client = rs_client r,
       sr_provider = (case dm_get (providers v) ?pid of Some p \<Rightarrow> pr_settlement_token_account p | None \<Rightarrow> 0),
       sr_amount = rs_amount r, sr_timestamp = now\<rparr> (settlement_history v)\<rparr>))) (\<lambda>_. hthen (wal_log_or_undo E ?e
      (hthen (modify_vault ?drop) (hignore (run_vault ?undo)))) (set_reservation vid ?f))) (\<lambda>_. anything)"
    by (simp only: settlement_entry_of_def [abs_def])
qed (intro triple_tail L triple_ret TrueI)

section \<open>Expiry\<close>

text \<open>The change after the log write of an expired reservation.\<close>

lemma triple_expire_reserved:
  assumes L: "wal_lib_laws (he_lib E)"
  shows "crash_triple E pay_ready (expire_reserved_reservation_with_lock E vid now) (\<lambda>_. anything)"
proof (unfold expire_reserved_reservation_with_lock_def, rule triple_vault, intro triple_some triple_if triple_ret TrueI)
  fix v0 :: vault_state and r assume r: "dm_get (reservations v0) vid = Some r" "\<not> (rs_status r \<noteq> Reserved \<or> sint now \<le> sint (rs_expires_at r))"
  let ?P = "\<lambda>v us. pay_ready v us \<and> v = v0" and ?e = "WReservationExpired vid"
  let ?put = "put_reservation vid (r\<lparr>rs_status := Expired\<rparr>)" and ?rel = "release_balance (rs_client r) (rs_amount r)"
  let ?tail = "hthen (run_vault (refresh_client_max_lock_expires_at (rs_client r))) (hthen (issue_client_receipt_locked E (rs_client r)) (hret True))"
  have core: "crash_triple E ?P (hbind (hret ()) (\<lambda>_. hthen (wal_log_or_undo E ?e (hret ())) (hthen (modify_vault ?put) (run_vault ?rel)))) (\<lambda>_. anything)"
  proof (rule triple_commit [OF L vault_step_ret vault_step_ret vault_step_then [OF vault_step_modify vault_step_run]])
    fix v us x v' q v'' assume P: "?P v us" and a: "(Ok (), v) = (Ok x, v')" "op_then (\<lambda>v. (Ok (), ?put v)) ?rel v' = (q, v'')" "q \<noteq> Panic"
    have b: "dm_get (client_balances v0) (rs_client r) \<noteq> None" using P r by (auto simp: pay_ready_def)
    have rel: "?rel (?put v0) = (q, v'')" using a(1,2) P by (simp add: op_then_def)
    then obtain u v1 where v1: "?rel v0 = (Ok (), v1)" and q: "q = Ok u" "v'' = ?put v1" using b a(3)
      by (auto simp: release_balance_def put_reservation_def put_balance_def Let_def split: option.splits)
    have "\<exists>w. replay_entry (he_curve E) (he_sha256 E) (he_lib E) 0 [] ?e t = Inr (t\<lparr>as_vault := w\<rparr>) \<and> forget w = forget v''"
      if "forget (as_vault t) = forget v" for t
      using replay_end_reservation [OF r(1) _ v1, of t Expired] r(2) P q that by simp
    then show "(\<exists>y. q = Ok y \<and> True) \<and> (\<exists>now uuid. \<forall>t. forget (as_vault t) = forget v \<longrightarrow>
        (\<exists>w. replay_entry (he_curve E) (he_sha256 E) (he_lib E) now uuid ?e t = Inr (t\<lparr>as_vault := w\<rparr>) \<and> forget w = forget v''))"
      using q by blast
  qed auto
  have "crash_triple E ?P (hthen (hbind (hret ()) (\<lambda>_. hthen (wal_log_or_undo E ?e (hret ())) (hthen (modify_vault ?put) (run_vault ?rel)))) ?tail) (\<lambda>_. anything)"
    by (rule triple_then [OF core]) (intro triple_tail L triple_ret TrueI)
  then have shape: "crash_triple E ?P (hthen (wal_log E ?e) (hthen (modify_vault ?put) (hthen (run_vault ?rel) ?tail))) (\<lambda>_. anything)"
    by (simp add: wal_log_undo hthen_def hbind_assoc)
  let ?k = "\<lambda>v. hsome (dm_get (reservations v) vid) ReservationNotFound (\<lambda>r1. if rs_status r1 \<noteq> Reserved then hret False
      else hthen (modify_vault (put_reservation vid (r1\<lparr>rs_status := Expired\<rparr>))) (hthen (run_vault ?rel) ?tail))"
  have same: "hthen (wal_log E ?e) (hvault ?k) s = hthen (wal_log E ?e) (hthen (modify_vault ?put) (hthen (run_vault ?rel) ?tail)) s"
    if "as_vault (nd_app s) = v0" for s
  proof -
    obtain q s1 where l: "wal_log E ?e s = (q, s1)" by (cases "wal_log E ?e s")
    have "as_vault (nd_app s1) = v0" using l that
      by (auto simp: wal_log_def wal_try_def hbind_def utc_now_def utc_now_ns_def hret_def hguard_def hfail_def Let_def
          split: prod.splits if_splits)
    then show ?thesis using l r by (auto simp: hthen_def hbind_def hvault_def hsome_def split: outcome.splits)
  qed
  show "crash_triple E ?P (hthen (wal_log E ?e) (hvault ?k)) (\<lambda>_. anything)"
    by (rule triple_cong [OF _ shape]) (simp only: same)
qed

lemma wal_log_keeps_vault: "wal_log E e s = (q, s1) \<Longrightarrow> as_vault (nd_app s1) = as_vault (nd_app s)"
  by (auto simp: wal_log_def wal_try_def hbind_def utc_now_def utc_now_ns_def hret_def hguard_def hfail_def Let_def
      split: prod.splits if_splits)

lemma triple_expire_withdrawal:
  assumes L: "wal_lib_laws (he_lib E)"
  shows "crash_triple E pay_ready (expire_pending_withdrawal_handler E n now) (\<lambda>_. anything)"
proof (unfold expire_pending_withdrawal_handler_def, rule triple_vault)
  fix v0 :: vault_state
  let ?P = "\<lambda>v us. pay_ready v us \<and> v = v0"
  let ?rest = "\<lambda>expired. hthen (run_vault (refresh_client_max_lock_expires_at (pw_client expired)))
      (hthen (issue_client_receipt_locked E (pw_client expired)) (hret True))"
  have "crash_triple E ?P (hthen (wal_log E (WWithdrawExpired (pubkey_to_string (he_lib E) (pw_client w)) n))
      (hbind (run_vault (expire_pending_withdrawal n)) ?rest)) (\<lambda>_. anything)" if w: "dm_get (pending_withdrawals v0) n = Some w" for w
  proof -
    let ?e = "WWithdrawExpired (pubkey_to_string (he_lib E) (pw_client w)) n" and ?ex = "expire_pending_withdrawal n"
    have "crash_triple E ?P (hbind (hret ()) (\<lambda>_. hthen (wal_log_or_undo E ?e (hret ())) (run_vault ?ex))) (\<lambda>_. anything)"
    proof (rule triple_commit [OF L vault_step_ret vault_step_ret vault_step_run])
      fix v us x v' q v'' assume P: "?P v us" and a: "(Ok (), v) = (Ok x, v')" "?ex v' = (q, v'')" "q \<noteq> Panic"
      have b: "dm_get (client_balances v0) (pw_client w) \<noteq> None" using P w by (auto simp: pay_ready_def)
      have ex: "?ex v = (Ok w, v'')" and q: "q = Ok w" using a P w b
        by (auto simp: expire_pending_withdrawal_def Let_def split: option.splits)
      have "\<exists>u. replay_entry (he_curve E) (he_sha256 E) (he_lib E) 0 [] ?e t = Inr (t\<lparr>as_vault := u\<rparr>) \<and> forget u = forget v''"
        if t: "forget (as_vault t) = forget v" for t
      proof -
        obtain u where u: "replay_op ?ex t = Inr (w, t\<lparr>as_vault := u\<rparr>)" "forget u = forget v''"
          using replay_op_blind [OF blind_expire_withdrawal ex t] by blast
        have "dm_get (client_balances v'') (pw_client w) \<noteq> None" using ex
          by (auto simp: expire_pending_withdrawal_def Let_def dm_get_insert put_balance_def split: option.splits)
        then have "dm_get (client_balances u) (pw_client w) \<noteq> None" using agree_clients [OF u(2)] by simp
        then obtain z where "replay_unit (refresh_client_max_lock_expires_at (pw_client w)) (t\<lparr>as_vault := u\<rparr>) = Inr (t\<lparr>as_vault := z\<rparr>)"
          "forget z = forget u" using replay_refresh [of "t\<lparr>as_vault := u\<rparr>" "pw_client w"] by auto
        then show ?thesis using u L by (auto simp: parse_pubkey_to_string replay_bind_def)
      qed
      then show "(\<exists>y. q = Ok y \<and> True) \<and> (\<exists>now uuid. \<forall>t. forget (as_vault t) = forget v \<longrightarrow>
          (\<exists>w. replay_entry (he_curve E) (he_sha256 E) (he_lib E) now uuid ?e t = Inr (t\<lparr>as_vault := w\<rparr>) \<and> forget w = forget v''))"
        using q by blast
    qed auto
    then have "crash_triple E ?P (hbind (hbind (hret ()) (\<lambda>_. hthen (wal_log_or_undo E ?e (hret ())) (run_vault ?ex))) ?rest) (\<lambda>_. anything)"
      by (rule triple_bind) (intro triple_tail L triple_ret TrueI)
    then show ?thesis by (simp add: wal_log_undo hthen_def hbind_assoc)
  qed
  then show "crash_triple E ?P (case dm_get (pending_withdrawals v0) n of None \<Rightarrow> hret False
     | Some w \<Rightarrow> if sint now \<le> sint (pw_expires_at w) then hret False
         else hthen (wal_log E (WWithdrawExpired (pubkey_to_string (he_lib E) (pw_client w)) n))
          (hbind (run_vault (expire_pending_withdrawal n)) ?rest)) (\<lambda>_. anything)"
    by (auto intro: triple_ret split: option.splits)
qed

section \<open>The whole settle handler\<close>

lemma triple_authenticate_known:
  "crash_triple E P (authenticate_provider E' hs pid) (\<lambda>_ v us. P v us \<and> dm_get (providers v) pid \<noteq> None)"
  unfolding authenticate_provider_def
  by (rule triple_vault, rule triple_some) (auto intro: triple_fail triple_ret split: option.splits)

lemma triple_settle_repeat:
  "wal_lib_laws (he_lib E) \<Longrightarrow> crash_triple E P (settle_repeat E pid r) (\<lambda>_. anything)"
  unfolding settle_repeat_def by (intro triple_tail triple_ret TrueI)

lemma triple_settle_locked:
  assumes L: "wal_lib_laws (he_lib E)"
  shows "crash_triple E (\<lambda>v us. pay_ready v (u ## us) \<and> dm_get (reservations v) vid = Some r0 \<and> dm_get (providers v) (rs_provider_id r0) \<noteq> None)
    (settle_locked E vid (rs_provider_id r0) (''set_'' @ u) now) (\<lambda>_. anything)" (is "crash_triple E ?P _ _")
proof (unfold settle_locked_def, rule triple_vault, rule triple_some)
  fix v :: vault_state and r assume r: "dm_get (reservations v) vid = Some r"
  let ?V = "\<lambda>w us. ?P w us \<and> w = v"
  have fresh: "crash_triple E ?V (settle_fresh E vid (rs_provider_id r0) r (''set_'' @ u) now) (\<lambda>_. anything)" if "rs_status r = Reserved"
  proof (cases "r = r0")
    case True
    show ?thesis unfolding True
      by (rule triple_conseq [OF triple_settle_fresh [OF L]]) (use that True in \<open>auto simp: pay_ready_def\<close>)
  next
    case False
    then show ?thesis using r by (intro tripleI) auto
  qed
  have "crash_triple E ?V (hthen (expire_reserved_reservation_with_lock E vid now) (hfail ReservationExpired)) (\<lambda>_. anything)"
    by (rule triple_then [OF triple_conseq [OF triple_expire_reserved [OF L]] triple_fail]) (auto dest: pay_ready_uuid)
  with fresh show "crash_triple E ?V (case rs_status r of
       SettledOffchain \<Rightarrow> settle_repeat E (rs_provider_id r0) r
     | Expired \<Rightarrow> hfail ReservationExpired
     | Reserved \<Rightarrow> if sint (rs_expires_at r) < sint now
         then hthen (expire_reserved_reservation_with_lock E vid now) (hfail ReservationExpired)
         else settle_fresh E vid (rs_provider_id r0) r (''set_'' @ u) now
     | other \<Rightarrow> hfail (InvalidReservationStatus (debug_reservation_status other))) (\<lambda>_. anything)"
    by (auto intro: triple_settle_repeat [OF L] triple_fail split: reservation_status.splits)
qed

lemma triple_post_settle:
  assumes L: "wal_lib_laws (he_lib E)"
  shows "crash_triple E pay_ready (post_settle E hs vid) (\<lambda>_. anything)"
proof (unfold post_settle_def, rule triple_vault, rule triple_some)
  fix v0 :: vault_state and r0 assume r0: "dm_get (reservations v0) vid = Some r0"
  let ?P = "\<lambda>v us. pay_ready v us \<and> dm_get (reservations v) vid = Some r0"
  have lf: "lifecycle_free ?P" using pay_ready_lifecycle by (simp add: lifecycle_free_def)
  note rules = triple_then [OF triple_existing_ops [OF lf]] triple_bind [OF triple_authenticate_known] triple_guard triple_if
    triple_settle_repeat [OF L] triple_fail triple_bind [OF triple_now] triple_bind [OF triple_uuid] triple_conseq [OF triple_settle_locked [OF L]]
  show "crash_triple E (\<lambda>w u. pay_ready w u \<and> w = v0) (hthen ensure_vault_allows_existing_reservation_ops
    (hbind (authenticate_provider E hs (rs_provider_id r0)) (\<lambda>authenticated.
     hguard (authenticated = rs_provider_id r0) ProviderIdMismatch
    (if rs_status r0 = SettledOffchain then settle_repeat E (rs_provider_id r0) r0
     else if rs_status r0 \<noteq> Reserved then
       hfail (if rs_status r0 = Expired then ReservationExpired else InvalidReservationStatus (debug_reservation_status (rs_status r0)))
     else hbind utc_now (\<lambda>now. hbind new_uuid (\<lambda>u. settle_locked E vid (rs_provider_id r0) (''set_'' @ u) now)))))) (\<lambda>_. anything)"
    by (rule triple_conseq [where P' = ?P and Q' = "\<lambda>_. anything"], intro rules) (use r0 in auto)
qed

section \<open>Withdrawal authorisation\<close>

lemma triple_auth_window: "crash_triple E P (validate_client_auth_window i x) (\<lambda>_. P)"
  unfolding validate_client_auth_window_def by (intro triple_bind [OF triple_now] triple_guard triple_panic triple_ret)

lemma triple_client_auth: "crash_triple E P (verify_client_request_auth E' c m a) (\<lambda>_. P)"
  unfolding verify_client_request_auth_def
  by (intro triple_then [OF triple_auth_window] triple_some triple_then [OF triple_client_ed25519] triple_ret)

lemma triple_withdraw_nonce:
  "crash_triple E pay_ready (run_vault (\<lambda>v. case next_withdraw_nonce v of (n, v1) \<Rightarrow> (Ok n, v1)))
     (\<lambda>n v us. dm_get (pending_withdrawals v) n = None)"
  by (rule tripleI) (auto simp: run_vault_def next_withdraw_nonce_def pay_ready_def intro!: crash_still set_vault_agrees)

lemma replay_withdraw_follows:
  assumes L: "wal_lib_laws L" and w: "w = \<lparr>pw_client = c, pw_recipient_ata = ata, pw_amount = a, pw_withdraw_nonce = n, pw_issued_at = i, pw_expires_at = x\<rparr>"
    and au: "authorize_withdrawal w v = (Ok u, v')" and t: "forget (as_vault t) = forget v"
  shows "\<exists>z. replay_entry C H L 0 [] (WWithdrawAuthorized (pubkey_to_string L c) (pubkey_to_string L ata) a n i x) t = Inr (t\<lparr>as_vault := z\<rparr>)
    \<and> forget z = forget v'"
proof -
  obtain y where y: "replay_unit (authorize_withdrawal w) t = Inr (t\<lparr>as_vault := y\<rparr>)" "forget y = forget v'"
    using replay_unit_blind [OF blind_authorize au t] by blast
  let ?b = "\<lambda>v. v\<lparr>withdraw_nonce := max (withdraw_nonce v) (saturating_add n 1)\<rparr>"
  have "dm_get (client_balances v') c \<noteq> None" using au w
    by (auto simp: authorize_withdrawal_def Let_def put_balance_def dm_get_insert split: option.splits if_splits)
  then have "dm_get (client_balances (as_vault (t\<lparr>as_vault := ?b y\<rparr>))) c \<noteq> None" using agree_clients [OF y(2)] by simp
  from replay_refresh [OF this] obtain z where "replay_unit (refresh_client_max_lock_expires_at c) (t\<lparr>as_vault := ?b y\<rparr>) = Inr (t\<lparr>as_vault := z\<rparr>)"
    "forget z = forget (?b y)" by auto
  then show ?thesis using y L w by (auto simp: parse_pubkey_to_string replay_bind_def bump_withdraw_nonce_def)
qed

lemma triple_withdraw_commit:
  assumes L: "wal_lib_laws (he_lib E)"
    and w: "w = \<lparr>pw_client = c, pw_recipient_ata = ata, pw_amount = a, pw_withdraw_nonce = n, pw_issued_at = i, pw_expires_at = x\<rparr>"
  shows "crash_triple E (\<lambda>v us. dm_get (pending_withdrawals v) n = None)
    (hthen (run_vault (authorize_withdrawal w)) (hthen (wal_log_or_undo E
       (WWithdrawAuthorized (pubkey_to_string (he_lib E) c) (pubkey_to_string (he_lib E) ata) a n i x)
       (hignore (run_vault (rollback_authorized_withdrawal n))))
     (hthen (run_vault (refresh_client_max_lock_expires_at c)) (hthen (issue_client_receipt_locked E c) (hret y))))) (\<lambda>_. anything)"
    (is "crash_triple E ?P _ _")
proof (subst commit_only, rule triple_then)
  let ?e = "WWithdrawAuthorized (pubkey_to_string (he_lib E) c) (pubkey_to_string (he_lib E) ata) a n i x"
  show "crash_triple E ?P (hbind (run_vault (authorize_withdrawal w)) (\<lambda>_. hthen (wal_log_or_undo E ?e
      (hignore (run_vault (rollback_authorized_withdrawal n)))) (hret ()))) (\<lambda>_. anything)"
  proof (rule triple_commit [OF L vault_step_run vault_step_ignore [OF vault_step_run] vault_step_ret])
    fix v us e v' assume "authorize_withdrawal w v = (Err e, v')"
    then show "forget v' = forget v" by (auto simp: authorize_withdrawal_def Let_def split: option.splits if_splits)
  next
    fix v us z v' q v'' assume "?P v us" "authorize_withdrawal w v = (Ok z, v')" "op_ignore (rollback_authorized_withdrawal n) v' = (q, v'')"
    then show "q = Ok () \<and> forget v'' = forget v"
      using authorize_then_expire [of w v z v'] w by (simp add: op_ignore_def rollback_authorized_withdrawal_def)
  next
    fix v us z v' q v'' assume a: "authorize_withdrawal w v = (Ok z, v')" "(Ok (), v') = (q, v'')"
    then show "(\<exists>y. q = Ok y \<and> True) \<and> (\<exists>now uuid. \<forall>t. forget (as_vault t) = forget v \<longrightarrow>
        (\<exists>w. replay_entry (he_curve E) (he_sha256 E) (he_lib E) now uuid ?e t = Inr (t\<lparr>as_vault := w\<rparr>) \<and> forget w = forget v''))"
      using replay_withdraw_follows [OF L w a(1)] by blast
  qed
qed (intro triple_tail L triple_ret TrueI)

lemma triple_post_withdraw_auth:
  assumes L: "wal_lib_laws (he_lib E)"
  shows "crash_triple E pay_ready (post_withdraw_auth E req) (\<lambda>_. anything)"
  unfolding post_withdraw_auth_def Let_def
  by (intro triple_then [OF triple_allows_withdraw [OF pay_ready_lifecycle]] triple_bind [OF triple_client_auth] triple_some
      triple_bind [OF triple_withdraw_nonce] triple_bind [OF triple_now] triple_panic triple_read triple_withdraw_commit [OF L refl])

section \<open>Seeding and receipts\<close>

lemma triple_post_seed_balance:
  assumes L: "wal_lib_laws (he_lib E)"
  shows "crash_triple E P (post_seed_balance E req) (\<lambda>_. anything)"
  unfolding post_seed_balance_def Let_def
proof (rule triple_some, subst log_first, rule triple_then)
  fix c assume c: "pubkey_from_str (he_lib E) (eq_client req) = Some c"
  let ?l = "unwrap_or (eq_locked req) 0" and ?m = "unwrap_or (eq_max_lock_expires_at req) 0"
  let ?d = "unwrap_or (eq_total_deposited req) (saturating_add (eq_free req) ?l)" and ?w = "unwrap_or (eq_total_withdrawn req) 0"
  let ?e = "WClientBalanceSeeded (eq_client req) (eq_free req) ?l ?m ?d ?w"
  let ?put = "put_balance c \<lparr>cb_free = eq_free req, cb_locked = ?l, cb_max_lock_expires_at = ?m, cb_total_deposited = ?d, cb_total_withdrawn = ?w\<rparr>"
  show "crash_triple E P (hbind (hret ()) (\<lambda>_. hthen (wal_log_or_undo E ?e (hret ())) (modify_vault ?put))) (\<lambda>_. anything)"
    by (rule triple_commit [OF L vault_step_ret vault_step_ret vault_step_modify])
      (use c in \<open>auto simp: parse_pubkey_def field_def replay_bind_def intro!: exI\<close>)
qed (intro triple_tail L triple_ret TrueI)

lemma triple_post_receipt:
  "wal_lib_laws (he_lib E) \<Longrightarrow> crash_triple E P (post_receipt E req) (\<lambda>_. anything)"
  unfolding post_receipt_def
  by (intro triple_bind [OF triple_client_auth] triple_some triple_read triple_participant_receipt)

end
