(* ===== verification/Handler_Safety.thy ===== *)
theory Handler_Safety
  imports Handler_Crash
begin

text \<open>
  Every payment request as one call (\<open>payment_call\<close>, the routes of the enclave's server that
  change the vault), and its crash safety: whatever the disk, the chain node and the watchtower
  answer, replaying the entries the call made durable gives the vault the call left in memory.
\<close>

section \<open>Registration of open sellers\<close>

lemma triple_log_then_modify:
  assumes L: "wal_lib_laws (he_lib E)"
    and rep: "\<And>v us t. P v us \<Longrightarrow> forget (as_vault t) = forget v \<Longrightarrow>
      \<exists>w. replay_entry (he_curve E) (he_sha256 E) (he_lib E) 0 [] e t = Inr (t\<lparr>as_vault := w\<rparr>) \<and> forget w = forget (f v)"
  shows "crash_triple E P (hthen (wal_log E e) (modify_vault f)) (\<lambda>_. anything)"
proof -
  have "crash_triple E P (hbind (hret ()) (\<lambda>_. hthen (wal_log_or_undo E e (hret ())) (modify_vault f))) (\<lambda>_. anything)"
    by (rule triple_commit [OF L vault_step_ret vault_step_ret vault_step_modify]) (simp, simp, use rep in \<open>force\<close>)
  then show ?thesis by (simp add: wal_log_undo)
qed

lemma triple_register:
  assumes L: "wal_lib_laws (he_lib E)" and reg: "replay_provider (he_lib E) w = Inr reg" and p: "wp_provider_id w = pid"
  shows "crash_triple E P (hthen (wal_log E (WProviderRegistered w))
    (modify_vault (\<lambda>v. v\<lparr>providers := dm_insert pid reg (providers v)\<rparr>))) (\<lambda>_. anything)"
proof (rule triple_log_then_modify [OF L])
  fix v us and t :: app_state assume "forget (as_vault t) = forget v"
  then show "\<exists>u. replay_entry (he_curve E) (he_sha256 E) (he_lib E) 0 [] (WProviderRegistered w) t = Inr (t\<lparr>as_vault := u\<rparr>)
      \<and> forget u = forget (v\<lparr>providers := dm_insert pid reg (providers v)\<rparr>)"
    using reg p agree_fields(2) [of "as_vault t" v] by (simp add: replay_bind_def) (rule exI, rule conjI, rule refl, simp)
qed

lemma triple_open_provider:
  assumes L: "wal_lib_laws (he_lib E)"
  shows "crash_triple E P (ensure_open_provider_registered E p) (\<lambda>_. anything)"
  unfolding ensure_open_provider_registered_def Let_def
  by (rule triple_read)
    (auto intro!: triple_ret triple_fail triple_register [OF L] simp: replay_provider_def replay_bind_def opt_map_replay_def
      split: sum.splits)

section \<open>Verify\<close>

text \<open>What the decision hands to the part under the lock.\<close>

definition decided :: "('p, 's) handler_env \<Rightarrow> payment_payload \<Rightarrow> verify_decision \<Rightarrow> assn" where
  "decided E p d v us \<longleftrightarrow> (case d of VerifyRepeat _ \<Rightarrow> True
     | VerifyFresh r \<Rightarrow> new_reservation r \<and> pubkey_from_str (he_lib E) (pp_client p) = Some (rs_client r))"

lemma triple_match_detail: "crash_triple E P k Q \<Longrightarrow> crash_triple E P (match_detail d path x e k) Q"
  unfolding match_detail_def by (intro triple_some triple_guard)

lemma triple_details: "crash_triple E P (validate_payment_details_match_payload d p) (\<lambda>_. P)"
  unfolding validate_payment_details_match_payload_def by (intro triple_match_detail triple_ret)

lemma triple_client_signature: "crash_triple E P (verify_client_signature E' p) (\<lambda>_. P)"
  unfolding verify_client_signature_def by (intro triple_some triple_client_ed25519)

lemma triple_window: "crash_triple E P (parse_verify_window_sec d) (\<lambda>_. P)"
  unfolding parse_verify_window_sec_def by (intro triple_some triple_guard triple_ret)

lemma triple_reply: "crash_triple E P (verify_reply E' r) (\<lambda>_. P)"
  unfolding verify_reply_def issue_verification_receipt_def Let_def
  by (rule triple_bind [where R = "\<lambda>_. P"]) (intro triple_read triple_ret, assumption)+

lemma triple_provider_fields: "crash_triple E P k Q \<Longrightarrow> crash_triple E P (verify_provider_fields E' hs req k) Q"
  unfolding verify_provider_fields_def Let_def
  by (intro triple_bind [OF triple_authenticate] triple_read triple_some triple_guard)
    (auto intro!: triple_guard triple_fail split: sum.splits)

lemma triple_new_reservation:
  assumes "pubkey_from_str (he_lib E) (pp_client p) = Some c"
  shows "crash_triple E anything (verify_new_reservation E p c a w h) (\<lambda>r. decided E p (VerifyFresh r))"
  unfolding verify_new_reservation_def
  by (intro triple_bind [OF triple_now] triple_bind [OF triple_uuid] triple_some triple_guard triple_ret)
    (simp add: decided_def new_reservation_def assms)

lemma triple_payment_id:
  assumes "crash_triple E P m (\<lambda>r. decided E p (VerifyFresh r))"
  shows "crash_triple E P (verify_payment_id E p h m) (decided E p)"
proof -
  have fresh: "crash_triple E P (hbind m (\<lambda>r. hret (VerifyFresh r))) (decided E p)"
    by (rule triple_bind [OF assms triple_ret])
  have "crash_triple E P (hbind (verify_reply E r) (\<lambda>r. hret (VerifyRepeat r))) (decided E p)" for r
    by (rule triple_bind [OF triple_reply triple_ret]) (simp add: decided_def)
  with fresh show ?thesis unfolding verify_payment_id_def
    by (intro triple_read) (auto intro: triple_fail split: option.splits)
qed

lemma triple_verify_decide:
  assumes L: "wal_lib_laws (he_lib E)"
  shows "crash_triple E anything (verify_decide E hs req) (decided E (vq_payment_payload req))"
  unfolding verify_decide_def Let_def
  by (intro triple_some triple_guard triple_then [OF triple_new_verification] triple_then [OF triple_details] triple_read
      triple_bind [OF triple_now_ns] triple_then [OF triple_client_signature] triple_bind [OF triple_window]
      triple_then [OF triple_open_provider [OF L]] triple_provider_fields triple_payment_id triple_new_reservation)
    (simp_all add: lifecycle_free_def)

lemma triple_post_verify:
  assumes L: "wal_lib_laws (he_lib E)"
  shows "crash_triple E P (post_verify E hs req) (\<lambda>_. anything)"
proof (rule triple_conseq [where P' = anything and Q' = "\<lambda>_. anything"])
  let ?p = "vq_payment_payload req"
  let ?k = "\<lambda>d. case d of VerifyRepeat r \<Rightarrow> hret r
     | VerifyFresh r \<Rightarrow> hthen (verify_commit E ?p r)
        (hvault (\<lambda>v. hsome (dm_get (reservations v) (rs_verification_id r)) ReservationNotFound (verify_reply E)))"
  have "crash_triple E (decided E ?p d) (?k d) (\<lambda>_. anything)" for d
  proof (cases d)
    case (VerifyFresh r)
    have "crash_triple E (decided E ?p d) (verify_commit E ?p r) (\<lambda>_. anything)"
    proof (cases "new_reservation r \<and> pubkey_from_str (he_lib E) (pp_client ?p) = Some (rs_client r)")
      case True
      then show ?thesis using triple_verify_commit [OF L] by blast
    next
      case False
      then show ?thesis by (intro tripleI) (simp add: decided_def VerifyFresh)
    qed
    then show ?thesis unfolding VerifyFresh
      by (simp, elim triple_then) (intro triple_read triple_some triple_reply)
  qed (simp add: triple_ret)
  then show "crash_triple E anything (post_verify E hs req) (\<lambda>_. anything)"
    unfolding post_verify_def by (rule triple_bind [OF triple_verify_decide [OF L]])
qed simp_all

lemma triple_post_balance: "crash_triple E P (post_balance E' req) (\<lambda>_. P)"
  unfolding post_balance_def by (intro triple_bind [OF triple_client_auth] triple_read triple_some triple_ret)

lemma triple_post_settlement_status: "crash_triple E P (post_settlement_status E' hs sid) (\<lambda>_. P)"
  unfolding post_settlement_status_def by (intro triple_read triple_some triple_then [OF triple_authenticate] triple_ret)

section \<open>Registration\<close>

text \<open>
  The log keeps the secrets as the request has them, the memory only those of the authentication
  mode. The two agree when the request carries the secrets of its mode and no other.
\<close>

definition only_own_secrets :: "register_provider_request \<Rightarrow> bool" where
  "only_own_secrets req \<longleftrightarrow>
     (gq_api_key_hash req = [] \<longleftrightarrow> gq_auth_mode req \<noteq> ''bearer'' \<and> gq_auth_mode req \<noteq> ''api-key'')
   \<and> (gq_mtls_cert_fingerprint req = None \<longleftrightarrow> gq_auth_mode req \<noteq> ''mtls'')"

lemma hex_32_decode: "hex_32 L t = Some bs \<Longrightarrow> hex_decode L t = Some bs \<and> length bs = 32"
  by (auto simp: hex_32_def bind_eq_Some_conv split: if_splits)

definition secrets_logged :: "wal_lib \<Rightarrow> register_provider_request \<Rightarrow> bytes option \<times> bytes option \<Rightarrow> bool" where
  "secrets_logged L req s \<longleftrightarrow>
      opt_map_replay (\<lambda>v. field (hex_decode L v) (InvalidWalField ''api_key_hash''))
        (if gq_api_key_hash req = [] then None else Some (gq_api_key_hash req)) = Inr (fst s)
    \<and> opt_map_replay (\<lambda>v. field (hex_decode L v) (InvalidWalField ''mtls_cert_fingerprint''))
        (gq_mtls_cert_fingerprint req) = Inr (snd s)"

lemma triple_registration_secrets:
  assumes "only_own_secrets req"
  shows "crash_triple E P (registration_secrets E req k) (\<lambda>s v us. secrets_logged (he_lib E) req s)"
  using assms unfolding registration_secrets_def
  by (intro triple_if triple_some triple_guard triple_fail triple_ret)
    (auto simp: only_own_secrets_def secrets_logged_def opt_map_replay_def replay_bind_def field_def bind_eq_Some_conv dest!: hex_32_decode)

definition participant_logged :: "wal_lib \<Rightarrow> register_provider_request \<Rightarrow> pubkey option \<times> verified_attestation option \<Rightarrow> bool" where
  "participant_logged L req pa \<longleftrightarrow> opt_map_replay (parse_pubkey L ''participant_pubkey'') (gq_participant_pubkey req) = Inr (fst pa)"

lemma triple_registration_participant:
  "crash_triple E P (registration_participant E req) (\<lambda>pa v us. participant_logged (he_lib E) req pa)"
  unfolding registration_participant_def
  by (auto intro!: triple_ret triple_fail triple_some triple_bind [OF triple_now_ns]
      simp: participant_logged_def opt_map_replay_def parse_pubkey_def field_def replay_bind_def split: option.splits sum.splits)

lemma policy_hash_logged:
  assumes "\<forall>a\<in>set_option x. hex_32 L (va_policy_hash_hex a) \<noteq> None"
  shows "opt_map_replay (decode_fixed_hex_32 L n) (map_option va_policy_hash_hex x)
    = Inr (map_option (\<lambda>a. word_of_bytes (the (hex_32 L (va_policy_hash_hex a)))) x)"
  using assms by (auto simp: opt_map_replay_def decode_fixed_hex_32_def replay_bind_def field_def hex_32_def split: option.splits if_splits bind_splits)

lemma triple_pure: "(b \<Longrightarrow> crash_triple E anything h Q) \<Longrightarrow> crash_triple E (\<lambda>v us. b) h Q"
  by (cases b) (auto intro: tripleI)

lemma registration_logged:
  assumes "participant_logged L req (p, att)" "secrets_logged L req s"
    and hash: "\<forall>a\<in>set_option att. hex_32 L (va_policy_hash_hex a) \<noteq> None"
    and "settlement_target_parse (pubkey_from_str L) (gq_network req) (gq_asset_mint req) (gq_settlement_token_account req) = Inr target"
  shows "replay_provider L (wal_provider_of req att target k) = Inr (registration_of L req target k p att (fst s) (snd s))"
  using assms policy_hash_logged [OF hash]
  by (simp add: replay_provider_def wal_provider_of_def registration_of_def participant_logged_def secrets_logged_def replay_bind_def)

lemma triple_register_commit:
  assumes L: "wal_lib_laws (he_lib E)"
    and target: "settlement_target_parse (pubkey_from_str (he_lib E)) (gq_network req) (gq_asset_mint req) (gq_settlement_token_account req) = Inr target"
    and p: "participant_logged (he_lib E) req (p, att)"
  shows "crash_triple E (\<lambda>v us. secrets_logged (he_lib E) req s) (register_commit E req target k p att s) (\<lambda>_. anything)"
  unfolding register_commit_def
proof (rule triple_pure, intro triple_panic triple_read triple_if triple_fail)
  let ?w = "wal_provider_of req att target k" and ?reg = "registration_of (he_lib E) req target k p att (fst s) (snd s)"
  assume s: "secrets_logged (he_lib E) req s" and h: "\<forall>a\<in>set_option att. hex_32 (he_lib E) (va_policy_hash_hex a) \<noteq> None"
  have "crash_triple E anything (hthen (hthen (wal_log E (WProviderRegistered ?w))
      (modify_vault (\<lambda>v. v\<lparr>providers := dm_insert (gq_provider_id req) ?reg (providers v)\<rparr>))) (hret (gq_provider_id req))) (\<lambda>_. anything)"
    by (rule triple_then [OF triple_register [OF L registration_logged [OF p s h target]]]) (simp_all add: wal_provider_of_def triple_ret)
  then show "crash_triple E anything (hthen (wal_log E (WProviderRegistered ?w))
      (hthen (modify_vault (\<lambda>v. v\<lparr>providers := dm_insert (gq_provider_id req) ?reg (providers v)\<rparr>)) (hret (gq_provider_id req)))) (\<lambda>_. anything)"
    by (simp add: hthen_def hbind_assoc)
qed

lemma triple_post_register_provider:
  assumes L: "wal_lib_laws (he_lib E)" and own: "only_own_secrets req"
  shows "crash_triple E P (post_register_provider E req) (\<lambda>_. anything)"
  unfolding post_register_provider_def
proof (split sum.split, intro conjI allI impI triple_fail, split sum.split, intro conjI allI impI triple_fail triple_bind [OF triple_registration_participant])
  fix target d and pa :: "pubkey option \<times> verified_attestation option"
  assume t: "settlement_target_parse (pubkey_from_str (he_lib E)) (gq_network req) (gq_asset_mint req) (gq_settlement_token_account req) = Inr target"
  show "crash_triple E (\<lambda>v us. participant_logged (he_lib E) req pa)
      (hbind (registration_secrets E req (fst pa)) (register_commit E req target (cd_kind d) (fst pa) (snd pa))) (\<lambda>_. anything)"
    by (rule triple_pure, intro triple_bind [OF triple_registration_secrets [OF own]] triple_register_commit [OF L t]) simp_all
qed

section \<open>One call\<close>

text \<open>The requests and background jobs that can change the vault through the payment handlers.\<close>

datatype payment_call =
    CallVerify headers verify_request
  | CallSettle headers string
  | CallSettlementStatus headers string
  | CallCancel headers string string
  | CallWithdrawAuth withdraw_auth_request
  | CallBalance balance_request
  | CallReceipt receipt_request
  | CallRegisterProvider register_provider_request
  | CallSeedBalance seed_balance_request
  | CallExpireReservation string i64
  | CallExpireWithdrawal u64 i64

datatype payment_answer =
    VerifyAnswer verify_response
  | SettleAnswer settle_response
  | StatusAnswer settlement_status_response
  | CancelAnswer
  | WithdrawAnswer withdraw_auth_response
  | BalanceAnswer client_balance
  | ReceiptAnswer receipt_response
  | RegisterAnswer string
  | SeedAnswer
  | ExpiryAnswer bool

definition answer :: "('a \<Rightarrow> 'b) \<Rightarrow> 'a handler \<Rightarrow> 'b handler" where
  "answer f h = hbind h (\<lambda>x. hret (f x))"

fun serve_payment :: "('p, 's) handler_env \<Rightarrow> payment_call \<Rightarrow> payment_answer handler" where
  "serve_payment E (CallVerify hs req) = answer VerifyAnswer (post_verify E hs req)"
| "serve_payment E (CallSettle hs vid) = answer SettleAnswer (post_settle E hs vid)"
| "serve_payment E (CallSettlementStatus hs sid) = answer StatusAnswer (post_settlement_status E hs sid)"
| "serve_payment E (CallCancel hs vid reason) = answer (\<lambda>_. CancelAnswer) (post_cancel E hs vid reason)"
| "serve_payment E (CallWithdrawAuth req) = answer WithdrawAnswer (post_withdraw_auth E req)"
| "serve_payment E (CallBalance req) = answer BalanceAnswer (post_balance E req)"
| "serve_payment E (CallReceipt req) = answer ReceiptAnswer (post_receipt E req)"
| "serve_payment E (CallRegisterProvider req) = answer RegisterAnswer (post_register_provider E req)"
| "serve_payment E (CallSeedBalance req) = answer (\<lambda>_. SeedAnswer) (post_seed_balance E req)"
| "serve_payment E (CallExpireReservation vid now) = answer ExpiryAnswer (expire_reserved_reservation_with_lock E vid now)"
| "serve_payment E (CallExpireWithdrawal n now) = answer ExpiryAnswer (expire_pending_withdrawal_handler E n now)"

text \<open>Calls whose log entry carries nothing the memory leaves out.\<close>

fun clean_call :: "payment_call \<Rightarrow> bool" where
  "clean_call (CallRegisterProvider req) = only_own_secrets req"
| "clean_call _ = True"

lemma triple_answer: "crash_triple E P h Q \<Longrightarrow> crash_triple E P (answer f h) (\<lambda>_. anything)"
  unfolding answer_def by (erule triple_bind) (rule triple_ret, simp)

lemma triple_serve_payment:
  assumes "wal_lib_laws (he_lib E)" "clean_call call"
  shows "crash_triple E pay_ready (serve_payment E call) (\<lambda>_. anything)"
  using assms
  by (cases call) (auto intro: triple_answer triple_post_verify triple_post_settle triple_post_settlement_status triple_post_cancel
      triple_post_withdraw_auth triple_post_balance triple_post_receipt triple_post_register_provider triple_post_seed_balance
      triple_expire_reserved triple_expire_withdrawal)


text \<open>A sample node: the disk answers \<open>disk\<close>, the watchtower the replies \<open>wt\<close>.\<close>

definition demo_handlers :: "(b32, b32) handler_env" where
  "demo_handlers = \<lparr>he_lib = demo_lib, he_curve = word_curve, he_sha256 = (\<lambda>bs. of_nat (length bs)), he_verify_strict = (\<lambda>k m sig. sig = 0),
     he_sign = (\<lambda>k m. 0), he_ata = (\<lambda>k m. k + m), he_parse_rfc3339 = (\<lambda>t. Some (int (length t))), he_json_scalar = (\<lambda>j. []),
     he_attest = demo_attest, he_watchtower_url = True, he_provider_mtls_enabled = False,
     he_detector_enabled = False, he_detector_ready = False\<rparr>"

definition demo_node :: "bool \<Rightarrow> watchtower_reply stream \<Rightarrow> node" where
  "demo_node disk wt = \<lparr>nd_app = demo_app, nd_clock = sconst 1010000000000, nd_uuid = sconst ''u1'', nd_wal_io = sconst (replicate 12 0, disk),
     nd_rpc = sconst (Some \<lparr>vl_status = 0, vl_successor_vault = 0, vl_exit_deadline = 0, vl_synced_at_ms = 0\<rparr>),
     nd_watchtower = wt\<rparr>"

lemma demo_node_ok: "nonces_ok (demo_node disk wt)" "pay_ready (as_vault (nd_app (demo_node disk wt))) (nd_uuid (demo_node disk wt))"
  by (auto simp: nonces_ok_def demo_node_def pay_ready_def demo_app_def fresh_app_def demo_defs locked_of_def funds_def credits_fresh_def
      split: if_splits)

lemmas handler_effects = hbind_def hthen_def hvault_def hsome_def hguard_def hret_def hfail_def hignore_def hpanic_unless_def run_vault_def
  modify_vault_def set_vault_def utc_now_def utc_now_ns_def new_uuid_def wal_try_def wal_log_def wal_log_or_undo_def wal_append_def
  encrypt_record_def answer_def load_vault_lifecycle_def

lemmas demo_node_defs = demo_node_def demo_handlers_def demo_lib_def demo_app_def fresh_app_def demo_defs wal_open_def


end
