(* ===== verification/Handler_Logic.thy ===== *)
theory Handler_Logic
  imports Handler_Safety
begin

text \<open>
  A second, simpler logic for the handlers: what holds of the vault after a call, on success and on
  error. Assertions that only look at what a restart keeps (\<open>steady\<close>) pass through reads of the
  chain, refreshed lock expiries and issued receipts.
\<close>

section \<open>Triples on the vault\<close>

type_synonym vassn = "vault_state \<Rightarrow> bool"

definition vtriple :: "vassn \<Rightarrow> 'a handler \<Rightarrow> ('a \<Rightarrow> vassn) \<Rightarrow> vassn \<Rightarrow> bool" where
  "vtriple P h Q R \<longleftrightarrow> (\<forall>s. P (as_vault (nd_app s)) \<longrightarrow> (case h s of
     (Ok x, s') \<Rightarrow> Q x (as_vault (nd_app s')) | (Err e, s') \<Rightarrow> R (as_vault (nd_app s')) | (Panic, s') \<Rightarrow> True))"

definition steady :: "vassn \<Rightarrow> bool" where
  "steady P \<longleftrightarrow> (\<forall>v w. forget v = forget w \<longrightarrow> P v \<longrightarrow> P w)"

lemma vtripleD: "vtriple P h Q R \<Longrightarrow> P (as_vault (nd_app s)) \<Longrightarrow> h s = (Ok x, s') \<Longrightarrow> Q x (as_vault (nd_app s'))"
  by (fastforce simp: vtriple_def)

lemma vtriple_errD: "vtriple P h Q R \<Longrightarrow> P (as_vault (nd_app s)) \<Longrightarrow> h s = (Err e, s') \<Longrightarrow> R (as_vault (nd_app s'))"
  by (fastforce simp: vtriple_def)

lemma vtriple_conseq:
  "vtriple P' h Q' R' \<Longrightarrow> (\<And>v. P v \<Longrightarrow> P' v) \<Longrightarrow> (\<And>x v. Q' x v \<Longrightarrow> Q x v) \<Longrightarrow> (\<And>v. R' v \<Longrightarrow> R v) \<Longrightarrow> vtriple P h Q R"
  by (fastforce simp: vtriple_def split: prod.splits outcome.splits)

lemma vtriple_pure: "(b \<Longrightarrow> vtriple P h Q R) \<Longrightarrow> vtriple (\<lambda>v. P v \<and> b) h Q R"
  by (auto simp: vtriple_def)

lemma vtriple_ret: "(\<And>v. P v \<Longrightarrow> Q x v) \<Longrightarrow> vtriple P (hret x) Q R"
  by (simp add: vtriple_def hret_def)

lemma vtriple_fail: "(\<And>v. P v \<Longrightarrow> R v) \<Longrightarrow> vtriple P (hfail e) Q R"
  by (simp add: vtriple_def hfail_def)

lemma vtriple_bind: "vtriple P m M R \<Longrightarrow> (\<And>x. vtriple (M x) (k x) Q R) \<Longrightarrow> vtriple P (hbind m k) Q R"
  by (fastforce simp: vtriple_def hbind_def split: prod.splits outcome.splits)

lemma vtriple_then: "vtriple P m (\<lambda>_. M) R \<Longrightarrow> vtriple M k Q R \<Longrightarrow> vtriple P (hthen m k) Q R"
  unfolding hthen_def by (rule vtriple_bind)

lemma vtriple_guard: "(\<And>v. P v \<Longrightarrow> R v) \<Longrightarrow> (b \<Longrightarrow> vtriple P k Q R) \<Longrightarrow> vtriple P (hguard b e k) Q R"
  by (simp add: hguard_def vtriple_fail)

lemma vtriple_some: "(\<And>v. P v \<Longrightarrow> R v) \<Longrightarrow> (\<And>y. x = Some y \<Longrightarrow> vtriple P (k y) Q R) \<Longrightarrow> vtriple P (hsome x e k) Q R"
  by (auto simp: hsome_def vtriple_fail split: option.splits)

lemma vtriple_if: "(b \<Longrightarrow> vtriple P k Q R) \<Longrightarrow> (\<not> b \<Longrightarrow> vtriple P k' Q R) \<Longrightarrow> vtriple P (if b then k else k') Q R"
  by simp

lemma vtriple_vault: "(\<And>v. vtriple (\<lambda>w. P w \<and> w = v) (k v) Q R) \<Longrightarrow> vtriple P (hvault k) Q R"
  by (simp add: vtriple_def hvault_def)

lemma vtriple_read: "(\<And>v. P v \<Longrightarrow> vtriple P (k v) Q R) \<Longrightarrow> vtriple P (hvault k) Q R"
  by (simp add: vtriple_def hvault_def)

lemma vtriple_run:
  "(\<And>v. P v \<Longrightarrow> case f v of (Ok x, w) \<Rightarrow> Q x w | (Err e, w) \<Rightarrow> R w | (Panic, w) \<Rightarrow> True) \<Longrightarrow> vtriple P (run_vault f) Q R"
  by (fastforce simp: vtriple_def run_vault_def split: prod.splits outcome.splits)

lemma vtriple_modify: "(\<And>v. P v \<Longrightarrow> Q () (f v)) \<Longrightarrow> vtriple P (modify_vault f) Q R"
  by (simp add: vtriple_def modify_vault_def)

section \<open>Steps that keep the vault\<close>

lemma vtriple_now: "vtriple P utc_now (\<lambda>_. P) R"
  by (simp add: vtriple_def utc_now_def utc_now_ns_def hbind_def hret_def)

lemma vtriple_now_ns: "vtriple P utc_now_ns (\<lambda>_. P) R"
  by (simp add: vtriple_def utc_now_ns_def)

lemma vtriple_uuid: "vtriple P new_uuid (\<lambda>_. P) R"
  by (simp add: vtriple_def new_uuid_def)

lemma vtriple_wal_try: "vtriple P (wal_try E e) (\<lambda>_. P) R"
  by (auto simp: vtriple_def wal_try_def hbind_def utc_now_def utc_now_ns_def hret_def Let_def split: prod.splits)

lemma vtriple_wal: "(\<And>v. P v \<Longrightarrow> R v) \<Longrightarrow> vtriple P (wal_log E e) (\<lambda>_. P) R"
  unfolding wal_log_def by (intro vtriple_bind [OF vtriple_wal_try] vtriple_guard vtriple_ret)

lemma vtriple_wal_or_undo:
  "vtriple P undo (\<lambda>_. R) R \<Longrightarrow> vtriple P (wal_log_or_undo E e undo) (\<lambda>_. P) R"
  unfolding wal_log_or_undo_def
  by (intro vtriple_bind [OF vtriple_wal_try] vtriple_if vtriple_ret vtriple_then vtriple_fail)

lemma vtriple_ignore: "vtriple P h (\<lambda>_. Q) Q \<Longrightarrow> vtriple P (hignore h) (\<lambda>_. Q) R"
  by (fastforce simp: vtriple_def hignore_def split: prod.splits outcome.splits)

lemma steadyD: "steady P \<Longrightarrow> P v \<Longrightarrow> forget w = forget v \<Longrightarrow> P w"
  unfolding steady_def by metis

lemma vtriple_agrees:
  "steady P \<Longrightarrow> (\<And>v. P v \<Longrightarrow> R v) \<Longrightarrow> (\<And>v r v'. f v = (r, v') \<Longrightarrow> forget v' = forget v) \<Longrightarrow> vtriple P (run_vault f) (\<lambda>_. P) R"
  by (rule vtriple_run) (auto split: prod.splits outcome.splits, (metis steadyD)+)

lemma vtriple_lifecycle: "steady P \<Longrightarrow> (\<And>v. P v \<Longrightarrow> R v) \<Longrightarrow> vtriple P load_vault_lifecycle (\<lambda>_. P) R"
  by (auto simp: vtriple_def load_vault_lifecycle_def hbind_def utc_now_ns_def Let_def set_vault_def elim!: steadyD split: option.splits)

lemma vtriple_refresh:
  "steady P \<Longrightarrow> (\<And>v. P v \<Longrightarrow> R v) \<Longrightarrow> vtriple P (run_vault (refresh_client_max_lock_expires_at c)) (\<lambda>_. P) R"
  by (rule vtriple_agrees) (simp_all add: refresh_agrees)

lemma vtriple_existing_ops:
  "steady P \<Longrightarrow> (\<And>v. P v \<Longrightarrow> R v) \<Longrightarrow> vtriple P ensure_vault_allows_existing_reservation_ops (\<lambda>_. P) R"
  unfolding ensure_vault_allows_existing_reservation_ops_def
  by (intro vtriple_bind [OF vtriple_lifecycle] vtriple_if vtriple_ret vtriple_fail vtriple_bind [OF vtriple_now])

lemma vtriple_authenticate: "(\<And>v. P v \<Longrightarrow> R v) \<Longrightarrow> vtriple P (authenticate_provider E hs pid) (\<lambda>_. P) R"
  unfolding authenticate_provider_def
  by (intro vtriple_read vtriple_some) (auto intro: vtriple_fail vtriple_ret split: option.splits)

lemma vtriple_watchtower: "(\<And>v. P v \<Longrightarrow> R v) \<Longrightarrow> vtriple P (replicate_receipt_to_watchtower E receipt) (\<lambda>_. P) R"
  by (auto simp: vtriple_def replicate_receipt_to_watchtower_def Let_def split: watchtower_reply.splits)

lemma vtriple_participant_receipt:
  assumes "steady P" "\<And>v. P v \<Longrightarrow> R v"
  shows "vtriple P (issue_participant_receipt_locked E k kind ata f l m) (\<lambda>_. P) R"
  unfolding issue_participant_receipt_locked_def Let_def using assms
  by (intro vtriple_bind [OF vtriple_agrees] vtriple_bind [OF vtriple_now] vtriple_read vtriple_then [OF vtriple_wal]
      vtriple_then [OF vtriple_watchtower] vtriple_ret) (auto simp: next_receipt_nonce_def)

lemma vtriple_client_receipt:
  "steady P \<Longrightarrow> (\<And>v. P v \<Longrightarrow> R v) \<Longrightarrow> vtriple P (issue_client_receipt_locked E c) (\<lambda>_. P) R"
  unfolding issue_client_receipt_locked_def by (intro vtriple_read vtriple_some vtriple_participant_receipt)

lemma vtriple_provider_receipt:
  "steady P \<Longrightarrow> (\<And>v. P v \<Longrightarrow> R v) \<Longrightarrow> vtriple P (issue_provider_receipt_locked E pid) (\<lambda>_. P) R"
  unfolding issue_provider_receipt_locked_def by (intro vtriple_read vtriple_some vtriple_participant_receipt)

lemmas vtriple_tail = vtriple_then [OF vtriple_refresh] vtriple_then [OF vtriple_client_receipt] vtriple_bind [OF vtriple_provider_receipt]
  vtriple_ret

end
