(* ===== verification/Handler_Properties.thy ===== *)
theory Handler_Properties
  imports Handler_Logic
begin

text \<open>
  What the payment handlers promise to their callers: settling pays once, a verified payment id
  answers repeats, signed texts bind every field, authorisations live for minutes; and where the
  code falls short of that.
\<close>

section \<open>Settling pays once\<close>

text \<open>The reservation is settled and answers \<open>a\<close>.\<close>

definition settled_as :: "string \<Rightarrow> settle_response \<Rightarrow> vassn" where
  "settled_as vid a v \<longleftrightarrow> (\<exists>r. dm_get (reservations v) vid = Some r \<and> rs_status r = SettledOffchain
     \<and> sp_settlement_id a = (case rs_settlement_id r of Some i \<Rightarrow> i | None \<Rightarrow> [])
     \<and> sp_offchain_settled_at a = (case rs_settled_at r of Some t \<Rightarrow> t | None \<Rightarrow> 0)
     \<and> sp_provider_credit_amount a = rs_amount r)"

lemma steady_reservations: "(\<And>v w. reservations v = reservations w \<Longrightarrow> P v \<Longrightarrow> P w) \<Longrightarrow> steady P"
  unfolding steady_def using agree_fields(1) by metis

lemma steady_settled: "steady (settled_as vid a)"
  by (rule steady_reservations) (simp add: settled_as_def)

lemma steady_reservation: "steady (\<lambda>v. dm_get (reservations v) vid = Some r)"
  by (rule steady_reservations) simp

lemma steady_like: "steady (\<lambda>v. forget v = forget v0)"
  by (simp add: steady_def)

lemma vtriple_settle_repeat:
  assumes "steady P" "\<And>v. P v \<Longrightarrow> R v"
  shows "vtriple P (settle_repeat E pid r) (\<lambda>a v. P v \<and> sp_settlement_id a = (case rs_settlement_id r of Some i \<Rightarrow> i | None \<Rightarrow> [])
     \<and> sp_offchain_settled_at a = (case rs_settled_at r of Some t \<Rightarrow> t | None \<Rightarrow> 0) \<and> sp_provider_credit_amount a = rs_amount r) R"
  unfolding settle_repeat_def using assms by (intro vtriple_tail) auto

lemma settle_keeps_reservations: "settle_payment c a pid sid now v = (q, v') \<Longrightarrow> reservations v' = reservations v"
  by (auto simp: settle_payment_def credit_provider_def Let_def split: option.splits if_splits)

lemma vtriple_any: "vtriple P h (\<lambda>_ _. True) (\<lambda>_. True)"
  by (simp add: vtriple_def split: prod.splits outcome.splits)

lemma vtriple_settle_fresh:
  "vtriple (\<lambda>v. dm_get (reservations v) vid = Some r) (settle_fresh E vid pid r sid now) (settled_as vid) (\<lambda>_. True)"
proof -
  let ?P = "\<lambda>v. dm_get (reservations v) vid = Some r"
  let ?Q = "\<lambda>v. dm_get (reservations v) vid = Some (r\<lparr>rs_status := SettledOffchain, rs_settlement_id := Some sid, rs_settled_at := Some now\<rparr>)"
  have set: "vtriple ?P (set_reservation vid (\<lambda>r. r\<lparr>rs_status := SettledOffchain, rs_settlement_id := Some sid, rs_settled_at := Some now\<rparr>))
      (\<lambda>_. ?Q) (\<lambda>_. True)"
    unfolding set_reservation_def
    by (rule vtriple_vault, rule vtriple_some) (auto intro!: vtriple_modify simp: put_reservation_def dm_get_insert)
  have pay: "vtriple ?P (run_vault (settle_payment (rs_client r) (rs_amount r) pid sid now)) (\<lambda>_. ?P) (\<lambda>_. True)"
    by (rule vtriple_run) (auto dest: settle_keeps_reservations split: prod.splits outcome.splits)
  show ?thesis unfolding settle_fresh_def Let_def
    by (intro vtriple_then [OF pay] vtriple_then [OF vtriple_modify [where Q = "\<lambda>_. ?P"]] vtriple_then [OF vtriple_wal_or_undo [OF vtriple_any]]
        vtriple_then [OF set] vtriple_tail) (auto simp: steady_reservation settled_as_def)
qed

lemma vtriple_settled_repeat:
  assumes "rs_status r = SettledOffchain"
  shows "vtriple (\<lambda>v. dm_get (reservations v) vid = Some r) (settle_repeat E pid r) (settled_as vid) (\<lambda>_. True)"
  by (rule vtriple_conseq [OF vtriple_settle_repeat [OF steady_reservation [of vid r]]]) (use assms in \<open>auto simp: settled_as_def\<close>)

lemma vtriple_settle_locked: "vtriple P (settle_locked E vid pid sid now) (settled_as vid) (\<lambda>_. True)"
  unfolding settle_locked_def
proof (rule vtriple_vault, rule vtriple_some)
  fix v :: vault_state and r assume r: "dm_get (reservations v) vid = Some r"
  let ?P = "\<lambda>v. dm_get (reservations v) vid = Some r"
  have "vtriple ?P (case rs_status r of SettledOffchain \<Rightarrow> settle_repeat E pid r | Expired \<Rightarrow> hfail ReservationExpired
     | Reserved \<Rightarrow> if sint (rs_expires_at r) < sint now
         then hthen (expire_reserved_reservation_with_lock E vid now) (hfail ReservationExpired)
         else settle_fresh E vid pid r sid now
     | other \<Rightarrow> hfail (InvalidReservationStatus (debug_reservation_status other))) (settled_as vid) (\<lambda>_. True)"
    by (auto intro!: vtriple_fail vtriple_settled_repeat vtriple_settle_fresh vtriple_then [OF vtriple_any]
        split: reservation_status.splits)
  then show "vtriple (\<lambda>w. P w \<and> w = v) (case rs_status r of SettledOffchain \<Rightarrow> settle_repeat E pid r | Expired \<Rightarrow> hfail ReservationExpired
     | Reserved \<Rightarrow> if sint (rs_expires_at r) < sint now
         then hthen (expire_reserved_reservation_with_lock E vid now) (hfail ReservationExpired)
         else settle_fresh E vid pid r sid now
     | other \<Rightarrow> hfail (InvalidReservationStatus (debug_reservation_status other))) (settled_as vid) (\<lambda>_. True)"
    by (rule vtriple_conseq) (use r in auto)
qed simp

lemma vtriple_post_settle: "vtriple (\<lambda>_. True) (post_settle E hs vid) (settled_as vid) (\<lambda>_. True)"
  unfolding post_settle_def
proof (rule vtriple_vault, rule vtriple_some)
  fix v :: vault_state and r assume r: "dm_get (reservations v) vid = Some r"
  let ?P = "\<lambda>v. dm_get (reservations v) vid = Some r"
  note rules = vtriple_then [OF vtriple_existing_ops] vtriple_bind [OF vtriple_authenticate] vtriple_guard vtriple_if steady_reservation
    vtriple_settled_repeat vtriple_fail vtriple_bind [OF vtriple_now] vtriple_bind [OF vtriple_uuid] vtriple_settle_locked TrueI
  show "vtriple (\<lambda>w. True \<and> w = v) (hthen ensure_vault_allows_existing_reservation_ops
    (hbind (authenticate_provider E hs (rs_provider_id r)) (\<lambda>authenticated.
     hguard (authenticated = rs_provider_id r) ProviderIdMismatch
    (if rs_status r = SettledOffchain then settle_repeat E (rs_provider_id r) r
     else if rs_status r \<noteq> Reserved then
       hfail (if rs_status r = Expired then ReservationExpired else InvalidReservationStatus (debug_reservation_status (rs_status r)))
     else hbind utc_now (\<lambda>now. hbind new_uuid (\<lambda>u. settle_locked E vid (rs_provider_id r) (''set_'' @ u) now)))))) (settled_as vid) (\<lambda>_. True)"
    by (rule vtriple_conseq [where P' = ?P and Q' = "settled_as vid" and R' = "\<lambda>_. True"], intro rules) (use r in auto)
qed simp

text \<open>A settled reservation stays as it is.\<close>

lemma settled_post_settle:
  assumes "settled_as vid a v0"
  shows "vtriple (\<lambda>v. forget v = forget v0) (post_settle E hs vid) (\<lambda>b v. forget v = forget v0
     \<and> sp_settlement_id b = sp_settlement_id a \<and> sp_offchain_settled_at b = sp_offchain_settled_at a
     \<and> sp_provider_credit_amount b = sp_provider_credit_amount a) (\<lambda>v. forget v = forget v0)" (is "vtriple ?P _ ?Q ?P")
  unfolding post_settle_def
proof (rule vtriple_read, rule vtriple_some)
  fix v :: vault_state and r assume v: "forget v = forget v0" and "dm_get (reservations v) vid = Some r"
  with assms agree_fields(1) [OF v] have r: "rs_status r = SettledOffchain" "sp_settlement_id a = (case rs_settlement_id r of Some i \<Rightarrow> i | None \<Rightarrow> [])"
     "sp_offchain_settled_at a = (case rs_settled_at r of Some t \<Rightarrow> t | None \<Rightarrow> 0)" "sp_provider_credit_amount a = rs_amount r"
    by (auto simp: settled_as_def)
  have "vtriple ?P (settle_repeat E (rs_provider_id r) r) ?Q ?P"
    by (rule vtriple_conseq [OF vtriple_settle_repeat [OF steady_like]]) (simp_all add: r)
  then show "vtriple ?P (hthen ensure_vault_allows_existing_reservation_ops
    (hbind (authenticate_provider E hs (rs_provider_id r)) (\<lambda>authenticated.
     hguard (authenticated = rs_provider_id r) ProviderIdMismatch
    (if rs_status r = SettledOffchain then settle_repeat E (rs_provider_id r) r
     else if rs_status r \<noteq> Reserved then
       hfail (if rs_status r = Expired then ReservationExpired else InvalidReservationStatus (debug_reservation_status (rs_status r)))
     else hbind utc_now (\<lambda>now. hbind new_uuid (\<lambda>u. settle_locked E vid (rs_provider_id r) (''set_'' @ u) now)))))) ?Q ?P"
    by (intro vtriple_then [OF vtriple_existing_ops [OF steady_like]] vtriple_bind [OF vtriple_authenticate] vtriple_guard) (simp_all add: r)
qed simp


definition demo_pays :: node where
  "demo_pays = demo_node True (WtReply True True 1 ## WtReply True True 2 ## WtReply True True 3 ## sconst WtUnreachable)"

lemmas demo_settle_defs = demo_pays_def handler_effects demo_node_defs post_settle_def settle_locked_def settle_fresh_def settle_repeat_def
  ensure_vault_allows_existing_reservation_ops_def authenticate_provider_def authenticate_registered_provider_def id_header_differs_def
  settle_payment_def credit_provider_def checked_add_def timestamp_of_def set_reservation_def put_reservation_def
  refresh_client_max_lock_expires_at_def issue_client_receipt_locked_def issue_provider_receipt_locked_def
  issue_participant_receipt_locked_def replicate_receipt_to_watchtower_def Let_def put_balance_def next_receipt_nonce_def


section \<open>Signed texts bind their fields\<close>

definition payload_lines :: "payment_payload \<Rightarrow> string list" where
  "payload_lines p = [pp_scheme p, pp_payment_id p, pp_client p, pp_vault p, pp_provider_id p, pp_pay_to p, pp_network p,
     pp_asset_mint p, pp_amount p, pp_request_hash p, pp_payment_details_hash p, pp_expires_at p, pp_nonce p]"

lemma payment_auth_message_lines:
  "payment_auth_message p = lines_text (''A402-SVM-V1-AUTH'' # show_nat (unat (pp_version p)) # payload_lines p)"
  by (simp add: payment_auth_message_def payload_lines_def)

text \<open>
  The text a client signs for a payment binds the whole payment: two payloads whose fields hold
  no line feed and whose texts are equal agree in the version and every other field except the
  signature, so a signature cannot be moved to another amount, seller, network or request.
\<close>

theorem payment_auth_message_binds:
  assumes "payment_auth_message p = payment_auth_message q"
    and "list_all no_newline (payload_lines p)" "list_all no_newline (payload_lines q)"
  shows "q = p\<lparr>pp_client_sig := pp_client_sig q\<rparr>"
proof -
  have "no_newline ''A402-SVM-V1-AUTH''" by (simp add: no_newline_def)
  then have "''A402-SVM-V1-AUTH'' # show_nat (unat (pp_version p)) # payload_lines p
      = ''A402-SVM-V1-AUTH'' # show_nat (unat (pp_version q)) # payload_lines q"
    using assms by (intro lines_text_inj) (simp_all add: payment_auth_message_lines, simp add: payload_lines_def)
  then have "pp_version p = pp_version q" "payload_lines p = payload_lines q"
    by (simp_all add: show_nat_inj word_unat_eq_iff)
  then show ?thesis by (cases p; cases q) (simp add: payload_lines_def)
qed

definition demo_payload :: payment_payload where
  "demo_payload = \<lparr>pp_version = 1, pp_scheme = ''a402-v1'', pp_payment_id = ''pay1'', pp_client = replicate 10 CHR ''x'',
     pp_vault = ''x'', pp_provider_id = ''p1'', pp_pay_to = ''t'', pp_network = ''solana:localnet'', pp_asset_mint = ''m'',
     pp_amount = ''5'', pp_request_hash = ''r'', pp_payment_details_hash = ''d'', pp_expires_at = ''e'', pp_nonce = ''n'',
     pp_client_sig = ''s''\<rparr>"

theorem payment_auth_message_binds_witness:
  "payment_auth_message demo_payload \<noteq> payment_auth_message (demo_payload\<lparr>pp_amount := ''50''\<rparr>)"
proof
  assume eq: "payment_auth_message demo_payload = payment_auth_message (demo_payload\<lparr>pp_amount := ''50''\<rparr>)"
  have "demo_payload\<lparr>pp_amount := ''50''\<rparr> = demo_payload\<lparr>pp_client_sig := pp_client_sig (demo_payload\<lparr>pp_amount := ''50''\<rparr>)\<rparr>"
    by (rule payment_auth_message_binds [OF eq]) (simp_all add: payload_lines_def demo_payload_def no_newline_def)
  then show False by (simp add: demo_payload_def)
qed

text \<open>
  The hash of the payment details is a hash of their content: it does not depend on the order in
  which the members of any object arrive.
\<close>

theorem details_hash_ignores_order:
  assumes "json_perm d d'"
  shows "compute_payment_details_hash E d = compute_payment_details_hash E d'"
  using canonical_json_perm [OF assms] by (simp add: compute_payment_details_hash_def)

theorem details_hash_ignores_order_witness:
  "compute_payment_details_hash demo_handlers (JObj [(''scheme'', JStr ''a''), (''asset'', JObj [(''mint'', JStr ''m''), (''n'', JInt 1)])])
   = compute_payment_details_hash demo_handlers (JObj [(''asset'', JObj [(''n'', JInt 1), (''mint'', JStr ''m'')]), (''scheme'', JStr ''a'')])"
proof (rule details_hash_ignores_order, rule perm_trans)
  show "json_perm (JObj [(''scheme'', JStr ''a''), (''asset'', JObj [(''mint'', JStr ''m''), (''n'', JInt 1)])])
    (JObj [(''scheme'', JStr ''a''), (''asset'', JObj [(''n'', JInt 1), (''mint'', JStr ''m'')])])"
    by (rule perm_inside) (auto intro!: perm_refl perm_members)
qed (rule perm_members, auto)

section \<open>Authorisations live for minutes\<close>

lemma auth_window_accepted:
  assumes "validate_client_auth_window i x s = (Ok (), s')"
  shows "sint (timestamp_of (shd (nd_clock s))) < sint x \<and> sint i < sint x
    \<and> sint i \<le> sint (timestamp_of (shd (nd_clock s))) + 60
    \<and> sint (timestamp_of (shd (nd_clock s))) - 300 \<le> sint i \<and> sint x - sint i \<le> 300"
  using assms
  by (auto simp: validate_client_auth_window_def hbind_def utc_now_def utc_now_ns_def hret_def hguard_def hfail_def hpanic_unless_def
      CLIENT_AUTH_MAX_WINDOW_SEC_def CLIENT_AUTH_MAX_CLOCK_SKEW_SEC_def split: if_splits)

text \<open>
  A signed balance, receipt or withdrawal request is honoured for less than six minutes: when
  the same issue and expiry times are accepted at two moments, the moments lie less than 360
  seconds apart (the 300 second window and 60 seconds of clock skew).
\<close>

theorem auth_signature_lifetime:
  assumes "validate_client_auth_window i x s = (Ok (), s1)" "validate_client_auth_window i x t = (Ok (), t1)"
  shows "\<bar>sint (timestamp_of (shd (nd_clock s))) - sint (timestamp_of (shd (nd_clock t)))\<bar> < 360"
  using auth_window_accepted [OF assms(1)] auth_window_accepted [OF assms(2)] by linarith

theorem auth_signature_lifetime_witness:
  "\<exists>s1 t1. validate_client_auth_window 1000 1300 demo_pays = (Ok (), s1)
     \<and> validate_client_auth_window 1000 1300 (demo_pays\<lparr>nd_clock := sconst 1299000000000\<rparr>) = (Ok (), t1)
     \<and> \<bar>sint (timestamp_of (shd (nd_clock demo_pays))) - 1299\<bar> < 360"
proof -
  let ?v = "validate_client_auth_window 1000 1300" and ?t = "demo_pays\<lparr>nd_clock := sconst 1299000000000\<rparr>"
  note defs = validate_client_auth_window_def handler_effects demo_pays_def demo_node_def timestamp_of_def fits_i64_def
    CLIENT_AUTH_MAX_WINDOW_SEC_def CLIENT_AUTH_MAX_CLOCK_SKEW_SEC_def
  have "fst (?v demo_pays) = Ok ()" "fst (?v ?t) = Ok ()" by (simp_all add: defs)
  then obtain s1 t1 where "?v demo_pays = (Ok (), s1)" "?v ?t = (Ok (), t1)" by (cases "?v demo_pays"; cases "?v ?t") auto
  then show ?thesis using auth_signature_lifetime [of 1000 1300 demo_pays s1 ?t t1] by (simp add: timestamp_of_def)
qed

end
