(* ===== verification/Verify_Properties.thy ===== *)
theory Verify_Properties
  imports Handler_Properties
begin

text \<open>
  Payment ids and registrations: a known payment id locks nothing again, two overlapping requests
  with one id lock twice, and a registration that carries a malformed secret spoils the log.
\<close>

section \<open>Repeating a verified payment\<close>

text \<open>The registration of open sellers is the one change a rejected or repeated payment can leave behind.\<close>

definition same_money :: "vault_state \<Rightarrow> vassn" where
  "same_money v0 v \<longleftrightarrow> forget (v\<lparr>providers := []\<rparr>) = forget (v0\<lparr>providers := []\<rparr>)"

lemma steady_same_money: "steady (same_money v0)"
  unfolding steady_def same_money_def forget_updates by metis

lemma vtriple_new_verification:
  "steady P \<Longrightarrow> (\<And>v. P v \<Longrightarrow> R v) \<Longrightarrow> vtriple P ensure_vault_allows_new_verification (\<lambda>_. P) R"
  unfolding ensure_vault_allows_new_verification_def
  by (intro vtriple_bind [OF vtriple_lifecycle] vtriple_if vtriple_ret vtriple_fail)

lemma vtriple_match_detail: "(\<And>v. P v \<Longrightarrow> R v) \<Longrightarrow> vtriple P k Q R \<Longrightarrow> vtriple P (match_detail d path x e k) Q R"
  unfolding match_detail_def by (intro vtriple_some vtriple_guard)

lemma vtriple_details: "(\<And>v. P v \<Longrightarrow> R v) \<Longrightarrow> vtriple P (validate_payment_details_match_payload d p) (\<lambda>_. P) R"
  unfolding validate_payment_details_match_payload_def by (intro vtriple_match_detail vtriple_ret)

lemma vtriple_client_signature: "(\<And>v. P v \<Longrightarrow> R v) \<Longrightarrow> vtriple P (verify_client_signature E p) (\<lambda>_. P) R"
  unfolding verify_client_signature_def verify_client_ed25519_def by (intro vtriple_some vtriple_guard vtriple_ret)

lemma vtriple_window: "(\<And>v. P v \<Longrightarrow> R v) \<Longrightarrow> vtriple P (parse_verify_window_sec d) (\<lambda>_. P) R"
  unfolding parse_verify_window_sec_def by (intro vtriple_some vtriple_guard vtriple_ret)

lemma vtriple_open_provider: "vtriple (same_money v0) (ensure_open_provider_registered E p) (\<lambda>_. same_money v0) (same_money v0)"
  unfolding ensure_open_provider_registered_def Let_def
  by (intro vtriple_read)
    (auto intro!: vtriple_ret vtriple_fail vtriple_then [OF vtriple_wal] vtriple_modify simp: same_money_def split: sum.splits)

lemma vtriple_reply:
  "vtriple P (verify_reply E r) (\<lambda>a v. P v \<and> vr_verification_id a = rs_verification_id r \<and> vr_reservation_id a = rs_reservation_id r
     \<and> vr_amount a = rs_amount r) R"
  unfolding verify_reply_def issue_verification_receipt_def Let_def
  by (rule vtriple_bind [where M = "\<lambda>_. P"]) (auto intro!: vtriple_read vtriple_ret)

lemma vtriple_provider_fields:
  "(\<And>v. P v \<Longrightarrow> R v) \<Longrightarrow> vtriple P k Q R \<Longrightarrow> vtriple P (verify_provider_fields E hs req k) Q R"
  unfolding verify_provider_fields_def Let_def
  by (intro vtriple_bind [OF vtriple_authenticate] vtriple_read vtriple_some vtriple_guard)
    (auto intro!: vtriple_guard vtriple_fail split: sum.splits)

text \<open>The decision on a payment id that is known, and on one that is not.\<close>

definition known_payment :: "payment_payload \<Rightarrow> vault_state \<Rightarrow> reservation option" where
  "known_payment p v = Option.bind (dm_get (payment_id_index v) (pp_payment_id p)) (dm_get (reservations v))"

lemma same_money_payment: "same_money v0 v \<Longrightarrow> known_payment p v = known_payment p v0"
  using agree_fields(1,4) [of "v\<lparr>providers := []\<rparr>" "v0\<lparr>providers := []\<rparr>"] by (simp add: same_money_def known_payment_def)

definition request_hash_of :: "('p, 's) handler_env \<Rightarrow> verify_request \<Rightarrow> b32" where
  "request_hash_of E req = word_of_bytes (compute_request_hash E (vq_request_context req) (pp_payment_details_hash (vq_payment_payload req)))"

definition repeats :: "reservation \<Rightarrow> verify_decision \<Rightarrow> bool" where
  "repeats r d \<longleftrightarrow> (case d of VerifyFresh _ \<Rightarrow> False | VerifyRepeat a \<Rightarrow> vr_verification_id a = rs_verification_id r
     \<and> vr_reservation_id a = rs_reservation_id r \<and> vr_amount a = rs_amount r)"

lemma vtriple_known_payment:
  assumes "known_payment p v0 = Some r"
  shows "vtriple (same_money v0) (verify_payment_id E p h m) (\<lambda>d v. same_money v0 v \<and> repeats r d \<and> rs_request_hash r = h) (same_money v0)"
  unfolding verify_payment_id_def
proof (rule vtriple_read)
  fix v assume v: "same_money v0 v"
  have "vtriple (same_money v0) (hbind (verify_reply E r) (\<lambda>a. hret (VerifyRepeat a))) (\<lambda>d v. same_money v0 v \<and> repeats r d) (same_money v0)"
    by (rule vtriple_bind [OF vtriple_reply vtriple_ret]) (simp add: repeats_def)
  then show "vtriple (same_money v0) (case Option.bind (dm_get (payment_id_index v) (pp_payment_id p)) (dm_get (reservations v)) of
       Some existing \<Rightarrow> if rs_request_hash existing = h then hbind (verify_reply E existing) (\<lambda>r. hret (VerifyRepeat r)) else hfail PaymentIdReused
     | None \<Rightarrow> hbind m (\<lambda>r. hret (VerifyFresh r))) (\<lambda>d v. same_money v0 v \<and> repeats r d \<and> rs_request_hash r = h) (same_money v0)"
    using same_money_payment [OF v, of p] assms by (auto simp: known_payment_def intro: vtriple_fail)
qed

lemma vtriple_decide:
  assumes "\<And>c a w. pubkey_from_str (he_lib E) (pp_client (vq_payment_payload req)) = Some c \<Longrightarrow>
      parse_u64 (pp_amount (vq_payment_payload req)) = Some a \<Longrightarrow> vtriple (same_money v0) (verify_payment_id E (vq_payment_payload req) (request_hash_of E req)
      (verify_new_reservation E (vq_payment_payload req) c a w (request_hash_of E req))) Q (same_money v0)"
  shows "vtriple (same_money v0) (verify_decide E hs req) Q (same_money v0)"
  unfolding verify_decide_def Let_def using steady_same_money assms [unfolded request_hash_of_def]
  by (intro vtriple_some vtriple_guard vtriple_then [OF vtriple_new_verification] vtriple_then [OF vtriple_details] vtriple_read
      vtriple_bind [OF vtriple_now_ns] vtriple_then [OF vtriple_client_signature] vtriple_bind [OF vtriple_window]
      vtriple_then [OF vtriple_open_provider] vtriple_provider_fields)

text \<open>
  C28: A payment id is good for one reservation. When the id of a payment is known, a verify request
  with it locks no funds and changes no balance, credit, reservation or settlement, whatever it
  answers; when it succeeds, its request hash is the one of the known reservation and the answer
  names that reservation.
\<close>

theorem verify_repeat_locks_nothing:
  assumes "known_payment (vq_payment_payload req) (as_vault (nd_app s)) = Some r"
    and "post_verify E hs req s = (q, s')" "q \<noteq> Panic"
  shows "same_money (as_vault (nd_app s)) (as_vault (nd_app s'))
    \<and> (\<forall>a. q = Ok a \<longrightarrow> rs_request_hash r = request_hash_of E req \<and> vr_verification_id a = rs_verification_id r
        \<and> vr_reservation_id a = rs_reservation_id r \<and> vr_amount a = rs_amount r)"
proof -
  let ?v = "as_vault (nd_app s)"
  have "vtriple (same_money ?v) (post_verify E hs req) (\<lambda>a v. same_money ?v v \<and> repeats r (VerifyRepeat a)
      \<and> rs_request_hash r = request_hash_of E req) (same_money ?v)"
    unfolding post_verify_def
    by (rule vtriple_bind [OF vtriple_decide [OF vtriple_known_payment [OF assms(1)]]])
      (auto simp: repeats_def vtriple_def hret_def split: verify_decision.splits)
  note post = this
  have "same_money ?v ?v" by (simp add: same_money_def)
  from vtripleD [OF post this] vtriple_errD [OF post this] assms(2,3) show ?thesis
    by (cases q) (fastforce simp: repeats_def)+
qed

text \<open>A payment of the sample client to the sample provider; \<open>pid\<close> is its payment id.\<close>

definition demo_shop :: "(b32, b32) handler_env" where
  "demo_shop = demo_handlers\<lparr>he_sha256 := (\<lambda>_. 5), he_verify_strict := (\<lambda>_ _ _. True), he_parse_rfc3339 := (\<lambda>_. Some (10 ^ 15))\<rparr>"

definition demo_payment :: "string \<Rightarrow> payment_payload" where
  "demo_payment pid = demo_payload\<lparr>pp_payment_id := pid, pp_pay_to := replicate 55 CHR ''x'', pp_asset_mint := replicate 3 CHR ''x'',
     pp_request_hash := chars (word_bytes (5 :: b32)), pp_payment_details_hash := chars (word_bytes (5 :: b32)),
     pp_client_sig := replicate 64 CHR ''s''\<rparr>"

definition demo_details :: jvalue where
  "demo_details = JObj [(''scheme'', JStr ''a402-v1''), (''providerId'', JStr ''p1''), (''payTo'', JStr (replicate 55 CHR ''x'')),
     (''network'', JStr ''solana:localnet''), (''asset'', JObj [(''mint'', JStr (replicate 3 CHR ''x''))]), (''amount'', JStr ''5''),
     (''vault'', JObj [(''config'', JStr ''x'')]), (''verifyWindowSec'', JInt 60)]"

definition demo_verify :: "string \<Rightarrow> verify_request" where
  "demo_verify pid = \<lparr>vq_payment_payload = demo_payment pid, vq_payment_details = Some demo_details,
     vq_request_context = \<lparr>rc_method = ''GET'', rc_origin = ''o'', rc_path_and_query = ''/'', rc_body_sha256 = []\<rparr>\<rparr>"

lemma parse_five: "parse_u64 ''5'' = Some 5"
  by (simp add: parse_u64_def digit_val_def)

lemma open_provider_known:
  "dm_get (providers (as_vault (nd_app s))) (pp_provider_id p) \<noteq> None \<Longrightarrow> ensure_open_provider_registered E p s = (Ok (), s)"
  by (simp add: ensure_open_provider_registered_def hvault_def hret_def)

lemmas demo_decide_defs = demo_shop_def demo_verify_def demo_payment_def demo_payload_def demo_details_def verify_decide_def
  ensure_vault_allows_new_verification_def is_supported_payment_scheme_def SUPPORTED_PAYMENT_SCHEMES_def
  compute_payment_details_hash_def compute_request_hash_def validate_payment_details_match_payload_def match_detail_def
  payment_details_str_def verify_client_signature_def verify_client_ed25519_def parse_verify_window_sec_def as_i64_def
  verify_provider_fields_def verify_payment_id_def settlement_target_parse_def parse_network_def
  starts_with_def str_bytes_chars parse_five open_provider_known word_of_bytes_word_bytes

lemma demo_repeat_run: "\<exists>a. fst (post_verify demo_shop (\<lambda>_. None) (demo_verify ''pay'') demo_pays) = Ok a"
  by (simp add: post_verify_def demo_decide_defs demo_settle_defs verify_reply_def issue_verification_receipt_def)

theorem verify_repeat_locks_nothing_witness:
  "\<exists>a s'. post_verify demo_shop (\<lambda>_. None) (demo_verify ''pay'') demo_pays = (Ok a, s') \<and> vr_verification_id a = ''ver''
     \<and> same_money (as_vault demo_app) (as_vault (nd_app s'))"
proof -
  have known: "known_payment (vq_payment_payload (demo_verify ''pay'')) (as_vault (nd_app demo_pays)) = Some demo_reservation"
    by (simp add: known_payment_def demo_verify_def demo_payment_def demo_pays_def demo_node_def demo_app_def fresh_app_def demo_defs)
  obtain a s' where run: "post_verify demo_shop (\<lambda>_. None) (demo_verify ''pay'') demo_pays = (Ok a, s')"
    using demo_repeat_run by (cases "post_verify demo_shop (\<lambda>_. None) (demo_verify ''pay'') demo_pays") auto
  from verify_repeat_locks_nothing [OF known run] run show ?thesis
    by (auto simp: demo_reservation_def demo_pays_def demo_node_def)
qed

section \<open>Two requests with one payment id\<close>

lemma agree_locked: "forget w = forget v \<Longrightarrow> locked_of w c = locked_of v c"
proof -
  assume "forget w = forget v"
  then have "map_option erase_lock (dm_get (client_balances w) c) = map_option erase_lock (dm_get (client_balances v) c)"
    using dm_get_map [of erase_lock] forget_simps(1) by metis
  then show ?thesis
    by (cases "dm_get (client_balances w) c"; cases "dm_get (client_balances v) c") (auto simp: locked_of_def funds_def dest: arg_cong [where f = cb_locked])
qed

lemma reserve_locks:
  assumes "reserve_balance c a v = (Ok u, v')"
  shows "reservations v' = reservations v \<and> locked_of v' c = locked_of v c + unat a"
  using assms by (rule reserve_balance_Ok) (auto simp: locked_of_def funds_def put_balance_def dm_get_insert dest: checked_add_SomeD)

lemma verify_commit_locks:
  assumes "verify_commit E p r s = (Ok (), s')"
  shows "dm_get (reservations (as_vault (nd_app s'))) (rs_verification_id r) = Some r
    \<and> (\<forall>vid. vid \<noteq> rs_verification_id r \<longrightarrow>
        dm_get (reservations (as_vault (nd_app s'))) vid = dm_get (reservations (as_vault (nd_app s))) vid)
    \<and> locked_of (as_vault (nd_app s')) (rs_client r) = locked_of (as_vault (nd_app s)) (rs_client r) + unat (rs_amount r)"
proof -
  let ?v = "as_vault (nd_app s)" and ?c = "rs_client r"
  let ?got = "\<lambda>v. reservations v = reservations ?v \<and> locked_of v ?c = locked_of ?v ?c + unat (rs_amount r)"
  let ?Q = "\<lambda>v. reservations v = dm_insert (rs_verification_id r) r (reservations ?v) \<and> locked_of v ?c = locked_of ?v ?c + unat (rs_amount r)"
  have steady: "steady ?Q" unfolding steady_def by (metis agree_fields(1) agree_locked)
  have "vtriple (\<lambda>v. v = ?v) (run_vault (reserve_balance ?c (rs_amount r))) (\<lambda>_. ?got) (\<lambda>_. True)"
    by (rule vtriple_run) (auto split: prod.splits outcome.splits dest: reserve_locks)
  then have "vtriple (\<lambda>v. v = ?v) (verify_commit E p r) (\<lambda>_. ?Q) (\<lambda>_. True)"
    unfolding verify_commit_def
    by (rule vtriple_then) (intro vtriple_then [OF vtriple_wal_or_undo [OF vtriple_any]] vtriple_then [OF vtriple_modify [where Q = "\<lambda>_. ?Q"]]
        vtriple_tail steady, auto simp: locked_of_def funds_def)
  from vtripleD [OF this refl assms] show ?thesis by (auto simp: dm_get_insert)
qed

text \<open>A fresh decision: the reservation carries the id, client and amount of the payment.\<close>

definition reserves_for :: "('p, 's) handler_env \<Rightarrow> payment_payload \<Rightarrow> reservation \<Rightarrow> bool" where
  "reserves_for E p r \<longleftrightarrow> rs_payment_id r = pp_payment_id p \<and> pubkey_from_str (he_lib E) (pp_client p) = Some (rs_client r)
     \<and> parse_u64 (pp_amount p) = Some (rs_amount r) \<and> rs_status r = Reserved"

lemma vtriple_decide_fresh:
  "vtriple (same_money v0) (verify_decide E hs req) (\<lambda>d v. same_money v0 v \<and>
     (case d of VerifyFresh r \<Rightarrow> reserves_for E (vq_payment_payload req) r | VerifyRepeat a \<Rightarrow> True)) (same_money v0)"
proof (rule vtriple_decide)
  let ?p = "vq_payment_payload req"
  let ?Q = "\<lambda>d v. same_money v0 v \<and> (case d of VerifyFresh r \<Rightarrow> reserves_for E ?p r | VerifyRepeat a \<Rightarrow> True)"
  fix c a w assume ca: "pubkey_from_str (he_lib E) (pp_client ?p) = Some c" "parse_u64 (pp_amount ?p) = Some a"
  have "vtriple (same_money v0) (verify_new_reservation E ?p c a w h) (\<lambda>r v. same_money v0 v \<and> reserves_for E ?p r) (same_money v0)" for h
    unfolding verify_new_reservation_def
    by (intro vtriple_bind [OF vtriple_now] vtriple_bind [OF vtriple_uuid] vtriple_some vtriple_guard vtriple_ret)
      (simp_all add: reserves_for_def ca)
  then have "vtriple (same_money v0) (hbind (verify_new_reservation E ?p c a w h) (\<lambda>r. hret (VerifyFresh r))) ?Q (same_money v0)" for h
    by (rule vtriple_bind) (rule vtriple_ret, simp)
  moreover have "vtriple (same_money v0) (hbind (verify_reply E r) (\<lambda>a. hret (VerifyRepeat a))) ?Q (same_money v0)" for r
    by (rule vtriple_bind [OF vtriple_reply vtriple_ret]) simp
  ultimately show "vtriple (same_money v0) (verify_payment_id E ?p (request_hash_of E req)
      (verify_new_reservation E ?p c a w (request_hash_of E req))) ?Q (same_money v0)"
    unfolding verify_payment_id_def by (intro vtriple_read) (auto intro: vtriple_fail split: option.splits)
qed

lemma same_money_locked: "same_money v0 v \<Longrightarrow> locked_of v c = locked_of v0 c"
  using agree_locked [of "v\<lparr>providers := []\<rparr>" "v0\<lparr>providers := []\<rparr>" c] by (simp add: same_money_def locked_of_def funds_def)

text \<open>
  The payment id is checked before the lock is taken and not again under it. When a request and
  its retry are both decided before either commits, both commit: two outstanding reservations for
  one payment id, and twice the amount locked.
\<close>

theorem verify_race_locks_twice:
  assumes "verify_decide E hs req s = (Ok (VerifyFresh r1), s1)" "verify_decide E hs req s1 = (Ok (VerifyFresh r2), s2)"
    and "verify_commit E (vq_payment_payload req) r1 s2 = (Ok (), s3)" "verify_commit E (vq_payment_payload req) r2 s3 = (Ok (), s4)"
    and "rs_verification_id r1 \<noteq> rs_verification_id r2"
  shows "dm_get (reservations (as_vault (nd_app s4))) (rs_verification_id r1) = Some r1
    \<and> dm_get (reservations (as_vault (nd_app s4))) (rs_verification_id r2) = Some r2
    \<and> rs_payment_id r1 = rs_payment_id r2 \<and> rs_status r1 = Reserved \<and> rs_status r2 = Reserved
    \<and> locked_of (as_vault (nd_app s4)) (rs_client r1) = locked_of (as_vault (nd_app s)) (rs_client r1) + 2 * unat (rs_amount r1)"
proof -
  have self: "same_money v v" for v by (simp add: same_money_def)
  note one = vtripleD [OF vtriple_decide_fresh self assms(1)] and two = vtripleD [OF vtriple_decide_fresh self assms(2)]
  have "rs_client r1 = rs_client r2" "rs_amount r1 = rs_amount r2" using one two by (auto simp: reserves_for_def)
  moreover have "locked_of (as_vault (nd_app s2)) (rs_client r1) = locked_of (as_vault (nd_app s)) (rs_client r1)"
    using one two same_money_locked by auto
  ultimately show ?thesis
    using one two verify_commit_locks [OF assms(3)] verify_commit_locks [OF assms(4)] assms(5) by (auto simp: reserves_for_def)
qed

definition demo_race :: node where
  "demo_race = demo_pays\<lparr>nd_uuid := ''u1'' ## ''u2'' ## ''u3'' ## sconst ''u4''\<rparr>"

definition demo_reserved :: "string \<Rightarrow> string \<Rightarrow> reservation" where
  "demo_reserved vid rid = \<lparr>rs_verification_id = vid, rs_reservation_id = rid, rs_payment_id = ''new'', rs_client = 10,
     rs_provider_id = ''p1'', rs_amount = 5, rs_request_hash = 5, rs_payment_details_hash = 5, rs_status = Reserved,
     rs_created_at = 1010, rs_expires_at = 1070, rs_settlement_id = None, rs_settled_at = None\<rparr>"

lemma length_chars [simp]: "length (chars bs) = length bs"
  by (simp add: chars_def)

lemma demo_race_decides:
  "fst (verify_decide demo_shop (\<lambda>_. None) (demo_verify ''new'') demo_race) = Ok (VerifyFresh (demo_reserved ''ver_u1'' ''res_u2''))"
  "fst (verify_decide demo_shop (\<lambda>_. None) (demo_verify ''new'') (snd (verify_decide demo_shop (\<lambda>_. None) (demo_verify ''new'') demo_race)))
     = Ok (VerifyFresh (demo_reserved ''ver_u3'' ''res_u4''))"
  by (simp_all add: demo_race_def demo_decide_defs demo_settle_defs verify_new_reservation_def checked_sadd_def demo_reserved_def)

lemma demo_race_commits:
  defines "s2 \<equiv> snd (verify_decide demo_shop (\<lambda>_. None) (demo_verify ''new'') (snd (verify_decide demo_shop (\<lambda>_. None) (demo_verify ''new'') demo_race)))"
  shows "fst (verify_commit demo_shop (demo_payment ''new'') (demo_reserved ''ver_u1'' ''res_u2'') s2) = Ok ()"
    and "fst (verify_commit demo_shop (demo_payment ''new'') (demo_reserved ''ver_u3'' ''res_u4'')
      (snd (verify_commit demo_shop (demo_payment ''new'') (demo_reserved ''ver_u1'' ''res_u2'') s2))) = Ok ()"
  by (simp_all add: s2_def verify_commit_def reserve_balance_def demo_race_def demo_decide_defs demo_settle_defs verify_new_reservation_def
      checked_sadd_def demo_reserved_def)

theorem verify_race_locks_twice_witness:
  "\<exists>s4 :: node. dm_get (reservations (as_vault (nd_app s4))) ''ver_u1'' = Some (demo_reserved ''ver_u1'' ''res_u2'')
    \<and> dm_get (reservations (as_vault (nd_app s4))) ''ver_u3'' = Some (demo_reserved ''ver_u3'' ''res_u4'')
    \<and> locked_of (as_vault (nd_app s4)) 10 = locked_of (as_vault (nd_app demo_race)) 10 + 10"
proof -
  let ?d = "verify_decide demo_shop (\<lambda>_. None) (demo_verify ''new'')" and ?c = "verify_commit demo_shop (demo_payment ''new'')"
  obtain s1 where 1: "?d demo_race = (Ok (VerifyFresh (demo_reserved ''ver_u1'' ''res_u2'')), s1)"
    using demo_race_decides(1) by (cases "?d demo_race") auto
  obtain s2 where 2: "?d s1 = (Ok (VerifyFresh (demo_reserved ''ver_u3'' ''res_u4'')), s2)"
    using demo_race_decides(2) 1 by (cases "?d s1") auto
  obtain s3 where 3: "?c (demo_reserved ''ver_u1'' ''res_u2'') s2 = (Ok (), s3)"
    using demo_race_commits(1) 1 2 by (cases "?c (demo_reserved ''ver_u1'' ''res_u2'') s2") auto
  obtain s4 where 4: "?c (demo_reserved ''ver_u3'' ''res_u4'') s3 = (Ok (), s4)"
    using demo_race_commits(2) 1 2 3 by (cases "?c (demo_reserved ''ver_u3'' ''res_u4'') s3") auto
  have p: "vq_payment_payload (demo_verify ''new'') = demo_payment ''new''" by (simp add: demo_verify_def)
  have "rs_verification_id (demo_reserved ''ver_u1'' ''res_u2'') \<noteq> rs_verification_id (demo_reserved ''ver_u3'' ''res_u4'')"
    by (simp add: demo_reserved_def)
  note both = verify_race_locks_twice [OF 1 2, unfolded p, OF 3 4 this]
  show ?thesis by (rule exI [of _ s4]) (use both in \<open>simp add: demo_reserved_def\<close>)
qed

section \<open>Registrations that poison the log\<close>

text \<open>
  A registration is logged with every secret the request carries, also those its authentication
  mode ignores and does not check. When one of them is not hexadecimal, the request succeeds, and
  the entry it made durable cannot be replayed: every later start of the node fails.
\<close>

theorem poisoned_registration:
  assumes "wal_lib_laws (he_lib E)" "nonces_ok s" "dm_get (providers (as_vault (nd_app s))) (gq_provider_id req) = None"
    and "gq_auth_mode req = ''none''" "gq_participant_pubkey req = None"
    and "gq_api_key_hash req \<noteq> []" "hex_decode (he_lib E) (gq_api_key_hash req) = None"
    and "post_register_provider E req s = (Ok pid, s')"
  shows "\<exists>e. log_extends (he_lib E) (as_wal (nd_app s)) (as_wal (nd_app s')) [e]
    \<and> (\<forall>t now uuid. \<exists>err. replay_entry (he_curve E) (he_sha256 E) (he_lib E) now uuid e t = Inl err)"
proof -
  obtain target where t: "settlement_target_parse (pubkey_from_str (he_lib E)) (gq_network req) (gq_asset_mint req)
      (gq_settlement_token_account req) = Inr target"
    using assms(8) by (auto simp: post_register_provider_def hfail_def split: sum.splits)
  obtain d where d: "parse_network (gq_network req) = Inr d"
    using assms(8) t by (auto simp: post_register_provider_def hfail_def split: sum.splits)
  let ?w = "wal_provider_of req None target (cd_kind d)"
  obtain q s1 where tr: "wal_try E (WProviderRegistered ?w) s = (q, s1)" by (cases "wal_try E (WProviderRegistered ?w) s")
  from wal_try_run [OF assms(1,2) tr] obtain ok w where ok: "q = Ok ok" "nd_app s1 = (nd_app s)\<lparr>as_wal := w\<rparr>"
    "log_extends (he_lib E) (as_wal (nd_app s)) w (if ok then [WProviderRegistered ?w] else [])" by blast
  have "ok \<and> as_wal (nd_app s') = w" using assms(3-5,8) t d tr ok
    by (auto simp: post_register_provider_def registration_participant_def registration_secrets_def register_commit_def hbind_def hret_def
        hguard_def hpanic_unless_def hvault_def hthen_def wal_log_def hfail_def modify_vault_def set_vault_def split: if_splits)
  moreover have "\<exists>err. replay_entry (he_curve E) (he_sha256 E) (he_lib E) now uuid (WProviderRegistered ?w) a = Inl err" for a now uuid
    using assms(5-7) t by (simp add: replay_provider_def wal_provider_of_def replay_bind_def opt_map_replay_def field_def)
  ultimately show ?thesis using ok(3) by (intro exI [of _ "WProviderRegistered ?w"]) simp
qed

definition strict_hex :: "(b32, b32) handler_env" where
  "strict_hex = demo_handlers\<lparr>he_lib := demo_lib\<lparr>hex_encode := (\<lambda>bs. CHR ''h'' # chars bs),
     hex_decode := (\<lambda>t. case t of [] \<Rightarrow> None | c # cs \<Rightarrow> if c = CHR ''h'' then Some (str_bytes cs) else None)\<rparr>\<rparr>"

definition demo_registration :: register_provider_request where
  "demo_registration = \<lparr>gq_provider_id = ''p2'', gq_display_name = ''Seller'', gq_participant_pubkey = None,
     gq_participant_attestation = None, gq_settlement_token_account = ''t'', gq_network = ''solana:localnet'',
     gq_asset_mint = ''m'', gq_allowed_origins = [], gq_auth_mode = ''none'', gq_api_key_hash = ''none'',
     gq_mtls_cert_fingerprint = None\<rparr>"

lemma strict_hex_laws: "wal_lib_laws (he_lib strict_hex)"
  using demo_lib_laws by (simp add: wal_lib_laws_def strict_hex_def demo_handlers_def str_bytes_chars)

theorem poisoned_registration_witness:
  "\<exists>s' e. post_register_provider strict_hex demo_registration demo_pays = (Ok ''p2'', s')
     \<and> log_extends (he_lib strict_hex) (as_wal demo_app) (as_wal (nd_app s')) [e]
     \<and> (\<exists>err. replay_entry word_curve (he_sha256 strict_hex) (he_lib strict_hex) 0 [] e demo_app = Inl err)"
proof -
  let ?r = "post_register_provider strict_hex demo_registration demo_pays"
  have "fst ?r = Ok ''p2''"
    by (simp add: post_register_provider_def registration_participant_def registration_secrets_def register_commit_def demo_registration_def
        strict_hex_def demo_settle_defs settlement_target_parse_def parse_network_def starts_with_def)
  then obtain s' where run: "?r = (Ok ''p2'', s')" by (cases ?r) auto
  have "nonces_ok demo_pays" by (simp add: demo_pays_def demo_node_ok)
  with run have "\<exists>e. log_extends (he_lib strict_hex) (as_wal (nd_app demo_pays)) (as_wal (nd_app s')) [e]
      \<and> (\<forall>t now uuid. \<exists>err. replay_entry (he_curve strict_hex) (he_sha256 strict_hex) (he_lib strict_hex) now uuid e t = Inl err)"
    by (intro poisoned_registration [OF strict_hex_laws])
      (simp_all add: demo_registration_def strict_hex_def demo_node_defs demo_pays_def)
  then show ?thesis using run by (auto simp: demo_pays_def demo_node_def strict_hex_def demo_handlers_def)
qed

end
