(* ===== verification/Watchtower.thy ===== *)
theory Watchtower
  imports Enclave_Chain Wal_Log Text_Format
begin

text \<open>
  The receipt watchtower (\<open>watchtower/src\<close>): the store of the latest signed receipt per participant
  (\<open>receipt_store.rs\<close>), the check of an incoming receipt (\<open>main.rs\<close>), and the challenge it sends when
  someone forces a settlement with an older receipt (\<open>challenger.rs\<close>). The chain node is a function
  from addresses to account data; Ed25519 verification and the codecs are parameters.
\<close>

section \<open>Receipt store\<close>

record stored_receipt =
  sd_participant :: string
  sd_participant_kind :: u8
  sd_recipient_ata :: string
  sd_free_balance :: u64
  sd_locked_balance :: u64
  sd_max_lock_expires_at :: i64
  sd_nonce :: u64
  sd_timestamp :: i64
  sd_snapshot_seqno :: u64
  sd_vault_config :: string
  sd_signature :: string
  sd_message :: string

record receipt_key =
  rk_vault :: pubkey
  rk_participant :: pubkey
  rk_participant_kind :: u8

definition storage_key :: "wal_lib \<Rightarrow> receipt_key \<Rightarrow> string" where
  "storage_key L key = pubkey_to_string L (rk_vault key) @ '':'' @ pubkey_to_string L (rk_participant key) @ '':''
     @ show_nat (unat (rk_participant_kind key))"

text \<open>\<open>rt_disk\<close> is what the file holds; \<open>None\<close> when it is absent or does not parse.\<close>

record receipt_store =
  rt_receipts :: "(string, stored_receipt) dashmap"
  rt_disk :: "(string \<times> stored_receipt) list option"

definition load_from_disk :: "(string \<times> stored_receipt) list option \<Rightarrow> (string, stored_receipt) dashmap" where
  "load_from_disk disk = (case disk of None \<Rightarrow> [] | Some entries \<Rightarrow> fold (\<lambda>(k, r) m. dm_insert k r m) entries [])"

definition receipt_store_new :: "(string \<times> stored_receipt) list option \<Rightarrow> receipt_store" where
  "receipt_store_new disk = \<lparr>rt_receipts = load_from_disk disk, rt_disk = disk\<rparr>"

text \<open>The decision and the insertion of \<open>store_receipt\<close> are two accesses to the map.\<close>

definition should_store :: "wal_lib \<Rightarrow> receipt_key \<Rightarrow> stored_receipt \<Rightarrow> receipt_store \<Rightarrow> bool" where
  "should_store L key receipt st = (case dm_get (rt_receipts st) (storage_key L key) of
     Some existing \<Rightarrow> sd_nonce existing < sd_nonce receipt | None \<Rightarrow> True)"

definition insert_receipt :: "wal_lib \<Rightarrow> receipt_key \<Rightarrow> stored_receipt \<Rightarrow> receipt_store \<Rightarrow> receipt_store" where
  "insert_receipt L key receipt st = st\<lparr>rt_receipts := dm_insert (storage_key L key) receipt (rt_receipts st)\<rparr>"

definition store_receipt :: "wal_lib \<Rightarrow> receipt_key \<Rightarrow> stored_receipt \<Rightarrow> receipt_store \<Rightarrow> bool \<times> receipt_store" where
  "store_receipt L key receipt st =
     (if should_store L key receipt st then (True, insert_receipt L key receipt st) else (False, st))"

definition get_receipt :: "wal_lib \<Rightarrow> receipt_key \<Rightarrow> receipt_store \<Rightarrow> stored_receipt option" where
  "get_receipt L key st = dm_get (rt_receipts st) (storage_key L key)"

definition get_nonce :: "wal_lib \<Rightarrow> receipt_key \<Rightarrow> receipt_store \<Rightarrow> u64" where
  "get_nonce L key st = (case dm_get (rt_receipts st) (storage_key L key) of Some r \<Rightarrow> sd_nonce r | None \<Rightarrow> 0)"

text \<open>A failed write is only logged.\<close>

definition persist :: "bool \<Rightarrow> receipt_store \<Rightarrow> receipt_store" where
  "persist io_ok st = (if io_ok then st\<lparr>rt_disk := Some (rt_receipts st)\<rparr> else st)"

section \<open>Checking a receipt\<close>

datatype wt_error = BadRequest string | ServiceUnavailable string

type_synonym 'a wt = "wt_error + 'a"

definition wt_some :: "'a option \<Rightarrow> wt_error \<Rightarrow> ('a \<Rightarrow> 'b wt) \<Rightarrow> 'b wt" where
  "wt_some x e k = (case x of None \<Rightarrow> Inl e | Some y \<Rightarrow> k y)"

definition wt_guard :: "bool \<Rightarrow> wt_error \<Rightarrow> 'b wt \<Rightarrow> 'b wt" where
  "wt_guard b e k = (if b then k else Inl e)"

text \<open>The request has the fields of the stored receipt.\<close>

type_synonym store_receipt_request = stored_receipt

text \<open>
  \<open>key_ok\<close> is \<open>VerifyingKey::from_bytes\<close> and \<open>verify\<close> is \<open>verify_strict\<close>. The third step of the source
  parses the vault key a second time.
\<close>

record watchtower_env =
  we_lib :: wal_lib
  we_key_ok :: "b32 \<Rightarrow> bool"
  we_verify :: "b32 \<Rightarrow> bytes \<Rightarrow> b64 \<Rightarrow> bool"

definition receipt_matches :: "participant_receipt_message \<Rightarrow> store_receipt_request \<Rightarrow> pubkey \<Rightarrow> pubkey \<Rightarrow> pubkey \<Rightarrow> 'a wt \<Rightarrow> 'a wt" where
  "receipt_matches decoded req participant recipient_ata vault k =
     wt_guard (prm_participant decoded = participant) (BadRequest ''participant mismatch in receipt message'')
    (wt_guard (prm_participant_kind decoded = sd_participant_kind req) (BadRequest ''participantKind mismatch in receipt message'')
    (wt_guard (prm_recipient_ata decoded = recipient_ata) (BadRequest ''recipientAta mismatch in receipt message'')
    (wt_guard (prm_free_balance decoded = sd_free_balance req) (BadRequest ''freeBalance mismatch in receipt message'')
    (wt_guard (prm_locked_balance decoded = sd_locked_balance req) (BadRequest ''lockedBalance mismatch in receipt message'')
    (wt_guard (prm_max_lock_expires_at decoded = sd_max_lock_expires_at req) (BadRequest ''maxLockExpiresAt mismatch in receipt message'')
    (wt_guard (prm_nonce decoded = sd_nonce req) (BadRequest ''nonce mismatch in receipt message'')
    (wt_guard (prm_timestamp decoded = sd_timestamp req) (BadRequest ''timestamp mismatch in receipt message'')
    (wt_guard (prm_snapshot_seqno decoded = sd_snapshot_seqno req) (BadRequest ''snapshotSeqno mismatch in receipt message'')
    (wt_guard (prm_vault_config decoded = vault) (BadRequest ''vaultConfig mismatch in receipt message'') k)))))))))"

definition validate_store_receipt_request_inner ::
    "watchtower_env \<Rightarrow> store_receipt_request \<Rightarrow> pubkey option \<Rightarrow> b32 \<Rightarrow> (receipt_key \<times> stored_receipt) wt" where
  "validate_store_receipt_request_inner W req expected_vault signer_key =
     wt_guard (sd_participant_kind req \<le> 1) (BadRequest ''participantKind must be 0 or 1'')
    (wt_some (pubkey_from_str (we_lib W) (sd_participant req)) (BadRequest ''invalid participant'') (\<lambda>participant.
     wt_some (pubkey_from_str (we_lib W) (sd_recipient_ata req)) (BadRequest ''invalid recipientAta'') (\<lambda>recipient_ata.
     wt_some (pubkey_from_str (we_lib W) (sd_vault_config req)) (BadRequest ''invalid vaultConfig'') (\<lambda>vault.
     wt_guard (expected_vault = None \<or> expected_vault = Some vault) (BadRequest ''receipt vaultConfig does not match this watchtower'')
    (wt_some (base64_decode (we_lib W) (sd_signature req)) (BadRequest ''invalid signature base64'') (\<lambda>signature_bytes.
     wt_guard (length signature_bytes = 64) (BadRequest ''invalid signature bytes'')
    (wt_some (base64_decode (we_lib W) (sd_message req)) (BadRequest ''invalid message base64'') (\<lambda>message.
     case decode_participant_receipt_message message of Inl _ \<Rightarrow> Inl (BadRequest ''invalid receipt message'')
     | Inr decoded \<Rightarrow>
         receipt_matches decoded req participant recipient_ata vault
        (wt_guard (we_key_ok W signer_key) (BadRequest ''invalid vault signer'')
        (wt_guard (we_verify W signer_key message (word_of_bytes signature_bytes)) (BadRequest ''receipt signature verification failed'')
        (Inr (\<lparr>rk_vault = vault, rk_participant = participant, rk_participant_kind = sd_participant_kind req\<rparr>, req))))))))))))"

text \<open>The vault's signer stands 50 bytes into the account; \<open>accounts\<close> is the answer of the chain node.\<close>

definition vault_signer_at :: "bytes \<Rightarrow> b32 option" where
  "vault_signer_at data = (if length data < 50 + 32 then None else Some (word_of_bytes (take 32 (drop 50 data))))"

definition fetch_vault_signer_pubkey :: "(pubkey \<Rightarrow> bytes option) \<Rightarrow> pubkey \<Rightarrow> string + b32" where
  "fetch_vault_signer_pubkey accounts vault =
     (case accounts vault of None \<Rightarrow> Inl ''failed to fetch vault config''
      | Some data \<Rightarrow> (case vault_signer_at data of None \<Rightarrow> Inl ''vault config account data too short'' | Some k \<Rightarrow> Inr k))"

definition validate_store_receipt_request ::
    "watchtower_env \<Rightarrow> pubkey \<Rightarrow> (pubkey \<Rightarrow> bytes option) \<Rightarrow> store_receipt_request \<Rightarrow> (receipt_key \<times> stored_receipt) wt" where
  "validate_store_receipt_request W own_vault accounts req =
     wt_some (pubkey_from_str (we_lib W) (sd_vault_config req)) (BadRequest ''invalid vaultConfig'') (\<lambda>vault.
     case fetch_vault_signer_pubkey accounts vault of Inl e \<Rightarrow> Inl (ServiceUnavailable e)
     | Inr signer_key \<Rightarrow>
         validate_store_receipt_request_inner W req (if own_vault \<noteq> 0 then Some own_vault else None) signer_key)"

record store_receipt_response =
  wx_ok :: bool
  wx_stored :: bool
  wx_current_nonce :: u64

definition post_store_receipt ::
    "watchtower_env \<Rightarrow> pubkey \<Rightarrow> (pubkey \<Rightarrow> bytes option) \<Rightarrow> bool \<Rightarrow> store_receipt_request \<Rightarrow> receipt_store
       \<Rightarrow> (store_receipt_response wt) \<times> receipt_store" where
  "post_store_receipt W own_vault accounts io_ok req st =
     (case validate_store_receipt_request W own_vault accounts req of Inl e \<Rightarrow> (Inl e, st)
      | Inr (key, receipt) \<Rightarrow>
          let (stored, st1) = store_receipt (we_lib W) key receipt st;
              current_nonce = get_nonce (we_lib W) key st1;
              st2 = (if stored then persist io_ok st1 else st1)
          in (Inr \<lparr>wx_ok = True, wx_stored = stored, wx_current_nonce = current_nonce\<rparr>, st2))"

section \<open>Challenges\<close>

record on_chain_force_settle_request =
  oc_address :: pubkey
  oc_vault :: pubkey
  oc_participant :: pubkey
  oc_participant_kind :: u8
  oc_recipient_ata :: pubkey
  oc_free_balance_due :: u64
  oc_locked_balance_due :: u64
  oc_max_lock_expires_at :: i64
  oc_receipt_nonce :: u64
  oc_dispute_deadline :: i64
  oc_is_resolved :: bool

definition word_at :: "bytes \<Rightarrow> nat \<Rightarrow> nat \<Rightarrow> 'a::len word" where
  "word_at data offset n = word_of_bytes (take n (drop offset data))"

definition parse_force_settle_request :: "pubkey \<Rightarrow> bytes \<Rightarrow> on_chain_force_settle_request option" where
  "parse_force_settle_request address data =
     (if length data < 219 then None
      else Some \<lparr>oc_address = address, oc_vault = word_at data 9 32, oc_participant = word_at data 41 32,
        oc_participant_kind = word_at data 73 1, oc_recipient_ata = word_at data 74 32,
        oc_free_balance_due = word_at data 106 8, oc_locked_balance_due = word_at data 114 8,
        oc_max_lock_expires_at = word_at data 122 8, oc_receipt_nonce = word_at data 130 8,
        oc_dispute_deadline = word_at data 210 8, oc_is_resolved = (data ! 218 \<noteq> 0)\<rparr>)"

definition build_ed25519_verify_instruction :: "pubkey \<Rightarrow> b32 \<Rightarrow> bytes \<Rightarrow> bytes \<Rightarrow> instruction" where
  "build_ed25519_verify_instruction ed25519_program pubkey signature message =
     \<lparr>ix_program_id = ed25519_program, ix_accounts = [],
      ix_data = [1, 0] @ word_bytes (48 :: u16) @ word_bytes (- 1 :: u16) @ word_bytes (16 :: u16) @ word_bytes (- 1 :: u16)
        @ word_bytes (112 :: u16) @ word_bytes (of_nat (length message) :: u16) @ word_bytes (- 1 :: u16)
        @ word_bytes pubkey @ signature @ message\<rparr>"

definition anchor_discriminator :: "(bytes \<Rightarrow> b32) \<Rightarrow> string \<Rightarrow> bytes" where
  "anchor_discriminator sha256 name = take 8 (word_bytes (sha256 (str_bytes (''global:'' @ name))))"

text \<open>The arguments of \<open>force_settle_challenge\<close> as the instruction data carries them.\<close>

definition challenge_data :: "(bytes \<Rightarrow> b32) \<Rightarrow> pubkey \<Rightarrow> stored_receipt \<Rightarrow> b64 \<Rightarrow> bytes \<Rightarrow> bytes" where
  "challenge_data sha256 recipient_ata receipt signature message =
     anchor_discriminator sha256 ''force_settle_challenge'' @ word_bytes recipient_ata @ word_bytes (sd_free_balance receipt)
     @ word_bytes (sd_locked_balance receipt) @ word_bytes (sd_max_lock_expires_at receipt) @ word_bytes (sd_nonce receipt)
     @ word_bytes signature @ word_bytes (of_nat (length message) :: u32) @ message"

text \<open>The transaction that \<open>submit_challenge\<close> signs and sends, or the reason why there is none.\<close>

definition submit_challenge ::
    "wal_lib \<Rightarrow> env \<Rightarrow> (pubkey \<Rightarrow> bytes option) \<Rightarrow> pubkey \<Rightarrow> pubkey \<Rightarrow> stored_receipt \<Rightarrow> string + instruction list" where
  "submit_challenge L E accounts challenger force_settle_address receipt =
     (case base64_decode L (sd_signature receipt) of None \<Rightarrow> Inl ''Invalid receipt signature base64''
      | Some signature_bytes \<Rightarrow>
     (case base64_decode L (sd_message receipt) of None \<Rightarrow> Inl ''Invalid receipt message base64''
      | Some message_bytes \<Rightarrow>
     (case pubkey_from_str L (sd_vault_config receipt) of None \<Rightarrow> Inl ''Invalid vault_config''
      | Some vault_address \<Rightarrow>
     (case accounts vault_address of None \<Rightarrow> Inl ''Failed to fetch vault config''
      | Some data \<Rightarrow>
     (case vault_signer_at data of None \<Rightarrow> Inl ''VaultConfig data too short''
      | Some signer_key \<Rightarrow>
          if length signature_bytes \<noteq> 64 then Inl ''Signature must be 64 bytes''
          else
            (case pubkey_from_str L (sd_recipient_ata receipt) of None \<Rightarrow> Inl ''Invalid recipient_ata''
             | Some recipient_ata \<Rightarrow>
                 Inr [build_ed25519_verify_instruction (ed25519_program_id E) signer_key signature_bytes message_bytes,
                   \<lparr>ix_program_id = program_id E,
                    ix_accounts = [challenger, vault_address, force_settle_address, sysvar_instructions_id E],
                    ix_data = challenge_data (env_sha256 E) recipient_ata receipt (word_of_bytes signature_bytes) message_bytes\<rparr>]))))))"

text \<open>One scan: the challenges it decides to submit, in order.\<close>

definition challenge_target ::
    "wal_lib \<Rightarrow> receipt_store \<Rightarrow> i64 \<Rightarrow> pubkey \<times> bytes \<Rightarrow> (pubkey \<times> on_chain_force_settle_request \<times> stored_receipt) option" where
  "challenge_target L st now acc =
     (if length (snd acc) \<noteq> 219 then None
      else case parse_force_settle_request (fst acc) (snd acc) of None \<Rightarrow> None
      | Some request \<Rightarrow>
          if oc_is_resolved request \<or> sint (oc_dispute_deadline request) < sint now then None
          else
            let key = \<lparr>rk_vault = oc_vault request, rk_participant = oc_participant request,
                  rk_participant_kind = oc_participant_kind request\<rparr>
            in if get_nonce L key st \<le> oc_receipt_nonce request then None
               else map_option (\<lambda>receipt. (fst acc, request, receipt)) (get_receipt L key st))"

definition scan_and_challenge ::
    "wal_lib \<Rightarrow> env \<Rightarrow> (pubkey \<Rightarrow> bytes option) \<Rightarrow> pubkey \<Rightarrow> receipt_store \<Rightarrow> i64 \<Rightarrow> (pubkey \<times> bytes) list
       \<Rightarrow> (pubkey \<times> (string + instruction list)) list" where
  "scan_and_challenge L E accounts challenger st now program_accounts =
     map (\<lambda>(address, request, receipt). (address, submit_challenge L E accounts challenger address receipt))
       (List.map_filter (challenge_target L st now) program_accounts)"

end
