(* ===== verification/Watchtower_Properties.thy ===== *)
theory Watchtower_Properties
  imports Watchtower
begin

text \<open>
  The watchtower keeps the newest signed receipt of every participant, and the challenge it sends
  is one the on-chain program accepts. The two facts together defend a participant who is offline
  against a settlement forced with an old receipt.
\<close>

section \<open>Account data\<close>

text \<open>How Anchor stores the two accounts the watchtower reads; \<open>disc\<close> is the account discriminator.\<close>

definition force_settle_bytes :: "bytes \<Rightarrow> force_settle_request \<Rightarrow> bytes" where
  "force_settle_bytes disc r = disc @ word_bytes (fs_bump r) @ word_bytes (fs_vault r) @ word_bytes (fs_participant r)
     @ word_bytes (fs_participant_kind r) @ word_bytes (fs_recipient_ata r) @ word_bytes (fs_free_balance_due r)
     @ word_bytes (fs_locked_balance_due r) @ word_bytes (fs_max_lock_expires_at r) @ word_bytes (fs_receipt_nonce r)
     @ word_bytes (fs_receipt_signature r) @ word_bytes (fs_initiated_at r) @ word_bytes (fs_dispute_deadline r)
     @ [if fs_is_resolved r then 1 else 0]"

definition vault_config_bytes :: "bytes \<Rightarrow> vault_config \<Rightarrow> bytes" where
  "vault_config_bytes disc c = disc @ word_bytes (vc_bump c) @ word_bytes (vc_vault_id c) @ word_bytes (vc_governance c)
     @ word_bytes (vc_status c) @ word_bytes (vc_vault_signer_pubkey c) @ word_bytes (vc_usdc_mint c)
     @ word_bytes (vc_vault_token_account c) @ word_bytes (vc_auditor_master_pubkey c) @ word_bytes (vc_auditor_epoch c)
     @ word_bytes (vc_attestation_policy_hash c) @ word_bytes (vc_successor_vault c) @ word_bytes (vc_exit_deadline c)
     @ word_bytes (vc_lifetime_deposited c) @ word_bytes (vc_lifetime_withdrawn c) @ word_bytes (vc_lifetime_settled c)"

lemma word_of_byte [simp]: "word_of_bytes [b] = (b :: u8)"
  using word_of_bytes_word_bytes [of b] by simp

lemma parse_force_settle_bytes:
  assumes "length disc = 8"
  shows "length (force_settle_bytes disc r) = 219"
    and "parse_force_settle_request a (force_settle_bytes disc r) = Some \<lparr>oc_address = a, oc_vault = fs_vault r,
      oc_participant = fs_participant r, oc_participant_kind = fs_participant_kind r, oc_recipient_ata = fs_recipient_ata r,
      oc_free_balance_due = fs_free_balance_due r, oc_locked_balance_due = fs_locked_balance_due r,
      oc_max_lock_expires_at = fs_max_lock_expires_at r, oc_receipt_nonce = fs_receipt_nonce r,
      oc_dispute_deadline = fs_dispute_deadline r, oc_is_resolved = fs_is_resolved r\<rparr>"
  using assms
  by (simp_all add: parse_force_settle_request_def force_settle_bytes_def word_at_def word_of_bytes_word_bytes nth_append)

lemma vault_signer_at_bytes: "length disc = 8 \<Longrightarrow> vault_signer_at (vault_config_bytes disc c) = Some (vc_vault_signer_pubkey c)"
  by (simp add: vault_signer_at_def vault_config_bytes_def word_of_bytes_word_bytes)

section \<open>The signature instruction\<close>

lemma built_instruction_accepted:
  assumes i: "n \<le> unat (current_index tx)"
    and ix: "load_instruction_at tx (unat (current_index tx - of_nat n))
      = Some (build_ed25519_verify_instruction (ed25519_program_id E) pk (word_bytes sig) msg)"
    and len: "length msg < 65536"
  shows "verify_ed25519_signature_details_relative E tx n pk = Inr \<lparr>ve_signature = sig, ve_message = msg\<rparr>"
proof -
  let ?d = "ix_data (build_ed25519_verify_instruction (ed25519_program_id E) pk (word_bytes sig) msg)"
  have n: "unat (of_nat (length msg) :: u16) = length msg" using len by (simp add: unat_of_nat)
  have "le16 ?d 2 = 48" using le16_word_bytes [of 2 "[1, 0]"] by (simp add: build_ed25519_verify_instruction_def)
  moreover have "le16 ?d 4 = - 1"
    using le16_word_bytes [of 4 "[1, 0] @ word_bytes (48 :: u16)"] by (simp add: build_ed25519_verify_instruction_def)
  moreover have "le16 ?d 6 = 16"
    using le16_word_bytes [of 6 "[1, 0] @ word_bytes (48 :: u16) @ word_bytes (- 1 :: u16)"] by (simp add: build_ed25519_verify_instruction_def)
  moreover have "le16 ?d 8 = - 1"
    using le16_word_bytes [of 8 "[1, 0] @ word_bytes (48 :: u16) @ word_bytes (- 1 :: u16) @ word_bytes (16 :: u16)"]
    by (simp add: build_ed25519_verify_instruction_def)
  moreover have "le16 ?d 10 = 112"
    using le16_word_bytes [of 10 "[1, 0] @ word_bytes (48 :: u16) @ word_bytes (- 1 :: u16) @ word_bytes (16 :: u16) @ word_bytes (- 1 :: u16)"]
    by (simp add: build_ed25519_verify_instruction_def)
  moreover have "le16 ?d 12 = of_nat (length msg)"
    using le16_word_bytes [of 12 "[1, 0] @ word_bytes (48 :: u16) @ word_bytes (- 1 :: u16) @ word_bytes (16 :: u16) @ word_bytes (- 1 :: u16)
      @ word_bytes (112 :: u16)"] by (simp add: build_ed25519_verify_instruction_def)
  moreover have "le16 ?d 14 = - 1"
    using le16_word_bytes [of 14 "[1, 0] @ word_bytes (48 :: u16) @ word_bytes (- 1 :: u16) @ word_bytes (16 :: u16) @ word_bytes (- 1 :: u16)
      @ word_bytes (112 :: u16) @ word_bytes (of_nat (length msg) :: u16)"] by (simp add: build_ed25519_verify_instruction_def)
  moreover have "?d ! 0 = 1" "length ?d = 112 + length msg"
    by (simp_all add: build_ed25519_verify_instruction_def)
  moreover have "slice ?d 48 64 = word_bytes sig" "slice ?d 16 32 = word_bytes pk" "slice ?d 112 (length msg) = msg"
    by (simp_all add: slice_def build_ed25519_verify_instruction_def)
  ultimately show ?thesis
    using i ix n
    by (simp add: verify_ed25519_signature_details_relative_def Let_def instruction_index_refs_embedded_data_def
        word_of_bytes_word_bytes)
      (simp add: build_ed25519_verify_instruction_def)
qed

section \<open>The store\<close>

text \<open>Base58 texts hold no colon, so the storage key determines its three parts.\<close>

definition base58_laws :: "wal_lib \<Rightarrow> bool" where
  "base58_laws L \<longleftrightarrow> (\<forall>k. pubkey_from_str L (pubkey_to_string L k) = Some k \<and> CHR '':'' \<notin> set (pubkey_to_string L k))"

lemma split_colon: "CHR '':'' \<notin> set a \<Longrightarrow> CHR '':'' \<notin> set b \<Longrightarrow> a @ CHR '':'' # x = b @ CHR '':'' # y \<Longrightarrow> a = b \<and> x = y"
proof (induction a arbitrary: b)
  case Nil
  then show ?case by (cases b) auto
next
  case (Cons c a)
  then show ?case by (cases b) auto
qed

lemma pubkey_text_inj: "base58_laws L \<Longrightarrow> pubkey_to_string L k = pubkey_to_string L k' \<Longrightarrow> k = k'"
  unfolding base58_laws_def by (metis option.inject)

lemma storage_key_inj:
  assumes L: "base58_laws L" and eq: "storage_key L k = storage_key L k'"
  shows "k = k'"
proof -
  have no: "CHR '':'' \<notin> set (pubkey_to_string L x)" for x using L by (simp add: base58_laws_def)
  let ?rest = "\<lambda>k. pubkey_to_string L (rk_participant k) @ CHR '':'' # show_nat (unat (rk_participant_kind k))"
  have "pubkey_to_string L (rk_vault k) @ CHR '':'' # ?rest k = pubkey_to_string L (rk_vault k') @ CHR '':'' # ?rest k'"
    using eq by (simp add: storage_key_def)
  from split_colon [OF no no this] have v: "pubkey_to_string L (rk_vault k) = pubkey_to_string L (rk_vault k')" and rest: "?rest k = ?rest k'"
    by blast+
  note parts = split_colon [OF no no rest]
  have "rk_vault k = rk_vault k'" by (rule pubkey_text_inj [OF L v])
  moreover have "rk_participant k = rk_participant k'" by (rule pubkey_text_inj [OF L]) (use parts in simp)
  moreover have "rk_participant_kind k = rk_participant_kind k'" using parts by (simp add: show_nat_inj word_unat_eq_iff)
  ultimately show ?thesis by simp
qed

text \<open>Any sequence of store requests, each with the outcome of its write to disk.\<close>

fun post_receipts ::
    "watchtower_env \<Rightarrow> pubkey \<Rightarrow> (pubkey \<Rightarrow> bytes option) \<Rightarrow> (bool \<times> store_receipt_request) list \<Rightarrow> receipt_store \<Rightarrow> receipt_store" where
  "post_receipts W own accounts [] st = st"
| "post_receipts W own accounts ((io, req) # reqs) st =
     post_receipts W own accounts reqs (snd (post_store_receipt W own accounts io req st))"

text \<open>Every receipt in the store passed the check under its key.\<close>

definition vouched :: "watchtower_env \<Rightarrow> pubkey \<Rightarrow> (pubkey \<Rightarrow> bytes option) \<Rightarrow> receipt_store \<Rightarrow> bool" where
  "vouched W own accounts st \<longleftrightarrow> (\<forall>k r. dm_get (rt_receipts st) k = Some r \<longrightarrow>
     (\<exists>key. k = storage_key (we_lib W) key \<and> validate_store_receipt_request W own accounts r = Inr (key, r)))"

lemma validate_returns: "validate_store_receipt_request W own accounts req = Inr (key, r) \<Longrightarrow> r = req"
  by (auto simp: validate_store_receipt_request_def validate_store_receipt_request_inner_def receipt_matches_def wt_some_def wt_guard_def
      split: option.splits sum.splits if_splits)

lemma persist_receipts [simp]: "rt_receipts (persist io st) = rt_receipts st"
  by (simp add: persist_def)

lemma post_store_receipts:
  "rt_receipts (snd (post_store_receipt W own accounts io req st)) =
    (case validate_store_receipt_request W own accounts req of Inl e \<Rightarrow> rt_receipts st
     | Inr (key, r) \<Rightarrow> if should_store (we_lib W) key r st then dm_insert (storage_key (we_lib W) key) r (rt_receipts st) else rt_receipts st)"
  by (auto simp: post_store_receipt_def store_receipt_def insert_receipt_def Let_def split: sum.splits prod.splits)

lemma vouched_post: "vouched W own accounts st \<Longrightarrow> vouched W own accounts (snd (post_store_receipt W own accounts io req st))"
  by (auto simp: vouched_def post_store_receipts dm_get_insert dest: validate_returns split: sum.splits if_splits)

lemma nonce_grows:
  assumes "dm_get (rt_receipts st) k = Some r"
  shows "\<exists>r'. dm_get (rt_receipts (snd (post_store_receipt W own accounts io req st))) k = Some r' \<and> sd_nonce r \<le> sd_nonce r'"
  using assms by (auto simp: post_store_receipts dm_get_insert should_store_def split: sum.splits if_splits option.splits)

lemma nonce_grows_all:
  "dm_get (rt_receipts st) k = Some r \<Longrightarrow>
     \<exists>r'. dm_get (rt_receipts (post_receipts W own accounts reqs st)) k = Some r' \<and> sd_nonce r \<le> sd_nonce r'"
proof (induction reqs arbitrary: st r)
  case (Cons a reqs)
  obtain io req where a: "a = (io, req)" by (cases a)
  obtain r1 where r1: "dm_get (rt_receipts (snd (post_store_receipt W own accounts io req st))) k = Some r1" "sd_nonce r \<le> sd_nonce r1"
    using nonce_grows [OF Cons.prems] by blast
  from Cons.IH [OF r1(1)] r1(2) show ?case by (auto simp: a)
qed auto

lemma post_accepts:
  assumes "validate_store_receipt_request W own accounts req = Inr (key, r)"
  shows "\<exists>r'. dm_get (rt_receipts (snd (post_store_receipt W own accounts io req st))) (storage_key (we_lib W) key) = Some r'
    \<and> sd_nonce r \<le> sd_nonce r'"
  using assms by (auto simp: post_store_receipts dm_get_insert should_store_def split: option.splits)

lemma newest_kept:
  assumes "vouched W own accounts st" "(io, req) \<in> set reqs" "validate_store_receipt_request W own accounts req = Inr (key, r)"
  shows "\<exists>r'. dm_get (rt_receipts (post_receipts W own accounts reqs st)) (storage_key (we_lib W) key) = Some r' \<and> sd_nonce r \<le> sd_nonce r'"
  using assms
proof (induction reqs arbitrary: st)
  case (Cons a reqs)
  obtain io' req' where a: "a = (io', req')" by (cases a)
  show ?case
  proof (cases "(io, req) = a")
    case True
    then obtain r1 where "dm_get (rt_receipts (snd (post_store_receipt W own accounts io req st))) (storage_key (we_lib W) key) = Some r1"
      "sd_nonce r \<le> sd_nonce r1" using post_accepts [OF Cons.prems(3)] by blast
    with nonce_grows_all [of _ _ r1 W own accounts reqs] True a show ?thesis by fastforce
  next
    case False
    then show ?thesis using Cons.IH [OF vouched_post [OF Cons.prems(1)]] Cons.prems a by auto
  qed
qed simp

lemma vouched_posts: "vouched W own accounts st \<Longrightarrow> vouched W own accounts (post_receipts W own accounts reqs st)"
  by (induction reqs arbitrary: st) (auto simp: vouched_post)

lemma vouched_empty: "vouched W own accounts (receipt_store_new None)"
  by (simp add: vouched_def receipt_store_new_def load_from_disk_def)

section \<open>The challenge\<close>

lemma validated_receipt:
  assumes "validate_store_receipt_request W own accounts r = Inr (key, r)" and data: "accounts (rk_vault key) = Some data"
    and signer: "vault_signer_at data = Some pk"
  obtains ata sig msg m where "pubkey_from_str (we_lib W) (sd_recipient_ata r) = Some ata"
    "pubkey_from_str (we_lib W) (sd_vault_config r) = Some (rk_vault key)" "base64_decode (we_lib W) (sd_signature r) = Some (word_bytes (sig :: b64))"
    "base64_decode (we_lib W) (sd_message r) = Some msg" "decode_participant_receipt_message msg = Inr m"
    "m = \<lparr>prm_participant = rk_participant key, prm_participant_kind = rk_participant_kind key, prm_recipient_ata = ata,
       prm_free_balance = sd_free_balance r, prm_locked_balance = sd_locked_balance r, prm_max_lock_expires_at = sd_max_lock_expires_at r,
       prm_nonce = sd_nonce r, prm_timestamp = sd_timestamp r, prm_snapshot_seqno = sd_snapshot_seqno r, prm_vault_config = rk_vault key\<rparr>"
    "we_verify W pk msg sig"
proof -
  from assms(1) obtain p ata v sb msg m where v: "pubkey_from_str (we_lib W) (sd_vault_config r) = Some v"
    and rest: "pubkey_from_str (we_lib W) (sd_recipient_ata r) = Some ata" "base64_decode (we_lib W) (sd_signature r) = Some sb"
    "length sb = 64" "base64_decode (we_lib W) (sd_message r) = Some msg" "decode_participant_receipt_message msg = Inr m"
    "key = \<lparr>rk_vault = v, rk_participant = p, rk_participant_kind = sd_participant_kind r\<rparr>"
    and m: "prm_participant m = p" "prm_participant_kind m = sd_participant_kind r" "prm_recipient_ata m = ata"
       "prm_free_balance m = sd_free_balance r" "prm_locked_balance m = sd_locked_balance r" "prm_max_lock_expires_at m = sd_max_lock_expires_at r"
       "prm_nonce m = sd_nonce r" "prm_timestamp m = sd_timestamp r" "prm_snapshot_seqno m = sd_snapshot_seqno r" "prm_vault_config m = v"
    and ver: "\<exists>k. fetch_vault_signer_pubkey accounts v = Inr k \<and> we_verify W k msg (word_of_bytes sb)"
    by (auto simp: validate_store_receipt_request_def validate_store_receipt_request_inner_def receipt_matches_def wt_some_def wt_guard_def
      split: option.splits sum.splits if_splits)
  have "word_bytes (word_of_bytes sb :: b64) = sb" using rest(3) by (intro word_bytes_word_of_bytes) simp_all
  moreover have "we_verify W pk msg (word_of_bytes sb)"
    using ver data signer rest(6) by (auto simp: fetch_vault_signer_pubkey_def)
  ultimately show thesis using that [of ata "word_of_bytes sb" msg m] v rest m by (cases m) simp
qed

text \<open>The accounts of the challenge, in the order of the instruction.\<close>

definition challenge_accounts :: "env \<Rightarrow> pubkey \<Rightarrow> pubkey \<Rightarrow> pubkey \<Rightarrow> force_settle_challenge_accounts" where
  "challenge_accounts E challenger vault address = \<lparr>fc_challenger = challenger, fc_vault_config = vault,
     fc_force_settle_request = address, fc_instructions_sysvar = sysvar_instructions_id E\<rparr>"

lemma challenge_accepted:
  assumes valid: "validate_store_receipt_request W own accounts r = Inr (key, r)"
    and data: "accounts (rk_vault key) = Some data" "vault_signer_at data = Some (vc_vault_signer_pubkey vc)"
    and chain: "dm_get (vaults s) (rk_vault key) = Some vc" "dm_get (force_settles s) a = Some q"
    and open_request: "fs_vault q = rk_vault key" "fs_participant q = rk_participant key" "fs_participant_kind q = rk_participant_kind key"
      "\<not> fs_is_resolved q" "fs_receipt_nonce q < sd_nonce r" "sint t \<le> sint (fs_dispute_deadline q)"
  shows "\<exists>ixs ata sig msg s' q'. submit_challenge (we_lib W) E accounts challenger a r = Inr ixs
    \<and> ix_data (ixs ! 1) = challenge_data (env_sha256 E) ata r sig msg
    \<and> force_settle_challenge E \<lparr>unix_timestamp = t, current_index = 1, tx_instructions = ixs, tx_signers = [challenger]\<rparr>
        (challenge_accounts E challenger (rk_vault key) a) ata (sd_free_balance r) (sd_locked_balance r) (sd_max_lock_expires_at r)
        (sd_nonce r) sig msg s = Inr s'
    \<and> dm_get (force_settles s') a = Some q' \<and> fs_receipt_nonce q' = sd_nonce r
    \<and> fs_free_balance_due q' = sd_free_balance r \<and> fs_locked_balance_due q' = sd_locked_balance r"
proof -
  obtain ata sig msg m where r: "pubkey_from_str (we_lib W) (sd_recipient_ata r) = Some ata"
    "pubkey_from_str (we_lib W) (sd_vault_config r) = Some (rk_vault key)" "base64_decode (we_lib W) (sd_signature r) = Some (word_bytes sig)"
    "base64_decode (we_lib W) (sd_message r) = Some msg" and dec: "decode_participant_receipt_message msg = Inr m"
    and m: "m = \<lparr>prm_participant = rk_participant key, prm_participant_kind = rk_participant_kind key, prm_recipient_ata = ata,
       prm_free_balance = sd_free_balance r, prm_locked_balance = sd_locked_balance r, prm_max_lock_expires_at = sd_max_lock_expires_at r,
       prm_nonce = sd_nonce r, prm_timestamp = sd_timestamp r, prm_snapshot_seqno = sd_snapshot_seqno r, prm_vault_config = rk_vault key\<rparr>"
    and "we_verify W (vc_vault_signer_pubkey vc) msg sig"
    by (rule validated_receipt [OF valid data])
  let ?ed = "build_ed25519_verify_instruction (ed25519_program_id E) (vc_vault_signer_pubkey vc) (word_bytes sig) msg"
  let ?ch = "\<lparr>ix_program_id = program_id E, ix_accounts = [challenger, rk_vault key, a, sysvar_instructions_id E],
      ix_data = challenge_data (env_sha256 E) ata r sig msg\<rparr>"
  let ?tx = "\<lparr>unix_timestamp = t, current_index = 1, tx_instructions = [?ed, ?ch], tx_signers = [challenger]\<rparr>"
  have sub: "submit_challenge (we_lib W) E accounts challenger a r = Inr [?ed, ?ch]"
    using r data by (simp add: submit_challenge_def word_of_bytes_word_bytes)
  have len: "length msg < 65536" using decode_receipt_sound [OF dec] by (simp add: participant_receipt_bytes_def)
  have "verify_ed25519_signature_details E ?tx (vc_vault_signer_pubkey vc) = Inr \<lparr>ve_signature = sig, ve_message = msg\<rparr>"
    unfolding verify_ed25519_signature_details_def
    by (rule built_instruction_accepted [OF _ _ len]) (simp_all add: load_instruction_at_def)
  then have "\<exists>s'. force_settle_challenge E ?tx (challenge_accounts E challenger (rk_vault key) a) ata (sd_free_balance r)
      (sd_locked_balance r) (sd_max_lock_expires_at r) (sd_nonce r) sig msg s = Inr s'
    \<and> dm_get (force_settles s') a = Some (q\<lparr>fs_recipient_ata := ata, fs_free_balance_due := sd_free_balance r,
          fs_locked_balance_due := sd_locked_balance r, fs_max_lock_expires_at := sd_max_lock_expires_at r,
          fs_receipt_nonce := sd_nonce r, fs_receipt_signature := sig\<rparr>)"
    using chain open_request dec m
    by (simp add: force_settle_challenge_def challenge_accounts_def signer_def dm_get_insert)
  then show ?thesis using sub by fastforce
qed

section \<open>Properties\<close>


definition demo_watchtower :: watchtower_env where
  "demo_watchtower = \<lparr>we_lib = demo_lib, we_key_ok = (\<lambda>k. True), we_verify = (\<lambda>k m s. True)\<rparr>"

definition demo_stored :: stored_receipt where
  "demo_stored = \<lparr>sd_participant = pubkey_to_string demo_lib 10, sd_participant_kind = 0, sd_recipient_ata = pubkey_to_string demo_lib 20,
     sd_free_balance = 5, sd_locked_balance = 0, sd_max_lock_expires_at = 0, sd_nonce = 9, sd_timestamp = 2000, sd_snapshot_seqno = 1,
     sd_vault_config = pubkey_to_string demo_lib 52000, sd_signature = chars (word_bytes (8 :: b64)),
     sd_message = chars (participant_receipt_bytes demo_receipt)\<rparr>"

definition demo_accounts :: "pubkey \<Rightarrow> bytes option" where
  "demo_accounts a = (if a = 52000 then Some (vault_config_bytes (replicate 8 0) demo_vc) else None)"

definition demo_key :: receipt_key where
  "demo_key = \<lparr>rk_vault = 52000, rk_participant = 10, rk_participant_kind = 0\<rparr>"

lemma demo_base58: "base58_laws demo_lib"
  by (simp add: base58_laws_def demo_lib_def)

lemma demo_base64: "base64_decode demo_lib (chars bs) = Some bs"
  by (simp add: demo_lib_def str_bytes_chars)

lemma demo_validates: "validate_store_receipt_request demo_watchtower 0 demo_accounts demo_stored = Inr (demo_key, demo_stored)"
proof -
  have key: "pubkey_from_str demo_lib (pubkey_to_string demo_lib k) = Some k" for k using demo_base58 by (simp add: base58_laws_def)
  have signer: "fetch_vault_signer_pubkey demo_accounts 52000 = Inr 2"
    by (simp add: fetch_vault_signer_pubkey_def demo_accounts_def vault_signer_at_bytes demo_vc_def)
  have dec: "decode_participant_receipt_message (participant_receipt_bytes demo_receipt) = Inr demo_receipt"
    by (rule decode_receipt_bytes)
  show ?thesis
    unfolding validate_store_receipt_request_def validate_store_receipt_request_inner_def
    by (simp add: demo_watchtower_def demo_stored_def key signer demo_base64 dec wt_some_def wt_guard_def)
      (simp add: receipt_matches_def demo_receipt_def wt_guard_def demo_key_def)
qed


text \<open>
  The check and the insertion of \<open>store_receipt\<close> are two separate accesses to the map, so two
  requests can both pass the check before either inserts. If the older receipt is inserted last,
  the store goes back to the smaller nonce although the newer receipt was answered as stored.
\<close>

lemma store_race_loses_newer:
  assumes "should_store L key old st" "should_store L key new st" "sd_nonce old < sd_nonce new"
  shows "get_nonce L key (insert_receipt L key new st) = sd_nonce new"
    and "get_nonce L key (insert_receipt L key old (insert_receipt L key new st)) = sd_nonce old"
    and "fst (store_receipt L key old (snd (store_receipt L key new st))) = False"
  using assms by (auto simp: get_nonce_def insert_receipt_def dm_get_insert store_receipt_def should_store_def)

end
