(* ===== verification/Evm_Chain.thy ===== *)
theory Evm_Chain
  imports Chain_Adapter Text_Format
begin

text \<open>
  The Ethereum adapter of the crate \<open>shared\<close> (\<open>evm_chain.rs\<close>): addresses and 32-byte values as hexadecimal
  text, the hash of a channel state, the call data of the \<open>ASCManager\<close> contract and the reader of
  its channel record. Keccak-256 and the hexadecimal codec are library code and fields of a record;
  \<open>hex_laws\<close> names what the code relies on. A \<open>u128\<close> is a 128-bit word, an address a 160-bit one.
\<close>

section \<open>Replies\<close>

text \<open>The answer of an operation that may fail or panic on overflow.\<close>

datatype ('e, 'a) reply = Reply 'a | Fail 'e | Abort

definition rbind :: "('e, 'a) reply \<Rightarrow> ('a \<Rightarrow> ('e, 'b) reply) \<Rightarrow> ('e, 'b) reply" where
  "rbind r k = (case r of Reply x \<Rightarrow> k x | Fail e \<Rightarrow> Fail e | Abort \<Rightarrow> Abort)"

definition rsome :: "'a option \<Rightarrow> 'e \<Rightarrow> ('a \<Rightarrow> ('e, 'b) reply) \<Rightarrow> ('e, 'b) reply" where
  "rsome x e k = (case x of None \<Rightarrow> Fail e | Some y \<Rightarrow> k y)"

definition rguard :: "bool \<Rightarrow> 'e \<Rightarrow> ('e, 'b) reply \<Rightarrow> ('e, 'b) reply" where
  "rguard b e r = (if b then r else Fail e)"

text \<open>Arithmetic with overflow checks.\<close>

definition rchecked :: "'a option \<Rightarrow> ('a \<Rightarrow> ('e, 'b) reply) \<Rightarrow> ('e, 'b) reply" where
  "rchecked x k = (case x of None \<Rightarrow> Abort | Some y \<Rightarrow> k y)"

lemma rbind_Reply: "rbind r k = Reply y \<longleftrightarrow> (\<exists>x. r = Reply x \<and> k x = Reply y)"
  by (cases r) (auto simp: rbind_def)

lemma rsome_Reply: "rsome x e k = Reply y \<longleftrightarrow> (\<exists>z. x = Some z \<and> k z = Reply y)"
  by (cases x) (auto simp: rsome_def)

lemma rguard_Reply: "rguard b e r = Reply y \<longleftrightarrow> b \<and> r = Reply y"
  by (auto simp: rguard_def)

lemma rchecked_Reply: "rchecked x k = Reply y \<longleftrightarrow> (\<exists>z. x = Some z \<and> k z = Reply y)"
  by (cases x) (auto simp: rchecked_def)

lemmas reply_iffs = rbind_Reply rsome_Reply rguard_Reply rchecked_Reply

lemma reply_runs [simp]:
  "rbind (Reply x) k = k x" "rsome (Some z) e f = f z" "rsome None e f = Fail e" "rguard True e r = r" "rguard False e r = Fail e"
  "rchecked (Some z) f = f z" "rchecked None f = Abort" "rbind (Fail e) k = Fail e"
  by (simp_all add: rbind_def rsome_def rguard_def rchecked_def)

section \<open>Values\<close>

type_synonym u128 = "128 word"
type_synonym address = "160 word"
type_synonym bytes32 = b32

record hex_lib =
  hex_enc :: "bytes \<Rightarrow> string"
  hex_dec :: "string \<Rightarrow> bytes option"

definition hex_laws :: "hex_lib \<Rightarrow> bool" where
  "hex_laws X \<longleftrightarrow> (\<forall>bs. hex_dec X (hex_enc X bs) = Some bs \<and> length (hex_enc X bs) = 2 * length bs)
   \<and> (\<forall>s bs. hex_dec X s = Some bs \<longrightarrow> length s = 2 * length bs)"

definition strip_0x :: "string \<Rightarrow> string" where
  "strip_0x s = (case strip_prefix ''0x'' s of Some h \<Rightarrow> h | None \<Rightarrow> s)"

definition hex_text :: "hex_lib \<Rightarrow> bytes \<Rightarrow> string" where
  "hex_text X bs = ''0x'' @ hex_enc X bs"

definition address_parse :: "hex_lib \<Rightarrow> string \<Rightarrow> address option" where
  "address_parse X input =
     (let h = strip_0x input in if length h \<noteq> 40 then None else map_option word_of_bytes (hex_dec X h))"

definition address_to_hex :: "hex_lib \<Rightarrow> address \<Rightarrow> string" where
  "address_to_hex X a = hex_text X (word_bytes a)"

definition bytes32_parse :: "hex_lib \<Rightarrow> string \<Rightarrow> bytes32 option" where
  "bytes32_parse X input =
     (let h = strip_0x input in if length h \<noteq> 64 then None else map_option word_of_bytes (hex_dec X h))"

definition bytes32_to_hex :: "hex_lib \<Rightarrow> bytes32 \<Rightarrow> string" where
  "bytes32_to_hex X b = hex_text X (word_bytes b)"

text \<open>\<open>str::parse::<u128>\<close> and its inverse.\<close>

definition show_u128 :: "u128 \<Rightarrow> string" where
  "show_u128 n = show_nat (unat n)"

definition parse_u128 :: "string \<Rightarrow> u128 option" where
  "parse_u128 s =
     (let ds = (case s of c # cs \<Rightarrow> if c = CHR ''+'' then cs else s | [] \<Rightarrow> s)
      in if ds = [] then None
         else (case read_digits 0 ds of None \<Rightarrow> None
               | Some n \<Rightarrow> if n < 2 ^ 128 then Some (of_nat n) else None))"

section \<open>ABI encoding\<close>

definition selector :: "(bytes \<Rightarrow> b32) \<Rightarrow> string \<Rightarrow> bytes" where
  "selector keccak signature = take 4 (word_bytes (keccak (str_bytes signature)))"

definition encode_u256 :: "u128 \<Rightarrow> bytes" where
  "encode_u256 value = replicate 16 0 @ rev (word_bytes value)"

definition encode_u256_be :: "b32 \<Rightarrow> bytes" where
  "encode_u256_be value = word_bytes value"

definition encode_address :: "address \<Rightarrow> bytes" where
  "encode_address a = replicate 12 0 @ word_bytes a"

definition pad_to_32 :: "bytes \<Rightarrow> bytes" where
  "pad_to_32 bs = bs @ replicate ((32 - length bs mod 32) mod 32) 0"

definition encode_bytes_tail :: "bytes \<Rightarrow> bytes" where
  "encode_bytes_tail bs = pad_to_32 (encode_u256 (of_nat (length bs)) @ bs)"

definition to_calldata_hex :: "hex_lib \<Rightarrow> bytes \<Rightarrow> string" where
  "to_calldata_hex X bs = hex_text X bs"

definition asc_state_preimage :: "address \<Rightarrow> bytes32 \<Rightarrow> u128 \<Rightarrow> u128 \<Rightarrow> u64 \<Rightarrow> bytes" where
  "asc_state_preimage asc_manager cid balance_c balance_s version =
     str_bytes ''A402_ASC_STATE_V1'' @ word_bytes asc_manager @ word_bytes cid @ encode_u256 balance_c @ encode_u256 balance_s
     @ (replicate 24 0 @ rev (word_bytes version))"

definition asc_state_hash :: "(bytes \<Rightarrow> b32) \<Rightarrow> address \<Rightarrow> bytes32 \<Rightarrow> u128 \<Rightarrow> u128 \<Rightarrow> u64 \<Rightarrow> bytes32" where
  "asc_state_hash keccak asc_manager cid balance_c balance_s version =
     keccak (asc_state_preimage asc_manager cid balance_c balance_s version)"

definition encode_create_asc :: "(bytes \<Rightarrow> b32) \<Rightarrow> hex_lib \<Rightarrow> bytes32 \<Rightarrow> address \<Rightarrow> address \<Rightarrow> u128 \<Rightarrow> string" where
  "encode_create_asc keccak X cid client provider amount = to_calldata_hex X
     (selector keccak ''createASC(bytes32,address,address,uint256)'' @ encode_u256_be cid @ encode_address client @ encode_address provider
      @ encode_u256 amount)"

text \<open>The head of a call is a row of 32-byte slots; a dynamic argument has its offset there.\<close>

definition encode_close_asc_bytes :: "(bytes \<Rightarrow> b32) \<Rightarrow> bytes32 \<Rightarrow> u128 \<Rightarrow> u128 \<Rightarrow> u64 \<Rightarrow> bytes \<Rightarrow> bytes \<Rightarrow> bytes" where
  "encode_close_asc_bytes keccak cid balance_c balance_s version sig_c sig_s =
     (let head_len = 6 * 32; sig_c_tail = encode_bytes_tail sig_c; sig_s_tail = encode_bytes_tail sig_s
      in selector keccak ''closeASC(bytes32,uint256,uint256,uint256,bytes,bytes)'' @ encode_u256_be cid @ encode_u256 balance_c
         @ encode_u256 balance_s @ encode_u256 (ucast version) @ encode_u256 (of_nat head_len)
         @ encode_u256 (of_nat (head_len + length sig_c_tail)) @ sig_c_tail @ sig_s_tail)"

definition encode_close_asc :: "(bytes \<Rightarrow> b32) \<Rightarrow> hex_lib \<Rightarrow> bytes32 \<Rightarrow> u128 \<Rightarrow> u128 \<Rightarrow> u64 \<Rightarrow> bytes \<Rightarrow> bytes \<Rightarrow> string" where
  "encode_close_asc keccak X cid balance_c balance_s version sig_c sig_s =
     to_calldata_hex X (encode_close_asc_bytes keccak cid balance_c balance_s version sig_c sig_s)"

definition encode_one_sig :: "(bytes \<Rightarrow> b32) \<Rightarrow> string \<Rightarrow> bytes32 \<Rightarrow> u128 \<Rightarrow> u128 \<Rightarrow> u64 \<Rightarrow> bytes \<Rightarrow> bytes" where
  "encode_one_sig keccak signature cid balance_c balance_s version sig =
     (let head_len = 5 * 32
      in selector keccak signature @ encode_u256_be cid @ encode_u256 balance_c @ encode_u256 balance_s
         @ encode_u256 (ucast version) @ encode_u256 (of_nat head_len) @ encode_bytes_tail sig)"

definition encode_init_force_close :: "(bytes \<Rightarrow> b32) \<Rightarrow> hex_lib \<Rightarrow> bytes32 \<Rightarrow> u128 \<Rightarrow> u128 \<Rightarrow> u64 \<Rightarrow> bytes \<Rightarrow> string" where
  "encode_init_force_close keccak X cid balance_c balance_s version sig = to_calldata_hex X
     (encode_one_sig keccak ''initForceClose(bytes32,uint256,uint256,uint256,bytes)'' cid balance_c balance_s version sig)"

definition encode_challenge_force_close :: "(bytes \<Rightarrow> b32) \<Rightarrow> hex_lib \<Rightarrow> bytes32 \<Rightarrow> u128 \<Rightarrow> u128 \<Rightarrow> u64 \<Rightarrow> bytes \<Rightarrow> string" where
  "encode_challenge_force_close keccak X cid balance_c balance_s version sig = to_calldata_hex X
     (encode_one_sig keccak ''challengeForceClose(bytes32,uint256,uint256,uint256,bytes)'' cid balance_c balance_s version sig)"

definition encode_final_force_close :: "(bytes \<Rightarrow> b32) \<Rightarrow> hex_lib \<Rightarrow> bytes32 \<Rightarrow> string" where
  "encode_final_force_close keccak X cid = to_calldata_hex X (selector keccak ''finalForceClose(bytes32)'' @ encode_u256_be cid)"

definition encode_force_close_bytes ::
    "(bytes \<Rightarrow> b32) \<Rightarrow> bytes32 \<Rightarrow> u128 \<Rightarrow> u128 \<Rightarrow> u64 \<Rightarrow> bytes \<Rightarrow> bytes \<Rightarrow> b32 \<Rightarrow> b32 \<Rightarrow> b32 \<Rightarrow> bytes" where
  "encode_force_close_bytes keccak cid balance_c balance_s version sig_u sig_s px e s =
     (let head_len = 9 * 32; sig_u_tail = encode_bytes_tail sig_u; sig_s_tail = encode_bytes_tail sig_s
      in selector keccak ''forceClose(bytes32,uint256,uint256,uint256,bytes,bytes,uint256,uint256,uint256)'' @ encode_u256_be cid
         @ encode_u256 balance_c @ encode_u256 balance_s @ encode_u256 (ucast version) @ encode_u256 (of_nat head_len)
         @ encode_u256 (of_nat (head_len + length sig_u_tail)) @ encode_u256_be px @ encode_u256_be e @ encode_u256_be s
         @ sig_u_tail @ sig_s_tail)"

definition encode_force_close ::
    "(bytes \<Rightarrow> b32) \<Rightarrow> hex_lib \<Rightarrow> bytes32 \<Rightarrow> u128 \<Rightarrow> u128 \<Rightarrow> u64 \<Rightarrow> bytes \<Rightarrow> bytes \<Rightarrow> b32 \<Rightarrow> b32 \<Rightarrow> b32 \<Rightarrow> string" where
  "encode_force_close keccak X cid balance_c balance_s version sig_u sig_s px e s =
     to_calldata_hex X (encode_force_close_bytes keccak cid balance_c balance_s version sig_u sig_s px e s)"

section \<open>The channel record of the contract\<close>

record asc_state =
  sc_client :: address
  sc_provider :: address
  sc_balance_c :: u128
  sc_balance_s :: u128
  sc_version :: u64
  sc_status :: u8
  sc_created_at :: u64
  sc_total_deposit :: u128

definition is_open :: "asc_state \<Rightarrow> bool" where
  "is_open st \<longleftrightarrow> sc_status st = 0"

definition abi_slot :: "bytes \<Rightarrow> nat \<Rightarrow> bytes" where
  "abi_slot bs i = take 32 (drop (32 * i) bs)"

definition take_u128 :: "bytes \<Rightarrow> u128" where
  "take_u128 s = word_of_bytes (rev (drop 16 s))"

definition take_u64 :: "bytes \<Rightarrow> u64" where
  "take_u64 s = word_of_bytes (rev (drop 24 s))"

definition decode_asc_bytes :: "bytes \<Rightarrow> asc_state option" where
  "decode_asc_bytes bs =
     (if length bs < 32 * 8 then None
      else Some \<lparr>sc_client = word_of_bytes (drop 12 (abi_slot bs 0)), sc_provider = word_of_bytes (drop 12 (abi_slot bs 1)),
        sc_balance_c = take_u128 (abi_slot bs 2), sc_balance_s = take_u128 (abi_slot bs 3), sc_version = take_u64 (abi_slot bs 4),
        sc_status = abi_slot bs 5 ! 31, sc_created_at = take_u64 (abi_slot bs 6), sc_total_deposit = take_u128 (abi_slot bs 7)\<rparr>)"

definition decode_asc_state :: "hex_lib \<Rightarrow> string \<Rightarrow> asc_state option" where
  "decode_asc_state X hex_data = Option.bind (hex_dec X (strip_0x hex_data)) decode_asc_bytes"

end
