(* ===== verification/Multichain.thy ===== *)
theory Multichain
  imports Handler_Core Evm_Chain
begin

text \<open>
  Settlement on other chains (\<open>enclave/src/multichain_settlement.rs\<close>, and the builder of settlement
  transactions in \<open>shared/src/btc_tx.rs\<close>): grouping of entries by chain, network and asset, the call
  data of the Ethereum contract, the Bitcoin transaction and its bookkeeping. The remote nodes, the
  environment variables, the fee estimate in floating point and Bitcoin addresses are parameters;
  the signatures of a Bitcoin transaction are left out.
\<close>

section \<open>Data\<close>

record multi_chain_settlement_entry =
  me_settlement_id :: string
  me_provider_id :: string
  me_network :: string
  me_asset_id :: string
  me_settlement_address :: string
  me_amount :: u64
  me_timestamp :: i64

record multi_chain_batch_receipt =
  mr_chain_kind :: chain_kind
  mr_network :: string
  mr_tx_id :: string
  mr_settlement_ids :: "string list"
  mr_provider_count :: nat
  mr_total_amount :: u64

record aggregated_payout =
  ap_settlement_address :: string
  ap_amount :: u64

datatype bitcoin_network = BtcMainnet | BtcTestnet | BtcSignet | BtcRegtest

text \<open>Output 0 carries the commitment.\<close>

datatype tx_out = OpReturn b32 | PayTo string u64 | ChangeOut u64

record btc_transaction =
  bt_inputs :: "utxo_key list"
  bt_outputs :: "tx_out list"

text \<open>
  \<open>xe_evm\<close> and \<open>xe_btc\<close>: whether the environment variables of the chain are set. \<open>xe_eth_send\<close> is
  \<open>eth_sendTransaction\<close> on the call data and \<open>xe_btc_send\<close> is \<open>sendrawtransaction\<close>; \<open>None\<close> is an
  error. \<open>xe_fee\<close> is the fee for a number of virtual bytes, rounded up.
\<close>

record multichain_env =
  xe_evm :: bool
  xe_btc :: bool
  xe_eth_send :: "string \<Rightarrow> string option"
  xe_btc_send :: "btc_transaction \<Rightarrow> b32 option"
  xe_btc_address :: "bitcoin_network \<Rightarrow> string \<Rightarrow> bool"
  xe_fee :: "nat \<Rightarrow> u64"
  xe_txid_to_string :: "b32 \<Rightarrow> string"

definition refuse :: "string \<Rightarrow> 'a handler" where
  "refuse text = hfail (Internal text)"

section \<open>Aggregation and commitment\<close>

fun aggregate_payouts_into :: "multi_chain_settlement_entry list \<Rightarrow> (string, u64) dashmap \<Rightarrow> (string, u64) dashmap option" where
  "aggregate_payouts_into [] m = Some m"
| "aggregate_payouts_into (entry # rest) m =
     (let total = (case dm_get m (me_settlement_address entry) of None \<Rightarrow> 0 | Some a \<Rightarrow> a)
      in case checked_add total (me_amount entry) of None \<Rightarrow> None
         | Some a \<Rightarrow> aggregate_payouts_into rest (dm_insert (me_settlement_address entry) a m))"

definition aggregate_payouts :: "multi_chain_settlement_entry list \<Rightarrow> aggregated_payout list option" where
  "aggregate_payouts entries =
     map_option (\<lambda>m. map (\<lambda>(k, a). \<lparr>ap_settlement_address = k, ap_amount = a\<rparr>) (sort_key fst m)) (aggregate_payouts_into entries [])"

definition entry_bytes :: "multi_chain_settlement_entry \<Rightarrow> bytes" where
  "entry_bytes e = str_bytes (me_settlement_id e) @ [0] @ str_bytes (me_provider_id e) @ [0] @ str_bytes (me_settlement_address e)
     @ word_bytes (me_amount e) @ word_bytes (me_timestamp e)"

definition batch_commitment :: "(bytes \<Rightarrow> b32) \<Rightarrow> string \<Rightarrow> u64 \<Rightarrow> string \<Rightarrow> string \<Rightarrow> multi_chain_settlement_entry list \<Rightarrow> b32" where
  "batch_commitment sha256 domain batch_id network asset_id entries =
     sha256 (str_bytes domain @ word_bytes batch_id @ str_bytes network @ [0] @ str_bytes asset_id
       @ concat (map entry_bytes (sort_key me_settlement_id entries)))"

section \<open>Ethereum\<close>

definition ethereum_asset_address :: "string \<Rightarrow> string option" where
  "ethereum_asset_address asset_id =
     (if eq_ignore_ascii_case asset_id ''native'' \<or> eq_ignore_ascii_case asset_id ''eth''
      then Some (''0x'' @ replicate 40 CHR ''0'')
      else
        let stripped = (case strip_prefix ''0x'' asset_id of Some s \<Rightarrow> s | None \<Rightarrow> asset_id)
        in if length stripped = 40 \<and> list_all is_ascii_hexdigit stripped then Some (''0x'' @ to_ascii_lowercase stripped) else None)"

definition decode_eth_address :: "wal_lib \<Rightarrow> string \<Rightarrow> bytes option" where
  "decode_eth_address L address =
     (let stripped = (case strip_prefix ''0x'' address of Some s \<Rightarrow> s | None \<Rightarrow> address)
      in Option.bind (hex_decode L stripped) (\<lambda>bs. if length bs = 20 then Some bs else None))"

definition left_pad_20 :: "bytes \<Rightarrow> bytes" where
  "left_pad_20 value = replicate 12 0 @ value"

definition u256_from_u64 :: "u64 \<Rightarrow> bytes" where
  "u256_from_u64 value = replicate 24 0 @ rev (word_bytes value)"

fun pack_payouts :: "wal_lib \<Rightarrow> aggregated_payout list \<Rightarrow> bytes option" where
  "pack_payouts L [] = Some []"
| "pack_payouts L (p # ps) = Option.bind (decode_eth_address L (ap_settlement_address p)) (\<lambda>address.
     map_option (\<lambda>rest. address @ u256_from_u64 (ap_amount p) @ rest) (pack_payouts L ps))"

definition encode_settle_batch_bytes :: "wal_lib \<Rightarrow> u64 \<Rightarrow> b32 \<Rightarrow> string \<Rightarrow> aggregated_payout list \<Rightarrow> b32 \<Rightarrow> bytes option" where
  "encode_settle_batch_bytes L batch_id chunk_hash asset payouts audit_root =
     Option.bind (pack_payouts L payouts) (\<lambda>packed.
     Option.bind (decode_eth_address L asset) (\<lambda>asset_bytes.
       Some (pad_to_32 ([41, 55, 118, 220] @ u256_from_u64 batch_id @ word_bytes chunk_hash @ left_pad_20 asset_bytes
         @ u256_from_u64 160 @ word_bytes audit_root @ u256_from_u64 (of_nat (length packed)) @ packed))))"

definition encode_settle_batch_calldata :: "wal_lib \<Rightarrow> u64 \<Rightarrow> b32 \<Rightarrow> string \<Rightarrow> aggregated_payout list \<Rightarrow> b32 \<Rightarrow> string option" where
  "encode_settle_batch_calldata L batch_id chunk_hash asset payouts audit_root =
     map_option (\<lambda>bs. ''0x'' @ hex_encode L bs) (encode_settle_batch_bytes L batch_id chunk_hash asset payouts audit_root)"

text \<open>\<open>sum\<close> panics on overflow.\<close>

definition sum_amounts :: "u64 list \<Rightarrow> u64 handler" where
  "sum_amounts xs s = (case fold (\<lambda>x acc. Option.bind acc (\<lambda>a. checked_add a x)) xs (Some 0) of
     None \<Rightarrow> (Panic, s) | Some a \<Rightarrow> (Ok a, s))"

definition batch_receipt :: "chain_kind \<Rightarrow> string \<Rightarrow> string \<Rightarrow> multi_chain_settlement_entry list \<Rightarrow> nat \<Rightarrow> u64 \<Rightarrow> multi_chain_batch_receipt" where
  "batch_receipt kind network tx_id entries provider_count total_amount =
     \<lparr>mr_chain_kind = kind, mr_network = network, mr_tx_id = tx_id, mr_settlement_ids = map me_settlement_id entries,
      mr_provider_count = provider_count, mr_total_amount = total_amount\<rparr>"

definition submit_ethereum_batch ::
    "('p, 's) handler_env \<Rightarrow> multichain_env \<Rightarrow> string \<Rightarrow> string \<Rightarrow> multi_chain_settlement_entry list \<Rightarrow> u64 \<Rightarrow> multi_chain_batch_receipt handler" where
  "submit_ethereum_batch E X network asset_id entries batch_id =
     hguard (xe_evm X) (Internal ''A402_EVM_RPC_URL is required for Ethereum settlement'')
    (hsome (aggregate_payouts entries) (Internal ''provider amount overflow'') (\<lambda>payouts.
     hsome (ethereum_asset_address asset_id) (Internal ''invalid Ethereum asset id'') (\<lambda>asset.
     hsome (encode_settle_batch_calldata (he_lib E) batch_id
              (batch_commitment (he_sha256 E) ''A402-EVM-BATCH-V1'' batch_id network asset_id entries) asset payouts
              (batch_commitment (he_sha256 E) ''A402-EVM-AUDIT-ROOT-V1'' batch_id network asset_id entries))
           (Internal ''invalid hex address'') (\<lambda>calldata.
     hsome (xe_eth_send X calldata) (Internal ''eth_sendTransaction failed'') (\<lambda>tx_hash.
     hbind (sum_amounts (map me_amount entries)) (\<lambda>total.
       hret (batch_receipt Ethereum network tx_hash entries (length payouts) total)))))))"

section \<open>Bitcoin\<close>

definition parse_bitcoin_network :: "string \<Rightarrow> bitcoin_network option" where
  "parse_bitcoin_network network =
     Option.bind (strip_prefix ''bitcoin:'' network) (\<lambda>net.
       if net = ''mainnet'' then Some BtcMainnet else if net = ''testnet'' then Some BtcTestnet
       else if net = ''signet'' then Some BtcSignet else if net = ''regtest'' then Some BtcRegtest else None)"

definition estimate_vbytes :: "nat \<Rightarrow> nat \<Rightarrow> nat" where
  "estimate_vbytes n_payouts n_inputs = 10 + 68 * n_inputs + 12 + 31 * (n_payouts + 1)"

text \<open>Change below the dust limit is left to the miners.\<close>

definition DUST :: u64 where
  "DUST = 1000"

definition build_settlement_tx :: "b32 \<Rightarrow> aggregated_payout list \<Rightarrow> vault_utxo list \<Rightarrow> u64 \<Rightarrow> btc_transaction handler" where
  "build_settlement_tx commit_hash payouts utxos fee_sat =
     hguard (utxos \<noteq> []) (Internal ''NoInputs'')
    (hguard (payouts \<noteq> []) (Internal ''NoPayouts'')
    (hbind (sum_amounts (map vu_value_sat utxos)) (\<lambda>total_in.
     hbind (sum_amounts (map ap_amount payouts)) (\<lambda>total_out.
     hpanic_unless (checked_add total_out fee_sat \<noteq> None)
    (hguard (\<not> total_in < total_out + fee_sat) (Internal ''InsufficientFunds'')
    (let change_sat = total_in - total_out - fee_sat
     in hret \<lparr>bt_inputs = map utxo_key_from_utxo utxos,
          bt_outputs = [OpReturn commit_hash] @ map (\<lambda>p. PayTo (ap_settlement_address p) (ap_amount p)) payouts
            @ (if DUST \<le> change_sat then [ChangeOut change_sat] else [])\<rparr>))))))"

definition spend_ledger :: "utxo_key \<Rightarrow> unit handler" where
  "spend_ledger key s = (case btc_spend key (as_btc_ledger (nd_app s)) of Inl _ \<Rightarrow> (Err (Internal ''btc_ledger.spend''), s)
     | Inr (_, l) \<Rightarrow> (Ok (), s\<lparr>nd_app := (nd_app s)\<lparr>as_btc_ledger := l\<rparr>\<rparr>))"

definition add_ledger :: "utxo_key \<Rightarrow> u64 \<Rightarrow> unit handler" where
  "add_ledger key value_sat s = (case btc_add key value_sat (as_btc_ledger (nd_app s)) of Inl _ \<Rightarrow> (Err (Internal ''btc_ledger.add''), s)
     | Inr l \<Rightarrow> (Ok (), s\<lparr>nd_app := (nd_app s)\<lparr>as_btc_ledger := l\<rparr>\<rparr>))"

text \<open>After the broadcast: the spent input, then the change output, each logged first.\<close>

definition book_spend :: "('p, 's) handler_env \<Rightarrow> multichain_env \<Rightarrow> vault_utxo \<Rightarrow> b32 \<Rightarrow> nat \<Rightarrow> u64 \<Rightarrow> unit handler" where
  "book_spend E X utxo txid payout_count change_sat =
     hthen (wal_log E (WBtcUtxoSpent (xe_txid_to_string X (vu_txid utxo)) (vu_vout utxo) (xe_txid_to_string X txid)))
    (hthen (spend_ledger (utxo_key_from_utxo utxo))
    (if DUST \<le> change_sat then
       hthen (wal_log E (WBtcChangeCreated (xe_txid_to_string X txid) (of_nat (1 + payout_count)) change_sat))
         (add_ledger \<lparr>uk_txid = txid, uk_vout = of_nat (1 + payout_count)\<rparr> change_sat)
     else hret ()))"

definition submit_bitcoin_batch ::
    "('p, 's) handler_env \<Rightarrow> multichain_env \<Rightarrow> string \<Rightarrow> string \<Rightarrow> multi_chain_settlement_entry list \<Rightarrow> u64 \<Rightarrow> multi_chain_batch_receipt handler" where
  "submit_bitcoin_batch E X network asset_id entries batch_id =
     hguard (eq_ignore_ascii_case asset_id ''btc'' \<or> eq_ignore_ascii_case asset_id ''native'') (Internal ''unsupported Bitcoin asset id'')
    (hsome (parse_bitcoin_network network) (Internal ''unknown Bitcoin network'') (\<lambda>net.
     hguard (xe_btc X) (Internal ''A402_BITCOIN_RPC_URL is required for Bitcoin settlement'')
    (hsome (aggregate_payouts entries) (Internal ''provider amount overflow'') (\<lambda>payouts.
     hguard (list_all (\<lambda>p. xe_btc_address X net (ap_settlement_address p)) payouts) (Internal ''invalid provider address'')
    (hbind (sum_amounts (map ap_amount payouts)) (\<lambda>total_out_sat.
     let fee_sat = max (xe_fee X (estimate_vbytes (length payouts) 1)) 500
     in hpanic_unless (checked_add total_out_sat fee_sat \<noteq> None) (\<lambda>s.
       (case pick_single (total_out_sat + fee_sat) (as_btc_ledger (nd_app s)) of
          Inl _ \<Rightarrow> refuse ''btc_ledger.pick_single''
        | Inr utxo \<Rightarrow>
            hbind (build_settlement_tx (batch_commitment (he_sha256 E) ''A402-BTC-BATCH-V1'' batch_id network asset_id entries)
                    payouts [utxo] fee_sat) (\<lambda>tx.
            hsome (xe_btc_send X tx) (Internal ''sendrawtransaction'') (\<lambda>txid.
            hthen (book_spend E X utxo txid (length payouts) (vu_value_sat utxo - total_out_sat - fee_sat))
           (hbind (sum_amounts (map me_amount entries)) (\<lambda>total.
              hret (batch_receipt Bitcoin network (xe_txid_to_string X txid) entries (length payouts) total)))))) s)))))))"

section \<open>All groups\<close>

type_synonym group_key = "chain_kind \<times> string \<times> string"

fun kind_rank :: "chain_kind \<Rightarrow> nat" where
  "kind_rank Solana = 0"
| "kind_rank Ethereum = 1"
| "kind_rank Bitcoin = 2"

fun group_entries ::
    "multi_chain_settlement_entry list \<Rightarrow> (group_key, multi_chain_settlement_entry list) dashmap
       \<Rightarrow> (group_key, multi_chain_settlement_entry list) dashmap option" where
  "group_entries [] groups = Some groups"
| "group_entries (e # es) groups =
     (case parse_network (me_network e) of Inl _ \<Rightarrow> None
      | Inr d \<Rightarrow>
          let key = (cd_kind d, me_network e, me_asset_id e);
              old = (case dm_get groups key of None \<Rightarrow> [] | Some g \<Rightarrow> g)
          in group_entries es (dm_insert key (old @ [e]) groups))"

text \<open>The groups in the order of the \<open>BTreeMap\<close>; the first error ends the loop and drops the receipts.\<close>

fun submit_groups ::
    "('p, 's) handler_env \<Rightarrow> multichain_env \<Rightarrow> u64 \<Rightarrow> (group_key \<times> multi_chain_settlement_entry list) list
       \<Rightarrow> multi_chain_batch_receipt list \<Rightarrow> multi_chain_batch_receipt list handler" where
  "submit_groups E X batch_id [] receipts = hret receipts"
| "submit_groups E X batch_id (((kind, network, asset_id), members) # rest) receipts =
     (case kind of
        Solana \<Rightarrow> submit_groups E X batch_id rest receipts
      | Ethereum \<Rightarrow> hbind (submit_ethereum_batch E X network asset_id members batch_id) (\<lambda>r. submit_groups E X batch_id rest (receipts @ [r]))
      | Bitcoin \<Rightarrow> hbind (submit_bitcoin_batch E X network asset_id members batch_id) (\<lambda>r. submit_groups E X batch_id rest (receipts @ [r])))"

definition submit_multichain_batches ::
    "('p, 's) handler_env \<Rightarrow> multichain_env \<Rightarrow> multi_chain_settlement_entry list \<Rightarrow> u64 \<Rightarrow> multi_chain_batch_receipt list handler" where
  "submit_multichain_batches E X entries batch_id =
     hsome (group_entries entries []) (Internal ''invalid multichain network'') (\<lambda>groups.
       submit_groups E X batch_id (sort_key (\<lambda>((kind, network, asset_id), _). (kind_rank kind, network, asset_id)) groups) [])"

end
