(* ===== verification/Batch_Fire.thy ===== *)
theory Batch_Fire
  imports Batch Multichain Handler_Channel Vault_Program
begin

text \<open>
  The background work of the enclave (\<open>enclave/src/batch.rs\<close> and \<open>post_fire_batch\<close> of \<open>handlers.rs\<close>):
  firing a batch, with submission, confirmation and mirrored receipts, and one turn of the
  batch loop. The chain
  node answers a transaction with its signature or not at all; an answer does not depend on the
  ledger of the enclave. Iteration over a \<open>HashSet\<close> is iteration over the list without repetitions.
\<close>

section \<open>Environment\<close>

text \<open>The transaction of a chunk: both instructions with their arguments and accounts.\<close>

record chunk_transaction =
  tc_batch_id :: u64
  tc_batch_chunk_hash :: b32
  tc_settlements :: "batch_settlement_entry list"
  tc_settlement_accounts :: "pubkey list"
  tc_records :: "batch_audit_entry list"
  tc_audit_accounts :: "pubkey list"
  tc_settle_accounts :: "pubkey list"
  tc_audit_fixed_accounts :: "pubkey list"

text \<open>
  \<open>fe_nonce_recorded\<close> and \<open>fe_claim\<close> read accounts of the chain: the outer \<open>None\<close> is a failed call, the
  inner one an account that does not exist or does not decode. \<open>fe_pda\<close> is \<open>find_program_address\<close>.
\<close>

record ('p, 's) fire_env =
  fe_env :: "('p, 's) handler_env"
  fe_multichain :: multichain_env
  fe_hkdf :: "bytes \<Rightarrow> bytes \<Rightarrow> bytes \<Rightarrow> b64"
  fe_rand :: "string \<Rightarrow> 's \<times> 's"
  fe_privacy :: batch_privacy_config
  fe_submit :: "chunk_transaction \<Rightarrow> string option"
  fe_pda :: "bytes list \<Rightarrow> pubkey \<times> u8"
  fe_sysvar_instructions :: pubkey
  fe_nonce_account :: "pubkey \<Rightarrow> bool option"
  fe_claim :: "pubkey \<Rightarrow> (b32 \<times> b32) option option"
  fe_bypass_enabled :: bool

record batch_submit_result =
  br_submitted :: bool
  br_batch_id :: "u64 option"
  br_provider_count :: nat
  br_settlement_count :: nat
  br_total_amount :: u64
  br_tx_signatures :: "string list"

definition no_op :: batch_submit_result where
  "no_op = \<lparr>br_submitted = False, br_batch_id = None, br_provider_count = 0, br_settlement_count = 0, br_total_amount = 0,
     br_tx_signatures = []\<rparr>"

section \<open>Receipts with retries\<close>

fun retry_receipt :: "nat \<Rightarrow> 'a handler \<Rightarrow> unit handler" where
  "retry_receipt 0 issue = hthen issue (hret ())"
| "retry_receipt (Suc n) issue = (\<lambda>s. case issue s of
     (Ok _, s1) \<Rightarrow> (Ok (), s1) | (Panic, s1) \<Rightarrow> (Panic, s1) | (Err _, s1) \<Rightarrow> retry_receipt n issue s1)"

text \<open>At least one attempt is made.\<close>

definition retry_provider_receipt_mirror :: "('p, 's) handler_env \<Rightarrow> string \<Rightarrow> nat \<Rightarrow> unit handler" where
  "retry_provider_receipt_mirror E provider_id attempts = retry_receipt (max attempts 1 - 1) (issue_provider_receipt_locked E provider_id)"

definition retry_client_receipt_mirror :: "('p, 's) handler_env \<Rightarrow> pubkey \<Rightarrow> nat \<Rightarrow> unit handler" where
  "retry_client_receipt_mirror E client attempts = retry_receipt (max attempts 1 - 1) (issue_client_receipt_locked E client)"

fun for_each :: "('a \<Rightarrow> unit handler) \<Rightarrow> 'a list \<Rightarrow> unit handler" where
  "for_each f [] = hret ()"
| "for_each f (x # xs) = hthen (f x) (for_each f xs)"

text \<open>A failed mirror is only logged.\<close>

definition mirror_providers :: "('p, 's) handler_env \<Rightarrow> string list \<Rightarrow> unit handler" where
  "mirror_providers E provider_ids = for_each (\<lambda>p. hignore (retry_provider_receipt_mirror E p 3)) provider_ids"

section \<open>Chunks\<close>

definition audit_accounts_of :: "('p, 's) fire_env \<Rightarrow> vault_state \<Rightarrow> u64 \<Rightarrow> batch_chunk \<Rightarrow> pubkey list" where
  "audit_accounts_of F v batch_id chunk = map (\<lambda>offset. fst (fe_pda F
     [str_bytes ''audit'', word_bytes (vault_config v), word_bytes batch_id, [bc_start_index chunk + of_nat offset]]))
     [0 ..< length (bc_entries chunk)]"

definition submit_atomic_chunk ::
    "('p, 's) fire_env \<Rightarrow> vault_state \<Rightarrow> u64 \<Rightarrow> batch_chunk \<Rightarrow> batch_settlement_entry list \<Rightarrow> b32 \<Rightarrow> chunk_transaction" where
  "submit_atomic_chunk F v batch_id chunk aggregated_settlements chunk_hash =
     \<lparr>tc_batch_id = batch_id, tc_batch_chunk_hash = chunk_hash, tc_settlements = aggregated_settlements,
      tc_settlement_accounts = map bs_provider_token_account aggregated_settlements,
      tc_records = map pp_audit (bc_entries chunk), tc_audit_accounts = audit_accounts_of F v batch_id chunk,
      tc_settle_accounts = [vault_signer_pubkey v, vault_config v, sc_vault_token_account (solana v), fe_sysvar_instructions F],
      tc_audit_fixed_accounts = [vault_signer_pubkey v, vault_config v, fe_sysvar_instructions F]\<rparr>"

definition chunk_ids :: "batch_chunk \<Rightarrow> string list" where
  "chunk_ids chunk = map pp_settlement_id (bc_entries chunk)"

definition apply_submitted_chunk :: "batch_chunk \<Rightarrow> i64 \<Rightarrow> u64 \<Rightarrow> string \<Rightarrow> string list handler" where
  "apply_submitted_chunk chunk now batch_id tx_signature =
     hthen (modify_vault (\<lambda>v. (apply_batch_confirmation (chunk_ids chunk) batch_id tx_signature v)\<lparr>last_batch_at := now\<rparr>))
       (hret (remdups (map prepared_settlement.pp_provider_id (bc_entries chunk))))"

definition fire_chunk :: "('p, 's) fire_env \<Rightarrow> i64 \<Rightarrow> u64 \<Rightarrow> batch_chunk \<Rightarrow> string handler" where
  "fire_chunk F now batch_id chunk =
     hsome (aggregate_settlements (bc_entries chunk)) (Internal ''aggregated provider amount overflow'') (\<lambda>settlements.
     hvault (\<lambda>v.
     hsome (fe_submit F (submit_atomic_chunk F v batch_id chunk settlements
              (batch_chunk_hash (he_sha256 (fe_env F)) batch_id settlements (chunk_audits chunk))))
           (Internal ''chunk submission failed'') (\<lambda>signature.
     hthen (wal_log (fe_env F) (WBatchConfirmed batch_id signature (chunk_ids chunk)))
    (hbind (apply_submitted_chunk chunk now batch_id signature) (\<lambda>provider_ids.
     hthen (mirror_providers (fe_env F) provider_ids) (hret signature))))))"

fun fire_chunks :: "('p, 's) fire_env \<Rightarrow> i64 \<Rightarrow> u64 \<Rightarrow> batch_chunk list \<Rightarrow> string list \<Rightarrow> string list handler" where
  "fire_chunks F now batch_id [] tx_signatures = hret tx_signatures"
| "fire_chunks F now batch_id (chunk # chunks) tx_signatures =
     hbind (fire_chunk F now batch_id chunk) (\<lambda>signature. fire_chunks F now batch_id chunks (tx_signatures @ [signature]))"

section \<open>Other chains\<close>

definition multichain_candidates :: "vault_state \<Rightarrow> string list \<Rightarrow> (string \<times> i64 \<times> u64) list" where
  "multichain_candidates v sids = List.map_filter (\<lambda>sid.
     map_option (\<lambda>record. (sid, sr_timestamp record, sr_amount record)) (dm_get (settlement_history v) sid)) sids"

definition multichain_cursors :: "i64 \<Rightarrow> batch_build_mode \<Rightarrow> batch_privacy_config \<Rightarrow> vault_state \<Rightarrow> provider_batch_cursor list" where
  "multichain_cursors batch_timestamp mode config v = List.map_filter (\<lambda>(_, credit).
     map_option (\<lambda>selection. \<lparr>pbc_provider_id = mc_provider_id credit, pbc_oldest_credit_at = sel_oldest_timestamp selection,
         pbc_settlement_ids = sel_settlement_ids selection, pbc_next_index = 0\<rparr>)
       (select_provider_batch_entries (multichain_candidates v (mc_settlement_ids credit)) batch_timestamp mode config))
     (multi_chain_provider_credits v)"

definition multichain_entry :: "vault_state \<Rightarrow> string \<times> string \<Rightarrow> multi_chain_settlement_entry option" where
  "multichain_entry v = (\<lambda>(provider_id, sid).
     case (dm_get (settlement_history v) sid, dm_get (providers v) provider_id) of
       (Some record, Some provider) \<Rightarrow>
         Some \<lparr>me_settlement_id = sid, me_provider_id = provider_id, me_network = pr_network provider, me_asset_id = pr_asset_id provider,
           me_settlement_address = pr_settlement_address provider, me_amount = sr_amount record, me_timestamp = sr_timestamp record\<rparr>
     | _ \<Rightarrow> None)"

definition prepare_multichain_batch :: "i64 \<Rightarrow> batch_build_mode \<Rightarrow> batch_privacy_config \<Rightarrow> vault_state \<Rightarrow> multi_chain_settlement_entry list" where
  "prepare_multichain_batch batch_timestamp mode config v = List.map_filter (multichain_entry v)
     (select_batch_settlement_ids (multichain_cursors batch_timestamp mode config v) BATCH_MAX_SETTLEMENTS_PER_TX)"

text \<open>The text that stands for the transaction of another chain.\<close>

definition receipt_signature :: "multi_chain_batch_receipt \<Rightarrow> string" where
  "receipt_signature r = (case mr_chain_kind r of Solana \<Rightarrow> ''Solana'' | Ethereum \<Rightarrow> ''Ethereum'' | Bitcoin \<Rightarrow> ''Bitcoin'')
     @ '':'' @ mr_network r @ '':'' @ mr_tx_id r"

definition confirm_receipt :: "('p, 's) fire_env \<Rightarrow> i64 \<Rightarrow> u64 \<Rightarrow> multi_chain_settlement_entry list \<Rightarrow> multi_chain_batch_receipt \<Rightarrow> unit handler" where
  "confirm_receipt F now batch_id prepared receipt =
     hthen (wal_log (fe_env F) (WBatchConfirmed batch_id (receipt_signature receipt) (mr_settlement_ids receipt)))
    (hthen (modify_vault (\<lambda>v. (apply_batch_confirmation (mr_settlement_ids receipt) batch_id (receipt_signature receipt) v)\<lparr>last_batch_at := now\<rparr>))
    (mirror_providers (fe_env F) (remdups (map me_provider_id (filter (\<lambda>e. me_settlement_id e \<in> set (mr_settlement_ids receipt)) prepared)))))"

definition fire_multichain :: "('p, 's) fire_env \<Rightarrow> i64 \<Rightarrow> u64 \<Rightarrow> multi_chain_settlement_entry list \<Rightarrow> string list handler" where
  "fire_multichain F now batch_id prepared =
     (if prepared = [] then hret []
      else hbind (submit_multichain_batches (fe_env F) (fe_multichain F) prepared batch_id) (\<lambda>receipts.
           hthen (for_each (confirm_receipt F now batch_id prepared) receipts) (hret (map receipt_signature receipts))))"

section \<open>Firing\<close>

text \<open>What follows the preparation; it looks at the ledger only to change it.\<close>

definition fire_prepared ::
    "('p, 's) fire_env \<Rightarrow> i64 \<Rightarrow> batch_build_mode \<Rightarrow> prepared_settlement list \<Rightarrow> multi_chain_settlement_entry list \<Rightarrow> batch_submit_result handler" where
  "fire_prepared F now mode prepared multichain_prepared =
     (if prepared = [] \<and> multichain_prepared = [] then hret no_op
      else
        let batch_id = now;
            chunks = privacy_filter_batch_chunks (build_batch_chunks prepared) now mode (fe_privacy F);
            submitted = concat (map bc_entries chunks)
        in if chunks = [] \<and> multichain_prepared = [] then hret no_op
           else
             let provider_count = card (set (map prepared_settlement.pp_provider_id submitted)) + card (set (map me_provider_id multichain_prepared))
             in hbind (sum_amounts (map (bs_amount \<circ> pp_settlement) submitted)) (\<lambda>solana_amount.
                hbind (sum_amounts (map me_amount multichain_prepared)) (\<lambda>multichain_amount.
                let total_amount = saturating_add solana_amount multichain_amount
                in hbind (fire_chunks F now batch_id chunks []) (\<lambda>signatures.
                   hbind (fire_multichain F now batch_id multichain_prepared) (\<lambda>multichain_signatures.
                   hthen (wal_log (fe_env F) (WBatchSubmitted batch_id provider_count total_amount))
                  (hret \<lparr>br_submitted = True, br_batch_id = Some batch_id, br_provider_count = provider_count,
                    br_settlement_count = length submitted + length multichain_prepared, br_total_amount = total_amount,
                    br_tx_signatures = signatures @ multichain_signatures\<rparr>))))))"

definition prepare_both ::
    "('p, 's) fire_env \<Rightarrow> i64 \<Rightarrow> batch_build_mode \<Rightarrow> (prepared_settlement list \<times> multi_chain_settlement_entry list) handler" where
  "prepare_both F now mode =
     hbind (run_vault (\<lambda>v. case prepare_batch (he_curve (fe_env F)) (he_sha256 (fe_env F)) (fe_hkdf F) (fe_rand F) now mode (fe_privacy F) v of
         (prepared, v1) \<Rightarrow> (Ok prepared, v1))) (\<lambda>prepared.
     hvault (\<lambda>v. hret (prepared, prepare_multichain_batch now mode (fe_privacy F) v)))"

definition fire_batch_at :: "('p, 's) fire_env \<Rightarrow> i64 \<Rightarrow> batch_build_mode \<Rightarrow> batch_submit_result handler" where
  "fire_batch_at F now mode = hbind (prepare_both F now mode) (\<lambda>(prepared, multichain_prepared).
     fire_prepared F now mode prepared multichain_prepared)"

definition MAX_BATCH_JITTER_SEC :: int where
  "MAX_BATCH_JITTER_SEC = 30"

text \<open>The decision of the loop and of \<open>fire_ready_batch_now\<close>; building the cursors changes the ledger.\<close>

definition batch_decision ::
    "('p, 's) fire_env \<Rightarrow> i64 \<Rightarrow> int option \<Rightarrow> int \<Rightarrow> (batch_loop_decision \<times> int option) handler" where
  "batch_decision F now jitter_deadline sampled_jitter_sec = hvault (\<lambda>v.
     let elapsed = sint now - sint (last_batch_at v)
     in hbind (run_vault (\<lambda>v. case build_provider_batch_cursors now Auto (fe_privacy F) v of (cursors, v1) \<Rightarrow> (Ok cursors, v1))) (\<lambda>cursors.
        hret (decide_batch_action (sint now) elapsed (sint (bp_batch_window_sec (fe_privacy F))) (length cursors)
          (Max (set (map (\<lambda>c. sint now - sint (pbc_oldest_credit_at c)) cursors) \<union> (if cursors = [] then {0} else {})))
          jitter_deadline sampled_jitter_sec (bp_min_batch_providers (fe_privacy F)))))"

definition fire_ready_batch_now :: "('p, 's) fire_env \<Rightarrow> batch_submit_result handler" where
  "fire_ready_batch_now F = hbind utc_now (\<lambda>now.
     hbind (batch_decision F now None 0) (\<lambda>(decision, _).
     if decision \<noteq> Fire then hret no_op else fire_batch_at F now Auto))"

definition fire_batch_privacy_bypass_now :: "('p, 's) fire_env \<Rightarrow> batch_submit_result handler" where
  "fire_batch_privacy_bypass_now F = hbind utc_now (\<lambda>now. fire_batch_at F now Flush)"

text \<open>\<open>catch_unwind\<close> turns a panic into an error.\<close>

definition post_fire_batch :: "('p, 's) fire_env \<Rightarrow> bool \<Rightarrow> batch_submit_result handler" where
  "post_fire_batch F privacy_bypass =
     hguard (\<not> (privacy_bypass \<and> \<not> fe_bypass_enabled F)) AdminPrivacyBypassDisabled
       (\<lambda>s. case (if privacy_bypass then fire_batch_privacy_bypass_now F else fire_ready_batch_now F) s of
          (Ok r, s1) \<Rightarrow> (Ok r, s1)
        | (Err e, s1) \<Rightarrow> (Err (Internal ''fire_batch failed''), s1)
        | (Panic, s1) \<Rightarrow> (Err (Internal ''fire_batch panicked''), s1))"

text \<open>One turn of the batch loop; the result is the next deadline of the jitter.\<close>

definition batch_settlement_tick :: "('p, 's) fire_env \<Rightarrow> int option \<Rightarrow> int \<Rightarrow> int option handler" where
  "batch_settlement_tick F jitter_deadline sampled_jitter_sec = hbind utc_now (\<lambda>now.
     hbind (batch_decision F now jitter_deadline sampled_jitter_sec) (\<lambda>(decision, next_deadline).
     hthen (if decision = Fire then hignore (fire_batch_at F now Auto) else hret ()) (hret next_deadline)))"

end
