(* ===== verification/Expiry_Loop.thy ===== *)
theory Expiry_Loop
  imports Batch_Fire
begin

text \<open>
  One tick of \<open>reservation_expiry_loop\<close> (\<open>enclave/src/batch.rs\<close>): expired reservations, expired
  withdrawals after a look at the chain, the cleaning of old settlement records, stale channel
  requests, and the recovery of channel payments claimed on chain. Errors of a single item are
  logged and skipped; a panic ends the loop.
\<close>

definition SETTLEMENT_HISTORY_MAX_AGE_SEC :: int where
  "SETTLEMENT_HISTORY_MAX_AGE_SEC = 1800"

definition withdraw_nonce_recorded_onchain :: "('p, 's) fire_env \<Rightarrow> vault_state \<Rightarrow> pending_withdrawal \<Rightarrow> bool option" where
  "withdraw_nonce_recorded_onchain F v w =
     fe_nonce_account F (fst (fe_pda F (nonce_seeds (vault_config v) (pw_client w) (pw_withdraw_nonce w))))"

definition expire_reservations :: "('p, 's) fire_env \<Rightarrow> i64 \<Rightarrow> unit handler" where
  "expire_reservations F now = hvault (\<lambda>v.
     for_each (\<lambda>vid. hignore (expire_reserved_reservation_with_lock (fe_env F) vid now))
       (map (rs_verification_id \<circ> snd) (filter (\<lambda>(_, r). rs_status r = Reserved \<and> sint (rs_expires_at r) < sint now) (reservations v))))"

definition expire_withdrawal :: "('p, 's) fire_env \<Rightarrow> i64 \<Rightarrow> pending_withdrawal \<Rightarrow> unit handler" where
  "expire_withdrawal F now w = hvault (\<lambda>v.
     case withdraw_nonce_recorded_onchain F v w of
       Some False \<Rightarrow> hignore (expire_pending_withdrawal_handler (fe_env F) (pw_withdraw_nonce w) now)
     | _ \<Rightarrow> hret ())"

definition expire_withdrawals :: "('p, 's) fire_env \<Rightarrow> i64 \<Rightarrow> unit handler" where
  "expire_withdrawals F now = hvault (\<lambda>v.
     for_each (expire_withdrawal F now) (map snd (filter (\<lambda>(_, w). sint (pw_expires_at w) < sint now) (pending_withdrawals v))))"

text \<open>Settlements that a credit of the Solana ledger names are kept.\<close>

definition stale_settlements :: "i64 \<Rightarrow> vault_state \<Rightarrow> string list" where
  "stale_settlements now v =
     (let referenced = set (concat (map (pc_settlement_ids \<circ> snd) (provider_credits v)))
      in map (sr_settlement_id \<circ> snd) (filter (\<lambda>(_, r). SETTLEMENT_HISTORY_MAX_AGE_SEC < sint now - sint (sr_timestamp r)
           \<and> sr_settlement_id r \<notin> referenced) (settlement_history v)))"

definition clean_settlement_history :: "i64 \<Rightarrow> vault_state \<Rightarrow> vault_state" where
  "clean_settlement_history now v = v\<lparr>settlement_history := fold dm_remove (stale_settlements now v) (settlement_history v)\<rparr>"

definition expire_channel_requests :: "('p, 's) fire_env \<Rightarrow> i64 \<Rightarrow> unit handler" where
  "expire_channel_requests F now = hvault (\<lambda>v.
     for_each (\<lambda>cid. hignore (expire_stale_channel_request_with_lock (fe_env F) cid now))
       (map (ch_channel_id \<circ> snd) (filter (\<lambda>(_, ch). (ch_status ch = ChLocked \<or> ch_status ch = ChPending)
          \<and> (case ch_active_request ch of None \<Rightarrow> False | Some request \<Rightarrow> sint (rq_expires_at request) < sint now)) (active_channels v))))"

section \<open>Claims recorded on chain\<close>

definition claim_account :: "('p, 's) fire_env \<Rightarrow> vault_state \<Rightarrow> string \<Rightarrow> string \<Rightarrow> pubkey" where
  "claim_account F v channel_id request_id = fst (fe_pda F (claim_seeds (vault_config v)
     (hash_identifier (he_sha256 (fe_env F)) channel_id) (hash_identifier (he_sha256 (fe_env F)) request_id)))"

text \<open>After a finalisation that could be logged: the client's lock expiry and a fresh receipt, both optional.\<close>

definition finish_recovery :: "('p, 's) handler_env \<Rightarrow> string \<Rightarrow> unit handler" where
  "finish_recovery E channel_id = hvault (\<lambda>v.
     case dm_get (active_channels v) channel_id of None \<Rightarrow> hret ()
     | Some ch \<Rightarrow> hthen (hignore (run_vault (refresh_client_max_lock_expires_at (ch_client ch))))
         (hignore (retry_client_receipt_mirror E (ch_client ch) 3)))"

definition recover_claim :: "('p, 's) fire_env \<Rightarrow> string \<times> string \<Rightarrow> unit handler" where
  "recover_claim F = (\<lambda>(channel_id, request_id). hvault (\<lambda>v.
     case fe_claim F (claim_account F v channel_id request_id) of
       Some (Some (full_sig_r, full_sig_s)) \<Rightarrow>
         hignore (hbind utc_now (\<lambda>now.
           hbind (run_vault (finalize_onchain_claim (he_curve (fe_env F)) (he_sha256 (fe_env F)) now channel_id full_sig_r full_sig_s)) (\<lambda>outcome.
           hbind (wal_try (fe_env F) (WChannelFinalized channel_id (fo_request_id outcome) (fo_amount outcome))) (\<lambda>logged.
             if logged then finish_recovery (fe_env F) channel_id
             else hbind utc_now (\<lambda>undo_now. hignore (run_vault (rollback_finalize_offchain undo_now channel_id (fo_request outcome))))))))
     | _ \<Rightarrow> hret ()))"

definition recover_pending_channel_claims :: "('p, 's) fire_env \<Rightarrow> unit handler" where
  "recover_pending_channel_claims F = hvault (\<lambda>v.
     for_each (recover_claim F) (List.map_filter (\<lambda>(_, ch).
       if ch_status ch = ChPending then map_option (\<lambda>request. (ch_channel_id ch, rq_request_id request)) (ch_active_request ch) else None)
       (active_channels v)))"

definition reservation_expiry_tick :: "('p, 's) fire_env \<Rightarrow> unit handler" where
  "reservation_expiry_tick F = hbind utc_now (\<lambda>now.
     hthen (expire_reservations F now)
    (hthen (expire_withdrawals F now)
    (hthen (modify_vault (clean_settlement_history now))
    (hthen (expire_channel_requests F now)
       (recover_pending_channel_claims F)))))"

end
