(* ===== verification/Balance_Sync.thy ===== *)
theory Balance_Sync
  imports Handler_Channel
begin

text \<open>
  The deposit detector (\<open>enclave/src/deposit_detector.rs\<close>): finalized deposits and withdrawals of
  the vault are read from the chain node and applied to the ledger of the enclave, through a
  subscription and, after every reconnect, a paged catch-up. The answers of the chain node, the
  texts of signatures and the parser of JSON are parameters.
\<close>

section \<open>Events\<close>

record deposit_event =
  de_signature :: string
  de_client :: pubkey
  de_amount :: u64
  de_slot :: u64

record withdraw_event =
  we_signature :: string
  we_client :: pubkey
  we_recipient_ata :: pubkey
  we_amount :: u64
  we_withdraw_nonce :: u64
  we_expires_at :: i64
  we_slot :: u64

datatype balance_sync_event = BsDeposit deposit_event | BsWithdraw withdraw_event

text \<open>A decoded transaction; the loaded addresses are texts, the writable ones first.\<close>

record compiled_instruction =
  ci_program_id_index :: u8
  ci_accounts :: "u8 list"
  ci_data :: bytes

record confirmed_transaction =
  ct_slot :: u64
  ct_failed :: bool
  ct_message :: "(pubkey list \<times> compiled_instruction list) option"
  ct_loaded_addresses :: "(string list \<times> string list) option"

record detector_env =
  dt_vault_token_account :: pubkey
  dt_program_id :: pubkey
  dt_signature_from_str :: "string \<Rightarrow> b64 option"
  dt_signature_to_string :: "b64 \<Rightarrow> string"
  dt_json_parse :: "string \<Rightarrow> jvalue option"
  dt_utf8 :: "bytes \<Rightarrow> string option"

text \<open>
  The chain node: the \<open>n\<close>-th page of \<open>getSignaturesForAddress\<close> for \<open>before\<close>, \<open>until\<close> and a limit,
  newest first, and \<open>getTransaction\<close>; \<open>None\<close> is a failed call.
\<close>

record chain_node =
  cn_signatures :: "nat \<Rightarrow> b64 option \<Rightarrow> b64 option \<Rightarrow> nat \<Rightarrow> string list option"
  cn_transaction :: "b64 \<Rightarrow> confirmed_transaction option"

definition SIGNATURE_PAGE_LIMIT :: nat where
  "SIGNATURE_PAGE_LIMIT = 1000"

definition is_enabled :: "detector_env \<Rightarrow> bool" where
  "is_enabled D \<longleftrightarrow> dt_vault_token_account D \<noteq> 0 \<and> dt_program_id D \<noteq> 0"

definition is_processed :: "string \<Rightarrow> bool handler" where
  "is_processed signature s = (Ok (signature \<in> as_processed_signatures (nd_app s)), s)"

text \<open>The signature becomes processed and the last one, and its slot the last finalized one.\<close>

definition note_processed :: "string \<Rightarrow> u64 \<Rightarrow> unit handler" where
  "note_processed signature slot s = (Ok (), s\<lparr>nd_app := (nd_app s)
     \<lparr>as_processed_signatures := insert signature (as_processed_signatures (nd_app s)),
      as_last_processed_signature := Some signature,
      as_vault := (as_vault (nd_app s))\<lparr>last_finalized_slot := slot\<rparr>\<rparr>\<rparr>)"

section \<open>Applying an event\<close>

definition detector_apply_deposit :: "('p, 's) handler_env \<Rightarrow> deposit_event \<Rightarrow> unit handler" where
  "detector_apply_deposit E deposit = hbind (is_processed (de_signature deposit)) (\<lambda>known.
     if known then hret ()
     else
       hthen (run_vault (apply_deposit (de_client deposit) (de_amount deposit)))
      (hthen (wal_log_or_undo E (WDepositApplied (pubkey_to_string (he_lib E) (de_client deposit)) (de_amount deposit)
                (de_slot deposit) (de_signature deposit))
              (hignore (run_vault (rollback_deposit (de_client deposit) (de_amount deposit)))))
      (hthen (note_processed (de_signature deposit) (de_slot deposit))
      (hthen (issue_client_receipt_locked E (de_client deposit)) (hret ())))))"

definition withdrawal_mismatch :: enclave_error where
  "withdrawal_mismatch = Internal ''withdraw event mismatch''"

definition detector_apply_withdrawal :: "('p, 's) handler_env \<Rightarrow> withdraw_event \<Rightarrow> unit handler" where
  "detector_apply_withdrawal E w = hbind (is_processed (we_signature w)) (\<lambda>known.
     if known then hret ()
     else
       hbind (run_vault (apply_withdrawal (we_withdraw_nonce w))) (\<lambda>applied.
       hguard (\<not> (pw_client applied \<noteq> we_client w \<or> pw_recipient_ata applied \<noteq> we_recipient_ata w
                 \<or> pw_amount applied \<noteq> we_amount w \<or> pw_expires_at applied \<noteq> we_expires_at w)) withdrawal_mismatch
      (hthen (wal_log_or_undo E (WWithdrawApplied (pubkey_to_string (he_lib E) (we_client w))
                (pubkey_to_string (he_lib E) (we_recipient_ata w)) (we_amount w) (we_withdraw_nonce w) (we_expires_at w)
                (we_slot w) (we_signature w))
              (hignore (run_vault (rollback_applied_withdrawal applied))))
      (hthen (note_processed (we_signature w) (we_slot w))
      (hthen (run_vault (refresh_client_max_lock_expires_at (we_client w)))
      (hthen (issue_client_receipt_locked E (we_client w)) (hret ())))))))"

definition apply_balance_sync_event :: "('p, 's) handler_env \<Rightarrow> balance_sync_event \<Rightarrow> unit handler" where
  "apply_balance_sync_event E event = (case event of
     BsDeposit d \<Rightarrow> detector_apply_deposit E d | BsWithdraw w \<Rightarrow> detector_apply_withdrawal E w)"

text \<open>The loop of \<open>process_new_deposits\<close>; its result counts the events.\<close>

fun apply_events :: "('p, 's) handler_env \<Rightarrow> balance_sync_event list \<Rightarrow> nat \<Rightarrow> nat handler" where
  "apply_events E [] applied = hret applied"
| "apply_events E (e # es) applied = hthen (apply_balance_sync_event E e) (apply_events E es (applied + 1))"

section \<open>Reading a transaction\<close>

definition instruction_discriminator :: "(bytes \<Rightarrow> b32) \<Rightarrow> string \<Rightarrow> bytes" where
  "instruction_discriminator sha256 name = take 8 (word_bytes (sha256 (str_bytes (''global:'' @ name))))"

text \<open>All texts must parse.\<close>

fun parse_keys :: "wal_lib \<Rightarrow> string list \<Rightarrow> pubkey list option" where
  "parse_keys L [] = Some []"
| "parse_keys L (k # ks) = Option.bind (pubkey_from_str L k) (\<lambda>x. map_option ((#) x) (parse_keys L ks))"

definition parse_loaded_addresses :: "wal_lib \<Rightarrow> confirmed_transaction \<Rightarrow> (pubkey list \<times> pubkey list) option" where
  "parse_loaded_addresses L tx = (case ct_loaded_addresses tx of None \<Rightarrow> None
     | Some (writable, readonly) \<Rightarrow> Option.bind (parse_keys L writable) (\<lambda>w. map_option (Pair w) (parse_keys L readonly)))"

definition account_key :: "pubkey list \<Rightarrow> u8 \<Rightarrow> pubkey option" where
  "account_key keys i = (if unat i < length keys then Some (keys ! unat i) else None)"

text \<open>
  One instruction: \<open>None\<close> continues the loop of the source. An instruction of the vault that has the
  shape of a deposit and does not match is not tried as a withdrawal.
\<close>

definition instruction_event ::
    "(bytes \<Rightarrow> b32) \<Rightarrow> detector_env \<Rightarrow> pubkey list \<Rightarrow> u64 \<Rightarrow> string \<Rightarrow> compiled_instruction \<Rightarrow> balance_sync_event option" where
  "instruction_event sha256 D keys slot signature ix =
     (case account_key keys (ci_program_id_index ix) of None \<Rightarrow> None
      | Some program \<Rightarrow>
          if program \<noteq> dt_program_id D then None
          else if 16 \<le> length (ci_data ix) \<and> take 8 (ci_data ix) = instruction_discriminator sha256 ''deposit'' \<and> 4 \<le> length (ci_accounts ix)
          then (case (account_key keys (ci_accounts ix ! 0), account_key keys (ci_accounts ix ! 3)) of
              (Some client, Some vault_token_account) \<Rightarrow>
                if vault_token_account \<noteq> dt_vault_token_account D then None
                else Some (BsDeposit \<lparr>de_signature = signature, de_client = client,
                       de_amount = word_of_bytes (take 8 (drop 8 (ci_data ix))), de_slot = slot\<rparr>)
            | _ \<Rightarrow> None)
          else if 32 \<le> length (ci_data ix) \<and> take 8 (ci_data ix) = instruction_discriminator sha256 ''withdraw'' \<and> 4 \<le> length (ci_accounts ix)
          then (case (account_key keys (ci_accounts ix ! 0), account_key keys (ci_accounts ix ! 2), account_key keys (ci_accounts ix ! 3)) of
              (Some client, Some vault_token_account, Some recipient_ata) \<Rightarrow>
                if vault_token_account \<noteq> dt_vault_token_account D then None
                else Some (BsWithdraw \<lparr>we_signature = signature, we_client = client, we_recipient_ata = recipient_ata,
                       we_amount = word_of_bytes (take 8 (drop 8 (ci_data ix))),
                       we_withdraw_nonce = word_of_bytes (take 8 (drop 16 (ci_data ix))),
                       we_expires_at = word_of_bytes (take 8 (drop 24 (ci_data ix))), we_slot = slot\<rparr>)
            | _ \<Rightarrow> None)
          else None)"

fun first_event ::
    "(bytes \<Rightarrow> b32) \<Rightarrow> detector_env \<Rightarrow> pubkey list \<Rightarrow> u64 \<Rightarrow> string \<Rightarrow> compiled_instruction list \<Rightarrow> balance_sync_event option" where
  "first_event sha256 D keys slot signature [] = None"
| "first_event sha256 D keys slot signature (ix # ixs) =
     (case instruction_event sha256 D keys slot signature ix of Some e \<Rightarrow> Some e
      | None \<Rightarrow> first_event sha256 D keys slot signature ixs)"

text \<open>\<open>Inl\<close> is a transaction that does not decode.\<close>

definition parse_balance_sync_transaction ::
    "('p, 's) handler_env \<Rightarrow> detector_env \<Rightarrow> confirmed_transaction \<Rightarrow> string \<Rightarrow> enclave_error + balance_sync_event option" where
  "parse_balance_sync_transaction E D tx signature =
     (if ct_failed tx then Inr None
      else case ct_message tx of None \<Rightarrow> Inl (Internal ''failed to decode transaction'')
      | Some (static_keys, instructions) \<Rightarrow>
          let keys = (case parse_loaded_addresses (he_lib E) tx of None \<Rightarrow> static_keys | Some (w, r) \<Rightarrow> static_keys @ w @ r)
          in Inr (first_event (he_sha256 E) D keys (ct_slot tx) signature instructions))"

definition fetch_balance_sync_event ::
    "('p, 's) handler_env \<Rightarrow> detector_env \<Rightarrow> chain_node \<Rightarrow> string \<Rightarrow> balance_sync_event option handler" where
  "fetch_balance_sync_event E D N signature = hbind (is_processed signature) (\<lambda>known.
     if known then hret None
     else hsome (dt_signature_from_str D signature) (Internal ''invalid signature'') (\<lambda>sig.
          hsome (cn_transaction N sig) (Internal ''getTransaction failed'') (\<lambda>tx.
          case parse_balance_sync_transaction E D tx (dt_signature_to_string D sig) of Inl e \<Rightarrow> hfail e | Inr ev \<Rightarrow> hret ev)))"

section \<open>Catch-up\<close>

text \<open>
  The paging loop. It ends with a failed call, an empty page or a short page; against a node that
  always answers full pages it does not return, which is \<open>None\<close> here.
\<close>

partial_function (option) fetch_pages ::
    "(string \<Rightarrow> b64 option) \<Rightarrow> (nat \<Rightarrow> b64 option \<Rightarrow> string list option) \<Rightarrow> nat \<Rightarrow> b64 option \<Rightarrow> string list
       \<Rightarrow> string list option option" where
  "fetch_pages parse rpc n before infos =
     (case rpc n before of None \<Rightarrow> Some None
      | Some page \<Rightarrow>
          if page = [] then Some (Some infos)
          else if length page < SIGNATURE_PAGE_LIMIT then Some (Some (infos @ page))
          else fetch_pages parse rpc (n + 1) (parse (last page)) (infos @ page))"

text \<open>The loop over the signatures, oldest first.\<close>

fun fetch_events :: "('p, 's) handler_env \<Rightarrow> detector_env \<Rightarrow> chain_node \<Rightarrow> string list \<Rightarrow> balance_sync_event list \<Rightarrow> balance_sync_event list handler" where
  "fetch_events E D N [] events = hret events"
| "fetch_events E D N (sig # sigs) events = hbind (fetch_balance_sync_event E D N sig) (\<lambda>e.
     fetch_events E D N sigs (case e of None \<Rightarrow> events | Some e \<Rightarrow> events @ [e]))"

definition until_signature :: "detector_env \<Rightarrow> app_state \<Rightarrow> b64 option" where
  "until_signature D a = Option.bind (as_last_processed_signature a) (dt_signature_from_str D)"

definition fetch_balance_sync_events ::
    "('p, 's) handler_env \<Rightarrow> detector_env \<Rightarrow> chain_node \<Rightarrow> node \<Rightarrow> (balance_sync_event list outcome \<times> node) option" where
  "fetch_balance_sync_events E D N s =
     map_option (\<lambda>infos. case infos of None \<Rightarrow> hfail (Internal ''getSignaturesForAddress failed'') s
         | Some infos \<Rightarrow> fetch_events E D N (rev infos) [] s)
       (fetch_pages (dt_signature_from_str D)
         (\<lambda>n before. cn_signatures N n before (until_signature D (nd_app s)) SIGNATURE_PAGE_LIMIT) 0 None [])"

definition process_new_deposits ::
    "('p, 's) handler_env \<Rightarrow> detector_env \<Rightarrow> chain_node \<Rightarrow> node \<Rightarrow> (nat outcome \<times> node) option" where
  "process_new_deposits E D N s = map_option (\<lambda>r. hbind (\<lambda>_. r) (\<lambda>events. apply_events E events 0) s)
     (fetch_balance_sync_events E D N s)"

section \<open>Subscription\<close>

definition process_balance_sync_signature :: "('p, 's) handler_env \<Rightarrow> detector_env \<Rightarrow> chain_node \<Rightarrow> string \<Rightarrow> bool handler" where
  "process_balance_sync_signature E D N signature = hbind (is_processed signature) (\<lambda>known.
     if known then hret False
     else hbind (fetch_balance_sync_event E D N signature) (\<lambda>e.
          case e of None \<Rightarrow> hret False | Some event \<Rightarrow> hthen (apply_balance_sync_event E event) (hret True)))"

definition unknown_rpc_error :: string where
  "unknown_rpc_error = ''unknown JSON-RPC error''"

definition parse_logs_subscribe_response :: "detector_env \<Rightarrow> string \<Rightarrow> string + u64 option" where
  "parse_logs_subscribe_response D payload =
     (case dt_json_parse D payload of None \<Rightarrow> Inl ''invalid JSON''
      | Some json \<Rightarrow>
     (case json_get json ''error'' of
        Some error \<Rightarrow>
          let code = (case Option.bind (json_get error ''code'') as_i64 of Some c \<Rightarrow> c | None \<Rightarrow> 0);
              message = (case Option.bind (json_get error ''message'') as_str of Some m \<Rightarrow> m | None \<Rightarrow> unknown_rpc_error)
          in Inl (''logsSubscribe failed with RPC error '' @ show_i64 code @ '': '' @ message)
      | None \<Rightarrow> Inr (Option.bind (json_get json ''result'') as_u64)))"

record logs_notification =
  ln_signature :: string
  ln_slot :: u64

definition parse_logs_notification :: "detector_env \<Rightarrow> string \<Rightarrow> string + logs_notification option" where
  "parse_logs_notification D payload =
     (case dt_json_parse D payload of None \<Rightarrow> Inl ''invalid JSON''
      | Some json \<Rightarrow>
          if Option.bind (json_get json ''method'') as_str \<noteq> Some ''logsNotification'' then Inr None
          else
     (case Option.bind (json_path json [''params'', ''result'', ''value'', ''signature'']) as_str of
        None \<Rightarrow> Inl ''logsNotification missing signature''
      | Some signature \<Rightarrow>
          let slot = (case Option.bind (json_path json [''params'', ''result'', ''context'', ''slot'']) as_u64 of Some n \<Rightarrow> n | None \<Rightarrow> 0);
              failed = (case json_path json [''params'', ''result'', ''value'', ''err''] of Some err \<Rightarrow> err \<noteq> JNull | None \<Rightarrow> False)
          in if failed then Inr None else Inr (Some \<lparr>ln_signature = signature, ln_slot = slot\<rparr>)))"

datatype ws_message = WsText string | WsBinary bytes | WsPing | WsClose | WsOther | WsFailed

definition message_text :: "detector_env \<Rightarrow> ws_message \<Rightarrow> string option option" where
  "message_text D m = (case m of WsText t \<Rightarrow> Some (Some t) | WsBinary b \<Rightarrow> Some (dt_utf8 D b) | _ \<Rightarrow> None)"

definition handle_text :: "('p, 's) handler_env \<Rightarrow> detector_env \<Rightarrow> chain_node \<Rightarrow> string option \<Rightarrow> unit handler" where
  "handle_text E D N text = hsome text (Internal ''invalid UTF-8'') (\<lambda>t.
     case parse_logs_notification D t of Inl e \<Rightarrow> hfail (Internal e)
     | Inr None \<Rightarrow> hret ()
     | Inr (Some notification) \<Rightarrow> hthen (process_balance_sync_signature E D N (ln_signature notification)) (hret ()))"

text \<open>The messages until the stream ends; \<open>WsPing\<close> stands for a ping whose answer could be sent.\<close>

fun process_messages :: "('p, 's) handler_env \<Rightarrow> detector_env \<Rightarrow> chain_node \<Rightarrow> ws_message list \<Rightarrow> unit handler" where
  "process_messages E D N [] = hret ()"
| "process_messages E D N (m # ms) =
     (case m of WsFailed \<Rightarrow> hfail (Internal ''websocket error'')
      | WsClose \<Rightarrow> hret ()
      | _ \<Rightarrow> (case message_text D m of Some t \<Rightarrow> hthen (handle_text E D N t) (process_messages E D N ms)
              | None \<Rightarrow> process_messages E D N ms))"

text \<open>The answer to \<open>logsSubscribe\<close>: the subscription and the messages after it.\<close>

fun subscribe_to_balance_logs :: "detector_env \<Rightarrow> ws_message list \<Rightarrow> string + u64 \<times> ws_message list" where
  "subscribe_to_balance_logs D [] = Inl ''Solana RPC closed logsSubscribe stream before acknowledging subscription''"
| "subscribe_to_balance_logs D (m # ms) =
     (case m of WsFailed \<Rightarrow> Inl ''websocket error''
      | WsClose \<Rightarrow> Inl ''Solana RPC closed logsSubscribe during handshake''
      | _ \<Rightarrow>
     (case message_text D m of None \<Rightarrow> subscribe_to_balance_logs D ms
      | Some None \<Rightarrow> Inl ''invalid UTF-8''
      | Some (Some t) \<Rightarrow>
          (case parse_logs_subscribe_response D t of Inl e \<Rightarrow> Inl e
           | Inr (Some subscription_id) \<Rightarrow> Inr (subscription_id, ms)
           | Inr None \<Rightarrow> subscribe_to_balance_logs D ms)))"

text \<open>\<open>None\<close> as the connection: connecting failed.\<close>

definition subscribe_and_process ::
    "('p, 's) handler_env \<Rightarrow> detector_env \<Rightarrow> chain_node \<Rightarrow> ws_message list option \<Rightarrow> unit handler" where
  "subscribe_and_process E D N connection = hsome connection (Internal ''connect failed'') (\<lambda>messages.
     case subscribe_to_balance_logs D messages of Inl e \<Rightarrow> hfail (Internal e)
     | Inr (_, rest) \<Rightarrow> process_messages E D N rest)"

section \<open>The monitor\<close>

text \<open>
  The flag \<open>is_synced\<close> that guards \<open>/verify\<close>, the node, and whether the task is alive: a panic ends
  it and leaves the flag. A catch-up that does not return is \<open>None\<close>.
\<close>

record monitor =
  mo_synced :: bool
  mo_alive :: bool
  mo_node :: node

definition catch_up :: "('p, 's) handler_env \<Rightarrow> detector_env \<Rightarrow> chain_node \<Rightarrow> monitor \<Rightarrow> monitor option" where
  "catch_up E D N mo = map_option (\<lambda>(r, s). case r of
       Ok _ \<Rightarrow> mo\<lparr>mo_synced := True, mo_node := s\<rparr>
     | Err _ \<Rightarrow> mo\<lparr>mo_synced := False, mo_node := s\<rparr>
     | Panic \<Rightarrow> mo\<lparr>mo_alive := False, mo_node := s\<rparr>) (process_new_deposits E D N (mo_node mo))"

definition monitor_start :: "('p, 's) handler_env \<Rightarrow> detector_env \<Rightarrow> chain_node \<Rightarrow> node \<Rightarrow> monitor option" where
  "monitor_start E D N s =
     (if \<not> is_enabled D then Some \<lparr>mo_synced = True, mo_alive = False, mo_node = s\<rparr>
      else catch_up E D N \<lparr>mo_synced = False, mo_alive = True, mo_node = s\<rparr>)"

text \<open>One turn of the loop: the subscription until it ends, then the catch-up with the node as it is then.\<close>

definition monitor_round ::
    "('p, 's) handler_env \<Rightarrow> detector_env \<Rightarrow> chain_node \<Rightarrow> ws_message list option \<Rightarrow> chain_node \<Rightarrow> monitor \<Rightarrow> monitor option" where
  "monitor_round E D N connection N' mo =
     (case subscribe_and_process E D N connection (mo_node mo) of
        (Panic, s) \<Rightarrow> Some (mo\<lparr>mo_alive := False, mo_node := s\<rparr>)
      | (_, s) \<Rightarrow> catch_up E D N' (mo\<lparr>mo_synced := False, mo_node := s\<rparr>))"

end
