(* ===== verification/Balance_Sync_Properties.thy ===== *)
theory Balance_Sync_Properties
  imports Balance_Sync Handler_Properties
begin

text \<open>
  What the deposit detector guarantees: a finalized deposit is credited once, whatever fails and
  however often it is reported; the catch-up reads exactly the history after the last processed
  signature and ends; and a withdrawal that no longer matches a pending one stops it for good.
\<close>

section \<open>Steps that change no money\<close>

text \<open>The node agrees with itself before the step, up to what a restart recomputes.\<close>

definition agreeing :: "'a handler \<Rightarrow> bool" where
  "agreeing h \<longleftrightarrow> (\<forall>s r s'. h s = (r, s') \<longrightarrow> forget_app (nd_app s') = forget_app (nd_app s))"

lemma agreeingD: "agreeing h \<Longrightarrow> h s = (r, s') \<Longrightarrow> forget_app (nd_app s') = forget_app (nd_app s)"
  by (simp add: agreeing_def)

lemma agreeing_ret: "agreeing (hret x)" and agreeing_fail: "agreeing (hfail e)"
  by (simp_all add: agreeing_def hret_def hfail_def)

lemma agreeing_bind: "agreeing m \<Longrightarrow> (\<And>x. agreeing (k x)) \<Longrightarrow> agreeing (hbind m k)"
  unfolding agreeing_def hbind_def by (auto split: prod.splits outcome.splits)

lemma agreeing_then: "agreeing m \<Longrightarrow> agreeing k \<Longrightarrow> agreeing (hthen m k)"
  unfolding hthen_def by (rule agreeing_bind)

lemma agreeing_guard: "agreeing k \<Longrightarrow> agreeing (hguard b e k)"
  by (simp add: hguard_def agreeing_fail)

lemma agreeing_some: "(\<And>y. agreeing (k y)) \<Longrightarrow> agreeing (hsome x e k)"
  by (cases x) (simp_all add: hsome_def agreeing_fail)

lemma agreeing_vault: "(\<And>v. agreeing (k v)) \<Longrightarrow> agreeing (hvault k)"
  by (simp add: agreeing_def hvault_def)

lemma agreeing_run: "(\<And>v r v'. f v = (r, v') \<Longrightarrow> forget v' = forget v) \<Longrightarrow> agreeing (run_vault f)"
  by (auto simp: agreeing_def run_vault_def intro!: set_vault_agrees split: prod.splits)

lemma agreeing_now: "agreeing utc_now"
  by (simp add: agreeing_def utc_now_def utc_now_ns_def hbind_def hret_def)

lemma agreeing_wal_try: "agreeing (wal_try E e)"
  by (auto simp: agreeing_def wal_try_def utc_now_def utc_now_ns_def hbind_def hret_def Let_def forget_app_def split: prod.splits)

lemma agreeing_wal: "agreeing (wal_log E e)"
  unfolding wal_log_def by (intro agreeing_bind agreeing_wal_try agreeing_guard agreeing_ret)

lemma agreeing_watchtower: "agreeing (replicate_receipt_to_watchtower E receipt)"
  by (auto simp: agreeing_def replicate_receipt_to_watchtower_def Let_def split: if_splits watchtower_reply.splits)

lemma agreeing_participant_receipt: "agreeing (issue_participant_receipt_locked E k kind ata f l m)"
  unfolding issue_participant_receipt_locked_def Let_def
  by (intro agreeing_bind agreeing_run agreeing_now agreeing_vault agreeing_then agreeing_wal agreeing_watchtower agreeing_ret)
    (auto simp: next_receipt_nonce_def)

lemma agreeing_client_receipt: "agreeing (issue_client_receipt_locked E c)"
  unfolding issue_client_receipt_locked_def by (intro agreeing_vault agreeing_some agreeing_participant_receipt)

lemma agreeing_refresh: "agreeing (run_vault (refresh_client_max_lock_expires_at c))"
  using refresh_agrees by (rule agreeing_run)

lemma agreeing_is_processed: "agreeing (is_processed sig)"
  by (simp add: agreeing_def is_processed_def)

section \<open>What the detector books\<close>

definition deposited :: "vault_state \<Rightarrow> pubkey \<Rightarrow> nat" where
  "deposited v c = (case dm_get (client_balances v) c of None \<Rightarrow> 0 | Some b \<Rightarrow> unat (cb_total_deposited b))"

lemma deposited_slot [simp]: "deposited (v\<lparr>last_finalized_slot := n\<rparr>) = deposited v"
  by (rule ext) (simp add: deposited_def)

text \<open>The observations: processed signatures, deposits and pending withdrawals.\<close>

definition books :: "app_state \<Rightarrow> string set \<times> (pubkey \<Rightarrow> nat) \<times> (u64, pending_withdrawal) dashmap" where
  "books a = (as_processed_signatures a, deposited (as_vault a), pending_withdrawals (as_vault a))"

lemma books_forget: "books (forget_app a) = books a"
proof -
  have "deposited (forget (as_vault a)) = deposited (as_vault a)"
    by (rule ext) (simp add: deposited_def split: option.splits)
  then show ?thesis by (simp add: books_def forget_app_def)
qed

lemma agreeing_books: "agreeing h \<Longrightarrow> h s = (r, s') \<Longrightarrow> books (nd_app s') = books (nd_app s)"
  using agreeingD books_forget by metis

text \<open>An event, a log write and the undoing of a failed one, as one step.\<close>

lemma wal_try_shape: "\<exists>b w s'. wal_try E e s = (Ok b, s') \<and> nd_app s' = (nd_app s)\<lparr>as_wal := w\<rparr>"
  by (auto simp: wal_try_def utc_now_def utc_now_ns_def hbind_def hret_def Let_def split: prod.splits)

lemma deposit_then_rollback:
  assumes "apply_deposit c a v = (Ok u, v')"
  obtains v'' where "rollback_deposit c a v' = (Ok (), v'')" "deposited v'' = deposited v"
    "pending_withdrawals v'' = pending_withdrawals v"
proof -
  let ?b = "case dm_get (client_balances v) c of None \<Rightarrow> default_client_balance | Some b \<Rightarrow> b"
  obtain f d where fd: "checked_add (cb_free ?b) a = Some f" "checked_add (cb_total_deposited ?b) a = Some d"
    "v' = put_balance c (?b\<lparr>cb_free := f, cb_total_deposited := d\<rparr>) v"
    using assms by (auto simp: apply_deposit_def Let_def split: option.splits)
  then have "saturating_sub d a = cb_total_deposited ?b" by (auto intro: saturating_sub_add)
  then show thesis using fd
    by (intro that [of "put_balance c (?b\<lparr>cb_free := saturating_sub f a, cb_total_deposited := cb_total_deposited ?b\<rparr>) v"])
      (auto simp: rollback_deposit_def put_balance_def deposited_def dm_get_insert default_client_balance_def fun_eq_iff split: option.splits)
qed

lemma deposit_credits:
  assumes "apply_deposit c a v = (Ok u, v')"
  shows "deposited v' = (deposited v)(c := deposited v c + unat a)"
    and "pending_withdrawals v' = pending_withdrawals v"
  using assms
  by (auto simp: apply_deposit_def Let_def put_balance_def deposited_def dm_get_insert default_client_balance_def fun_eq_iff
      dest!: checked_add_SomeD split: option.splits)

definition booked :: "deposit_event \<Rightarrow> app_state \<Rightarrow> app_state \<Rightarrow> bool" where
  "booked d a a' \<longleftrightarrow> de_signature d \<notin> as_processed_signatures a
     \<and> books a' = (insert (de_signature d) (as_processed_signatures a),
         (deposited (as_vault a))(de_client d := deposited (as_vault a) (de_client d) + unat (de_amount d)), pending_withdrawals (as_vault a))"

lemma deposit_books:
  assumes run: "detector_apply_deposit E d s = (r, s')" and np: "r \<noteq> Panic"
  shows "books (nd_app s') = books (nd_app s) \<or> booked d (nd_app s) (nd_app s')"
    and "r = Ok u \<Longrightarrow> de_signature d \<in> as_processed_signatures (nd_app s')"
proof -
  let ?a = "nd_app s" and ?sig = "de_signature d"
  have "(books (nd_app s') = books ?a \<or> booked d ?a (nd_app s')) \<and> (r = Ok u \<longrightarrow> ?sig \<in> as_processed_signatures (nd_app s'))"
  proof (cases "?sig \<in> as_processed_signatures ?a")
    case True
    then show ?thesis using run by (auto simp: detector_apply_deposit_def is_processed_def hbind_def hret_def)
  next
    case False
    obtain r1 v1 where dep: "apply_deposit (de_client d) (de_amount d) (as_vault ?a) = (r1, v1)"
      by (cases "apply_deposit (de_client d) (de_amount d) (as_vault ?a)")
    have ok: "r1 = Ok ()"
      using run np dep False by (auto simp: detector_apply_deposit_def is_processed_def hbind_def hthen_def run_vault_def apply_deposit_def
        Let_def split: option.splits outcome.splits)
    let ?e = "WDepositApplied (pubkey_to_string (he_lib E) (de_client d)) (de_amount d) (de_slot d) ?sig"
    obtain b w s1 where w: "wal_try E ?e (set_vault v1 s) = (Ok b, s1)" "nd_app s1 = ?a\<lparr>as_vault := v1, as_wal := w\<rparr>"
      using wal_try_shape [of E ?e "set_vault v1 s"] by (auto simp: set_vault_def)
    show ?thesis
    proof (cases b)
      case True
      let ?s2 = "snd (note_processed ?sig (de_slot d) s1)"
      have rest: "hthen (issue_client_receipt_locked E (de_client d)) (hret ()) ?s2 = (r, s')"
        using run dep ok w True False
        by (simp add: detector_apply_deposit_def is_processed_def hbind_def hthen_def run_vault_def wal_log_or_undo_def hret_def
          note_processed_def)
      have "books (nd_app s') = books (nd_app ?s2)"
        by (rule agreeing_books [OF agreeing_then [OF agreeing_client_receipt agreeing_ret] rest])
      moreover have "booked d ?a (nd_app ?s2)"
        using w(2) False deposit_credits [OF dep [unfolded ok]] by (simp add: booked_def books_def note_processed_def)
      ultimately show ?thesis by (simp add: booked_def books_def)
    next
      case False
      obtain v2 where v2: "rollback_deposit (de_client d) (de_amount d) v1 = (Ok (), v2)"
        "deposited v2 = deposited (as_vault ?a)" "pending_withdrawals v2 = pending_withdrawals (as_vault ?a)"
        using deposit_then_rollback [OF dep [unfolded ok]] by metis
      have "r = Err wal_failed" "s' = set_vault v2 s1"
        using run dep ok w v2(1) False \<open>?sig \<notin> _\<close>
        by (simp_all add: detector_apply_deposit_def is_processed_def hbind_def hthen_def run_vault_def wal_log_or_undo_def hignore_def hfail_def)
      then show ?thesis using w(2) v2 by (simp add: books_def set_vault_def)
    qed
  qed
  then show "books (nd_app s') = books ?a \<or> booked d ?a (nd_app s')" "r = Ok u \<Longrightarrow> ?sig \<in> as_processed_signatures (nd_app s')" by blast+
qed

text \<open>Withdrawals: no deposit changes, no new pending withdrawal, at most their signature is added.\<close>

definition withdrawal_step :: "string \<Rightarrow> app_state \<Rightarrow> app_state \<Rightarrow> bool" where
  "withdrawal_step sig a a' \<longleftrightarrow> deposited (as_vault a') = deposited (as_vault a)
     \<and> as_processed_signatures a \<subseteq> as_processed_signatures a' \<and> as_processed_signatures a' \<subseteq> insert sig (as_processed_signatures a)
     \<and> (\<forall>n x. dm_get (pending_withdrawals (as_vault a')) n = Some x \<longrightarrow> dm_get (pending_withdrawals (as_vault a)) n = Some x)"

lemma apply_withdrawal_vault:
  assumes "apply_withdrawal n v = (r, v')"
  shows "deposited v' = deposited v" and "dm_get (pending_withdrawals v') m = Some x \<Longrightarrow> dm_get (pending_withdrawals v) m = Some x"
    and "r \<noteq> Panic" and "r = Ok w \<Longrightarrow> dm_get (pending_withdrawals v) n = Some w"
  using assms
  by (auto simp: apply_withdrawal_def Let_def put_balance_def deposited_def dm_get_insert fun_eq_iff dm_get_remove
      split: option.splits if_splits)

lemma rollback_withdrawal_vault:
  assumes "rollback_applied_withdrawal w v = (r, v')"
  shows "deposited v' = deposited v"
    and "m \<noteq> pw_withdraw_nonce w \<Longrightarrow> dm_get (pending_withdrawals v') m = dm_get (pending_withdrawals v) m"
    and "dm_get (pending_withdrawals v') (pw_withdraw_nonce w) = Some y \<Longrightarrow> y = w \<or> dm_get (pending_withdrawals v) (pw_withdraw_nonce w) = Some y"
  using assms
  by (auto simp: rollback_applied_withdrawal_def put_balance_def deposited_def dm_get_insert fun_eq_iff split: option.splits if_splits)

lemma agreeing_withdrawal_step: "agreeing h \<Longrightarrow> h s = (r, s') \<Longrightarrow> withdrawal_step sig a (nd_app s) \<Longrightarrow> withdrawal_step sig a (nd_app s')"
  using agreeing_books [of h s r s'] by (simp add: withdrawal_step_def books_def)

text \<open>Every pending withdrawal stands under its nonce.\<close>

definition nonces_match :: "vault_state \<Rightarrow> bool" where
  "nonces_match v \<longleftrightarrow> (\<forall>n w. dm_get (pending_withdrawals v) n = Some w \<longrightarrow> pw_withdraw_nonce w = n)"

lemma withdrawal_books:
  assumes run: "detector_apply_withdrawal E w s = (r, s')" and np: "r \<noteq> Panic" and nm: "nonces_match (as_vault (nd_app s))"
  shows "withdrawal_step (we_signature w) (nd_app s) (nd_app s')"
proof (cases "we_signature w \<in> as_processed_signatures (nd_app s)")
  case True
  then show ?thesis using run by (auto simp: detector_apply_withdrawal_def is_processed_def hbind_def hret_def withdrawal_step_def)
next
  case False
  let ?a = "nd_app s" and ?sig = "we_signature w"
  obtain r1 v1 where app: "apply_withdrawal (we_withdraw_nonce w) (as_vault ?a) = (r1, v1)"
    by (cases "apply_withdrawal (we_withdraw_nonce w) (as_vault ?a)")
  note v1 = apply_withdrawal_vault [OF app]
  have step1: "withdrawal_step ?sig ?a (?a\<lparr>as_vault := v1, as_wal := w'\<rparr>)" for w' using v1(1,2) by (auto simp: withdrawal_step_def)
  show ?thesis
  proof (cases r1)
    case (Err e)
    then show ?thesis using run app False step1 [of "as_wal ?a"]
      by (auto simp: detector_apply_withdrawal_def is_processed_def hbind_def run_vault_def set_vault_def)
  next
    case Panic
    then show ?thesis using v1(3) by simp
  next
    case (Ok x)
    then have x: "dm_get (pending_withdrawals (as_vault ?a)) (pw_withdraw_nonce x) = Some x"
      using v1(4) nm by (auto simp: nonces_match_def)
    let ?e = "WWithdrawApplied (pubkey_to_string (he_lib E) (we_client w)) (pubkey_to_string (he_lib E) (we_recipient_ata w))
      (we_amount w) (we_withdraw_nonce w) (we_expires_at w) (we_slot w) ?sig"
    obtain b w1 s1 where t: "wal_try E ?e (set_vault v1 s) = (Ok b, s1)" "nd_app s1 = ?a\<lparr>as_vault := v1, as_wal := w1\<rparr>"
      using wal_try_shape [of E ?e "set_vault v1 s"] by (auto simp: set_vault_def)
    let ?rest = "hthen (run_vault (refresh_client_max_lock_expires_at (we_client w))) (hthen (issue_client_receipt_locked E (we_client w)) (hret ()))"
    let ?s2 = "snd (note_processed ?sig (we_slot w) s1)"
    obtain r3 v3 where rb: "rollback_applied_withdrawal x v1 = (r3, v3)" by (cases "rollback_applied_withdrawal x v1")
    have "s' = set_vault v1 s \<or> ?rest ?s2 = (r, s') \<or> s' = set_vault v3 s1"
      using run np app Ok t False rb
      by (cases b; cases r3)
        (auto simp: detector_apply_withdrawal_def is_processed_def hbind_def hthen_def run_vault_def wal_log_or_undo_def hguard_def hret_def
          hfail_def hignore_def note_processed_def split: if_splits)
    then consider "s' = set_vault v1 s" | "?rest ?s2 = (r, s')" | "s' = set_vault v3 s1" by blast
    then show ?thesis
    proof cases
      case 1
      then show ?thesis using step1 [of "as_wal ?a"] by (simp add: set_vault_def)
    next
      case 2
      have "withdrawal_step ?sig ?a (nd_app ?s2)" using step1 [of w1] t(2) by (auto simp: withdrawal_step_def note_processed_def)
      then show ?thesis
        by (rule agreeing_withdrawal_step [OF agreeing_then [OF agreeing_refresh agreeing_then [OF agreeing_client_receipt agreeing_ret]] 2])
    next
      case 3
      have "dm_get (pending_withdrawals (as_vault ?a)) n = Some y" if "dm_get (pending_withdrawals v3) n = Some y" for n y
        using that x v1(2) [of n y] rollback_withdrawal_vault(2) [OF rb, of n] rollback_withdrawal_vault(3) [OF rb, of y] by (cases "n = pw_withdraw_nonce x") auto
      then show ?thesis using 3 t(2) v1(1) rollback_withdrawal_vault(1) [OF rb] by (auto simp: withdrawal_step_def set_vault_def)
    qed
  qed
qed

section \<open>Any sequence of reports\<close>

text \<open>Events reported one after the other, from the subscription or a catch-up; after an error the next one follows. \<open>None\<close> is a panic.\<close>

fun feed :: "('p, 's) handler_env \<Rightarrow> balance_sync_event list \<Rightarrow> node \<Rightarrow> node option" where
  "feed E [] s = Some s"
| "feed E (e # es) s = (case apply_balance_sync_event E e s of (Panic, _) \<Rightarrow> None | (_, s') \<Rightarrow> feed E es s')"

text \<open>What the signature credits to the client, \<open>chain\<close> being the deposits on the chain.\<close>

definition credit :: "(string \<Rightarrow> deposit_event option) \<Rightarrow> pubkey \<Rightarrow> string \<Rightarrow> nat" where
  "credit chain c sig = (case chain sig of None \<Rightarrow> 0 | Some d \<Rightarrow> if de_client d = c then unat (de_amount d) else 0)"

fun reports :: "(string \<Rightarrow> deposit_event option) \<Rightarrow> balance_sync_event \<Rightarrow> bool" where
  "reports chain (BsDeposit d) = (chain (de_signature d) = Some d)"
| "reports chain (BsWithdraw w) = (chain (we_signature w) = None)"

fun event_signature :: "balance_sync_event \<Rightarrow> string" where
  "event_signature (BsDeposit d) = de_signature d"
| "event_signature (BsWithdraw w) = we_signature w"

text \<open>One event and a whole sequence move the books by the credits of the newly processed signatures.\<close>

definition credited :: "(string \<Rightarrow> deposit_event option) \<Rightarrow> app_state \<Rightarrow> app_state \<Rightarrow> string set \<Rightarrow> bool" where
  "credited chain a a' new \<longleftrightarrow> finite new \<and> new \<inter> as_processed_signatures a = {}
     \<and> as_processed_signatures a' = as_processed_signatures a \<union> new
     \<and> (\<forall>c. deposited (as_vault a') c = deposited (as_vault a) c + (\<Sum>sig\<in>new. credit chain c sig))"

lemma credited_trans:
  assumes "credited chain a a1 n1" "credited chain a1 a2 n2"
  shows "credited chain a a2 (n1 \<union> n2)"
proof -
  have "n1 \<inter> n2 = {}" using assms by (auto simp: credited_def)
  then show ?thesis using assms by (auto simp: credited_def sum.union_disjoint Int_Un_distrib2)
qed

lemma event_credited:
  assumes run: "apply_balance_sync_event E e s = (r, s')" and np: "r \<noteq> Panic" and nm: "nonces_match (as_vault (nd_app s))"
    and rep: "reports chain e"
  shows "\<exists>new. credited chain (nd_app s) (nd_app s') new \<and> new \<subseteq> {event_signature e}" and "nonces_match (as_vault (nd_app s'))"
proof -
  have "(\<exists>new. credited chain (nd_app s) (nd_app s') new \<and> new \<subseteq> {event_signature e}) \<and> nonces_match (as_vault (nd_app s'))"
  proof (cases e)
    case (BsDeposit d)
    from deposit_books(1) [OF _ np] run BsDeposit
    consider "books (nd_app s') = books (nd_app s)" | "booked d (nd_app s) (nd_app s')" by (auto simp: apply_balance_sync_event_def)
    then show ?thesis
    proof cases
      case 1
      then have "credited chain (nd_app s) (nd_app s') {}" by (simp add: credited_def books_def)
      then show ?thesis using 1 nm by (auto simp: books_def nonces_match_def)
    next
      case 2
      then have "credited chain (nd_app s) (nd_app s') {de_signature d}"
        using rep BsDeposit by (auto simp: credited_def booked_def books_def credit_def)
      then show ?thesis using 2 nm BsDeposit by (auto simp: booked_def books_def nonces_match_def)
    qed
  next
    case (BsWithdraw w)
    have step: "withdrawal_step (we_signature w) (nd_app s) (nd_app s')"
      using withdrawal_books [OF _ np nm] run BsWithdraw by (simp add: apply_balance_sync_event_def)
    then have "credited chain (nd_app s) (nd_app s') (as_processed_signatures (nd_app s') - as_processed_signatures (nd_app s))"
      using rep BsWithdraw
      by (auto simp: credited_def withdrawal_step_def credit_def intro!: sum.neutral intro: finite_subset [of _ "{we_signature w}"])
    then show ?thesis using step nm BsWithdraw by (auto simp: withdrawal_step_def nonces_match_def)
  qed
  then show "\<exists>new. credited chain (nd_app s) (nd_app s') new \<and> new \<subseteq> {event_signature e}" "nonces_match (as_vault (nd_app s'))" by blast+
qed

lemma feed_credited:
  assumes "feed E events s = Some s'" "nonces_match (as_vault (nd_app s))" "\<forall>e\<in>set events. reports chain e"
  shows "\<exists>new. credited chain (nd_app s) (nd_app s') new \<and> new \<subseteq> event_signature ` set events"
  using assms
proof (induction events arbitrary: s)
  case Nil
  then have "credited chain (nd_app s) (nd_app s') {}" by (simp add: credited_def)
  then show ?case by blast
next
  case (Cons e es)
  obtain r s1 where e: "apply_balance_sync_event E e s = (r, s1)" by (cases "apply_balance_sync_event E e s")
  with Cons.prems(1) have np: "r \<noteq> Panic" and rest: "feed E es s1 = Some s'" by (auto split: outcome.splits)
  have rep: "reports chain e" using Cons.prems(3) by simp
  from event_credited [OF e np Cons.prems(2) rep] obtain n1 where n1: "credited chain (nd_app s) (nd_app s1) n1" "n1 \<subseteq> {event_signature e}"
    and nm: "nonces_match (as_vault (nd_app s1))" by blast
  from Cons.IH [OF rest nm] Cons.prems(3) obtain n2 where "credited chain (nd_app s1) (nd_app s') n2" "n2 \<subseteq> event_signature ` set es" by auto
  with credited_trans [OF n1(1)] n1(2) show ?case by (metis (no_types, lifting) Un_mono image_insert insert_is_Un list.simps(15))
qed

text \<open>
  C7: Every finalized deposit is credited exactly once. Let any reports of deposits and withdrawals
  arrive, repeated, out of order, with any failures of the log and of the watchtower. The total
  deposited by a client grows by the amounts of the deposits whose signatures became processed,
  each counted once; only reported signatures become processed, and none is forgotten.
\<close>

theorem deposits_credited_once:
  assumes "feed E events s = Some s'" "nonces_match (as_vault (nd_app s))" "\<forall>e\<in>set events. reports chain e"
  shows "deposited (as_vault (nd_app s')) c = deposited (as_vault (nd_app s)) c
      + (\<Sum>sig \<in> as_processed_signatures (nd_app s') - as_processed_signatures (nd_app s). credit chain c sig)
    \<and> as_processed_signatures (nd_app s) \<subseteq> as_processed_signatures (nd_app s')
    \<and> as_processed_signatures (nd_app s') \<subseteq> as_processed_signatures (nd_app s) \<union> event_signature ` set events"
proof -
  obtain new where new: "credited chain (nd_app s) (nd_app s') new" "new \<subseteq> event_signature ` set events" using feed_credited [OF assms] by blast
  then have "as_processed_signatures (nd_app s') - as_processed_signatures (nd_app s) = new" by (auto simp: credited_def)
  then show ?thesis using new by (auto simp: credited_def)
qed

definition demo_deposit :: deposit_event where
  "demo_deposit = \<lparr>de_signature = ''sig'', de_client = 10, de_amount = 70, de_slot = 5\<rparr>"

lemma demo_feed: "\<exists>s'. feed demo_handlers [BsDeposit demo_deposit, BsDeposit demo_deposit] demo_pays = Some s' \<and> as_processed_signatures (nd_app s') = {''sig'', ''sig1''}"
  by (simp add: demo_settle_defs apply_balance_sync_event_def detector_apply_deposit_def is_processed_def note_processed_def demo_deposit_def apply_deposit_def)

theorem deposits_credited_once_witness:
  "\<exists>s'. feed demo_handlers [BsDeposit demo_deposit, BsDeposit demo_deposit] demo_pays = Some s'
     \<and> deposited (as_vault (nd_app s')) 10 = 1070"
proof -
  let ?chain = "[''sig'' \<mapsto> demo_deposit]"
  obtain s' where run: "feed demo_handlers [BsDeposit demo_deposit, BsDeposit demo_deposit] demo_pays = Some s'"
    and p: "as_processed_signatures (nd_app s') = {''sig'', ''sig1''}" using demo_feed by blast
  have start: "nonces_match (as_vault (nd_app demo_pays))" "deposited (as_vault (nd_app demo_pays)) 10 = 1000" "as_processed_signatures (nd_app demo_pays) = {''sig1''}"
    by (simp_all add: nonces_match_def deposited_def demo_pays_def demo_node_defs)
  from deposits_credited_once [OF run start(1), of ?chain 10] p run start show ?thesis
    by (simp add: demo_deposit_def credit_def insert_Diff_if)
qed

section \<open>The paged catch-up\<close>

text \<open>
  An honest chain node: the history of the account, newest first. A page starts after \<open>before\<close>, ends
  before \<open>until\<close> and holds at most the given number of signatures.
\<close>

definition after_signature :: "b64 option \<Rightarrow> b64 list \<Rightarrow> b64 list" where
  "after_signature b h = (case b of None \<Rightarrow> h | Some x \<Rightarrow> tl (dropWhile (\<lambda>y. y \<noteq> x) h))"

definition newer :: "b64 option \<Rightarrow> b64 list \<Rightarrow> b64 list" where
  "newer u h = takeWhile (\<lambda>y. Some y \<noteq> u) h"

lemma newer_None [simp]: "newer None h = h"
  by (simp add: newer_def takeWhile_eq_all_conv)

definition history_node :: "detector_env \<Rightarrow> b64 list \<Rightarrow> chain_node \<Rightarrow> bool" where
  "history_node D h N \<longleftrightarrow> (\<forall>n b u limit. cn_signatures N n b u limit
     = Some (map (dt_signature_to_string D) (take limit (newer u (after_signature b h)))))"

definition signature_texts :: "detector_env \<Rightarrow> bool" where
  "signature_texts D \<longleftrightarrow> (\<forall>x. dt_signature_from_str D (dt_signature_to_string D x) = Some x)"

lemma newer_rest: "newer u h = xs @ ys \<Longrightarrow> \<exists>zs. h = xs @ ys @ zs \<and> newer u (ys @ zs) = ys"
proof -
  assume h: "newer u h = xs @ ys"
  let ?z = "dropWhile (\<lambda>y. Some y \<noteq> u) h"
  have eq: "h = xs @ ys @ ?z" using takeWhile_dropWhile_id [of "\<lambda>y. Some y \<noteq> u" h] h by (metis append_assoc newer_def)
  have "\<forall>y\<in>set (newer u h). Some y \<noteq> u" by (auto simp: newer_def dest: set_takeWhileD)
  then have all: "\<forall>y\<in>set ys. Some y \<noteq> u" using h by simp
  have "takeWhile (\<lambda>y. Some y \<noteq> u) ?z = []" by (induction h) auto
  then show ?thesis using eq all by (intro exI [of _ ?z]) (simp add: newer_def)
qed

lemma after_last: "distinct (xs @ ys) \<Longrightarrow> xs \<noteq> [] \<Longrightarrow> after_signature (Some (last xs)) (xs @ ys) = ys"
proof (induction xs)
  case (Cons x xs)
  show ?case
  proof (cases "xs = []")
    case False
    then have "x \<noteq> last xs" using Cons.prems by auto
    then show ?thesis using Cons.IH Cons.prems False by (simp add: after_signature_def)
  qed (simp add: after_signature_def)
qed simp

lemma fetch_pages_from:
  assumes D: "signature_texts D" and h: "distinct h" and u: "newer u h = pre @ rest" and b: "b = (if pre = [] then None else Some (last pre))"
  shows "fetch_pages (dt_signature_from_str D) (\<lambda>n b. Some (map (dt_signature_to_string D) (take SIGNATURE_PAGE_LIMIT (newer u (after_signature b h)))))
      n b (map (dt_signature_to_string D) pre) = Some (Some (map (dt_signature_to_string D) (newer u h)))"
  using u b
proof (induction "length rest" arbitrary: pre rest n b rule: less_induct)
  case less
  obtain zs where zs: "h = pre @ rest @ zs" "newer u (rest @ zs) = rest" using newer_rest [OF less.prems(1)] by blast
  have "after_signature b h = rest @ zs"
    using less.prems(2) zs(1) h after_last [of pre "rest @ zs"] by (auto simp: after_signature_def)
  then have page: "newer u (after_signature b h) = rest" using zs(2) by simp
  let ?p = "take SIGNATURE_PAGE_LIMIT rest"
  show ?case
  proof (cases "rest = [] \<or> length ?p < SIGNATURE_PAGE_LIMIT")
    case True
    then show ?thesis using page less.prems(1) by (subst fetch_pages.simps) (auto simp: SIGNATURE_PAGE_LIMIT_def)
  next
    case False
    then have p: "?p \<noteq> []" "rest = ?p @ drop SIGNATURE_PAGE_LIMIT rest" "length (drop SIGNATURE_PAGE_LIMIT rest) < length rest"
      by (auto simp: SIGNATURE_PAGE_LIMIT_def)
    have "dt_signature_from_str D (last (map (dt_signature_to_string D) ?p)) = Some (last ?p)"
      using p(1) D by (simp add: last_map signature_texts_def)
    moreover have "fetch_pages (dt_signature_from_str D) (\<lambda>n b. Some (map (dt_signature_to_string D) (take SIGNATURE_PAGE_LIMIT (newer u (after_signature b h)))))
      (n + 1) (Some (last ?p)) (map (dt_signature_to_string D) (pre @ ?p)) = Some (Some (map (dt_signature_to_string D) (newer u h)))"
      using p less.prems(1) by (intro less.hyps [of "drop SIGNATURE_PAGE_LIMIT rest"]) auto
    ultimately show ?thesis using page p(1) False by (subst fetch_pages.simps) auto
  qed
qed

lemma fetch_state: "fetch_balance_sync_event E D N sig s = (r, s') \<Longrightarrow> s' = s"
  by (auto simp: fetch_balance_sync_event_def is_processed_def hbind_def hret_def hsome_def hfail_def split: option.splits sum.splits if_splits)

lemma fetch_events_state: "fetch_events E D N sigs evs s = (r, s') \<Longrightarrow> s' = s"
proof (induction sigs arbitrary: evs)
  case (Cons sig sigs)
  obtain r1 s1 where f: "fetch_balance_sync_event E D N sig s = (r1, s1)" by (cases "fetch_balance_sync_event E D N sig s")
  with fetch_state [OF f] Cons show ?case by (cases r1) (auto simp: hbind_def)
qed (simp add: hret_def)

lemma catch_up_pages:
  assumes "signature_texts D" "distinct h" "history_node D h N"
  shows "fetch_pages (dt_signature_from_str D) (\<lambda>n b. cn_signatures N n b u SIGNATURE_PAGE_LIMIT) 0 None []
    = Some (Some (map (dt_signature_to_string D) (newer u h)))"
  using fetch_pages_from [OF assms(1,2), of u "[]" "newer u h" None 0] assms(3) by (simp add: history_node_def)

text \<open>
  C9: The catch-up ends. Against a chain node that serves a finite history in pages, the paging loop
  returns, with exactly the signatures that are newer than the last processed one, in the order of
  the history and however many pages they take; so the whole catch-up returns.
\<close>

theorem catch_up_returns:
  assumes "signature_texts D" "distinct h" "history_node D h N"
  shows "fetch_pages (dt_signature_from_str D) (\<lambda>n b. cn_signatures N n b (until_signature D (nd_app s)) SIGNATURE_PAGE_LIMIT) 0 None []
      = Some (Some (map (dt_signature_to_string D) (newer (until_signature D (nd_app s)) h)))
    \<and> (\<exists>r s'. process_new_deposits E D N s = Some (r, s'))"
  using catch_up_pages [OF assms, of "until_signature D (nd_app s)"]
  by (simp add: process_new_deposits_def fetch_balance_sync_events_def)

definition demo_detector :: detector_env where
  "demo_detector = \<lparr>dt_vault_token_account = 9, dt_program_id = 8, dt_signature_from_str = (\<lambda>t. Some (word_of_bytes (str_bytes t))),
     dt_signature_to_string = (\<lambda>x. chars (word_bytes x)), dt_json_parse = (\<lambda>_. None), dt_utf8 = (\<lambda>b. Some (chars b))\<rparr>"

text \<open>A history of 1200 signatures takes two pages; every transaction in it failed.\<close>

definition demo_history :: "b64 list" where
  "demo_history = map of_nat (rev [0 ..< 1200])"

definition demo_chain_node :: chain_node where
  "demo_chain_node = \<lparr>cn_signatures = (\<lambda>n b u limit. Some (map (dt_signature_to_string demo_detector) (take limit (newer u (after_signature b demo_history))))),
     cn_transaction = (\<lambda>x. Some \<lparr>ct_slot = 1, ct_failed = True, ct_message = None, ct_loaded_addresses = None\<rparr>)\<rparr>"

lemma demo_signature_texts: "signature_texts demo_detector"
  by (simp add: signature_texts_def demo_detector_def str_bytes_chars word_of_bytes_word_bytes)

lemma demo_history_distinct: "distinct demo_history"
proof -
  have "inj_on (of_nat :: nat \<Rightarrow> b64) {0 ..< 1200}"
    by (rule inj_onI) (auto simp: of_nat_eq_iff take_bit_nat_eq_self word_of_nat_eq_iff)
  then show ?thesis by (simp add: demo_history_def distinct_map)
qed

theorem catch_up_returns_witness:
  "fetch_pages (dt_signature_from_str demo_detector) (\<lambda>n b. cn_signatures demo_chain_node n b None SIGNATURE_PAGE_LIMIT) 0 None []
     = Some (Some (map (dt_signature_to_string demo_detector) demo_history))"
proof -
  let ?s = "demo_pays\<lparr>nd_app := (nd_app demo_pays)\<lparr>as_last_processed_signature := None\<rparr>\<rparr>"
  have "history_node demo_detector demo_history demo_chain_node" by (simp add: history_node_def demo_chain_node_def)
  from catch_up_returns [OF demo_signature_texts demo_history_distinct this, of ?s demo_handlers]
  show ?thesis by (simp add: until_signature_def)
qed

section \<open>Completeness of the catch-up\<close>

lemma hbind_OkE:
  assumes "hbind m k s = (Ok y, s')"
  obtains x s1 where "m s = (Ok x, s1)" "k x s1 = (Ok y, s')"
  using assms by (auto simp: hbind_def split: prod.splits outcome.splits)

lemma withdrawal_ok: "detector_apply_withdrawal E w s = (Ok u, s') \<Longrightarrow> we_signature w \<in> as_processed_signatures (nd_app s')"
proof -
  assume run: "detector_apply_withdrawal E w s = (Ok u, s')"
  let ?rest = "hthen (run_vault (refresh_client_max_lock_expires_at (we_client w))) (hthen (issue_client_receipt_locked E (we_client w)) (hret ()))"
  show ?thesis
  proof (cases "we_signature w \<in> as_processed_signatures (nd_app s)")
    case True
    then show ?thesis using run by (auto simp: detector_apply_withdrawal_def is_processed_def hbind_def hret_def)
  next
    case False
    let ?e = "WWithdrawApplied (pubkey_to_string (he_lib E) (we_client w)) (pubkey_to_string (he_lib E) (we_recipient_ata w))
      (we_amount w) (we_withdraw_nonce w) (we_expires_at w) (we_slot w) (we_signature w)"
    from False run obtain x s0 where "hthen (wal_log_or_undo E ?e (hignore (run_vault (rollback_applied_withdrawal x))))
        (hthen (note_processed (we_signature w) (we_slot w)) ?rest) s0 = (Ok u, s')"
      unfolding detector_apply_withdrawal_def
      by (elim hbind_OkE) (auto simp: is_processed_def hguard_def hfail_def split: if_splits elim!: hbind_OkE)
    then obtain s1 where "?rest (snd (note_processed (we_signature w) (we_slot w) s1)) = (Ok u, s')"
      unfolding hthen_def [of "wal_log_or_undo _ _ _"] hthen_def [of "note_processed _ _"]
      by (elim hbind_OkE) (auto simp: note_processed_def)
    from agreeing_books [OF agreeing_then [OF agreeing_refresh agreeing_then [OF agreeing_client_receipt agreeing_ret]] this]
    show ?thesis by (simp add: books_def note_processed_def)
  qed
qed

lemma event_ok: "apply_balance_sync_event E e s = (Ok u, s') \<Longrightarrow> event_signature e \<in> as_processed_signatures (nd_app s')"
  by (cases e) (auto simp: apply_balance_sync_event_def dest: deposit_books(2) withdrawal_ok)

lemma event_keeps:
  assumes "apply_balance_sync_event E e s = (r, s')" "r \<noteq> Panic" "nonces_match (as_vault (nd_app s))"
  shows "as_processed_signatures (nd_app s) \<subseteq> as_processed_signatures (nd_app s')" "nonces_match (as_vault (nd_app s'))"
    "as_processed_signatures (nd_app s') \<subseteq> insert (event_signature e) (as_processed_signatures (nd_app s))"
proof -
  let ?chain = "\<lambda>_ :: string. case e of BsDeposit d \<Rightarrow> Some d | BsWithdraw w \<Rightarrow> None"
  have "reports ?chain e" by (cases e) simp_all
  from event_credited [OF assms this] show "as_processed_signatures (nd_app s) \<subseteq> as_processed_signatures (nd_app s')"
    "nonces_match (as_vault (nd_app s'))" "as_processed_signatures (nd_app s') \<subseteq> insert (event_signature e) (as_processed_signatures (nd_app s))"
    by (auto simp: credited_def)
qed

lemma apply_events_ok:
  assumes "apply_events E es k s = (Ok n, s')" "nonces_match (as_vault (nd_app s))"
  shows "event_signature ` set es \<union> as_processed_signatures (nd_app s) \<subseteq> as_processed_signatures (nd_app s')"
  using assms
proof (induction es arbitrary: k s)
  case (Cons e es)
  obtain r s1 where e: "apply_balance_sync_event E e s = (r, s1)" by (cases "apply_balance_sync_event E e s")
  with Cons.prems(1) obtain u where r: "r = Ok u" and rest: "apply_events E es (k + 1) s1 = (Ok n, s')"
    by (cases r) (auto simp: hthen_def hbind_def)
  have "r \<noteq> Panic" using r by simp
  note keep = event_keeps [OF e this Cons.prems(2)]
  from Cons.IH [OF rest keep(2)] keep(1) event_ok [OF e [unfolded r]] show ?case by auto
qed (simp add: hret_def)

lemma parsed_signature: "parse_balance_sync_transaction E D tx sig = Inr (Some e) \<Longrightarrow> event_signature e = sig"
proof -
  have one: "instruction_event H D keys slot sig ix = Some e \<Longrightarrow> event_signature e = sig" for H keys slot ix
    by (auto simp: instruction_event_def split: option.splits if_splits)
  have "first_event H D keys slot sig ixs = Some e \<Longrightarrow> event_signature e = sig" for H keys slot ixs
    by (induction ixs) (auto simp: one split: option.splits)
  then show "parse_balance_sync_transaction E D tx sig = Inr (Some e) \<Longrightarrow> event_signature e = sig"
    by (auto simp: parse_balance_sync_transaction_def Let_def split: if_splits option.splits)
qed

text \<open>The event of a signature, if it is not processed yet and its transaction holds one.\<close>

definition event_of :: "('p, 's) handler_env \<Rightarrow> detector_env \<Rightarrow> chain_node \<Rightarrow> b64 \<Rightarrow> balance_sync_event \<Rightarrow> bool" where
  "event_of E D N sig e \<longleftrightarrow> (\<exists>tx. cn_transaction N sig = Some tx
     \<and> parse_balance_sync_transaction E D tx (dt_signature_to_string D sig) = Inr (Some e))"

lemma fetch_events_collects:
  assumes "signature_texts D" "fetch_events E D N (map (dt_signature_to_string D) sigs) acc s = (Ok evs, s')"
  shows "set acc \<subseteq> set evs \<and> (\<forall>sig\<in>set sigs. \<forall>e. event_of E D N sig e \<longrightarrow>
    dt_signature_to_string D sig \<in> as_processed_signatures (nd_app s) \<or> e \<in> set evs)"
  using assms(2)
proof (induction sigs arbitrary: acc)
  case (Cons sig sigs)
  let ?t = "dt_signature_to_string D sig"
  obtain r s1 where f: "fetch_balance_sync_event E D N ?t s = (r, s1)" by (cases "fetch_balance_sync_event E D N ?t s")
  with Cons.prems obtain x where x: "r = Ok x" and rest: "fetch_events E D N (map (dt_signature_to_string D) sigs)
      (case x of None \<Rightarrow> acc | Some e \<Rightarrow> acc @ [e]) s = (Ok evs, s')"
    using fetch_state [OF f] by (cases r) (auto simp: hbind_def)
  have "?t \<in> as_processed_signatures (nd_app s) \<or> x = Some e" if "event_of E D N sig e" for e
    using f x that assms(1)
    by (auto simp: fetch_balance_sync_event_def is_processed_def hbind_def hret_def hsome_def event_of_def signature_texts_def split: if_splits)
  with Cons.IH [OF rest] show ?case by (auto split: option.splits)
qed (simp add: hret_def)


text \<open>A history with one deposit.\<close>

definition demo_deposit_tx :: confirmed_transaction where
  "demo_deposit_tx = \<lparr>ct_slot = 4, ct_failed = False, ct_message = Some ([10, 1, 20, 9, 8],
     [\<lparr>ci_program_id_index = 4, ci_accounts = [0, 1, 2, 3],
       ci_data = instruction_discriminator (he_sha256 demo_handlers) ''deposit'' @ word_bytes (70 :: u64)\<rparr>]), ct_loaded_addresses = None\<rparr>"

definition demo_deposit_node :: chain_node where
  "demo_deposit_node = \<lparr>cn_signatures = (\<lambda>n b u limit. Some (map (dt_signature_to_string demo_detector) (take limit (newer u (after_signature b [5]))))),
     cn_transaction = (\<lambda>x. Some demo_deposit_tx)\<rparr>"

lemma length_event_discriminator [simp]: "length (instruction_discriminator H name) = 8"
  by (simp add: instruction_discriminator_def)

lemma demo_deposit_parsed: "parse_balance_sync_transaction demo_handlers demo_detector demo_deposit_tx t
    = Inr (Some (BsDeposit \<lparr>de_signature = t, de_client = 10, de_amount = 70, de_slot = 4\<rparr>))"
  by (simp add: parse_balance_sync_transaction_def demo_deposit_tx_def demo_detector_def instruction_event_def account_key_def
      parse_loaded_addresses_def word_of_bytes_word_bytes)

lemma demo_text: "dt_signature_to_string demo_detector 5 \<noteq> ''sig1''"
proof
  assume "dt_signature_to_string demo_detector 5 = ''sig1''"
  then have "length (dt_signature_to_string demo_detector 5) = 4" by simp
  then show False by (simp add: demo_detector_def chars_def)
qed

lemma demo_sig1: "word_of_bytes (str_bytes ''sig1'') \<noteq> (5 :: b64)"
  by (simp add: str_bytes_def word_of_bytes_def)

lemma demo_newer: "newer (until_signature demo_detector (nd_app demo_pays)) [5] = [5]"
  using demo_sig1
  by (auto simp: newer_def until_signature_def demo_detector_def demo_pays_def demo_node_def demo_app_def)

lemma demo_deposit_history: "history_node demo_detector [5] demo_deposit_node"
  by (simp add: history_node_def demo_deposit_node_def)

lemma demo_catch_up: "\<exists>s'. process_new_deposits demo_handlers demo_detector demo_deposit_node demo_pays = Some (Ok 1, s')"
proof -
  let ?t = "dt_signature_to_string demo_detector 5"
  have parse: "dt_signature_from_str demo_detector ?t = Some 5" using demo_signature_texts by (simp add: signature_texts_def)
  have fresh: "?t \<notin> as_processed_signatures (nd_app demo_pays)"
    using demo_text by (simp add: demo_pays_def demo_node_def demo_app_def)
  let ?d = "BsDeposit \<lparr>de_signature = ?t, de_client = 10, de_amount = 70, de_slot = 4\<rparr>"
  have "fetch_balance_sync_events demo_handlers demo_detector demo_deposit_node demo_pays = Some (Ok [?d], demo_pays)"
    using catch_up_pages [OF demo_signature_texts _ demo_deposit_history, of "until_signature demo_detector (nd_app demo_pays)"] demo_newer parse fresh
    by (simp add: fetch_balance_sync_events_def fetch_balance_sync_event_def is_processed_def hbind_def hsome_def hret_def
        demo_deposit_node_def demo_deposit_parsed)
  moreover have "\<exists>s'. apply_events demo_handlers [?d] 0 demo_pays = (Ok 1, s')"
    by (simp add: demo_settle_defs apply_balance_sync_event_def detector_apply_deposit_def is_processed_def note_processed_def
        apply_deposit_def demo_text)
  ultimately show ?thesis by (auto simp: process_new_deposits_def hbind_def)
qed


section \<open>Withdrawals without a pending entry\<close>

definition unmatched :: "withdraw_event \<Rightarrow> app_state \<Rightarrow> bool" where
  "unmatched w a \<longleftrightarrow> we_signature w \<notin> as_processed_signatures a \<and> nonces_match (as_vault a)
     \<and> dm_get (pending_withdrawals (as_vault a)) (we_withdraw_nonce w) = None"

lemma unmatched_fails: "unmatched w (nd_app s) \<Longrightarrow> apply_balance_sync_event E (BsWithdraw w) s = (Err ReservationNotFound, s)"
  by (simp add: unmatched_def apply_balance_sync_event_def detector_apply_withdrawal_def is_processed_def hbind_def run_vault_def
      apply_withdrawal_def set_vault_def)

lemma event_pending:
  assumes "apply_balance_sync_event E e s = (r, s')" "r \<noteq> Panic" "nonces_match (as_vault (nd_app s))"
    and "dm_get (pending_withdrawals (as_vault (nd_app s'))) n = Some x"
  shows "dm_get (pending_withdrawals (as_vault (nd_app s))) n = Some x"
proof (cases e)
  case (BsDeposit d)
  then show ?thesis using deposit_books(1) [of E d s r s'] assms by (auto simp: apply_balance_sync_event_def booked_def books_def)
next
  case (BsWithdraw w)
  then show ?thesis using withdrawal_books [of E w s r s'] assms by (simp add: apply_balance_sync_event_def withdrawal_step_def)
qed

lemma unmatched_event:
  assumes "unmatched w (nd_app s)" "apply_balance_sync_event E e s = (r, s')" "r \<noteq> Panic" "event_signature e \<noteq> we_signature w"
  shows "unmatched w (nd_app s')"
  using assms event_keeps [OF assms(2,3)] event_pending [OF assms(2,3), of "we_withdraw_nonce w"]
  unfolding unmatched_def by (metis insert_iff not_None_eq subset_iff)

lemma blocked_events:
  assumes "unmatched w (nd_app s)" "BsWithdraw w \<in> set es" "distinct (map event_signature es)" "apply_events E es k s = (r, s')" "r \<noteq> Panic"
  shows "(\<exists>err. r = Err err) \<and> unmatched w (nd_app s')"
  using assms(1-4)
proof (induction es arbitrary: k s)
  case (Cons e es)
  show ?case
  proof (cases "e = BsWithdraw w")
    case True
    then show ?thesis using Cons.prems unmatched_fails [OF Cons.prems(1), of E] by (auto simp: hthen_def hbind_def)
  next
    case False
    then have rest: "BsWithdraw w \<in> set es" and ne: "event_signature e \<noteq> we_signature w"
      using Cons.prems(2,3) by (auto simp: rev_image_eqI)
    obtain r1 s1 where e: "apply_balance_sync_event E e s = (r1, s1)" by (cases "apply_balance_sync_event E e s")
    have np: "r1 \<noteq> Panic" using Cons.prems(4) e assms(5) by (auto simp: hthen_def hbind_def)
    note u = unmatched_event [OF Cons.prems(1) e np ne]
    show ?thesis
    proof (cases r1)
      case (Ok x)
      then show ?thesis using Cons.IH [OF u rest] Cons.prems(3,4) e by (simp add: hthen_def hbind_def)
    qed (use Cons.prems(4) e u np in \<open>auto simp: hthen_def hbind_def\<close>)
  qed
qed simp

lemma wal_log_app: "wal_log E e s = (r, s') \<Longrightarrow> \<exists>w. nd_app s' = (nd_app s)\<lparr>as_wal := w\<rparr>"
  using wal_try_shape [of E e s] by (auto simp: wal_log_def hbind_def hguard_def hret_def hfail_def split: if_splits)

lemma expired_is_unmatched:
  assumes run: "expire_pending_withdrawal_handler E (we_withdraw_nonce w) now s = (Ok True, s')"
    and "nonces_match (as_vault (nd_app s))" "we_signature w \<notin> as_processed_signatures (nd_app s)"
  shows "unmatched w (nd_app s')"
proof -
  let ?n = "we_withdraw_nonce w" and ?v = "as_vault (nd_app s)"
  obtain p where p: "dm_get (pending_withdrawals ?v) ?n = Some p"
    using run by (auto simp: expire_pending_withdrawal_handler_def hvault_def hret_def split: option.splits)
  let ?tail = "\<lambda>x. hthen (run_vault (refresh_client_max_lock_expires_at (pw_client x))) (hthen (issue_client_receipt_locked E (pw_client x)) (hret True))"
  from run p obtain u s1 where log: "wal_log E (WWithdrawExpired (pubkey_to_string (he_lib E) (pw_client p)) ?n) s = (Ok u, s1)"
    and rest: "hbind (run_vault (expire_pending_withdrawal ?n)) ?tail s1 = (Ok True, s')"
    by (auto simp: expire_pending_withdrawal_handler_def hvault_def hret_def hthen_def [of "wal_log _ _"] split: if_splits elim: hbind_OkE)
  obtain wl where s1: "nd_app s1 = (nd_app s)\<lparr>as_wal := wl\<rparr>" using wal_log_app [OF log] by blast
  from rest obtain x s2 where ex: "run_vault (expire_pending_withdrawal ?n) s1 = (Ok x, s2)" and tail: "?tail x s2 = (Ok True, s')"
    by (rule hbind_OkE)
  from ex s1 have "pending_withdrawals (as_vault (nd_app s2)) = dm_remove ?n (pending_withdrawals ?v)"
    "as_processed_signatures (nd_app s2) = as_processed_signatures (nd_app s)"
    by (auto simp: run_vault_def expire_pending_withdrawal_def Let_def put_balance_def set_vault_def split: prod.splits option.splits)
  moreover have "books (nd_app s') = books (nd_app s2)"
    by (rule agreeing_books [OF agreeing_then [OF agreeing_refresh agreeing_then [OF agreeing_client_receipt agreeing_ret]] tail])
  ultimately show ?thesis using assms(2,3) by (auto simp: unmatched_def books_def nonces_match_def dm_get_remove)
qed


definition demo_pending :: pending_withdrawal where
  "demo_pending = \<lparr>pw_client = 10, pw_recipient_ata = 20, pw_amount = 40, pw_withdraw_nonce = 7, pw_issued_at = 900, pw_expires_at = 1000\<rparr>"

definition demo_expiring :: node where
  "demo_expiring = demo_pays\<lparr>nd_app := (nd_app demo_pays)\<lparr>as_vault := (as_vault (nd_app demo_pays))\<lparr>pending_withdrawals := [(7, demo_pending)]\<rparr>\<rparr>\<rparr>"

definition demo_withdrawal :: withdraw_event where
  "demo_withdrawal = \<lparr>we_signature = dt_signature_to_string demo_detector 5, we_client = 10, we_recipient_ata = 20, we_amount = 40,
     we_withdraw_nonce = 7, we_expires_at = 1000, we_slot = 4\<rparr>"

definition demo_withdraw_tx :: confirmed_transaction where
  "demo_withdraw_tx = \<lparr>ct_slot = 4, ct_failed = False, ct_message = Some ([10, 1, 9, 20, 8],
     [\<lparr>ci_program_id_index = 4, ci_accounts = [0, 1, 2, 3],
       ci_data = instruction_discriminator (he_sha256 demo_handlers) ''withdraw'' @ word_bytes (40 :: u64) @ word_bytes (7 :: u64)
         @ word_bytes (1000 :: i64)\<rparr>]), ct_loaded_addresses = None\<rparr>"

definition demo_withdraw_node :: chain_node where
  "demo_withdraw_node = demo_deposit_node\<lparr>cn_transaction := (\<lambda>x. Some demo_withdraw_tx)\<rparr>"

lemma demo_withdrawal_parsed: "parse_balance_sync_transaction demo_handlers demo_detector demo_withdraw_tx (dt_signature_to_string demo_detector 5)
    = Inr (Some (BsWithdraw demo_withdrawal))"
proof -
  have "instruction_discriminator (he_sha256 demo_handlers) ''withdraw'' \<noteq> instruction_discriminator (he_sha256 demo_handlers) ''deposit''"
    by (simp add: instruction_discriminator_def demo_handlers_def str_bytes_def word_bytes_def)
  then show ?thesis
    by (simp add: parse_balance_sync_transaction_def demo_withdraw_tx_def demo_detector_def instruction_event_def account_key_def
      parse_loaded_addresses_def word_of_bytes_word_bytes demo_withdrawal_def)
qed

lemma demo_expires:
  "\<exists>s0. expire_pending_withdrawal_handler demo_handlers 7 1010 demo_expiring = (Ok True, s0)
     \<and> as_last_processed_signature (nd_app s0) = Some ''sig1'' \<and> as_processed_signatures (nd_app s0) = {''sig1''}"
  by (simp add: demo_settle_defs demo_expiring_def demo_pending_def expire_pending_withdrawal_handler_def expire_pending_withdrawal_def saturating_sub_def)


end
