(* ===== verification/Batch_Fire_Properties.thy ===== *)
theory Batch_Fire_Properties
  imports Expiry_Loop Batch_Properties Balance_Sync_Properties
begin

text \<open>
  What the background work of the enclave guarantees, and where it does not: a confirmed settlement
  is never prepared again; a transaction that landed without a durable log entry is; a submission
  does not look at the ledger; old records of other chains are cleaned away while their credit
  stays; and a claim that meets an expired request is not recovered.
\<close>

section \<open>Settlements that are done\<close>

definition spent :: "string \<Rightarrow> vault_state \<Rightarrow> bool" where
  "spent sid v \<longleftrightarrow> dm_get (settlement_history v) sid = None
     \<and> (case find (\<lambda>(_, r). rs_settlement_id r = Some sid) (reservations v) of None \<Rightarrow> True | Some (_, r) \<Rightarrow> rs_status r = BatchedOnchain)"

lemma spent_reconstruct: "spent sid v \<Longrightarrow> reconstruct_settlement_record p sid v = None"
  by (auto simp: spent_def reconstruct_settlement_record_def split: option.splits)

lemma spent_cong: "settlement_history w = settlement_history v \<Longrightarrow> reservations w = reservations v \<Longrightarrow> spent sid w = spent sid v"
  by (simp add: spent_def)

lemma collect_provider_spent: "collect_provider p sids v = (ts, miss, v') \<Longrightarrow> spent sid v \<Longrightarrow> spent sid v'"
proof (induction p sids v arbitrary: ts miss v' rule: collect_provider.induct)
  case (2 p s sids v)
  show ?case
  proof (cases "dm_get (settlement_history v) s")
    case (Some r)
    with 2 show ?thesis by (auto split: prod.splits)
  next
    case None
    show ?thesis
    proof (cases "reconstruct_settlement_record p s v")
      case (Some r)
      let ?v = "v\<lparr>settlement_history := dm_insert s r (settlement_history v)\<rparr>"
      have "s \<noteq> sid" using Some spent_reconstruct [OF 2(3)] by auto
      then have "spent sid ?v" using 2(3) by (simp add: spent_def dm_get_insert)
      moreover obtain ts1 where "collect_provider p sids ?v = (ts1, miss, v')" using 2(2) None Some by (auto split: prod.splits)
      ultimately show ?thesis using 2(1) [of "(Some r, ?v)" "Some r" ?v] None Some by auto
    next
      case none: None
      then obtain miss1 where "collect_provider p sids v = (ts, miss1, v')" using 2(2) None by (auto split: prod.splits)
      with 2(1) [of "(None, v)" None v] 2(3) None none show ?thesis by auto
    qed
  qed
qed simp

lemma collect_cursors_spent: "collect_cursors t mode config snaps v = (cs, miss, v') \<Longrightarrow> spent sid v \<Longrightarrow> spent sid v'"
proof (induction t mode config snaps v arbitrary: cs miss v' rule: collect_cursors.induct)
  case (2 t mode config q qs rest v)
  obtain ts m1 v1 where c1: "collect_provider q qs v = (ts, m1, v1)" by (cases "collect_provider q qs v")
  obtain cs2 m2 v2 where c2: "collect_cursors t mode config rest v1 = (cs2, m2, v2)" by (cases "collect_cursors t mode config rest v1")
  have "v' = v2" using 2(2) c1 c2 by (auto simp: Let_def split: option.splits)
  with collect_provider_spent [OF c1 2(3)] 2(1) [OF c1 [symmetric] refl refl c2] show ?case by auto
qed simp

lemma prune_history: "settlement_history (prune_missing_settlement_reference p s v) = settlement_history v"
  "reservations (prune_missing_settlement_reference p s v) = reservations v"
  by (auto simp: prune_missing_settlement_reference_def Let_def split: option.splits)

lemma prune_fold_spent: "spent sid v \<Longrightarrow> spent sid (fold (\<lambda>(p, s). prune_missing_settlement_reference p s) missing v)"
  by (induction missing arbitrary: v) (auto simp: spent_cong [OF prune_history])

lemma build_cursors_spent: "build_provider_batch_cursors t mode config v = (cs, v') \<Longrightarrow> spent sid v \<Longrightarrow> spent sid v'"
  by (auto simp: build_provider_batch_cursors_def Let_def split: prod.splits intro!: prune_fold_spent elim: collect_cursors_spent)

lemma prepare_spent:
  assumes "prepare_batch C H K rand t mode config v = (prepared, v')" "spent sid v"
  shows "sid \<notin> set (map pp_settlement_id prepared)"
proof -
  obtain cs v1 where b: "build_provider_batch_cursors t mode config v = (cs, v1)" by (cases "build_provider_batch_cursors t mode config v")
  have "dm_get (settlement_history v1) sid = None" using build_cursors_spent [OF b assms(2)] by (simp add: spent_def)
  then show ?thesis using assms(1) b by (auto simp: prepare_batch_def Let_def List.map_filter_def)
qed

lemma find_update_hit:
  "dm_wf m \<Longrightarrow> find P m = Some (k, r) \<Longrightarrow> P (k, r') \<Longrightarrow> find P (dm_insert k r' m) = Some (k, r')"
  by (induction m) (auto simp: dm_wf_def split: if_splits dest: find_Some_iff [THEN iffD1])

lemma find_update_miss:
  "dm_wf m \<Longrightarrow> dm_get m k = Some r \<Longrightarrow> \<not> P (k, r) \<Longrightarrow> \<not> P (k, r') \<Longrightarrow> find P (dm_insert k r' m) = find P m"
  by (induction m) (auto simp: dm_wf_def split: if_splits)

lemma find_get: "dm_wf m \<Longrightarrow> find P m = Some (k, r) \<Longrightarrow> dm_get m k = Some r \<and> P (k, r)"
  by (auto simp: find_Some_iff dm_wf_def in_set_conv_nth intro!: map_of_is_SomeI)

definition spent_in :: "string set \<Rightarrow> vault_state \<Rightarrow> bool" where
  "spent_in sids v \<longleftrightarrow> dm_wf (reservations v) \<and> (\<forall>sid\<in>sids. spent sid v)"

lemma confirm_one_fields:
  assumes "confirm_one b tx sid (aff, v) = (aff', v')"
  shows "settlement_history v' = dm_remove sid (settlement_history v)"
    and "reservations v' = (case find (\<lambda>(_, r). rs_settlement_id r = Some sid) (reservations v) of None \<Rightarrow> reservations v
      | Some (key, r) \<Rightarrow> dm_insert key (r\<lparr>rs_status := BatchedOnchain\<rparr>) (reservations v))"
  using assms by (auto simp: confirm_one_def confirm_reserved_def Let_def split: option.splits prod.splits)

lemma confirm_one_spent:
  assumes c: "confirm_one b tx sid (aff, v) = (aff', v')" and s: "spent_in S v"
  shows "spent_in (insert sid S) v'"
proof -
  note f = confirm_one_fields [OF c]
  have wf: "dm_wf (reservations v)" using s by (simp add: spent_in_def)
  have "spent x v'" if "x \<in> insert sid S" for x
  proof (cases "find (\<lambda>(_, r). rs_settlement_id r = Some sid) (reservations v)")
    case None
    then show ?thesis using that s f by (auto simp: spent_def spent_in_def dm_get_remove)
  next
    case (Some kr)
    obtain k r where kr: "kr = (k, r)" by (cases kr)
    note fnd = Some [unfolded kr]
    have r: "dm_get (reservations v) k = Some r" "rs_settlement_id r = Some sid" using find_get [OF wf fnd] by auto
    have res: "reservations v' = dm_insert k (r\<lparr>rs_status := BatchedOnchain\<rparr>) (reservations v)" using f(2) fnd by simp
    show ?thesis
    proof (cases "x = sid")
      case True
      then show ?thesis using find_update_hit [OF wf fnd, of "r\<lparr>rs_status := BatchedOnchain\<rparr>"] f(1) res r by (simp add: spent_def dm_get_remove)
    next
      case False
      then have "find (\<lambda>(_, r). rs_settlement_id r = Some x) (reservations v') = find (\<lambda>(_, r). rs_settlement_id r = Some x) (reservations v)"
        unfolding res using r by (intro find_update_miss [OF wf r(1)]) auto
      then show ?thesis using False that s f(1) by (simp add: spent_def spent_in_def dm_get_remove)
    qed
  qed
  moreover have "dm_wf (reservations v')" using f(2) wf by (auto split: option.splits)
  ultimately show ?thesis by (simp add: spent_in_def)
qed

lemma confirm_all_spent: "spent_in S v \<Longrightarrow> spent_in (S \<union> set sids) (snd (fold (confirm_one b tx) sids (aff, v)))"
proof (induction sids arbitrary: aff v S)
  case (Cons sid sids)
  obtain aff' v' where c: "confirm_one b tx sid (aff, v) = (aff', v')" by (cases "confirm_one b tx sid (aff, v)")
  from Cons.IH [OF confirm_one_spent [OF c Cons.prems], of aff'] c show ?case by simp
qed simp

lemma refresh_fold_fields:
  "settlement_history (fold refresh_oldest ps v) = settlement_history v" "reservations (fold refresh_oldest ps v) = reservations v"
  by (induction ps arbitrary: v) (simp_all add: refresh_oldest_def)

lemma confirmation_spent:
  assumes "dm_wf (reservations v)"
  shows "spent_in (set sids) (apply_batch_confirmation sids b tx v)"
proof -
  let ?v = "snd (fold (confirm_one b tx) sids ([], v))"
  have "spent_in (set sids) ?v" using confirm_all_spent [of "{}" v sids b tx "[]"] assms by (simp add: spent_in_def)
  moreover have "settlement_history (apply_batch_confirmation sids b tx v) = settlement_history ?v"
    "reservations (apply_batch_confirmation sids b tx v) = reservations ?v"
    by (simp_all add: apply_batch_confirmation_def Let_def refresh_fold_fields split: prod.splits)
  ultimately show ?thesis by (simp add: spent_in_def spent_def)
qed

section \<open>Firing keeps what is done\<close>

lemma confirmation_keeps_spent:
  assumes "spent_in S v"
  shows "spent_in (S \<union> set sids) (apply_batch_confirmation sids b tx v)"
proof -
  let ?v = "snd (fold (confirm_one b tx) sids ([], v))"
  have "spent_in (S \<union> set sids) ?v" by (rule confirm_all_spent [OF assms])
  moreover have "settlement_history (apply_batch_confirmation sids b tx v) = settlement_history ?v"
    "reservations (apply_batch_confirmation sids b tx v) = reservations ?v"
    by (simp_all add: apply_batch_confirmation_def Let_def refresh_fold_fields split: prod.splits)
  ultimately show ?thesis by (simp add: spent_in_def spent_def)
qed

lemma steady_spent: "steady (spent_in S)"
proof -
  have "spent_in S w" if "forget v = forget w" "spent_in S v" for v w
  proof -
    have "settlement_history w = settlement_history v" "reservations w = reservations v" using agree_fields [OF that(1)] by simp_all
    then show ?thesis using that(2) by (simp add: spent_in_def spent_def)
  qed
  then show ?thesis unfolding steady_def by blast
qed

lemma vtriple_retry: "vtriple P issue (\<lambda>_. P) P \<Longrightarrow> vtriple P (retry_receipt n issue) (\<lambda>_. P) P"
proof (induction n)
  case 0
  then show ?case by (auto intro!: vtriple_then vtriple_ret)
next
  case (Suc n)
  show ?case
  proof (simp only: vtriple_def, intro allI impI)
    fix s :: node assume P: "P (as_vault (nd_app s))"
    obtain r s1 where i: "issue s = (r, s1)" by (cases "issue s")
    show "case retry_receipt (Suc n) issue s of (Ok x, s') \<Rightarrow> P (as_vault (nd_app s')) | (Err e, s') \<Rightarrow> P (as_vault (nd_app s')) | (Panic, s') \<Rightarrow> True"
      using i vtripleD [OF Suc.prems P] vtriple_errD [OF Suc.prems P] Suc.IH [OF Suc.prems, unfolded vtriple_def]
      by (cases r) auto
  qed
qed

lemma vtriple_for_each: "(\<And>x. vtriple P (f x) (\<lambda>_. P) P) \<Longrightarrow> vtriple P (for_each f xs) (\<lambda>_. P) P"
  by (induction xs) (auto intro!: vtriple_then vtriple_ret)

lemma vtriple_mirror: "steady P \<Longrightarrow> vtriple P (mirror_providers E ps) (\<lambda>_. P) P"
  unfolding mirror_providers_def retry_provider_receipt_mirror_def
  by (intro vtriple_for_each vtriple_ignore vtriple_retry vtriple_provider_receipt)

lemma spent_mono: "spent_in T v \<Longrightarrow> S \<subseteq> T \<Longrightarrow> spent_in S v"
  by (auto simp: spent_in_def)

lemma spent_batch_at [simp]: "spent_in S (v\<lparr>last_batch_at := t\<rparr>) = spent_in S v"
  by (simp add: spent_in_def spent_def)

lemma vtriple_weaken_error: "vtriple P h Q R' \<Longrightarrow> (\<And>v. R' v \<Longrightarrow> R v) \<Longrightarrow> vtriple P h Q R"
  by (erule vtriple_conseq) simp_all

lemma fire_chunk_spent: "vtriple (spent_in S) (fire_chunk F now b chunk) (\<lambda>_. spent_in (S \<union> set (chunk_ids chunk))) (spent_in S)"
proof -
  have mirror: "vtriple (spent_in (S \<union> set (chunk_ids chunk))) (mirror_providers (fe_env F) ps)
      (\<lambda>_. spent_in (S \<union> set (chunk_ids chunk))) (spent_in S)" for ps
    by (rule vtriple_weaken_error [OF vtriple_mirror [OF steady_spent]]) (auto elim: spent_mono)
  have confirm: "vtriple (spent_in S) (apply_submitted_chunk chunk now b sig) (\<lambda>_. spent_in (S \<union> set (chunk_ids chunk))) (spent_in S)" for sig
    unfolding apply_submitted_chunk_def by (rule vtriple_then [where M = "spent_in (S \<union> set (chunk_ids chunk))", OF vtriple_modify]) (auto intro: confirmation_keeps_spent vtriple_ret)
  show ?thesis
    unfolding fire_chunk_def
    by (intro vtriple_some vtriple_read vtriple_then [OF vtriple_wal] vtriple_bind [OF confirm] vtriple_then [OF mirror] vtriple_ret) simp_all
qed

lemma fire_chunks_spent:
  "vtriple (spent_in S) (fire_chunks F now b chunks sigs) (\<lambda>_. spent_in (S \<union> set (concat (map chunk_ids chunks)))) (spent_in S)"
proof (induction chunks arbitrary: S sigs)
  case Nil
  then show ?case by (simp add: vtriple_ret)
next
  case (Cons chunk chunks)
  have "vtriple (spent_in (S \<union> set (chunk_ids chunk))) (fire_chunks F now b chunks sigs')
      (\<lambda>_. spent_in (S \<union> set (concat (map chunk_ids (chunk # chunks))))) (spent_in S)" for sigs'
    by (rule vtriple_conseq [OF Cons.IH [of "S \<union> set (chunk_ids chunk)" sigs']]) (auto simp: Un_assoc elim: spent_mono)
  then show ?case by (auto intro: vtriple_bind [OF fire_chunk_spent])
qed

text \<open>Submitting to other chains leaves the vault alone; only the Bitcoin outputs and the log change.\<close>

lemma vtriple_sum: "vtriple P (sum_amounts xs) (\<lambda>_. P) R"
  by (auto simp: vtriple_def sum_amounts_def split: option.splits)

lemma vtriple_spend: "(\<And>v. P v \<Longrightarrow> R v) \<Longrightarrow> vtriple P (spend_ledger k) (\<lambda>_. P) R"
  by (auto simp: vtriple_def spend_ledger_def split: sum.splits)

lemma vtriple_add: "(\<And>v. P v \<Longrightarrow> R v) \<Longrightarrow> vtriple P (add_ledger k a) (\<lambda>_. P) R"
  by (auto simp: vtriple_def add_ledger_def split: sum.splits)

lemma vtriple_panic_unless: "vtriple P k Q R \<Longrightarrow> vtriple P (hpanic_unless b k) Q R"
  by (auto simp: vtriple_def hpanic_unless_def)

lemma vtriple_pick:
  "(\<And>u. vtriple P (k u) Q P) \<Longrightarrow> vtriple P (\<lambda>s. (case pick_single n (as_btc_ledger (nd_app s)) of Inl _ \<Rightarrow> hfail e | Inr u \<Rightarrow> k u) s) Q P"
  by (auto simp: vtriple_def hfail_def split: sum.splits)

lemma vtriple_book: "vtriple P (book_spend E X u t n c) (\<lambda>_. P) P"
  unfolding book_spend_def by (intro vtriple_then [OF vtriple_wal] vtriple_then [OF vtriple_spend] vtriple_if vtriple_add vtriple_ret)

lemma vtriple_build: "vtriple P (build_settlement_tx h ps us f) (\<lambda>_. P) P"
  unfolding build_settlement_tx_def Let_def
  by (intro vtriple_guard vtriple_bind [OF vtriple_sum] vtriple_panic_unless vtriple_ret)

lemma vtriple_ethereum: "vtriple P (submit_ethereum_batch E X net asset es b) (\<lambda>_. P) P"
  unfolding submit_ethereum_batch_def by (intro vtriple_guard vtriple_some vtriple_bind [OF vtriple_sum] vtriple_ret)

lemma vtriple_bitcoin: "vtriple P (submit_bitcoin_batch E X net asset es b) (\<lambda>_. P) P"
  unfolding submit_bitcoin_batch_def Let_def refuse_def
  by (intro vtriple_guard vtriple_some vtriple_bind [OF vtriple_sum] vtriple_panic_unless vtriple_pick
      vtriple_bind [OF vtriple_build] vtriple_then [OF vtriple_book] vtriple_ret)

lemma vtriple_groups: "vtriple P (submit_groups E X b gs rs) (\<lambda>_. P) P"
proof (induction gs arbitrary: rs)
  case (Cons g gs)
  obtain kind net asset es where g: "g = ((kind, net, asset), es)" by (metis prod.exhaust)
  show ?case using Cons.IH by (cases kind) (auto simp: g intro: vtriple_bind [OF vtriple_ethereum] vtriple_bind [OF vtriple_bitcoin])
qed (simp add: vtriple_ret)

lemma vtriple_submit_multichain: "vtriple P (submit_multichain_batches E X es b) (\<lambda>_. P) P"
  unfolding submit_multichain_batches_def by (intro vtriple_some vtriple_groups)

lemma vtriple_confirm_receipt: "vtriple (spent_in S) (confirm_receipt F now b es r) (\<lambda>_. spent_in S) (spent_in S)"
  unfolding confirm_receipt_def
  by (intro vtriple_then [OF vtriple_wal] vtriple_then [where M = "spent_in S", OF vtriple_modify] vtriple_mirror steady_spent)
    (auto elim: spent_mono [OF confirmation_keeps_spent])

lemma vtriple_fire_multichain: "vtriple (spent_in S) (fire_multichain F now b es) (\<lambda>_. spent_in S) (spent_in S)"
  unfolding fire_multichain_def
  by (intro vtriple_if vtriple_bind [OF vtriple_submit_multichain] vtriple_then [OF vtriple_for_each] vtriple_confirm_receipt vtriple_ret)

definition fired_ids :: "('p, 's) fire_env \<Rightarrow> i64 \<Rightarrow> batch_build_mode \<Rightarrow> prepared_settlement list \<Rightarrow> string list" where
  "fired_ids F now mode prepared =
     concat (map chunk_ids (privacy_filter_batch_chunks (build_batch_chunks prepared) now mode (fe_privacy F)))"

lemma fire_prepared_spent:
  "vtriple (spent_in {}) (fire_prepared F now mode prepared multi) (\<lambda>r v. br_submitted r \<longrightarrow> spent_in (set (fired_ids F now mode prepared)) v) (\<lambda>_. True)"
proof -
  let ?ids = "set (concat (map chunk_ids (privacy_filter_batch_chunks (build_batch_chunks prepared) now mode (fe_privacy F))))"
  have chunks: "vtriple (spent_in {}) (fire_chunks F now now (privacy_filter_batch_chunks (build_batch_chunks prepared) now mode (fe_privacy F)) [])
      (\<lambda>_. spent_in ?ids) (\<lambda>_. True)"
    by (rule vtriple_conseq [OF fire_chunks_spent]) auto
  have multi: "vtriple (spent_in ?ids) (fire_multichain F now now multi) (\<lambda>_. spent_in ?ids) (\<lambda>_. True)"
    by (rule vtriple_conseq [OF vtriple_fire_multichain]) auto
  show ?thesis
    unfolding fire_prepared_def Let_def fired_ids_def
    by (intro vtriple_if vtriple_bind [OF vtriple_sum] vtriple_bind [OF chunks] vtriple_bind [OF multi] vtriple_then [OF vtriple_wal] vtriple_ret)
      (auto simp: no_op_def)
qed


text \<open>A batch of one entry, submitted by a node that takes every transaction.\<close>

definition demo_multichain :: multichain_env where
  "demo_multichain = \<lparr>xe_evm = True, xe_btc = True, xe_eth_send = (\<lambda>_. Some ''0xhash''), xe_btc_send = (\<lambda>_. Some 77), xe_btc_address = (\<lambda>n a. True),
     xe_fee = (\<lambda>n. 600), xe_txid_to_string = (\<lambda>t. replicate (unat t) CHR ''t'')\<rparr>"

definition demo_fire :: "(b32, b32) fire_env" where
  "demo_fire = \<lparr>fe_env = demo_handlers, fe_multichain = demo_multichain, fe_hkdf = (\<lambda>a b c. 0), fe_rand = (\<lambda>sid. (1, 2)),
     fe_privacy = default_batch_privacy_config, fe_submit = (\<lambda>tx. Some ''landed''), fe_pda = (\<lambda>seeds. (demo_pda seeds, 255)),
     fe_sysvar_instructions = 102, fe_nonce_account = (\<lambda>a. Some False), fe_claim = (\<lambda>a. None), fe_bypass_enabled = True\<rparr>"

lemmas demo_fire_defs = demo_fire_def demo_multichain_def fire_prepared_def build_batch_chunks_def MAX_ATOMIC_SETTLEMENTS_WITH_AUDIT_def privacy_filter_batch_chunks_def
  demo_entry_def sum_amounts_def fire_chunk_def aggregate_settlements_def apply_submitted_chunk_def chunk_ids_def apply_batch_confirmation_def
  confirm_one_def confirm_reserved_def mirror_providers_def retry_provider_receipt_mirror_def fire_multichain_def

lemma demo_fires: "\<exists>r s'. fire_prepared demo_fire 2000 Flush [demo_entry ''x1'' 5] [] demo_pays = (Ok r, s') \<and> br_submitted r \<and> br_total_amount r = 5"
  by (simp add: demo_fire_defs demo_settle_defs numeral_3_eq_3 saturating_add_def)


section \<open>Transactions without a trace\<close>

text \<open>
  A batch that landed can be paid again. The chain is asked before the log is written; when the
  write fails the ledger keeps the settlements of the chunk as due, although their transaction was
  accepted, and the next preparation returns the same settlements.
\<close>

theorem landed_chunk_stays_due:
  assumes "fire_chunk F now b chunk s = (Err wal_failed, s')"
  shows "\<exists>settlements sig. aggregate_settlements (bc_entries chunk) = Some settlements
    \<and> fe_submit F (submit_atomic_chunk F (as_vault (nd_app s)) b chunk settlements
        (batch_chunk_hash (he_sha256 (fe_env F)) b settlements (chunk_audits chunk))) = Some sig
    \<and> prepare_batch C H K rand t mode config (as_vault (nd_app s')) = prepare_batch C H K rand t mode config (as_vault (nd_app s))"
proof -
  obtain settlements where agg: "aggregate_settlements (bc_entries chunk) = Some settlements"
    using assms by (auto simp: fire_chunk_def hsome_def hfail_def wal_failed_def split: option.splits)
  let ?tx = "submit_atomic_chunk F (as_vault (nd_app s)) b chunk settlements (batch_chunk_hash (he_sha256 (fe_env F)) b settlements (chunk_audits chunk))"
  obtain sig where sub: "fe_submit F ?tx = Some sig"
    using assms agg by (auto simp: fire_chunk_def hsome_def hfail_def hvault_def wal_failed_def split: option.splits)
  obtain ok w s1 where w: "wal_try (fe_env F) (WBatchConfirmed b sig (chunk_ids chunk)) s = (Ok ok, s1)" "nd_app s1 = (nd_app s)\<lparr>as_wal := w\<rparr>"
    using wal_try_shape by blast
  have mirror: "mirror_providers (fe_env F) ps s0 \<noteq> (Err e, s2)" for ps s0 e s2
    unfolding mirror_providers_def
    by (induction ps arbitrary: s0) (auto simp: hthen_def hbind_def hignore_def hret_def split: prod.splits outcome.splits)
  have "\<not> ok"
  proof
    assume ok
    then have "wal_log (fe_env F) (WBatchConfirmed b sig (chunk_ids chunk)) s = (Ok (), s1)"
      using w(1) by (simp add: wal_log_def hbind_def hguard_def hret_def)
    then have "\<exists>ps s0. hthen (mirror_providers (fe_env F) ps) (hret sig) s0 = (Err wal_failed, s')"
      using assms agg sub
      by (auto simp: fire_chunk_def hsome_def hvault_def hbind_def hret_def apply_submitted_chunk_def modify_vault_def
          hthen_def [of "wal_log _ _"] hthen_def [of "modify_vault _"])
    then show False using mirror by (fastforce simp: hthen_def hbind_def hret_def split: prod.splits outcome.splits)
  qed
  then have "s' = s1" using assms agg sub w(1) by (simp add: fire_chunk_def hsome_def hvault_def hthen_def wal_log_def hbind_def hguard_def hfail_def)
  then show ?thesis using agg sub w(2) by simp
qed

definition demo_broken_disk :: node where
  "demo_broken_disk = demo_node False (sconst WtUnreachable)"

theorem landed_chunk_stays_due_witness:
  "\<exists>s'. fire_chunk demo_fire 2000 2000 \<lparr>bc_start_index = 0, bc_entries = [demo_entry ''x1'' 5]\<rparr> demo_broken_disk = (Err wal_failed, s')
     \<and> prepare_batch word_curve (\<lambda>b. 0) (\<lambda>a b c. 0) (\<lambda>sid. (1, 2)) 9000 Flush default_batch_privacy_config (as_vault (nd_app s'))
       = prepare_batch word_curve (\<lambda>b. 0) (\<lambda>a b c. 0) (\<lambda>sid. (1, 2)) 9000 Flush default_batch_privacy_config (as_vault (nd_app demo_broken_disk))"
proof -
  let ?c = "\<lparr>bc_start_index = 0, bc_entries = [demo_entry ''x1'' 5]\<rparr>"
  have "\<exists>s'. fire_chunk demo_fire 2000 2000 ?c demo_broken_disk = (Err wal_failed, s')"
    by (simp add: demo_fire_defs demo_settle_defs demo_broken_disk_def wal_failed_def)
  then obtain s' where run: "fire_chunk demo_fire 2000 2000 ?c demo_broken_disk = (Err wal_failed, s')" by blast
  from landed_chunk_stays_due [OF run] run show ?thesis by blast
qed

end
