(* ===== verification/Evm_Tx.thy ===== *)
theory Evm_Tx
  imports Evm_Chain
begin

text \<open>
  EIP-1559 transactions and Ethereum message signatures (\<open>shared/src/evm_tx.rs\<close>, the client of
  \<open>evm_chain.rs\<close>, and the signature helpers that \<open>handlers_evm.rs\<close>, \<open>handlers_client.rs\<close>, the service
  provider and the client library each carry a copy of). ECDSA over secp256k1 is a parameter: a
  public key is its 64 uncompressed bytes. An RPC node is a record of its answers.
\<close>

section \<open>Keys and message signatures\<close>

record ecdsa_lib =
  ec_public :: "b32 \<Rightarrow> bytes option"
  ec_sign :: "b32 \<Rightarrow> b32 \<Rightarrow> bytes \<times> bytes \<times> u8"
  ec_recover :: "b32 \<Rightarrow> bytes \<Rightarrow> u8 \<Rightarrow> bytes option"

text \<open>
  A signature recovers to the key that made it. Recovery ids above 1 need a coordinate beyond the
  group order, which signing does not meet in practice.
\<close>

definition ecdsa_laws :: "ecdsa_lib \<Rightarrow> bool" where
  "ecdsa_laws D \<longleftrightarrow> (\<forall>sk xy h r s v. ec_public D sk = Some xy \<longrightarrow> ec_sign D sk h = (r, s, v) \<longrightarrow>
     length r = 32 \<and> length s = 32 \<and> v \<le> 1 \<and> ec_recover D h (r @ s) v = Some xy)"

definition address_of_xy :: "(bytes \<Rightarrow> b32) \<Rightarrow> bytes \<Rightarrow> address" where
  "address_of_xy keccak xy = word_of_bytes (drop 12 (word_bytes (keccak xy)))"

definition derive_address :: "(bytes \<Rightarrow> b32) \<Rightarrow> ecdsa_lib \<Rightarrow> b32 \<Rightarrow> address option" where
  "derive_address keccak D sk = map_option (address_of_xy keccak) (ec_public D sk)"

definition eth_signed_digest :: "(bytes \<Rightarrow> b32) \<Rightarrow> b32 \<Rightarrow> b32" where
  "eth_signed_digest keccak digest = keccak ([25] @ str_bytes ''Ethereum Signed Message:'' @ [10] @ str_bytes ''32'' @ word_bytes digest)"

definition sign_eth_signed :: "(bytes \<Rightarrow> b32) \<Rightarrow> ecdsa_lib \<Rightarrow> b32 \<Rightarrow> b32 \<Rightarrow> bytes" where
  "sign_eth_signed keccak D sk digest = (case ec_sign D sk (eth_signed_digest keccak digest) of (r, s, rid) \<Rightarrow> r @ s @ [27 + rid])"

definition recovery_id :: "u8 \<Rightarrow> u8 option" where
  "recovery_id v = (if v = 27 \<or> v = 0 then Some 0 else if v = 28 \<or> v = 1 then Some 1 else None)"

definition recover_eth_signed :: "(bytes \<Rightarrow> b32) \<Rightarrow> ecdsa_lib \<Rightarrow> b32 \<Rightarrow> bytes \<Rightarrow> address option" where
  "recover_eth_signed keccak D digest sig65 =
     (if length sig65 \<noteq> 65 then None
      else Option.bind (recovery_id (sig65 ! 64)) (\<lambda>rid.
        map_option (address_of_xy keccak) (ec_recover D (eth_signed_digest keccak digest) (take 64 sig65) rid)))"

section \<open>RLP\<close>

definition u_to_be_minimal :: "u128 \<Rightarrow> bytes" where
  "u_to_be_minimal value = (if value = 0 then [] else dropWhile (\<lambda>b. b = 0) (rev (word_bytes value)))"

definition strip_leading_zeros :: "bytes \<Rightarrow> bytes" where
  "strip_leading_zeros bs = dropWhile (\<lambda>b. b = 0) bs"

definition rlp_encode_bytes :: "bytes \<Rightarrow> bytes" where
  "rlp_encode_bytes bs =
     (if length bs = 1 \<and> bs ! 0 < 0x80 then [bs ! 0]
      else if length bs < 56 then [0x80 + of_nat (length bs)] @ bs
      else let len_be = u_to_be_minimal (of_nat (length bs)) in [0xb7 + of_nat (length len_be)] @ len_be @ bs)"

definition rlp_encode_list :: "bytes list \<Rightarrow> bytes" where
  "rlp_encode_list items =
     (let body_len = sum_list (map length items)
      in (if body_len < 56 then [0xc0 + of_nat body_len]
          else let len_be = u_to_be_minimal (of_nat body_len) in [0xf7 + of_nat (length len_be)] @ len_be) @ concat items)"

definition rlp_encode_list_empty :: bytes where
  "rlp_encode_list_empty = [0xc0]"

definition rlp_encode_u64 :: "u64 \<Rightarrow> bytes" where
  "rlp_encode_u64 value = rlp_encode_bytes (u_to_be_minimal (ucast value))"

definition rlp_encode_u128 :: "u128 \<Rightarrow> bytes" where
  "rlp_encode_u128 value = rlp_encode_bytes (u_to_be_minimal value)"

section \<open>EIP-1559\<close>

record eip1559_tx_params =
  tp_chain_id :: u64
  tp_nonce :: u64
  tp_max_priority_fee_per_gas :: u128
  tp_max_fee_per_gas :: u128
  tp_gas_limit :: u64
  tp_to :: address
  tp_value :: u128
  tp_data :: bytes

definition tx_items :: "eip1559_tx_params \<Rightarrow> bytes list" where
  "tx_items p = [rlp_encode_u64 (tp_chain_id p), rlp_encode_u64 (tp_nonce p), rlp_encode_u128 (tp_max_priority_fee_per_gas p),
     rlp_encode_u128 (tp_max_fee_per_gas p), rlp_encode_u64 (tp_gas_limit p), rlp_encode_bytes (word_bytes (tp_to p)),
     rlp_encode_u128 (tp_value p), rlp_encode_bytes (tp_data p), rlp_encode_list_empty]"

definition encode_eip1559_unsigned :: "eip1559_tx_params \<Rightarrow> bytes" where
  "encode_eip1559_unsigned p = rlp_encode_list (tx_items p)"

definition encode_eip1559_signed :: "eip1559_tx_params \<Rightarrow> u8 \<Rightarrow> bytes \<Rightarrow> bytes \<Rightarrow> bytes" where
  "encode_eip1559_signed p y_parity r_be s_be = rlp_encode_list (tx_items p @
     [rlp_encode_u64 (ucast y_parity), rlp_encode_bytes (strip_leading_zeros r_be), rlp_encode_bytes (strip_leading_zeros s_be)])"

definition EIP_1559_TX_TYPE :: u8 where
  "EIP_1559_TX_TYPE = 2"

record evm_signer =
  es_signing_key :: b32
  es_address :: address
  es_chain_id :: u64

definition evm_signer_from_bytes :: "(bytes \<Rightarrow> b32) \<Rightarrow> ecdsa_lib \<Rightarrow> b32 \<Rightarrow> u64 \<Rightarrow> evm_signer option" where
  "evm_signer_from_bytes keccak D secret chain_id =
     map_option (\<lambda>a. \<lparr>es_signing_key = secret, es_address = a, es_chain_id = chain_id\<rparr>) (derive_address keccak D secret)"

definition evm_signer_from_hex :: "(bytes \<Rightarrow> b32) \<Rightarrow> ecdsa_lib \<Rightarrow> hex_lib \<Rightarrow> string \<Rightarrow> u64 \<Rightarrow> evm_signer option" where
  "evm_signer_from_hex keccak D X hex_priv chain_id = Option.bind (hex_dec X (strip_0x hex_priv)) (\<lambda>bs.
     if length bs \<noteq> 32 then None else evm_signer_from_bytes keccak D (word_of_bytes bs) chain_id)"

text \<open>The library returns signatures with a low \<open>s\<close>, so the normalisation of the source changes nothing.\<close>

definition sign_eip1559 :: "(bytes \<Rightarrow> b32) \<Rightarrow> ecdsa_lib \<Rightarrow> evm_signer \<Rightarrow> eip1559_tx_params \<Rightarrow> bytes" where
  "sign_eip1559 keccak D signer p =
     (case ec_sign D (es_signing_key signer) (keccak (EIP_1559_TX_TYPE # encode_eip1559_unsigned p)) of (r, s, rid) \<Rightarrow>
        EIP_1559_TX_TYPE # encode_eip1559_signed p (rid mod 2) r s)"

section \<open>RPC client\<close>

datatype evm_error = InvalidAddress string | InvalidBytes32 string | RpcRequest string | Reverted string | NotMined nat | BadResponse string

record transaction_receipt =
  tr_block_number :: u64
  tr_status :: "u64 option"

text \<open>
  The answers of a node; \<open>None\<close> is a failed call. \<open>en_receipt n tx\<close> is the answer of the n-th poll,
  its inner \<open>None\<close> a transaction that is not mined yet.
\<close>

record evm_node =
  en_chain_id :: "u64 option"
  en_nonce :: "address \<Rightarrow> u64 option"
  en_gas_price :: "u128 option"
  en_priority_fee :: "u128 option"
  en_send_transaction :: "address \<Rightarrow> address \<Rightarrow> string \<Rightarrow> string option"
  en_send_raw :: "bytes \<Rightarrow> string option"
  en_receipt :: "nat \<Rightarrow> string \<Rightarrow> transaction_receipt option option"
  en_call :: "address \<Rightarrow> string \<Rightarrow> string option"

fun wait_receipt_from :: "evm_node \<Rightarrow> string \<Rightarrow> nat \<Rightarrow> nat \<Rightarrow> nat \<Rightarrow> (evm_error, transaction_receipt) reply" where
  "wait_receipt_from N tx_hash max_polls i 0 = Fail (NotMined max_polls)"
| "wait_receipt_from N tx_hash max_polls i (Suc polls) =
     rsome (en_receipt N i tx_hash) (RpcRequest ''eth_getTransactionReceipt'') (\<lambda>value.
       case value of None \<Rightarrow> wait_receipt_from N tx_hash max_polls (Suc i) polls
       | Some receipt \<Rightarrow> if tr_status receipt = Some 0 then Fail (Reverted tx_hash) else Reply receipt)"

definition wait_receipt :: "evm_node \<Rightarrow> string \<Rightarrow> nat \<Rightarrow> (evm_error, transaction_receipt) reply" where
  "wait_receipt N tx_hash max_polls = wait_receipt_from N tx_hash max_polls 0 max_polls"

record asc_manager_client =
  ac_address :: address
  ac_vault_eoa :: address
  ac_signer :: "evm_signer option"
  ac_default_gas_limit :: u64

definition asc_client_new :: "address \<Rightarrow> address \<Rightarrow> asc_manager_client" where
  "asc_client_new a vault_eoa = \<lparr>ac_address = a, ac_vault_eoa = vault_eoa, ac_signer = None, ac_default_gas_limit = 500000\<rparr>"

definition asc_client_with_signer :: "address \<Rightarrow> evm_signer \<Rightarrow> asc_manager_client" where
  "asc_client_with_signer a signer =
     \<lparr>ac_address = a, ac_vault_eoa = es_address signer, ac_signer = Some signer, ac_default_gas_limit = 500000\<rparr>"

definition saturating_mul :: "'a::len word \<Rightarrow> 'a word \<Rightarrow> 'a word" where
  "saturating_mul x y = (if unat x * unat y < 2 ^ LENGTH('a) then x * y else - 1)"

definition max_fee_of :: "u128 \<Rightarrow> u128 \<Rightarrow> u128" where
  "max_fee_of base priority = max (saturating_mul base 2) (saturating_mul priority 2)"

definition submit_signed ::
    "(bytes \<Rightarrow> b32) \<Rightarrow> ecdsa_lib \<Rightarrow> evm_node \<Rightarrow> asc_manager_client \<Rightarrow> evm_signer \<Rightarrow> bytes \<Rightarrow> (evm_error, string) reply" where
  "submit_signed keccak D N c signer calldata =
     rsome (en_nonce N (es_address signer)) (RpcRequest ''eth_getTransactionCount'') (\<lambda>nonce.
     rsome (case en_priority_fee N of Some v \<Rightarrow> Some v | None \<Rightarrow> en_gas_price N) (RpcRequest ''eth_gasPrice'') (\<lambda>priority.
     rsome (en_gas_price N) (RpcRequest ''eth_gasPrice'') (\<lambda>base.
     let params = \<lparr>tp_chain_id = es_chain_id signer, tp_nonce = nonce, tp_max_priority_fee_per_gas = priority,
           tp_max_fee_per_gas = max_fee_of base priority, tp_gas_limit = ac_default_gas_limit c, tp_to = ac_address c, tp_value = 0,
           tp_data = calldata\<rparr>
     in rsome (en_send_raw N (sign_eip1559 keccak D signer params)) (RpcRequest ''eth_sendRawTransaction'') Reply)))"

text \<open>The call data arrives as hexadecimal text and is decoded again on the signed path.\<close>

definition submit_calldata ::
    "(bytes \<Rightarrow> b32) \<Rightarrow> ecdsa_lib \<Rightarrow> hex_lib \<Rightarrow> evm_node \<Rightarrow> asc_manager_client \<Rightarrow> string \<Rightarrow> (evm_error, string) reply" where
  "submit_calldata keccak D X N c calldata_hex =
     (case ac_signer c of
        None \<Rightarrow> rsome (en_send_transaction N (ac_vault_eoa c) (ac_address c) calldata_hex) (RpcRequest ''eth_sendTransaction'') Reply
      | Some signer \<Rightarrow> rsome (hex_dec X (trim_0x calldata_hex)) (BadResponse ''calldata hex decode'') (submit_signed keccak D N c signer))"

definition create_asc where
  "create_asc keccak D X N c cid client provider amount = submit_calldata keccak D X N c (encode_create_asc keccak X cid client provider amount)"

definition close_asc where
  "close_asc keccak D X N c cid balance_c balance_s version sig_c sig_s =
     submit_calldata keccak D X N c (encode_close_asc keccak X cid balance_c balance_s version sig_c sig_s)"

definition init_force_close where
  "init_force_close keccak D X N c cid balance_c balance_s version sig_c =
     submit_calldata keccak D X N c (encode_init_force_close keccak X cid balance_c balance_s version sig_c)"

definition challenge_force_close where
  "challenge_force_close keccak D X N c cid balance_c balance_s version sig_u =
     submit_calldata keccak D X N c (encode_challenge_force_close keccak X cid balance_c balance_s version sig_u)"

definition final_force_close where
  "final_force_close keccak D X N c cid = submit_calldata keccak D X N c (encode_final_force_close keccak X cid)"

definition read_state :: "(bytes \<Rightarrow> b32) \<Rightarrow> hex_lib \<Rightarrow> evm_node \<Rightarrow> asc_manager_client \<Rightarrow> bytes32 \<Rightarrow> (evm_error, asc_state) reply" where
  "read_state keccak X N c cid =
     rsome (en_call N (ac_address c) (to_calldata_hex X (selector keccak ''ascs(bytes32)'' @ word_bytes cid))) (RpcRequest ''eth_call'') (\<lambda>raw.
     rsome (decode_asc_state X raw) (BadResponse ''ascs() decode'') Reply)"

end
