(* ===== verification/Evm_Codec.thy ===== *)
theory Evm_Codec
  imports Evm_Tx
begin

text \<open>
  What the encodings of the Ethereum adapter say. Reference readers for RLP, for an EIP-1559 payload
  and for the channel record of the contract are given here and shown to invert the encoders of
  \<open>evm_tx.rs\<close> and to be inverted by the reader of \<open>evm_chain.rs\<close>; the hashed bytes of a channel state
  determine the state. So a signature covers every field it is meant to cover.
\<close>

section \<open>Bytes\<close>

lemma take_le_bytes: "n \<le> m \<Longrightarrow> take n (le_bytes m k) = le_bytes n k"
  by (induction m arbitrary: n k) (auto simp: take_Cons split: nat.splits)

lemma le_nat_append: "le_nat (xs @ ys) = le_nat xs + 256 ^ length xs * le_nat ys"
  by (induction xs) (auto simp: algebra_simps)

lemma le_nat_zeros [simp]: "le_nat (replicate n 0) = 0"
  by (induction n) auto

lemma le_nat_word_bytes: "8 dvd LENGTH('a) \<Longrightarrow> le_nat (word_bytes (w :: 'a::len word)) = unat w"
  using unsigned_less [of w, where ?'a = nat] by (simp add: word_bytes_def le_nat_le_bytes pow256)

lemma word_bytes_inject: "8 dvd LENGTH('a) \<Longrightarrow> word_bytes v = word_bytes (w :: 'a::len word) \<longleftrightarrow> v = w"
  by (metis word_of_bytes_word_bytes)

lemma unat_ucast_u128: "LENGTH('a) \<le> 128 \<Longrightarrow> unat (ucast (v :: 'a::len word) :: u128) = unat v"
proof -
  assume "LENGTH('a) \<le> 128"
  then have "(2 :: nat) ^ LENGTH('a) \<le> 2 ^ 128" by (rule power_increasing) simp
  then have "unat v < 2 ^ 128" using unsigned_less [of v, where ?'a = nat] by (rule less_le_trans [rotated])
  then show "unat (ucast v :: u128) = unat v" by (simp add: unsigned_ucast_eq take_bit_nat_eq_self)
qed

lemma strip_0x_hex_text [simp]: "strip_0x (hex_text X bs) = hex_enc X bs"
  by (simp add: strip_0x_def hex_text_def strip_prefix_def starts_with_def)

section \<open>The hashed bytes of a channel state\<close>

text \<open>All fields have a fixed width.\<close>

lemma asc_state_preimage_inject:
  "asc_state_preimage a c x y v = asc_state_preimage a' c' x' y' v' \<longleftrightarrow> a = a' \<and> c = c' \<and> x = x' \<and> y = y' \<and> v = v'"
  by (simp add: asc_state_preimage_def encode_u256_def word_bytes_inject)

section \<open>The channel record of the contract\<close>

text \<open>The ABI encoding of the tuple that \<open>ascs(bytes32)\<close> returns: one slot of 32 bytes for each field.\<close>

definition abi_asc :: "asc_state \<Rightarrow> bytes" where
  "abi_asc st = encode_address (sc_client st) @ encode_address (sc_provider st) @ encode_u256 (sc_balance_c st) @ encode_u256 (sc_balance_s st)
     @ encode_u256 (ucast (sc_version st)) @ encode_u256 (ucast (sc_status st)) @ encode_u256 (ucast (sc_created_at st)) @ encode_u256 (sc_total_deposit st)"

lemma length_slots [simp]: "length (encode_address a) = 32" "length (encode_u256 n) = 32" "length (encode_u256_be b) = 32"
  by (simp_all add: encode_address_def encode_u256_def encode_u256_be_def)

lemma take_u128_encode [simp]: "take_u128 (encode_u256 n) = n"
  by (simp add: take_u128_def encode_u256_def word_of_bytes_word_bytes)

lemma rev_word_bytes_tail: "n \<le> 16 \<Longrightarrow> drop (32 - n) (encode_u256 x) = rev (take n (word_bytes x))"
  by (simp add: encode_u256_def drop_rev)

lemma word_bytes_ucast64: "take 8 (word_bytes (ucast (v :: u64) :: u128)) = word_bytes v"
  using take_le_bytes [of 8 16 "unat v"] unat_ucast_u128 [of v] by (simp add: word_bytes_def del: le_bytes_numeral)

lemma take_u64_encode [simp]: "take_u64 (encode_u256 (ucast v)) = v"
  using rev_word_bytes_tail [of 8 "ucast v"] by (simp add: take_u64_def word_bytes_ucast64 word_of_bytes_word_bytes)

lemma word_bytes_ucast8: "take 1 (word_bytes (ucast (b :: u8) :: u128)) = [b]"
  using take_le_bytes [of 1 16 "unat b"] unat_ucast_u128 [of b] unsigned_less [of b, where ?'a = nat]
  by (simp add: word_bytes_def del: le_bytes_numeral)

lemma encode_u256_last [simp]: "encode_u256 (ucast (b :: u8)) ! 31 = b"
  using arg_cong [OF rev_word_bytes_tail [of 1 "ucast b"], of hd] word_bytes_ucast8 [of b] by (simp add: hd_drop_conv_nth)

lemma abi_slots:
  "abi_slot (abi_asc st @ trailing) 0 = encode_address (sc_client st)" "abi_slot (abi_asc st @ trailing) 1 = encode_address (sc_provider st)"
  "abi_slot (abi_asc st @ trailing) 2 = encode_u256 (sc_balance_c st)" "abi_slot (abi_asc st @ trailing) 3 = encode_u256 (sc_balance_s st)"
  "abi_slot (abi_asc st @ trailing) 4 = encode_u256 (ucast (sc_version st))" "abi_slot (abi_asc st @ trailing) 5 = encode_u256 (ucast (sc_status st))"
  "abi_slot (abi_asc st @ trailing) 6 = encode_u256 (ucast (sc_created_at st))" "abi_slot (abi_asc st @ trailing) 7 = encode_u256 (sc_total_deposit st)"
  by (simp_all add: abi_slot_def abi_asc_def)

lemma length_abi_asc [simp]: "length (abi_asc st) = 256"
  by (simp add: abi_asc_def)

lemma decode_abi_asc: "decode_asc_bytes (abi_asc st @ trailing) = Some st"
  by (simp add: decode_asc_bytes_def abi_slots del: One_nat_def) (simp add: encode_address_def word_of_bytes_word_bytes)

section \<open>RLP\<close>

definition be_nat :: "bytes \<Rightarrow> nat" where
  "be_nat bs = le_nat (rev bs)"

lemma be_nat_dropWhile: "be_nat (dropWhile (\<lambda>b. b = 0) bs) = be_nat bs"
  by (induction bs) (auto simp: be_nat_def le_nat_append)

lemma be_nat_minimal [simp]: "be_nat (u_to_be_minimal v) = unat v"
  by (auto simp: u_to_be_minimal_def be_nat_dropWhile) (simp_all add: be_nat_def le_nat_word_bytes)

lemma be_nat_lower: "bs \<noteq> [] \<Longrightarrow> hd bs \<noteq> 0 \<Longrightarrow> 256 ^ (length bs - 1) \<le> be_nat bs"
proof (cases bs)
  case (Cons b bs')
  assume "bs \<noteq> []" "hd bs \<noteq> 0"
  with Cons have "1 \<le> unat b" by (simp add: Suc_leI unat_gt_0)
  then show ?thesis using Cons mult_le_mono2 [of 1 "unat b" "256 ^ length bs'"] by (simp add: be_nat_def le_nat_append trans_le_add2)
qed simp

lemma length_minimal: "unat v < 2 ^ 64 \<Longrightarrow> length (u_to_be_minimal v) \<le> 8"
proof (rule ccontr)
  let ?m = "u_to_be_minimal v"
  assume small: "unat v < 2 ^ 64" and "\<not> length ?m \<le> 8"
  then have len: "8 \<le> length ?m - 1" "?m \<noteq> []" by auto
  have "hd ?m \<noteq> 0" using len(2) hd_dropWhile [of "\<lambda>b. b = 0" "rev (word_bytes v)"] by (auto simp: u_to_be_minimal_def split: if_splits)
  from be_nat_lower [OF len(2) this] have "256 ^ (length ?m - 1) \<le> unat v" by simp
  moreover have "(256 :: nat) ^ 8 \<le> 256 ^ (length ?m - 1)" using len(1) by (rule power_increasing) simp
  ultimately show False using small by simp
qed

lemma length_minimal_pos: "v \<noteq> 0 \<Longrightarrow> u_to_be_minimal v \<noteq> []"
  using be_nat_minimal [of v] by (auto simp: be_nat_def unat_eq_zero)

text \<open>A reader of one string item and of one list header, and what is left.\<close>

definition take_bytes :: "nat \<Rightarrow> bytes \<Rightarrow> (bytes \<times> bytes) option" where
  "take_bytes n bs = (if n \<le> length bs then Some (take n bs, drop n bs) else None)"

definition rlp_take :: "nat \<Rightarrow> bytes \<Rightarrow> (bytes \<times> bytes) option" where
  "rlp_take ll bs = Option.bind (take_bytes ll bs) (\<lambda>(len, rest). take_bytes (be_nat len) rest)"

fun rlp_item :: "bytes \<Rightarrow> (bytes \<times> bytes) option" where
  "rlp_item [] = None"
| "rlp_item (b # bs) = (if b < 0x80 then Some ([b], bs) else if b < 0xb8 then take_bytes (unat (b - 0x80)) bs
     else if b < 0xc0 then rlp_take (unat (b - 0xb7)) bs else None)"

fun rlp_list :: "bytes \<Rightarrow> (bytes \<times> bytes) option" where
  "rlp_list [] = None"
| "rlp_list (b # bs) = (if b < 0xc0 then None else if b < 0xf8 then take_bytes (unat (b - 0xc0)) bs else rlp_take (unat (b - 0xf7)) bs)"

lemma take_bytes_append [simp]: "n = length xs \<Longrightarrow> take_bytes n (xs @ ys) = Some (xs, ys)"
  by (simp add: take_bytes_def)

lemma unat_small_u8: "n < 256 \<Longrightarrow> unat (of_nat n :: u8) = n"
  by (simp add: unat_of_nat)

lemma rlp_take_minimal:
  "length bs < 2 ^ 64 \<Longrightarrow> ll = length (u_to_be_minimal (of_nat (length bs))) \<Longrightarrow> rlp_take ll (u_to_be_minimal (of_nat (length bs)) @ bs @ rest) = Some (bs, rest)"
  by (simp add: rlp_take_def unat_of_nat)

text \<open>The first byte of a header: an offset and a small number.\<close>

lemma header_byte:
  assumes "unat k + n < 256"
  shows "unat (k + of_nat n :: u8) = unat k + n" "unat (k + of_nat n - k :: u8) = n"
  using assms by (simp_all add: unat_of_nat unat_word_ariths)

lemma minimal_size:
  assumes "n < 2 ^ 64" "\<not> n < 56"
  shows "0 < length (u_to_be_minimal (of_nat n)) \<and> length (u_to_be_minimal (of_nat n)) \<le> 8"
proof -
  have n: "unat (of_nat n :: u128) = n" using assms(1) by (simp add: unat_of_nat)
  then have "(of_nat n :: u128) \<noteq> 0" using assms(2) by (metis unat_0 less_nat_zero_code linorder_not_le zero_less_numeral)
  then show ?thesis using length_minimal [of "of_nat n"] length_minimal_pos [of "of_nat n"] n assms(1) by simp
qed

lemma rlp_item_encode:
  assumes "length bs < 2 ^ 64"
  shows "rlp_item (rlp_encode_bytes bs @ rest) = Some (bs, rest)"
proof -
  let ?m = "u_to_be_minimal (of_nat (length bs))"
  consider (one) b where "bs = [b]" "b < 0x80" | (short) "\<not> (length bs = 1 \<and> bs ! 0 < 0x80)" "length bs < 56" | (long) "\<not> length bs < 56"
    by (cases bs; cases "tl bs"; force)
  then show ?thesis
  proof cases
    case short
    then show ?thesis using header_byte [of "0x80" "length bs"] by (auto simp: rlp_encode_bytes_def word_less_nat_alt)
  next
    case long
    then show ?thesis using minimal_size [OF assms] long header_byte [of "0xb7" "length ?m"] rlp_take_minimal [OF assms refl] by (simp add: rlp_encode_bytes_def word_less_nat_alt Let_def)
  qed (simp add: rlp_encode_bytes_def)
qed

lemma rlp_list_encode:
  assumes "length (concat items) < 2 ^ 64"
  shows "rlp_list (rlp_encode_list items @ rest) = Some (concat items, rest)"
proof -
  let ?n = "length (concat items)"
  let ?m = "u_to_be_minimal (of_nat ?n)"
  have n: "sum_list (map length items) = ?n" by (simp add: length_concat)
  show ?thesis
  proof (cases "?n < 56")
    case True
    then show ?thesis using header_byte [of "0xc0" ?n] unfolding rlp_encode_list_def n Let_def by (simp add: word_less_nat_alt)
  next
    case False
    then show ?thesis using minimal_size [OF assms] False header_byte [of "0xf7" "length ?m"] rlp_take_minimal [OF assms refl] unfolding rlp_encode_list_def n Let_def
      by (simp add: word_less_nat_alt)
  qed
qed


section \<open>EIP-1559 payloads\<close>

text \<open>A reader of \<open>n\<close> items in a row.\<close>

fun rlp_items :: "nat \<Rightarrow> bytes \<Rightarrow> (bytes list \<times> bytes) option" where
  "rlp_items 0 bs = Some ([], bs)"
| "rlp_items (Suc n) bs = Option.bind (rlp_item bs) (\<lambda>(x, rest). map_option (\<lambda>(xs, rest). (x # xs, rest)) (rlp_items n rest))"

lemma rlp_items_encode:
  "\<forall>x\<in>set xs. length x < 2 ^ 64 \<Longrightarrow> rlp_items (length xs) (concat (map rlp_encode_bytes xs) @ rest) = Some (xs, rest)"
  by (induction xs) (simp_all add: rlp_item_encode)

definition be_word :: "bytes \<Rightarrow> 'a::len word" where
  "be_word bs = of_nat (be_nat bs)"

lemma be_word_minimal [simp]: "be_word (u_to_be_minimal v) = v" "be_word (u_to_be_minimal (ucast (w :: u64))) = w"
  by (simp_all add: be_word_def unat_ucast_u128)

text \<open>The payload that is hashed and signed: eight string items and an empty access list.\<close>

definition read_eip1559 :: "bytes \<Rightarrow> eip1559_tx_params option" where
  "read_eip1559 bs = Option.bind (rlp_list bs) (\<lambda>(body, trailing).
     Option.bind (rlp_items 8 body) (\<lambda>(xs, rest).
       if trailing = [] \<and> rest = [0xc0] \<and> length (xs ! 5) = 20
       then Some \<lparr>tp_chain_id = be_word (xs ! 0), tp_nonce = be_word (xs ! 1), tp_max_priority_fee_per_gas = be_word (xs ! 2),
         tp_max_fee_per_gas = be_word (xs ! 3), tp_gas_limit = be_word (xs ! 4), tp_to = word_of_bytes (xs ! 5), tp_value = be_word (xs ! 6),
         tp_data = xs ! 7\<rparr> else None))"

definition tx_strings :: "eip1559_tx_params \<Rightarrow> bytes list" where
  "tx_strings p = [u_to_be_minimal (ucast (tp_chain_id p)), u_to_be_minimal (ucast (tp_nonce p)), u_to_be_minimal (tp_max_priority_fee_per_gas p),
     u_to_be_minimal (tp_max_fee_per_gas p), u_to_be_minimal (ucast (tp_gas_limit p)), word_bytes (tp_to p), u_to_be_minimal (tp_value p), tp_data p]"

lemma tx_items_strings: "tx_items p = map rlp_encode_bytes (tx_strings p) @ [[0xc0]]"
  by (simp add: tx_items_def tx_strings_def rlp_encode_u64_def rlp_encode_u128_def rlp_encode_list_empty_def)

lemma length_minimal_16: "length (u_to_be_minimal v) \<le> 16"
  using length_dropWhile_le [of "\<lambda>b. b = 0" "rev (word_bytes v)"] by (simp add: u_to_be_minimal_def)

lemma length_rlp_bytes: "length (rlp_encode_bytes bs) \<le> 17 + length bs"
  using length_minimal_16 [of "of_nat (length bs)"] by (simp add: rlp_encode_bytes_def Let_def)

lemma length_rlp_strings: "length (concat (map rlp_encode_bytes xs)) \<le> 17 * length xs + length (concat xs)"
proof (induction xs)
  case (Cons x xs)
  then show ?case using length_rlp_bytes [of x] by simp
qed simp

lemma length_tx_strings: "length (concat (tx_strings p)) \<le> 116 + length (tp_data p)"
  using length_minimal_16 [of "ucast (tp_chain_id p)"] length_minimal_16 [of "ucast (tp_nonce p)"] length_minimal_16 [of "tp_max_priority_fee_per_gas p"]
    length_minimal_16 [of "tp_max_fee_per_gas p"] length_minimal_16 [of "ucast (tp_gas_limit p)"] length_minimal_16 [of "tp_value p"]
  by (simp add: tx_strings_def)

lemma length_le_concat: "x \<in> set xs \<Longrightarrow> length x \<le> length (concat xs)"
  by (induction xs) auto

lemma read_eip1559_encode:
  assumes "length (tp_data p) < 2 ^ 63"
  shows "read_eip1559 (encode_eip1559_unsigned p) = Some p"
proof -
  have "length (concat (tx_items p)) < 2 ^ 64"
    using assms length_rlp_strings [of "tx_strings p"] length_tx_strings [of p] by (simp add: tx_items_strings) (simp add: tx_strings_def)
  note lst = rlp_list_encode [OF this, of "[]"]
  have "\<forall>x\<in>set (tx_strings p). length x < 2 ^ 64" using assms length_tx_strings [of p] by (auto dest!: length_le_concat)
  note items = rlp_items_encode [OF this, of "[0xc0]"]
  have "length (tx_strings p) = 8" by (simp add: tx_strings_def)
  with lst items show ?thesis
    by (simp add: read_eip1559_def encode_eip1559_unsigned_def tx_items_strings) (simp add: tx_strings_def word_of_bytes_word_bytes)
qed


section \<open>Hexadecimal text\<close>

text \<open>An instance of the codec, for witnesses.\<close>

definition hexval :: "char \<Rightarrow> nat option" where
  "hexval c = (let n = of_char c :: nat in if 48 \<le> n \<and> n \<le> 57 then Some (n - 48) else if 97 \<le> n \<and> n \<le> 102 then Some (n - 87)
     else if 65 \<le> n \<and> n \<le> 70 then Some (n - 55) else None)"

definition hexdigit :: "nat \<Rightarrow> char" where
  "hexdigit n = char_of (if n < 10 then 48 + n else 87 + n)"

definition demo_hex_enc :: "bytes \<Rightarrow> string" where
  "demo_hex_enc bs = concat (map (\<lambda>b. [hexdigit (unat b div 16), hexdigit (unat b mod 16)]) bs)"

fun demo_hex_dec :: "string \<Rightarrow> bytes option" where
  "demo_hex_dec [] = Some []"
| "demo_hex_dec [c] = None"
| "demo_hex_dec (a # b # s) = (case (hexval a, hexval b, demo_hex_dec s) of
     (Some x, Some y, Some r) \<Rightarrow> Some (of_nat (16 * x + y) # r) | _ \<Rightarrow> None)"

lemma hexval_hexdigit: "n < 16 \<Longrightarrow> hexval (hexdigit n) = Some n"
  by (auto simp: hexval_def hexdigit_def)

definition demo_hex :: hex_lib where
  "demo_hex = \<lparr>hex_enc = demo_hex_enc, hex_dec = demo_hex_dec\<rparr>"

lemma demo_hex_laws: "hex_laws demo_hex"
proof -
  have lt: "unat b div 16 < 16" "unat b mod 16 < 16" for b :: u8 using unsigned_less [of b, where ?'a = nat] by auto
  have "demo_hex_dec (demo_hex_enc bs) = Some bs" for bs
  proof (induction bs)
    case (Cons b bs)
    then show ?case using lt [of b] by (simp add: demo_hex_enc_def hexval_hexdigit)
  qed (simp add: demo_hex_enc_def)
  moreover have "length (demo_hex_enc bs) = 2 * length bs" for bs by (induction bs) (simp_all add: demo_hex_enc_def)
  moreover have "demo_hex_dec s = Some bs \<Longrightarrow> length s = 2 * length bs" for s bs
    by (induction s arbitrary: bs rule: demo_hex_dec.induct) (auto split: option.splits)
  ultimately show ?thesis by (simp add: hex_laws_def demo_hex_def)
qed

section \<open>Properties\<close>

text \<open>
  C22: The payload of an EIP-1559 transaction says exactly what was asked for. A reader of RLP gets
  every field of the parameters from the bytes that are hashed and signed, so no two transactions
  share a payload; the data may be up to 2^63 bytes long.
\<close>

theorem eip1559_payload_roundtrip:
  assumes "length (tp_data p) < 2 ^ 63"
  shows "read_eip1559 (encode_eip1559_unsigned p) = Some p
    \<and> (length (tp_data q) < 2 ^ 63 \<longrightarrow> encode_eip1559_unsigned q = encode_eip1559_unsigned p \<longrightarrow> q = p)"
  using read_eip1559_encode [OF assms] read_eip1559_encode [of q] by auto

lemma eip1559_payload_roundtrip_witness:
  "read_eip1559 (encode_eip1559_unsigned \<lparr>tp_chain_id = 1, tp_nonce = 0, tp_max_priority_fee_per_gas = 300, tp_max_fee_per_gas = 0, tp_gas_limit = 21000,
       tp_to = 5, tp_value = 2 ^ 100, tp_data = replicate 60 7\<rparr>)
   = Some \<lparr>tp_chain_id = 1, tp_nonce = 0, tp_max_priority_fee_per_gas = 300, tp_max_fee_per_gas = 0, tp_gas_limit = 21000,
       tp_to = 5, tp_value = 2 ^ 100, tp_data = replicate 60 7\<rparr>"
  by (rule eip1559_payload_roundtrip [THEN conjunct1]) simp

text \<open>
  The vault reads from the contract what the contract holds. The reader of \<open>ascs(bytes32)\<close>
  recovers every field from the ABI encoding of a channel record, and reports anything shorter than
  its eight slots as an error.
\<close>

theorem asc_record_roundtrip:
  assumes "hex_laws X"
  shows "decode_asc_state X (hex_text X (abi_asc st @ trailing)) = Some st \<and> (length bs < 256 \<longrightarrow> decode_asc_state X (hex_text X bs) = None)"
  using assms decode_abi_asc [of st trailing] by (simp add: decode_asc_state_def hex_laws_def decode_asc_bytes_def [of bs])

lemma asc_record_roundtrip_witness:
  "decode_asc_state demo_hex (hex_text demo_hex (abi_asc \<lparr>sc_client = 32, sc_provider = 16, sc_balance_c = 3000, sc_balance_s = 2000, sc_version = 2,
       sc_status = 1, sc_created_at = 9, sc_total_deposit = 5000\<rparr> @ []))
     = Some \<lparr>sc_client = 32, sc_provider = 16, sc_balance_c = 3000, sc_balance_s = 2000, sc_version = 2, sc_status = 1, sc_created_at = 9,
         sc_total_deposit = 5000\<rparr>
   \<and> decode_asc_state demo_hex (hex_text demo_hex [0]) = None"
  using asc_record_roundtrip [OF demo_hex_laws, where bs = "[0]" and trailing = "[]"] by simp

end
