(* ===== verification/Secp_Adaptor.thy ===== *)
theory Secp_Adaptor
  imports Evm_Chain
begin

text \<open>
  Adaptor signatures over secp256k1 (\<open>shared/src/adaptor_sig_secp.rs\<close>) and the encryption of results
  under the adaptor secret. The curve and AES-GCM are library code: the fields of a record that the
  definitions take as argument. A compressed point is 33 bytes with the parity first; scalars and
  coordinates are 32 bytes in big-endian order. The signing loops draw scalars from a stream of
  random numbers: a list that stands for the draws until the first success.
\<close>

section \<open>Library\<close>

record ('p, 's) secp =
  sp_decompress :: "bytes \<Rightarrow> 'p option"
  sp_compress :: "'p \<Rightarrow> bytes"
  sp_uncompressed :: "'p \<Rightarrow> bytes"
  sp_add :: "'p \<Rightarrow> 'p \<Rightarrow> 'p"
  sp_mul :: "'p \<Rightarrow> 's \<Rightarrow> 'p"
  sp_generator :: 'p
  sp_identity :: 'p
  sp_sadd :: "'s \<Rightarrow> 's \<Rightarrow> 's"
  sp_ssub :: "'s \<Rightarrow> 's \<Rightarrow> 's"
  sp_smul :: "'s \<Rightarrow> 's \<Rightarrow> 's"
  sp_neg :: "'s \<Rightarrow> 's"
  sp_zero :: 's
  sp_from_repr :: "b32 \<Rightarrow> 's option"
  sp_to_bytes :: "'s \<Rightarrow> b32"
  sp_reduce :: "b32 \<Rightarrow> 's"
  sp_order :: nat
  sp_keccak :: "bytes \<Rightarrow> b32"
  sp_aes_encrypt :: "b32 \<Rightarrow> bytes \<Rightarrow> bytes \<Rightarrow> bytes"
  sp_aes_decrypt :: "b32 \<Rightarrow> bytes \<Rightarrow> bytes \<Rightarrow> bytes option"

text \<open>
  What the code relies on: encodings of points other than the identity and of scalars round-trip,
  points form a commutative group with cancellation, scalars an additive group, multiples of the
  generator add and compose, and decryption inverts encryption with its 16-byte tag.
\<close>

definition secp_laws :: "('p, 's) secp \<Rightarrow> bool" where
  "secp_laws C \<longleftrightarrow>
     (\<forall>p. p \<noteq> sp_identity C \<longrightarrow> sp_decompress C (sp_compress C p) = Some p \<and> length (sp_compress C p) = 33
          \<and> sp_compress C p ! 0 \<in> {2, 3})
   \<and> (\<forall>b p. sp_decompress C b = Some p \<longrightarrow> p \<noteq> sp_identity C)
   \<and> (\<forall>s. sp_from_repr C (sp_to_bytes C s) = Some s)
   \<and> (\<forall>b s. sp_from_repr C b = Some s \<longrightarrow> sp_to_bytes C s = b)
   \<and> (\<forall>p q r. sp_add C (sp_add C p q) r = sp_add C p (sp_add C q r))
   \<and> (\<forall>p q. sp_add C p q = sp_add C q p)
   \<and> (\<forall>a b. sp_ssub C (sp_sadd C a b) a = b)
   \<and> (\<forall>a b. sp_mul C (sp_generator C) (sp_sadd C a b) = sp_add C (sp_mul C (sp_generator C) a) (sp_mul C (sp_generator C) b))
   \<and> (\<forall>a b. sp_mul C (sp_generator C) (sp_smul C a b) = sp_mul C (sp_mul C (sp_generator C) b) a)
   \<and> (\<forall>a. a \<noteq> sp_zero C \<longrightarrow> sp_mul C (sp_generator C) a \<noteq> sp_identity C)
   \<and> (\<forall>k iv m. 16 \<le> length (sp_aes_encrypt C k iv m) \<and> sp_aes_decrypt C k iv (sp_aes_encrypt C k iv m) = Some m)"

section \<open>Data\<close>

record secp_pre_signature =
  ps_r_prime :: bytes
  ps_s_prime :: b32

record full_signature =
  fl_r :: bytes
  fl_s :: b32

record ('p, 's) normalized_keypair =
  nk_secret :: 's
  nk_secret_bytes :: b32
  nk_public :: 'p
  nk_px_bytes :: b32
  nk_py_bytes :: b32
  nk_iterations :: nat

record on_chain_proof =
  oc_px :: b32
  oc_e :: b32
  oc_s :: b32

datatype adaptor_error = ScalarOutOfRange | PublicKeyConstraint | InvalidPoint | KeypairExhausted | InvalidSignature

definition PARITY_EVEN_Y :: u8 where
  "PARITY_EVEN_Y = 27"

section \<open>Helpers\<close>

text \<open>The x coordinate and whether y is odd.\<close>

definition affine_xy :: "('p, 's) secp \<Rightarrow> 'p \<Rightarrow> b32 \<times> bool" where
  "affine_xy C p = (let b = sp_compress C p in (word_of_bytes (drop 1 b), b ! 0 = 3))"

definition affine_y_be_bytes :: "('p, 's) secp \<Rightarrow> 'p \<Rightarrow> b32" where
  "affine_y_be_bytes C p = word_of_bytes (drop 32 (sp_uncompressed C p))"

definition point_to_eth_address :: "('p, 's) secp \<Rightarrow> 'p \<Rightarrow> address" where
  "point_to_eth_address C p = word_of_bytes (drop 12 (word_bytes (sp_keccak C (sp_uncompressed C p))))"

text \<open>A 32-byte array as a big-endian number.\<close>

definition be_value :: "b32 \<Rightarrow> nat" where
  "be_value b = le_nat (rev (word_bytes b))"

definition px_lt_half_q :: "('p, 's) secp \<Rightarrow> b32 \<Rightarrow> bool" where
  "px_lt_half_q C px \<longleftrightarrow> be_value px < sp_order C div 2 + 1"

text \<open>Longer inputs lose their front, shorter ones are padded there.\<close>

definition scalar_from_bytes_mod_order :: "('p, 's) secp \<Rightarrow> bytes \<Rightarrow> 's" where
  "scalar_from_bytes_mod_order C bs =
     sp_reduce C (word_of_bytes (replicate (32 - length bs) 0 @ drop (length bs - 32) bs))"

definition challenge :: "('p, 's) secp \<Rightarrow> 'p \<Rightarrow> b32 \<Rightarrow> b32 \<Rightarrow> 's option" where
  "challenge C r px message =
     (let e = scalar_from_bytes_mod_order C (word_bytes (sp_keccak C
            (word_bytes (point_to_eth_address C r) @ [PARITY_EVEN_Y] @ word_bytes px @ word_bytes message)))
      in if e = sp_zero C then None else Some e)"

section \<open>Key derivation\<close>

definition normalize_candidate :: "('p, 's) secp \<Rightarrow> 's \<Rightarrow> nat \<Rightarrow> ('p, 's) normalized_keypair option" where
  "normalize_candidate C candidate iteration =
     (if candidate = sp_zero C then None
      else
        let pub_point = sp_mul C (sp_generator C) candidate;
            secret = (if snd (affine_xy C pub_point) then sp_neg C candidate else candidate);
            public = (if snd (affine_xy C pub_point) then sp_mul C (sp_generator C) secret else pub_point);
            (px, py_odd) = affine_xy C public
        in if \<not> py_odd \<and> px_lt_half_q C px
           then Some \<lparr>nk_secret = secret, nk_secret_bytes = sp_to_bytes C secret, nk_public = public, nk_px_bytes = px,
                  nk_py_bytes = affine_y_be_bytes C public, nk_iterations = iteration\<rparr>
           else None)"

fun derive_from :: "('p, 's) secp \<Rightarrow> bytes \<Rightarrow> nat \<Rightarrow> nat \<Rightarrow> ('p, 's) normalized_keypair option" where
  "derive_from C bs iteration 0 = None"
| "derive_from C bs iteration (Suc n) =
     (case normalize_candidate C (scalar_from_bytes_mod_order C bs) iteration of
        Some kp \<Rightarrow> Some kp
      | None \<Rightarrow> derive_from C (word_bytes (sp_keccak C bs)) (Suc iteration) n)"

definition derive_normalized_keypair :: "('p, 's) secp \<Rightarrow> bytes \<Rightarrow> (adaptor_error, ('p, 's) normalized_keypair) reply" where
  "derive_normalized_keypair C seed = rsome (derive_from C seed 0 256) KeypairExhausted Reply"

section \<open>Signing\<close>

text \<open>The first draw that is not zero.\<close>

fun random_witness :: "('p, 's) secp \<Rightarrow> b32 list \<Rightarrow> ('s \<times> 'p) option" where
  "random_witness C [] = None"
| "random_witness C (b # bs) =
     (let candidate = scalar_from_bytes_mod_order C (word_bytes b)
      in if candidate \<noteq> sp_zero C then Some (candidate, sp_mul C (sp_generator C) candidate) else random_witness C bs)"

definition p_sign_with :: "('p, 's) secp \<Rightarrow> ('p, 's) normalized_keypair \<Rightarrow> b32 \<Rightarrow> 'p \<Rightarrow> 's \<Rightarrow> secp_pre_signature option" where
  "p_sign_with C keypair message big_t r_prime_scalar =
     (let r_prime = sp_mul C (sp_generator C) r_prime_scalar; r = sp_add C r_prime big_t
      in if r_prime_scalar = sp_zero C \<or> r = sp_identity C then None
         else Option.bind (challenge C r (nk_px_bytes keypair) message) (\<lambda>e.
           let s_prime = sp_sadd C r_prime_scalar (sp_smul C e (nk_secret keypair))
           in if s_prime = sp_zero C then None
              else Some \<lparr>ps_r_prime = sp_compress C r_prime, ps_s_prime = sp_to_bytes C s_prime\<rparr>))"

fun p_sign :: "('p, 's) secp \<Rightarrow> ('p, 's) normalized_keypair \<Rightarrow> b32 \<Rightarrow> 'p \<Rightarrow> b32 list \<Rightarrow> secp_pre_signature option" where
  "p_sign C keypair message big_t [] = None"
| "p_sign C keypair message big_t (b # bs) =
     (case p_sign_with C keypair message big_t (scalar_from_bytes_mod_order C (word_bytes b)) of
        Some pre \<Rightarrow> Some pre | None \<Rightarrow> p_sign C keypair message big_t bs)"

definition p_verify :: "('p, 's) secp \<Rightarrow> 'p \<Rightarrow> b32 \<Rightarrow> 'p \<Rightarrow> secp_pre_signature \<Rightarrow> bool" where
  "p_verify C public message big_t pre =
     (let (px, py_odd) = affine_xy C public
      in if py_odd \<or> \<not> px_lt_half_q C px then False
         else (case sp_from_repr C (ps_s_prime pre) of None \<Rightarrow> False
           | Some s_prime \<Rightarrow>
               if s_prime = sp_zero C then False
               else (case sp_decompress C (ps_r_prime pre) of None \<Rightarrow> False
                 | Some r_prime \<Rightarrow>
                     let r = sp_add C r_prime big_t
                     in if r = sp_identity C then False
                        else (case challenge C r px message of None \<Rightarrow> False
                          | Some e \<Rightarrow> sp_mul C (sp_generator C) s_prime = sp_add C r_prime (sp_mul C public e)))))"

text \<open>The identity has no 33-byte encoding: compressing it panics.\<close>

definition secp_adapt :: "('p, 's) secp \<Rightarrow> secp_pre_signature \<Rightarrow> 's \<Rightarrow> (adaptor_error, full_signature) reply" where
  "secp_adapt C pre t =
     rsome (sp_from_repr C (ps_s_prime pre)) InvalidSignature (\<lambda>s_prime.
     rsome (sp_decompress C (ps_r_prime pre)) InvalidPoint (\<lambda>r_prime.
     let r = sp_add C r_prime (sp_mul C (sp_generator C) t)
     in if r = sp_identity C then Abort
        else Reply \<lparr>fl_r = sp_compress C r, fl_s = sp_to_bytes C (sp_sadd C s_prime t)\<rparr>))"

definition secp_extract :: "('p, 's) secp \<Rightarrow> secp_pre_signature \<Rightarrow> full_signature \<Rightarrow> (adaptor_error, 's) reply" where
  "secp_extract C pre full =
     rsome (sp_from_repr C (ps_s_prime pre)) InvalidSignature (\<lambda>s_prime.
     rsome (sp_from_repr C (fl_s full)) InvalidSignature (\<lambda>s. Reply (sp_ssub C s s_prime)))"

definition verify_full :: "('p, 's) secp \<Rightarrow> 'p \<Rightarrow> b32 \<Rightarrow> full_signature \<Rightarrow> bool" where
  "verify_full C public message full =
     (let (px, py_odd) = affine_xy C public
      in if py_odd \<or> \<not> px_lt_half_q C px then False
         else (case sp_from_repr C (fl_s full) of None \<Rightarrow> False
           | Some s \<Rightarrow>
               if s = sp_zero C then False
               else (case sp_decompress C (fl_r full) of None \<Rightarrow> False
                 | Some r \<Rightarrow>
                     (case challenge C r px message of None \<Rightarrow> False
                      | Some e \<Rightarrow> sp_mul C (sp_generator C) s = sp_add C r (sp_mul C public e)))))"

definition build_onchain_proof :: "('p, 's) secp \<Rightarrow> 'p \<Rightarrow> b32 \<Rightarrow> full_signature \<Rightarrow> (adaptor_error, on_chain_proof) reply" where
  "build_onchain_proof C public message full =
     (let (px, py_odd) = affine_xy C public
      in rguard (\<not> (py_odd \<or> \<not> px_lt_half_q C px)) PublicKeyConstraint
        (rsome (sp_decompress C (fl_r full)) InvalidPoint (\<lambda>r.
         rsome (challenge C r px message) InvalidSignature (\<lambda>e.
           Reply \<lparr>oc_px = px, oc_e = sp_to_bytes C e, oc_s = fl_s full\<rparr>))))"

section \<open>Encrypted results\<close>

record encrypted_result =
  er_iv :: bytes
  er_ciphertext :: bytes
  er_tag :: bytes

definition derive_sym_key :: "('p, 's) secp \<Rightarrow> 's \<Rightarrow> b32" where
  "derive_sym_key C t = sp_keccak C (str_bytes ''a402-atomic-result-v1'' @ word_bytes (sp_to_bytes C t))"

definition encrypt_result :: "('p, 's) secp \<Rightarrow> bytes \<Rightarrow> bytes \<Rightarrow> 's \<Rightarrow> encrypted_result" where
  "encrypt_result C iv plaintext t =
     (let combined = sp_aes_encrypt C (derive_sym_key C t) iv plaintext; tag_start = length combined - 16
      in \<lparr>er_iv = iv, er_ciphertext = take tag_start combined, er_tag = drop tag_start combined\<rparr>)"

definition decrypt_result :: "('p, 's) secp \<Rightarrow> encrypted_result \<Rightarrow> 's \<Rightarrow> bytes option" where
  "decrypt_result C encrypted t =
     sp_aes_decrypt C (derive_sym_key C t) (er_iv encrypted) (er_ciphertext encrypted @ er_tag encrypted)"

section \<open>Lemmas\<close>

lemma secp_decompress: "secp_laws C \<Longrightarrow> p \<noteq> sp_identity C \<Longrightarrow> sp_decompress C (sp_compress C p) = Some p"
  and secp_decompressed: "secp_laws C \<Longrightarrow> sp_decompress C b = Some p \<Longrightarrow> p \<noteq> sp_identity C"
  and secp_length: "secp_laws C \<Longrightarrow> p \<noteq> sp_identity C \<Longrightarrow> length (sp_compress C p) = 33"
  and secp_parity: "secp_laws C \<Longrightarrow> p \<noteq> sp_identity C \<Longrightarrow> sp_compress C p ! 0 \<in> {2, 3}"
  and secp_from_repr: "secp_laws C \<Longrightarrow> sp_from_repr C (sp_to_bytes C s) = Some s"
  and secp_assoc: "secp_laws C \<Longrightarrow> sp_add C (sp_add C p q) r = sp_add C p (sp_add C q r)"
  and secp_comm: "secp_laws C \<Longrightarrow> sp_add C p q = sp_add C q p"
  and secp_cancel: "secp_laws C \<Longrightarrow> sp_ssub C (sp_sadd C a c) a = c"
  and secp_mul_add: "secp_laws C \<Longrightarrow>
    sp_mul C (sp_generator C) (sp_sadd C a c) = sp_add C (sp_mul C (sp_generator C) a) (sp_mul C (sp_generator C) c)"
  and secp_mul_mul: "secp_laws C \<Longrightarrow> sp_mul C (sp_generator C) (sp_smul C a c) = sp_mul C (sp_mul C (sp_generator C) c) a"
  and secp_mul_nonzero: "secp_laws C \<Longrightarrow> a \<noteq> sp_zero C \<Longrightarrow> sp_mul C (sp_generator C) a \<noteq> sp_identity C"
  and secp_aes: "secp_laws C \<Longrightarrow> 16 \<le> length (sp_aes_encrypt C k iv m)" "secp_laws C \<Longrightarrow> sp_aes_decrypt C k iv (sp_aes_encrypt C k iv m) = Some m"
  by (auto simp: secp_laws_def)

text \<open>A key pair as \<open>derive_normalized_keypair\<close> returns it.\<close>

definition keypair_ok :: "('p, 's) secp \<Rightarrow> ('p, 's) normalized_keypair \<Rightarrow> bool" where
  "keypair_ok C kp \<longleftrightarrow> nk_public kp = sp_mul C (sp_generator C) (nk_secret kp) \<and> affine_xy C (nk_public kp) = (nk_px_bytes kp, False)
     \<and> px_lt_half_q C (nk_px_bytes kp) \<and> nk_secret_bytes kp = sp_to_bytes C (nk_secret kp)"

lemma normalize_candidate_ok: "normalize_candidate C c i = Some kp \<Longrightarrow> keypair_ok C kp"
  by (auto simp: normalize_candidate_def keypair_ok_def Let_def split: if_splits prod.splits)

lemma derive_from_ok: "derive_from C bs i n = Some kp \<Longrightarrow> keypair_ok C kp"
  by (induction C bs i n rule: derive_from.induct) (auto dest: normalize_candidate_ok split: option.splits)

lemma derived_keypair_ok: "derive_normalized_keypair C seed = Reply kp \<Longrightarrow> keypair_ok C kp"
  by (auto simp: derive_normalized_keypair_def reply_iffs dest: derive_from_ok)

lemma p_sign_drawn: "p_sign C kp m T draws = Some pre \<Longrightarrow> \<exists>k. p_sign_with C kp m T k = Some pre"
  by (induction C kp m T draws rule: p_sign.induct) (auto split: option.splits)

lemma p_sign_verifies:
  assumes "secp_laws C" "keypair_ok C kp" "p_sign C kp m T draws = Some pre"
  shows "p_verify C (nk_public kp) m T pre"
proof -
  obtain k where "p_sign_with C kp m T k = Some pre" using p_sign_drawn [OF assms(3)] by blast
  then show ?thesis using assms(1,2)
    by (auto simp: p_sign_with_def p_verify_def keypair_ok_def Let_def secp_from_repr secp_decompress secp_mul_nonzero secp_mul_add secp_mul_mul
        bind_eq_Some_conv split: if_splits)
qed

lemma adapted_point:
  assumes "secp_laws C" "sp_mul C (sp_generator C) s' = sp_add C r' (sp_mul C pk e)"
  shows "sp_mul C (sp_generator C) (sp_sadd C s' t) = sp_add C (sp_add C r' (sp_mul C (sp_generator C) t)) (sp_mul C pk e)"
  by (simp add: secp_mul_add [OF assms(1)] assms(2) secp_assoc [OF assms(1)] secp_comm [OF assms(1), of "sp_mul C pk e"])

lemma p_verifyE:
  assumes "p_verify C pk m T pre"
  obtains s' r' e where "sp_from_repr C (ps_s_prime pre) = Some s'" "sp_decompress C (ps_r_prime pre) = Some r'"
    "sp_add C r' T \<noteq> sp_identity C" "challenge C (sp_add C r' T) (fst (affine_xy C pk)) m = Some e"
    "sp_mul C (sp_generator C) s' = sp_add C r' (sp_mul C pk e)" "\<not> snd (affine_xy C pk)" "px_lt_half_q C (fst (affine_xy C pk))"
  using assms by (auto simp: p_verify_def Let_def split: prod.splits option.splits if_splits)

text \<open>The sum is the scalar of the completed signature; it is zero with negligible probability only.\<close>

definition completes :: "('p, 's) secp \<Rightarrow> secp_pre_signature \<Rightarrow> 's \<Rightarrow> bool" where
  "completes C pre t \<longleftrightarrow> (\<forall>s'. sp_from_repr C (ps_s_prime pre) = Some s' \<longrightarrow> sp_sadd C s' t \<noteq> sp_zero C)"

lemma verified_adapts:
  assumes "secp_laws C" "p_verify C pk m (sp_mul C (sp_generator C) t) pre"
  obtains full e where "secp_adapt C pre t = Reply full" "secp_extract C pre full = Reply t"
    "completes C pre t \<Longrightarrow> verify_full C pk m full"
    "build_onchain_proof C pk m full = Reply \<lparr>oc_px = fst (affine_xy C pk), oc_e = sp_to_bytes C e, oc_s = fl_s full\<rparr>"
proof -
  from assms(2) obtain s' r' e where p: "sp_from_repr C (ps_s_prime pre) = Some s'" "sp_decompress C (ps_r_prime pre) = Some r'"
    "sp_add C r' (sp_mul C (sp_generator C) t) \<noteq> sp_identity C"
    "challenge C (sp_add C r' (sp_mul C (sp_generator C) t)) (fst (affine_xy C pk)) m = Some e"
    "sp_mul C (sp_generator C) s' = sp_add C r' (sp_mul C pk e)" "\<not> snd (affine_xy C pk)" "px_lt_half_q C (fst (affine_xy C pk))"
    by (rule p_verifyE)
  let ?full = "\<lparr>fl_r = sp_compress C (sp_add C r' (sp_mul C (sp_generator C) t)), fl_s = sp_to_bytes C (sp_sadd C s' t)\<rparr>"
  have "secp_adapt C pre t = Reply ?full" using p by (simp add: secp_adapt_def)
  moreover have "secp_extract C pre ?full = Reply t" using p assms(1) by (simp add: secp_extract_def secp_from_repr secp_cancel)
  moreover have "completes C pre t \<Longrightarrow> verify_full C pk m ?full"
    using p assms(1) adapted_point [OF assms(1) p(5)]
    by (auto simp: verify_full_def secp_from_repr secp_decompress completes_def split: prod.splits)
  moreover have "build_onchain_proof C pk m ?full = Reply \<lparr>oc_px = fst (affine_xy C pk), oc_e = sp_to_bytes C e, oc_s = fl_s ?full\<rparr>"
    using p assms(1) by (auto simp: build_onchain_proof_def secp_decompress split: prod.splits)
  ultimately show thesis using that by blast
qed

lemma decrypt_encrypt_result: "secp_laws C \<Longrightarrow> decrypt_result C (encrypt_result C iv m t) t = Some m"
  by (simp add: decrypt_result_def encrypt_result_def Let_def secp_aes)

end
