(* ===== verification/Evm_Vault.thy ===== *)
theory Evm_Vault
  imports Evm_Codec Secp_Adaptor
begin

text \<open>
  The vault's side of Ethereum channels: the store of channels (\<open>shared/src/evm_channel_store.rs\<close>), the
  routes that act on the chain and sign states (\<open>enclave/src/handlers_evm.rs\<close>) and the routes a client
  uses to buy a result from a service provider (\<open>enclave/src/handlers_client.rs\<close>). Environment
  variables, random ids and the answers of the service provider are arguments. A handler reads its
  channel, talks to others and changes the channel at the end: the parts before and after are
  definitions of their own, so overlapping requests are sequences of such parts.
\<close>

record ('p, 's) evm_env =
  ev_secp :: "('p, 's) secp"
  ev_hex :: hex_lib
  ev_ecdsa :: ecdsa_lib
  ev_utf8 :: "bytes \<Rightarrow> string option"

definition ev_keccak :: "('p, 's) evm_env \<Rightarrow> bytes \<Rightarrow> b32" where
  "ev_keccak V = sp_keccak (ev_secp V)"

definition RECEIPT_MAX_POLLS :: nat where
  "RECEIPT_MAX_POLLS = 60"

section \<open>Channel store\<close>

record 's evm_channel_record =
  xr_buyer :: address
  xr_seller :: address
  xr_total_deposit :: u128
  xr_balance_c :: u128
  xr_balance_s :: u128
  xr_version :: u64
  xr_last_sig_c :: "bytes option"
  xr_last_sig_s :: "bytes option"
  xr_last_sig_hat :: "secp_pre_signature option"
  xr_last_t :: "'s option"
  xr_last_state_hash :: "bytes32 option"
  xr_served_requests :: u32
  xr_force_closed :: bool

definition evm_channel_record_new :: "address \<Rightarrow> address \<Rightarrow> u128 \<Rightarrow> 's evm_channel_record" where
  "evm_channel_record_new buyer seller total_deposit =
     \<lparr>xr_buyer = buyer, xr_seller = seller, xr_total_deposit = total_deposit, xr_balance_c = total_deposit, xr_balance_s = 0, xr_version = 0,
      xr_last_sig_c = None, xr_last_sig_s = None, xr_last_sig_hat = None, xr_last_t = None, xr_last_state_hash = None,
      xr_served_requests = 0, xr_force_closed = False\<rparr>"

record 's pending_request =
  pq_cid :: bytes32
  pq_new_version :: u64
  pq_new_balance_c :: u128
  pq_new_balance_s :: u128
  pq_t :: 's
  pq_sig_hat :: secp_pre_signature
  pq_enc_res :: encrypted_result
  pq_asc_state_hash :: bytes32

record 's evm_channel_store =
  xs_channels :: "(bytes32, 's evm_channel_record) dashmap"
  xs_pending :: "(bytes32 \<times> u64, 's pending_request) dashmap"

definition evm_channel_store_new :: "'s evm_channel_store" where
  "evm_channel_store_new = \<lparr>xs_channels = [], xs_pending = []\<rparr>"

definition insert_channel :: "bytes32 \<Rightarrow> 's evm_channel_record \<Rightarrow> 's evm_channel_store \<Rightarrow> 's evm_channel_store" where
  "insert_channel cid r st = st\<lparr>xs_channels := dm_insert cid r (xs_channels st)\<rparr>"

definition get_channel :: "bytes32 \<Rightarrow> 's evm_channel_store \<Rightarrow> 's evm_channel_record option" where
  "get_channel cid st = dm_get (xs_channels st) cid"

definition mutate_channel ::
    "bytes32 \<Rightarrow> ('s evm_channel_record \<Rightarrow> 's evm_channel_record) \<Rightarrow> 's evm_channel_store \<Rightarrow> 's evm_channel_store" where
  "mutate_channel cid f st = (case dm_get (xs_channels st) cid of None \<Rightarrow> st
     | Some r \<Rightarrow> st\<lparr>xs_channels := dm_insert cid (f r) (xs_channels st)\<rparr>)"

definition park_pending :: "'s pending_request \<Rightarrow> 's evm_channel_store \<Rightarrow> 's evm_channel_store" where
  "park_pending q st = st\<lparr>xs_pending := dm_insert (pq_cid q, pq_new_version q) q (xs_pending st)\<rparr>"

definition take_pending :: "bytes32 \<Rightarrow> u64 \<Rightarrow> 's evm_channel_store \<Rightarrow> ('s pending_request \<times> 's evm_channel_store) option" where
  "take_pending cid version st = map_option (\<lambda>q. (q, st\<lparr>xs_pending := dm_remove (cid, version) (xs_pending st)\<rparr>))
     (dm_get (xs_pending st) (cid, version))"

section \<open>Vault state\<close>

record 'p pending_exchange =
  pe_new_balance_c :: u128
  pe_new_balance_s :: u128
  pe_new_version :: u64
  pe_asc_state_hash :: bytes32
  pe_pre_sig :: secp_pre_signature
  pe_big_t :: 'p
  pe_enc_res :: encrypted_result

record 'p client_channel_state =
  cc_sp_base_url :: string
  cc_buyer :: address
  cc_seller :: address
  cc_seller_pubkey :: 'p
  cc_total_deposit :: u128
  cc_balance_c :: u128
  cc_balance_s :: u128
  cc_version :: u64
  cc_pending :: "'p pending_exchange option"
  cc_last_sig_s :: "bytes option"
  cc_last_sig_c :: "bytes option"
  cc_sp_vault_uid :: string

record ('p, 's) evm_vault =
  vs_store :: "'s evm_channel_store"
  vs_clients :: "(bytes32, 'p client_channel_state) dashmap"

datatype evm_handler_error = NotConfigured | EvmBadRequest string | EvmChain evm_error

datatype client_handler_error = BadRequest string | NotFound string | Conflict string | ChainError string | UpstreamSp string | InternalError string

section \<open>Configuration\<close>

text \<open>\<open>A402_EVM_ASC_MANAGER\<close>, \<open>A402_EVM_ASC_VAULT_EOA\<close>, \<open>A402_EVM_VAULT_PRIV\<close>.\<close>

record evm_config =
  cf_manager :: "string option"
  cf_vault_eoa :: "string option"
  cf_vault_priv :: "string option"

definition try_load_evm_context :: "('p, 's) evm_env \<Rightarrow> evm_node \<Rightarrow> evm_config \<Rightarrow> (string, asc_manager_client option) reply" where
  "try_load_evm_context V N cf =
     (case cf_manager cf of None \<Rightarrow> Reply None
      | Some manager_hex \<Rightarrow>
          if manager_hex = [] then Reply None
          else
            rsome (cf_vault_eoa cf) ''A402_EVM_ASC_VAULT_EOA must be set when A402_EVM_ASC_MANAGER is'' (\<lambda>vault_hex.
            rsome (address_parse (ev_hex V) manager_hex) ''A402_EVM_ASC_MANAGER'' (\<lambda>manager.
            rsome (address_parse (ev_hex V) vault_hex) ''A402_EVM_ASC_VAULT_EOA'' (\<lambda>vault.
            case cf_vault_priv cf of None \<Rightarrow> Reply (Some (asc_client_new manager vault))
            | Some priv_hex \<Rightarrow>
                if priv_hex = [] then Reply (Some (asc_client_new manager vault))
                else
                  rsome (en_chain_id N) ''eth_chainId probe failed'' (\<lambda>chain_id.
                  rsome (evm_signer_from_hex (ev_keccak V) (ev_ecdsa V) (ev_hex V) priv_hex chain_id) ''A402_EVM_VAULT_PRIV'' (\<lambda>signer.
                  rguard (es_address signer = vault) ''A402_EVM_VAULT_PRIV does not derive A402_EVM_ASC_VAULT_EOA''
                    (Reply (Some (asc_client_with_signer manager signer)))))))))"

text \<open>An error of one kind as an error of another.\<close>

definition rmap :: "('e \<Rightarrow> 'f) \<Rightarrow> ('e, 'a) reply \<Rightarrow> ('f, 'a) reply" where
  "rmap f r = (case r of Reply x \<Rightarrow> Reply x | Fail e \<Rightarrow> Fail (f e) | Abort \<Rightarrow> Abort)"

lemma rmap_Reply [simp]: "rmap f r = Reply x \<longleftrightarrow> r = Reply x"
  by (cases r) (auto simp: rmap_def)

lemma rmap_runs [simp]: "rmap f (Reply x) = Reply x" "rmap f (Fail e) = Fail (f e)"
  by (simp_all add: rmap_def)

definition evm_context :: "('p, 's) evm_env \<Rightarrow> evm_node \<Rightarrow> evm_config \<Rightarrow> (evm_handler_error, asc_manager_client) reply" where
  "evm_context V N cf = rbind (rmap EvmBadRequest (try_load_evm_context V N cf)) (\<lambda>asc. rsome asc NotConfigured Reply)"

definition client_context :: "('p, 's) evm_env \<Rightarrow> evm_node \<Rightarrow> evm_config \<Rightarrow> (client_handler_error, asc_manager_client) reply" where
  "client_context V N cf = rbind (rmap BadRequest (try_load_evm_context V N cf)) (\<lambda>asc. rsome asc (BadRequest ''EVM context not configured'') Reply)"

text \<open>A reply with the state it leaves; an error leaves the state alone.\<close>

definition keep_on_error :: "'v \<Rightarrow> ('e, 'a \<times> 'v) reply \<Rightarrow> ('e, 'a) reply \<times> 'v" where
  "keep_on_error v r = (case r of Reply (x, v1) \<Rightarrow> (Reply x, v1) | Fail e \<Rightarrow> (Fail e, v) | Abort \<Rightarrow> (Abort, v))"

section \<open>Routes on the chain\<close>

record open_evm_channel_request =
  oe_buyer :: string
  oe_seller :: string
  oe_deposit :: string
  oe_cid :: "string option"

definition channel_id_of :: "('p, 's) evm_env \<Rightarrow> string option \<Rightarrow> b32 \<Rightarrow> bytes32 option" where
  "channel_id_of V requested random = (case requested of Some h \<Rightarrow> bytes32_parse (ev_hex V) h | None \<Rightarrow> Some random)"

definition post_channel_evm_open ::
    "('p, 's) evm_env \<Rightarrow> evm_node \<Rightarrow> evm_config \<Rightarrow> b32 \<Rightarrow> open_evm_channel_request \<Rightarrow> 's evm_channel_store
       \<Rightarrow> (evm_handler_error, bytes32 \<times> string \<times> u64) reply \<times> 's evm_channel_store" where
  "post_channel_evm_open V N cf random req st = keep_on_error st (
     rbind (evm_context V N cf) (\<lambda>asc.
     rsome (address_parse (ev_hex V) (oe_buyer req)) (EvmBadRequest ''buyer'') (\<lambda>buyer.
     rsome (address_parse (ev_hex V) (oe_seller req)) (EvmBadRequest ''seller'') (\<lambda>seller.
     rsome (parse_u128 (oe_deposit req)) (EvmBadRequest ''deposit'') (\<lambda>deposit.
     rguard (deposit \<noteq> 0) (EvmBadRequest ''deposit must be > 0'') (
     rsome (channel_id_of V (oe_cid req) random) (EvmBadRequest ''cid'') (\<lambda>cid.
     rbind (rmap EvmChain (create_asc (ev_keccak V) (ev_ecdsa V) (ev_hex V) N asc cid buyer seller deposit)) (\<lambda>tx_hash.
     rbind (rmap EvmChain (wait_receipt N tx_hash RECEIPT_MAX_POLLS)) (\<lambda>receipt.
       Reply ((cid, tx_hash, tr_block_number receipt), insert_channel cid (evm_channel_record_new buyer seller deposit) st))))))))))"

text \<open>\<open>closeASC\<close> and the state signature take the same fields.\<close>

record channel_state_request =
  cq_cid :: string
  cq_balance_c :: string
  cq_balance_s :: string
  cq_version :: u64
  cq_sig_c :: string
  cq_sig_s :: string

definition decode_sig65 :: "hex_lib \<Rightarrow> string \<Rightarrow> bytes option" where
  "decode_sig65 X hex_value = Option.bind (hex_dec X (strip_0x hex_value)) (\<lambda>bs. if length bs = 65 then Some bs else None)"

definition post_channel_evm_close ::
    "('p, 's) evm_env \<Rightarrow> evm_node \<Rightarrow> evm_config \<Rightarrow> channel_state_request \<Rightarrow> (evm_handler_error, string \<times> u64) reply" where
  "post_channel_evm_close V N cf req =
     rbind (evm_context V N cf) (\<lambda>asc.
     rsome (bytes32_parse (ev_hex V) (cq_cid req)) (EvmBadRequest ''cid'') (\<lambda>cid.
     rsome (parse_u128 (cq_balance_c req)) (EvmBadRequest ''balanceC'') (\<lambda>balance_c.
     rsome (parse_u128 (cq_balance_s req)) (EvmBadRequest ''balanceS'') (\<lambda>balance_s.
     rsome (decode_sig65 (ev_hex V) (cq_sig_c req)) (EvmBadRequest ''sigC'') (\<lambda>sig_c.
     rsome (decode_sig65 (ev_hex V) (cq_sig_s req)) (EvmBadRequest ''sigS'') (\<lambda>sig_s.
     rbind (rmap EvmChain (close_asc (ev_keccak V) (ev_ecdsa V) (ev_hex V) N asc cid balance_c balance_s (cq_version req) sig_c sig_s)) (\<lambda>tx_hash.
     rbind (rmap EvmChain (wait_receipt N tx_hash RECEIPT_MAX_POLLS)) (\<lambda>receipt.
       Reply (tx_hash, tr_block_number receipt)))))))))"

definition get_channel_evm_state :: "('p, 's) evm_env \<Rightarrow> evm_node \<Rightarrow> evm_config \<Rightarrow> string \<Rightarrow> (evm_handler_error, bytes32 \<times> asc_state) reply" where
  "get_channel_evm_state V N cf cid_hex =
     rbind (evm_context V N cf) (\<lambda>asc.
     rsome (bytes32_parse (ev_hex V) cid_hex) (EvmBadRequest ''cid'') (\<lambda>cid.
     rbind (rmap EvmChain (read_state (ev_keccak V) (ev_hex V) N asc cid)) (\<lambda>st. Reply (cid, st))))"

fun status_name :: "u8 \<Rightarrow> string" where
  "status_name status = (if status = 0 then ''OPEN'' else if status = 1 then ''CLOSING'' else if status = 2 then ''CLOSED'' else ''UNKNOWN'')"

text \<open>The vault signs a state that buyer and seller have signed and that conserves the deposit.\<close>

definition post_channel_evm_state_sig ::
    "('p, 's) evm_env \<Rightarrow> evm_node \<Rightarrow> evm_config \<Rightarrow> 's evm_channel_store \<Rightarrow> channel_state_request \<Rightarrow> (evm_handler_error, bytes32 \<times> bytes) reply" where
  "post_channel_evm_state_sig V N cf st req =
     rbind (evm_context V N cf) (\<lambda>asc.
     rsome (ac_signer asc) (EvmBadRequest ''vault state-sig requires signed mode (set A402_EVM_VAULT_PRIV)'') (\<lambda>signer.
     rsome (bytes32_parse (ev_hex V) (cq_cid req)) (EvmBadRequest ''cid'') (\<lambda>cid.
     rsome (parse_u128 (cq_balance_c req)) (EvmBadRequest ''balanceC'') (\<lambda>balance_c.
     rsome (parse_u128 (cq_balance_s req)) (EvmBadRequest ''balanceS'') (\<lambda>balance_s.
     rsome (get_channel cid st) (EvmBadRequest ''unknown cid'') (\<lambda>entry.
     rchecked (checked_add balance_c balance_s) (\<lambda>total.
     rguard (total = xr_total_deposit entry) (EvmBadRequest ''balance not conserved'') (
     rsome (decode_sig65 (ev_hex V) (cq_sig_c req)) (EvmBadRequest ''sigC'') (\<lambda>sig_c.
     rsome (decode_sig65 (ev_hex V) (cq_sig_s req)) (EvmBadRequest ''sigS'') (\<lambda>sig_s.
     let state_hash = asc_state_hash (ev_keccak V) (ac_address asc) cid balance_c balance_s (cq_version req)
     in rsome (recover_eth_signed (ev_keccak V) (ev_ecdsa V) state_hash sig_c) (EvmBadRequest ''recover'') (\<lambda>recovered_c.
        rsome (recover_eth_signed (ev_keccak V) (ev_ecdsa V) state_hash sig_s) (EvmBadRequest ''recover'') (\<lambda>recovered_s.
        rguard (recovered_c = xr_buyer entry) (EvmBadRequest ''sigC recovers to another address'') (
        rguard (recovered_s = xr_seller entry) (EvmBadRequest ''sigS recovers to another address'') (
          Reply (state_hash, sign_eth_signed (ev_keccak V) (ev_ecdsa V) (es_signing_key signer) state_hash)))))))))))))))"

end
