(* ===== verification/Evm_Client.thy ===== *)
theory Evm_Client
  imports Evm_Vault
begin

text \<open>
  The routes a client uses (\<open>enclave/src/handlers_client.rs\<close>): open a channel, ask for a result, pay for
  it, close. The vault talks to the service provider on the client's behalf; the provider's answers
  are arguments, \<open>None\<close> an answer that failed or did not decode.
\<close>

section \<open>Wire types\<close>

record sp_info =
  si_address :: string
  si_schnorr_px :: string

record sp_atomic_resp =
  ar_asc_state_hash :: string
  ar_new_balance_c :: string
  ar_new_balance_s :: string
  ar_new_version :: u64
  ar_big_t :: string
  ar_sig_hat_r_prime :: string
  ar_sig_hat_s_prime :: string
  ar_enc_iv :: string
  ar_enc_ciphertext :: string
  ar_enc_tag :: string

record sp_finalize_resp =
  fr_t :: string
  fr_sig_s :: string

definition parse_hex :: "hex_lib \<Rightarrow> string \<Rightarrow> bytes option" where
  "parse_hex X input = hex_dec X (strip_0x input)"

definition parse_fixed :: "nat \<Rightarrow> hex_lib \<Rightarrow> string \<Rightarrow> bytes option" where
  "parse_fixed n X input = Option.bind (parse_hex X input) (\<lambda>bs. if length bs = n then Some bs else None)"

definition parse_b32 :: "hex_lib \<Rightarrow> string \<Rightarrow> b32 option" where
  "parse_b32 X input = map_option word_of_bytes (parse_fixed 32 X input)"

definition parse_b33 :: "hex_lib \<Rightarrow> string \<Rightarrow> bytes option" where
  "parse_b33 X input = parse_fixed 33 X input"

definition reconstruct_seller_pubkey :: "('p, 's) secp \<Rightarrow> hex_lib \<Rightarrow> string \<Rightarrow> 'p option" where
  "reconstruct_seller_pubkey C X schnorr_px_hex =
     Option.bind (parse_fixed 32 X schnorr_px_hex) (\<lambda>raw. sp_decompress C (2 # raw))"

section \<open>Open\<close>

record client_open_request =
  co_client :: string
  co_sp_base_url :: string
  co_deposit :: string
  co_cid :: "string option"

definition trim_end_slashes :: "string \<Rightarrow> string" where
  "trim_end_slashes s = rev (dropWhile (\<lambda>c. c = CHR ''/'') (rev s))"

definition client_channel_new :: "client_open_request \<Rightarrow> address \<Rightarrow> address \<Rightarrow> 'p \<Rightarrow> u128 \<Rightarrow> string \<Rightarrow> 'p client_channel_state" where
  "client_channel_new req client_addr seller_addr seller_pubkey deposit sp_vault_uid =
     \<lparr>cc_sp_base_url = trim_end_slashes (co_sp_base_url req), cc_buyer = client_addr, cc_seller = seller_addr,
      cc_seller_pubkey = seller_pubkey, cc_total_deposit = deposit, cc_balance_c = deposit, cc_balance_s = 0, cc_version = 0,
      cc_pending = None, cc_last_sig_s = None, cc_last_sig_c = None, cc_sp_vault_uid = sp_vault_uid\<rparr>"

text \<open>The arguments after the request: the answers to info, register-vault and register.\<close>

definition post_client_open ::
    "('p, 's) evm_env \<Rightarrow> evm_node \<Rightarrow> evm_config \<Rightarrow> b32 \<Rightarrow> client_open_request \<Rightarrow> sp_info option \<Rightarrow> bool \<Rightarrow> bool \<Rightarrow> ('p, 's) evm_vault
       \<Rightarrow> (client_handler_error, bytes32 \<times> string \<times> u64) reply \<times> ('p, 's) evm_vault" where
  "post_client_open V N cf random req info vault_registered registered st = keep_on_error st (
     rbind (client_context V N cf) (\<lambda>asc.
     rsome (address_parse (ev_hex V) (co_client req)) (BadRequest ''client'') (\<lambda>client_addr.
     rsome (parse_u128 (co_deposit req)) (BadRequest ''deposit'') (\<lambda>deposit.
     rguard (deposit \<noteq> 0) (BadRequest ''deposit must be > 0'') (
     rsome (channel_id_of V (co_cid req) random) (BadRequest ''cid'') (\<lambda>cid.
     rsome info (UpstreamSp ''/v1/sp/info'') (\<lambda>info.
     rsome (address_parse (ev_hex V) (si_address info)) (UpstreamSp ''sp.address'') (\<lambda>seller_addr.
     rsome (reconstruct_seller_pubkey (ev_secp V) (ev_hex V) (si_schnorr_px info)) (UpstreamSp ''schnorrPx'') (\<lambda>seller_pubkey.
     rguard vault_registered (UpstreamSp ''register-vault'') (
     rbind (rmap (\<lambda>_. ChainError ''createASC'') (create_asc (ev_keccak V) (ev_ecdsa V) (ev_hex V) N asc cid client_addr seller_addr deposit)) (\<lambda>tx_hash.
     rbind (rmap (\<lambda>_. ChainError ''receipt'') (wait_receipt N tx_hash RECEIPT_MAX_POLLS)) (\<lambda>receipt.
     rguard registered (UpstreamSp ''sp /register'') (
       Reply ((cid, tx_hash, tr_block_number receipt),
         \<lparr>vs_store = insert_channel cid (evm_channel_record_new client_addr seller_addr deposit) (vs_store st),
          vs_clients = dm_insert cid (client_channel_new req client_addr seller_addr seller_pubkey deposit
             (''vault-'' @ address_to_hex (ev_hex V) (ac_vault_eoa asc))) (vs_clients st)\<rparr>))))))))))))))"

section \<open>Request\<close>

text \<open>What the vault makes of the provider's answer: the exchange that is parked.\<close>

definition request_exchange ::
    "('p, 's) evm_env \<Rightarrow> 'p client_channel_state \<Rightarrow> sp_atomic_resp option \<Rightarrow> (client_handler_error, 'p pending_exchange) reply" where
  "request_exchange V entry resp =
     rsome resp (UpstreamSp ''/v1/sp/request'') (\<lambda>atomic.
     rsome (parse_b32 (ev_hex V) (ar_asc_state_hash atomic)) (UpstreamSp ''ascStateHash'') (\<lambda>state_hash.
     rsome (parse_u128 (ar_new_balance_c atomic)) (UpstreamSp ''newBalanceC'') (\<lambda>new_balance_c.
     rsome (parse_u128 (ar_new_balance_s atomic)) (UpstreamSp ''newBalanceS'') (\<lambda>new_balance_s.
     rsome (parse_b33 (ev_hex V) (ar_big_t atomic)) (UpstreamSp ''bigT'') (\<lambda>big_t_bytes.
     rsome (sp_decompress (ev_secp V) big_t_bytes) (UpstreamSp ''bigT not on curve'') (\<lambda>big_t.
     rsome (parse_b33 (ev_hex V) (ar_sig_hat_r_prime atomic)) (UpstreamSp ''sigHatRPrime'') (\<lambda>r_prime.
     rsome (parse_b32 (ev_hex V) (ar_sig_hat_s_prime atomic)) (UpstreamSp ''sigHatSPrime'') (\<lambda>s_prime.
     let pre_sig = \<lparr>ps_r_prime = r_prime, ps_s_prime = s_prime\<rparr>
     in rguard (p_verify (ev_secp V) (cc_seller_pubkey entry) state_hash big_t pre_sig) (UpstreamSp ''SP produced invalid pre-signature'') (
        rsome (parse_fixed 12 (ev_hex V) (ar_enc_iv atomic)) (UpstreamSp ''encIv'') (\<lambda>iv.
        rsome (parse_fixed 16 (ev_hex V) (ar_enc_tag atomic)) (UpstreamSp ''encTag'') (\<lambda>tag.
        rsome (parse_hex (ev_hex V) (ar_enc_ciphertext atomic)) (UpstreamSp ''encCiphertext'') (\<lambda>ciphertext.
        rchecked (checked_add new_balance_c new_balance_s) (\<lambda>total.
        rguard (total = cc_total_deposit entry) (UpstreamSp ''balance not conserved'') (
        rguard (\<not> cc_balance_c entry \<le> new_balance_c) (UpstreamSp ''SP did not debit client'') (
        rchecked (checked_add (cc_version entry) 1) (\<lambda>expected_version.
        rguard (ar_new_version atomic = expected_version) (UpstreamSp ''version jump'') (
          Reply \<lparr>pe_new_balance_c = new_balance_c, pe_new_balance_s = new_balance_s, pe_new_version = ar_new_version atomic,
            pe_asc_state_hash = state_hash, pe_pre_sig = pre_sig, pe_big_t = big_t,
            pe_enc_res = \<lparr>er_iv = iv, er_ciphertext = ciphertext, er_tag = tag\<rparr>\<rparr>)))))))))))))))))"

text \<open>\<open>DashMap::alter\<close>: a channel that is not there is left out.\<close>

definition park_exchange :: "bytes32 \<Rightarrow> 'p pending_exchange \<Rightarrow> (bytes32, 'p client_channel_state) dashmap \<Rightarrow> (bytes32, 'p client_channel_state) dashmap" where
  "park_exchange cid p m = (case dm_get m cid of None \<Rightarrow> m | Some s \<Rightarrow> dm_insert cid (s\<lparr>cc_pending := Some p\<rparr>) m)"

text \<open>The envelope of status 402: what the client is asked to sign.\<close>

record request_response =
  rr_cid :: bytes32
  rr_asc_state_hash :: bytes32
  rr_new_balance_c :: u128
  rr_new_balance_s :: u128
  rr_new_version :: u64
  rr_seller_schnorr_px :: b32

definition request_envelope :: "('p, 's) evm_env \<Rightarrow> bytes32 \<Rightarrow> 'p client_channel_state \<Rightarrow> 'p pending_exchange \<Rightarrow> request_response" where
  "request_envelope V cid entry p = \<lparr>rr_cid = cid, rr_asc_state_hash = pe_asc_state_hash p, rr_new_balance_c = pe_new_balance_c p,
     rr_new_balance_s = pe_new_balance_s p, rr_new_version = pe_new_version p, rr_seller_schnorr_px = fst (affine_xy (ev_secp V) (cc_seller_pubkey entry))\<rparr>"

definition post_client_request ::
    "('p, 's) evm_env \<Rightarrow> string \<Rightarrow> sp_atomic_resp option \<Rightarrow> ('p, 's) evm_vault
       \<Rightarrow> (client_handler_error, request_response) reply \<times> ('p, 's) evm_vault" where
  "post_client_request V cid_text resp st = keep_on_error st (
     rsome (bytes32_parse (ev_hex V) cid_text) (BadRequest ''cid'') (\<lambda>cid.
     rsome (dm_get (vs_clients st) cid) (NotFound ''unknown cid'') (\<lambda>entry.
     rbind (request_exchange V entry resp) (\<lambda>p.
       Reply (request_envelope V cid entry p, st\<lparr>vs_clients := park_exchange cid p (vs_clients st)\<rparr>)))))"

section \<open>Pay\<close>

text \<open>The checks before the provider is asked: the exchange and the client's signature.\<close>

definition pay_check ::
    "('p, 's) evm_env \<Rightarrow> 'p client_channel_state \<Rightarrow> u64 \<Rightarrow> string \<Rightarrow> (client_handler_error, 'p pending_exchange \<times> bytes) reply" where
  "pay_check V entry version sig_c_text =
     rsome (cc_pending entry) (Conflict ''no pending request to pay'') (\<lambda>p.
     rguard (pe_new_version p = version) (Conflict ''version mismatch'') (
     rsome (parse_hex (ev_hex V) sig_c_text) (UpstreamSp ''sigC'') (\<lambda>sig_c.
     rguard (length sig_c = 65) (BadRequest ''sigC must be 65 bytes'') (
     rsome (recover_eth_signed (ev_keccak V) (ev_ecdsa V) (pe_asc_state_hash p) sig_c) (BadRequest ''recover'') (\<lambda>recovered.
     rguard (recovered = cc_buyer entry) (BadRequest ''sigC recovered to another address'') (
       Reply (p, sig_c)))))))"

text \<open>The checks of what the provider reveals; the result is the text and the provider's signature.\<close>

definition pay_reveal ::
    "('p, 's) evm_env \<Rightarrow> 'p client_channel_state \<Rightarrow> 'p pending_exchange \<Rightarrow> sp_finalize_resp option \<Rightarrow> (client_handler_error, string \<times> bytes) reply" where
  "pay_reveal V entry p fin =
     rsome fin (UpstreamSp ''/v1/sp/finalize'') (\<lambda>fin.
     rsome (parse_b32 (ev_hex V) (fr_t fin)) (UpstreamSp ''t'') (\<lambda>t_bytes.
     rsome (sp_from_repr (ev_secp V) t_bytes) (UpstreamSp ''t out of order'') (\<lambda>t.
     rguard (sp_mul (ev_secp V) (sp_generator (ev_secp V)) t = pe_big_t p) (UpstreamSp ''revealed t does not match T'') (
     rbind (rmap (\<lambda>_. InternalError ''adapt'') (secp_adapt (ev_secp V) (pe_pre_sig p) t)) (\<lambda>full.
     rguard (verify_full (ev_secp V) (cc_seller_pubkey entry) (pe_asc_state_hash p) full) (UpstreamSp ''adapted signature fails verify_full'') (
     rsome (decrypt_result (ev_secp V) (pe_enc_res p) t) (UpstreamSp ''decrypt failed'') (\<lambda>plaintext.
     rsome (ev_utf8 V plaintext) (UpstreamSp ''plaintext utf8'') (\<lambda>text.
     rsome (parse_hex (ev_hex V) (fr_sig_s fin)) (UpstreamSp ''sigS'') (\<lambda>sig_s.
     rguard (length sig_s = 65) (BadRequest ''sigS must be 65 bytes'') (
       Reply (text, sig_s)))))))))))"

definition commit_payment ::
    "bytes32 \<Rightarrow> 'p pending_exchange \<Rightarrow> bytes \<Rightarrow> bytes \<Rightarrow> (bytes32, 'p client_channel_state) dashmap \<Rightarrow> (bytes32, 'p client_channel_state) dashmap" where
  "commit_payment cid p sig_c sig_s m = (case dm_get m cid of None \<Rightarrow> m
     | Some s \<Rightarrow> dm_insert cid (s\<lparr>cc_balance_c := pe_new_balance_c p, cc_balance_s := pe_new_balance_s p, cc_version := pe_new_version p,
         cc_last_sig_s := Some sig_s, cc_last_sig_c := Some sig_c, cc_pending := None\<rparr>) m)"

record pay_response =
  py_version :: u64
  py_plaintext :: string
  py_new_balance_c :: u128
  py_new_balance_s :: u128

text \<open>The answer of the provider depends on what it is sent: the channel, the version and the signature.\<close>

definition post_client_pay ::
    "('p, 's) evm_env \<Rightarrow> string \<Rightarrow> u64 \<Rightarrow> string \<Rightarrow> (bytes32 \<Rightarrow> u64 \<Rightarrow> bytes \<Rightarrow> sp_finalize_resp option) \<Rightarrow> ('p, 's) evm_vault
       \<Rightarrow> (client_handler_error, pay_response) reply \<times> ('p, 's) evm_vault" where
  "post_client_pay V cid_text version sig_c_text sp_finalize st = keep_on_error st (
     rsome (bytes32_parse (ev_hex V) cid_text) (BadRequest ''cid'') (\<lambda>cid.
     rsome (dm_get (vs_clients st) cid) (NotFound ''unknown cid'') (\<lambda>entry.
     rbind (pay_check V entry version sig_c_text) (\<lambda>(p, sig_c).
     rbind (pay_reveal V entry p (sp_finalize cid version sig_c)) (\<lambda>(text, sig_s).
       Reply (\<lparr>py_version = pe_new_version p, py_plaintext = text, py_new_balance_c = pe_new_balance_c p, py_new_balance_s = pe_new_balance_s p\<rparr>,
         st\<lparr>vs_clients := commit_payment cid p sig_c sig_s (vs_clients st)\<rparr>))))))"

section \<open>Close\<close>

definition post_client_close ::
    "('p, 's) evm_env \<Rightarrow> evm_node \<Rightarrow> evm_config \<Rightarrow> string \<Rightarrow> string \<Rightarrow> ('p, 's) evm_vault \<Rightarrow> (client_handler_error, string \<times> u64) reply" where
  "post_client_close V N cf cid_text sig_c_text st =
     rbind (client_context V N cf) (\<lambda>asc.
     rsome (bytes32_parse (ev_hex V) cid_text) (BadRequest ''cid'') (\<lambda>cid.
     rsome (dm_get (vs_clients st) cid) (NotFound ''unknown cid'') (\<lambda>entry.
     rsome (cc_last_sig_s entry) (Conflict ''no signature to close with'') (\<lambda>sig_s.
     rsome (parse_hex (ev_hex V) sig_c_text) (UpstreamSp ''sigC'') (\<lambda>sig_c.
     rguard (length sig_c = 65) (BadRequest ''sigC must be 65 bytes'') (
     rsome (recover_eth_signed (ev_keccak V) (ev_ecdsa V)
              (asc_state_hash (ev_keccak V) (ac_address asc) cid (cc_balance_c entry) (cc_balance_s entry) (cc_version entry)) sig_c)
           (BadRequest ''recover'') (\<lambda>recovered.
     rguard (recovered = cc_buyer entry) (BadRequest ''sigC recovered to another address'') (
     rbind (rmap (\<lambda>_. ChainError ''closeASC'') (close_asc (ev_keccak V) (ev_ecdsa V) (ev_hex V) N asc cid (cc_balance_c entry) (cc_balance_s entry)
              (cc_version entry) sig_c sig_s)) (\<lambda>tx_hash.
     rbind (rmap (\<lambda>_. ChainError ''receipt'') (wait_receipt N tx_hash RECEIPT_MAX_POLLS)) (\<lambda>receipt.
       Reply (tx_hash, tr_block_number receipt)))))))))))"

end
