(* ===== verification/Service_Provider.thy ===== *)
theory Service_Provider
  imports Evm_Client
begin

text \<open>
  The service provider (crate \<open>service_provider\<close>): its keys, its registry of vaults, the service it
  sells and its routes. It signs the new state of a channel under an adaptor secret, encrypts the
  result under that secret, and reveals the secret for the buyer's signature on the new state.
  Random numbers are arguments: the draws of the two loops and the nonce of the encryption. A draw
  list that ends before its loop does is reported as \<open>Abort\<close>.
\<close>

section \<open>Keys\<close>

record ('p, 's) seller_keys =
  sk_ecdsa :: b32
  sk_address :: address
  sk_schnorr :: "('p, 's) normalized_keypair"

definition seller_keys_from_bytes :: "('p, 's) evm_env \<Rightarrow> b32 \<Rightarrow> (string, ('p, 's) seller_keys) reply" where
  "seller_keys_from_bytes V secret =
     rsome (derive_address (ev_keccak V) (ev_ecdsa V) secret) ''k256 SigningKey'' (\<lambda>a.
     rbind (rmap (\<lambda>_. ''schnorr derive'') (derive_normalized_keypair (ev_secp V)
              (word_bytes (ev_keccak V (str_bytes ''a402-sp-schnorr-v1'' @ word_bytes secret))))) (\<lambda>schnorr.
       Reply \<lparr>sk_ecdsa = secret, sk_address = a, sk_schnorr = schnorr\<rparr>))"

definition seller_keys_from_hex :: "('p, 's) evm_env \<Rightarrow> string \<Rightarrow> (string, ('p, 's) seller_keys) reply" where
  "seller_keys_from_hex V hex_priv =
     rsome (parse_hex (ev_hex V) hex_priv) ''hex decode'' (\<lambda>bs.
     rguard (length bs = 32) ''expected 32 bytes'' (seller_keys_from_bytes V (word_of_bytes bs)))"

section \<open>Registry of vaults\<close>

record vault_record =
  vr_uid :: string
  vr_vault_eoa :: address
  vr_code_hash :: "b32 option"

type_synonym vault_registry = "(string, vault_record) dashmap"

definition registry_register :: "vault_record \<Rightarrow> vault_registry \<Rightarrow> (string, vault_record) reply \<times> vault_registry" where
  "registry_register r reg = (case dm_get reg (vr_uid r) of
     Some existing \<Rightarrow> if vr_vault_eoa existing \<noteq> vr_vault_eoa r then (Fail ''uid already pinned to another vault_eoa'', reg) else (Reply existing, reg)
   | None \<Rightarrow> (Reply r, dm_insert (vr_uid r) r reg))"

definition registry_get :: "vault_registry \<Rightarrow> string \<Rightarrow> vault_record option" where
  "registry_get reg uid = dm_get reg uid"

definition find_by_eoa :: "vault_registry \<Rightarrow> address \<Rightarrow> vault_record option" where
  "find_by_eoa reg eoa = map_option snd (find (\<lambda>(_, r). vr_vault_eoa r = eoa) reg)"

section \<open>The service\<close>

definition execute_weather :: "u64 \<Rightarrow> bytes" where
  "execute_weather request_number = str_bytes
     (''{'' @ [CHR 0x22] @ ''endpoint'' @ [CHR 0x22] @ '':'' @ [CHR 0x22] @ ''/weather'' @ [CHR 0x22] @ '',''
      @ [CHR 0x22] @ ''location'' @ [CHR 0x22] @ '':'' @ [CHR 0x22] @ ''San Francisco'' @ [CHR 0x22] @ '',''
      @ [CHR 0x22] @ ''temperature'' @ [CHR 0x22] @ '':'' @ show_nat (72 + unat request_number mod 3) @ '',''
      @ [CHR 0x22] @ ''conditions'' @ [CHR 0x22] @ '':'' @ [CHR 0x22] @ ''clear'' @ [CHR 0x22] @ '',''
      @ [CHR 0x22] @ ''request_number'' @ [CHR 0x22] @ '':'' @ show_u64 request_number @ ''}'')"

section \<open>State\<close>

record ('p, 's) sp_state =
  st_keys :: "('p, 's) seller_keys"
  st_vault_registry :: vault_registry
  st_asc_manager :: string
  st_vault_addr :: string
  st_channels :: "'s evm_channel_store"

datatype sp_error = SpBadRequest string | SpNotFound string | SpConflict string | SpChain string | SpInternal string

definition PRICE_USDC_ATOMIC :: u128 where
  "PRICE_USDC_ATOMIC = 1000"

definition get_info :: "('p, 's) evm_env \<Rightarrow> ('p, 's) sp_state \<Rightarrow> sp_info" where
  "get_info V S = \<lparr>si_address = address_to_hex (ev_hex V) (sk_address (st_keys S)),
     si_schnorr_px = hex_text (ev_hex V) (word_bytes (nk_px_bytes (sk_schnorr (st_keys S))))\<rparr>"

section \<open>Registration\<close>

record register_vault_request =
  rv_uid :: string
  rv_vault_eoa :: string
  rv_code_hash :: "string option"

definition code_hash_of :: "('p, 's) evm_env \<Rightarrow> string option \<Rightarrow> (sp_error, b32 option) reply" where
  "code_hash_of V text = (case text of None \<Rightarrow> Reply None
     | Some h \<Rightarrow> rsome (parse_hex (ev_hex V) h) (SpBadRequest ''codeHash'') (\<lambda>bs.
         rguard (length bs = 32) (SpBadRequest ''codeHash must be 32 bytes'') (Reply (Some (word_of_bytes bs)))))"

definition post_register_vault ::
    "('p, 's) evm_env \<Rightarrow> register_vault_request \<Rightarrow> ('p, 's) sp_state \<Rightarrow> (sp_error, address) reply \<times> ('p, 's) sp_state" where
  "post_register_vault V req S = keep_on_error S (
     rsome (address_parse (ev_hex V) (rv_vault_eoa req)) (SpBadRequest ''vaultEoa'') (\<lambda>vault_eoa.
     rsome (address_parse (ev_hex V) (st_vault_addr S)) (SpInternal ''A402_EVM_VAULT_ADDR'') (\<lambda>pinned.
     rguard (vault_eoa = pinned) (SpBadRequest ''vaultEoa does not match the pinned A402_EVM_VAULT_ADDR'') (
     rbind (code_hash_of V (rv_code_hash req)) (\<lambda>code_hash.
     let (registered, reg) = registry_register \<lparr>vr_uid = rv_uid req, vr_vault_eoa = vault_eoa, vr_code_hash = code_hash\<rparr> (st_vault_registry S)
     in rbind (rmap SpConflict registered) (\<lambda>_. Reply (vault_eoa, S\<lparr>st_vault_registry := reg\<rparr>)))))))"

record sp_register_request =
  rg_cid :: string
  rg_buyer :: string
  rg_total_deposit :: string
  rg_vault_uid :: string

definition onchain_matches :: "('p, 's) sp_state \<Rightarrow> asc_state \<Rightarrow> address \<Rightarrow> u128 \<Rightarrow> bool" where
  "onchain_matches S onchain buyer total_deposit \<longleftrightarrow> \<not> (sc_client onchain \<noteq> buyer \<or> sc_provider onchain \<noteq> sk_address (st_keys S)
     \<or> sc_total_deposit onchain \<noteq> total_deposit \<or> sc_status onchain \<noteq> 0)"

definition post_register ::
    "('p, 's) evm_env \<Rightarrow> evm_node \<Rightarrow> sp_register_request \<Rightarrow> ('p, 's) sp_state \<Rightarrow> (sp_error, bytes32) reply \<times> ('p, 's) sp_state" where
  "post_register V N req S = keep_on_error S (
     rsome (registry_get (st_vault_registry S) (rg_vault_uid req)) (SpBadRequest ''vaultUid not in Reg_U'') (\<lambda>_.
     rsome (bytes32_parse (ev_hex V) (rg_cid req)) (SpBadRequest ''cid'') (\<lambda>cid.
     rsome (address_parse (ev_hex V) (rg_buyer req)) (SpBadRequest ''buyer'') (\<lambda>buyer.
     rsome (parse_u128 (rg_total_deposit req)) (SpBadRequest ''totalDeposit'') (\<lambda>total_deposit.
     rsome (address_parse (ev_hex V) (st_asc_manager S)) (SpInternal ''asc_manager'') (\<lambda>asc_manager.
     rsome (address_parse (ev_hex V) (st_vault_addr S)) (SpInternal ''vault_addr'') (\<lambda>vault_addr.
     rbind (rmap (\<lambda>_. SpChain ''ascs'') (read_state (ev_keccak V) (ev_hex V) N (asc_client_new asc_manager vault_addr) cid)) (\<lambda>onchain.
     rguard (onchain_matches S onchain buyer total_deposit) (SpBadRequest ''on-chain state mismatch'') (
       Reply (cid, S\<lparr>st_channels := insert_channel cid (evm_channel_record_new buyer (sk_address (st_keys S)) total_deposit) (st_channels S)\<rparr>))))))))))"

section \<open>Request\<close>

record sp_draws =
  dr_witness :: "b32 list"
  dr_nonce :: "b32 list"
  dr_iv :: bytes

text \<open>What the provider prepares for a channel as it was read; parking it is a separate step.\<close>

definition prepare_request ::
    "('p, 's) evm_env \<Rightarrow> ('p, 's) seller_keys \<Rightarrow> string \<Rightarrow> sp_draws \<Rightarrow> bytes32 \<Rightarrow> 's evm_channel_record \<Rightarrow> (sp_error, 's pending_request \<times> 'p) reply" where
  "prepare_request V keys asc_manager_text draws cid channel =
     rguard (\<not> xr_force_closed channel) (SpConflict ''channel force-closed'') (
     rguard (\<not> xr_balance_c channel < PRICE_USDC_ATOMIC) (SpBadRequest ''channel exhausted'') (
     rsome (address_parse (ev_hex V) asc_manager_text) (SpInternal ''asc_manager'') (\<lambda>asc_manager.
     rchecked (random_witness (ev_secp V) (dr_witness draws)) (\<lambda>(t, big_t).
     rchecked (checked_add (xr_balance_s channel) PRICE_USDC_ATOMIC) (\<lambda>new_balance_s.
     rchecked (checked_add (xr_version channel) 1) (\<lambda>new_version.
     let new_balance_c = xr_balance_c channel - PRICE_USDC_ATOMIC;
         state_hash = asc_state_hash (ev_keccak V) asc_manager cid new_balance_c new_balance_s new_version
     in rchecked (p_sign (ev_secp V) (sk_schnorr keys) state_hash big_t (dr_nonce draws)) (\<lambda>sig_hat.
        Reply (\<lparr>pq_cid = cid, pq_new_version = new_version, pq_new_balance_c = new_balance_c, pq_new_balance_s = new_balance_s, pq_t = t,
          pq_sig_hat = sig_hat,
          pq_enc_res = encrypt_result (ev_secp V) (dr_iv draws) (execute_weather (ucast (xr_served_requests channel) + 1)) t,
          pq_asc_state_hash = state_hash\<rparr>, big_t))))))))"

definition atomic_resp :: "('p, 's) evm_env \<Rightarrow> 's pending_request \<Rightarrow> 'p \<Rightarrow> sp_atomic_resp" where
  "atomic_resp V q big_t = \<lparr>ar_asc_state_hash = bytes32_to_hex (ev_hex V) (pq_asc_state_hash q),
     ar_new_balance_c = show_u128 (pq_new_balance_c q), ar_new_balance_s = show_u128 (pq_new_balance_s q), ar_new_version = pq_new_version q,
     ar_big_t = hex_text (ev_hex V) (sp_compress (ev_secp V) big_t), ar_sig_hat_r_prime = hex_text (ev_hex V) (ps_r_prime (pq_sig_hat q)),
     ar_sig_hat_s_prime = hex_text (ev_hex V) (word_bytes (ps_s_prime (pq_sig_hat q))), ar_enc_iv = hex_text (ev_hex V) (er_iv (pq_enc_res q)),
     ar_enc_ciphertext = hex_text (ev_hex V) (er_ciphertext (pq_enc_res q)), ar_enc_tag = hex_text (ev_hex V) (er_tag (pq_enc_res q))\<rparr>"

definition post_request ::
    "('p, 's) evm_env \<Rightarrow> sp_draws \<Rightarrow> string \<Rightarrow> ('p, 's) sp_state \<Rightarrow> (sp_error, sp_atomic_resp) reply \<times> ('p, 's) sp_state" where
  "post_request V draws cid_text S = keep_on_error S (
     rsome (bytes32_parse (ev_hex V) cid_text) (SpBadRequest ''cid'') (\<lambda>cid.
     rsome (get_channel cid (st_channels S)) (SpNotFound ''channel not registered with this SP'') (\<lambda>channel.
     rbind (prepare_request V (st_keys S) (st_asc_manager S) draws cid channel) (\<lambda>(q, big_t).
       Reply (atomic_resp V q big_t, S\<lparr>st_channels := park_pending q (st_channels S)\<rparr>)))))"

section \<open>Finalize\<close>

definition finalize_check ::
    "('p, 's) evm_env \<Rightarrow> 's evm_channel_store \<Rightarrow> 's pending_request \<Rightarrow> bytes32 \<Rightarrow> string \<Rightarrow> (sp_error, bytes) reply" where
  "finalize_check V st q cid sig_c_text =
     rsome (get_channel cid st) (SpNotFound ''channel disappeared'') (\<lambda>channel.
     rsome (decode_sig65 (ev_hex V) sig_c_text) (SpBadRequest ''sigC'') (\<lambda>sig_c.
     rsome (recover_eth_signed (ev_keccak V) (ev_ecdsa V) (pq_asc_state_hash q) sig_c) (SpBadRequest ''recover'') (\<lambda>recovered.
     rguard (recovered = xr_buyer channel) (SpBadRequest ''sigC recovered to another address'') (Reply sig_c))))"

definition advance_channel :: "'s pending_request \<Rightarrow> bytes \<Rightarrow> bytes \<Rightarrow> 's evm_channel_record \<Rightarrow> 's evm_channel_record" where
  "advance_channel q sig_c sig_s r = r\<lparr>xr_balance_c := pq_new_balance_c q, xr_balance_s := pq_new_balance_s q, xr_version := pq_new_version q,
     xr_last_sig_c := Some sig_c, xr_last_sig_s := Some sig_s, xr_last_sig_hat := Some (pq_sig_hat q), xr_last_t := Some (pq_t q),
     xr_last_state_hash := Some (pq_asc_state_hash q), xr_served_requests := xr_served_requests r + 1\<rparr>"

text \<open>
  The pending request is taken before the signature is looked at, and stays taken on an error. The
  counter of served requests is raised last; its overflow panics with the other fields changed.
\<close>

definition finalize_taken ::
    "('p, 's) evm_env \<Rightarrow> ('p, 's) seller_keys \<Rightarrow> bytes32 \<Rightarrow> string \<Rightarrow> 's pending_request \<Rightarrow> 's evm_channel_store
       \<Rightarrow> (sp_error, sp_finalize_resp) reply \<times> 's evm_channel_store" where
  "finalize_taken V keys cid sig_c_text q st = (case finalize_check V st q cid sig_c_text of
     Fail e \<Rightarrow> (Fail e, st) | Abort \<Rightarrow> (Abort, st)
   | Reply sig_c \<Rightarrow>
       let sig_s = sign_eth_signed (ev_keccak V) (ev_ecdsa V) (sk_ecdsa keys) (pq_asc_state_hash q)
       in (if map_option xr_served_requests (get_channel cid st) = Some (- 1)
           then (Abort, mutate_channel cid (\<lambda>r. (advance_channel q sig_c sig_s r)\<lparr>xr_served_requests := xr_served_requests r\<rparr>) st)
           else (Reply \<lparr>fr_t = hex_text (ev_hex V) (word_bytes (sp_to_bytes (ev_secp V) (pq_t q))), fr_sig_s = hex_text (ev_hex V) sig_s\<rparr>,
                 mutate_channel cid (advance_channel q sig_c sig_s) st)))"

definition post_finalize ::
    "('p, 's) evm_env \<Rightarrow> string \<Rightarrow> u64 \<Rightarrow> string \<Rightarrow> ('p, 's) sp_state \<Rightarrow> (sp_error, sp_finalize_resp) reply \<times> ('p, 's) sp_state" where
  "post_finalize V cid_text version sig_c_text S = (case bytes32_parse (ev_hex V) cid_text of None \<Rightarrow> (Fail (SpBadRequest ''cid''), S)
     | Some cid \<Rightarrow> (case take_pending cid version (st_channels S) of None \<Rightarrow> (Fail (SpNotFound ''no pending request''), S)
       | Some (q, st1) \<Rightarrow> (case finalize_taken V (st_keys S) cid sig_c_text q st1 of (r, st2) \<Rightarrow> (r, S\<lparr>st_channels := st2\<rparr>))))"

section \<open>Force close\<close>

text \<open>The call that \<open>forceClose\<close> makes for a channel, with the completed signature as its proof.\<close>

definition force_close_call ::
    "('p, 's) evm_env \<Rightarrow> ('p, 's) seller_keys \<Rightarrow> bytes32 \<Rightarrow> 's evm_channel_record \<Rightarrow> string \<Rightarrow> (sp_error, on_chain_proof \<times> bytes) reply" where
  "force_close_call V keys cid entry vault_sig_u_text =
     rguard (\<not> xr_force_closed entry) (SpConflict ''already force-closed'') (
     rsome (xr_last_sig_hat entry) (SpBadRequest ''no Schnorr pre-sig to adapt'') (\<lambda>sig_hat.
     rsome (xr_last_t entry) (SpBadRequest ''no t to adapt with'') (\<lambda>t.
     rsome (xr_last_state_hash entry) (SpBadRequest ''no last state hash'') (\<lambda>state_hash.
     rsome (xr_last_sig_s entry) (SpBadRequest ''no last ECDSA signature'') (\<lambda>sig_s.
     rsome (decode_sig65 (ev_hex V) vault_sig_u_text) (SpBadRequest ''vaultSigU'') (\<lambda>vault_sig_u.
     rbind (rmap (\<lambda>_. SpInternal ''adapt'') (secp_adapt (ev_secp V) sig_hat t)) (\<lambda>full.
     rbind (rmap (\<lambda>_. SpInternal ''build_onchain_proof'') (build_onchain_proof (ev_secp V) (nk_public (sk_schnorr keys)) state_hash full)) (\<lambda>proof.
       Reply (proof, encode_force_close_bytes (ev_keccak V) cid (xr_balance_c entry) (xr_balance_s entry) (xr_version entry) vault_sig_u sig_s
         (oc_px proof) (oc_e proof) (oc_s proof))))))))))"

definition submit_force_close ::
    "('p, 's) evm_env \<Rightarrow> evm_node \<Rightarrow> ('p, 's) seller_keys \<Rightarrow> address \<Rightarrow> bytes \<Rightarrow> (sp_error, string \<times> transaction_receipt) reply" where
  "submit_force_close V N keys asc_manager calldata =
     rsome (en_chain_id N) (SpChain ''eth_chainId'') (\<lambda>chain_id.
     rsome (evm_signer_from_bytes (ev_keccak V) (ev_ecdsa V) (sk_ecdsa keys) chain_id) (SpInternal ''EvmSigner'') (\<lambda>signer.
     rsome (en_nonce N (sk_address keys)) (SpChain ''eth_getTransactionCount'') (\<lambda>nonce.
     rsome (en_gas_price N) (SpChain ''eth_gasPrice'') (\<lambda>base.
     let priority = (case en_priority_fee N of Some v \<Rightarrow> v | None \<Rightarrow> base);
         params = \<lparr>tp_chain_id = chain_id, tp_nonce = nonce, tp_max_priority_fee_per_gas = priority, tp_max_fee_per_gas = max_fee_of base priority,
           tp_gas_limit = 600000, tp_to = asc_manager, tp_value = 0, tp_data = calldata\<rparr>
     in rsome (en_send_raw N (sign_eip1559 (ev_keccak V) (ev_ecdsa V) signer params)) (SpChain ''eth_sendRawTransaction'') (\<lambda>tx_hash.
        rbind (rmap (\<lambda>_. SpChain ''receipt'') (wait_receipt N tx_hash RECEIPT_MAX_POLLS)) (\<lambda>receipt. Reply (tx_hash, receipt)))))))"

definition post_force_close ::
    "('p, 's) evm_env \<Rightarrow> evm_node \<Rightarrow> string \<Rightarrow> string \<Rightarrow> ('p, 's) sp_state \<Rightarrow> (sp_error, string \<times> u64 \<times> on_chain_proof) reply \<times> ('p, 's) sp_state" where
  "post_force_close V N cid_text vault_sig_u_text S = keep_on_error S (
     rsome (bytes32_parse (ev_hex V) cid_text) (SpBadRequest ''cid'') (\<lambda>cid.
     rsome (get_channel cid (st_channels S)) (SpNotFound ''unknown cid'') (\<lambda>entry.
     rbind (force_close_call V (st_keys S) cid entry vault_sig_u_text) (\<lambda>(proof, calldata).
     rsome (address_parse (ev_hex V) (st_asc_manager S)) (SpInternal ''asc_manager'') (\<lambda>asc_manager.
     rbind (submit_force_close V N (st_keys S) asc_manager calldata) (\<lambda>(tx_hash, receipt).
       Reply ((tx_hash, tr_block_number receipt, proof),
         S\<lparr>st_channels := mutate_channel cid (\<lambda>r. r\<lparr>xr_force_closed := True\<rparr>) (st_channels S)\<rparr>)))))))"

end
