(* ===== verification/Evm_Exchange.thy ===== *)
theory Evm_Exchange
  imports Service_Provider
begin

text \<open>
  The exchange between vault and service provider on an Ethereum channel. Texts that one side
  writes are read by the other; the provider never gives a secret away without the buyer's signature
  on the state it then holds, however its calls overlap; and the steps of an honest exchange.
\<close>

section \<open>Texts\<close>

lemma parse_hex_text [simp]: "hex_laws X \<Longrightarrow> parse_hex X (hex_text X bs) = Some bs"
  by (simp add: parse_hex_def hex_laws_def)

lemma parse_fixed_text [simp]: "hex_laws X \<Longrightarrow> length bs = n \<Longrightarrow> parse_fixed n X (hex_text X bs) = Some bs"
  by (simp add: parse_fixed_def)

lemma parse_b32_text [simp]: "hex_laws X \<Longrightarrow> parse_b32 X (hex_text X (word_bytes b)) = Some b"
  by (simp add: parse_b32_def word_of_bytes_word_bytes)

lemma parse_b33_text [simp]: "hex_laws X \<Longrightarrow> length bs = 33 \<Longrightarrow> parse_b33 X (hex_text X bs) = Some bs"
  by (simp add: parse_b33_def)

lemma decode_sig65_text [simp]: "hex_laws X \<Longrightarrow> length bs = 65 \<Longrightarrow> decode_sig65 X (hex_text X bs) = Some bs"
  by (simp add: decode_sig65_def hex_laws_def)

lemma bytes32_text [simp]: "hex_laws X \<Longrightarrow> bytes32_parse X (bytes32_to_hex X b) = Some b"
  by (simp add: bytes32_parse_def bytes32_to_hex_def hex_laws_def word_of_bytes_word_bytes)

lemma parse_b32_hash [simp]: "hex_laws X \<Longrightarrow> parse_b32 X (bytes32_to_hex X b) = Some b"
  by (simp add: bytes32_to_hex_def)

lemma address_text: "hex_laws X \<Longrightarrow> address_parse X (address_to_hex X a) = Some a"
  by (simp add: address_parse_def address_to_hex_def hex_laws_def word_of_bytes_word_bytes)

lemma parse_show_u128 [simp]: "parse_u128 (show_u128 n) = Some n"
proof -
  obtain c cs where s: "show_nat (unat n) = c # cs" by (cases "show_nat (unat n)") auto
  then have "c \<noteq> CHR ''+''" using digit_not_special [OF show_nat_digits, of c "unat n"] by simp
  moreover have "unat n < 2 ^ 128" using unsigned_less [of n, where ?'a = nat] by simp
  ultimately show ?thesis using read_show [of "unat n"] by (simp add: parse_u128_def show_u128_def s)
qed

section \<open>Signatures\<close>

lemma ecdsa_lawsD:
  "ecdsa_laws D \<Longrightarrow> ec_public D sk = Some xy \<Longrightarrow> ec_sign D sk h = (r, s, v) \<Longrightarrow>
     length r = 32 \<and> length s = 32 \<and> v \<le> 1 \<and> ec_recover D h (r @ s) v = Some xy"
  by (simp add: ecdsa_laws_def)

lemma length_sign_eth:
  "ecdsa_laws D \<Longrightarrow> ec_public D sk = Some xy \<Longrightarrow> length (sign_eth_signed k D sk h) = 65"
  by (auto simp: sign_eth_signed_def dest: ecdsa_lawsD split: prod.splits)

lemma recover_sign_eth:
  assumes "ecdsa_laws D" "ec_public D sk = Some xy"
  shows "recover_eth_signed k D h (sign_eth_signed k D sk h) = Some (address_of_xy k xy)"
proof -
  obtain r s v where sg: "ec_sign D sk (eth_signed_digest k h) = (r, s, v)" by (cases "ec_sign D sk (eth_signed_digest k h)") auto
  note l = ecdsa_lawsD [OF assms sg]
  have "unat v \<le> 1" using l by (simp add: word_le_nat_alt)
  then consider "unat v = unat (0 :: u8)" | "unat v = unat (1 :: u8)" by (cases "unat v") auto
  then have "v = 0 \<or> v = 1" by cases (simp_all only: word_unat_eq_iff, simp_all)
  then have "recovery_id (27 + v) = Some v" by (auto simp: recovery_id_def)
  then show ?thesis using l by (simp add: recover_eth_signed_def sign_eth_signed_def sg nth_append)
qed

lemma encrypt_result_shape:
  "secp_laws C \<Longrightarrow> length iv = 12 \<Longrightarrow> length (er_iv (encrypt_result C iv m t)) = 12 \<and> length (er_tag (encrypt_result C iv m t)) = 16"
  using secp_aes(1) [of C "derive_sym_key C t" iv m] by (simp add: encrypt_result_def Let_def)

lemma random_witness_nonzero: "random_witness C bs = Some (t, T) \<Longrightarrow> t \<noteq> sp_zero C \<and> T = sp_mul C (sp_generator C) t"
  by (induction C bs rule: random_witness.induct) (auto simp: Let_def split: if_splits)

lemma p_sign_with_compressed: "p_sign_with C kp m T k = Some pre \<Longrightarrow> \<exists>p. ps_r_prime pre = sp_compress C (sp_mul C (sp_generator C) p) \<and> p \<noteq> sp_zero C"
  by (auto simp: p_sign_with_def Let_def bind_eq_Some_conv split: if_splits)

lemma length_r_prime: "secp_laws C \<Longrightarrow> p_sign C kp m T draws = Some pre \<Longrightarrow> length (ps_r_prime pre) = 33"
  using p_sign_drawn p_sign_with_compressed by (metis secp_length secp_mul_nonzero)

section \<open>The provider\<close>

text \<open>
  A state that the buyer signed: balances that add up to the deposit, the buyer's and the provider's
  signature on the hash of exactly these balances and this version, and a pre-signature with the
  secret that completes it.
\<close>

definition signed_state :: "('p, 's) evm_env \<Rightarrow> ('p, 's) seller_keys \<Rightarrow> address \<Rightarrow> bytes32 \<Rightarrow> 's evm_channel_record \<Rightarrow> bool" where
  "signed_state V keys mgr cid r \<longleftrightarrow> (\<exists>h sig pre t.
     h = asc_state_hash (ev_keccak V) mgr cid (xr_balance_c r) (xr_balance_s r) (xr_version r)
   \<and> xr_last_state_hash r = Some h
   \<and> xr_last_sig_c r = Some sig \<and> recover_eth_signed (ev_keccak V) (ev_ecdsa V) h sig = Some (xr_buyer r)
   \<and> xr_last_sig_s r = Some (sign_eth_signed (ev_keccak V) (ev_ecdsa V) (sk_ecdsa keys) h)
   \<and> xr_last_sig_hat r = Some pre \<and> xr_last_t r = Some t
   \<and> p_verify (ev_secp V) (nk_public (sk_schnorr keys)) h (sp_mul (ev_secp V) (sp_generator (ev_secp V)) t) pre)"

definition untouched :: "'s evm_channel_record \<Rightarrow> bool" where
  "untouched r \<longleftrightarrow> xr_balance_c r = xr_total_deposit r \<and> xr_balance_s r = 0 \<and> xr_version r = 0"

definition conserves :: "u128 \<Rightarrow> u128 \<Rightarrow> u128 \<Rightarrow> bool" where
  "conserves deposit c s \<longleftrightarrow> checked_add c s = Some deposit"

definition channel_sound :: "('p, 's) evm_env \<Rightarrow> ('p, 's) seller_keys \<Rightarrow> address \<Rightarrow> (bytes32 \<Rightarrow> u128) \<Rightarrow> bytes32 \<Rightarrow> 's evm_channel_record \<Rightarrow> bool" where
  "channel_sound V keys mgr deposits cid r \<longleftrightarrow> xr_total_deposit r = deposits cid \<and> conserves (deposits cid) (xr_balance_c r) (xr_balance_s r)
     \<and> (untouched r \<or> signed_state V keys mgr cid r)"

definition request_sound :: "('p, 's) evm_env \<Rightarrow> ('p, 's) seller_keys \<Rightarrow> address \<Rightarrow> (bytes32 \<Rightarrow> u128) \<Rightarrow> 's pending_request \<Rightarrow> bool" where
  "request_sound V keys mgr deposits q \<longleftrightarrow> conserves (deposits (pq_cid q)) (pq_new_balance_c q) (pq_new_balance_s q)
     \<and> pq_asc_state_hash q = asc_state_hash (ev_keccak V) mgr (pq_cid q) (pq_new_balance_c q) (pq_new_balance_s q) (pq_new_version q)
     \<and> p_verify (ev_secp V) (nk_public (sk_schnorr keys)) (pq_asc_state_hash q) (sp_mul (ev_secp V) (sp_generator (ev_secp V)) (pq_t q)) (pq_sig_hat q)"

text \<open>
  A run of the provider: its state, the requests that were prepared and those that were taken out
  of the store by a call of \<open>finalize\<close> that has not ended. Calls overlap in any way.
\<close>

record ('p, 's) sp_run =
  ru_state :: "('p, 's) sp_state"
  ru_prepared :: "'s pending_request set"
  ru_taken :: "(bytes32 \<times> 's pending_request) set"

text \<open>The chain keeps the deposit of a channel.\<close>

definition keeps_deposits :: "('p, 's) evm_env \<Rightarrow> (bytes32 \<Rightarrow> u128) \<Rightarrow> evm_node \<Rightarrow> bool" where
  "keeps_deposits V deposits N \<longleftrightarrow> (\<forall>c cid st. read_state (ev_keccak V) (ev_hex V) N c cid = Reply st \<longrightarrow> sc_total_deposit st = deposits cid)"

inductive sp_step :: "('p, 's) evm_env \<Rightarrow> (bytes32 \<Rightarrow> u128) \<Rightarrow> ('p, 's) sp_run \<Rightarrow> ('p, 's) sp_run \<Rightarrow> bool" for V deposits where
  register_vault: "post_register_vault V req (ru_state R) = (r, S') \<Longrightarrow> sp_step V deposits R (R\<lparr>ru_state := S'\<rparr>)"
| register: "keeps_deposits V deposits N \<Longrightarrow> post_register V N req (ru_state R) = (r, S') \<Longrightarrow> sp_step V deposits R (R\<lparr>ru_state := S'\<rparr>)"
| prepare: "get_channel cid (st_channels (ru_state R)) = Some c \<Longrightarrow>
    prepare_request V (st_keys (ru_state R)) (st_asc_manager (ru_state R)) draws cid c = Reply (q, T) \<Longrightarrow>
    sp_step V deposits R (R\<lparr>ru_prepared := insert q (ru_prepared R)\<rparr>)"
| park: "q \<in> ru_prepared R \<Longrightarrow> sp_step V deposits R (R\<lparr>ru_state := (ru_state R)\<lparr>st_channels := park_pending q (st_channels (ru_state R))\<rparr>\<rparr>)"
| take: "take_pending cid version (st_channels (ru_state R)) = Some (q, st1) \<Longrightarrow>
    sp_step V deposits R (R\<lparr>ru_state := (ru_state R)\<lparr>st_channels := st1\<rparr>, ru_taken := insert (cid, q) (ru_taken R)\<rparr>)"
| finish: "(cid, q) \<in> ru_taken R \<Longrightarrow> finalize_taken V (st_keys (ru_state R)) cid sig_c q (st_channels (ru_state R)) = (r, st1) \<Longrightarrow>
    sp_step V deposits R (R\<lparr>ru_state := (ru_state R)\<lparr>st_channels := st1\<rparr>\<rparr>)"
| force_close: "post_force_close V N cid sig_u (ru_state R) = (r, S') \<Longrightarrow> sp_step V deposits R (R\<lparr>ru_state := S'\<rparr>)"

definition run_sound :: "('p, 's) evm_env \<Rightarrow> ('p, 's) seller_keys \<Rightarrow> string \<Rightarrow> address \<Rightarrow> (bytes32 \<Rightarrow> u128) \<Rightarrow> ('p, 's) sp_run \<Rightarrow> bool" where
  "run_sound V keys text mgr deposits R \<longleftrightarrow> st_keys (ru_state R) = keys \<and> st_asc_manager (ru_state R) = text
   \<and> (\<forall>cid r. get_channel cid (st_channels (ru_state R)) = Some r \<longrightarrow> channel_sound V keys mgr deposits cid r)
   \<and> (\<forall>k q. dm_get (xs_pending (st_channels (ru_state R))) k = Some q \<longrightarrow> k = (pq_cid q, pq_new_version q) \<and> request_sound V keys mgr deposits q)
   \<and> (\<forall>q\<in>ru_prepared R. request_sound V keys mgr deposits q)
   \<and> (\<forall>(cid, q)\<in>ru_taken R. cid = pq_cid q \<and> request_sound V keys mgr deposits q)"

lemma keep_on_errorE:
  assumes "keep_on_error v r = (x, v')"
  obtains y where "r = Reply (y, v')" "x = Reply y" | "v' = v" "\<And>y. x \<noteq> Reply y"
  using assms by (auto simp: keep_on_error_def split: reply.splits prod.splits)

lemma get_channel_updates [simp]:
  "get_channel c (insert_channel cid r st) = (if c = cid then Some r else get_channel c st)"
  "get_channel c (park_pending q st) = get_channel c st"
  "xs_pending (insert_channel cid r st) = xs_pending st"
  "xs_pending (mutate_channel cid f st) = xs_pending st"
  "get_channel c (mutate_channel cid f st) = (if c = cid then map_option f (get_channel c st) else get_channel c st)"
  by (auto simp: get_channel_def insert_channel_def park_pending_def mutate_channel_def dm_get_insert split: option.splits)

lemma conserves_pay:
  "conserves d c s \<Longrightarrow> \<not> c < p \<Longrightarrow> checked_add s p = Some z \<Longrightarrow> conserves d (c - p) z"
  by (auto simp: conserves_def checked_add_eq_Some_iff unat_sub word_le_nat_alt not_less dest!: checked_add_SomeD)

lemma prepared_sound:
  assumes "secp_laws (ev_secp V)" "keypair_ok (ev_secp V) (sk_schnorr keys)" "address_parse (ev_hex V) text = Some mgr"
    and "channel_sound V keys mgr deposits cid c" "prepare_request V keys text draws cid c = Reply (q, T)"
  shows "request_sound V keys mgr deposits q \<and> pq_cid q = cid \<and> T = sp_mul (ev_secp V) (sp_generator (ev_secp V)) (pq_t q)"
  using assms
  by (auto simp: prepare_request_def reply_iffs Let_def request_sound_def channel_sound_def
      dest!: random_witness_nonzero intro: conserves_pay p_sign_verifies)

lemma finalize_checkD:
  "finalize_check V st q cid text = Reply sig_c \<Longrightarrow> \<exists>c. get_channel cid st = Some c \<and> decode_sig65 (ev_hex V) text = Some sig_c
     \<and> recover_eth_signed (ev_keccak V) (ev_ecdsa V) (pq_asc_state_hash q) sig_c = Some (xr_buyer c)"
  by (auto simp: finalize_check_def reply_iffs)

lemma advanced_sound:
  assumes "channel_sound V keys mgr deposits cid c" "request_sound V keys mgr deposits q" "pq_cid q = cid"
    and "recover_eth_signed (ev_keccak V) (ev_ecdsa V) (pq_asc_state_hash q) sig_c = Some (xr_buyer c)"
  shows "channel_sound V keys mgr deposits cid
      ((advance_channel q sig_c (sign_eth_signed (ev_keccak V) (ev_ecdsa V) (sk_ecdsa keys) (pq_asc_state_hash q)) c)\<lparr>xr_served_requests := n\<rparr>)"
proof -
  have "signed_state V keys mgr cid
      ((advance_channel q sig_c (sign_eth_signed (ev_keccak V) (ev_ecdsa V) (sk_ecdsa keys) (pq_asc_state_hash q)) c)\<lparr>xr_served_requests := n\<rparr>)"
    using assms(2-4) by (auto simp: signed_state_def advance_channel_def request_sound_def)
  then show ?thesis using assms(1-3) by (simp add: channel_sound_def advance_channel_def request_sound_def)
qed

lemma finalize_taken_sound:
  assumes "finalize_taken V keys cid text q st = (r, st1)" "request_sound V keys mgr deposits q" "pq_cid q = cid"
    and "\<And>c. get_channel cid st = Some c \<Longrightarrow> channel_sound V keys mgr deposits cid c"
  shows "xs_pending st1 = xs_pending st" "c' \<noteq> cid \<Longrightarrow> get_channel c' st1 = get_channel c' st"
    "get_channel cid st1 = Some c \<Longrightarrow> channel_sound V keys mgr deposits cid c"
proof -
  have st1: "st1 = st \<or> (\<exists>sig_c n c0. finalize_check V st q cid text = Reply sig_c \<and> get_channel cid st = Some c0 \<and> xs_pending st1 = xs_pending st
      \<and> (\<forall>c'. c' \<noteq> cid \<longrightarrow> get_channel c' st1 = get_channel c' st)
      \<and> get_channel cid st1 = Some ((advance_channel q sig_c (sign_eth_signed (ev_keccak V) (ev_ecdsa V) (sk_ecdsa keys) (pq_asc_state_hash q)) c0)
          \<lparr>xr_served_requests := n\<rparr>))"
  proof (cases "finalize_check V st q cid text")
    case (Reply sig_c)
    with finalize_checkD obtain c0 where c0: "get_channel cid st = Some c0" by blast
    have same: "\<exists>n. advance_channel q x y c0 = (advance_channel q x y c0)\<lparr>xr_served_requests := n\<rparr>" for x y
      by (rule exI [of _ "xr_served_requests c0 + 1"]) (simp add: advance_channel_def)
    from assms(1) Reply c0 same show ?thesis
      by (auto simp: finalize_taken_def Let_def split: if_splits)
  qed (use assms(1) in \<open>auto simp: finalize_taken_def\<close>)
  show "xs_pending st1 = xs_pending st" "c' \<noteq> cid \<Longrightarrow> get_channel c' st1 = get_channel c' st" using st1 by auto
  show "get_channel cid st1 = Some c \<Longrightarrow> channel_sound V keys mgr deposits cid c"
    using st1 assms(2-4) by (auto dest!: finalize_checkD intro: advanced_sound)
qed

lemma register_vault_keeps:
  assumes "post_register_vault V req S = (r, S')"
  shows "st_keys S' = st_keys S" "st_asc_manager S' = st_asc_manager S" "st_channels S' = st_channels S"
  using assms unfolding post_register_vault_def
  by (auto elim!: keep_on_errorE simp: reply_iffs Let_def split_beta)

lemma registerD:
  assumes "post_register V N req S = (r, S')"
  shows "S' = S \<or> (\<exists>cid buyer deposit onchain c. S' = S\<lparr>st_channels := insert_channel cid (evm_channel_record_new buyer (sk_address (st_keys S)) deposit) (st_channels S)\<rparr>
      \<and> read_state (ev_keccak V) (ev_hex V) N c cid = Reply onchain \<and> onchain_matches S onchain buyer deposit)"
proof (rule keep_on_errorE [OF assms [unfolded post_register_def]], goal_cases)
  case (1 y)
  then show ?case by (simp add: reply_iffs) blast
qed simp

lemma new_channel_sound: "channel_sound V keys mgr deposits cid (evm_channel_record_new buyer seller (deposits cid))"
  by (simp add: channel_sound_def conserves_def untouched_def evm_channel_record_new_def)

lemma force_closeD:
  assumes "post_force_close V N cid_text sig S = (r, S')"
  shows "S' = S \<or> (\<exists>cid. S' = S\<lparr>st_channels := mutate_channel cid (\<lambda>r. r\<lparr>xr_force_closed := True\<rparr>) (st_channels S)\<rparr>)"
  using assms unfolding post_force_close_def
  by (auto elim!: keep_on_errorE simp: reply_iffs split: prod.splits)

lemma sound_force_closed [simp]: "channel_sound V keys mgr deposits cid (c\<lparr>xr_force_closed := b\<rparr>) = channel_sound V keys mgr deposits cid c"
  by (simp add: channel_sound_def untouched_def signed_state_def)

lemma sp_step_sound:
  assumes laws: "secp_laws (ev_secp V)" "keypair_ok (ev_secp V) (sk_schnorr keys)" "address_parse (ev_hex V) text = Some mgr"
    and "sp_step V deposits R R'" "run_sound V keys text mgr deposits R"
  shows "run_sound V keys text mgr deposits R'"
  using assms(4,5)
proof cases
  case (register_vault req r S')
  with register_vault_keeps [OF register_vault(2)] assms(5) show ?thesis by (simp add: run_sound_def)
next
  case (register N req r S')
  with registerD [OF register(3)] assms(5) new_channel_sound show ?thesis
    by (auto simp: run_sound_def keeps_deposits_def onchain_matches_def split: if_splits)
next
  case (prepare cid c draws q T)
  with prepared_sound [OF laws, of deposits cid c draws q T] assms(5) show ?thesis by (auto simp: run_sound_def)
next
  case (park q)
  with assms(5) show ?thesis by (auto simp: run_sound_def park_pending_def get_channel_def dm_get_insert split: if_splits)
next
  case (take cid version q st1)
  with assms(5) show ?thesis
    by (fastforce simp: run_sound_def take_pending_def get_channel_def dm_get_remove split: if_splits)
next
  case (finish cid q sig_c r st1)
  from finish assms(5) have q: "request_sound V keys mgr deposits q" "pq_cid q = cid" "st_keys (ru_state R) = keys" by (auto simp: run_sound_def)
  have run: "finalize_taken V keys cid sig_c q (st_channels (ru_state R)) = (r, st1)" using finish q by simp
  note sound = finalize_taken_sound [OF run q(1,2)]
  show ?thesis using finish(1) assms(5) sound unfolding run_sound_def by (simp, metis)
next
  case (force_close N cid sig_u r S')
  with force_closeD [OF force_close(2)] assms(5) show ?thesis
    by (fastforce simp: run_sound_def)
qed

section \<open>The provider holds what it earned\<close>

definition sp_start :: "('p, 's) seller_keys \<Rightarrow> string \<Rightarrow> string \<Rightarrow> ('p, 's) sp_run" where
  "sp_start keys manager vault = \<lparr>ru_state = \<lparr>st_keys = keys, st_vault_registry = [], st_asc_manager = manager, st_vault_addr = vault,
     st_channels = evm_channel_store_new\<rparr>, ru_prepared = {}, ru_taken = {}\<rparr>"

lemma sp_start_sound: "run_sound V keys manager mgr deposits (sp_start keys manager vault)"
  by (simp add: run_sound_def sp_start_def evm_channel_store_new_def get_channel_def)

lemma sp_runs_sound:
  assumes "secp_laws (ev_secp V)" "keypair_ok (ev_secp V) (sk_schnorr keys)" "address_parse (ev_hex V) manager = Some mgr"
    and "(sp_step V deposits)\<^sup>*\<^sup>* (sp_start keys manager vault) R"
  shows "run_sound V keys manager mgr deposits R"
  using assms(4)
  by (induction rule: rtranclp_induct) (use sp_start_sound sp_step_sound [OF assms(1-3)] in auto)

lemma seller_keypair_ok: "seller_keys_from_bytes V secret = Reply keys \<Longrightarrow> keypair_ok (ev_secp V) (sk_schnorr keys)"
  by (auto simp: seller_keys_from_bytes_def reply_iffs dest: derived_keypair_ok)

lemma signed_force_close:
  assumes "secp_laws (ev_secp V)" "signed_state V keys mgr cid r" "\<not> xr_force_closed r" "decode_sig65 (ev_hex V) text = Some sig_u"
  shows "\<exists>proof sig_s. force_close_call V keys cid r text = Reply (proof, encode_force_close_bytes (ev_keccak V) cid (xr_balance_c r) (xr_balance_s r)
      (xr_version r) sig_u sig_s (oc_px proof) (oc_e proof) (oc_s proof))"
proof -
  from assms(2) obtain h sig pre t where s: "xr_last_state_hash r = Some h" "xr_last_sig_s r = Some (sign_eth_signed (ev_keccak V) (ev_ecdsa V) (sk_ecdsa keys) h)"
    "xr_last_sig_hat r = Some pre" "xr_last_t r = Some t"
    "p_verify (ev_secp V) (nk_public (sk_schnorr keys)) h (sp_mul (ev_secp V) (sp_generator (ev_secp V)) t) pre"
    by (auto simp: signed_state_def)
  from verified_adapts [OF assms(1) s(5)] obtain full e where
    "secp_adapt (ev_secp V) pre t = Reply full"
    "build_onchain_proof (ev_secp V) (nk_public (sk_schnorr keys)) h full
       = Reply \<lparr>oc_px = fst (affine_xy (ev_secp V) (nk_public (sk_schnorr keys))), oc_e = sp_to_bytes (ev_secp V) e, oc_s = fl_s full\<rparr>" by metis
  then show ?thesis using s assms(3,4) by (auto simp: force_close_call_def)
qed

section \<open>An honest exchange\<close>

text \<open>Both sides have the same view of a channel.\<close>

definition agree :: "'p client_channel_state \<Rightarrow> 's evm_channel_record \<Rightarrow> bool" where
  "agree entry r \<longleftrightarrow> cc_buyer entry = xr_buyer r \<and> cc_total_deposit entry = xr_total_deposit r \<and> cc_balance_c entry = xr_balance_c r
     \<and> cc_balance_s entry = xr_balance_s r \<and> cc_version entry = xr_version r"

text \<open>The provider as the vault reaches it.\<close>

definition call_finalize :: "('p, 's) evm_env \<Rightarrow> ('p, 's) sp_state \<Rightarrow> bytes32 \<Rightarrow> u64 \<Rightarrow> bytes \<Rightarrow> sp_finalize_resp option" where
  "call_finalize V S cid version sig_c =
     (case fst (post_finalize V (bytes32_to_hex (ev_hex V) cid) version (hex_text (ev_hex V) sig_c) S) of Reply fin \<Rightarrow> Some fin | _ \<Rightarrow> None)"

text \<open>What the vault parks for a request of the provider.\<close>

definition exchange_of :: "'s pending_request \<Rightarrow> 'p \<Rightarrow> 'p pending_exchange" where
  "exchange_of q big_t = \<lparr>pe_new_balance_c = pq_new_balance_c q, pe_new_balance_s = pq_new_balance_s q, pe_new_version = pq_new_version q,
     pe_asc_state_hash = pq_asc_state_hash q, pe_pre_sig = pq_sig_hat q, pe_big_t = big_t, pe_enc_res = pq_enc_res q\<rparr>"

lemma record_eta:
  "\<lparr>ps_r_prime = ps_r_prime x, ps_s_prime = ps_s_prime x\<rparr> = x"
  "\<lparr>er_iv = er_iv e, er_ciphertext = er_ciphertext e, er_tag = er_tag e\<rparr> = e"
  by (cases x, simp) (cases e, simp)

lemma request_exchange_accepts:
  assumes "secp_laws (ev_secp V)" "hex_laws (ev_hex V)"
    and "T \<noteq> sp_identity (ev_secp V)" "length (ps_r_prime (pq_sig_hat q)) = 33" "length (er_iv (pq_enc_res q)) = 12" "length (er_tag (pq_enc_res q)) = 16"
    and "p_verify (ev_secp V) (cc_seller_pubkey entry) (pq_asc_state_hash q) T (pq_sig_hat q)"
    and "conserves (cc_total_deposit entry) (pq_new_balance_c q) (pq_new_balance_s q)" "pq_new_balance_c q < cc_balance_c entry"
    and "checked_add (cc_version entry) 1 = Some (pq_new_version q)"
  shows "request_exchange V entry (Some (atomic_resp V q T)) = Reply (exchange_of q T)"
  using assms by (simp add: request_exchange_def atomic_resp_def conserves_def exchange_of_def secp_length secp_decompress not_le Let_def record_eta)

lemma pay_reveal_accepts:
  assumes "secp_laws (ev_secp V)" "hex_laws (ev_hex V)" "length sig_s = 65"
    and "p_verify (ev_secp V) (cc_seller_pubkey entry) (pq_asc_state_hash q) (sp_mul (ev_secp V) (sp_generator (ev_secp V)) (pq_t q)) (pq_sig_hat q)"
    and "completes (ev_secp V) (pq_sig_hat q) (pq_t q)" "decrypt_result (ev_secp V) (pq_enc_res q) (pq_t q) = Some plain" "ev_utf8 V plain = Some text"
  shows "pay_reveal V entry (exchange_of q (sp_mul (ev_secp V) (sp_generator (ev_secp V)) (pq_t q)))
      (Some \<lparr>fr_t = hex_text (ev_hex V) (word_bytes (sp_to_bytes (ev_secp V) (pq_t q))), fr_sig_s = hex_text (ev_hex V) sig_s\<rparr>) = Reply (text, sig_s)"
proof -
  from verified_adapts [OF assms(1,4)] assms(5) obtain full where
    "secp_adapt (ev_secp V) (pq_sig_hat q) (pq_t q) = Reply full" "verify_full (ev_secp V) (cc_seller_pubkey entry) (pq_asc_state_hash q) full" by metis
  then show ?thesis using assms by (simp add: pay_reveal_def exchange_of_def secp_from_repr)
qed

text \<open>The request that the provider prepares when its draws end both loops.\<close>

definition request_of ::
    "('p, 's) evm_env \<Rightarrow> address \<Rightarrow> sp_draws \<Rightarrow> bytes32 \<Rightarrow> 's evm_channel_record \<Rightarrow> 's \<Rightarrow> secp_pre_signature \<Rightarrow> 's pending_request" where
  "request_of V mgr draws cid r t pre = \<lparr>pq_cid = cid, pq_new_version = xr_version r + 1, pq_new_balance_c = xr_balance_c r - PRICE_USDC_ATOMIC,
     pq_new_balance_s = xr_balance_s r + PRICE_USDC_ATOMIC, pq_t = t, pq_sig_hat = pre,
     pq_enc_res = encrypt_result (ev_secp V) (dr_iv draws) (execute_weather (ucast (xr_served_requests r) + 1)) t,
     pq_asc_state_hash = asc_state_hash (ev_keccak V) mgr cid (xr_balance_c r - PRICE_USDC_ATOMIC) (xr_balance_s r + PRICE_USDC_ATOMIC) (xr_version r + 1)\<rparr>"

lemma checked_add_Suc: "(x :: u64) \<noteq> - 1 \<Longrightarrow> checked_add x 1 = Some (x + 1)"
proof -
  assume "x \<noteq> - 1"
  then have "unat x \<noteq> unat (- 1 :: u64)" by (simp only: word_unat_eq_iff not_False_eq_True)
  moreover have "unat x < 2 ^ 64" using unsigned_less [of x, where ?'a = nat] by simp
  ultimately show "checked_add x 1 = Some (x + 1)" by (simp add: checked_add_def unsigned_minus_1_eq_mask mask_eq_exp_minus_1)
qed

lemma checked_add_covered: "checked_add c s = Some d \<Longrightarrow> \<not> c < p \<Longrightarrow> checked_add s p = Some (s + (p :: u128))"
proof -
  assume "checked_add c s = Some d" "\<not> c < p"
  then have "unat s + unat p \<le> unat d" by (simp add: checked_add_eq_Some_iff word_le_nat_alt not_less)
  also have "unat d < 2 ^ 128" using unsigned_less [of d, where ?'a = nat] by simp
  finally show "checked_add s p = Some (s + p)" by (simp add: checked_add_def)
qed

lemma prepare_request_runs:
  assumes "address_parse (ev_hex V) manager = Some mgr" "\<not> xr_force_closed r" "\<not> xr_balance_c r < PRICE_USDC_ATOMIC" "xr_version r \<noteq> - 1"
    and "conserves deposit (xr_balance_c r) (xr_balance_s r)" "random_witness (ev_secp V) (dr_witness draws) = Some (t, T)"
    and "p_sign (ev_secp V) (sk_schnorr keys) (pq_asc_state_hash (request_of V mgr draws cid r t pre)) T (dr_nonce draws) = Some pre"
  shows "prepare_request V keys manager draws cid r = Reply (request_of V mgr draws cid r t pre, T)"
  using assms checked_add_covered [of "xr_balance_c r" "xr_balance_s r" deposit PRICE_USDC_ATOMIC]
  by (simp add: prepare_request_def request_of_def conserves_def checked_add_Suc Let_def)

lemma take_parked:
  "pq_cid q = cid \<Longrightarrow> pq_new_version q = v \<Longrightarrow> take_pending cid v (park_pending q st)
     = Some (q, st\<lparr>xs_pending := dm_remove (cid, v) (dm_insert (cid, v) q (xs_pending st))\<rparr>)"
  by (auto simp: take_pending_def park_pending_def dm_get_insert)

lemma finalize_taken_runs:
  assumes "hex_laws (ev_hex V)" "get_channel cid st = Some r" "xr_served_requests r \<noteq> - 1" "length sig_c = 65"
    and "recover_eth_signed (ev_keccak V) (ev_ecdsa V) (pq_asc_state_hash q) sig_c = Some (xr_buyer r)"
    and "sig_s = sign_eth_signed (ev_keccak V) (ev_ecdsa V) (sk_ecdsa keys) (pq_asc_state_hash q)"
  shows "finalize_taken V keys cid (hex_text (ev_hex V) sig_c) q st
    = (Reply \<lparr>fr_t = hex_text (ev_hex V) (word_bytes (sp_to_bytes (ev_secp V) (pq_t q))), fr_sig_s = hex_text (ev_hex V) sig_s\<rparr>,
       mutate_channel cid (advance_channel q sig_c sig_s) st)"
  using assms by (simp add: finalize_taken_def finalize_check_def Let_def)

lemma pay_check_runs:
  assumes "hex_laws (ev_hex V)" "cc_pending entry = Some p" "pe_new_version p = version" "length sig_c = 65"
    and "recover_eth_signed (ev_keccak V) (ev_ecdsa V) (pe_asc_state_hash p) sig_c = Some (cc_buyer entry)"
  shows "pay_check V entry version (hex_text (ev_hex V) sig_c) = Reply (p, sig_c)"
  using assms by (simp add: pay_check_def)

lemma price_debits: "\<not> c < PRICE_USDC_ATOMIC \<Longrightarrow> c - PRICE_USDC_ATOMIC < c"
  by (simp add: PRICE_USDC_ATOMIC_def word_less_nat_alt not_less word_le_nat_alt unat_sub)

lemma seller_public: "seller_keys_from_bytes V secret = Reply keys \<Longrightarrow> sk_ecdsa keys = secret \<and> (\<exists>xy. ec_public (ev_ecdsa V) secret = Some xy)"
  by (auto simp: seller_keys_from_bytes_def reply_iffs derive_address_def)


text \<open>
  Vault and provider agree on a channel that can pay one more request, the provider's draws end its
  loops, the pre-signature completes to a non-zero scalar, and the service returns readable text.
\<close>

definition exchange_ready ::
    "('p, 's) evm_env \<Rightarrow> b32 \<Rightarrow> address \<Rightarrow> b32 \<Rightarrow> ('p, 's) sp_state \<Rightarrow> ('p, 's) evm_vault \<Rightarrow> sp_draws \<Rightarrow> bytes32 \<Rightarrow> 's evm_channel_record
       \<Rightarrow> 'p client_channel_state \<Rightarrow> 's \<Rightarrow> 'p \<Rightarrow> secp_pre_signature \<Rightarrow> string \<Rightarrow> bool" where
  "exchange_ready V secret mgr buyer_key S st draws cid r entry t T pre text \<longleftrightarrow>
     (secp_laws (ev_secp V) \<and> hex_laws (ev_hex V) \<and> ecdsa_laws (ev_ecdsa V))
   \<and> (seller_keys_from_bytes V secret = Reply (st_keys S) \<and> address_parse (ev_hex V) (st_asc_manager S) = Some mgr
      \<and> derive_address (ev_keccak V) (ev_ecdsa V) buyer_key = Some (xr_buyer r))
   \<and> (get_channel cid (st_channels S) = Some r \<and> dm_get (vs_clients st) cid = Some entry \<and> agree entry r
      \<and> cc_seller_pubkey entry = nk_public (sk_schnorr (st_keys S)) \<and> conserves (xr_total_deposit r) (xr_balance_c r) (xr_balance_s r))
   \<and> (\<not> xr_force_closed r \<and> \<not> xr_balance_c r < PRICE_USDC_ATOMIC \<and> xr_version r \<noteq> - 1 \<and> xr_served_requests r \<noteq> - 1)
   \<and> (random_witness (ev_secp V) (dr_witness draws) = Some (t, T) \<and> length (dr_iv draws) = 12
      \<and> p_sign (ev_secp V) (sk_schnorr (st_keys S)) (pq_asc_state_hash (request_of V mgr draws cid r t pre)) T (dr_nonce draws) = Some pre
      \<and> completes (ev_secp V) pre t)
   \<and> ev_utf8 V (execute_weather (ucast (xr_served_requests r) + 1)) = Some text"

definition buyer_signature :: "('p, 's) evm_env \<Rightarrow> b32 \<Rightarrow> 's pending_request \<Rightarrow> bytes" where
  "buyer_signature V buyer_key q = sign_eth_signed (ev_keccak V) (ev_ecdsa V) buyer_key (pq_asc_state_hash q)"

definition seller_signature :: "('p, 's) evm_env \<Rightarrow> ('p, 's) seller_keys \<Rightarrow> 's pending_request \<Rightarrow> bytes" where
  "seller_signature V keys q = sign_eth_signed (ev_keccak V) (ev_ecdsa V) (sk_ecdsa keys) (pq_asc_state_hash q)"

definition parked_sp :: "'s pending_request \<Rightarrow> ('p, 's) sp_state \<Rightarrow> ('p, 's) sp_state" where
  "parked_sp q S = S\<lparr>st_channels := park_pending q (st_channels S)\<rparr>"

definition finalized_sp :: "bytes32 \<Rightarrow> 's pending_request \<Rightarrow> bytes \<Rightarrow> bytes \<Rightarrow> ('p, 's) sp_state \<Rightarrow> ('p, 's) sp_state" where
  "finalized_sp cid q sig_c sig_s S = S\<lparr>st_channels := mutate_channel cid (advance_channel q sig_c sig_s) ((st_channels S)\<lparr>xs_pending :=
     dm_remove (cid, pq_new_version q) (dm_insert (cid, pq_new_version q) q (xs_pending (st_channels S)))\<rparr>)\<rparr>"

definition parked_vault :: "bytes32 \<Rightarrow> 'p pending_exchange \<Rightarrow> 'p client_channel_state \<Rightarrow> ('p, 's) evm_vault \<Rightarrow> ('p, 's) evm_vault" where
  "parked_vault cid p entry st = st\<lparr>vs_clients := dm_insert cid (entry\<lparr>cc_pending := Some p\<rparr>) (vs_clients st)\<rparr>"

definition paid_vault :: "bytes32 \<Rightarrow> 'p pending_exchange \<Rightarrow> bytes \<Rightarrow> bytes \<Rightarrow> 'p client_channel_state \<Rightarrow> ('p, 's) evm_vault \<Rightarrow> ('p, 's) evm_vault" where
  "paid_vault cid p sig_c sig_s entry st = (parked_vault cid p entry st)\<lparr>vs_clients := commit_payment cid p sig_c sig_s (vs_clients (parked_vault cid p entry st))\<rparr>"

lemma readyD:
  assumes "exchange_ready V secret mgr buyer_key S st draws cid r entry t T pre text"
  shows "secp_laws (ev_secp V)" "hex_laws (ev_hex V)" "ecdsa_laws (ev_ecdsa V)"
    "get_channel cid (st_channels S) = Some r" "dm_get (vs_clients st) cid = Some entry" "agree entry r"
    "conserves (xr_total_deposit r) (xr_balance_c r) (xr_balance_s r)" "xr_served_requests r \<noteq> - 1"
    "\<not> xr_balance_c r < PRICE_USDC_ATOMIC" "xr_version r \<noteq> - 1" "completes (ev_secp V) pre t"
    "ev_utf8 V (execute_weather (ucast (xr_served_requests r) + 1)) = Some text"
  using assms by (auto simp: exchange_ready_def)

lemma ready_crypto:
  assumes "exchange_ready V secret mgr buyer_key S st draws cid r entry t T pre text"
  shows "T = sp_mul (ev_secp V) (sp_generator (ev_secp V)) t" "T \<noteq> sp_identity (ev_secp V)"
    "p_verify (ev_secp V) (nk_public (sk_schnorr (st_keys S))) (pq_asc_state_hash (request_of V mgr draws cid r t pre)) T pre"
    "cc_seller_pubkey entry = nk_public (sk_schnorr (st_keys S))" "length (ps_r_prime pre) = 33"
    "length (er_iv (pq_enc_res (request_of V mgr draws cid r t pre))) = 12" "length (er_tag (pq_enc_res (request_of V mgr draws cid r t pre))) = 16"
  using assms random_witness_nonzero [of "ev_secp V" "dr_witness draws" t T] secp_mul_nonzero [OF readyD(1) [OF assms]]
    p_sign_verifies [OF readyD(1) [OF assms] seller_keypair_ok] length_r_prime [OF readyD(1) [OF assms]] encrypt_result_shape [OF readyD(1) [OF assms]]
  by (auto simp: exchange_ready_def request_of_def)

lemma ready_signatures:
  assumes "exchange_ready V secret mgr buyer_key S st draws cid r entry t T pre text"
  shows "length (buyer_signature V buyer_key q) = 65" "length (seller_signature V (st_keys S) q) = 65"
    "recover_eth_signed (ev_keccak V) (ev_ecdsa V) (pq_asc_state_hash q) (buyer_signature V buyer_key q) = Some (xr_buyer r)"
proof -
  obtain xy where xy: "ec_public (ev_ecdsa V) buyer_key = Some xy" "address_of_xy (ev_keccak V) xy = xr_buyer r"
    using assms by (auto simp: exchange_ready_def derive_address_def)
  obtain sxy where sxy: "ec_public (ev_ecdsa V) (sk_ecdsa (st_keys S)) = Some sxy" using assms seller_public [of V secret "st_keys S"] by (auto simp: exchange_ready_def)
  note e = readyD(3) [OF assms]
  show "length (buyer_signature V buyer_key q) = 65" "length (seller_signature V (st_keys S) q) = 65"
    "recover_eth_signed (ev_keccak V) (ev_ecdsa V) (pq_asc_state_hash q) (buyer_signature V buyer_key q) = Some (xr_buyer r)"
    using length_sign_eth [OF e xy(1)] recover_sign_eth [OF e xy(1)] xy(2) length_sign_eth [OF e sxy] by (simp_all add: buyer_signature_def seller_signature_def)
qed

lemma exchange_requested:
  assumes "exchange_ready V secret mgr buyer_key S st draws cid r entry t T pre text"
  shows "post_request V draws (bytes32_to_hex (ev_hex V) cid) S
    = (Reply (atomic_resp V (request_of V mgr draws cid r t pre) T), parked_sp (request_of V mgr draws cid r t pre) S)"
  using assms prepare_request_runs [of V "st_asc_manager S" mgr r "xr_total_deposit r" draws t T "st_keys S" cid pre]
  by (simp add: exchange_ready_def post_request_def keep_on_error_def parked_sp_def)

lemma exchange_offered:
  assumes "exchange_ready V secret mgr buyer_key S st draws cid r entry t T pre text"
  shows "post_client_request V (bytes32_to_hex (ev_hex V) cid) (Some (atomic_resp V (request_of V mgr draws cid r t pre) T)) st
    = (Reply (request_envelope V cid entry (exchange_of (request_of V mgr draws cid r t pre) T)),
       parked_vault cid (exchange_of (request_of V mgr draws cid r t pre) T) entry st)"
proof -
  note R = readyD [OF assms] and C = ready_crypto [OF assms]
  have "request_exchange V entry (Some (atomic_resp V (request_of V mgr draws cid r t pre) T)) = Reply (exchange_of (request_of V mgr draws cid r t pre) T)"
    using request_exchange_accepts [OF R(1,2) C(2), of "request_of V mgr draws cid r t pre" entry] C R(6) price_debits [OF R(9)] checked_add_Suc [OF R(10)]
      conserves_pay [OF R(7,9) checked_add_covered [OF R(7) [unfolded conserves_def] R(9)]]
    by (simp add: request_of_def agree_def)
  then show ?thesis using R(2,5) by (simp add: post_client_request_def keep_on_error_def park_exchange_def parked_vault_def)
qed

lemma exchange_finalized:
  assumes "exchange_ready V secret mgr buyer_key S st draws cid r entry t T pre text"
  defines "q \<equiv> request_of V mgr draws cid r t pre"
  shows "post_finalize V (bytes32_to_hex (ev_hex V) cid) (xr_version r + 1) (hex_text (ev_hex V) (buyer_signature V buyer_key q)) (parked_sp q S)
    = (Reply \<lparr>fr_t = hex_text (ev_hex V) (word_bytes (sp_to_bytes (ev_secp V) t)), fr_sig_s = hex_text (ev_hex V) (seller_signature V (st_keys S) q)\<rparr>,
       finalized_sp cid q (buyer_signature V buyer_key q) (seller_signature V (st_keys S) q) S)"
proof -
  note R = readyD [OF assms(1)]
  let ?st = "(st_channels S)\<lparr>xs_pending := dm_remove (cid, xr_version r + 1) (dm_insert (cid, xr_version r + 1) q (xs_pending (st_channels S)))\<rparr>"
  have q: "pq_cid q = cid" "pq_new_version q = xr_version r + 1" "pq_t q = t" by (simp_all add: q_def request_of_def)
  have "get_channel cid ?st = Some r" using R(4) by (simp add: get_channel_def)
  note fin = finalize_taken_runs [OF R(2) this R(8) ready_signatures(1,3) [OF assms(1)], of "seller_signature V (st_keys S) q" "st_keys S" q]
  show ?thesis using R(2) take_parked [OF q(1,2)] fin q by (simp add: post_finalize_def parked_sp_def finalized_sp_def seller_signature_def)
qed

lemma exchange_paid:
  assumes "exchange_ready V secret mgr buyer_key S st draws cid r entry t T pre text"
  defines "q \<equiv> request_of V mgr draws cid r t pre"
  shows "post_client_pay V (bytes32_to_hex (ev_hex V) cid) (xr_version r + 1) (hex_text (ev_hex V) (buyer_signature V buyer_key q))
      (call_finalize V (parked_sp q S)) (parked_vault cid (exchange_of q T) entry st)
    = (Reply \<lparr>py_version = xr_version r + 1, py_plaintext = text, py_new_balance_c = pe_new_balance_c (exchange_of q T),
         py_new_balance_s = pe_new_balance_s (exchange_of q T)\<rparr>,
       paid_vault cid (exchange_of q T) (buyer_signature V buyer_key q) (seller_signature V (st_keys S) q) entry st)"
proof -
  note R = readyD [OF assms(1)] and C = ready_crypto [OF assms(1), folded q_def] and G = ready_signatures [OF assms(1), of q]
  let ?e = "entry\<lparr>cc_pending := Some (exchange_of q T)\<rparr>"
  have q: "pq_new_version q = xr_version r + 1" "pq_t q = t" "pq_sig_hat q = pre" by (simp_all add: q_def request_of_def)
  have "decrypt_result (ev_secp V) (pq_enc_res q) t = Some (execute_weather (ucast (xr_served_requests r) + 1))"
    using decrypt_encrypt_result [OF R(1)] by (simp add: q_def request_of_def)
  then have "pay_reveal V ?e (exchange_of q T) (call_finalize V (parked_sp q S) cid (xr_version r + 1) (buyer_signature V buyer_key q))
      = Reply (text, seller_signature V (st_keys S) q)"
    using pay_reveal_accepts [OF R(1,2) G(2), of ?e q] C R(11,12) q exchange_finalized [OF assms(1), folded q_def] by (simp add: call_finalize_def)
  moreover have "pay_check V ?e (xr_version r + 1) (hex_text (ev_hex V) (buyer_signature V buyer_key q)) = Reply (exchange_of q T, buyer_signature V buyer_key q)"
    using G R(6) q by (intro pay_check_runs [OF R(2)]) (simp_all add: exchange_of_def agree_def)
  ultimately show ?thesis using R(2) q
    by (simp add: post_client_pay_def keep_on_error_def parked_vault_def paid_vault_def dm_get_insert) (simp add: exchange_of_def)
qed

lemma exchange_signed:
  assumes "exchange_ready V secret mgr buyer_key S st draws cid r entry t T pre text"
  defines "q \<equiv> request_of V mgr draws cid r t pre"
  shows "signed_state V (st_keys S) mgr cid (advance_channel q (buyer_signature V buyer_key q) (seller_signature V (st_keys S) q) r)"
  using ready_crypto [OF assms(1), folded q_def] ready_signatures(3) [OF assms(1), of q]
  by (auto simp: signed_state_def advance_channel_def seller_signature_def) (simp_all add: q_def request_of_def)

end
