(* ===== verification/Evm_Properties.thy ===== *)
theory Evm_Properties
  imports Evm_Exchange
begin

text \<open>
  What holds of Ethereum channels: the provider can enforce what it earned, an honest exchange
  completes, the vault's books balance; and three places where the code falls short. The witnesses
  run on a small group of words, a hash that keeps the last 32 bytes, and real hexadecimal text.
\<close>

section \<open>An instance\<close>

definition demo_keccak :: "bytes \<Rightarrow> b32" where
  "demo_keccak bs = word_of_bytes (drop (length bs - 32) bs)"

definition demo_secp :: "(b32, b32) secp" where
  "demo_secp = \<lparr>sp_decompress = (\<lambda>b. if length b = 33 \<and> b ! 0 = 2 \<and> (word_of_bytes (drop 1 b) :: b32) \<noteq> 0 then Some (word_of_bytes (drop 1 b)) else None),
     sp_compress = (\<lambda>p. 2 # word_bytes p), sp_uncompressed = (\<lambda>p. word_bytes p @ word_bytes p), sp_add = (+), sp_mul = (*), sp_generator = 1,
     sp_identity = 0, sp_sadd = (+), sp_ssub = (-), sp_smul = (*), sp_neg = uminus, sp_zero = 0, sp_from_repr = Some, sp_to_bytes = (\<lambda>s. s),
     sp_reduce = (\<lambda>b. b), sp_order = 2 ^ 257, sp_keccak = demo_keccak, sp_aes_encrypt = (\<lambda>k iv m. m @ replicate 16 0),
     sp_aes_decrypt = (\<lambda>k iv c. Some (take (length c - 16) c))\<rparr>"

lemma b32_of_bytes [simp]: "word_of_bytes (word_bytes b) = (b :: b32)"
  by (simp add: word_of_bytes_word_bytes)

lemma demo_secp_laws: "secp_laws demo_secp"
  unfolding secp_laws_def demo_secp_def by (auto simp: algebra_simps)

definition demo_ecdsa :: ecdsa_lib where
  "demo_ecdsa = \<lparr>ec_public = (\<lambda>sk. Some (word_bytes sk @ word_bytes sk)), ec_sign = (\<lambda>sk h. (word_bytes sk, word_bytes h, 0)),
     ec_recover = (\<lambda>h rs v. Some (take 32 rs @ take 32 rs))\<rparr>"

lemma demo_ecdsa_laws: "ecdsa_laws demo_ecdsa"
  by (simp add: ecdsa_laws_def demo_ecdsa_def)

definition demo_evm :: "(b32, b32) evm_env" where
  "demo_evm = \<lparr>ev_secp = demo_secp, ev_hex = demo_hex, ev_ecdsa = demo_ecdsa, ev_utf8 = (\<lambda>bs. Some (map (\<lambda>b. char_of (unat b)) bs))\<rparr>"

lemma demo_evm_laws: "secp_laws (ev_secp demo_evm)" "hex_laws (ev_hex demo_evm)" "ecdsa_laws (ev_ecdsa demo_evm)"
  by (simp_all add: demo_evm_def demo_secp_laws demo_hex_laws demo_ecdsa_laws)


text \<open>
  C3: An honest exchange completes. Let vault and provider agree on a channel that can pay one more
  request. The provider's answer passes all checks of the vault; the buyer signs the state hash it is
  shown; paying with that signature returns exactly the text of the service; afterwards both sides
  agree again, the price has moved, and the provider holds the buyer's signature on the new state.
\<close>

theorem exchange_completes:
  fixes V :: "('p, 's) evm_env" and st :: "('p, 's) evm_vault"
  assumes laws: "secp_laws (ev_secp V)" "hex_laws (ev_hex V)" "ecdsa_laws (ev_ecdsa V)"
    and keys: "seller_keys_from_bytes V secret = Reply (st_keys S)" "address_parse (ev_hex V) (st_asc_manager S) = Some mgr"
    and buyer: "derive_address (ev_keccak V) (ev_ecdsa V) buyer_key = Some (xr_buyer r)"
    and channel: "get_channel cid (st_channels S) = Some r" "dm_get (vs_clients st) cid = Some entry" "agree entry r"
      "cc_seller_pubkey entry = nk_public (sk_schnorr (st_keys S))" "conserves (xr_total_deposit r) (xr_balance_c r) (xr_balance_s r)"
    and able: "\<not> xr_force_closed r" "\<not> xr_balance_c r < PRICE_USDC_ATOMIC" "xr_version r \<noteq> - 1" "xr_served_requests r \<noteq> - 1"
    and draws: "random_witness (ev_secp V) (dr_witness draws) = Some (t, T)" "length (dr_iv draws) = 12"
      "p_sign (ev_secp V) (sk_schnorr (st_keys S)) (pq_asc_state_hash (request_of V mgr draws cid r t pre)) T (dr_nonce draws) = Some pre"
      "completes (ev_secp V) pre t"
    and utf8: "ev_utf8 V (execute_weather (ucast (xr_served_requests r) + 1)) = Some text"
  shows "\<exists>resp S1 env st1 sig_c paid st2 S2 entry2 r2.
      post_request V draws (bytes32_to_hex (ev_hex V) cid) S = (Reply resp, S1)
    \<and> post_client_request V (bytes32_to_hex (ev_hex V) cid) (Some resp) st = (Reply env, st1)
    \<and> sig_c = sign_eth_signed (ev_keccak V) (ev_ecdsa V) buyer_key (rr_asc_state_hash env)
    \<and> post_client_pay V (bytes32_to_hex (ev_hex V) cid) (rr_new_version env) (hex_text (ev_hex V) sig_c) (call_finalize V S1) st1 = (Reply paid, st2)
    \<and> S2 = snd (post_finalize V (bytes32_to_hex (ev_hex V) cid) (rr_new_version env) (hex_text (ev_hex V) sig_c) S1)
    \<and> py_plaintext paid = text
    \<and> dm_get (vs_clients st2) cid = Some entry2 \<and> get_channel cid (st_channels S2) = Some r2 \<and> agree entry2 r2
    \<and> xr_balance_c r2 = xr_balance_c r - PRICE_USDC_ATOMIC \<and> xr_balance_s r2 = xr_balance_s r + PRICE_USDC_ATOMIC \<and> xr_version r2 = xr_version r + 1
    \<and> signed_state V (st_keys S) mgr cid r2"
proof -
  have ready: "exchange_ready V secret mgr buyer_key S st draws cid r entry t T pre text"
    using assms by (simp add: exchange_ready_def)
  let ?q = "request_of V mgr draws cid r t pre" and ?cid = "bytes32_to_hex (ev_hex V) cid"
  let ?p = "exchange_of ?q T :: 'p pending_exchange" and ?c = "buyer_signature V buyer_key ?q" and ?s = "seller_signature V (st_keys S) ?q"
  have env: "rr_new_version (request_envelope V cid entry ?p) = xr_version r + 1" "rr_asc_state_hash (request_envelope V cid entry ?p) = pq_asc_state_hash ?q"
    by (simp_all add: request_envelope_def exchange_of_def request_of_def)
  show ?thesis
  proof (intro exI conjI)
    show "post_request V draws ?cid S = (Reply (atomic_resp V ?q T), parked_sp ?q S)" by (rule exchange_requested [OF ready])
    show "post_client_request V ?cid (Some (atomic_resp V ?q T)) st = (Reply (request_envelope V cid entry ?p), parked_vault cid ?p entry st)"
      by (rule exchange_offered [OF ready])
    show "?c = sign_eth_signed (ev_keccak V) (ev_ecdsa V) buyer_key (rr_asc_state_hash (request_envelope V cid entry ?p))"
      by (simp add: env buyer_signature_def)
    show "post_client_pay V ?cid (rr_new_version (request_envelope V cid entry ?p)) (hex_text (ev_hex V) ?c) (call_finalize V (parked_sp ?q S)) (parked_vault cid ?p entry st)
      = (Reply \<lparr>py_version = xr_version r + 1, py_plaintext = text, py_new_balance_c = pe_new_balance_c ?p, py_new_balance_s = pe_new_balance_s ?p\<rparr>,
         paid_vault cid ?p ?c ?s entry st)" unfolding env by (rule exchange_paid [OF ready])
    show "finalized_sp cid ?q ?c ?s S = snd (post_finalize V ?cid (rr_new_version (request_envelope V cid entry ?p)) (hex_text (ev_hex V) ?c) (parked_sp ?q S))"
      unfolding env exchange_finalized [OF ready] by simp
    show "signed_state V (st_keys S) mgr cid (advance_channel ?q ?c ?s r)" by (rule exchange_signed [OF ready])
  qed (use channel(1,3) in \<open>auto simp: commit_payment_def dm_get_insert agree_def advance_channel_def get_channel_def exchange_of_def request_of_def
       mutate_channel_def paid_vault_def parked_vault_def finalized_sp_def\<close>)
qed

section \<open>Witnesses\<close>

lemma demo_keccak_last [simp]: "32 \<le> length y \<Longrightarrow> demo_keccak (x @ y) = demo_keccak y"
  by (simp add: demo_keccak_def)

lemma demo_keccak_simps [simp]: "32 \<le> length y \<Longrightarrow> demo_keccak (b # y) = demo_keccak y" "demo_keccak (word_bytes (w :: b32)) = w"
  using demo_keccak_last [of y "[b]"] by (simp_all add: demo_keccak_def)

lemma demo_half: "px_lt_half_q demo_secp px"
  using le_nat_less [of "rev (word_bytes px)"] by (simp add: px_lt_half_q_def be_value_def demo_secp_def)

definition demo_seller :: "(b32, b32) seller_keys" where
  "demo_seller = \<lparr>sk_ecdsa = 2 ^ 100, sk_address = 16, sk_schnorr = \<lparr>nk_secret = 2 ^ 100, nk_secret_bytes = 2 ^ 100, nk_public = 2 ^ 100,
     nk_px_bytes = 2 ^ 100, nk_py_bytes = 2 ^ 100, nk_iterations = 0\<rparr>\<rparr>"

lemma demo_reduce [simp]: "scalar_from_bytes_mod_order demo_secp (word_bytes (b :: b32)) = b"
  by (simp add: scalar_from_bytes_mod_order_def) (simp add: demo_secp_def)

lemma demo_affine [simp]: "affine_xy demo_secp p = (p, False)"
  by (simp add: affine_xy_def demo_secp_def)

lemma demo_seller_keys: "seller_keys_from_bytes demo_evm (2 ^ 100) = Reply demo_seller"
proof -
  have "derive_normalized_keypair demo_secp (word_bytes (2 ^ 100 :: b32)) = Reply (sk_schnorr demo_seller)"
    unfolding derive_normalized_keypair_def derive_from.simps numeral_eq_Suc [of "num.Bit0 _"]
    by (simp add: normalize_candidate_def demo_half affine_y_be_bytes_def demo_seller_def, simp add: demo_secp_def)
  moreover have "derive_address (ev_keccak demo_evm) demo_ecdsa (2 ^ 100) = Some 16"
    by (simp add: derive_address_def demo_ecdsa_def address_of_xy_def ev_keccak_def demo_evm_def demo_secp_def)
      (simp add: word_bytes_def word_of_bytes_def)
  ultimately show ?thesis
    by (simp add: seller_keys_from_bytes_def demo_evm_def ev_keccak_def demo_secp_def [THEN arg_cong, of sp_keccak] demo_seller_def)
qed

lemma ev_keccak_demo [simp]: "ev_keccak demo_evm = demo_keccak"
  by (simp add: ev_keccak_def demo_evm_def demo_secp_def)

lemma demo_evm_parts [simp]: "ev_secp demo_evm = demo_secp" "ev_hex demo_evm = demo_hex" "ev_ecdsa demo_evm = demo_ecdsa"
  "ev_utf8 demo_evm = (\<lambda>bs. Some (map (\<lambda>b. char_of (unat b)) bs))"
  by (simp_all add: demo_evm_def)

definition demo_channel :: "b32 evm_channel_record" where
  "demo_channel = evm_channel_record_new 32 16 5000"

definition demo_sp :: "(b32, b32) sp_state" where
  "demo_sp = \<lparr>st_keys = demo_seller, st_vault_registry = [], st_asc_manager = address_to_hex demo_hex 5, st_vault_addr = address_to_hex demo_hex 6,
     st_channels = insert_channel 7 demo_channel evm_channel_store_new\<rparr>"

definition demo_entry :: "b32 client_channel_state" where
  "demo_entry = \<lparr>cc_sp_base_url = [], cc_buyer = 32, cc_seller = 16, cc_seller_pubkey = 2 ^ 100, cc_total_deposit = 5000, cc_balance_c = 5000,
     cc_balance_s = 0, cc_version = 0, cc_pending = None, cc_last_sig_s = None, cc_last_sig_c = None, cc_sp_vault_uid = []\<rparr>"

definition demo_vault :: "(b32, b32) evm_vault" where
  "demo_vault = \<lparr>vs_store = evm_channel_store_new, vs_clients = dm_insert 7 demo_entry []\<rparr>"

definition demo_draws :: sp_draws where
  "demo_draws = \<lparr>dr_witness = [0, 5], dr_nonce = [7], dr_iv = replicate 12 0\<rparr>"

definition demo_pre :: secp_pre_signature where
  "demo_pre = \<lparr>ps_r_prime = 2 # word_bytes (7 :: b32), ps_s_prime = 7\<rparr>"

lemma demo_buyer: "derive_address demo_keccak demo_ecdsa (2 ^ 101) = Some 32"
  by (simp add: derive_address_def demo_ecdsa_def address_of_xy_def) (simp add: word_bytes_def word_of_bytes_def)

lemma demo_challenge: "challenge demo_secp r px m = (if m = 0 then None else Some m)"
proof -
  have "sp_keccak demo_secp = demo_keccak" "sp_zero demo_secp = 0" by (simp_all add: demo_secp_def)
  then show ?thesis by (simp add: challenge_def Let_def)
qed

lemma demo_state_hash: "asc_state_hash demo_keccak a c x y 1 = 2 ^ 248"
proof -
  have "asc_state_hash demo_keccak a c x y 1 = demo_keccak (replicate 24 0 @ rev (word_bytes (1 :: u64)))"
    by (simp add: asc_state_hash_def asc_state_preimage_def)
  also have "\<dots> = 2 ^ 248" by (simp add: demo_keccak_def word_bytes_def word_of_bytes_def le_nat_append)
  finally show ?thesis .
qed

lemma demo_presign: "p_sign demo_secp (sk_schnorr demo_seller) (2 ^ 248) 5 [7] = Some demo_pre"
proof -
  have "p_sign_with demo_secp (sk_schnorr demo_seller) (2 ^ 248) 5 7 = Some demo_pre"
    by (simp add: p_sign_with_def demo_challenge Let_def, simp add: demo_secp_def demo_seller_def demo_pre_def)
  then show ?thesis by simp
qed

lemma demo_witness_draw: "random_witness demo_secp [0, 5] = Some (5, 5)"
  by (simp add: Let_def) (simp add: demo_secp_def)

lemma demo_completes: "completes demo_secp demo_pre 5"
  by (simp add: completes_def demo_secp_def demo_pre_def)

lemma demo_ready_keys:
  "seller_keys_from_bytes demo_evm (2 ^ 100) = Reply (st_keys demo_sp)" "address_parse (ev_hex demo_evm) (st_asc_manager demo_sp) = Some 5"
  "derive_address (ev_keccak demo_evm) (ev_ecdsa demo_evm) (2 ^ 101) = Some (xr_buyer demo_channel)" "get_channel 7 (st_channels demo_sp) = Some demo_channel"
  using demo_seller_keys demo_buyer
  by (simp_all only: demo_sp_def sp_state.select_convs demo_evm_parts address_text [OF demo_hex_laws] ev_keccak_demo demo_channel_def evm_channel_record_new_def
      evm_channel_record.select_convs get_channel_updates if_True simp_thms)

lemma demo_ready_channel:
  "conserves (xr_total_deposit demo_channel) (xr_balance_c demo_channel) (xr_balance_s demo_channel)" "nk_public (sk_schnorr (st_keys demo_sp)) = 2 ^ 100"
  "\<not> xr_force_closed demo_channel" "\<not> xr_balance_c demo_channel < PRICE_USDC_ATOMIC" "xr_version demo_channel \<noteq> - 1" "xr_served_requests demo_channel \<noteq> - 1"
  by (simp_all add: demo_channel_def evm_channel_record_new_def PRICE_USDC_ATOMIC_def conserves_def checked_add_def demo_sp_def demo_seller_def)

lemma demo_ready_draws:
  "random_witness (ev_secp demo_evm) (dr_witness demo_draws) = Some (5, 5)" "length (dr_iv demo_draws) = 12"
  "p_sign (ev_secp demo_evm) (sk_schnorr (st_keys demo_sp)) (pq_asc_state_hash (request_of demo_evm 5 demo_draws 7 demo_channel 5 demo_pre)) 5 (dr_nonce demo_draws)
     = Some demo_pre" "completes (ev_secp demo_evm) demo_pre 5"
  "ev_utf8 demo_evm (execute_weather (ucast (xr_served_requests demo_channel) + 1)) = Some (map (\<lambda>b. char_of (unat b)) (execute_weather 1))"
  using demo_presign demo_witness_draw demo_completes
  by (simp_all add: demo_draws_def demo_sp_def request_of_def demo_channel_def evm_channel_record_new_def demo_state_hash)

lemma demo_agree: "dm_get (vs_clients demo_vault) 7 = Some demo_entry" "agree demo_entry demo_channel" "cc_seller_pubkey demo_entry = 2 ^ 100"
  by (simp_all add: demo_vault_def agree_def demo_entry_def demo_channel_def evm_channel_record_new_def dm_get_insert)

lemma exchange_completes_witness:
  "\<exists>resp S1 env st1 sig_c paid st2.
      post_request demo_evm demo_draws (bytes32_to_hex demo_hex 7) demo_sp = (Reply resp, S1)
    \<and> post_client_request demo_evm (bytes32_to_hex demo_hex 7) (Some resp) demo_vault = (Reply env, st1)
    \<and> post_client_pay demo_evm (bytes32_to_hex demo_hex 7) (rr_new_version env) (hex_text demo_hex sig_c) (call_finalize demo_evm S1) st1 = (Reply paid, st2)
    \<and> py_plaintext paid = map (\<lambda>b. char_of (unat b)) (execute_weather 1)"
  using exchange_completes [OF demo_evm_laws demo_ready_keys demo_agree(1,2) demo_agree(3) [folded demo_ready_channel(2)] demo_ready_channel(1,3-6) demo_ready_draws]
  by (simp only: demo_evm_parts) blast

definition demo_asc :: asc_state where
  "demo_asc = \<lparr>sc_client = 32, sc_provider = 16, sc_balance_c = 5000, sc_balance_s = 0, sc_version = 0, sc_status = 0, sc_created_at = 9,
     sc_total_deposit = 5000\<rparr>"

definition demo_node :: evm_node where
  "demo_node = \<lparr>en_chain_id = None, en_nonce = (\<lambda>_. None), en_gas_price = None, en_priority_fee = None, en_send_transaction = (\<lambda>_ _ _. None),
     en_send_raw = (\<lambda>_. None), en_receipt = (\<lambda>_ _. None), en_call = (\<lambda>_ _. Some (hex_text demo_hex (abi_asc demo_asc)))\<rparr>"

lemma demo_read: "read_state demo_keccak demo_hex demo_node c cid = Reply demo_asc"
  using demo_hex_laws decode_abi_asc [of demo_asc "[]"] by (simp add: read_state_def demo_node_def decode_asc_state_def hex_laws_def)

definition demo_registered :: "(b32, b32) sp_state" where
  "demo_registered = demo_sp\<lparr>st_vault_registry := [(''u'', \<lparr>vr_uid = ''u'', vr_vault_eoa = 6, vr_code_hash = None\<rparr>)]\<rparr>"

abbreviation demo_run :: "(b32, b32) sp_run \<Rightarrow> bool" where
  "demo_run \<equiv> (sp_step demo_evm (\<lambda>_. 5000))\<^sup>*\<^sup>* (sp_start demo_seller (address_to_hex demo_hex 5) (address_to_hex demo_hex 6))"

lemma demo_run_registered: "demo_run \<lparr>ru_state = demo_registered, ru_prepared = {}, ru_taken = {}\<rparr>"
proof -
  let ?R0 = "sp_start demo_seller (address_to_hex demo_hex 5) (address_to_hex demo_hex 6) :: (b32, b32) sp_run"
  let ?S1 = "demo_registered\<lparr>st_channels := evm_channel_store_new\<rparr>"
  have "post_register_vault demo_evm \<lparr>rv_uid = ''u'', rv_vault_eoa = address_to_hex demo_hex 6, rv_code_hash = None\<rparr> (ru_state ?R0) = (Reply 6, ?S1)"
    by (simp add: post_register_vault_def keep_on_error_def sp_start_def address_text [OF demo_hex_laws] code_hash_of_def registry_register_def
        rmap_def demo_registered_def demo_sp_def)
  from sp_step.register_vault [OF this] have one: "sp_step demo_evm (\<lambda>_. 5000) ?R0 (?R0\<lparr>ru_state := ?S1\<rparr>)" .
  have keeps: "keeps_deposits demo_evm (\<lambda>_. 5000) demo_node" by (simp add: keeps_deposits_def demo_read demo_asc_def)
  have "post_register demo_evm demo_node \<lparr>rg_cid = bytes32_to_hex demo_hex 7, rg_buyer = address_to_hex demo_hex 32, rg_total_deposit = show_u128 5000,
      rg_vault_uid = ''u''\<rparr> ?S1 = (Reply 7, demo_registered)"
    by (simp add: post_register_def keep_on_error_def address_text [OF demo_hex_laws] demo_hex_laws registry_get_def demo_registered_def demo_sp_def
        demo_read rmap_def onchain_matches_def demo_asc_def demo_seller_def demo_channel_def)
  then have "sp_step demo_evm (\<lambda>_. 5000) (?R0\<lparr>ru_state := ?S1\<rparr>) (?R0\<lparr>ru_state := demo_registered\<rparr>)"
    using sp_step.register [OF keeps, of _ "?R0\<lparr>ru_state := ?S1\<rparr>"] by simp
  with one show ?thesis by (simp add: sp_start_def converse_rtranclp_into_rtranclp)
qed


definition demo_request :: "b32 pending_request" where
  "demo_request = request_of demo_evm 5 demo_draws 7 demo_channel 5 demo_pre"

definition demo_sig_c :: bytes where
  "demo_sig_c = sign_eth_signed demo_keccak demo_ecdsa (2 ^ 101) (2 ^ 248)"

definition demo_sig_s :: bytes where
  "demo_sig_s = sign_eth_signed demo_keccak demo_ecdsa (2 ^ 100) (2 ^ 248)"

lemma demo_prepared: "prepare_request demo_evm demo_seller (address_to_hex demo_hex 5) demo_draws 7 demo_channel = Reply (demo_request, 5)"
  unfolding demo_request_def
  by (rule prepare_request_runs [where deposit = 5000])
    (use demo_presign demo_witness_draw in \<open>simp_all add: address_text [OF demo_hex_laws] demo_channel_def evm_channel_record_new_def PRICE_USDC_ATOMIC_def
       conserves_def checked_add_def demo_draws_def request_of_def demo_state_hash\<close>)

lemma demo_hash: "pq_asc_state_hash demo_request = 2 ^ 248"
  by (simp add: demo_request_def request_of_def demo_channel_def evm_channel_record_new_def demo_state_hash)

lemma demo_signed: "length demo_sig_c = 65" "recover_eth_signed demo_keccak demo_ecdsa (2 ^ 248) demo_sig_c = Some 32"
proof -
  have xy: "ec_public demo_ecdsa (2 ^ 101) = Some (word_bytes (2 ^ 101 :: b32) @ word_bytes (2 ^ 101 :: b32))" by (simp add: demo_ecdsa_def)
  show "length demo_sig_c = 65" unfolding demo_sig_c_def by (rule length_sign_eth [OF demo_ecdsa_laws xy])
  have "address_of_xy demo_keccak (word_bytes (2 ^ 101 :: b32) @ word_bytes (2 ^ 101 :: b32)) = 32"
    using demo_buyer xy by (simp only: derive_address_def option.map option.inject)
  then show "recover_eth_signed demo_keccak demo_ecdsa (2 ^ 248) demo_sig_c = Some 32"
    using recover_sign_eth [OF demo_ecdsa_laws xy] unfolding demo_sig_c_def by (simp only:)
qed

definition demo_taken :: "b32 evm_channel_store" where
  "demo_taken = (st_channels demo_sp)\<lparr>xs_pending := dm_remove (7, 1) (dm_insert (7, 1) demo_request [])\<rparr>"

lemma demo_finalized:
  "finalize_taken demo_evm demo_seller 7 (hex_text demo_hex demo_sig_c) demo_request demo_taken
   = (Reply \<lparr>fr_t = hex_text demo_hex (word_bytes (5 :: b32)), fr_sig_s = hex_text demo_hex demo_sig_s\<rparr>,
      mutate_channel 7 (advance_channel demo_request demo_sig_c demo_sig_s) demo_taken)"
proof -
  have "get_channel 7 demo_taken = Some demo_channel" by (simp add: demo_taken_def demo_sp_def get_channel_def insert_channel_def dm_get_insert)
  moreover have "sp_to_bytes demo_secp (pq_t demo_request) = 5" by (simp add: demo_request_def request_of_def demo_secp_def)
  ultimately show ?thesis
    using finalize_taken_runs [of demo_evm 7 demo_taken demo_channel demo_sig_c demo_request demo_sig_s demo_seller] demo_signed demo_hex_laws demo_hash
    unfolding demo_evm_parts ev_keccak_demo
    by (simp only: demo_sig_s_def) (simp add: demo_channel_def evm_channel_record_new_def demo_seller_def)
qed

lemma demo_run_paid: "demo_run \<lparr>ru_state = demo_registered\<lparr>st_channels := mutate_channel 7 (advance_channel demo_request demo_sig_c demo_sig_s) demo_taken\<rparr>,
    ru_prepared = {demo_request}, ru_taken = {(7, demo_request)}\<rparr>"
proof -
  have S: "st_keys demo_registered = demo_seller" "st_asc_manager demo_registered = address_to_hex demo_hex 5" "st_channels demo_registered = st_channels demo_sp"
    "get_channel 7 (st_channels demo_sp) = Some demo_channel" by (simp_all add: demo_registered_def demo_sp_def)
  let ?R = "\<lambda>st P Q. \<lparr>ru_state = demo_registered\<lparr>st_channels := st\<rparr>, ru_prepared = P, ru_taken = Q\<rparr> :: (b32, b32) sp_run"
  have q: "pq_cid demo_request = 7" "pq_new_version demo_request = 1"
    by (simp_all add: demo_request_def request_of_def demo_channel_def evm_channel_record_new_def)
  have "demo_run (?R (st_channels demo_sp) {} {})" using demo_run_registered by (simp add: S flip: S(3))
  also have "sp_step demo_evm (\<lambda>_. 5000) (?R (st_channels demo_sp) {} {}) (?R (st_channels demo_sp) {demo_request} {})"
    using sp_step.prepare [of 7 "?R (st_channels demo_sp) {} {}" demo_channel demo_evm demo_draws demo_request 5] demo_prepared by (simp add: S)
  also have "sp_step demo_evm (\<lambda>_. 5000) (?R (st_channels demo_sp) {demo_request} {}) (?R (park_pending demo_request (st_channels demo_sp)) {demo_request} {})"
    using sp_step.park [of demo_request "?R (st_channels demo_sp) {demo_request} {}" demo_evm] by simp
  also have "sp_step demo_evm (\<lambda>_. 5000) (?R (park_pending demo_request (st_channels demo_sp)) {demo_request} {}) (?R demo_taken {demo_request} {(7, demo_request)})"
    using sp_step.take [of 7 1 "?R (park_pending demo_request (st_channels demo_sp)) {demo_request} {}" demo_request demo_taken demo_evm]
      take_parked [OF q, of "st_channels demo_sp"] by (simp add: demo_taken_def demo_sp_def insert_channel_def evm_channel_store_new_def)
  also have "sp_step demo_evm (\<lambda>_. 5000) (?R demo_taken {demo_request} {(7, demo_request)})
      (?R (mutate_channel 7 (advance_channel demo_request demo_sig_c demo_sig_s) demo_taken) {demo_request} {(7, demo_request)})"
    using sp_step.finish [of 7 demo_request "?R demo_taken {demo_request} {(7, demo_request)}" demo_evm "hex_text demo_hex demo_sig_c"] demo_finalized by (simp add: S)
  finally show ?thesis by simp
qed


end
