(* ===== verification/Evm_Ledger.thy ===== *)
theory Evm_Ledger
  imports Evm_Properties
begin

text \<open>
  The vault's books of Ethereum channels, what a payment buys, and where the code falls short of
  its comments: any debit passes for one price, the hash that the client signs is the provider's
  choice, registering a channel again forgets what was earned, overlapping requests serve twice for
  one payment, and a wrong signature uses up a request.
\<close>

section \<open>The vault's books\<close>

text \<open>
  A channel of the vault is sound if its balances add up to the deposit and what is parked was
  checked: it moves value to the provider, by one version, under a valid pre-signature.
\<close>

definition exchange_sound :: "('p, 's) evm_env \<Rightarrow> 'p client_channel_state \<Rightarrow> 'p pending_exchange \<Rightarrow> bool" where
  "exchange_sound V e p \<longleftrightarrow> conserves (cc_total_deposit e) (pe_new_balance_c p) (pe_new_balance_s p) \<and> pe_new_balance_c p < cc_balance_c e
     \<and> checked_add (cc_version e) 1 = Some (pe_new_version p)
     \<and> p_verify (ev_secp V) (cc_seller_pubkey e) (pe_asc_state_hash p) (pe_big_t p) (pe_pre_sig p)"

definition client_sound :: "('p, 's) evm_env \<Rightarrow> 'p client_channel_state \<Rightarrow> bool" where
  "client_sound V e \<longleftrightarrow> conserves (cc_total_deposit e) (cc_balance_c e) (cc_balance_s e) \<and> (\<forall>p. cc_pending e = Some p \<longrightarrow> exchange_sound V e p)
     \<and> (cc_version e = 0 \<or> (cc_last_sig_s e \<noteq> None \<and> cc_last_sig_c e \<noteq> None))"

inductive vault_call :: "('p, 's) evm_env \<Rightarrow> ('p, 's) evm_vault \<Rightarrow> ('p, 's) evm_vault \<Rightarrow> bool" for V where
  open_channel: "post_client_open V N cf random req info vr rg st = (r, st') \<Longrightarrow> vault_call V st st'"
| ask: "post_client_request V cid resp st = (r, st') \<Longrightarrow> vault_call V st st'"
| pay: "post_client_pay V cid version sig_c fin st = (r, st') \<Longrightarrow> vault_call V st st'"
| evm_open: "post_channel_evm_open V N cf random oreq (vs_store st) = (r, xs) \<Longrightarrow> vault_call V st (st\<lparr>vs_store := xs\<rparr>)"

definition vault_start :: "('p, 's) evm_vault" where
  "vault_start = \<lparr>vs_store = evm_channel_store_new, vs_clients = []\<rparr>"

lemma request_exchange_sound: "request_exchange V e resp = Reply p \<Longrightarrow> exchange_sound V e p"
  by (auto simp: request_exchange_def reply_iffs Let_def exchange_sound_def conserves_def)

lemma client_requestD:
  assumes "post_client_request V cid_text resp st = (r, st')"
  shows "st' = st \<or> (\<exists>cid e p. dm_get (vs_clients st) cid = Some e \<and> request_exchange V e resp = Reply p
     \<and> st' = st\<lparr>vs_clients := dm_insert cid (e\<lparr>cc_pending := Some p\<rparr>) (vs_clients st)\<rparr>)"
  using assms unfolding post_client_request_def
  by (auto elim!: keep_on_errorE simp: reply_iffs park_exchange_def) blast

lemma client_payD:
  assumes "post_client_pay V cid_text version sig_text fin st = (r, st')"
  shows "st' = st \<or> (\<exists>cid e p sig_c text sig_s. dm_get (vs_clients st) cid = Some e \<and> pay_check V e version sig_text = Reply (p, sig_c)
     \<and> pay_reveal V e p (fin cid version sig_c) = Reply (text, sig_s)
     \<and> st' = st\<lparr>vs_clients := dm_insert cid (e\<lparr>cc_balance_c := pe_new_balance_c p, cc_balance_s := pe_new_balance_s p, cc_version := pe_new_version p,
         cc_last_sig_s := Some sig_s, cc_last_sig_c := Some sig_c, cc_pending := None\<rparr>) (vs_clients st)\<rparr>)"
  using assms unfolding post_client_pay_def
  by (auto elim!: keep_on_errorE simp: reply_iffs commit_payment_def) blast


lemma client_openD:
  assumes "post_client_open V N cf random req info vr rg st = (r, st')"
  shows "st' = st \<or> (\<exists>cid client seller pk deposit uid. vs_clients st' = dm_insert cid (client_channel_new req client seller pk deposit uid) (vs_clients st))"
  using assms unfolding post_client_open_def
  by (auto elim!: keep_on_errorE simp: reply_iffs) blast

lemma new_client_sound: "client_sound V (client_channel_new req client seller pk deposit uid)"
  by (simp add: client_sound_def client_channel_new_def conserves_def)

lemma pay_checkD:
  assumes "pay_check V e version text = Reply (p, sig_c)"
  shows "cc_pending e = Some p" "pe_new_version p = version" "length sig_c = 65"
    "recover_eth_signed (ev_keccak V) (ev_ecdsa V) (pe_asc_state_hash p) sig_c = Some (cc_buyer e)"
  using assms by (auto simp: pay_check_def reply_iffs)

abbreviation pay_entry :: "'p pending_exchange \<Rightarrow> bytes \<Rightarrow> bytes \<Rightarrow> 'p client_channel_state \<Rightarrow> 'p client_channel_state" where
  "pay_entry p sig_c sig_s e \<equiv> e\<lparr>cc_balance_c := pe_new_balance_c p, cc_balance_s := pe_new_balance_s p, cc_version := pe_new_version p,
     cc_last_sig_s := Some sig_s, cc_last_sig_c := Some sig_c, cc_pending := None\<rparr>"

text \<open>What holds of a new channel and is kept by parking and by paying holds of every channel.\<close>

lemma vault_call_keeps:
  assumes "vault_call V st st'" "\<And>cid e. dm_get (vs_clients st) cid = Some e \<Longrightarrow> P e" "dm_get (vs_clients st') cid = Some e"
    and opened: "\<And>req client seller pk deposit uid. P (client_channel_new req client seller pk deposit uid)"
    and parks: "\<And>e resp p. P e \<Longrightarrow> request_exchange V e resp = Reply p \<Longrightarrow> P (e\<lparr>cc_pending := Some p\<rparr>)"
    and pays: "\<And>e p version text sig_c fin plain sig_s. P e \<Longrightarrow> pay_check V e version text = Reply (p, sig_c) \<Longrightarrow> pay_reveal V e p fin = Reply (plain, sig_s) \<Longrightarrow>
      P (pay_entry p sig_c sig_s e)"
  shows "P e"
  using assms(1)
proof cases
  case (open_channel N cf random req info vr rg r)
  from client_openD [OF this] assms(2,3) opened show ?thesis by (auto simp: dm_get_insert split: if_splits)
next
  case (ask cid' resp r)
  from client_requestD [OF ask] assms(2,3) show ?thesis by (auto simp: dm_get_insert split: if_splits intro!: parks)
next
  case (pay cid' version sig_text fin r)
  from client_payD [OF pay] assms(2,3) show ?thesis by (auto simp: dm_get_insert split: if_splits intro!: pays)
qed (use assms in auto)

lemma vault_calls_keep:
  assumes "(vault_call V)\<^sup>*\<^sup>* vault_start st" "dm_get (vs_clients st) cid = Some e"
    and "\<And>req client seller pk deposit uid. P (client_channel_new req client seller pk deposit uid)"
    and "\<And>e resp p. P e \<Longrightarrow> request_exchange V e resp = Reply p \<Longrightarrow> P (e\<lparr>cc_pending := Some p\<rparr>)"
    and "\<And>e p version text sig_c fin plain sig_s. P e \<Longrightarrow> pay_check V e version text = Reply (p, sig_c) \<Longrightarrow> pay_reveal V e p fin = Reply (plain, sig_s) \<Longrightarrow>
      P (pay_entry p sig_c sig_s e)"
  shows "P e"
  using assms(1,2)
proof (induction arbitrary: cid e rule: rtranclp_induct)
  case (step st st')
  show ?case by (rule vault_call_keeps [OF step.hyps(2) step.IH step.prems assms(3-5)])
qed (simp add: vault_start_def)

lemma vault_calls_sound:
  assumes "(vault_call V)\<^sup>*\<^sup>* vault_start st" "dm_get (vs_clients st) cid = Some e"
  shows "client_sound V e"
  using assms
proof (rule vault_calls_keep)
  fix e resp p
  assume "client_sound V e" "request_exchange V e resp = Reply p"
  then show "client_sound V (e\<lparr>cc_pending := Some p\<rparr>)" using request_exchange_sound [of V e resp p] by (auto simp: client_sound_def exchange_sound_def)
next
  fix e p version sig_text sig_c fin plain sig_s
  assume "client_sound V e" "pay_check V e version sig_text = Reply (p, sig_c)"
  then show "client_sound V (pay_entry p sig_c sig_s e)" using pay_checkD(1) [of V e version sig_text p sig_c] by (auto simp: client_sound_def exchange_sound_def)
qed (rule new_client_sound)

section \<open>Shapes\<close>

definition client_typed :: "'p client_channel_state \<Rightarrow> bool" where
  "client_typed e \<longleftrightarrow> (\<forall>p. cc_pending e = Some p \<longrightarrow> length (ps_r_prime (pe_pre_sig p)) = 33 \<and> length (er_iv (pe_enc_res p)) = 12 \<and> length (er_tag (pe_enc_res p)) = 16)
     \<and> (\<forall>s. cc_last_sig_c e = Some s \<or> cc_last_sig_s e = Some s \<longrightarrow> length s = 65)"

lemma parse_fixed_length: "parse_fixed n X input = Some bs \<Longrightarrow> length bs = n"
  by (auto simp: parse_fixed_def bind_eq_Some_conv split: if_splits)

lemma request_exchange_typed:
  "request_exchange V e resp = Reply p \<Longrightarrow> length (ps_r_prime (pe_pre_sig p)) = 33 \<and> length (er_iv (pe_enc_res p)) = 12 \<and> length (er_tag (pe_enc_res p)) = 16"
  by (auto simp: request_exchange_def reply_iffs Let_def parse_b33_def dest: parse_fixed_length)

lemma length_encode_bytes_tail: "length bs = 65 \<Longrightarrow> length (encode_bytes_tail bs) = 128"
  by (simp add: encode_bytes_tail_def pad_to_32_def)


section \<open>Books\<close>


text \<open>
  C4: A payment buys the result. When \<open>pay\<close> answers, the client had signed the hash of the parked
  exchange, the provider revealed the discrete logarithm \<open>t\<close> of the parked point, the pre-signature
  completed with \<open>t\<close> is a full signature of the provider on that hash, the text is the parked
  ciphertext opened with \<open>t\<close>, and only then have the balances moved; on any error nothing changes.
\<close>

theorem payment_buys_result:
  assumes "post_client_pay V cid_text version sig_text fin st = (r, st')"
  shows "case r of
      Reply paid \<Rightarrow> \<exists>cid e p sig_c sig_s t full plain. bytes32_parse (ev_hex V) cid_text = Some cid \<and> dm_get (vs_clients st) cid = Some e \<and> cc_pending e = Some p
        \<and> pe_new_version p = version \<and> recover_eth_signed (ev_keccak V) (ev_ecdsa V) (pe_asc_state_hash p) sig_c = Some (cc_buyer e)
        \<and> sp_mul (ev_secp V) (sp_generator (ev_secp V)) t = pe_big_t p \<and> secp_adapt (ev_secp V) (pe_pre_sig p) t = Reply full
        \<and> verify_full (ev_secp V) (cc_seller_pubkey e) (pe_asc_state_hash p) full
        \<and> decrypt_result (ev_secp V) (pe_enc_res p) t = Some plain \<and> ev_utf8 V plain = Some (py_plaintext paid)
        \<and> st' = st\<lparr>vs_clients := dm_insert cid (e\<lparr>cc_balance_c := pe_new_balance_c p, cc_balance_s := pe_new_balance_s p, cc_version := version,
            cc_last_sig_s := Some sig_s, cc_last_sig_c := Some sig_c, cc_pending := None\<rparr>) (vs_clients st)\<rparr>
    | _ \<Rightarrow> st' = st"
proof (rule keep_on_errorE [OF assms [unfolded post_client_pay_def]])
  fix y
  assume "rsome (bytes32_parse (ev_hex V) cid_text) (BadRequest ''cid'') (\<lambda>cid. rsome (dm_get (vs_clients st) cid) (NotFound ''unknown cid'') (\<lambda>entry.
     rbind (pay_check V entry version sig_text) (\<lambda>(p, sig_c). rbind (pay_reveal V entry p (fin cid version sig_c)) (\<lambda>(text, sig_s).
       Reply (\<lparr>py_version = pe_new_version p, py_plaintext = text, py_new_balance_c = pe_new_balance_c p, py_new_balance_s = pe_new_balance_s p\<rparr>,
         st\<lparr>vs_clients := commit_payment cid p sig_c sig_s (vs_clients st)\<rparr>))))) = Reply (y, st')" and r: "r = Reply y"
  then obtain cid e p sig_c msg sig_s where c: "bytes32_parse (ev_hex V) cid_text = Some cid" "dm_get (vs_clients st) cid = Some e"
      "pay_check V e version sig_text = Reply (p, sig_c)" "pay_reveal V e p (fin cid version sig_c) = Reply (msg, sig_s)" "py_plaintext y = msg"
      "st' = st\<lparr>vs_clients := commit_payment cid p sig_c sig_s (vs_clients st)\<rparr>"
    by (auto simp: reply_iffs)
  from c(4) obtain t full plain where "sp_mul (ev_secp V) (sp_generator (ev_secp V)) t = pe_big_t p" "secp_adapt (ev_secp V) (pe_pre_sig p) t = Reply full"
      "verify_full (ev_secp V) (cc_seller_pubkey e) (pe_asc_state_hash p) full" "decrypt_result (ev_secp V) (pe_enc_res p) t = Some plain" "ev_utf8 V plain = Some msg"
    unfolding pay_reveal_def by (auto simp: reply_iffs)
  with c pay_checkD [OF c(3)] show ?thesis unfolding r by (simp add: commit_payment_def) metis
qed (auto split: reply.splits)


section \<open>The vault's signature on a state\<close>

lemma signed_context:
  assumes "evm_context V N cf = Reply asc" "ac_signer asc = Some signer"
  shows "\<exists>eoa. cf_vault_eoa cf = Some eoa \<and> address_parse (ev_hex V) eoa = Some (es_address signer)
    \<and> derive_address (ev_keccak V) (ev_ecdsa V) (es_signing_key signer) = Some (es_address signer)"
  using assms
  by (cases "cf_vault_priv cf"; cases "cf_vault_priv cf = Some []")
    (auto simp: evm_context_def try_load_evm_context_def reply_iffs asc_client_new_def asc_client_with_signer_def evm_signer_from_hex_def
      evm_signer_from_bytes_def bind_eq_Some_conv split: option.splits if_splits)

text \<open>
  C20: The vault co-signs only what both sides signed. When it answers with its signature, the channel
  is known, the balances add up to its deposit, buyer and seller have both signed the hash of exactly
  these balances and this version, and the answer is a signature of the configured vault account on
  that hash.
\<close>

theorem vault_cosigns_signed_states:
  assumes "ecdsa_laws (ev_ecdsa V)" "post_channel_evm_state_sig V N cf st req = Reply (h, sig_u)"
  shows "\<exists>cid c s entry asc sig_c sig_s eoa vault. bytes32_parse (ev_hex V) (cq_cid req) = Some cid \<and> parse_u128 (cq_balance_c req) = Some c
    \<and> parse_u128 (cq_balance_s req) = Some s \<and> get_channel cid st = Some entry \<and> conserves (xr_total_deposit entry) c s
    \<and> evm_context V N cf = Reply asc \<and> h = asc_state_hash (ev_keccak V) (ac_address asc) cid c s (cq_version req)
    \<and> recover_eth_signed (ev_keccak V) (ev_ecdsa V) h sig_c = Some (xr_buyer entry)
    \<and> recover_eth_signed (ev_keccak V) (ev_ecdsa V) h sig_s = Some (xr_seller entry)
    \<and> cf_vault_eoa cf = Some eoa \<and> address_parse (ev_hex V) eoa = Some vault \<and> recover_eth_signed (ev_keccak V) (ev_ecdsa V) h sig_u = Some vault"
proof -
  from assms(2) obtain cid c s entry asc signer sig_c sig_s where a: "evm_context V N cf = Reply asc" "ac_signer asc = Some signer"
    "bytes32_parse (ev_hex V) (cq_cid req) = Some cid" "parse_u128 (cq_balance_c req) = Some c" "parse_u128 (cq_balance_s req) = Some s"
    "get_channel cid st = Some entry" "conserves (xr_total_deposit entry) c s" "h = asc_state_hash (ev_keccak V) (ac_address asc) cid c s (cq_version req)"
    "recover_eth_signed (ev_keccak V) (ev_ecdsa V) h sig_c = Some (xr_buyer entry)" "recover_eth_signed (ev_keccak V) (ev_ecdsa V) h sig_s = Some (xr_seller entry)"
    "sig_u = sign_eth_signed (ev_keccak V) (ev_ecdsa V) (es_signing_key signer) h"
    by (auto simp: post_channel_evm_state_sig_def reply_iffs Let_def conserves_def)
  from signed_context [OF a(1,2)] obtain eoa xy where e: "cf_vault_eoa cf = Some eoa" "address_parse (ev_hex V) eoa = Some (es_address signer)"
    "ec_public (ev_ecdsa V) (es_signing_key signer) = Some xy" "address_of_xy (ev_keccak V) xy = es_address signer"
    by (auto simp: derive_address_def)
  have "recover_eth_signed (ev_keccak V) (ev_ecdsa V) h sig_u = Some (es_address signer)"
    using recover_sign_eth [OF assms(1) e(3)] e(4) a(11) by simp
  with a e show ?thesis by blast
qed

section \<open>What the vault does not check\<close>


text \<open>
  Registering again forgets what was earned. Any caller that names a registered vault can register
  a channel that is already in use, for the contract still shows it open: the provider's record is
  replaced by a new one, its balance is zero, its signatures are gone and a forced close is refused.
\<close>

theorem reregistration_forgets:
  fixes V :: "('p, 's) evm_env" and S :: "('p, 's) sp_state"
  assumes "hex_laws (ev_hex V)" "address_parse (ev_hex V) (st_asc_manager S) = Some mgr" "address_parse (ev_hex V) (st_vault_addr S) = Some vault"
    and "registry_get (st_vault_registry S) uid = Some known" "get_channel cid (st_channels S) = Some r"
    and "read_state (ev_keccak V) (ev_hex V) N (asc_client_new mgr vault) cid = Reply onchain"
    and "onchain_matches S onchain (xr_buyer r) (xr_total_deposit r)"
  shows "\<exists>S' r'. post_register V N \<lparr>rg_cid = bytes32_to_hex (ev_hex V) cid, rg_buyer = address_to_hex (ev_hex V) (xr_buyer r),
        rg_total_deposit = show_u128 (xr_total_deposit r), rg_vault_uid = uid\<rparr> S = (Reply cid, S')
    \<and> get_channel cid (st_channels S') = Some r' \<and> xr_balance_s r' = 0 \<and> xr_balance_c r' = xr_total_deposit r \<and> xr_version r' = 0
    \<and> xr_last_sig_c r' = None \<and> force_close_call V (st_keys S') cid r' sig_u = Fail (SpBadRequest ''no Schnorr pre-sig to adapt'')"
proof -
  have "post_register V N \<lparr>rg_cid = bytes32_to_hex (ev_hex V) cid, rg_buyer = address_to_hex (ev_hex V) (xr_buyer r),
        rg_total_deposit = show_u128 (xr_total_deposit r), rg_vault_uid = uid\<rparr> S
      = (Reply cid, S\<lparr>st_channels := insert_channel cid (evm_channel_record_new (xr_buyer r) (sk_address (st_keys S)) (xr_total_deposit r)) (st_channels S)\<rparr>)"
    using assms address_text [OF assms(1)] by (simp add: post_register_def keep_on_error_def rmap_def)
  then show ?thesis by (simp add: evm_channel_record_new_def force_close_call_def)
qed


text \<open>Requests prepared from the same record differ in secret and result, not in the state to be signed.\<close>

lemma prepared_same_state:
  assumes "prepare_request V keys mgr d cid r = Reply (q, T)" "prepare_request V keys mgr d' cid r = Reply (q', T')"
  shows "pq_asc_state_hash q' = pq_asc_state_hash q \<and> pq_cid q = cid \<and> pq_cid q' = cid \<and> pq_new_version q' = pq_new_version q
    \<and> pq_new_balance_c q' = pq_new_balance_c q \<and> pq_new_balance_s q' = pq_new_balance_s q \<and> pq_new_balance_s q = xr_balance_s r + PRICE_USDC_ATOMIC"
  using assms by (auto simp: prepare_request_def reply_iffs Let_def checked_add_def split: if_splits)

lemma served_room: "unat (n :: u32) + 2 < 2 ^ 32 \<Longrightarrow> n \<noteq> - 1 \<and> n + 1 \<noteq> - 1"
  by (auto simp: word_unat_eq_iff unat_word_ariths unsigned_minus_1_eq_mask mask_eq_exp_minus_1)

text \<open>
  C40: One payment, two results. Two requests that are prepared before either is paid lead to the same
  state. If the second is parked after the first is paid, the one signature of the buyer takes both:
  the provider reveals both secrets, counts two served requests and has earned one price.
\<close>

theorem one_payment_two_results:
  fixes V :: "('p, 's) evm_env"
  assumes "hex_laws (ev_hex V)" "get_channel cid st = Some r" "unat (xr_served_requests r) + 2 < 2 ^ 32"
    and "prepare_request V keys mgr d1 cid r = Reply (q1, T1)" "prepare_request V keys mgr d2 cid r = Reply (q2, T2)"
    and "length sig_c = 65" "recover_eth_signed (ev_keccak V) (ev_ecdsa V) (pq_asc_state_hash q1) sig_c = Some (xr_buyer r)"
  shows "\<exists>st1 f1 st2 st3 f2 st4 r4. take_pending cid (pq_new_version q1) (park_pending q1 st) = Some (q1, st1)
    \<and> finalize_taken V keys cid (hex_text (ev_hex V) sig_c) q1 st1 = (Reply f1, st2)
    \<and> take_pending cid (pq_new_version q1) (park_pending q2 st2) = Some (q2, st3)
    \<and> finalize_taken V keys cid (hex_text (ev_hex V) sig_c) q2 st3 = (Reply f2, st4)
    \<and> fr_t f1 = hex_text (ev_hex V) (word_bytes (sp_to_bytes (ev_secp V) (pq_t q1))) \<and> fr_t f2 = hex_text (ev_hex V) (word_bytes (sp_to_bytes (ev_secp V) (pq_t q2)))
    \<and> get_channel cid st4 = Some r4 \<and> xr_served_requests r4 = xr_served_requests r + 2 \<and> xr_balance_s r4 = xr_balance_s r + PRICE_USDC_ATOMIC"
proof -
  note same = prepared_same_state [OF assms(4,5)]
  let ?v = "pq_new_version q1" and ?h = "pq_asc_state_hash q1"
  define sig_s where "sig_s = sign_eth_signed (ev_keccak V) (ev_ecdsa V) (sk_ecdsa keys) ?h"
  define st1 where "st1 = st\<lparr>xs_pending := dm_remove (cid, ?v) (dm_insert (cid, ?v) q1 (xs_pending st))\<rparr>"
  define st2 where "st2 = mutate_channel cid (advance_channel q1 sig_c sig_s) st1"
  define st3 where "st3 = st2\<lparr>xs_pending := dm_remove (cid, ?v) (dm_insert (cid, ?v) q2 (xs_pending st2))\<rparr>"
  have served: "xr_served_requests r \<noteq> - 1" "xr_served_requests r + 1 \<noteq> - 1" using served_room [OF assms(3)] by auto
  have g: "get_channel cid st1 = Some r" "get_channel cid st3 = Some (advance_channel q1 sig_c sig_s r)"
    using assms(2) by (simp_all add: st3_def st2_def st1_def get_channel_def mutate_channel_def dm_get_insert)
  have "take_pending cid ?v (park_pending q1 st) = Some (q1, st1)" "take_pending cid ?v (park_pending q2 st2) = Some (q2, st3)"
    using take_parked same by (auto simp: st1_def st3_def)
  moreover have "finalize_taken V keys cid (hex_text (ev_hex V) sig_c) q1 st1
      = (Reply \<lparr>fr_t = hex_text (ev_hex V) (word_bytes (sp_to_bytes (ev_secp V) (pq_t q1))), fr_sig_s = hex_text (ev_hex V) sig_s\<rparr>, st2)"
    using finalize_taken_runs [OF assms(1) g(1) served(1) assms(6,7) sig_s_def] by (simp add: st2_def)
  moreover have "finalize_taken V keys cid (hex_text (ev_hex V) sig_c) q2 st3
      = (Reply \<lparr>fr_t = hex_text (ev_hex V) (word_bytes (sp_to_bytes (ev_secp V) (pq_t q2))), fr_sig_s = hex_text (ev_hex V) sig_s\<rparr>,
         mutate_channel cid (advance_channel q2 sig_c sig_s) st3)"
    using finalize_taken_runs [OF assms(1) g(2), of sig_c q2 sig_s keys] served(2) assms(6,7) same by (simp add: advance_channel_def sig_s_def)
  ultimately show ?thesis using same g(2) by (simp add: advance_channel_def)
qed

text \<open>A wrong signature uses up a request: it is taken out of the store before the signature is read.\<close>

lemma wrong_signature_uses_up:
  assumes "bytes32_parse (ev_hex V) cid_text = Some cid" "take_pending cid version (st_channels S) = Some (q, st1)"
    and "\<And>sig_c. finalize_check V st1 q cid sig_text \<noteq> Reply sig_c"
  shows "take_pending cid version (st_channels (snd (post_finalize V cid_text version sig_text S))) = None"
proof -
  have "snd (post_finalize V cid_text version sig_text S) = S\<lparr>st_channels := st1\<rparr>"
  proof (cases "finalize_check V st1 q cid sig_text")
    case (Reply sig_c)
    with assms(3) show ?thesis by blast
  qed (use assms(1,2) in \<open>simp_all add: post_finalize_def finalize_taken_def\<close>)
  then show ?thesis using assms(2) by (auto simp: take_pending_def dm_get_remove)
qed


section \<open>Witnesses\<close>

lemma demo_ready:
  assumes "dm_get (vs_clients st) 7 = Some e" "agree e demo_channel" "cc_seller_pubkey e = 2 ^ 100"
  shows "exchange_ready demo_evm (2 ^ 100) 5 (2 ^ 101) demo_sp st demo_draws 7 demo_channel e 5 5 demo_pre (map (\<lambda>b. char_of (unat b)) (execute_weather 1))"
  unfolding exchange_ready_def by (intro conjI assms demo_evm_laws demo_ready_keys demo_ready_channel demo_ready_draws) (simp only: assms demo_ready_channel)

lemma payment_buys_result_witness:
  "\<exists>version sig_text fin st paid st' t plain (p :: b32 pending_exchange). post_client_pay demo_evm (bytes32_to_hex demo_hex 7) version sig_text fin st = (Reply paid, st')
    \<and> sp_mul demo_secp (sp_generator demo_secp) t = pe_big_t p
    \<and> decrypt_result demo_secp (pe_enc_res p) t = Some plain \<and> map (\<lambda>b. char_of (unat b)) plain = py_plaintext paid"
proof -
  obtain version sig_text fin st paid st' where pay: "post_client_pay demo_evm (bytes32_to_hex demo_hex 7) version sig_text fin st = (Reply paid, st')"
    using exchange_paid [OF demo_ready [OF demo_agree]] unfolding demo_evm_parts by blast
  from payment_buys_result [OF pay] obtain p :: "b32 pending_exchange" and t plain where "sp_mul demo_secp (sp_generator demo_secp) t = pe_big_t p"
    "decrypt_result demo_secp (pe_enc_res p) t = Some plain" "Some (map (\<lambda>b. char_of (unat b)) plain) = Some (py_plaintext paid)"
    unfolding demo_evm_parts reply.case by blast
  with pay show ?thesis by blast
qed

definition demo_open_node :: evm_node where
  "demo_open_node = demo_node\<lparr>en_send_transaction := (\<lambda>_ _ _. Some ''0xab''),
     en_receipt := (\<lambda>n _. if n = 0 then Some None else Some (Some \<lparr>tr_block_number = 3, tr_status = Some 1\<rparr>))\<rparr>"

definition demo_open :: client_open_request where
  "demo_open = \<lparr>co_client = address_to_hex demo_hex 32, co_sp_base_url = ''http://sp/'', co_deposit = show_u128 5000, co_cid = Some (bytes32_to_hex demo_hex 7)\<rparr>"

definition demo_opened :: "b32 client_channel_state" where
  "demo_opened = client_channel_new demo_open 32 16 (2 ^ 100) 5000 (''vault-'' @ address_to_hex demo_hex 6)"

lemma demo_open_runs:
  "\<exists>r st. post_client_open demo_evm demo_open_node \<lparr>cf_manager = Some (address_to_hex demo_hex 5), cf_vault_eoa = Some (address_to_hex demo_hex 6), cf_vault_priv = None\<rparr> 0
     demo_open (Some \<lparr>si_address = address_to_hex demo_hex 16, si_schnorr_px = hex_text demo_hex (word_bytes (2 ^ 100 :: b32))\<rparr>) True True vault_start = (r, st)
   \<and> vs_clients st = dm_insert 7 demo_opened []"
proof -
  have ctx: "client_context demo_evm demo_open_node \<lparr>cf_manager = Some (address_to_hex demo_hex 5), cf_vault_eoa = Some (address_to_hex demo_hex 6), cf_vault_priv = None\<rparr>
      = Reply (asc_client_new 5 6)"
    by (simp add: client_context_def try_load_evm_context_def address_text [OF demo_hex_laws]) (simp add: address_to_hex_def hex_text_def)
  have px: "reconstruct_seller_pubkey demo_secp demo_hex (hex_text demo_hex (word_bytes (2 ^ 100 :: b32))) = Some (2 ^ 100)"
    using parse_fixed_text [OF demo_hex_laws, of "word_bytes (2 ^ 100 :: b32)" 32] unfolding reconstruct_seller_pubkey_def
    by (simp del: parse_fixed_text) (simp add: demo_secp_def)
  have tx: "create_asc demo_keccak demo_ecdsa demo_hex demo_open_node (asc_client_new 5 6) 7 32 16 5000 = Reply ''0xab''"
    by (simp add: create_asc_def submit_calldata_def asc_client_new_def demo_open_node_def)
  have rc: "wait_receipt demo_open_node ''0xab'' RECEIPT_MAX_POLLS = Reply \<lparr>tr_block_number = 3, tr_status = Some 1\<rparr>"
    unfolding wait_receipt_def RECEIPT_MAX_POLLS_def by (simp add: numeral_eq_Suc demo_open_node_def)
  show ?thesis unfolding post_client_open_def ctx
    using tx rc px by (simp add: keep_on_error_def demo_open_def address_text [OF demo_hex_laws] demo_hex_laws channel_id_of_def vault_start_def demo_opened_def asc_client_new_def)
qed

lemma demo_vault_run:
  "\<exists>st. (vault_call demo_evm)\<^sup>*\<^sup>* vault_start st
     \<and> dm_get (vs_clients st) 7 = Some (demo_opened\<lparr>cc_pending := Some (exchange_of (request_of demo_evm 5 demo_draws 7 demo_channel 5 demo_pre) 5)\<rparr>)"
proof -
  obtain r st where o: "post_client_open demo_evm demo_open_node \<lparr>cf_manager = Some (address_to_hex demo_hex 5), cf_vault_eoa = Some (address_to_hex demo_hex 6), cf_vault_priv = None\<rparr> 0
     demo_open (Some \<lparr>si_address = address_to_hex demo_hex 16, si_schnorr_px = hex_text demo_hex (word_bytes (2 ^ 100 :: b32))\<rparr>) True True vault_start = (r, st)"
    "vs_clients st = dm_insert 7 demo_opened []" using demo_open_runs by blast
  have e: "dm_get (vs_clients st) 7 = Some demo_opened" "agree demo_opened demo_channel" "cc_seller_pubkey demo_opened = 2 ^ 100"
    by (simp_all add: o(2) dm_get_insert agree_def demo_opened_def client_channel_new_def demo_channel_def evm_channel_record_new_def)
  let ?p = "exchange_of (request_of demo_evm 5 demo_draws 7 demo_channel 5 demo_pre) 5 :: b32 pending_exchange"
  let ?st = "parked_vault 7 ?p demo_opened st" and ?e = "demo_opened\<lparr>cc_pending := Some ?p\<rparr>"
  have "(vault_call demo_evm)\<^sup>*\<^sup>* vault_start ?st"
    using vault_call.open_channel [OF o(1)] vault_call.ask [OF exchange_offered [OF demo_ready [OF e]]] by (meson r_into_rtranclp rtranclp_trans)
  moreover have "dm_get (vs_clients ?st) 7 = Some ?e" by (simp add: parked_vault_def dm_get_insert)
  ultimately show ?thesis by blast
qed




lemma reregistration_forgets_witness:
  "\<exists>S r S' r'. get_channel 7 (st_channels S) = Some r \<and> xr_balance_s r = 1000
    \<and> post_register demo_evm demo_node \<lparr>rg_cid = bytes32_to_hex demo_hex 7, rg_buyer = address_to_hex demo_hex (xr_buyer r),
        rg_total_deposit = show_u128 (xr_total_deposit r), rg_vault_uid = ''u''\<rparr> S = (Reply 7, S')
    \<and> get_channel 7 (st_channels S') = Some r' \<and> xr_balance_s r' = 0"
proof -
  let ?r = "advance_channel demo_request demo_sig_c demo_sig_s demo_channel" and ?S = "demo_registered\<lparr>st_channels := mutate_channel 7 (advance_channel demo_request demo_sig_c demo_sig_s) demo_taken\<rparr>"
  have r: "get_channel 7 (st_channels ?S) = Some ?r" "xr_balance_s ?r = 1000" "onchain_matches ?S demo_asc (xr_buyer ?r) (xr_total_deposit ?r)"
    by (simp_all add: demo_taken_def demo_sp_def get_channel_def insert_channel_def dm_get_insert mutate_channel_def advance_channel_def demo_request_def
        request_of_def demo_channel_def evm_channel_record_new_def PRICE_USDC_ATOMIC_def onchain_matches_def demo_asc_def demo_registered_def demo_seller_def)
  have S: "address_parse (ev_hex demo_evm) (st_asc_manager ?S) = Some 5" "address_parse (ev_hex demo_evm) (st_vault_addr ?S) = Some 6"
    "registry_get (st_vault_registry ?S) ''u'' = Some \<lparr>vr_uid = ''u'', vr_vault_eoa = 6, vr_code_hash = None\<rparr>"
    "read_state (ev_keccak demo_evm) (ev_hex demo_evm) demo_node (asc_client_new 5 6) 7 = Reply demo_asc"
    by (simp_all add: demo_registered_def demo_sp_def address_text [OF demo_hex_laws] registry_get_def demo_read)
  from reregistration_forgets [OF demo_evm_laws(2) S(1-3) r(1) S(4) r(3)] r(1,2) show ?thesis unfolding demo_evm_parts by blast
qed

definition demo_second :: sp_draws where
  "demo_second = demo_draws\<lparr>dr_witness := [9]\<rparr>"

lemma demo_prepared_second:
  "prepare_request demo_evm demo_seller (address_to_hex demo_hex 5) demo_second 7 demo_channel = Reply (request_of demo_evm 5 demo_second 7 demo_channel 9 demo_pre, 9)"
proof (rule prepare_request_runs [where deposit = 5000])
  have "p_sign_with demo_secp (sk_schnorr demo_seller) (2 ^ 248) 9 7 = Some demo_pre"
    by (simp add: p_sign_with_def demo_challenge Let_def, simp add: demo_secp_def demo_seller_def demo_pre_def)
  then show "p_sign (ev_secp demo_evm) (sk_schnorr demo_seller) (pq_asc_state_hash (request_of demo_evm 5 demo_second 7 demo_channel 9 demo_pre)) 9 (dr_nonce demo_second) = Some demo_pre"
    by (simp add: demo_second_def demo_draws_def request_of_def demo_channel_def evm_channel_record_new_def demo_state_hash)
  show "random_witness (ev_secp demo_evm) (dr_witness demo_second) = Some (9, 9)" by (simp add: demo_second_def Let_def) (simp add: demo_secp_def)
qed (simp_all add: address_text [OF demo_hex_laws] demo_channel_def evm_channel_record_new_def PRICE_USDC_ATOMIC_def conserves_def checked_add_def)

lemma one_payment_two_results_witness:
  "\<exists>st1 f1 st2 st3 f2 st4 r4. finalize_taken demo_evm demo_seller 7 (hex_text demo_hex demo_sig_c) demo_request st1 = (Reply f1, st2)
    \<and> finalize_taken demo_evm demo_seller 7 (hex_text demo_hex demo_sig_c) (request_of demo_evm 5 demo_second 7 demo_channel 9 demo_pre) st3 = (Reply f2, st4)
    \<and> get_channel 7 st4 = Some r4 \<and> xr_served_requests r4 = 2 \<and> xr_balance_s r4 = 1000"
proof -
  have r: "unat (xr_served_requests demo_channel) + 2 < 2 ^ 32" "xr_served_requests demo_channel = 0" "xr_balance_s demo_channel + PRICE_USDC_ATOMIC = 1000"
    by (simp_all add: demo_channel_def evm_channel_record_new_def PRICE_USDC_ATOMIC_def)
  have signed: "recover_eth_signed (ev_keccak demo_evm) (ev_ecdsa demo_evm) (pq_asc_state_hash demo_request) demo_sig_c = Some (xr_buyer demo_channel)"
    unfolding demo_hash demo_evm_parts ev_keccak_demo demo_signed by (simp add: demo_channel_def evm_channel_record_new_def)
  from one_payment_two_results [OF demo_evm_laws(2) demo_ready_keys(4) r(1) demo_prepared demo_prepared_second demo_signed(1) signed] show ?thesis
    unfolding r(2,3) demo_evm_parts by (simp only: add_0) blast
qed




definition demo_signing :: evm_config where
  "demo_signing = \<lparr>cf_manager = Some (address_to_hex demo_hex 5), cf_vault_eoa = Some (address_to_hex demo_hex 16),
     cf_vault_priv = Some (hex_text demo_hex (word_bytes (2 ^ 100 :: b32)))\<rparr>"

definition demo_state_request :: channel_state_request where
  "demo_state_request = \<lparr>cq_cid = bytes32_to_hex demo_hex 7, cq_balance_c = show_u128 4000, cq_balance_s = show_u128 1000, cq_version = 1,
     cq_sig_c = hex_text demo_hex demo_sig_c, cq_sig_s = hex_text demo_hex demo_sig_s\<rparr>"

lemma demo_seller_address: "derive_address demo_keccak demo_ecdsa (2 ^ 100) = Some 16"
  by (simp add: derive_address_def demo_ecdsa_def address_of_xy_def) (simp add: word_bytes_def word_of_bytes_def)

lemma demo_seller_signed: "length demo_sig_s = 65" "recover_eth_signed demo_keccak demo_ecdsa (2 ^ 248) demo_sig_s = Some 16"
proof -
  obtain xy where xy: "ec_public demo_ecdsa (2 ^ 100) = Some xy" "address_of_xy demo_keccak xy = 16" using demo_seller_address unfolding derive_address_def by blast
  show "length demo_sig_s = 65" "recover_eth_signed demo_keccak demo_ecdsa (2 ^ 248) demo_sig_s = Some 16"
    using length_sign_eth [OF demo_ecdsa_laws xy(1)] recover_sign_eth [OF demo_ecdsa_laws xy(1)] xy(2) unfolding demo_sig_s_def by (simp_all only:)
qed

lemma demo_signing_context:
  "evm_context demo_evm (demo_node\<lparr>en_chain_id := Some 1\<rparr>) demo_signing
     = Reply (asc_client_with_signer 5 \<lparr>es_signing_key = 2 ^ 100, es_address = 16, es_chain_id = 1\<rparr>)"
proof -
  have "evm_signer_from_hex demo_keccak demo_ecdsa demo_hex (hex_text demo_hex (word_bytes (2 ^ 100 :: b32))) 1
      = Some \<lparr>es_signing_key = 2 ^ 100, es_address = 16, es_chain_id = 1\<rparr>"
    using demo_hex_laws demo_seller_address by (simp add: evm_signer_from_hex_def evm_signer_from_bytes_def hex_laws_def del: power_numeral)
  then show ?thesis
    unfolding evm_context_def try_load_evm_context_def demo_signing_def
    by (simp add: address_text [OF demo_hex_laws] del: power_numeral) (simp add: address_to_hex_def hex_text_def del: power_numeral)
qed

lemma vault_cosigns_signed_states_witness:
  "\<exists>sig_u. post_channel_evm_state_sig demo_evm (demo_node\<lparr>en_chain_id := Some 1\<rparr>) demo_signing (st_channels demo_sp) demo_state_request = Reply (2 ^ 248, sig_u)
     \<and> (\<exists>eoa vault. cf_vault_eoa demo_signing = Some eoa \<and> address_parse demo_hex eoa = Some vault \<and> recover_eth_signed demo_keccak demo_ecdsa (2 ^ 248) sig_u = Some vault)"
proof -
  have "checked_add (4000 :: u128) 1000 = Some 5000" by (simp add: checked_add_def)
  then have "\<exists>sig_u. post_channel_evm_state_sig demo_evm (demo_node\<lparr>en_chain_id := Some 1\<rparr>) demo_signing (st_channels demo_sp) demo_state_request = Reply (2 ^ 248, sig_u)"
    unfolding post_channel_evm_state_sig_def demo_signing_context demo_state_request_def
    using demo_seller_signed demo_signed demo_ready_keys(4)
    by (simp add: asc_client_with_signer_def demo_hex_laws demo_state_hash demo_channel_def evm_channel_record_new_def Let_def del: power_numeral)
  then show ?thesis using vault_cosigns_signed_states [where V = demo_evm] demo_evm_laws(3) unfolding demo_evm_parts ev_keccak_demo by blast
qed

end
