(* ===== verification/Client_Lib.thy ===== *)
theory Client_Lib
  imports Evm_Client
begin

text \<open>
  The buyer's library (crate \<open>client\<close>: \<open>keys.rs\<close>, \<open>atomic.rs\<close>, \<open>error.rs\<close>): what a client that talks to the
  service provider itself parses and verifies. The texts are read by the same helpers as in the
  vault; the two differ in their errors. Shown here: the vault accepts what the library accepts and
  whose balances and version fit, and it reveals what the library reveals.
\<close>

section \<open>Errors and keys\<close>

datatype client_error = CeHex string | CeKey string | CeSignature string | CePreSigInvalid | CeFullSigInvalid | CeDecryptFailed | CeWitnessMismatch
  | CeOnChain string | CeHttp string | CeJson string | CeSpResponse nat string | CeInvalidSpResponse string

record client_keys =
  ck_ecdsa :: b32
  ck_address :: address

definition client_keys_from_bytes :: "('p, 's) evm_env \<Rightarrow> b32 \<Rightarrow> (client_error, client_keys) reply" where
  "client_keys_from_bytes V secret = rsome (derive_address (ev_keccak V) (ev_ecdsa V) secret) (CeKey ''k256 SigningKey::from_slice'')
     (\<lambda>a. Reply \<lparr>ck_ecdsa = secret, ck_address = a\<rparr>)"

definition client_keys_from_hex :: "('p, 's) evm_env \<Rightarrow> string \<Rightarrow> (client_error, client_keys) reply" where
  "client_keys_from_hex V hex_priv = rsome (hex_dec (ev_hex V) (strip_0x hex_priv)) (CeHex ''client secret'') (\<lambda>raw.
     rguard (length raw = 32) (CeKey ''client secret must be 32 bytes'') (client_keys_from_bytes V (word_of_bytes raw)))"

section \<open>The provider's answer\<close>

record 'p parsed_atomic_resp =
  pa_asc_state_hash :: b32
  pa_new_balance_c :: u128
  pa_new_balance_s :: u128
  pa_new_version :: u64
  pa_big_t :: 'p
  pa_pre_sig :: secp_pre_signature
  pa_enc_res :: encrypted_result

text \<open>A text that is not hexadecimal is one error, bytes of another length a different one.\<close>

definition fixed_bytes :: "nat \<Rightarrow> hex_lib \<Rightarrow> string \<Rightarrow> string \<Rightarrow> (client_error, bytes) reply" where
  "fixed_bytes n X label input = rsome (parse_hex X input) (CeHex label) (\<lambda>raw. rguard (length raw = n) (CeInvalidSpResponse label) (Reply raw))"

definition parse_atomic_resp :: "('p, 's) evm_env \<Rightarrow> sp_atomic_resp \<Rightarrow> (client_error, 'p parsed_atomic_resp) reply" where
  "parse_atomic_resp V resp =
     rbind (fixed_bytes 32 (ev_hex V) ''ascStateHash'' (ar_asc_state_hash resp)) (\<lambda>state_hash.
     rsome (parse_u128 (ar_new_balance_c resp)) (CeInvalidSpResponse ''newBalanceC'') (\<lambda>new_balance_c.
     rsome (parse_u128 (ar_new_balance_s resp)) (CeInvalidSpResponse ''newBalanceS'') (\<lambda>new_balance_s.
     rbind (fixed_bytes 33 (ev_hex V) ''bigT'' (ar_big_t resp)) (\<lambda>big_t_bytes.
     rsome (sp_decompress (ev_secp V) big_t_bytes) (CeInvalidSpResponse ''bigT not on curve'') (\<lambda>big_t.
     rbind (fixed_bytes 33 (ev_hex V) ''sigHatRPrime'' (ar_sig_hat_r_prime resp)) (\<lambda>r_prime.
     rbind (fixed_bytes 32 (ev_hex V) ''sigHatSPrime'' (ar_sig_hat_s_prime resp)) (\<lambda>s_prime.
     rbind (fixed_bytes 12 (ev_hex V) ''encIv'' (ar_enc_iv resp)) (\<lambda>iv.
     rsome (parse_hex (ev_hex V) (ar_enc_ciphertext resp)) (CeHex ''encCiphertext'') (\<lambda>ciphertext.
     rbind (fixed_bytes 16 (ev_hex V) ''encTag'' (ar_enc_tag resp)) (\<lambda>tag.
       Reply \<lparr>pa_asc_state_hash = word_of_bytes state_hash, pa_new_balance_c = new_balance_c, pa_new_balance_s = new_balance_s,
         pa_new_version = ar_new_version resp, pa_big_t = big_t, pa_pre_sig = \<lparr>ps_r_prime = r_prime, ps_s_prime = word_of_bytes s_prime\<rparr>,
         pa_enc_res = \<lparr>er_iv = iv, er_ciphertext = ciphertext, er_tag = tag\<rparr>\<rparr>))))))))))"

definition client_reconstruct_seller_pubkey :: "('p, 's) evm_env \<Rightarrow> string \<Rightarrow> (client_error, 'p) reply" where
  "client_reconstruct_seller_pubkey V schnorr_px_hex =
     rbind (fixed_bytes 32 (ev_hex V) ''schnorrPx'' schnorr_px_hex) (\<lambda>px.
     rsome (sp_decompress (ev_secp V) (2 # px)) (CeInvalidSpResponse ''schnorrPx not on curve under even-y'') Reply)"

definition verify_pre_sig :: "('p, 's) evm_env \<Rightarrow> 'p \<Rightarrow> 'p parsed_atomic_resp \<Rightarrow> (client_error, unit) reply" where
  "verify_pre_sig V seller_pub parsed =
     (if p_verify (ev_secp V) seller_pub (pa_asc_state_hash parsed) (pa_big_t parsed) (pa_pre_sig parsed) then Reply () else Fail CePreSigInvalid)"

definition parse_finalize_resp :: "('p, 's) evm_env \<Rightarrow> sp_finalize_resp \<Rightarrow> (client_error, 's \<times> bytes) reply" where
  "parse_finalize_resp V resp =
     rbind (fixed_bytes 32 (ev_hex V) ''t'' (fr_t resp)) (\<lambda>t_bytes.
     rsome (sp_from_repr (ev_secp V) (word_of_bytes t_bytes)) (CeInvalidSpResponse ''t out of curve order'') (\<lambda>t.
     rbind (fixed_bytes 65 (ev_hex V) ''sigS'' (fr_sig_s resp)) (\<lambda>sig_s. Reply (t, sig_s))))"

definition finalize_and_decrypt :: "('p, 's) evm_env \<Rightarrow> 'p \<Rightarrow> 'p parsed_atomic_resp \<Rightarrow> 's \<Rightarrow> (client_error, full_signature \<times> bytes) reply" where
  "finalize_and_decrypt V seller_pub parsed t =
     rguard (sp_mul (ev_secp V) (sp_generator (ev_secp V)) t = pa_big_t parsed) CeWitnessMismatch (
     rbind (rmap (\<lambda>_. CeSignature ''adapt'') (secp_adapt (ev_secp V) (pa_pre_sig parsed) t)) (\<lambda>full.
     rguard (verify_full (ev_secp V) seller_pub (pa_asc_state_hash parsed) full) CeFullSigInvalid (
     rsome (decrypt_result (ev_secp V) (pa_enc_res parsed) t) CeDecryptFailed (\<lambda>plaintext. Reply (full, plaintext)))))"

section \<open>The vault and the library\<close>

definition parked :: "'p parsed_atomic_resp \<Rightarrow> 'p pending_exchange" where
  "parked a = \<lparr>pe_new_balance_c = pa_new_balance_c a, pe_new_balance_s = pa_new_balance_s a, pe_new_version = pa_new_version a,
     pe_asc_state_hash = pa_asc_state_hash a, pe_pre_sig = pa_pre_sig a, pe_big_t = pa_big_t a, pe_enc_res = pa_enc_res a\<rparr>"

lemma fixed_bytes_Reply: "fixed_bytes n X label input = Reply bs \<longleftrightarrow> parse_fixed n X input = Some bs"
  by (auto simp: fixed_bytes_def parse_fixed_def reply_iffs bind_eq_Some_conv)

lemma parse_b32_fixed: "parse_b32 X input = Some b \<longleftrightarrow> (\<exists>bs. parse_fixed 32 X input = Some bs \<and> b = word_of_bytes bs)"
  by (auto simp: parse_b32_def)

lemma vault_accepts_as_client:
  "request_exchange V e (Some resp) = Reply p \<longleftrightarrow>
     (\<exists>a. parse_atomic_resp V resp = Reply a \<and> verify_pre_sig V (cc_seller_pubkey e) a = Reply () \<and> p = parked a
        \<and> checked_add (pa_new_balance_c a) (pa_new_balance_s a) = Some (cc_total_deposit e) \<and> pa_new_balance_c a < cc_balance_c e
        \<and> checked_add (cc_version e) 1 = Some (pa_new_version a))"
  by (auto simp: request_exchange_def parse_atomic_resp_def verify_pre_sig_def parked_def reply_iffs fixed_bytes_Reply parse_b32_fixed parse_b33_def Let_def not_le)

lemma vault_reveals_as_client:
  "pay_reveal V e (parked a) (Some fin) = Reply (text, sig_s) \<longleftrightarrow>
     (\<exists>t full plain. parse_finalize_resp V fin = Reply (t, sig_s) \<and> finalize_and_decrypt V (cc_seller_pubkey e) a t = Reply (full, plain)
        \<and> ev_utf8 V plain = Some text)"
  by (auto simp: pay_reveal_def parse_finalize_resp_def finalize_and_decrypt_def parked_def reply_iffs fixed_bytes_Reply parse_b32_fixed parse_fixed_def bind_eq_Some_conv)

text \<open>
  C21: The vault checks what the library checks. It accepts an answer of the provider exactly when the
  client library parses it and verifies its pre-signature, and in addition the balances add up to
  the deposit, the client is debited and the version is the next one; what it parks is what the
  library read. It hands out a text exactly when the library parses the reveal and decrypts to it.
\<close>

theorem vault_checks_as_client:
  "(request_exchange V e (Some resp) = Reply p \<longleftrightarrow>
     (\<exists>a. parse_atomic_resp V resp = Reply a \<and> verify_pre_sig V (cc_seller_pubkey e) a = Reply () \<and> p = parked a
        \<and> checked_add (pa_new_balance_c a) (pa_new_balance_s a) = Some (cc_total_deposit e) \<and> pa_new_balance_c a < cc_balance_c e
        \<and> checked_add (cc_version e) 1 = Some (pa_new_version a)))
   \<and> (pay_reveal V e (parked a) (Some fin) = Reply (text, sig_s) \<longleftrightarrow>
     (\<exists>t full plain. parse_finalize_resp V fin = Reply (t, sig_s) \<and> finalize_and_decrypt V (cc_seller_pubkey e) a t = Reply (full, plain)
        \<and> ev_utf8 V plain = Some text))"
  by (intro conjI vault_accepts_as_client vault_reveals_as_client)

end
