(* ===== verification/Attestation.thy ===== *)
theory Attestation
  imports Provider_Attestation
begin

text \<open>
  The enclave's own attestation (\<open>enclave/src/attestation.rs\<close>, the Linux build): which platform the
  environment selects, the policy hash, the bundle made at start and the document answered at run
  time. The environment is a function from names to values, the Nitro security module a record of
  its answers; the JSON of the derived structs, CBOR, base64 and hexadecimal text are library code.
\<close>

section \<open>Data\<close>

type_synonym env_vars = "string \<Rightarrow> string option"

record tls_binding_info =
  tb_public_key_spki_der :: bytes
  tb_public_key_spki_pem :: string
  tb_public_key_sha256 :: string

record attestation_bundle =
  ab_document_b64 :: string
  ab_is_local_dev :: bool
  ab_recipient_public_key_pem :: "string option"

record local_dev_attestation_document =
  lv_version :: u32
  lv_mode :: string
  lv_vault_config :: string
  lv_vault_signer :: string
  lv_attestation_policy_hash :: string
  lv_recipient_public_key_pem :: string
  lv_recipient_public_key_sha256 :: string
  lv_tls_public_key_pem :: "string option"
  lv_tls_public_key_sha256 :: "string option"
  lv_manifest_hash :: "string option"
  lv_snapshot_seqno :: u64
  lv_issued_at :: string
  lv_expires_at :: string

record nitro_user_data_envelope =
  nu_version :: u32
  nu_vault_config :: string
  nu_vault_signer :: string
  nu_attestation_policy_hash :: string
  nu_snapshot_seqno :: u64
  nu_tls_public_key_sha256 :: "string option"
  nu_manifest_hash :: "string option"

record sev_snp_envelope =
  sv_version :: u32
  sv_platform :: string
  sv_report_b64 :: string
  sv_vault_config :: string
  sv_vault_signer :: string
  sv_attestation_policy_hash :: string
  sv_snapshot_seqno :: u64
  sv_tls_public_key_sha256 :: "string option"
  sv_manifest_hash :: "string option"
  sv_issued_at :: string
  sv_expires_at :: string

record runtime_attestation_answer =
  ra_document_b64 :: string
  ra_is_local_dev :: bool
  ra_tee_platform :: string
  ra_snapshot_seqno :: u64
  ra_tls_public_key_sha256 :: "string option"
  ra_manifest_hash :: "string option"

datatype enclave_attestation_mode =
    LocalDev string
  | NitroDynamic
  | NitroStatic string
  | SevSnpStatic string

record attestation_provider =
  ap_mode :: enclave_attestation_mode
  ap_tls_binding :: "tls_binding_info option"
  ap_manifest_hash :: "string option"

datatype tee_platform = PlatformLocalDev | PlatformAwsNitro | PlatformAmdSevSnp

text \<open>The security module: the device, its descriptor and its answer to an attestation request.\<close>

datatype nsm_response = NsmAttestation bytes | NsmError string | NsmOther string

record nsm_device =
  ns_exists :: bool
  ns_fd :: int
  ns_attest :: "bytes option \<Rightarrow> bytes option \<Rightarrow> nsm_response"

record document_writers =
  dw_local :: "local_dev_attestation_document \<Rightarrow> bytes option"
  dw_user_data :: "nitro_user_data_envelope \<Rightarrow> bytes option"
  dw_sev :: "sev_snp_envelope \<Rightarrow> bytes option"

section \<open>Platform\<close>

definition tee_platform_from_env :: "env_vars \<Rightarrow> tee_platform option" where
  "tee_platform_from_env env = Option.bind (env ''A402_TEE_PLATFORM'') (\<lambda>value.
     let v = to_ascii_lowercase (trim value)
     in if v \<in> set [''local'', ''local-dev'', ''dev''] then Some PlatformLocalDev
        else if v \<in> set [''nitro'', ''aws-nitro'', ''aws_nitro''] then Some PlatformAwsNitro
        else if v \<in> set [''sev-snp'', ''sev_snp'', ''amd-sev-snp'', ''amd_sev_snp''] then Some PlatformAmdSevSnp
        else None)"

definition should_use_dynamic_nitro_attestation :: "env_vars \<Rightarrow> nsm_device \<Rightarrow> bool" where
  "should_use_dynamic_nitro_attestation env N =
     (if tee_platform_from_env env \<in> set [Some PlatformLocalDev, Some PlatformAmdSevSnp] then False
      else if env ''A402_DISABLE_DYNAMIC_NITRO_ATTESTATION'' = Some ''1'' then False
      else ns_exists N)"

definition should_use_sev_snp_attestation :: "env_vars \<Rightarrow> bool" where
  "should_use_sev_snp_attestation env \<longleftrightarrow>
     tee_platform_from_env env = Some PlatformAmdSevSnp \<or> env ''A402_SEV_SNP_ATTESTATION_REPORT_B64'' \<noteq> None"

definition request_nitro_attestation_document :: "wal_lib \<Rightarrow> nsm_device \<Rightarrow> bytes option \<Rightarrow> bytes option \<Rightarrow> string checked" where
  "request_nitro_attestation_document L N user_data public_key =
     aguard (\<not> ns_fd N < 0) ''failed to open /dev/nsm for Nitro attestation'' (
     case ns_attest N user_data public_key of
       NsmAttestation document \<Rightarrow> Inr (base64_encode L document)
     | NsmError e \<Rightarrow> Inl (''NSM attestation request failed: '' @ e)
     | NsmOther r \<Rightarrow> Inl (''unexpected NSM attestation response: '' @ r))"

section \<open>Policy hash of the enclave\<close>

definition normalize_hex_strict :: "string \<Rightarrow> string checked" where
  "normalize_hex_strict value =
     (let trimmed = trim value;
          normalized = to_ascii_lowercase (case strip_prefix ''0x'' trimmed of Some s \<Rightarrow> s | None \<Rightarrow> trimmed)
      in aguard (normalized \<noteq> []) ''hex value must not be empty'' (
         aguard (list_all is_ascii_hexdigit normalized) (''hex value contains non-hex characters: '' @ value) (Inr normalized)))"

definition decode_fixed_hex_32_env :: "wal_lib \<Rightarrow> string \<Rightarrow> string \<Rightarrow> bytes checked" where
  "decode_fixed_hex_32_env L name value =
     abind (normalize_hex_strict value) (\<lambda>normalized.
     aneed (hex_decode L normalized) (name @ '' must be valid hex'') (\<lambda>bs.
     aguard (length bs = 32) (name @ '' must decode to exactly 32 bytes'') (Inr bs)))"

definition read_required_hex_env :: "env_vars \<Rightarrow> string \<Rightarrow> string checked" where
  "read_required_hex_env env name =
     aneed (env name) (name @ '' must be set for SEV-SNP policy derivation'') normalize_hex_strict"

definition sev_optional_fields :: "(string \<times> string) list" where
  "sev_optional_fields =
     [(''A402_SEV_SNP_HOST_DATA_HEX'', ''hostData''), (''A402_SEV_SNP_REPORT_DATA_HEX'', ''reportData''),
      (''A402_SEV_SNP_FAMILY_ID_HEX'', ''familyId''), (''A402_SEV_SNP_IMAGE_ID_HEX'', ''imageId''),
      (''A402_SEV_SNP_POLICY_HEX'', ''policy''), (''A402_SEV_SNP_VMPL'', ''vmpl'')]"

fun add_sev_fields :: "env_vars \<Rightarrow> (string \<times> string) list \<Rightarrow> (string \<times> jvalue) list \<Rightarrow> (string \<times> jvalue) list checked" where
  "add_sev_fields env [] members = Inr members"
| "add_sev_fields env ((env_name, json_key) # rest) members =
     (case env env_name of None \<Rightarrow> add_sev_fields env rest members
      | Some value \<Rightarrow>
          abind (if env_name = ''A402_SEV_SNP_VMPL'' then Inr (trim value) else normalize_hex_strict value) (\<lambda>normalized.
          add_sev_fields env rest (dm_insert json_key (JStr normalized) members)))"

definition attestation_protocol :: "env_vars \<Rightarrow> string" where
  "attestation_protocol env = (case env ''A402_ATTESTATION_PROTOCOL'' of Some p \<Rightarrow> p | None \<Rightarrow> ''a402-svm-v1'')"

definition resolve_sev_snp_policy_hash_from_env :: "(bytes \<Rightarrow> b32) \<Rightarrow> (jvalue \<Rightarrow> string) \<Rightarrow> env_vars \<Rightarrow> bytes checked" where
  "resolve_sev_snp_policy_hash_from_env sha256 scalar env =
     abind (read_required_hex_env env ''A402_SEV_SNP_MEASUREMENT_HEX'') (\<lambda>measurement.
     abind (add_sev_fields env sev_optional_fields
       [(''version'', JInt 1), (''platform'', JStr ''amd-sev-snp''), (''measurement'', JStr measurement),
        (''protocol'', JStr (attestation_protocol env))]) (\<lambda>members.
     Inr (word_bytes (sha256 (str_bytes (canonical_json scalar (JObj members)))))))"

definition required_pcrs :: "string list" where
  "required_pcrs = [''0'', ''1'', ''2'', ''3'', ''8'']"

text \<open>The PCRs of a map, by the ids that count; a \<open>BTreeMap\<close> is an association list.\<close>

fun collect_pcrs :: "wal_lib \<Rightarrow> (cbor \<times> cbor) list \<Rightarrow> (string \<times> string) list \<Rightarrow> (string \<times> string) list checked" where
  "collect_pcrs L [] pcrs = Inr pcrs"
| "collect_pcrs L ((pcr_id, pcr_value) # es) pcrs =
     aneed (pcr_index pcr_id) ''Nitro attestation PCR key must be text or integer'' (\<lambda>i.
     if i \<notin> set required_pcrs then collect_pcrs L es pcrs
     else (case pcr_value of
         CBytes bs \<Rightarrow> collect_pcrs L es (dm_insert i (hex_encode L bs) pcrs)
       | _ \<Rightarrow> Inl (''Nitro attestation PCR'' @ i @ '' must be encoded as bytes'')))"

fun collect_payload_pcrs :: "wal_lib \<Rightarrow> (cbor \<times> cbor) list \<Rightarrow> (string \<times> string) list \<Rightarrow> (string \<times> string) list checked" where
  "collect_payload_pcrs L [] pcrs = Inr pcrs"
| "collect_payload_pcrs L ((key, value) # es) pcrs =
     (if key \<noteq> CText ''pcrs'' then collect_payload_pcrs L es pcrs
      else (case value of
          CMap pcr_map \<Rightarrow> abind (collect_pcrs L pcr_map pcrs) (collect_payload_pcrs L es)
        | _ \<Rightarrow> Inl ''Nitro attestation pcrs field must be a CBOR map''))"

fun require_pcrs :: "string list \<Rightarrow> (string \<times> string) list \<Rightarrow> (string \<times> string) list checked" where
  "require_pcrs [] pcrs = Inr pcrs"
| "require_pcrs (r # rs) pcrs =
     aguard (map_of pcrs r \<noteq> None) (''Nitro attestation document is missing PCR'' @ r) (require_pcrs rs pcrs)"

definition parse_pcrs_from_attestation_document :: "wal_lib \<Rightarrow> attest_lib \<Rightarrow> string \<Rightarrow> (string \<times> string) list checked" where
  "parse_pcrs_from_attestation_document L A document_b64 =
     aneed (base64_decode L document_b64) ''invalid Nitro attestation base64'' (\<lambda>document.
     aneed (al_cbor_read A document) ''failed to decode COSE_Sign1 attestation document'' (\<lambda>sign1.
     abind (case sign1 of
         CArray values \<Rightarrow>
           if length values = 4 then (case values ! 2 of CBytes bs \<Rightarrow> Inr bs | _ \<Rightarrow> Inl ''Nitro attestation payload was not encoded as bytes'')
           else Inl ''Nitro attestation document is not a valid COSE_Sign1 array''
       | _ \<Rightarrow> Inl ''Nitro attestation document is not a valid COSE_Sign1 array'') (\<lambda>payload_bytes.
     aneed (al_cbor_read A payload_bytes) ''failed to decode Nitro attestation payload'' (\<lambda>payload.
     case payload of
       CMap payload_map \<Rightarrow> abind (collect_payload_pcrs L payload_map []) (require_pcrs required_pcrs)
     | _ \<Rightarrow> Inl ''Nitro attestation payload must decode to a CBOR map''))))"

definition env_kms_key_arn_sha256 :: "wal_lib \<Rightarrow> (bytes \<Rightarrow> b32) \<Rightarrow> env_vars \<Rightarrow> string checked" where
  "env_kms_key_arn_sha256 L sha256 env =
     (case env ''A402_KMS_KEY_ARN_SHA256'' of
        Some value \<Rightarrow> normalize_hex_strict value
      | None \<Rightarrow> aneed (env ''A402_KMS_KEY_ARN'')
          ''A402_KMS_KEY_ARN or A402_KMS_KEY_ARN_SHA256 must be set for Nitro policy derivation'' (\<lambda>key_arn.
          Inr (hex_encode L (word_bytes (sha256 (str_bytes key_arn))))))"

definition resolve_attestation_policy_hash_from_env ::
    "wal_lib \<Rightarrow> (bytes \<Rightarrow> b32) \<Rightarrow> (jvalue \<Rightarrow> string) \<Rightarrow> attest_lib \<Rightarrow> nsm_device \<Rightarrow> env_vars \<Rightarrow> bytes checked" where
  "resolve_attestation_policy_hash_from_env L sha256 scalar A N env =
     (case env ''A402_ATTESTATION_POLICY_HASH_HEX'' of
        Some value \<Rightarrow> decode_fixed_hex_32_env L ''A402_ATTESTATION_POLICY_HASH_HEX'' value
      | None \<Rightarrow>
     if should_use_sev_snp_attestation env then resolve_sev_snp_policy_hash_from_env sha256 scalar env
     else if \<not> should_use_dynamic_nitro_attestation env N then Inr (replicate 32 0)
     else
       aneed (env ''A402_EIF_SIGNING_CERT_SHA256'') ''A402_EIF_SIGNING_CERT_SHA256 must be set for Nitro policy derivation'' (\<lambda>eif.
       abind (env_kms_key_arn_sha256 L sha256 env) (\<lambda>kms.
       abind (request_nitro_attestation_document L N None None) (\<lambda>document_b64.
       abind (parse_pcrs_from_attestation_document L A document_b64) (\<lambda>pcrs.
       abind (normalize_hex_strict eif) (\<lambda>eif_hex.
       Inr (word_bytes (sha256 (str_bytes (canonical_json scalar
         (policy_json 1 pcrs eif_hex kms (attestation_protocol env))))))))))))"

section \<open>Documents\<close>

definition build_local_dev_attestation ::
    "wal_lib \<Rightarrow> (bytes \<Rightarrow> b32) \<Rightarrow> document_writers \<Rightarrow> (int \<Rightarrow> string) \<Rightarrow> pubkey \<Rightarrow> pubkey \<Rightarrow> bytes \<Rightarrow> string \<Rightarrow> int \<Rightarrow> attestation_bundle option" where
  "build_local_dev_attestation L sha256 D rfc3339 config signer policy_hash recipient_pem now =
     map_option (\<lambda>json. \<lparr>ab_document_b64 = base64_encode L json, ab_is_local_dev = True, ab_recipient_public_key_pem = Some recipient_pem\<rparr>)
      (dw_local D \<lparr>lv_version = 1, lv_mode = ''local-dev'', lv_vault_config = pubkey_to_string L config,
        lv_vault_signer = pubkey_to_string L signer, lv_attestation_policy_hash = hex_encode L policy_hash,
        lv_recipient_public_key_pem = recipient_pem,
        lv_recipient_public_key_sha256 = hex_encode L (word_bytes (sha256 (str_bytes recipient_pem))),
        lv_tls_public_key_pem = None, lv_tls_public_key_sha256 = None, lv_manifest_hash = None, lv_snapshot_seqno = 0,
        lv_issued_at = rfc3339 now, lv_expires_at = rfc3339 (now + 24 * 3600 * 1000000000)\<rparr>)"

definition build_static_nitro_attestation :: "string \<Rightarrow> attestation_bundle" where
  "build_static_nitro_attestation document_b64 =
     \<lparr>ab_document_b64 = document_b64, ab_is_local_dev = False, ab_recipient_public_key_pem = None\<rparr>"

definition build_static_sev_snp_attestation :: "string \<Rightarrow> attestation_bundle" where
  "build_static_sev_snp_attestation report_b64 =
     \<lparr>ab_document_b64 = report_b64, ab_is_local_dev = False, ab_recipient_public_key_pem = None\<rparr>"

definition build_runtime_local_dev_attestation ::
    "wal_lib \<Rightarrow> (bytes \<Rightarrow> b32) \<Rightarrow> document_writers \<Rightarrow> (int \<Rightarrow> string) \<Rightarrow> pubkey \<Rightarrow> pubkey \<Rightarrow> bytes \<Rightarrow> u64 \<Rightarrow> string
      \<Rightarrow> tls_binding_info option \<Rightarrow> string option \<Rightarrow> int \<Rightarrow> string checked" where
  "build_runtime_local_dev_attestation L sha256 D rfc3339 config signer policy_hash seqno recipient_pem tls manifest now =
     aneed (dw_local D \<lparr>lv_version = 1, lv_mode = ''local-dev'', lv_vault_config = pubkey_to_string L config,
        lv_vault_signer = pubkey_to_string L signer, lv_attestation_policy_hash = hex_encode L policy_hash,
        lv_recipient_public_key_pem = recipient_pem,
        lv_recipient_public_key_sha256 = hex_encode L (word_bytes (sha256 (str_bytes recipient_pem))),
        lv_tls_public_key_pem = map_option tb_public_key_spki_pem tls, lv_tls_public_key_sha256 = map_option tb_public_key_sha256 tls,
        lv_manifest_hash = manifest, lv_snapshot_seqno = seqno,
        lv_issued_at = rfc3339 now, lv_expires_at = rfc3339 (now + 24 * 3600 * 1000000000)\<rparr>)
       ''failed to serialize local attestation document'' (\<lambda>json. Inr (base64_encode L json))"

definition build_runtime_sev_snp_attestation ::
    "wal_lib \<Rightarrow> document_writers \<Rightarrow> (int \<Rightarrow> string) \<Rightarrow> pubkey \<Rightarrow> pubkey \<Rightarrow> bytes \<Rightarrow> u64 \<Rightarrow> string
      \<Rightarrow> tls_binding_info option \<Rightarrow> string option \<Rightarrow> int \<Rightarrow> string checked" where
  "build_runtime_sev_snp_attestation L D rfc3339 config signer policy_hash seqno report_b64 tls manifest now =
     aneed (base64_decode L report_b64) ''A402_SEV_SNP_ATTESTATION_REPORT_B64 must be base64'' (\<lambda>_.
     aneed (dw_sev D \<lparr>sv_version = 1, sv_platform = ''amd-sev-snp'', sv_report_b64 = report_b64,
        sv_vault_config = pubkey_to_string L config, sv_vault_signer = pubkey_to_string L signer,
        sv_attestation_policy_hash = hex_encode L policy_hash, sv_snapshot_seqno = seqno,
        sv_tls_public_key_sha256 = map_option tb_public_key_sha256 tls, sv_manifest_hash = manifest,
        sv_issued_at = rfc3339 now, sv_expires_at = rfc3339 (now + 10 * 60 * 1000000000)\<rparr>)
       ''failed to serialize SEV-SNP attestation envelope'' (\<lambda>json. Inr (base64_encode L json)))"

definition build_a402_user_data ::
    "wal_lib \<Rightarrow> document_writers \<Rightarrow> pubkey \<Rightarrow> pubkey \<Rightarrow> bytes \<Rightarrow> u64 \<Rightarrow> tls_binding_info option \<Rightarrow> string option \<Rightarrow> bytes checked" where
  "build_a402_user_data L D config signer policy_hash seqno tls manifest =
     aneed (dw_user_data D \<lparr>nu_version = 1, nu_vault_config = pubkey_to_string L config,
        nu_vault_signer = pubkey_to_string L signer, nu_attestation_policy_hash = hex_encode L policy_hash,
        nu_snapshot_seqno = seqno, nu_tls_public_key_sha256 = map_option tb_public_key_sha256 tls, nu_manifest_hash = manifest\<rparr>)
       ''failed to serialize Nitro user_data envelope'' Inr"

definition build_dynamic_nitro_attestation ::
    "wal_lib \<Rightarrow> document_writers \<Rightarrow> nsm_device \<Rightarrow> pubkey \<Rightarrow> pubkey \<Rightarrow> bytes \<Rightarrow> u64 \<Rightarrow> tls_binding_info option \<Rightarrow> string option \<Rightarrow> string checked" where
  "build_dynamic_nitro_attestation L D N config signer policy_hash seqno tls manifest =
     abind (build_a402_user_data L D config signer policy_hash seqno tls manifest) (\<lambda>user_data.
     request_nitro_attestation_document L N (Some user_data) (map_option tb_public_key_spki_der tls))"

definition build_bootstrap_recipient_attestation :: "wal_lib \<Rightarrow> nsm_device \<Rightarrow> env_vars \<Rightarrow> bytes \<Rightarrow> string option checked" where
  "build_bootstrap_recipient_attestation L N env public_key_der =
     (if \<not> should_use_dynamic_nitro_attestation env N then Inr None
      else abind (request_nitro_attestation_document L N None (Some public_key_der)) (\<lambda>d. Inr (Some d)))"

definition response_window :: "int \<Rightarrow> int \<times> int" where
  "response_window now = (now, now + 10 * 60 * 1000000000)"

section \<open>The provider of attestations\<close>

definition is_local_mode :: "enclave_attestation_mode \<Rightarrow> bool" where
  "is_local_mode m = (case m of LocalDev _ \<Rightarrow> True | _ \<Rightarrow> False)"

definition bootstrap_mode :: "env_vars \<Rightarrow> nsm_device \<Rightarrow> attestation_bundle \<Rightarrow> enclave_attestation_mode checked" where
  "bootstrap_mode env N bundle =
     (if should_use_sev_snp_attestation env then
        aguard (trim (ab_document_b64 bundle) \<noteq> []) ''SEV-SNP attestation requires A402_SEV_SNP_ATTESTATION_REPORT_B64''
          (Inr (SevSnpStatic (ab_document_b64 bundle)))
      else if should_use_dynamic_nitro_attestation env N then Inr NitroDynamic
      else if ab_is_local_dev bundle then
        aneed (ab_recipient_public_key_pem bundle) ''local-dev attestation bundle missing recipient key'' (\<lambda>pem. Inr (LocalDev pem))
      else Inr (NitroStatic (ab_document_b64 bundle)))"

definition from_bootstrap_bundle ::
    "env_vars \<Rightarrow> nsm_device \<Rightarrow> attestation_bundle \<Rightarrow> tls_binding_info option \<Rightarrow> string option \<Rightarrow> attestation_provider checked" where
  "from_bootstrap_bundle env N bundle tls manifest =
     abind (bootstrap_mode env N bundle) (\<lambda>mode.
     aguard (\<not> (\<not> is_local_mode mode \<and> tls = None)) ''non-local attestation requires enclave TLS public key binding'' (
     Inr \<lparr>ap_mode = mode, ap_tls_binding = tls, ap_manifest_hash = manifest\<rparr>))"

definition runtime_attestation ::
    "wal_lib \<Rightarrow> (bytes \<Rightarrow> b32) \<Rightarrow> document_writers \<Rightarrow> (int \<Rightarrow> string) \<Rightarrow> nsm_device \<Rightarrow> attestation_provider \<Rightarrow> pubkey \<Rightarrow> pubkey \<Rightarrow> bytes \<Rightarrow> u64
      \<Rightarrow> int \<Rightarrow> runtime_attestation_answer checked" where
  "runtime_attestation L sha256 D rfc3339 N p config signer policy_hash seqno now =
     (let tls = ap_tls_binding p; manifest = ap_manifest_hash p;
          answer = (\<lambda>document is_local platform. Inr \<lparr>ra_document_b64 = document, ra_is_local_dev = is_local, ra_tee_platform = platform,
            ra_snapshot_seqno = seqno, ra_tls_public_key_sha256 = map_option tb_public_key_sha256 tls, ra_manifest_hash = manifest\<rparr>)
      in case ap_mode p of
           LocalDev recipient_pem \<Rightarrow>
             abind (build_runtime_local_dev_attestation L sha256 D rfc3339 config signer policy_hash seqno recipient_pem tls
               manifest now) (\<lambda>d. answer d True ''local-dev'')
         | NitroDynamic \<Rightarrow>
             abind (build_dynamic_nitro_attestation L D N config signer policy_hash seqno tls manifest)
               (\<lambda>d. answer d False ''aws-nitro'')
         | NitroStatic document_b64 \<Rightarrow> answer document_b64 False ''aws-nitro''
         | SevSnpStatic report_b64 \<Rightarrow>
             abind (build_runtime_sev_snp_attestation L D rfc3339 config signer policy_hash seqno report_b64 tls manifest now)
               (\<lambda>d. answer d False ''amd-sev-snp''))"

end
