(* ===== verification/Attestation_Properties.thy ===== *)
theory Attestation_Properties
  imports Verify_Properties
begin

text \<open>
  What an accepted attestation of a provider proves: the signed evidence behind a Nitro document, the
  documents anyone can make, what the policy hash fixes, and that registration cannot panic on it.
\<close>

section \<open>Reading CBOR\<close>

lemma expect_iffs:
  "expect_array v f = Inr vs \<longleftrightarrow> v = CArray vs" "expect_map v f = Inr es \<longleftrightarrow> v = CMap es"
  "expect_bytes v f = Inr bs \<longleftrightarrow> v = CBytes bs" "expect_text v f = Inr t \<longleftrightarrow> v = CText t"
  by (cases v; simp)+

lemma unwrap_tag_Inr: "unwrap_tag v = Inr w \<Longrightarrow> v = w \<or> v = CTag 18 w"
  by (cases v) (auto simp: COSE_SIGN1_TAG_def split: if_splits)

lemma length_4: "length xs = 4 \<longleftrightarrow> (\<exists>a b c d. xs = [a, b, c, d])"
  by (auto simp: length_Suc_conv numeral_eq_Suc)

text \<open>The parts of a COSE\_Sign1 value, tagged or not.\<close>

definition cose_parts :: "cbor \<Rightarrow> bytes \<Rightarrow> bytes \<Rightarrow> bytes \<Rightarrow> bool" where
  "cose_parts v header payload signature \<longleftrightarrow>
     (\<exists>u. let w = CArray [CBytes header, u, CBytes payload, CBytes signature] in v = w \<or> v = CTag 18 w)"

lemma parse_cose_sign1_shape:
  assumes "parse_cose_sign1 A input = Inr s"
  obtains v where "al_cbor_read A input = Some v"
    "cose_parts v (cs_protected_header_bytes s) (cs_payload_bytes s) (cs_signature_bytes s)"
  using assms unfolding parse_cose_sign1_def checked_iffs
  by (auto simp: expect_iffs length_4 cose_parts_def Let_def dest!: unwrap_tag_Inr)

lemma parse_pcrs_sound:
  "parse_pcrs L es m = Inr p \<Longrightarrow> p i = Some x \<Longrightarrow>
     m i = Some x \<or> (\<exists>c bs. (c, CBytes bs) \<in> set es \<and> pcr_index c = Some i \<and> x = hex_encode L bs)"
proof (induction L es m rule: parse_pcrs.induct)
  case (2 L index v es pcrs)
  then obtain j bs where j: "pcr_index index = Some j" "v = CBytes bs" "parse_pcrs L es (pcrs(j \<mapsto> hex_encode L bs)) = Inr p"
    by (auto simp: checked_iffs expect_iffs)
  from "2.IH" [OF j(3) "2.prems"(2)] j show ?case by (auto split: if_splits)
qed simp

lemma cbor_as_u64_Some: "cbor_as_u64 v = Some n \<longleftrightarrow> v = CInteger (uint n)"
  using uint_bounded [of n] by (cases v) (auto simp: cbor_as_u64_def unsigned_of_int take_bit_int_eq_self)

lemma parse_payload_shape:
  assumes "parse_nitro_attestation_payload L A bs = Inr d"
  obtains m es where "al_cbor_read A bs = Some (CMap m)" "map_of m (CText ''pcrs'') = Some (CMap es)"
    "parse_pcrs L es Map.empty = Inr (nt_pcrs d)" "map_of m (CText ''certificate'') = Some (CBytes (nt_certificate_der d))"
    "\<And>ub. nt_user_data d = Some ub \<Longrightarrow> map_of m (CText ''user_data'') = Some (CBytes ub)"
    "map_of m (CText ''timestamp'') = Some (CInteger (uint (nt_timestamp_ms d)))"
  using assms unfolding parse_nitro_attestation_payload_def payload_field_def checked_iffs expect_iffs
  by (auto simp: checked_iffs expect_iffs optional_bytes_def cbor_as_u64_Some split: option.splits)

lemma verify_pcr_list_all:
  "verify_pcr_list d es = Inr () \<longleftrightarrow> (\<forall>(i, e)\<in>set es. \<exists>x. nt_pcrs d i = Some x \<and> normalize_hex x = normalize_hex e)"
  by (induction d es rule: verify_pcr_list.induct) (auto simp: checked_iffs)

section \<open>Policy text\<close>

text \<open>
  JSON text of scalars: a string is quoted, so that it ends where its closing quote is, and
  different numbers have different texts.
\<close>

definition json_scalar_laws :: "(jvalue \<Rightarrow> string) \<Rightarrow> bool" where
  "json_scalar_laws scalar \<longleftrightarrow>
     (\<forall>a b x y. scalar (JStr a) @ x = scalar (JStr b) @ y \<longrightarrow> a = b \<and> x = y)
   \<and> (\<forall>a. \<exists>t. scalar (JStr a) = CHR 0x22 # t)
   \<and> (\<forall>m n. scalar (JInt m) = scalar (JInt n) \<longrightarrow> m = n)"

definition members_text :: "(jvalue \<Rightarrow> string) \<Rightarrow> (string \<times> string) list \<Rightarrow> string" where
  "members_text scalar es = join_commas (map (\<lambda>(k, v). scalar (JStr k) @ '':'' @ scalar (JStr v)) es)"

lemma canonical_policy_json:
  "canonical_json scalar (policy_json version pcrs eif kms protocol) =
     ''{'' @ scalar (JStr ''eifSigningCertSha256'') @ '':'' @ scalar (JStr eif) @ '','' @ scalar (JStr ''kmsKeyArnSha256'') @ '':''
     @ scalar (JStr kms) @ '','' @ scalar (JStr ''pcrs'') @ '':{'' @ members_text scalar (sort_key fst pcrs) @ ''},''
     @ scalar (JStr ''protocol'') @ '':'' @ scalar (JStr protocol) @ '','' @ scalar (JStr ''version'') @ '':''
     @ scalar (JInt (uint version)) @ ''}''"
proof -
  have inner: "canonical_json scalar (JObj (map (\<lambda>(i, v). (i, JStr v)) pcrs)) = ''{'' @ members_text scalar (sort_key fst pcrs) @ ''}''"
  proof -
    have "map (\<lambda>(k, v). (k, canonical_json scalar v)) (map (\<lambda>(i, v). (i, JStr v)) pcrs) = map (\<lambda>e. (fst e, scalar (JStr (snd e)))) pcrs"
      by (simp add: case_prod_unfold)
    then have "sort_key fst (map (\<lambda>(k, v). (k, canonical_json scalar v)) (map (\<lambda>(i, v). (i, JStr v)) pcrs))
        = map (\<lambda>e. (fst e, scalar (JStr (snd e)))) (sort_key fst pcrs)" by (simp only: sort_key_map fst_conv)
    then show ?thesis unfolding canonical_json.simps(1) by (simp add: members_text_def case_prod_unfold comp_def)
  qed
  show ?thesis unfolding policy_json_def
    by (subst canonical_json.simps(1)) (simp del: canonical_json.simps(1) add: inner sort_key_def)
qed

definition member_text :: "(jvalue \<Rightarrow> string) \<Rightarrow> string \<times> string \<Rightarrow> string" where
  "member_text scalar e = scalar (JStr (fst e)) @ '':'' @ scalar (JStr (snd e))"

lemma members_text_Cons: "members_text scalar (e # es) = member_text scalar e @ concat (map (\<lambda>e. CHR '','' # member_text scalar e) es)"
proof (induction es arbitrary: e)
  case (Cons e' es)
  have "members_text scalar (e # e' # es) = member_text scalar e @ CHR '','' # members_text scalar (e' # es)"
    by (simp add: members_text_def member_text_def case_prod_unfold)
  with Cons show ?case by simp
qed (simp add: members_text_def member_text_def case_prod_unfold)

lemma member_text_prefix:
  assumes "json_scalar_laws scalar" "member_text scalar e @ x = member_text scalar e' @ y"
  shows "e = e' \<and> x = y"
proof -
  have J: "scalar (JStr a) @ u = scalar (JStr b) @ w \<Longrightarrow> a = b \<and> u = w" for a b u w using assms(1)
    unfolding json_scalar_laws_def by blast
  have "scalar (JStr (fst e)) @ CHR '':'' # scalar (JStr (snd e)) @ x = scalar (JStr (fst e')) @ CHR '':'' # scalar (JStr (snd e')) @ y"
    using assms(2) by (simp add: member_text_def)
  from J [OF this] have "fst e = fst e'" "scalar (JStr (snd e)) @ x = scalar (JStr (snd e')) @ y" by simp_all
  then show ?thesis using J [of "snd e" x "snd e'" y] by (simp only: prod_eq_iff)
qed

lemma members_tail_prefix:
  assumes J: "json_scalar_laws scalar"
  shows "concat (map (\<lambda>e. CHR '','' # member_text scalar e) xs) @ CHR ''}'' # r
      = concat (map (\<lambda>e. CHR '','' # member_text scalar e) ys) @ CHR ''}'' # r' \<Longrightarrow> xs = ys \<and> r = r'"
proof (induction xs arbitrary: ys)
  case Nil
  then show ?case by (cases ys) auto
next
  case (Cons e es)
  then obtain e' es' where ys: "ys = e' # es'" by (cases ys) auto
  let ?t = "\<lambda>zs r. concat (map (\<lambda>e. CHR '','' # member_text scalar e) zs) @ CHR ''}'' # r"
  from Cons.prems ys have "member_text scalar e @ ?t es r = member_text scalar e' @ ?t es' r'" by simp
  from member_text_prefix [OF J this] Cons.IH [of es'] ys show ?case by blast
qed

lemma members_text_prefix:
  assumes J: "json_scalar_laws scalar" and eq: "members_text scalar xs @ CHR ''}'' # r = members_text scalar ys @ CHR ''}'' # r'"
  shows "xs = ys \<and> r = r'"
proof -
  have quoted: "\<exists>t. member_text scalar e @ u = CHR 0x22 # t" for e u
  proof -
    obtain t where "scalar (JStr (fst e)) = CHR 0x22 # t" using J unfolding json_scalar_laws_def by blast
    then show ?thesis by (simp add: member_text_def)
  qed
  have empty: "members_text scalar [] @ CHR ''}'' # u = members_text scalar (e # es) @ w \<Longrightarrow> False" for u w e es
    using quoted [of e "concat (map (\<lambda>e. CHR '','' # member_text scalar e) es) @ w"] by (auto simp: members_text_Cons) (simp add: members_text_def)
  show ?thesis
  proof (cases xs)
    case Nil
    then have "ys = []" using eq empty [of r _ _ "CHR ''}'' # r'"] by (cases ys) auto
    then show ?thesis using eq Nil by simp
  next
    case (Cons e es)
    have "ys \<noteq> []" using eq empty [of r' e es "CHR ''}'' # r"] Cons by (metis)
    then obtain e' es' where ys: "ys = e' # es'" by (cases ys) auto
    let ?t = "\<lambda>zs r. concat (map (\<lambda>e. CHR '','' # member_text scalar e) zs) @ CHR ''}'' # r"
    from eq Cons ys have "member_text scalar e @ ?t es r = member_text scalar e' @ ?t es' r'" by (simp add: members_text_Cons)
    from member_text_prefix [OF J this] members_tail_prefix [OF J, of es r es' r'] Cons ys show ?thesis by blast
  qed
qed

lemma str_bytes_inj: "str_bytes s = str_bytes t \<Longrightarrow> s = t"
  unfolding str_bytes_def
proof (erule map_injective)
  have "(unat (of_nat (of_char c :: nat) :: u8)) = (of_char c :: nat)" for c
    by (simp add: unat_of_nat)
  then show "inj (\<lambda>c. of_nat (of_char c) :: u8)" by (metis (no_types, lifting) injI of_char_eq_iff)
qed

lemma hash_bytes: "word_of_bytes (word_bytes (h :: b32)) = h"
  by (simp add: word_of_bytes_word_bytes)

text \<open>
  The policy hash fixes the policy: two policies with the same hash, of which SHA-256 makes no
  collision, have the same version and protocol, the same signing certificate and key digests up to
  case, white space and the prefix 0x, and the same expected PCRs in that sense.
\<close>

theorem policy_hash_binds:
  assumes "wal_lib_laws L" "json_scalar_laws scalar"
    and "compute_provider_attestation_policy_hash L sha256 scalar p = compute_provider_attestation_policy_hash L sha256 scalar q"
    and "sha256 (str_bytes (normalized_policy_json scalar p)) = sha256 (str_bytes (normalized_policy_json scalar q))
      \<longrightarrow> str_bytes (normalized_policy_json scalar p) = str_bytes (normalized_policy_json scalar q)"
  shows "po_version p = po_version q \<and> po_protocol p = po_protocol q
    \<and> normalize_hex (po_eif_signing_cert_sha256 p) = normalize_hex (po_eif_signing_cert_sha256 q)
    \<and> normalize_hex (po_kms_key_arn_sha256 p) = normalize_hex (po_kms_key_arn_sha256 q)
    \<and> (\<lambda>(i, v). (i, normalize_hex v)) ` set (po_pcrs p) = (\<lambda>(i, v). (i, normalize_hex v)) ` set (po_pcrs q)"
proof -
  let ?n = "\<lambda>p. map (\<lambda>(i, v). (i, normalize_hex v)) (po_pcrs p)"
  note str = assms(2) [unfolded json_scalar_laws_def, THEN conjunct1, rule_format]
  note num = assms(2) [unfolded json_scalar_laws_def, THEN conjunct2, THEN conjunct2, rule_format]
  have "word_bytes (sha256 (str_bytes (normalized_policy_json scalar p))) = word_bytes (sha256 (str_bytes (normalized_policy_json scalar q)))"
    using assms(1,3) unfolding compute_provider_attestation_policy_hash_def wal_lib_laws_def by (metis option.inject)
  then have "sha256 (str_bytes (normalized_policy_json scalar p)) = sha256 (str_bytes (normalized_policy_json scalar q))"
    by (metis hash_bytes)
  with assms(4) have t: "normalized_policy_json scalar p = normalized_policy_json scalar q" by (simp add: str_bytes_inj)
  note eq = t [unfolded normalized_policy_json_def canonical_policy_json append_assoc same_append_eq]
  note e1 = str [OF eq]
  note e2 = str [OF e1 [THEN conjunct2, unfolded append_assoc same_append_eq]]
  let ?rest = "\<lambda>p. '','' @ scalar (JStr ''protocol'') @ '':'' @ scalar (JStr (po_protocol p)) @ '','' @ scalar (JStr ''version'') @ '':''
      @ scalar (JInt (uint (po_version p))) @ ''}''"
  have "members_text scalar (sort_key fst (?n p)) @ CHR ''}'' # ?rest p = members_text scalar (sort_key fst (?n q)) @ CHR ''}'' # ?rest q"
    using e2 [THEN conjunct2] by (simp only: append_assoc append_Cons append_Nil same_append_eq list.inject)
  note m = members_text_prefix [OF assms(2) this]
  note e3 = str [OF m [THEN conjunct2, unfolded append_assoc same_append_eq]]
  have v: "po_version p = po_version q"
    using num [OF e3 [THEN conjunct2, unfolded append_assoc same_append_eq append_same_eq]] by (simp add: word_uint_eq_iff)
  have "set (?n p) = set (?n q)" using m [THEN conjunct1] by (metis set_sort)
  then show ?thesis using v e1 [THEN conjunct1] e2 [THEN conjunct1] e3 [THEN conjunct1] by simp
qed

section \<open>Nitro evidence\<close>

lemma nitro_time_bounds:
  assumes "verify_nitro_timestamp d age now = Inr ()" "0 \<le> now" "millis now < 2 ^ 63"
  shows "uint (nt_timestamp_ms d) \<le> millis now + 60000 \<and> millis now - uint (nt_timestamp_ms d) \<le> uint age \<and> nt_digest d = ''SHA384''"
proof -
  let ?n = "of_int (millis now) :: u64" and ?t = "nt_timestamp_ms d"
  have n: "uint ?n = millis now" using assms(2,3) by (simp add: unsigned_of_int take_bit_int_eq_self millis_def)
  from assms(1) have a: "?t \<le> saturating_add ?n 60000" "saturating_sub ?n ?t \<le> age" "nt_digest d = ''SHA384''"
    by (auto simp: verify_nitro_timestamp_def Let_def checked_iffs)
  have "uint (saturating_add ?n 60000) \<le> millis now + 60000"
    using n assms(2,3) by (auto simp: saturating_add_def unat_eq_nat_uint uint_word_ariths millis_def)
  moreover have "millis now - uint ?t \<le> uint (saturating_sub ?n ?t)"
    using n uint_sub_ge [of ?n ?t] by (auto simp: saturating_sub_def word_le_def uint_sub_lem [THEN iffD1])
  ultimately show ?thesis using a by (auto simp: word_le_def)
qed

text \<open>What has to be behind a payload: a signature by a certificate of the payload that chains to the root.\<close>

definition signed_by_nitro :: "attest_lib \<Rightarrow> bytes \<Rightarrow> bytes \<Rightarrow> bytes \<Rightarrow> bytes \<Rightarrow> bool" where
  "signed_by_nitro A header payload signature certificate \<longleftrightarrow>
     (\<exists>root leaf chain key digest check message der.
        al_nitro_root A = Some root \<and> al_x509_der A certificate = Some leaf \<and> al_verify_cert A root leaf chain = Some True
      \<and> al_public_key A leaf = Some key \<and> al_verifier A digest key = Some check
      \<and> al_cbor_write A (CArray [CText ''Signature1'', CBytes header, CBytes [], CBytes payload]) = Some message
      \<and> p1363_to_der A signature = Inr der \<and> check message der = Some True)"

lemma checked_signature:
  assumes "verify_certificate_chain A c b = Inr u" "verify_cose_signature A s c = Inr u'"
  shows "signed_by_nitro A (cs_protected_header_bytes s) (cs_payload_bytes s) (cs_signature_bytes s) c"
proof -
  obtain root leaf chain where c: "al_x509_der A c = Some leaf" "al_nitro_root A = Some root" "al_verify_cert A root leaf chain = Some True"
    using assms(1) by (auto simp: verify_certificate_chain_def checked_iffs)
  obtain key message der d check where s: "al_public_key A leaf = Some key" "al_cbor_write A (sig_structure s) = Some message"
    "p1363_to_der A (cs_signature_bytes s) = Inr der" "al_verifier A d key = Some check" "check message der = Some True"
    using assms(2) c(1) by (auto simp: verify_cose_signature_def checked_iffs)
  show ?thesis unfolding signed_by_nitro_def using c s
    by (intro exI [of _ root] exI [of _ leaf] exI [of _ chain] exI [of _ key] exI [of _ d] exI [of _ check] exI [of _ message] exI [of _ der])
      (simp add: sig_structure_def)
qed

text \<open>
  C11: A provider that is accepted in Nitro mode has shown a document whose payload is signed under a
  certificate that chains to the AWS root, in which every PCR of the policy has the expected value and
  whose user data name this provider, this participant key and the hash of this policy; it was
  issued at most the allowed age ago and not more than a minute ahead of the clock.
\<close>

theorem nitro_attestation_binds:
  assumes "verify_provider_participant_attestation L sha256 scalar A a provider_id k now later = Inr v" "va_mode v = NitroMode"
    and "0 \<le> now" "millis now < 2 ^ 63"
  shows "\<exists>document cose header payload signature m pcrs certificate user_bytes user timestamp.
      base64_decode L (ar_document a) = Some document \<and> al_cbor_read A document = Some cose
    \<and> cose_parts cose header payload signature \<and> al_cbor_read A payload = Some (CMap m)
    \<and> map_of m (CText ''certificate'') = Some (CBytes certificate) \<and> signed_by_nitro A header payload signature certificate
    \<and> map_of m (CText ''pcrs'') = Some (CMap pcrs)
    \<and> (\<forall>(i, expected)\<in>set (po_pcrs (ar_policy a)). \<exists>c bs. (c, CBytes bs) \<in> set pcrs \<and> pcr_index c = Some i
        \<and> normalize_hex (hex_encode L bs) = normalize_hex expected)
    \<and> map_of m (CText ''user_data'') = Some (CBytes user_bytes) \<and> al_user_data_read A user_bytes = Some user
    \<and> ud_provider_id user = provider_id \<and> ud_participant_pubkey user = pubkey_to_string L k
    \<and> normalize_hex (ud_attestation_policy_hash user)
        = normalize_hex (compute_provider_attestation_policy_hash L sha256 scalar (ar_policy a))
    \<and> map_of m (CText ''timestamp'') = Some (CInteger timestamp) \<and> timestamp \<le> millis now + 60000
    \<and> millis now - timestamp \<le> uint (case ar_max_age_ms a of Some n \<Rightarrow> n | None \<Rightarrow> DEFAULT_MAX_ATTESTATION_AGE_MS)"
proof -
  let ?age = "case ar_max_age_ms a of Some n \<Rightarrow> n | None \<Rightarrow> DEFAULT_MAX_ATTESTATION_AGE_MS"
    and ?hash = "compute_provider_attestation_policy_hash L sha256 scalar (ar_policy a)"
  obtain document where d: "base64_decode L (ar_document a) = Some document"
    and n: "verify_nitro_attestation L A document provider_id k (ar_policy a) ?hash ?age now later = Inr v"
    using assms(1,2) unfolding verify_provider_participant_attestation_def Let_def aneed_Inr
    by (auto simp: verify_local_dev_attestation_def checked_iffs split: option.splits)
  from n obtain s doc ub ud u1 u2 u3 u4 where s: "parse_cose_sign1 A document = Inr s"
    and doc: "parse_nitro_attestation_payload L A (cs_payload_bytes s) = Inr doc"
    and chain: "verify_certificate_chain A (nt_certificate_der doc) (nt_cabundle_der doc) = Inr u1"
    and sig: "verify_cose_signature A s (nt_certificate_der doc) = Inr u2"
    and time: "verify_nitro_timestamp doc ?age now = Inr u3" and pcrs: "verify_expected_pcrs doc (ar_policy a) = Inr u4"
    and ud: "nt_user_data doc = Some ub" "al_user_data_read A ub = Some ud" "ud_provider_id ud = provider_id"
      "ud_participant_pubkey ud = pubkey_to_string L k" "normalize_hex (ud_attestation_policy_hash ud) = normalize_hex ?hash"
    unfolding verify_nitro_attestation_def checked_iffs by blast
  obtain cose where c: "al_cbor_read A document = Some cose"
    "cose_parts cose (cs_protected_header_bytes s) (cs_payload_bytes s) (cs_signature_bytes s)"
    using parse_cose_sign1_shape [OF s] by blast
  obtain m es where m: "al_cbor_read A (cs_payload_bytes s) = Some (CMap m)" "map_of m (CText ''pcrs'') = Some (CMap es)"
    "parse_pcrs L es Map.empty = Inr (nt_pcrs doc)" "map_of m (CText ''certificate'') = Some (CBytes (nt_certificate_der doc))"
    "map_of m (CText ''user_data'') = Some (CBytes ub)" "map_of m (CText ''timestamp'') = Some (CInteger (uint (nt_timestamp_ms doc)))"
    using parse_payload_shape [OF doc] ud(1) by metis
  have p: "\<exists>c bs. (c, CBytes bs) \<in> set es \<and> pcr_index c = Some i \<and> normalize_hex (hex_encode L bs) = normalize_hex e"
    if "(i, e) \<in> set (po_pcrs (ar_policy a))" for i e
  proof -
    have "verify_pcr_list doc (po_pcrs (ar_policy a)) = Inr ()" using pcrs by (simp add: verify_expected_pcrs_def)
    from bspec [OF this [unfolded verify_pcr_list_all] that] obtain x where "nt_pcrs doc i = Some x" "normalize_hex x = normalize_hex e" by auto
    with parse_pcrs_sound [OF m(3)] show ?thesis by fastforce
  qed
  have "uint (nt_timestamp_ms doc) \<le> millis now + 60000 \<and> millis now - uint (nt_timestamp_ms doc) \<le> uint ?age"
    using nitro_time_bounds [OF _ assms(3,4)] time by simp
  with d c m ud p checked_signature [OF chain sig] show ?thesis by blast
qed

definition demo_policy :: attestation_policy where
  "demo_policy = \<lparr>po_version = 1, po_pcrs = [(''0'', chars [5])], po_eif_signing_cert_sha256 = ''ab'', po_kms_key_arn_sha256 = ''cd'', po_protocol = ''p''\<rparr>"

definition demo_user_data :: nitro_user_data where
  "demo_user_data = \<lparr>ud_version = 1, ud_provider_id = ''p2'', ud_participant_pubkey = pubkey_to_string demo_lib 7,
     ud_attestation_policy_hash = compute_provider_attestation_policy_hash demo_lib (\<lambda>bs. 0) (\<lambda>j. []) demo_policy, ud_manifest_hash = None\<rparr>"

definition demo_payload :: cbor where
  "demo_payload = CMap [(CText ''pcrs'', CMap [(CInteger 0, CBytes [5])]), (CText ''cabundle'', CArray [CBytes [9]]),
     (CText ''timestamp'', CInteger 1000), (CText ''digest'', CText ''SHA384''), (CText ''certificate'', CBytes [1, 2]),
     (CText ''user_data'', CBytes (unary 2 demo_user_data))]"

definition demo_nitro :: attestation_request where
  "demo_nitro = \<lparr>ar_document = base64_encode demo_lib (unary 1 (CTag 18 (CArray [CBytes (unary 1 (CMap [(CInteger 1, CInteger (-35))])), CNull,
     CBytes (unary 1 demo_payload), CBytes [1, 2]]))), ar_policy = demo_policy, ar_max_age_ms = None\<rparr>"

theorem nitro_attestation_binds_witness:
  "\<exists>v cose header payload signature m certificate.
     verify_provider_participant_attestation demo_lib (\<lambda>bs. 0) (\<lambda>j. []) demo_attest demo_nitro ''p2'' 7 1000000000 1000000000 = Inr v
   \<and> va_mode v = NitroMode \<and> cose_parts cose header payload signature \<and> al_cbor_read demo_attest payload = Some (CMap m)
   \<and> map_of m (CText ''certificate'') = Some (CBytes certificate) \<and> signed_by_nitro demo_attest header payload signature certificate"
proof -
  let ?r = "verify_provider_participant_attestation demo_lib (\<lambda>bs. 0) (\<lambda>j. []) demo_attest demo_nitro ''p2'' 7 1000000000 1000000000"
  have "base64_decode demo_lib (base64_encode demo_lib bs) = Some bs" for bs by (simp add: demo_lib_def str_bytes_chars)
  moreover have "hex_encode demo_lib [5] = chars [5]" by (simp add: demo_lib_def)
  moreover have "show_int 0 = ''0''" by code_simp
  ultimately obtain v where v: "?r = Inr v" "va_mode v = NitroMode"
    by (simp add: verify_provider_participant_attestation_def demo_nitro_def demo_attest_def un_unary_other verify_nitro_attestation_def
        parse_cose_sign1_def COSE_SIGN1_TAG_def parse_nitro_attestation_payload_def demo_payload_def payload_field_def cbor_as_u64_def
        optional_bytes_def verify_certificate_chain_def verify_cose_signature_def p1363_to_der_def cose_algorithm_to_digest_def
        verify_nitro_timestamp_def millis_def saturating_add_def saturating_sub_def verify_expected_pcrs_def demo_policy_def
        demo_user_data_def)
  then show ?thesis using nitro_attestation_binds [OF v] by (auto simp: millis_def) blast
qed

text \<open>A sample writer of JSON scalars: every character of a string is escaped.\<close>

fun demo_scalar :: "jvalue \<Rightarrow> string" where
  "demo_scalar (JStr s) = CHR 0x22 # concat (map (\<lambda>c. [CHR 0x5C, c]) s) @ [CHR 0x22]"
| "demo_scalar (JInt n) = chars (unary 3 n)"
| "demo_scalar _ = []"

lemma demo_scalar_laws: "json_scalar_laws demo_scalar"
proof -
  have str: "concat (map (\<lambda>c. [CHR 0x5C, c]) a) @ CHR 0x22 # x = concat (map (\<lambda>c. [CHR 0x5C, c]) b) @ CHR 0x22 # y \<Longrightarrow> a = b \<and> x = y" for a b x y
  proof (induction a arbitrary: b)
    case Nil
    then show ?case by (cases b) auto
  next
    case (Cons c a)
    then show ?case by (cases b) auto
  qed
  have "m = n" if "chars (unary 3 m) = chars (unary 3 n)" for m n :: int
  proof -
    have "unary 3 m = unary 3 n" using that by (metis str_bytes_chars)
    then show ?thesis by (metis option.inject un_unary_unary)
  qed
  then have num: "demo_scalar (JInt m) = demo_scalar (JInt n) \<Longrightarrow> m = n" for m n by simp
  have "demo_scalar (JStr a) @ x = demo_scalar (JStr b) @ y \<Longrightarrow> a = b \<and> x = y" for a b x y
    by (rule str) simp
  then show ?thesis unfolding json_scalar_laws_def using num by (metis demo_scalar.simps(1))
qed

theorem policy_hash_binds_witness:
  "(let q = demo_policy\<lparr>po_eif_signing_cert_sha256 := '' 0xAB''\<rparr> in
      compute_provider_attestation_policy_hash demo_lib (\<lambda>bs. of_nat (length bs)) demo_scalar demo_policy
        = compute_provider_attestation_policy_hash demo_lib (\<lambda>bs. of_nat (length bs)) demo_scalar q
    \<and> po_eif_signing_cert_sha256 demo_policy \<noteq> po_eif_signing_cert_sha256 q
    \<and> normalize_hex (po_eif_signing_cert_sha256 demo_policy) = normalize_hex (po_eif_signing_cert_sha256 q)
    \<and> po_protocol demo_policy = po_protocol q)"
proof -
  let ?q = "demo_policy\<lparr>po_eif_signing_cert_sha256 := '' 0xAB''\<rparr>"
  have "normalize_hex '' 0xAB'' = normalize_hex ''ab''" by code_simp
  then have t: "normalized_policy_json demo_scalar demo_policy = normalized_policy_json demo_scalar ?q"
    by (simp add: normalized_policy_json_def demo_policy_def)
  then have h: "compute_provider_attestation_policy_hash demo_lib (\<lambda>bs. of_nat (length bs)) demo_scalar demo_policy
      = compute_provider_attestation_policy_hash demo_lib (\<lambda>bs. of_nat (length bs)) demo_scalar ?q"
    by (simp add: compute_provider_attestation_policy_hash_def)
  from policy_hash_binds [OF demo_lib_laws demo_scalar_laws h] t h show ?thesis by (simp add: demo_policy_def)
qed

section \<open>Self-made documents\<close>

lemma local_dev_window:
  assumes "t \<le> now" "now \<le> t + 10 * 60 * 1000000000"
  shows "verify_attestation_window (millis t) (millis (t + 10 * 60 * 1000000000)) DEFAULT_MAX_ATTESTATION_AGE_MS now = Inr ()"
proof -
  have "t div 1000000 \<le> now div 1000000" "now div 1000000 \<le> t div 1000000 + 600000"
    "now div 1000000 \<le> (t + 600000000000) div 1000000" using assms by linarith+
  then show ?thesis by (simp add: verify_attestation_window_def DEFAULT_MAX_ATTESTATION_AGE_MS_def millis_def Let_def)
qed

lemma local_dev_accepted:
  assumes "wal_lib_laws L" "attest_laws A" "0 \<le> t" "t \<le> now" "now \<le> t + 10 * 60 * 1000000000" "t < 253402300000 * 1000000000"
  shows "verify_provider_participant_attestation L sha256 scalar A
      \<lparr>ar_document = build_local_dev_provider_attestation L sha256 scalar A provider_id k policy manifest t, ar_policy = policy, ar_max_age_ms = None\<rparr>
      provider_id k now later
    = Inr \<lparr>va_policy_hash_hex = compute_provider_attestation_policy_hash L sha256 scalar policy, va_verified_at_ms = of_int (millis later),
         va_mode = LocalDevMode, va_manifest_hash = manifest\<rparr>"
proof -
  have "base64_decode L (base64_encode L bs) = Some bs" for bs using assms(1) by (simp add: wal_lib_laws_def)
  moreover have "al_local_read A (al_local_write A d) = Some d" "al_rfc3339_read A (al_rfc3339_write A t) = Some t"
    "al_rfc3339_read A (al_rfc3339_write A (t + 10 * 60 * 1000000000)) = Some (t + 10 * 60 * 1000000000)" for d
    using assms(2,3,6) unfolding attest_laws_def by auto
  ultimately show ?thesis using local_dev_window [OF assms(4,5)]
    by (simp add: verify_provider_participant_attestation_def build_local_dev_provider_attestation_def verify_local_dev_attestation_def)
qed

lemma verified_policy_hash:
  "verify_provider_participant_attestation L sha256 scalar A a provider_id k now later = Inr v
     \<Longrightarrow> va_policy_hash_hex v = compute_provider_attestation_policy_hash L sha256 scalar (ar_policy a)"
  unfolding verify_provider_participant_attestation_def Let_def verify_local_dev_attestation_def verify_nitro_attestation_def
  by (auto simp: checked_iffs split: option.splits)

lemma policy_hash_is_hex_32:
  "wal_lib_laws L \<Longrightarrow> hex_32 L (compute_provider_attestation_policy_hash L sha256 scalar p)
     = Some (word_bytes (sha256 (str_bytes (normalized_policy_json scalar p))))"
  by (simp add: hex_32_def compute_provider_attestation_policy_hash_def wal_lib_laws_def)

lemma registration_participant_hash:
  assumes "wal_lib_laws (he_lib E)" "registration_participant E req s = (Ok (p, att), s1)"
  shows "\<forall>a\<in>set_option att. hex_32 (he_lib E) (va_policy_hash_hex a) \<noteq> None"
  using assms(2) policy_hash_is_hex_32 [OF assms(1)]
  by (auto simp: registration_participant_def hret_def hsome_def hfail_def hbind_def utc_now_ns_def dest!: verified_policy_hash
      split: option.splits sum.splits)

lemma steps_never_panic:
  "registration_participant E req s = (r, s1) \<Longrightarrow> r \<noteq> Panic"
  "registration_secrets E req k s = (r2, s1) \<Longrightarrow> r2 \<noteq> Panic"
  "wal_log E e s = (r3, s1) \<Longrightarrow> r3 \<noteq> Panic"
  by (auto simp: registration_participant_def registration_secrets_def wal_log_def wal_try_def hret_def hsome_def hfail_def hbind_def
      hguard_def utc_now_def utc_now_ns_def Let_def split: option.splits sum.splits if_splits prod.splits)

text \<open>
  Registering a provider never panics: the two \<open>expect\<close> calls that decode the policy hash of a
  verified attestation cannot fail, whatever document, policy and key the request carries.
\<close>

theorem registration_never_panics:
  assumes "wal_lib_laws (he_lib E)" "post_register_provider E req s = (r, s')"
  shows "r \<noteq> Panic"
proof
  assume r: "r = Panic"
  obtain target :: settlement_target and d :: chain_descriptor where t: "hbind (registration_participant E req) (\<lambda>pa. hbind (registration_secrets E req (fst pa)) (\<lambda>secrets.
      register_commit E req target (cd_kind d) (fst pa) (snd pa) secrets)) s = (Panic, s')"
    using assms(2) r by (auto simp: post_register_provider_def hfail_def split: sum.splits)
  then obtain p att s1 where p: "registration_participant E req s = (Ok (p, att), s1)"
    and t1: "hbind (registration_secrets E req p) (register_commit E req target (cd_kind d) p att) s1 = (Panic, s')"
    using steps_never_panic(1) by (fastforce simp: hbind_def split: prod.splits outcome.splits)
  from t1 obtain sec s2 where "registration_secrets E req p s1 = (Ok sec, s2)"
    and t2: "register_commit E req target (cd_kind d) p att sec s2 = (Panic, s')"
    using steps_never_panic(2) by (fastforce simp: hbind_def split: prod.splits outcome.splits)
  have "\<exists>e s3. wal_log E e s2 = (Panic, s3)"
    using t2 registration_participant_hash [OF assms(1) p]
    by (auto simp: register_commit_def hpanic_unless_def hvault_def hthen_def hbind_def hfail_def hret_def modify_vault_def
        split: if_splits prod.splits outcome.splits)
  then show False using steps_never_panic(3) by blast
qed

theorem registration_never_panics_witness:
  "\<exists>r s'. post_register_provider demo_handlers (demo_registration\<lparr>gq_participant_pubkey := Some ''xxxxxxx'',
      gq_participant_attestation := Some demo_nitro\<rparr>) demo_pays = (r, s') \<and> r \<noteq> Panic"
proof -
  have "wal_lib_laws (he_lib demo_handlers)" using demo_lib_laws by (simp add: demo_handlers_def)
  from registration_never_panics [OF this] show ?thesis by (meson surj_pair)
qed

text \<open>The next write to the log succeeds, whatever it writes and whenever.\<close>

definition disk_ready :: "('p, 's) handler_env \<Rightarrow> node \<Rightarrow> bool" where
  "disk_ready E s \<longleftrightarrow> (\<forall>e s1. nd_wal_io s1 = nd_wal_io s \<longrightarrow> fst (wal_log E e s1) = Ok ())"

text \<open>
  C38: Nothing has to be attested: for every participant key and every policy, the unsigned
  local-dev document that \<open>build_local_dev_provider_attestation\<close> makes is accepted in every
  deployment, and registration then records the key and the hash of the policy the registrant chose.
\<close>

theorem self_made_attestation_registers:
  assumes laws: "wal_lib_laws (he_lib E)" "attest_laws (he_attest E)"
    and target: "settlement_target_parse (pubkey_from_str (he_lib E)) (gq_network req) (gq_asset_mint req) (gq_settlement_token_account req)
      = Inr target"
    and net: "parse_network (gq_network req) = Inr d"
    and key: "gq_participant_pubkey req = Some (pubkey_to_string (he_lib E) k)"
    and doc: "gq_participant_attestation req = Some \<lparr>ar_document = build_local_dev_provider_attestation (he_lib E) (he_sha256 E)
      (he_json_scalar E) (he_attest E) (gq_provider_id req) k policy None t, ar_policy = policy, ar_max_age_ms = None\<rparr>"
    and auth: "gq_auth_mode req = ''bearer''" "hex_32 (he_lib E) (gq_api_key_hash req) = Some h"
    and time: "0 \<le> t" "t \<le> shd (nd_clock s)" "shd (nd_clock s) \<le> t + 10 * 60 * 1000000000" "t < 253402300000 * 1000000000"
    and new: "dm_get (providers (as_vault (nd_app s))) (gq_provider_id req) = None"
    and disk: "disk_ready E s" and run: "post_register_provider E req s = (r, s')"
  shows "r = Ok (gq_provider_id req) \<and> (\<exists>p. dm_get (providers (as_vault (nd_app s'))) (gq_provider_id req) = Some p
    \<and> pr_participant_pubkey p = Some k \<and> pr_participant_attestation_mode p = Some ''local-dev''
    \<and> pr_participant_attestation_policy_hash p = Some (he_sha256 E (str_bytes (normalized_policy_json (he_json_scalar E) policy))))"
proof -
  let ?later = "shd (stl (nd_clock s))" and ?s1 = "s\<lparr>nd_clock := stl (stl (nd_clock s))\<rparr>"
  let ?v = "\<lparr>va_policy_hash_hex = compute_provider_attestation_policy_hash (he_lib E) (he_sha256 E) (he_json_scalar E) policy,
    va_verified_at_ms = of_int (millis ?later), va_mode = LocalDevMode, va_manifest_hash = None\<rparr>"
  have "pubkey_from_str (he_lib E) (pubkey_to_string (he_lib E) k) = Some k" using laws(1) by (simp add: wal_lib_laws_def)
  then have p: "registration_participant E req s = (Ok (Some k, Some ?v), ?s1)"
    using key doc local_dev_accepted [OF laws time] by (simp add: registration_participant_def hsome_def hbind_def hret_def utc_now_ns_def)
  have sec: "registration_secrets E req (Some k) ?s1 = (Ok (Some h, None), ?s1)"
    using auth by (simp add: registration_secrets_def hsome_def hret_def)
  note hash = policy_hash_is_hex_32 [OF laws(1), of "he_sha256 E" "he_json_scalar E" policy]
  let ?w = "WProviderRegistered (wal_provider_of req (Some ?v) target (cd_kind d))"
  have "fst (wal_log E ?w ?s1) = Ok ()" using disk by (simp add: disk_ready_def)
  then obtain s2 where w: "wal_log E ?w ?s1 = (Ok (), s2)" by (cases "wal_log E ?w ?s1") auto
  show ?thesis using run target net p sec new hash w
    by (auto simp: post_register_provider_def register_commit_def hbind_def hpanic_unless_def hvault_def hthen_def hret_def modify_vault_def
        set_vault_def registration_of_def hash_bytes)
qed

definition demo_self_made :: register_provider_request where
  "demo_self_made = demo_registration\<lparr>gq_auth_mode := ''bearer'', gq_api_key_hash := replicate 32 (CHR ''a''),
     gq_participant_pubkey := Some (pubkey_to_string demo_lib 7),
     gq_participant_attestation := Some \<lparr>ar_document = build_local_dev_provider_attestation demo_lib (\<lambda>bs. of_nat (length bs)) (\<lambda>j. []) demo_attest
        ''p2'' 7 demo_policy None 1010000000000, ar_policy = demo_policy, ar_max_age_ms = None\<rparr>\<rparr>"

theorem self_made_attestation_registers_witness:
  "\<exists>s' p. post_register_provider demo_handlers demo_self_made demo_pays = (Ok ''p2'', s')
     \<and> dm_get (providers (as_vault (nd_app s'))) ''p2'' = Some p \<and> pr_participant_pubkey p = Some 7
     \<and> pr_participant_attestation_mode p = Some ''local-dev''"
proof -
  obtain r s' where run: "post_register_provider demo_handlers demo_self_made demo_pays = (r, s')"
    by (cases "post_register_provider demo_handlers demo_self_made demo_pays")
  have laws: "wal_lib_laws (he_lib demo_handlers)" "attest_laws (he_attest demo_handlers)"
    using demo_lib_laws demo_attest_laws by (simp_all add: demo_handlers_def)
  have disk: "disk_ready demo_handlers demo_pays"
    by (simp add: disk_ready_def demo_pays_def demo_node_def demo_handlers_def demo_lib_def handler_effects Let_def)
  with run have "r = Ok (gq_provider_id demo_self_made) \<and> (\<exists>p. dm_get (providers (as_vault (nd_app s'))) (gq_provider_id demo_self_made) = Some p
      \<and> pr_participant_pubkey p = Some 7 \<and> pr_participant_attestation_mode p = Some ''local-dev''
      \<and> pr_participant_attestation_policy_hash p = Some (he_sha256 demo_handlers (str_bytes (normalized_policy_json (he_json_scalar demo_handlers) demo_policy))))"
    by (intro self_made_attestation_registers [OF laws, where t = 1010000000000, OF _ _ _ _ _ _ _ _ _ _ _ disk])
      (auto simp: demo_self_made_def demo_registration_def demo_handlers_def demo_pays_def demo_node_def hex_32_def demo_lib_def str_bytes_def
        settlement_target_parse_def parse_network_def starts_with_def demo_app_def fresh_app_def demo_defs)
  then show ?thesis using run by (auto simp: demo_self_made_def demo_registration_def)
qed

end
