(* ===== verification/Runtime_Attestation.thy ===== *)
theory Runtime_Attestation
  imports Attestation Attestation_Properties Evm_Codec
begin

text \<open>
  What the enclave's own attestation promises: the policy hash it derives is the one the check of a
  provider computes for the same policy, and a document of the security module carries the keys,
  the snapshot and the TLS key it is answered with.
\<close>

section \<open>Hexadecimal text\<close>

lemma white_space_ends: "w \<in> set white_space \<Longrightarrow> w \<noteq> [] \<and> \<not> is_ascii_hexdigit (hd w) \<and> \<not> is_ascii_hexdigit (last w)"
proof -
  have "list_all (\<lambda>w. w \<noteq> [] \<and> \<not> is_ascii_hexdigit (hd w) \<and> \<not> is_ascii_hexdigit (last w)) white_space" by code_simp
  then show "w \<in> set white_space \<Longrightarrow> w \<noteq> [] \<and> \<not> is_ascii_hexdigit (hd w) \<and> \<not> is_ascii_hexdigit (last w)" by (simp add: list_all_iff)
qed

lemma drop_spaces_none: "(\<And>w. w \<in> set ws \<Longrightarrow> \<not> starts_with s w \<or> w = []) \<Longrightarrow> drop_spaces ws s = s"
  by (subst drop_spaces.simps) (auto split: option.splits dest!: find_Some_iff [THEN iffD1])

lemma starts_with_hd: "starts_with s w \<Longrightarrow> w \<noteq> [] \<Longrightarrow> s \<noteq> [] \<and> hd s = hd w"
  by (cases s; cases w) (auto simp: starts_with_def)

lemma trim_hex: "list_all is_ascii_hexdigit s \<Longrightarrow> trim s = s"
proof -
  assume s: "list_all is_ascii_hexdigit s"
  then have "s \<noteq> [] \<Longrightarrow> is_ascii_hexdigit (hd s) \<and> is_ascii_hexdigit (last s)" by (simp add: list_all_iff)
  then have "\<not> starts_with s w" "\<not> starts_with (rev s) (rev w)" if "w \<in> set white_space" for w
    using white_space_ends [OF that] starts_with_hd [of s w] starts_with_hd [of "rev s" "rev w"] by (auto simp: hd_rev)
  then have "drop_spaces white_space s = s" "drop_spaces (map rev white_space) (rev s) = rev s"
    by (auto intro!: drop_spaces_none)
  then show "trim s = s" by (simp add: trim_def)
qed

lemma hexdigit_of_lower: "is_ascii_hexdigit (char_to_lower c) \<Longrightarrow> is_ascii_hexdigit c"
  by (auto simp: is_ascii_hexdigit_def char_to_lower_def Let_def split: if_splits)

lemma lower_idem [simp]: "to_ascii_lowercase (to_ascii_lowercase s) = to_ascii_lowercase s"
  by (auto simp: to_ascii_lowercase_def char_to_lower_def Let_def)

lemma all_hex_of_lower: "list_all is_ascii_hexdigit (to_ascii_lowercase s) \<Longrightarrow> list_all is_ascii_hexdigit s"
  by (auto simp: to_ascii_lowercase_def list_all_iff dest: hexdigit_of_lower)

lemma normalize_hex_fixed: "list_all is_ascii_hexdigit s \<Longrightarrow> to_ascii_lowercase s = s \<Longrightarrow> normalize_hex s = s"
  by (simp add: normalize_hex_def trim_hex trim_0x_hex)

lemma strip_prefix_Some: "strip_prefix p s = Some t \<Longrightarrow> s = p @ t"
  unfolding strip_prefix_def starts_with_def by (metis append_take_drop_id option.distinct(1) option.inject)

lemma normalize_strict:
  assumes "normalize_hex_strict v = Inr n"
  shows "normalize_hex v = n" "normalize_hex n = n"
proof -
  let ?s = "case strip_prefix ''0x'' (trim v) of Some s \<Rightarrow> s | None \<Rightarrow> trim v"
  have n: "n = to_ascii_lowercase ?s" "list_all is_ascii_hexdigit n"
    using assms by (auto simp: normalize_hex_strict_def Let_def checked_iffs)
  have "trim v = ?s \<or> trim v = ''0x'' @ ?s"
    using strip_prefix_Some [of "''0x''" "trim v"] by (cases "strip_prefix ''0x'' (trim v)") auto
  with n obtain s where s: "n = to_ascii_lowercase s" "list_all is_ascii_hexdigit n" "trim v = s \<or> trim v = ''0x'' @ s" by blast
  then have "trim_0x (trim v) = s" using all_hex_of_lower [of s] by (auto simp: trim_0x_hex)
  then show "normalize_hex v = n" using s(1) by (simp add: normalize_hex_def)
  show "normalize_hex n = n" using s(1,2) by (simp add: normalize_hex_fixed)
qed

text \<open>\<open>hex::encode\<close> writes lower-case digits.\<close>

definition hex_lower :: "wal_lib \<Rightarrow> bool" where
  "hex_lower L \<longleftrightarrow> (\<forall>bs. list_all is_ascii_hexdigit (hex_encode L bs) \<and> to_ascii_lowercase (hex_encode L bs) = hex_encode L bs)"

lemma normalize_hex_encode: "hex_lower L \<Longrightarrow> normalize_hex (hex_encode L bs) = hex_encode L bs"
  by (simp add: hex_lower_def normalize_hex_fixed)

section \<open>Policy hash\<close>

lemma collect_pcrs_encoded:
  "collect_pcrs L es p = Inr q \<Longrightarrow> snd ` set p \<subseteq> range (hex_encode L) \<Longrightarrow> snd ` set q \<subseteq> range (hex_encode L)"
proof (induction L es p rule: collect_pcrs.induct)
  case (2 L k v es p)
  have upd: "snd ` set (dm_insert i (hex_encode L bs) p) \<subseteq> range (hex_encode L)" for i bs
    using "2.prems"(2) by (induction p) auto
  from "2.prems"(1) obtain i where i: "pcr_index k = Some i" by (auto simp: checked_iffs)
  show ?case
  proof (cases "i \<in> set required_pcrs")
    case True
    with "2.prems"(1) i obtain bs where v: "v = CBytes bs" by (cases v) (auto simp: checked_iffs)
    show ?thesis using "2.IH"(2) [of i bs] "2.prems" i True v upd by simp
  next
    case False
    then show ?thesis using "2.IH"(1) [of i] "2.prems" i by simp
  qed
qed simp

lemma collect_payload_pcrs_encoded:
  "collect_payload_pcrs L m p = Inr q \<Longrightarrow> snd ` set p \<subseteq> range (hex_encode L) \<Longrightarrow> snd ` set q \<subseteq> range (hex_encode L)"
proof (induction L m p rule: collect_payload_pcrs.induct)
  case (2 L k v es p)
  show ?case
  proof (cases "k = CText ''pcrs''")
    case True
    with "2.prems"(1) obtain pm r where v: "v = CMap pm" "collect_pcrs L pm p = Inr r" "collect_payload_pcrs L es r = Inr q"
      by (cases v) (auto simp: checked_iffs)
    show ?thesis using "2.IH"(2) [of pm r] v True collect_pcrs_encoded [OF v(2) "2.prems"(2)] by simp
  next
    case False
    then show ?thesis using "2.IH"(1) "2.prems" by simp
  qed
qed simp

lemma require_pcrs_same: "require_pcrs rs p = Inr q \<Longrightarrow> q = p \<and> set rs \<subseteq> fst ` set p"
  by (induction rs p rule: require_pcrs.induct) (auto simp: checked_iffs dest: map_of_SomeD intro: rev_image_eqI)

lemma document_pcrs:
  assumes "parse_pcrs_from_attestation_document L A d = Inr p"
  shows "snd ` set p \<subseteq> range (hex_encode L)" "set required_pcrs \<subseteq> fst ` set p"
proof -
  obtain payload where "(case payload of CMap m \<Rightarrow> abind (collect_payload_pcrs L m []) (require_pcrs required_pcrs)
      | _ \<Rightarrow> Inl ''Nitro attestation payload must decode to a CBOR map'') = Inr p"
    using assms unfolding parse_pcrs_from_attestation_document_def checked_iffs by blast
  then obtain m q where "collect_payload_pcrs L m [] = Inr q" "require_pcrs required_pcrs q = Inr p"
    by (cases payload) (auto simp: checked_iffs)
  then show "snd ` set p \<subseteq> range (hex_encode L)" "set required_pcrs \<subseteq> fst ` set p"
    using collect_payload_pcrs_encoded [of L m "[]" q] require_pcrs_same [of required_pcrs q p] by auto
qed

lemma kms_normal:
  assumes "hex_lower L" "env_kms_key_arn_sha256 L sha256 env = Inr k"
  shows "normalize_hex k = k"
  using assms normalize_strict(2) normalize_hex_encode by (auto simp: env_kms_key_arn_sha256_def checked_iffs split: option.splits)


text \<open>A sample enclave on Nitro: hexadecimal text as in \<open>demo_hex\<close>, five PCRs of one byte.\<close>

definition hex_demo_lib :: wal_lib where
  "hex_demo_lib = demo_lib\<lparr>hex_encode := demo_hex_enc, hex_decode := demo_hex_dec\<rparr>"

lemma hex_demo_lower: "hex_lower hex_demo_lib"
proof -
  have d: "is_ascii_hexdigit (hexdigit n) \<and> char_to_lower (hexdigit n) = hexdigit n" if "n < 16" for n
    using that by (auto simp: hexdigit_def is_ascii_hexdigit_def char_to_lower_def Let_def)
  have lt: "unat b div 16 < 16" "unat b mod 16 < 16" for b :: u8 using unsigned_less [of b, where ?'a = nat] by auto
  have "list_all is_ascii_hexdigit (demo_hex_enc bs) \<and> to_ascii_lowercase (demo_hex_enc bs) = demo_hex_enc bs" for bs
  proof (induction bs)
    case (Cons b bs)
    then show ?case using d [OF lt(1) [of b]] d [OF lt(2) [of b]] by (simp add: demo_hex_enc_def to_ascii_lowercase_def)
  qed (simp add: demo_hex_enc_def to_ascii_lowercase_def)
  then show ?thesis by (simp add: hex_lower_def hex_demo_lib_def)
qed

definition demo_nsm :: nsm_device where
  "demo_nsm = \<lparr>ns_exists = True, ns_fd = 3, ns_attest = (\<lambda>u k. NsmAttestation (unary 1 (CArray [CNull, CNull,
     CBytes (unary 1 (CMap [(CText ''pcrs'', CMap (map (\<lambda>i. (CText i, CBytes [5])) (''9'' # required_pcrs)))])), CNull])))\<rparr>"

definition demo_env :: env_vars where
  "demo_env = [''A402_EIF_SIGNING_CERT_SHA256'' \<mapsto> ''0xAB'', ''A402_KMS_KEY_ARN'' \<mapsto> ''arn'']"

lemma demo_env_nitro:
  "demo_env ''A402_ATTESTATION_POLICY_HASH_HEX'' = None" "\<not> should_use_sev_snp_attestation demo_env"
  "should_use_dynamic_nitro_attestation demo_env demo_nsm"
  by (simp_all add: demo_env_def should_use_sev_snp_attestation_def should_use_dynamic_nitro_attestation_def tee_platform_from_env_def demo_nsm_def)

lemma demo_resolves: "\<exists>h. resolve_attestation_policy_hash_from_env hex_demo_lib (\<lambda>bs. 0) demo_scalar demo_attest demo_nsm demo_env = Inr h"
proof -
  have "normalize_hex_strict ''0xAB'' = Inr ''ab''" by code_simp
  moreover have "demo_env ''A402_EIF_SIGNING_CERT_SHA256'' = Some ''0xAB''" "demo_env ''A402_KMS_KEY_ARN_SHA256'' = None"
    "demo_env ''A402_KMS_KEY_ARN'' = Some ''arn''" by (simp_all add: demo_env_def)
  moreover have "base64_decode hex_demo_lib (base64_encode hex_demo_lib bs) = Some bs" for bs
    by (simp add: hex_demo_lib_def demo_lib_def str_bytes_chars)
  ultimately show ?thesis using demo_env_nitro
    by (simp add: resolve_attestation_policy_hash_from_env_def env_kms_key_arn_sha256_def request_nitro_attestation_document_def demo_nsm_def
        parse_pcrs_from_attestation_document_def demo_attest_def required_pcrs_def)
qed


section \<open>Run time\<close>

lemma request_Inr:
  "request_nitro_attestation_document L N u k = Inr d \<longleftrightarrow> 0 \<le> ns_fd N \<and> (\<exists>x. ns_attest N u k = NsmAttestation x \<and> d = base64_encode L x)"
  by (cases "ns_attest N u k") (auto simp: request_nitro_attestation_document_def checked_iffs aguard_def)

text \<open>
  C25: What the enclave answers at run time: outside the local-dev mode there is always a TLS key, and
  a document of the security module is one it made for this very TLS key and for user data with
  these vault keys, this policy hash and this snapshot number.
\<close>

theorem runtime_attestation_binds:
  assumes "from_bootstrap_bundle env N bundle tls manifest = Inr p"
    and "runtime_attestation L sha256 D rfc3339 N p config signer policy_hash seqno now = Inr r"
  shows "ra_snapshot_seqno r = seqno \<and> ra_manifest_hash r = manifest \<and> ra_tls_public_key_sha256 r = map_option tb_public_key_sha256 tls
    \<and> (ra_is_local_dev r \<longleftrightarrow> ra_tee_platform r = ''local-dev'') \<and> (ra_is_local_dev r \<or> tls \<noteq> None)
    \<and> (should_use_sev_snp_attestation env \<or> \<not> should_use_dynamic_nitro_attestation env N \<or>
        (\<exists>tb user_data document. tls = Some tb
          \<and> dw_user_data D \<lparr>nu_version = 1, nu_vault_config = pubkey_to_string L config, nu_vault_signer = pubkey_to_string L signer,
              nu_attestation_policy_hash = hex_encode L policy_hash, nu_snapshot_seqno = seqno,
              nu_tls_public_key_sha256 = Some (tb_public_key_sha256 tb), nu_manifest_hash = manifest\<rparr> = Some user_data
          \<and> ns_attest N (Some user_data) (Some (tb_public_key_spki_der tb)) = NsmAttestation document
          \<and> ra_document_b64 r = base64_encode L document))"
proof -
  have p: "ap_tls_binding p = tls" "ap_manifest_hash p = manifest" "is_local_mode (ap_mode p) \<or> tls \<noteq> None"
    "bootstrap_mode env N bundle = Inr (ap_mode p)"
    using assms(1) by (auto simp: from_bootstrap_bundle_def checked_iffs)
  have r: "ra_snapshot_seqno r = seqno" "ra_manifest_hash r = manifest" "ra_tls_public_key_sha256 r = map_option tb_public_key_sha256 tls"
    "ra_is_local_dev r \<longleftrightarrow> ra_tee_platform r = ''local-dev''" "ra_is_local_dev r = is_local_mode (ap_mode p)"
    using assms(2) p(1,2) by (auto simp: runtime_attestation_def Let_def is_local_mode_def checked_iffs split: enclave_attestation_mode.splits)
  have "\<exists>tb user_data document. tls = Some tb
      \<and> dw_user_data D \<lparr>nu_version = 1, nu_vault_config = pubkey_to_string L config, nu_vault_signer = pubkey_to_string L signer,
          nu_attestation_policy_hash = hex_encode L policy_hash, nu_snapshot_seqno = seqno,
          nu_tls_public_key_sha256 = Some (tb_public_key_sha256 tb), nu_manifest_hash = manifest\<rparr> = Some user_data
      \<and> ns_attest N (Some user_data) (Some (tb_public_key_spki_der tb)) = NsmAttestation document
      \<and> ra_document_b64 r = base64_encode L document" if "ap_mode p = NitroDynamic"
    using assms(2) p that by (auto simp: runtime_attestation_def Let_def is_local_mode_def checked_iffs build_dynamic_nitro_attestation_def
        build_a402_user_data_def request_Inr)
  moreover have "ap_mode p = NitroDynamic" if "\<not> should_use_sev_snp_attestation env" "should_use_dynamic_nitro_attestation env N"
    using p(4) that by (simp add: bootstrap_mode_def)
  ultimately show ?thesis using r p(3) by blast
qed

definition demo_binding :: tls_binding_info where
  "demo_binding = \<lparr>tb_public_key_spki_der = [4], tb_public_key_spki_pem = ''pem'', tb_public_key_sha256 = ''aa''\<rparr>"

definition demo_writers :: document_writers where
  "demo_writers = \<lparr>dw_local = (\<lambda>d. Some (str_bytes (lv_mode d))), dw_user_data = (\<lambda>d. Some (word_bytes (nu_snapshot_seqno d))),
     dw_sev = (\<lambda>d. Some (str_bytes (sv_platform d)))\<rparr>"

theorem runtime_attestation_binds_witness:
  "\<exists>p r. from_bootstrap_bundle demo_env demo_nsm (build_static_nitro_attestation ''doc'') (Some demo_binding) None = Inr p
     \<and> runtime_attestation demo_lib (\<lambda>bs. 0) demo_writers (\<lambda>t. []) demo_nsm p 1 2 [] 7 0 = Inr r \<and> ra_snapshot_seqno r = 7
     \<and> \<not> ra_is_local_dev r \<and> ra_tls_public_key_sha256 r = Some ''aa''"
proof -
  obtain p where p: "from_bootstrap_bundle demo_env demo_nsm (build_static_nitro_attestation ''doc'') (Some demo_binding) None = Inr p"
    "ap_mode p = NitroDynamic"
    using demo_env_nitro by (simp add: from_bootstrap_bundle_def bootstrap_mode_def)
  then obtain r where r: "runtime_attestation demo_lib (\<lambda>bs. 0) demo_writers (\<lambda>t. []) demo_nsm p 1 2 [] 7 0 = Inr r" "\<not> ra_is_local_dev r"
    by (simp add: runtime_attestation_def build_dynamic_nitro_attestation_def build_a402_user_data_def demo_writers_def request_Inr
        request_nitro_attestation_document_def demo_nsm_def)
  from runtime_attestation_binds [OF p(1) r(1)] p r show ?thesis by (auto simp: demo_binding_def)
qed

end
