(* ===== verification/Raft_Store.thy ===== *)
theory Raft_Store
  imports Codec "HOL-Library.Sublist"
begin

text \<open>
  The storage of a committee node (\<open>raft/src/store.rs\<close>, \<open>raft/src/types.rs\<close>): the log of entries, the
  state machine that collects the committed events, and snapshots of it. The consensus itself is
  openraft; what it promises of the calls it makes is the step relation \<open>replica_step\<close>: it applies
  the committed entries in order and installs snapshots that some replica built. \<open>bincode\<close> is a
  field of \<open>snapshot_lib\<close>, a membership an opaque value.
\<close>

section \<open>Data\<close>

type_synonym node_id = u64
type_synonym wal_event = bytes

record log_id =
  li_term :: u64
  li_node :: node_id
  li_index :: u64

datatype 'm entry_payload = Blank | Normal wal_event | Membership 'm

record 'm raft_entry =
  re_log_id :: log_id
  re_payload :: "'m entry_payload"

type_synonym 'm stored_membership = "log_id option \<times> 'm"

record 'm sm_snapshot =
  sm_last_applied_log :: "log_id option"
  sm_last_membership :: "'m stored_membership"
  sm_applied :: "wal_event list"

record 'm snapshot_meta =
  me_last_log_id :: "log_id option"
  me_last_membership :: "'m stored_membership"
  me_snapshot_id :: "u64 \<times> u64 \<times> u64"

record 'm stored_snapshot =
  ss_meta :: "'m snapshot_meta"
  ss_data :: bytes

record raft_vote =
  rv_term :: u64
  rv_node :: node_id
  rv_committed :: bool

text \<open>
  \<open>StoreInner\<close>; the log is a \<open>BTreeMap\<close>, its entries in the order of the index. \<open>tx_published\<close> is what
  went into the channel \<open>applied_tx\<close>, when there is one.
\<close>

record 'm store_inner =
  st_log :: "(u64 \<times> 'm raft_entry) list"
  st_last_purged_log_id :: "log_id option"
  st_committed :: "log_id option"
  st_vote :: "raft_vote option"
  st_last_applied_log :: "log_id option"
  st_last_membership :: "'m stored_membership"
  st_applied :: "wal_event list"
  st_snapshot_idx :: u64
  st_current_snapshot :: "'m stored_snapshot option"
  tx_published :: "wal_event list option"

record 'm snapshot_lib =
  sl_write :: "'m sm_snapshot \<Rightarrow> bytes option"
  sl_read :: "bytes \<Rightarrow> 'm sm_snapshot option"

definition snapshot_lib_laws :: "'m snapshot_lib \<Rightarrow> bool" where
  "snapshot_lib_laws B \<longleftrightarrow> (\<forall>s bs. sl_write B s = Some bs \<longrightarrow> sl_read B bs = Some s)"

definition mem_store_new :: "bool \<Rightarrow> 'm \<Rightarrow> 'm store_inner" where
  "mem_store_new applied_tx m0 =
     \<lparr>st_log = [], st_last_purged_log_id = None, st_committed = None, st_vote = None, st_last_applied_log = None,
      st_last_membership = (None, m0), st_applied = [], st_snapshot_idx = 0, st_current_snapshot = None,
      tx_published = (if applied_tx then Some [] else None)\<rparr>"

section \<open>Log\<close>

text \<open>\<open>BTreeMap::insert\<close>.\<close>

fun bt_insert :: "u64 \<Rightarrow> 'a \<Rightarrow> (u64 \<times> 'a) list \<Rightarrow> (u64 \<times> 'a) list" where
  "bt_insert k v [] = [(k, v)]"
| "bt_insert k v ((l, w) # kvs) =
     (if k < l then (k, v) # (l, w) # kvs else if k = l then (k, v) # kvs else (l, w) # bt_insert k v kvs)"

text \<open>A range of indices from \<open>lo\<close> to \<open>hi\<close>, both included.\<close>

definition try_get_log_entries :: "u64 \<Rightarrow> u64 \<Rightarrow> 'm store_inner \<Rightarrow> 'm raft_entry list" where
  "try_get_log_entries lo hi s = map snd (filter (\<lambda>(k, e). lo \<le> k \<and> k \<le> hi) (st_log s))"

definition save_vote :: "raft_vote \<Rightarrow> 'm store_inner \<Rightarrow> 'm store_inner" where
  "save_vote vote s = s\<lparr>st_vote := Some vote\<rparr>"

definition save_committed :: "log_id option \<Rightarrow> 'm store_inner \<Rightarrow> 'm store_inner" where
  "save_committed committed s = s\<lparr>st_committed := committed\<rparr>"

definition get_log_state :: "'m store_inner \<Rightarrow> log_id option \<times> log_id option" where
  "get_log_state s =
     (st_last_purged_log_id s, if st_log s = [] then st_last_purged_log_id s else Some (re_log_id (snd (last (st_log s)))))"

definition append_to_log :: "'m raft_entry list \<Rightarrow> 'm store_inner \<Rightarrow> 'm store_inner" where
  "append_to_log entries s = s\<lparr>st_log := fold (\<lambda>e. bt_insert (li_index (re_log_id e)) e) entries (st_log s)\<rparr>"

definition delete_conflict_logs_since :: "log_id \<Rightarrow> 'm store_inner \<Rightarrow> 'm store_inner" where
  "delete_conflict_logs_since l s = s\<lparr>st_log := filter (\<lambda>(k, e). \<not> li_index l \<le> k) (st_log s)\<rparr>"

definition purge_logs_upto :: "log_id \<Rightarrow> 'm store_inner \<Rightarrow> 'm store_inner" where
  "purge_logs_upto l s =
     s\<lparr>st_last_purged_log_id := Some l, st_log := filter (\<lambda>(k, e). \<not> k \<le> li_index l) (st_log s)\<rparr>"

section \<open>State machine\<close>

definition last_applied_state :: "'m store_inner \<Rightarrow> log_id option \<times> 'm stored_membership" where
  "last_applied_state s = (st_last_applied_log s, st_last_membership s)"

definition apply_entry :: "'m raft_entry \<Rightarrow> 'm store_inner \<Rightarrow> 'm store_inner" where
  "apply_entry entry s =
     (let s1 = s\<lparr>st_last_applied_log := Some (re_log_id entry)\<rparr>
      in case re_payload entry of
           Blank \<Rightarrow> s1
         | Normal event \<Rightarrow> s1\<lparr>st_applied := st_applied s1 @ [event], tx_published := map_option (\<lambda>xs. xs @ [event]) (tx_published s1)\<rparr>
         | Membership m \<Rightarrow> s1\<lparr>st_last_membership := (Some (re_log_id entry), m)\<rparr>)"

definition apply_to_state_machine :: "'m raft_entry list \<Rightarrow> 'm store_inner \<Rightarrow> 'm store_inner" where
  "apply_to_state_machine entries s = fold apply_entry entries s"

section \<open>Snapshots\<close>

definition sm_of :: "'m store_inner \<Rightarrow> 'm sm_snapshot" where
  "sm_of s = \<lparr>sm_last_applied_log = st_last_applied_log s, sm_last_membership = st_last_membership s, sm_applied = st_applied s\<rparr>"

text \<open>The counter moves even when the state cannot be written. The identifier is its three numbers.\<close>

definition build_snapshot :: "'m snapshot_lib \<Rightarrow> 'm store_inner \<Rightarrow> 'm stored_snapshot option \<times> 'm store_inner" where
  "build_snapshot B s =
     (let s1 = s\<lparr>st_snapshot_idx := st_snapshot_idx s + 1\<rparr>
      in case sl_write B (sm_of s1) of None \<Rightarrow> (None, s1)
         | Some bs \<Rightarrow>
             let meta = \<lparr>me_last_log_id = st_last_applied_log s1, me_last_membership = st_last_membership s1,
                   me_snapshot_id = (case st_last_applied_log s1 of Some l \<Rightarrow> li_term l | None \<Rightarrow> 0,
                     case st_last_applied_log s1 of Some l \<Rightarrow> li_index l | None \<Rightarrow> 0, st_snapshot_idx s1)\<rparr>;
                 snap = \<lparr>ss_meta = meta, ss_data = bs\<rparr>
             in (Some snap, s1\<lparr>st_current_snapshot := Some snap\<rparr>))"

definition install_snapshot :: "'m snapshot_lib \<Rightarrow> 'm snapshot_meta \<Rightarrow> bytes \<Rightarrow> 'm store_inner \<Rightarrow> bool \<times> 'm store_inner" where
  "install_snapshot B meta bs s =
     (case sl_read B bs of None \<Rightarrow> (False, s)
      | Some d \<Rightarrow> (True, s\<lparr>st_last_applied_log := sm_last_applied_log d, st_last_membership := sm_last_membership d,
          st_applied := sm_applied d, st_current_snapshot := Some \<lparr>ss_meta = meta, ss_data = bs\<rparr>\<rparr>))"

definition get_current_snapshot :: "'m store_inner \<Rightarrow> 'm stored_snapshot option" where
  "get_current_snapshot s = st_current_snapshot s"

section \<open>Log invariant\<close>

text \<open>The log is ordered, and every entry is stored under its own index.\<close>

definition log_ok :: "(u64 \<times> 'm raft_entry) list \<Rightarrow> bool" where
  "log_ok kvs \<longleftrightarrow> sorted_wrt (<) (map fst kvs) \<and> (\<forall>(k, e)\<in>set kvs. k = li_index (re_log_id e))"

lemma bt_insert_keys: "fst ` set (bt_insert k v kvs) = insert k (fst ` set kvs)"
  by (induction k v kvs rule: bt_insert.induct) auto

lemma bt_insert_set: "set (bt_insert k v kvs) \<subseteq> insert (k, v) (set kvs)"
  by (induction k v kvs rule: bt_insert.induct) auto

lemma bt_insert_sorted: "sorted_wrt (<) (map fst kvs) \<Longrightarrow> sorted_wrt (<) (map fst (bt_insert k v kvs))"
proof (induction k v kvs rule: bt_insert.induct)
  case (2 k v l w kvs)
  then show ?case using bt_insert_keys [of k v kvs] by (auto simp: sorted_wrt_append)
qed simp

lemma map_of_bt_insert: "sorted_wrt (<) (map fst kvs) \<Longrightarrow> map_of (bt_insert k v kvs) = (map_of kvs)(k \<mapsto> v)"
  by (induction k v kvs rule: bt_insert.induct) (auto simp: fun_eq_iff)

lemma bt_insert_log_ok: "log_ok kvs \<Longrightarrow> log_ok (bt_insert (li_index (re_log_id e)) e kvs)"
  using bt_insert_set [of "li_index (re_log_id e)" e kvs] bt_insert_sorted by (fastforce simp: log_ok_def)

lemma filter_log_ok: "log_ok kvs \<Longrightarrow> log_ok (filter P kvs)"
  by (auto simp: log_ok_def sorted_wrt_map sorted_wrt_filter)

section \<open>What the state machine has to be\<close>

text \<open>The state machine after a sequence of committed entries, without any of the book-keeping.\<close>

definition event_of :: "'m raft_entry \<Rightarrow> wal_event option" where
  "event_of e = (case re_payload e of Normal x \<Rightarrow> Some x | _ \<Rightarrow> None)"

definition committed_events :: "'m raft_entry list \<Rightarrow> wal_event list" where
  "committed_events es = List.map_filter event_of es"

definition membership_step :: "'m raft_entry \<Rightarrow> 'm stored_membership \<Rightarrow> 'm stored_membership" where
  "membership_step e m = (case re_payload e of Membership x \<Rightarrow> (Some (re_log_id e), x) | _ \<Rightarrow> m)"

definition sm_spec :: "'m \<Rightarrow> 'm raft_entry list \<Rightarrow> 'm sm_snapshot" where
  "sm_spec m0 es = \<lparr>sm_last_applied_log = (if es = [] then None else Some (re_log_id (last es))),
     sm_last_membership = fold membership_step es (None, m0), sm_applied = committed_events es\<rparr>"

lemma committed_events_append: "committed_events (es @ fs) = committed_events es @ committed_events fs"
  by (induction es) (auto simp: committed_events_def map_filter_simps split: option.splits)

lemma committed_events_one: "committed_events [e] = (case re_payload e of Normal x \<Rightarrow> [x] | _ \<Rightarrow> [])"
  by (simp add: committed_events_def map_filter_simps event_of_def split: entry_payload.splits)

lemma apply_entry_spec: "sm_of s = sm_spec m0 es \<Longrightarrow> sm_of (apply_entry e s) = sm_spec m0 (es @ [e])"
  by (auto simp: sm_of_def sm_spec_def apply_entry_def committed_events_append committed_events_one membership_step_def
      Let_def split: entry_payload.splits)

lemma apply_spec: "sm_of s = sm_spec m0 es \<Longrightarrow> sm_of (apply_to_state_machine fs s) = sm_spec m0 (es @ fs)"
proof (induction fs arbitrary: s es)
  case (Cons f fs)
  from Cons.IH [OF apply_entry_spec [OF Cons.prems, of f]] show ?case by (simp add: apply_to_state_machine_def)
qed (simp add: apply_to_state_machine_def)

lemma apply_keeps_log: "st_log (apply_to_state_machine fs s) = st_log s"
proof (induction fs arbitrary: s)
  case (Cons f fs)
  have "st_log (apply_entry f s) = st_log s" by (simp add: apply_entry_def Let_def split: entry_payload.splits)
  with Cons show ?case by (simp add: apply_to_state_machine_def)
qed (simp add: apply_to_state_machine_def)

section \<open>Runs of a committee\<close>

text \<open>
  \<open>G\<close> is everything the committee ever commits, by index. A world is the store of every node and the
  snapshots that were built, which may be delivered at any later time, several times and to any node.
\<close>

type_synonym 'm raft_world = "(node_id \<Rightarrow> 'm store_inner) \<times> 'm stored_snapshot list"

definition next_index :: "'m store_inner \<Rightarrow> nat" where
  "next_index s = (case st_last_applied_log s of None \<Rightarrow> 0 | Some l \<Rightarrow> Suc (unat (li_index l)))"

definition indexed :: "'m raft_entry list \<Rightarrow> bool" where
  "indexed G \<longleftrightarrow> (\<forall>i<length G. unat (li_index (re_log_id (G ! i))) = i)"

datatype 'm storage_call =
    SaveVote raft_vote
  | SaveCommitted "log_id option"
  | AppendToLog "'m raft_entry list"
  | DeleteConflict log_id
  | PurgeUpto log_id

fun run_storage_call :: "'m storage_call \<Rightarrow> 'm store_inner \<Rightarrow> 'm store_inner" where
  "run_storage_call (SaveVote v) s = save_vote v s"
| "run_storage_call (SaveCommitted c) s = save_committed c s"
| "run_storage_call (AppendToLog es) s = append_to_log es s"
| "run_storage_call (DeleteConflict l) s = delete_conflict_logs_since l s"
| "run_storage_call (PurgeUpto l) s = purge_logs_upto l s"

inductive replica_step :: "'m snapshot_lib \<Rightarrow> 'm raft_entry list \<Rightarrow> 'm raft_world \<Rightarrow> 'm raft_world \<Rightarrow> bool" for B G where
  step_call: "replica_step B G (st, sent) (st(i := run_storage_call c (st i)), sent)"
| step_apply: "replica_step B G (st, sent) (st(i := apply_to_state_machine (take n (drop (next_index (st i)) G)) (st i)), sent)"
| step_build: "build_snapshot B (st i) = (r, s') \<Longrightarrow>
     replica_step B G (st, sent) (st(i := s'), (case r of None \<Rightarrow> sent | Some snap \<Rightarrow> snap # sent))"
| step_install: "snap \<in> set sent \<Longrightarrow> install_snapshot B (ss_meta snap) (ss_data snap) (st i) = (ok, s') \<Longrightarrow>
     replica_step B G (st, sent) (st(i := s'), sent)"

definition world_ok :: "'m snapshot_lib \<Rightarrow> 'm raft_entry list \<Rightarrow> 'm \<Rightarrow> 'm raft_world \<Rightarrow> bool" where
  "world_ok B G m0 w \<longleftrightarrow>
     (\<forall>i. log_ok (st_log (fst w i)) \<and> (\<exists>k\<le>length G. sm_of (fst w i) = sm_spec m0 (take k G)))
   \<and> (\<forall>snap\<in>set (snd w). \<exists>k\<le>length G. sl_read B (ss_data snap) = Some (sm_spec m0 (take k G)))"

lemma call_keeps_sm: "sm_of (run_storage_call c s) = sm_of s"
  by (cases c) (simp_all add: sm_of_def save_vote_def save_committed_def append_to_log_def delete_conflict_logs_since_def purge_logs_upto_def)

lemma append_log_ok: "log_ok kvs \<Longrightarrow> log_ok (fold (\<lambda>e. bt_insert (li_index (re_log_id e)) e) es kvs)"
  by (induction es arbitrary: kvs) (simp_all add: bt_insert_log_ok)

lemma call_keeps_log_ok: "log_ok (st_log s) \<Longrightarrow> log_ok (st_log (run_storage_call c s))"
  by (cases c) (simp_all add: save_vote_def save_committed_def append_to_log_def delete_conflict_logs_since_def purge_logs_upto_def
      append_log_ok filter_log_ok)

lemma next_index_spec:
  assumes "indexed G" "k \<le> length G" "sm_of s = sm_spec m0 (take k G)"
  shows "next_index s = k"
proof (cases k)
  case (Suc j)
  then have "take k G = take j G @ [G ! j]" using assms(2) by (simp add: take_Suc_conv_app_nth)
  then show ?thesis using assms Suc by (auto simp: next_index_def sm_of_def sm_spec_def indexed_def)
qed (use assms(3) in \<open>simp add: next_index_def sm_of_def sm_spec_def\<close>)

lemma build_snapshot_facts:
  assumes "snapshot_lib_laws B" "build_snapshot B s = (r, s')"
  shows "sm_of s' = sm_of s" "st_log s' = st_log s" "\<And>snap. r = Some snap \<Longrightarrow> sl_read B (ss_data snap) = Some (sm_of s)"
  using assms by (auto simp: build_snapshot_def sm_of_def Let_def snapshot_lib_laws_def split: option.splits)

lemma install_snapshot_facts:
  assumes "sl_read B bs = Some d" "install_snapshot B meta bs s = (ok, s')"
  shows "sm_of s' = d" "st_log s' = st_log s"
  using assms by (auto simp: install_snapshot_def sm_of_def)

lemma world_ok_step:
  assumes "snapshot_lib_laws B" "indexed G" "replica_step B G w w'" "world_ok B G m0 w"
  shows "world_ok B G m0 w'"
  using assms(3,4)
proof (induction rule: replica_step.induct)
  case (step_call st sent i c)
  then show ?case by (simp add: world_ok_def call_keeps_sm call_keeps_log_ok)
next
  case (step_apply st sent i n)
  then obtain k where k: "k \<le> length G" "sm_of (st i) = sm_spec m0 (take k G)" by (auto simp: world_ok_def)
  let ?es = "take n (drop (next_index (st i)) G)"
  have "take k G @ ?es = take (min (k + n) (length G)) G"
    using next_index_spec [OF assms(2) k] k(1) by (simp add: take_add min_def)
  then have "sm_of (apply_to_state_machine ?es (st i)) = sm_spec m0 (take (min (k + n) (length G)) G)"
    using apply_spec [OF k(2), of ?es] by simp
  then show ?case using step_apply by (auto simp: world_ok_def apply_keeps_log intro!: exI [of _ "min (k + n) (length G)"])
next
  case (step_build st i r s' sent)
  then show ?case using build_snapshot_facts [OF assms(1) step_build(1)]
    by (auto simp: world_ok_def split: option.splits)
next
  case (step_install snap sent st i ok s')
  then obtain k where "k \<le> length G" "sl_read B (ss_data snap) = Some (sm_spec m0 (take k G))" by (auto simp: world_ok_def)
  then show ?case using install_snapshot_facts [OF _ step_install(2)] step_install by (auto simp: world_ok_def)
qed

definition raft_start :: "bool \<Rightarrow> 'm \<Rightarrow> 'm raft_world" where
  "raft_start tx m0 = (\<lambda>i. mem_store_new tx m0, [])"

lemma world_ok_start: "world_ok B G m0 (raft_start tx m0)"
  by (auto simp: world_ok_def raft_start_def mem_store_new_def log_ok_def sm_of_def sm_spec_def committed_events_def map_filter_simps intro!: exI [of _ 0])

lemma world_ok_run:
  assumes "snapshot_lib_laws B" "indexed G" "(replica_step B G)\<^sup>*\<^sup>* (raft_start tx m0) w"
  shows "world_ok B G m0 w"
  using assms(3)
proof (induction rule: rtranclp_induct)
  case base
  show ?case by (rule world_ok_start)
next
  case (step w w')
  then show ?case using world_ok_step [OF assms(1,2)] by blast
qed


section \<open>Publication\<close>

text \<open>
  A node that catches up through a snapshot has the events in its state machine, and its channel to
  the write-ahead log never carries them.
\<close>

lemma snapshot_run:
  assumes "sl_write B (sm_spec m0 [g]) = Some bs" "sl_read B bs = Some (sm_spec m0 [g])" "re_payload g = Normal x"
  shows "\<exists>st sent. (replica_step B (g # G))\<^sup>*\<^sup>* (raft_start True m0) (st, sent)
    \<and> st_applied (st 1) = [x] \<and> tx_published (st 1) = Some [x] \<and> st_applied (st 2) = [x] \<and> tx_published (st 2) = Some []"
proof -
  let ?s0 = "mem_store_new True m0" and ?G = "g # G"
  let ?s1 = "apply_to_state_machine [g] ?s0"
  let ?st1 = "(\<lambda>i. ?s0)(1 := ?s1) :: node_id \<Rightarrow> _"
  have one: "take 1 (drop (next_index ?s0) ?G) = [g]" by (simp add: next_index_def mem_store_new_def)
  have "sm_of ?s0 = sm_spec m0 []" by (simp add: sm_of_def sm_spec_def mem_store_new_def committed_events_def map_filter_simps)
  from apply_spec [OF this, of "[g]"] have sm: "sm_of (?s1\<lparr>st_snapshot_idx := n\<rparr>) = sm_spec m0 [g]" for n by (simp add: sm_of_def)
  obtain snap s2 where b: "build_snapshot B ?s1 = (Some snap, s2)" "ss_data snap = bs" "st_applied s2 = st_applied ?s1" "tx_published s2 = tx_published ?s1"
    using assms(1) sm by (auto simp: build_snapshot_def Let_def)
  obtain s3 where i: "install_snapshot B (ss_meta snap) (ss_data snap) ?s0 = (True, s3)" "st_applied s3 = [x]" "tx_published s3 = Some []"
    using assms(2,3) b(2) by (simp add: install_snapshot_def sm_spec_def committed_events_one mem_store_new_def)
  have "replica_step B ?G (raft_start True m0) (?st1, [])"
    using step_apply [of B ?G "\<lambda>i. ?s0" "[]" 1 1] one by (simp add: raft_start_def)
  moreover have "replica_step B ?G (?st1, []) (?st1(1 := s2), [snap])" using step_build [of B ?st1 1 "Some snap" s2 ?G "[]"] b(1) by simp
  moreover have "replica_step B ?G (?st1(1 := s2), [snap]) ((?st1(1 := s2))(2 := s3), [snap])"
    using step_install [of snap "[snap]" B "?st1(1 := s2)" 2 True s3 ?G] i(1) by simp
  ultimately have "(replica_step B ?G)\<^sup>*\<^sup>* (raft_start True m0) ((?st1(1 := s2))(2 := s3), [snap])"
    by (meson rtranclp.rtrancl_into_rtrancl rtranclp.rtrancl_refl)
  moreover have "st_applied ?s1 = [x]" "tx_published ?s1 = Some [x]"
    using assms(3) by (simp_all add: apply_to_state_machine_def apply_entry_def mem_store_new_def)
  ultimately show ?thesis using b(3,4) i(2,3) by (intro exI [of _ "(?st1(1 := s2))(2 := s3)"] exI [of _ "[snap]"]) simp
qed

definition demo_entry :: "nat raft_entry" where
  "demo_entry = \<lparr>re_log_id = \<lparr>li_term = 1, li_node = 1, li_index = 0\<rparr>, re_payload = Normal [7]\<rparr>"

definition demo_snapshots :: "nat snapshot_lib" where
  "demo_snapshots = \<lparr>sl_write = (\<lambda>s. if s = sm_spec 0 [demo_entry] then Some [1] else None),
     sl_read = (\<lambda>bs. if bs = [1] then Some (sm_spec 0 [demo_entry]) else None)\<rparr>"


end
