(* ===== verification/Btc_Taproot.thy ===== *)
theory Btc_Taproot
  imports Evm_Chain Btc_Ledger
begin

text \<open>
  The Bitcoin side of the crate \<open>shared\<close>: the Taproot script tree of a channel (\<open>btc_asc_script.rs\<close>),
  the three transactions that close it (\<open>btc_asc_channel.rs\<close>) and the Taproot batch transaction of the
  vault (\<open>btc_tx.rs\<close>). A script is the list of the instructions the builder pushes, an address the
  output script it stands for, a witness element what it encodes. Keys, Schnorr signatures, signature
  hashes and the Taproot commitment are code of the bitcoin crate and fields of \<open>taproot_lib\<close>.
\<close>

section \<open>Transactions\<close>

datatype script_op = PushInt int | PushKey b32 | OpCsv | OpDrop | OpCheckSig | OpCheckSigVerify

type_synonym tap_script = "script_op list"

datatype output_script = P2tr b32 | OpReturnScript bytes | OtherScript bytes

datatype witness_item = WSig b64 | WScript tap_script | WControl bytes | WEmpty | WOther bytes

record tap_out =
  to_value :: u64
  to_script :: output_script

record tap_in =
  ti_txid :: b32
  ti_vout :: u32
  ti_sequence :: u32
  ti_witness :: "witness_item list"

record tap_tx =
  tt_version :: nat
  tt_lock_time :: u32
  tt_inputs :: "tap_in list"
  tt_outputs :: "tap_out list"

text \<open>What a signature hash sees of a transaction: everything but the witnesses.\<close>

definition unsigned :: "tap_tx \<Rightarrow> tap_tx" where
  "unsigned t = t\<lparr>tt_inputs := map (\<lambda>i. i\<lparr>ti_witness := []\<rparr>) (tt_inputs t)\<rparr>"

record taproot_lib =
  tl_xonly :: "b32 \<Rightarrow> b32"
  tl_tweak_secret :: "b32 \<Rightarrow> b32 option \<Rightarrow> b32"
  tl_output_key :: "b32 \<Rightarrow> b32 option \<Rightarrow> b32"
  tl_merkle_root :: "tap_script list \<Rightarrow> b32"
  tl_control_block :: "b32 \<Rightarrow> tap_script list \<Rightarrow> tap_script \<Rightarrow> bytes"
  tl_committed :: "b32 \<Rightarrow> tap_script \<Rightarrow> bytes \<Rightarrow> bool"
  tl_key_sighash :: "tap_tx \<Rightarrow> tap_out list \<Rightarrow> nat \<Rightarrow> b32 option"
  tl_script_sighash :: "tap_tx \<Rightarrow> tap_out list \<Rightarrow> nat \<Rightarrow> tap_script \<Rightarrow> b32 option"
  tl_sign :: "b32 \<Rightarrow> b32 \<Rightarrow> b64"
  tl_verify :: "b32 \<Rightarrow> b32 \<Rightarrow> b64 \<Rightarrow> bool"

text \<open>
  BIP 340 and 341: signatures verify, the tweaked key signs for the output key, and the control block
  of a leaf proves it.
\<close>

definition taproot_laws :: "taproot_lib \<Rightarrow> bool" where
  "taproot_laws X \<longleftrightarrow>
     (\<forall>sk m. tl_verify X (tl_xonly X sk) m (tl_sign X sk m))
   \<and> (\<forall>sk r. tl_xonly X (tl_tweak_secret X sk r) = tl_output_key X (tl_xonly X sk) r)
   \<and> (\<forall>p ls s. s \<in> set ls \<longrightarrow> tl_committed X (tl_output_key X p (Some (tl_merkle_root X ls))) s (tl_control_block X p ls s))"

datatype btc_error =
    BtcKeyError
  | BtcSighash string
  | BtcInsufficientFunds u64 u64 u64
  | BtcNoInputs
  | BtcNoPayouts
  | BtcOther string

type_synonym 'a btc_result = "(btc_error, 'a) reply"

definition ENABLE_RBF_NO_LOCKTIME :: u32 where
  "ENABLE_RBF_NO_LOCKTIME = 0xFFFFFFFD"

text \<open>\<open>iter().sum()\<close> with overflow checks.\<close>

definition checked_sum :: "u64 list \<Rightarrow> u64 option" where
  "checked_sum xs = fold (\<lambda>x acc. Option.bind acc (\<lambda>a. checked_add a x)) xs (Some 0)"

section \<open>Script tree\<close>

record asc_script_tree =
  tr_cooperative_xonly :: b32
  tr_vault_xonly :: b32
  tr_client_xonly :: b32
  tr_sp_xonly :: b32
  tr_dispute_window_blocks :: u32

datatype asc_script_error = InvalidWindow

record asc_taproot =
  at_address :: output_script
  at_internal :: b32
  at_leaves :: "tap_script list"
  at_force_close_script :: tap_script
  at_adv_vault_script :: tap_script

definition force_close_script :: "b32 \<Rightarrow> u32 \<Rightarrow> tap_script" where
  "force_close_script vault_xonly delay_blocks = [PushInt (uint delay_blocks), OpCsv, OpDrop, PushKey vault_xonly, OpCheckSig]"

definition adv_vault_recovery_script :: "b32 \<Rightarrow> b32 \<Rightarrow> tap_script" where
  "adv_vault_recovery_script client_xonly sp_xonly = [PushKey client_xonly, OpCheckSigVerify, PushKey sp_xonly, OpCheckSig]"

text \<open>Two leaves at depth one are a complete tree, so the builder does not fail.\<close>

definition asc_tree_build :: "taproot_lib \<Rightarrow> asc_script_tree \<Rightarrow> asc_script_error + asc_taproot" where
  "asc_tree_build X t =
     (if tr_dispute_window_blocks t = 0 \<or> tr_dispute_window_blocks t > 65535 then Inl InvalidWindow
      else
        let force_close = force_close_script (tr_vault_xonly t) (tr_dispute_window_blocks t);
            adv_vault = adv_vault_recovery_script (tr_client_xonly t) (tr_sp_xonly t);
            leaves = [force_close, adv_vault]
        in Inr \<lparr>at_address = P2tr (tl_output_key X (tr_cooperative_xonly t) (Some (tl_merkle_root X leaves))),
               at_internal = tr_cooperative_xonly t, at_leaves = leaves, at_force_close_script = force_close, at_adv_vault_script = adv_vault\<rparr>)"

section \<open>Closing a channel\<close>

record channel_output =
  co_script :: output_script
  co_amount_sat :: u64

record btc_asc_channel =
  bc_script_tree :: asc_script_tree
  bc_funding :: vault_utxo
  bc_taproot :: asc_taproot

definition btc_channel_new :: "taproot_lib \<Rightarrow> asc_script_tree \<Rightarrow> vault_utxo \<Rightarrow> btc_asc_channel btc_result" where
  "btc_channel_new X tree funding =
     (case asc_tree_build X tree of Inl InvalidWindow \<Rightarrow> Fail (BtcOther ''ASC script tree build'')
      | Inr taproot \<Rightarrow> Reply \<lparr>bc_script_tree = tree, bc_funding = funding, bc_taproot = taproot\<rparr>)"

definition scaffold_tx :: "vault_utxo \<Rightarrow> channel_output list \<Rightarrow> u64 \<Rightarrow> u32 \<Rightarrow> tap_tx btc_result" where
  "scaffold_tx funding outputs fee_sat sequence =
     rchecked (checked_sum (map co_amount_sat outputs)) (\<lambda>total_out.
     rchecked (checked_add total_out fee_sat) (\<lambda>needed.
     rguard (\<not> vu_value_sat funding < needed) (BtcInsufficientFunds (vu_value_sat funding) total_out fee_sat) (
     Reply \<lparr>tt_version = 2, tt_lock_time = 0,
       tt_inputs = [\<lparr>ti_txid = vu_txid funding, ti_vout = vu_vout funding, ti_sequence = sequence, ti_witness = []\<rparr>],
       tt_outputs = map (\<lambda>o'. \<lparr>to_value = co_amount_sat o', to_script = co_script o'\<rparr>) outputs\<rparr>)))"

definition channel_prevouts :: "btc_asc_channel \<Rightarrow> tap_out list" where
  "channel_prevouts ch = [\<lparr>to_value = vu_value_sat (bc_funding ch), to_script = at_address (bc_taproot ch)\<rparr>]"

definition sign_script_leaf :: "taproot_lib \<Rightarrow> tap_tx \<Rightarrow> nat \<Rightarrow> tap_out list \<Rightarrow> tap_script \<Rightarrow> b32 \<Rightarrow> b64 btc_result" where
  "sign_script_leaf X tx input_idx prevouts leaf kp =
     rsome (tl_script_sighash X (unsigned tx) prevouts input_idx leaf) (BtcSighash ''script-spend sighash'') (\<lambda>msg. Reply (tl_sign X kp msg))"

definition with_witness :: "witness_item list \<Rightarrow> tap_tx \<Rightarrow> tap_tx" where
  "with_witness w tx = tx\<lparr>tt_inputs := (tt_inputs tx)[0 := (tt_inputs tx ! 0)\<lparr>ti_witness := w\<rparr>]\<rparr>"

definition cooperative_close_tx ::
    "taproot_lib \<Rightarrow> btc_asc_channel \<Rightarrow> channel_output list \<Rightarrow> u64 \<Rightarrow> b32 \<Rightarrow> tap_tx btc_result" where
  "cooperative_close_tx X ch outputs fee_sat cooperative_kp =
     rguard (outputs \<noteq> []) BtcNoPayouts (
     rbind (scaffold_tx (bc_funding ch) outputs fee_sat ENABLE_RBF_NO_LOCKTIME) (\<lambda>tx.
     let tweaked = tl_tweak_secret X cooperative_kp (Some (tl_merkle_root X (at_leaves (bc_taproot ch))))
     in rsome (tl_key_sighash X (unsigned tx) (channel_prevouts ch) 0) (BtcSighash ''key-spend sighash'') (\<lambda>msg.
        Reply (with_witness [WSig (tl_sign X tweaked msg)] tx))))"

definition leaf_control_block :: "taproot_lib \<Rightarrow> btc_asc_channel \<Rightarrow> tap_script \<Rightarrow> bytes option" where
  "leaf_control_block X ch s =
     (if s \<in> set (at_leaves (bc_taproot ch)) then Some (tl_control_block X (at_internal (bc_taproot ch)) (at_leaves (bc_taproot ch)) s) else None)"

definition force_close_csv_tx ::
    "taproot_lib \<Rightarrow> btc_asc_channel \<Rightarrow> channel_output list \<Rightarrow> u64 \<Rightarrow> b32 \<Rightarrow> tap_tx btc_result" where
  "force_close_csv_tx X ch outputs fee_sat vault_kp =
     rguard (outputs \<noteq> []) BtcNoPayouts (
     let delay = tr_dispute_window_blocks (bc_script_tree ch); leaf = at_force_close_script (bc_taproot ch)
     in rguard (\<not> delay > 65535) (BtcOther ''dispute window exceeds u16 CSV limit'') (
        rbind (scaffold_tx (bc_funding ch) outputs fee_sat delay) (\<lambda>tx.
        rbind (sign_script_leaf X tx 0 (channel_prevouts ch) leaf vault_kp) (\<lambda>sig.
        rsome (leaf_control_block X ch leaf) (BtcOther ''force-close leaf missing from spend_info'') (\<lambda>control.
        Reply (with_witness [WSig sig, WScript leaf, WControl control] tx))))))"

definition adv_vault_recovery_tx ::
    "taproot_lib \<Rightarrow> btc_asc_channel \<Rightarrow> channel_output list \<Rightarrow> u64 \<Rightarrow> b32 \<Rightarrow> b32 \<Rightarrow> tap_tx btc_result" where
  "adv_vault_recovery_tx X ch outputs fee_sat client_kp sp_kp =
     rguard (outputs \<noteq> []) BtcNoPayouts (
     let leaf = at_adv_vault_script (bc_taproot ch)
     in rbind (scaffold_tx (bc_funding ch) outputs fee_sat ENABLE_RBF_NO_LOCKTIME) (\<lambda>tx.
        rbind (sign_script_leaf X tx 0 (channel_prevouts ch) leaf client_kp) (\<lambda>client_sig.
        rbind (sign_script_leaf X tx 0 (channel_prevouts ch) leaf sp_kp) (\<lambda>sp_sig.
        rsome (leaf_control_block X ch leaf) (BtcOther ''adv-vault leaf missing from spend_info'') (\<lambda>control.
        Reply (with_witness [WSig sp_sig, WSig client_sig, WScript leaf, WControl control] tx))))))"

section \<open>The batch transaction of the vault\<close>

record btc_keys =
  bk_secret :: b32
  bk_public_xonly :: b32

definition btc_keys_from_bytes :: "taproot_lib \<Rightarrow> (b32 \<Rightarrow> bool) \<Rightarrow> b32 \<Rightarrow> btc_keys btc_result" where
  "btc_keys_from_bytes X valid secret =
     (if valid secret then Reply \<lparr>bk_secret = secret, bk_public_xonly = tl_xonly X secret\<rparr> else Fail BtcKeyError)"

definition btc_keys_from_hex :: "taproot_lib \<Rightarrow> (b32 \<Rightarrow> bool) \<Rightarrow> hex_lib \<Rightarrow> string \<Rightarrow> btc_keys btc_result" where
  "btc_keys_from_hex X valid H hex_priv =
     rsome (hex_dec H (strip_0x hex_priv)) (BtcOther ''hex'') (\<lambda>raw.
     rguard (length raw = 32) (BtcOther ''secret must be 32 bytes'') (btc_keys_from_bytes X valid (word_of_bytes raw)))"

definition p2tr_address :: "taproot_lib \<Rightarrow> btc_keys \<Rightarrow> output_script" where
  "p2tr_address X keys = P2tr (tl_output_key X (bk_public_xonly keys) None)"

fun sign_inputs :: "taproot_lib \<Rightarrow> tap_tx \<Rightarrow> tap_out list \<Rightarrow> b32 \<Rightarrow> nat list \<Rightarrow> witness_item list list btc_result" where
  "sign_inputs X tx prevouts tweaked [] = Reply []"
| "sign_inputs X tx prevouts tweaked (idx # rest) =
     rsome (tl_key_sighash X (unsigned tx) prevouts idx) (BtcSighash ''taproot_key_spend'') (\<lambda>msg.
     rbind (sign_inputs X tx prevouts tweaked rest) (\<lambda>ws. Reply ([WSig (tl_sign X tweaked msg)] # ws)))"

definition build_settlement_tx_p2tr ::
    "taproot_lib \<Rightarrow> b32 \<Rightarrow> channel_output list \<Rightarrow> vault_utxo list \<Rightarrow> output_script \<Rightarrow> u64 \<Rightarrow> btc_keys \<Rightarrow> tap_tx btc_result" where
  "build_settlement_tx_p2tr X batch_commit_hash payouts utxos change_address fee_sat keys =
     rguard (utxos \<noteq> []) BtcNoInputs (
     rguard (payouts \<noteq> []) BtcNoPayouts (
     rchecked (checked_sum (map vu_value_sat utxos)) (\<lambda>total_in.
     rchecked (checked_sum (map co_amount_sat payouts)) (\<lambda>total_out.
     rchecked (checked_add total_out fee_sat) (\<lambda>needed.
     rguard (\<not> total_in < needed) (BtcInsufficientFunds total_in total_out fee_sat) (
     let change_sat = total_in - total_out - fee_sat;
         outs = [\<lparr>to_value = 0, to_script = OpReturnScript (word_bytes batch_commit_hash)\<rparr>]
           @ map (\<lambda>p. \<lparr>to_value = co_amount_sat p, to_script = co_script p\<rparr>) payouts
           @ (if change_sat \<ge> 1000 then [\<lparr>to_value = change_sat, to_script = change_address\<rparr>] else []);
         ins = map (\<lambda>u. \<lparr>ti_txid = vu_txid u, ti_vout = vu_vout u, ti_sequence = ENABLE_RBF_NO_LOCKTIME, ti_witness = []\<rparr>) utxos;
         tx = \<lparr>tt_version = 2, tt_lock_time = 0, tt_inputs = ins, tt_outputs = outs\<rparr>;
         prevouts = map (\<lambda>u. \<lparr>to_value = vu_value_sat u, to_script = p2tr_address X keys\<rparr>) utxos;
         tweaked = tl_tweak_secret X (bk_secret keys) None
     in rbind (sign_inputs X tx prevouts tweaked [0..<length utxos]) (\<lambda>ws.
        Reply (tx\<lparr>tt_inputs := map2 (\<lambda>i w. i\<lparr>ti_witness := w\<rparr>) ins ws\<rparr>))))))))"

end
