(* ===== verification/Btc_Spending.thy ===== *)
theory Btc_Spending
  imports Btc_Taproot
begin

text \<open>
  Who can spend a channel on Bitcoin. The rules of the chain are a small reference semantics: BIP 341
  (key and script path), BIP 342 (signature opcodes), BIP 112 and BIP 68 (relative lock times), for
  signatures with the default hash type and for the instructions the scripts use.
\<close>

section \<open>Script execution\<close>

datatype stack_item = SInt int | SKey b32 | SSig b64 | SEmpty | SBool bool | SOther bytes

fun truthy :: "stack_item \<Rightarrow> bool" where
  "truthy (SInt n) = (n \<noteq> 0)"
| "truthy (SKey k) = True"
| "truthy (SSig s) = True"
| "truthy SEmpty = False"
| "truthy (SBool b) = b"
| "truthy (SOther bs) = list_ex (\<lambda>b. b \<noteq> 0) bs"

text \<open>BIP 112: bit 31 switches the check off, bit 22 selects time instead of blocks.\<close>

definition csv_passes :: "nat \<Rightarrow> u32 \<Rightarrow> int \<Rightarrow> bool" where
  "csv_passes version sequence n \<longleftrightarrow>
     bit n 31 \<or> (2 \<le> version \<and> \<not> bit sequence 31 \<and> bit n 22 = bit sequence 22 \<and> n mod 65536 \<le> uint sequence mod 65536)"

text \<open>BIP 342: an empty signature is false, any other signature has to verify.\<close>

definition check_sig :: "(b32 \<Rightarrow> b64 \<Rightarrow> bool) \<Rightarrow> stack_item \<Rightarrow> stack_item \<Rightarrow> bool option" where
  "check_sig chk key sig =
     (case key of SKey k \<Rightarrow> (case sig of SEmpty \<Rightarrow> Some False | SSig s \<Rightarrow> if chk k s then Some True else None | _ \<Rightarrow> None) | _ \<Rightarrow> None)"

fun run_script :: "(b32 \<Rightarrow> b64 \<Rightarrow> bool) \<Rightarrow> nat \<Rightarrow> u32 \<Rightarrow> tap_script \<Rightarrow> stack_item list \<Rightarrow> stack_item list option" where
  "run_script chk v sq [] st = Some st"
| "run_script chk v sq (PushInt n # ops) st = run_script chk v sq ops (SInt n # st)"
| "run_script chk v sq (PushKey k # ops) st = run_script chk v sq ops (SKey k # st)"
| "run_script chk v sq (OpCsv # ops) st =
     (case st of SInt n # _ \<Rightarrow> if 0 \<le> n \<and> csv_passes v sq n then run_script chk v sq ops st else None | _ \<Rightarrow> None)"
| "run_script chk v sq (OpDrop # ops) st = (case st of _ # st' \<Rightarrow> run_script chk v sq ops st' | [] \<Rightarrow> None)"
| "run_script chk v sq (OpCheckSig # ops) st =
     (case st of key # sig # st' \<Rightarrow> Option.bind (check_sig chk key sig) (\<lambda>b. run_script chk v sq ops (SBool b # st')) | _ \<Rightarrow> None)"
| "run_script chk v sq (OpCheckSigVerify # ops) st =
     (case st of key # sig # st' \<Rightarrow> if check_sig chk key sig = Some True then run_script chk v sq ops st' else None | _ \<Rightarrow> None)"

definition script_passes :: "(b32 \<Rightarrow> b64 \<Rightarrow> bool) \<Rightarrow> nat \<Rightarrow> u32 \<Rightarrow> tap_script \<Rightarrow> stack_item list \<Rightarrow> bool" where
  "script_passes chk v sq s st \<longleftrightarrow> (case run_script chk v sq s st of Some [x] \<Rightarrow> truthy x | _ \<Rightarrow> False)"

section \<open>Valid spends\<close>

fun stack_of :: "witness_item \<Rightarrow> stack_item" where
  "stack_of (WSig s) = SSig s"
| "stack_of WEmpty = SEmpty"
| "stack_of (WScript s) = SOther []"
| "stack_of (WControl bs) = SOther bs"
| "stack_of (WOther bs) = SOther bs"

text \<open>BIP 68: an input with a block lock can be spent after so many confirmations.\<close>

definition lock_passed :: "tap_tx \<Rightarrow> u32 \<Rightarrow> nat \<Rightarrow> bool" where
  "lock_passed tx sq confirmations \<longleftrightarrow>
     tt_version tx < 2 \<or> bit sq 31 \<or> bit sq 22 \<or> uint sq mod 65536 \<le> int confirmations"

definition key_path_ok :: "taproot_lib \<Rightarrow> b32 \<Rightarrow> tap_out list \<Rightarrow> tap_tx \<Rightarrow> nat \<Rightarrow> b64 \<Rightarrow> bool" where
  "key_path_ok X out_key prevouts tx i s \<longleftrightarrow>
     (case tl_key_sighash X (unsigned tx) prevouts i of Some m \<Rightarrow> tl_verify X out_key m s | None \<Rightarrow> False)"

definition leaf_sig_ok :: "taproot_lib \<Rightarrow> tap_out list \<Rightarrow> tap_tx \<Rightarrow> nat \<Rightarrow> tap_script \<Rightarrow> b32 \<Rightarrow> b64 \<Rightarrow> bool" where
  "leaf_sig_ok X prevouts tx i leaf k s \<longleftrightarrow>
     (case tl_script_sighash X (unsigned tx) prevouts i leaf of Some m \<Rightarrow> tl_verify X k m s | None \<Rightarrow> False)"

text \<open>The script and the control block are the last two elements; the stack grows from the left.\<close>

definition spend_valid :: "taproot_lib \<Rightarrow> tap_out list \<Rightarrow> tap_tx \<Rightarrow> nat \<Rightarrow> nat \<Rightarrow> bool" where
  "spend_valid X prevouts tx i confirmations \<longleftrightarrow>
     (let inp = tt_inputs tx ! i; w = ti_witness inp; sq = ti_sequence inp
      in i < length (tt_inputs tx) \<and> i < length prevouts \<and> lock_passed tx sq confirmations
       \<and> (case to_script (prevouts ! i) of
            P2tr out_key \<Rightarrow>
              (case rev w of
                 [WSig s] \<Rightarrow> key_path_ok X out_key prevouts tx i s
               | WControl c # WScript leaf # st \<Rightarrow>
                   tl_committed X out_key leaf c
                 \<and> script_passes (leaf_sig_ok X prevouts tx i leaf) (tt_version tx) sq leaf (map stack_of st)
               | _ \<Rightarrow> False)
          | _ \<Rightarrow> False))"

section \<open>What the leaves ask for\<close>

lemma force_close_passes:
  assumes "w \<noteq> 0" "w \<le> 65535"
  shows "script_passes chk v sq (force_close_script k w) st \<longleftrightarrow>
    (\<exists>s. st = [SSig s] \<and> chk k s) \<and> 2 \<le> v \<and> \<not> bit sq 31 \<and> \<not> bit sq 22 \<and> uint w \<le> uint sq mod 65536"
proof -
  have w: "uint w \<le> 65535" using assms(2) by (simp add: word_le_def)
  then have b: "\<not> bit (uint w) 31" "\<not> bit (uint w) 22" by (simp_all add: bit_iff_odd div_pos_pos_trivial)
  have "csv_passes v sq (uint w) \<longleftrightarrow> 2 \<le> v \<and> \<not> bit sq 31 \<and> \<not> bit sq 22 \<and> uint w \<le> uint sq mod 65536"
    using b w by (auto simp: csv_passes_def)
  then show ?thesis
    by (cases st rule: remdups_adj.cases)
      (auto simp: script_passes_def force_close_script_def check_sig_def split: stack_item.splits option.splits list.splits if_splits)
qed

lemma adv_vault_passes:
  "script_passes chk v sq (adv_vault_recovery_script c p) st \<longleftrightarrow> (\<exists>s1 s2. st = [SSig s1, SSig s2] \<and> chk c s1 \<and> chk p s2)"
proof -
  have "run_script chk v sq (adv_vault_recovery_script c p) st = (case st of
      SSig s1 # x # st' \<Rightarrow> if chk c s1 then Option.bind (check_sig chk (SKey p) x) (\<lambda>b. Some (SBool b # st')) else None | _ \<Rightarrow> None)"
    by (auto simp: adv_vault_recovery_script_def check_sig_def split: list.splits stack_item.splits)
  then show ?thesis
    by (auto simp: script_passes_def check_sig_def split: list.splits stack_item.splits option.splits bind_splits if_splits)
qed

lemma channel_new_facts:
  assumes "btc_channel_new X tree funding = Reply ch"
  shows "bc_script_tree ch = tree" "bc_funding ch = funding" "tr_dispute_window_blocks tree \<noteq> 0" "tr_dispute_window_blocks tree \<le> 65535"
    "at_force_close_script (bc_taproot ch) = force_close_script (tr_vault_xonly tree) (tr_dispute_window_blocks tree)"
    "at_adv_vault_script (bc_taproot ch) = adv_vault_recovery_script (tr_client_xonly tree) (tr_sp_xonly tree)"
    "at_leaves (bc_taproot ch) = [at_force_close_script (bc_taproot ch), at_adv_vault_script (bc_taproot ch)]"
    "at_internal (bc_taproot ch) = tr_cooperative_xonly tree"
    "at_address (bc_taproot ch) = P2tr (tl_output_key X (tr_cooperative_xonly tree) (Some (tl_merkle_root X (at_leaves (bc_taproot ch)))))"
  using assms by (auto simp: btc_channel_new_def asc_tree_build_def Let_def not_less split: sum.splits asc_script_error.splits if_splits)

text \<open>The commitment binds: nobody has found another script for the output key of this channel.\<close>

definition commits_only_leaves :: "taproot_lib \<Rightarrow> btc_asc_channel \<Rightarrow> bool" where
  "commits_only_leaves X ch \<longleftrightarrow> (\<forall>k s c. at_address (bc_taproot ch) = P2tr k \<longrightarrow> tl_committed X k s c \<longrightarrow> s \<in> set (at_leaves (bc_taproot ch)))"


section \<open>The closing transactions\<close>

lemma checked_fold_sum:
  "unat a + sum_list (map unat xs) < 2 ^ 64 \<Longrightarrow>
     \<exists>t :: u64. fold (\<lambda>x acc. Option.bind acc (\<lambda>a. checked_add a x)) xs (Some a) = Some t \<and> unat t = unat a + sum_list (map unat xs)"
proof (induction xs arbitrary: a)
  case (Cons x xs)
  then obtain b where b: "checked_add a x = Some b" "unat b = unat a + unat x" by (auto simp: checked_add_def unat_word_ariths)
  with Cons.IH [of b] Cons.prems show ?case by (simp add: add.assoc)
qed simp

lemma checked_sum_Some: "sum_list (map unat xs) < 2 ^ 64 \<Longrightarrow> \<exists>t. checked_sum xs = Some t \<and> unat t = sum_list (map unat xs)"
  using checked_fold_sum [of 0 xs] by (simp add: checked_sum_def)

definition plain_out :: "channel_output \<Rightarrow> tap_out" where
  "plain_out p = \<lparr>to_value = co_amount_sat p, to_script = co_script p\<rparr>"

lemma scaffold_ok:
  assumes "sum_list (map (unat \<circ> co_amount_sat) outs) + unat fee \<le> unat (vu_value_sat f)"
  shows "scaffold_tx f outs fee sq = Reply \<lparr>tt_version = 2, tt_lock_time = 0,
      tt_inputs = [\<lparr>ti_txid = vu_txid f, ti_vout = vu_vout f, ti_sequence = sq, ti_witness = []\<rparr>], tt_outputs = map plain_out outs\<rparr>"
proof -
  have lt: "unat (vu_value_sat f) < 2 ^ 64" using unsigned_less [of "vu_value_sat f", where ?'a = nat] by simp
  then obtain t where t: "checked_sum (map co_amount_sat outs) = Some t" "unat t = sum_list (map (unat \<circ> co_amount_sat) outs)"
    using checked_sum_Some [of "map co_amount_sat outs"] assms by auto
  then obtain n where n: "checked_add t fee = Some n" "unat n = unat t + unat fee"
    using assms lt by (auto simp: checked_add_def unat_word_ariths)
  then have "\<not> vu_value_sat f < n" using assms t(2) by (simp add: word_less_nat_alt)
  then show ?thesis using t(1) n(1) by (simp add: scaffold_tx_def plain_out_def)
qed

lemma unsigned_with_witness [simp]: "tt_inputs t \<noteq> [] \<Longrightarrow> unsigned (with_witness w t) = unsigned t"
  by (cases "tt_inputs t") (simp_all add: unsigned_def with_witness_def)

lemma bit_by_uint: "n < 32 \<Longrightarrow> bit (w :: u32) n \<longleftrightarrow> bit (uint w) n"
  by (simp add: bit_uint_iff)

lemma rbf_is_unlocked: "lock_passed tx ENABLE_RBF_NO_LOCKTIME n"
proof -
  have "bit ENABLE_RBF_NO_LOCKTIME 31" by (simp add: bit_by_uint ENABLE_RBF_NO_LOCKTIME_def bit_iff_odd)
  then show ?thesis by (simp add: lock_passed_def)
qed

lemma small_sequence:
  assumes "w \<le> (65535 :: u32)"
  shows "\<not> bit w 31" "\<not> bit w 22" "uint w mod 65536 = uint w"
proof -
  have w: "0 \<le> uint w" "uint w \<le> 65535" using assms by (simp_all add: word_le_def)
  then have "\<not> bit (uint w) 31" "\<not> bit (uint w) 22" by (simp_all add: bit_iff_odd div_pos_pos_trivial)
  then show "\<not> bit w 31" "\<not> bit w 22" "uint w mod 65536 = uint w" using w by (simp_all add: bit_by_uint)
qed


section \<open>Batches of the vault\<close>

lemma sign_inputs_each:
  "sign_inputs X tx pre sk is = Reply ws \<Longrightarrow> length ws = length is \<and> (\<forall>j<length is. \<exists>m. tl_key_sighash X (unsigned tx) pre (is ! j) = Some m \<and> ws ! j = [WSig (tl_sign X sk m)])"
proof (induction X tx pre sk "is" arbitrary: ws rule: sign_inputs.induct)
  case (2 X tx pre sk i rest)
  from "2.prems" obtain m ws' where m: "tl_key_sighash X (unsigned tx) pre i = Some m" "sign_inputs X tx pre sk rest = Reply ws'"
    "ws = [WSig (tl_sign X sk m)] # ws'" by (auto simp: reply_iffs)
  from "2.IH" [OF m(2)] m show ?case by (auto simp: less_Suc_eq_0_disj)
qed simp

lemma unsigned_signed: "length ws = length ins \<Longrightarrow> \<forall>i\<in>set ins. ti_witness i = [] \<Longrightarrow>
    map (\<lambda>i. i\<lparr>ti_witness := []\<rparr>) (map2 (\<lambda>i w. i\<lparr>ti_witness := w\<rparr>) ins ws) = ins"
  by (induction ins ws rule: list_induct2') auto

lemma checked_fold_exact:
  "fold (\<lambda>x acc. Option.bind acc (\<lambda>a. checked_add a x)) xs (Some a) = Some t \<Longrightarrow> unat (t :: u64) = unat a + sum_list (map unat xs)"
proof (induction xs arbitrary: a)
  case (Cons x xs)
  have none: "fold (\<lambda>x acc. Option.bind acc (\<lambda>a. checked_add a x)) ys None = (None :: u64 option)" for ys by (induction ys) auto
  from Cons.prems none obtain b where b: "checked_add a x = Some b" by (cases "checked_add a x") auto
  with Cons.IH [of b] Cons.prems checked_add_SomeD [OF b] show ?case by simp
qed simp

lemma checked_sum_exact: "checked_sum xs = Some t \<Longrightarrow> unat t = sum_list (map unat xs)"
  using checked_fold_exact [of xs 0 t] by (simp add: checked_sum_def)

text \<open>
  A Taproot batch of the vault is valid in every input, commits to the batch in its first output,
  pays every provider the amount asked for, and what the inputs hold is what the outputs hold plus
  the fee, up to change of less than 1000 satoshi.
\<close>

theorem p2tr_batch_valid:
  assumes laws: "taproot_laws X" and keys: "bk_public_xonly keys = tl_xonly X (bk_secret keys)"
    and run: "build_settlement_tx_p2tr X commit payouts utxos change fee keys = Reply tx"
  shows "(\<forall>i<length utxos. spend_valid X (map (\<lambda>u. \<lparr>to_value = vu_value_sat u, to_script = p2tr_address X keys\<rparr>) utxos) tx i n)
    \<and> length (tt_inputs tx) = length utxos
    \<and> (\<exists>rest lost. tt_outputs tx = \<lparr>to_value = 0, to_script = OpReturnScript (word_bytes commit)\<rparr> # map plain_out payouts @ rest
        \<and> (\<forall>r\<in>set rest. to_script r = change) \<and> lost < 1000
        \<and> sum_list (map (unat \<circ> vu_value_sat) utxos) = sum_list (map (unat \<circ> to_value) (tt_outputs tx)) + unat fee + lost)"
proof -
  let ?pre = "map (\<lambda>u. \<lparr>to_value = vu_value_sat u, to_script = p2tr_address X keys\<rparr>) utxos"
  let ?ins = "map (\<lambda>u. \<lparr>ti_txid = vu_txid u, ti_vout = vu_vout u, ti_sequence = ENABLE_RBF_NO_LOCKTIME, ti_witness = []\<rparr>) utxos"
  let ?sk = "tl_tweak_secret X (bk_secret keys) None"
  from run obtain tin tout need where t: "checked_sum (map vu_value_sat utxos) = Some tin" "checked_sum (map co_amount_sat payouts) = Some tout"
    "checked_add tout fee = Some need" "\<not> tin < need"
    unfolding build_settlement_tx_p2tr_def reply_iffs by blast
  let ?ch = "tin - tout - fee"
  let ?rest = "if ?ch \<ge> 1000 then [\<lparr>to_value = ?ch, to_script = change\<rparr>] else []"
  let ?outs = "\<lparr>to_value = 0, to_script = OpReturnScript (word_bytes commit)\<rparr> # map plain_out payouts @ ?rest"
  let ?tx = "\<lparr>tt_version = 2, tt_lock_time = 0, tt_inputs = ?ins, tt_outputs = ?outs\<rparr>"
  from run t obtain ws where ws: "sign_inputs X ?tx ?pre ?sk [0..<length utxos] = Reply ws"
    and tx: "tx = ?tx\<lparr>tt_inputs := map2 (\<lambda>i w. i\<lparr>ti_witness := w\<rparr>) ?ins ws\<rparr>"
    by (auto simp: build_settlement_tx_p2tr_def reply_iffs Let_def plain_out_def [abs_def])
  note each = sign_inputs_each [OF ws]
  have un: "unsigned tx = ?tx" using unsigned_signed [of ws ?ins] each tx by (simp add: unsigned_def)
  have "spend_valid X ?pre tx i n" if i: "i < length utxos" for i
  proof -
    obtain m where m: "tl_key_sighash X (unsigned ?tx) ?pre i = Some m" "ws ! i = [WSig (tl_sign X ?sk m)]" using each i by auto
    have "unsigned ?tx = ?tx" by (simp add: unsigned_def)
    moreover have "tl_verify X (tl_output_key X (bk_public_xonly keys) None) m (tl_sign X ?sk m)"
      using laws keys unfolding taproot_laws_def by metis
    ultimately show ?thesis using m i each un by (simp add: spend_valid_def p2tr_address_def key_path_ok_def rbf_is_unlocked tx)
  qed
  moreover have "sum_list (map (unat \<circ> vu_value_sat) utxos) = sum_list (map (unat \<circ> to_value) ?outs) + unat fee + (if ?ch \<ge> 1000 then 0 else unat ?ch)"
  proof -
    have "unat need = unat tout + unat fee" by (rule checked_add_SomeD [OF t(3)])
    then have le: "unat tout + unat fee \<le> unat tin" using t(4) by (simp add: word_less_nat_alt)
    then have c: "unat ?ch = unat tin - unat tout - unat fee"
      by (subst unat_sub; simp add: word_le_nat_alt unat_sub)
    have "(unat \<circ> to_value) \<circ> plain_out = unat \<circ> co_amount_sat" by (auto simp: plain_out_def)
    then show ?thesis using checked_sum_exact [OF t(1)] checked_sum_exact [OF t(2)] c le by (simp add: comp_def)
  qed
  moreover have "(if ?ch \<ge> 1000 then 0 else unat ?ch) < 1000" by (simp add: word_le_nat_alt)
  ultimately show ?thesis using tx each by (intro conjI exI [of _ ?rest] exI [of _ "if ?ch \<ge> 1000 then 0 else unat ?ch"]) simp_all
qed

section \<open>A sample channel\<close>

definition demo_tree :: asc_script_tree where
  "demo_tree = \<lparr>tr_cooperative_xonly = 1, tr_vault_xonly = 2, tr_client_xonly = 3, tr_sp_xonly = 4, tr_dispute_window_blocks = 10\<rparr>"

definition demo_leaves :: "tap_script list" where
  "demo_leaves = [force_close_script 2 10, adv_vault_recovery_script 3 4]"

text \<open>A toy Taproot: a signature is key plus message, only the output key 0 belongs to the sample tree.\<close>

definition demo_taproot :: taproot_lib where
  "demo_taproot = \<lparr>tl_xonly = (\<lambda>k. k), tl_tweak_secret = (\<lambda>k r. case r of None \<Rightarrow> k | Some x \<Rightarrow> x),
     tl_output_key = (\<lambda>k r. case r of None \<Rightarrow> k | Some x \<Rightarrow> x), tl_merkle_root = (\<lambda>ls. if ls = demo_leaves then 0 else 1),
     tl_control_block = (\<lambda>k ls s. [1]), tl_committed = (\<lambda>k s c. k \<noteq> 0 \<or> s \<in> set demo_leaves),
     tl_key_sighash = (\<lambda>t ps i. Some (of_nat (length (tt_outputs t)))), tl_script_sighash = (\<lambda>t ps i l. Some (of_nat (length l))),
     tl_sign = (\<lambda>k m. ucast (k + m)), tl_verify = (\<lambda>k m s. s = ucast (k + m))\<rparr>"

definition demo_funding :: vault_utxo where
  "demo_funding = \<lparr>vu_txid = 9, vu_vout = 0, vu_value_sat = 5000\<rparr>"

definition demo_btc_channel :: btc_asc_channel where
  "demo_btc_channel = \<lparr>bc_script_tree = demo_tree, bc_funding = demo_funding,
     bc_taproot = \<lparr>at_address = P2tr 0, at_internal = 1, at_leaves = demo_leaves, at_force_close_script = force_close_script 2 10,
       at_adv_vault_script = adv_vault_recovery_script 3 4\<rparr>\<rparr>"

lemma demo_taproot_laws: "taproot_laws demo_taproot"
  by (auto simp: taproot_laws_def demo_taproot_def split: option.splits)

lemma demo_channel_new: "btc_channel_new demo_taproot demo_tree demo_funding = Reply demo_btc_channel"
  by (simp add: btc_channel_new_def asc_tree_build_def demo_tree_def demo_taproot_def demo_leaves_def demo_btc_channel_def Let_def)

lemma demo_only_leaves: "commits_only_leaves demo_taproot demo_btc_channel"
  by (simp add: commits_only_leaves_def demo_taproot_def demo_btc_channel_def)

definition demo_spend :: tap_tx where
  "demo_spend = \<lparr>tt_version = 2, tt_lock_time = 0, tt_inputs = [\<lparr>ti_txid = 9, ti_vout = 0, ti_sequence = ENABLE_RBF_NO_LOCKTIME,
     ti_witness = [WSig 0]\<rparr>], tt_outputs = []\<rparr>"



theorem p2tr_batch_valid_witness:
  "\<exists>tx. build_settlement_tx_p2tr demo_taproot 5 [\<lparr>co_script = P2tr 7, co_amount_sat = 1000\<rparr>] [demo_funding] (P2tr 8) 100
       \<lparr>bk_secret = 8, bk_public_xonly = 8\<rparr> = Reply tx \<and> spend_valid demo_taproot [\<lparr>to_value = 5000, to_script = P2tr 8\<rparr>] tx 0 0"
proof -
  let ?k = "\<lparr>bk_secret = 8, bk_public_xonly = 8\<rparr>"
  obtain tx where tx: "build_settlement_tx_p2tr demo_taproot 5 [\<lparr>co_script = P2tr 7, co_amount_sat = 1000\<rparr>] [demo_funding] (P2tr 8) 100 ?k = Reply tx"
    by (simp add: build_settlement_tx_p2tr_def checked_sum_def checked_add_def demo_funding_def Let_def demo_taproot_def)
  have "bk_public_xonly ?k = tl_xonly demo_taproot (bk_secret ?k)" by (simp add: demo_taproot_def)
  from p2tr_batch_valid [OF demo_taproot_laws this tx] tx show ?thesis by (auto simp: p2tr_address_def demo_taproot_def demo_funding_def)
qed

end
