(* ===== verification/Spec2Isabelle.thy ===== *)
theory Spec2Isabelle
  imports Asc_Properties Asc_Rollback Enclave_Chain Batch_Properties Chain_Adapter Snapshot_Store Verify_Properties
    Watchtower_Properties Batch_Fire_Properties Evm_Ledger Client_Lib Runtime_Attestation Raft_Store Btc_Spending
begin

text \<open>
  A402: a payment vault whose ledger lives in an enclave and whose funds live on a chain.

  \<^bold>\<open>The program.\<close> Clients deposit tokens into a vault account of the on-chain program
  (\<open>programs/a402_vault\<close>). The enclave (\<open>enclave\<close>) keeps the ledger: client balances, reservations
  for verified payments, credits of providers, pending withdrawals and atomic service channels.
  Its HTTP handlers check requests, change the ledger under a lock, write every change to an
  encrypted write-ahead log before they answer, and mirror signed receipts to a watchtower. A timer
  batches provider credits and settles them on chain, together with encrypted audit records.
  Snapshots shorten the replay at start-up. If the enclave disappears, a client or provider forces
  settlement on chain with its last signed receipt.

  On Ethereum a vault opens channels between a client and a service provider (\<open>service_provider\<close>).
  The provider pre-signs each new state under an adaptor secret and encrypts its result under that
  secret; the client pays by signing the state, the provider then reveals the secret. Clients use the
  routes of the vault or a library of their own (\<open>client\<close>).

  \<^bold>\<open>Theories and sources.\<close>

  \<^item> \<open>Prelude\<close>, \<open>Codec\<close>, \<open>Text_Format\<close>: machine integers with the checked, saturating and wrapping
    operations of Rust; concurrent maps as association lists (the locale \<open>dm\<close> collects their laws);
    little-endian and length-prefixed encodings; decimal texts, lines, JSON values and
    \<open>canonical_json\<close>.
  \<^item> \<open>Chain_Adapter\<close>, \<open>Enclave_State\<close>, \<open>Enclave_Ledger\<close>: \<open>chain_adapter.rs\<close>, \<open>error.rs\<close>, \<open>state.rs\<close>. An
    operation on the vault is a function from the state to an outcome (success, error, panic on
    overflow) and a state. \<open>Enclave_Ledger\<close> measures value and shows who gains and loses it.
  \<^item> \<open>Adaptor_Sig\<close>, \<open>Asc_Claim\<close>, \<open>Asc_Manager\<close>, \<open>Asc_Invariant\<close>, \<open>Asc_Correct\<close>, \<open>Asc_Properties\<close>,
    \<open>Asc_Rollback\<close>: \<open>adaptor_sig.rs\<close>, \<open>asc_claim.rs\<close>, \<open>asc_manager.rs\<close>. The channel state machine, its
    invariant over all reachable states, its refinement of an abstract channel machine, atomicity of
    the exchange, freedom from panics, rollback and replay of every call.
  \<^item> \<open>Batch\<close>, \<open>Batch_Properties\<close>, \<open>Enclave_Audit\<close>: \<open>batch.rs\<close>, \<open>audit.rs\<close>. Selection, privacy filters,
    chunking and aggregation of settlements; audit encryption.
  \<^item> \<open>Batch_Fire\<close>, \<open>Expiry_Loop\<close>, \<open>Batch_Fire_Properties\<close>, \<open>Multichain\<close>: the rest of \<open>batch.rs\<close> and
    \<open>multichain_settlement.rs\<close>. Submission and confirmation of batches on Solana, Ethereum and
    Bitcoin, one turn of the batch loop and of the expiry loop, recovery of claims from the chain;
    a paid settlement is never prepared again, unless the log write after its submission fails.
  \<^item> \<open>Balance_Sync\<close>, \<open>Balance_Sync_Properties\<close>: \<open>deposit_detector.rs\<close>. Reading deposits and withdrawals
    off the chain; deposits are credited once, the paging loop ends and misses nothing newer, and an
    expired withdrawal that the chain executed stops the synchronisation.
  \<^item> \<open>Watchtower\<close>, \<open>Watchtower_Properties\<close>: the crate \<open>watchtower\<close>. Its store of receipts and its
    challenges, composed with the on-chain program: a forced settlement with an old receipt is
    answered by a challenge that the program accepts.
  \<^item> \<open>Onchain_State\<close>, \<open>Ed25519_Utils\<close>, \<open>Batch_Pairing\<close>, \<open>Vault_Program\<close>, \<open>Vault_Safety\<close>,
    \<open>Vault_Properties\<close>: the on-chain program. Every instruction is a function of the accounts it
    names and of the chain; runs of instructions are a step relation with invariants.
  \<^item> \<open>Enclave_Chain\<close>: the bytes the enclave signs are the bytes the program reads.
  \<^item> \<open>Wal_Log\<close>, \<open>Wal_Replay\<close>, \<open>Snapshot\<close>, \<open>Snapshot_Store\<close>, \<open>Btc_Ledger\<close>: \<open>wal.rs\<close>, \<open>snapshot.rs\<close>,
    \<open>btc_ledger.rs\<close>. The log, what every entry does at start-up, snapshots and their recovery.
  \<^item> \<open>Handler_Core\<close>, \<open>Handler_Payment\<close>, \<open>Handler_Channel\<close>: \<open>handlers.rs\<close>. A handler runs on a node: the
    application state and streams of the answers that clock, id generator, disk, chain node and
    watchtower will give. The streams are arbitrary, so every theorem holds for every pattern of
    failures. The source takes a lock around the part that changes the ledger; \<open>verify_decide\<close> and
    \<open>verify_commit\<close> are the parts before and under the lock, and overlapping requests are sequences
    of such parts.
  \<^item> \<open>Crash_Logic\<close>, \<open>Handler_Crash\<close>, \<open>Handler_Safety\<close>: a program logic for crash consistency and its
    use on every payment handler. \<open>forget\<close> names what a restart recomputes: lock expiries, next
    nonces, the cached lifecycle and update times of channels.
  \<^item> \<open>Handler_Logic\<close>, \<open>Handler_Properties\<close>, \<open>Verify_Properties\<close>: a logic of pre- and postconditions
    on the vault, and what the handlers promise: settling pays once, a known payment id locks
    nothing, signed texts bind their fields; and three places where the code falls short.
  \<^item> \<open>Evm_Chain\<close>, \<open>Evm_Tx\<close>, \<open>Evm_Codec\<close>: \<open>evm_chain.rs\<close> and \<open>evm_tx.rs\<close> of \<open>shared\<close>. Addresses, state
    hashes, call data, RLP, EIP-1559 transactions and the client of the contract. Reference readers
    of RLP and of the contract's record show that the encodings say what they should.
  \<^item> \<open>Secp_Adaptor\<close>: \<open>adaptor_sig_secp.rs\<close>. Schnorr adaptor signatures over secp256k1 and the
    encryption of results; a pre-signature that verifies can be completed by its secret.
  \<^item> \<open>Evm_Vault\<close>, \<open>Evm_Client\<close>, \<open>Service_Provider\<close>, \<open>Client_Lib\<close>: \<open>evm_channel_store.rs\<close>,
    \<open>handlers_evm.rs\<close>, \<open>handlers_client.rs\<close> and the crates \<open>service_provider\<close> and \<open>client\<close>. Every route
    is a function of its request, of the answers of its peers and of the stores; an error keeps the
    store. The vault checks exactly what the client library checks, and its books.
  \<^item> \<open>Evm_Exchange\<close>, \<open>Evm_Properties\<close>, \<open>Evm_Ledger\<close>: the exchange between both sides. Calls of the
    provider overlap: preparing, parking, taking and finishing a request are separate steps of
    \<open>sp_step\<close>. The provider always holds the buyer's signature on what it earned, an honest exchange
    completes, the vault's books balance and a payment buys the result; and three places where the
    code falls short of this.

  \<^item> \<open>Provider_Attestation\<close>, \<open>Attestation_Properties\<close>: \<open>provider_attestation.rs\<close>, called by the registration
    of \<open>Handler_Payment\<close>. Both kinds of document and every check; what an accepted Nitro document
    proves, what the policy hash fixes, that registration cannot panic, and that a document without
    any signature is enough.
  \<^item> \<open>Attestation\<close>, \<open>Runtime_Attestation\<close>: \<open>attestation.rs\<close>. Platform, policy hash and documents of the
    enclave itself; its policy hash is the one the provider check computes.
  \<^item> \<open>Raft_Store\<close>: \<open>store.rs\<close> and \<open>types.rs\<close> of \<open>raft\<close>. Log, state machine and snapshots of a committee
    node; over all runs replicas hold prefixes of one sequence.
  \<^item> \<open>Btc_Taproot\<close>, \<open>Btc_Spending\<close>: \<open>btc_asc_script.rs\<close>, \<open>btc_asc_channel.rs\<close> and the Taproot part of
    \<open>btc_tx.rs\<close>. A reference semantics of the script instructions and of lock times shows who can
    spend a channel and when each closing transaction becomes valid.

  \<^bold>\<open>Parameters.\<close> SHA-256, HKDF, the Ed25519 and Ristretto groups, AES-GCM, JSON, base64, hexadecimal
  and base58, program-derived addresses and the token program are library code. They are arguments
  of the definitions; what the code relies on is a named hypothesis (\<open>curve_laws\<close>, \<open>dh_laws\<close>,
  \<open>wal_lib_laws\<close>, \<open>pda_laws\<close>, \<open>token_laws\<close>, \<open>base58_laws\<close>, \<open>signature_texts\<close>, \<open>history_node\<close>,
  and for Ethereum \<open>secp_laws\<close>, \<open>ecdsa_laws\<close>, \<open>hex_laws\<close>; for attestation
  \<open>attest_laws\<close>, \<open>json_scalar_laws\<close>, \<open>hex_lower\<close>; \<open>snapshot_lib_laws\<close>, \<open>taproot_laws\<close>), each shown satisfiable
  by a concrete instance that the witnesses use. Random numbers are arguments: the list of draws of
  a retry loop. openraft is the step relation \<open>replica_step\<close>, the Nitro security module a record.

  \<^bold>\<open>Bounds.\<close> Amounts are 64-bit words and times 64-bit signed words throughout; loops of the source
  run over finite lists and are structural recursions or recursions with a measure, so no fuel is
  needed. The paging loop of the deposit detector depends on the chain node and may run forever: it
  is a partial function whose result is \<open>None\<close> then, and \<open>catch_up_returns\<close> shows that it returns
  against a node with a finite history. Timers are modelled as the single turn they repeat.

  \<^bold>\<open>Not modelled.\<close> Sockets, TLS, KMS, process start-up and relays (\<open>parent\<close>, \<open>tls.rs\<close>,
  \<open>kms_bootstrap.rs\<close>, \<open>interconnect.rs\<close>, \<open>outbound.rs\<close>, \<open>main.rs\<close>) are input and output. The Bitcoin
  deposit detector, the signatures of the P2WPKH batch transaction and the start-up and transport of
  the committee (\<open>committee.rs\<close>, \<open>http_net.rs\<close>, \<open>network.rs\<close>) are not modelled.
\<close>

end
